(* ===== verification/Prelude.thy ===== *)
theory Prelude
  imports Complex_Main "HOL-Library.Char_ord" "HOL-Library.List_Lexorder"
begin

text \<open>
  The generic part of the library: facts about lists, filters and \<^term>\<open>find\<close> that the table
  and queue proofs of every component share, and the two collections the components add to.
  \<open>frame\<close> collects the facts that say what an operation leaves alone, \<open>py\<close> the unfolding
  rules of the Python values and string methods.
\<close>

named_theorems frame \<open>what an operation leaves unchanged\<close>
named_theorems py \<open>definitions of the Python primitives\<close>

subsection \<open>Lists\<close>

lemma find_SomeD: "find P xs = Some x \<Longrightarrow> x \<in> set xs \<and> P x"
  by (induction xs) (auto split: if_splits)

lemma find_NoneD: "find P xs = None \<Longrightarrow> x \<in> set xs \<Longrightarrow> \<not> P x"
  by (induction xs) (auto split: if_splits)

lemma find_map_iff:
  assumes "\<And>x. x \<in> set xs \<Longrightarrow> P (f x) = P x"
  shows "find P (map f xs) = map_option f (find P xs)"
  using assms by (induction xs) auto

lemma filter_map_iff:
  assumes "\<And>x. x \<in> set xs \<Longrightarrow> P (f x) = P x"
  shows "filter P (map f xs) = map f (filter P xs)"
  using assms by (induction xs) auto

lemma length_filter_mono:
  assumes "\<And>x. x \<in> set xs \<Longrightarrow> P x \<Longrightarrow> Q x"
  shows "length (filter P xs) \<le> length (filter Q xs)"
  using assms by (induction xs) auto

lemma length_filter_map_le:
  assumes "\<And>x. x \<in> set xs \<Longrightarrow> P (f x) \<Longrightarrow> P x"
  shows "length (filter P (map f xs)) \<le> length (filter P xs)"
  using assms by (induction xs) auto

lemma length_filter_unique_le_1:
  assumes "distinct (map k xs)"
  shows "length (filter (\<lambda>x. k x = a) xs) \<le> 1"
  using assms by (induction xs) (auto simp: filter_empty_conv rev_image_eqI)

text \<open>Changing only the rows with one key changes a count by at most one.\<close>

lemma length_filter_key_update:
  assumes "distinct (map k xs)"
  shows "length (filter P (map (\<lambda>x. if k x = a then f x else x) xs))
      \<le> Suc (length (filter P xs))"
  using assms
proof (induction xs)
  case Nil
  then show ?case by simp
next
  case (Cons x xs)
  show ?case
  proof (cases "k x = a")
    case True
    with Cons.prems have "map (\<lambda>x. if k x = a then f x else x) xs = xs"
      by (auto intro!: map_idI simp: rev_image_eqI)
    with True show ?thesis by simp
  next
    case False
    with Cons show ?thesis by simp
  qed
qed

lemma sorted_list_insort_set: "set (sort xs) = set xs"
  by simp

lemma take_last_in_set: "xs \<noteq> [] \<Longrightarrow> last xs \<in> set xs"
  by simp

end
