(* ===== verification/PyValue.thy ===== *)
theory PyValue
  imports Prelude
begin

text \<open>
  The values and the primitives of Python that the code uses. \<open>pyval\<close> is the type of decoded
  JSON (what \<open>json.loads\<close>, a \<open>jsonb\<close> column and a request body hold); a dict is an association
  list in insertion order with distinct keys. A float carries its value and its \<open>repr\<close> text:
  the value is an exact rational or one of the IEEE specials, so rounding is not modelled.
  Strings are ASCII text (\<^typ>\<open>string\<close>), and \<open>strip\<close>, \<open>lower\<close>, \<open>upper\<close> and \<open>int()\<close> are
  their ASCII restrictions. A raised exception is a value of \<open>pyerr\<close>.
\<close>

datatype pyfloat = Fin rat | PosInf | NegInf | NaN

datatype pyval =
    VNone
  | VBool bool
  | VInt int
  | VFloat pyfloat string
  | VStr string
  | VList "pyval list"
  | VDict "(string \<times> pyval) list"

datatype pyerr =
    KeyError string
  | TypeError
  | ValueError string
  | ZeroDivisionError
  | OverflowError
  | RuntimeError string
  | HTTPException int string

type_synonym 'a py = "pyerr + 'a"

abbreviation raise :: "pyerr \<Rightarrow> 'a py" where "raise \<equiv> Inl"
abbreviation ok :: "'a \<Rightarrow> 'a py" where "ok \<equiv> Inr"

definition pbind :: "'a py \<Rightarrow> ('a \<Rightarrow> 'b py) \<Rightarrow> 'b py" where
  "pbind m f = (case m of Inl e \<Rightarrow> Inl e | Inr x \<Rightarrow> f x)"

lemma pbind_simps [simp]: "pbind (Inl e) f = Inl e" "pbind (Inr x) f = f x"
  by (simp_all add: pbind_def)

lemma pbind_eq_Inr: "pbind m f = Inr y \<longleftrightarrow> (\<exists>x. m = Inr x \<and> f x = Inr y)"
  by (cases m) auto

definition is_ok :: "'a py \<Rightarrow> bool" where
  "is_ok m = (case m of Inl _ \<Rightarrow> False | Inr _ \<Rightarrow> True)"

lemma is_ok_simps [simp]: "\<not> is_ok (Inl e)" "is_ok (Inr x)"
  by (simp_all add: is_ok_def)

fun traverse :: "('a \<Rightarrow> 'b py) \<Rightarrow> 'a list \<Rightarrow> 'b list py" where
  "traverse f [] = ok []"
| "traverse f (x # xs) = pbind (f x) (\<lambda>y. pbind (traverse f xs) (\<lambda>ys. ok (y # ys)))"

subsection \<open>Truth value, dict access\<close>

fun truthy :: "pyval \<Rightarrow> bool" where
  "truthy VNone = False"
| "truthy (VBool b) = b"
| "truthy (VInt i) = (i \<noteq> 0)"
| "truthy (VFloat f r) = (f \<noteq> Fin 0)"
| "truthy (VStr s) = (s \<noteq> [])"
| "truthy (VList xs) = (xs \<noteq> [])"
| "truthy (VDict d) = (d \<noteq> [])"

definition por :: "pyval \<Rightarrow> pyval \<Rightarrow> pyval" where
  "por a b = (if truthy a then a else b)"

type_synonym pydict = "(string \<times> pyval) list"

text \<open>\<open>d.get(k)\<close>, \<open>d.get(k, default)\<close>, \<open>d[k] = v\<close>, \<open>d.setdefault(k, v)\<close>.\<close>

definition dget :: "pydict \<Rightarrow> string \<Rightarrow> pyval" where
  "dget d k = (case map_of d k of None \<Rightarrow> VNone | Some v \<Rightarrow> v)"

definition dget_or :: "pydict \<Rightarrow> string \<Rightarrow> pyval \<Rightarrow> pyval" where
  "dget_or d k dv = (case map_of d k of None \<Rightarrow> dv | Some v \<Rightarrow> v)"

fun dset :: "'k \<Rightarrow> 'v \<Rightarrow> ('k \<times> 'v) list \<Rightarrow> ('k \<times> 'v) list" where
  "dset k v [] = [(k, v)]"
| "dset k v ((k', v') # d) = (if k' = k then (k, v) # d else (k', v') # dset k v d)"

definition dsetdefault :: "'k \<Rightarrow> 'v \<Rightarrow> ('k \<times> 'v) list \<Rightarrow> ('k \<times> 'v) list" where
  "dsetdefault k v d = (if map_of d k = None then d @ [(k, v)] else d)"

definition dkeys :: "('k \<times> 'v) list \<Rightarrow> 'k list" where
  "dkeys d = map fst d"

definition as_dict :: "pyval \<Rightarrow> pydict option" where
  "as_dict v = (case v of VDict d \<Rightarrow> Some d | _ \<Rightarrow> None)"

definition as_list :: "pyval \<Rightarrow> pyval list option" where
  "as_list v = (case v of VList xs \<Rightarrow> Some xs | _ \<Rightarrow> None)"

text \<open>\<open>v if isinstance(v, dict) else {}\<close>.\<close>

definition dict_or_empty :: "pyval \<Rightarrow> pydict" where
  "dict_or_empty v = (case v of VDict d \<Rightarrow> d | _ \<Rightarrow> [])"

lemma map_of_dset [simp]: "map_of (dset k v d) = (map_of d)(k \<mapsto> v)"
  by (induction d) (auto simp: fun_eq_iff)

lemma dom_dset: "fst ` set (dset k v d) = insert k (fst ` set d)"
  by (simp flip: dom_map_of_conv_image_fst)

lemma distinct_dset: "distinct (map fst d) \<Longrightarrow> distinct (map fst (dset k v d))"
  by (induction d) (auto simp: dom_dset image_iff)

lemma distinct_dsetdefault: "distinct (map fst d) \<Longrightarrow> distinct (map fst (dsetdefault k v d))"
  by (auto simp: dsetdefault_def map_of_eq_None_iff)

lemma map_of_dsetdefault:
  "map_of (dsetdefault k v d) k' =
     (if k' = k \<and> map_of d k = None then Some v else map_of d k')"
  by (auto simp: dsetdefault_def map_add_def split: option.splits)

subsection \<open>Strings\<close>

definition is_ws :: "char \<Rightarrow> bool" where
  "is_ws c = ((of_char c :: nat) \<in> {9, 10, 11, 12, 13, 28, 29, 30, 31, 32})"

definition strip :: "string \<Rightarrow> string" where
  "strip s = rev (dropWhile is_ws (rev (dropWhile is_ws s)))"

definition lower_char :: "char \<Rightarrow> char" where
  "lower_char c = (let n = of_char c :: nat in if 65 \<le> n \<and> n \<le> 90 then char_of (n + 32) else c)"

definition upper_char :: "char \<Rightarrow> char" where
  "upper_char c = (let n = of_char c :: nat in if 97 \<le> n \<and> n \<le> 122 then char_of (n - 32) else c)"

definition lower :: "string \<Rightarrow> string" where "lower s = map lower_char s"
definition upper :: "string \<Rightarrow> string" where "upper s = map upper_char s"

definition startswith :: "string \<Rightarrow> string \<Rightarrow> bool" where
  "startswith s p = (take (length p) s = p)"

definition endswith :: "string \<Rightarrow> string \<Rightarrow> bool" where
  "endswith s p = (length p \<le> length s \<and> drop (length s - length p) s = p)"

fun contains :: "string \<Rightarrow> string \<Rightarrow> bool" where
  "contains p [] = (p = [])"
| "contains p (c # s) = (startswith (c # s) p \<or> contains p s)"

text \<open>\<open>s.split(c)\<close> with an explicit separator, \<open>s.split(c, 1)\<close> and \<open>s.split()\<close>.\<close>

fun split_on :: "char \<Rightarrow> string \<Rightarrow> string list" where
  "split_on c [] = [[]]"
| "split_on c (x # xs) =
     (if x = c then [] # split_on c xs
      else (case split_on c xs of [] \<Rightarrow> [[x]] | w # ws \<Rightarrow> (x # w) # ws))"

definition split_once :: "char \<Rightarrow> string \<Rightarrow> string list" where
  "split_once c s = (case dropWhile (\<lambda>x. x \<noteq> c) s of
     [] \<Rightarrow> [s] | _ # rest \<Rightarrow> [takeWhile (\<lambda>x. x \<noteq> c) s, rest])"

fun words_acc :: "string \<Rightarrow> string \<Rightarrow> string list" where
  "words_acc acc [] = (if acc = [] then [] else [rev acc])"
| "words_acc acc (c # s) =
     (if is_ws c then (if acc = [] then words_acc [] s else rev acc # words_acc [] s)
      else words_acc (c # acc) s)"

definition words :: "string \<Rightarrow> string list" where "words s = words_acc [] s"

fun join :: "string \<Rightarrow> string list \<Rightarrow> string" where
  "join sep [] = []"
| "join sep [x] = x"
| "join sep (x # y # xs) = x @ sep @ join sep (y # xs)"

lemma dropWhile_hd_not: "dropWhile P s \<noteq> [] \<Longrightarrow> \<not> P (hd (dropWhile P s))"
  by (rule hd_dropWhile)

lemma dropWhile_fix: "s = [] \<or> \<not> P (hd s) \<Longrightarrow> dropWhile P s = s"
  by (cases s) auto

lemma last_dropWhile: "dropWhile P s \<noteq> [] \<Longrightarrow> last (dropWhile P s) = last s"
  by (induction s) auto

lemma strip_idem [simp]: "strip (strip s) = strip s"
proof -
  let ?a = "dropWhile is_ws s"
  let ?b = "dropWhile is_ws (rev ?a)"
  have "dropWhile is_ws (rev ?b) = rev ?b"
  proof (rule dropWhile_fix)
    show "rev ?b = [] \<or> \<not> is_ws (hd (rev ?b))"
    proof (cases "?b = []")
      case False
      then have "?a \<noteq> []" using dropWhile.simps(1) rev.simps(1) by metis
      moreover from False have "last ?b = last (rev ?a)" by (rule last_dropWhile)
      ultimately have "hd (rev ?b) = hd ?a" by (simp add: hd_rev last_rev)
      with hd_dropWhile [OF \<open>?a \<noteq> []\<close>] show ?thesis by simp
    qed simp
  qed
  moreover have "dropWhile is_ws ?b = ?b"
    by (rule dropWhile_fix) (use hd_dropWhile in blast)
  ultimately show ?thesis
    by (simp add: strip_def)
qed

lemma length_lower [simp]: "length (lower s) = length s"
  by (simp add: lower_def)

lemma length_strip: "length (strip s) \<le> length s"
  by (simp add: strip_def) (metis le_trans length_dropWhile_le length_rev)

lemma lower_char_idem [simp]: "lower_char (lower_char c) = lower_char c"
proof -
  have "(of_char (char_of (n + 32) :: char) :: nat) = n + 32" if "n \<le> 90" for n
    using that by simp
  then show ?thesis
    by (auto simp: lower_char_def Let_def)
qed

lemma lower_idem [simp]: "lower (lower s) = lower s"
  by (simp add: lower_def)

lemma lower_Nil [simp]: "lower s = [] \<longleftrightarrow> s = []" "lower [] = []"
  by (simp_all add: lower_def)

text \<open>Case conversion keeps the white space, so it commutes with \<open>strip\<close>.\<close>

lemma is_ws_lower_char [simp]: "is_ws (lower_char c) = is_ws c"
proof (cases "65 \<le> (of_char c :: nat) \<and> (of_char c :: nat) \<le> 90")
  case True
  then show ?thesis by (simp add: is_ws_def lower_char_def Let_def)
next
  case False
  then show ?thesis by (simp only: lower_char_def Let_def if_False)
qed

lemma is_ws_upper_char [simp]: "is_ws (upper_char c) = is_ws c"
proof (cases "97 \<le> (of_char c :: nat) \<and> (of_char c :: nat) \<le> 122")
  case True
  then have "((of_char c :: nat) - 32) mod 256 = of_char c - 32"
    by (intro mod_less) linarith
  with True show ?thesis by (auto simp: is_ws_def upper_char_def Let_def)
next
  case False
  then show ?thesis by (simp only: upper_char_def Let_def if_False)
qed

lemma upper_char_idem [simp]: "upper_char (upper_char c) = upper_char c"
proof -
  have "(of_char (char_of (n - 32) :: char) :: nat) = n - 32" if "n \<le> 122" for n
    using that by simp
  then show ?thesis
    by (auto simp: upper_char_def Let_def)
qed

lemma upper_idem [simp]: "upper (upper s) = upper s"
  by (simp add: upper_def)

lemma strip_lower: "strip (lower s) = lower (strip s)"
  by (simp add: strip_def lower_def dropWhile_map rev_map comp_def)

lemma strip_upper: "strip (upper s) = upper (strip s)"
  by (simp add: strip_def upper_def dropWhile_map rev_map comp_def)

lemma strip_Nil [simp]: "strip [] = []"
  by (simp add: strip_def)

lemma upper_Nil [simp]: "upper [] = []" "upper s = [] \<longleftrightarrow> s = []"
  by (simp_all add: upper_def)

lemma startswith_append [simp]: "startswith (p @ s) p"
  by (simp add: startswith_def)

lemma startswith_iff: "startswith s p \<longleftrightarrow> (\<exists>t. s = p @ t)"
  unfolding startswith_def by (metis append_eq_conv_conj append_take_drop_id)

subsection \<open>Numbers and text\<close>

definition digit :: "nat \<Rightarrow> char" where "digit d = char_of (48 + d)"

fun nat_str :: "nat \<Rightarrow> string" where
  "nat_str n = (if n < 10 then [digit n] else nat_str (n div 10) @ [digit (n mod 10)])"

declare nat_str.simps [simp del]

definition int_str :: "int \<Rightarrow> string" where
  "int_str i = (if i < 0 then ''-'' @ nat_str (nat (- i)) else nat_str (nat i))"

definition is_digit :: "char \<Rightarrow> bool" where
  "is_digit c = (let n = of_char c :: nat in 48 \<le> n \<and> n \<le> 57)"

definition digit_val :: "char \<Rightarrow> int" where
  "digit_val c = int (of_char c) - 48"

text \<open>
  \<open>int(s)\<close>: surrounding white space, one sign, then digits with single underscores between
  them. \<open>prev\<close> says that the character before was a digit.
\<close>

fun int_digits :: "bool \<Rightarrow> int \<Rightarrow> string \<Rightarrow> int option" where
  "int_digits prev acc [] = (if prev then Some acc else None)"
| "int_digits prev acc (c # s) =
     (if is_digit c then int_digits True (10 * acc + digit_val c) s
      else if c = CHR ''_'' \<and> prev \<and> s \<noteq> [] then int_digits False acc s
      else None)"

definition parse_int :: "string \<Rightarrow> int option" where
  "parse_int s0 = (let s = strip s0 in
     case s of [] \<Rightarrow> None
     | c # t \<Rightarrow> if c = CHR ''-'' then map_option uminus (int_digits False 0 t)
               else if c = CHR ''+'' then int_digits False 0 t
               else int_digits False 0 s)"

text \<open>\<open>int(v)\<close> of any value: floats are truncated towards zero, NaN and the infinities raise.\<close>

definition trunc_rat :: "rat \<Rightarrow> int" where
  "trunc_rat q = (if q < 0 then - \<lfloor>- q\<rfloor> else \<lfloor>q\<rfloor>)"

fun py_int :: "pyval \<Rightarrow> int py" where
  "py_int (VInt i) = ok i"
| "py_int (VBool b) = ok (if b then 1 else 0)"
| "py_int (VFloat (Fin q) r) = ok (trunc_rat q)"
| "py_int (VFloat NaN r) = raise (ValueError ''cannot convert float NaN to integer'')"
| "py_int (VFloat f r) = raise OverflowError"
| "py_int (VStr s) = (case parse_int s of Some i \<Rightarrow> ok i
     | None \<Rightarrow> raise (ValueError ''invalid literal for int()''))"
| "py_int v = raise TypeError"

text \<open>
  \<open>float(v)\<close>: of text, a sign, then \<open>inf\<close>, \<open>infinity\<close>, \<open>nan\<close> or a decimal literal with an optional
  exponent; a magnitude that rounds past the largest double is infinite.
\<close>

fun scan_digits :: "int \<Rightarrow> nat \<Rightarrow> string \<Rightarrow> int \<times> nat \<times> string" where
  "scan_digits acc n [] = (acc, n, [])"
| "scan_digits acc n (c # s) =
     (if is_digit c then scan_digits (10 * acc + digit_val c) (Suc n) s
      else if c = CHR ''_'' \<and> 0 < n \<and> s \<noteq> [] \<and> is_digit (hd s) then scan_digits acc n s
      else (acc, n, c # s))"

definition pow10 :: "int \<Rightarrow> rat" where
  "pow10 e = (if 0 \<le> e then 10 ^ nat e else 1 / 10 ^ nat (- e))"

definition max_double :: rat where
  "max_double = 2 ^ 1024 - 2 ^ 970"

definition parse_exponent :: "string \<Rightarrow> int option" where
  "parse_exponent s = (case s of [] \<Rightarrow> Some 0
     | c # t \<Rightarrow>
        if c = CHR ''e'' then
          (case t of [] \<Rightarrow> None
           | d # u \<Rightarrow>
              (case scan_digits 0 0 (if d = CHR ''-'' \<or> d = CHR ''+'' then u else t) of (e, n, rest) \<Rightarrow>
                 if 0 < n \<and> rest = [] then Some (if d = CHR ''-'' then - e else e) else None))
        else None)"

definition parse_unsigned_float :: "string \<Rightarrow> pyfloat option" where
  "parse_unsigned_float s =
     (if s = ''inf'' \<or> s = ''infinity'' then Some PosInf
      else if s = ''nan'' then Some NaN
      else (case scan_digits 0 0 s of (ip, ni, r1) \<Rightarrow>
        (case (case r1 of c # t \<Rightarrow> if c = CHR ''.'' then scan_digits ip 0 t else (ip, 0, r1)
               | [] \<Rightarrow> (ip, 0, [])) of (m, nf, r2) \<Rightarrow>
          if ni + nf = 0 then None
          else (case parse_exponent r2 of None \<Rightarrow> None
            | Some e \<Rightarrow> (let q = of_int m * pow10 (e - int nf)
                in Some (if q \<ge> max_double then PosInf else Fin q))))))"

definition fneg :: "pyfloat \<Rightarrow> pyfloat" where
  "fneg f = (case f of Fin q \<Rightarrow> Fin (- q) | PosInf \<Rightarrow> NegInf | NegInf \<Rightarrow> PosInf | NaN \<Rightarrow> NaN)"

definition parse_float :: "string \<Rightarrow> pyfloat option" where
  "parse_float s0 = (let s = lower (strip s0) in
     case s of [] \<Rightarrow> None
     | c # t \<Rightarrow> if c = CHR ''-'' then map_option fneg (parse_unsigned_float t)
               else if c = CHR ''+'' then parse_unsigned_float t
               else parse_unsigned_float s)"

fun py_float :: "pyval \<Rightarrow> pyfloat py" where
  "py_float (VInt i) = (if \<bar>of_int i\<bar> \<ge> max_double then raise OverflowError else ok (Fin (of_int i)))"
| "py_float (VBool b) = ok (Fin (if b then 1 else 0))"
| "py_float (VFloat f r) = ok f"
| "py_float (VStr s) = (case parse_float s of Some f \<Rightarrow> ok f
     | None \<Rightarrow> raise (ValueError ''could not convert string to float''))"
| "py_float v = raise TypeError"

text \<open>Comparison and arithmetic, exact on numbers.\<close>

definition fgt :: "pyfloat \<Rightarrow> pyfloat \<Rightarrow> bool" where
  "fgt a b = (case (a, b) of
     (NaN, _) \<Rightarrow> False | (_, NaN) \<Rightarrow> False
   | (Fin p, Fin q) \<Rightarrow> q < p
   | (PosInf, PosInf) \<Rightarrow> False | (PosInf, _) \<Rightarrow> True
   | (_, NegInf) \<Rightarrow> a \<noteq> NegInf | _ \<Rightarrow> False)"

definition fadd :: "pyfloat \<Rightarrow> pyfloat \<Rightarrow> pyfloat" where
  "fadd a b = (case (a, b) of
     (NaN, _) \<Rightarrow> NaN | (_, NaN) \<Rightarrow> NaN
   | (Fin p, Fin q) \<Rightarrow> Fin (p + q)
   | (PosInf, NegInf) \<Rightarrow> NaN | (NegInf, PosInf) \<Rightarrow> NaN
   | (PosInf, _) \<Rightarrow> PosInf | (_, PosInf) \<Rightarrow> PosInf | _ \<Rightarrow> NegInf)"

text \<open>A non-negative count times a float.\<close>

definition fscale :: "int \<Rightarrow> pyfloat \<Rightarrow> pyfloat" where
  "fscale n f = (case f of Fin q \<Rightarrow> Fin (of_int n * q) | NaN \<Rightarrow> NaN
     | _ \<Rightarrow> if n = 0 then NaN else f)"

text \<open>\<open>max(0.0, f)\<close>\<close>

definition fpos :: "pyfloat \<Rightarrow> pyfloat" where
  "fpos f = (if fgt f (Fin 0) then f else Fin 0)"

text \<open>
  \<open>repr\<close> and \<open>str\<close>. A string is quoted with \<open>'\<close>, or with \<open>"\<close> when it holds \<open>'\<close> and no
  \<open>"\<close>; the control characters are escaped.
\<close>

definition quote1 :: char where "quote1 = char_of (39 :: nat)"
definition quote2 :: char where "quote2 = char_of (34 :: nat)"
definition backslash :: char where "backslash = char_of (92 :: nat)"

definition hex_digit :: "nat \<Rightarrow> char" where
  "hex_digit d = (if d < 10 then char_of (48 + d) else char_of (87 + d))"

definition escape_char :: "char \<Rightarrow> char \<Rightarrow> string" where
  "escape_char q c = (let n = of_char c :: nat in
     if c = backslash then [backslash, backslash]
     else if c = q then [backslash, q]
     else if n = 9 then [backslash, CHR ''t'']
     else if n = 10 then [backslash, CHR ''n'']
     else if n = 13 then [backslash, CHR ''r'']
     else if n < 32 \<or> n = 127
     then [backslash, CHR ''x'', hex_digit (n div 16), hex_digit (n mod 16)]
     else [c])"

definition repr_str :: "string \<Rightarrow> string" where
  "repr_str s =
     (let q = (if quote1 \<in> set s \<and> quote2 \<notin> set s then quote2 else quote1)
      in q # concat (map (escape_char q) s) @ [q])"

fun py_repr :: "pyval \<Rightarrow> string" where
  "py_repr VNone = ''None''"
| "py_repr (VBool b) = (if b then ''True'' else ''False'')"
| "py_repr (VInt i) = int_str i"
| "py_repr (VFloat f r) = r"
| "py_repr (VStr s) = repr_str s"
| "py_repr (VList xs) = ''['' @ join '', '' (map py_repr xs) @ '']''"
| "py_repr (VDict d) =
     ''{'' @ join '', '' (map (\<lambda>(k, v). repr_str k @ '': '' @ py_repr v) d) @ ''}''"

definition py_str :: "pyval \<Rightarrow> string" where
  "py_str v = (case v of VStr s \<Rightarrow> s | _ \<Rightarrow> py_repr v)"

lemma py_str_VStr [simp]: "py_str (VStr s) = s"
  by (simp add: py_str_def)

text \<open>\<open>str(v or '')\<close>, the coercion the code applies to optional values.\<close>

definition str_or :: "pyval \<Rightarrow> string \<Rightarrow> string" where
  "str_or v d = py_str (por v (VStr d))"

lemma str_or_simps [simp]:
  "str_or VNone d = d" "str_or (VStr s) d = (if s = [] then d else s)"
  by (simp_all add: str_or_def por_def)

text \<open>\<open>str(s or d)\<close> for an optional string.\<close>

definition opt_or :: "string option \<Rightarrow> string \<Rightarrow> string" where
  "opt_or s d = (case s of None \<Rightarrow> d | Some x \<Rightarrow> if x = [] then d else x)"

lemma opt_or_simps [simp]: "opt_or None d = d" "opt_or (Some x) d = (if x = [] then d else x)"
  by (simp_all add: opt_or_def)

definition some_nonempty :: "string \<Rightarrow> string option" where
  "some_nonempty s = (if s = [] then None else Some s)"

lemmas [py] = por_def dget_def dget_or_def as_dict_def as_list_def dict_or_empty_def
  some_nonempty_def

end
