(* ===== verification/TaskPlan.thy ===== *)
theory TaskPlan
  imports PyValue
begin

text \<open>
  Model of the planning functions of \<^verbatim>\<open>scheduler/main.py\<close>: the lookup of a task in the
  configuration snapshot, the dependency plan built from it, and the replay filter, a breadth
  first search over the dependants of the task to replay from. A plan is an association list
  from task key to dependencies, in the insertion order of the dict; the set a search returns is
  the list of its elements in discovery order, without duplicates.
\<close>

type_synonym plan = "(string \<times> string list) list"

subsection \<open>Tasks of a configuration snapshot\<close>

text \<open>Iterating over a value: lists, the characters of a string, the keys of a dict.\<close>

definition py_iter :: "pyval \<Rightarrow> pyval list py" where
  "py_iter v = (case v of VList xs \<Rightarrow> ok xs
     | VStr s \<Rightarrow> ok (map (\<lambda>c. VStr [c]) s)
     | VDict d \<Rightarrow> ok (map (VStr \<circ> fst) d)
     | _ \<Rightarrow> raise TypeError)"

definition item_id :: "pydict \<Rightarrow> string" where
  "item_id item = strip (py_str (dget_or item ''id'' (VStr [])))"

text \<open>\<open>[str(x).strip() for x in xs if str(x).strip()]\<close>\<close>

definition strip_all :: "pyval list \<Rightarrow> string list" where
  "strip_all xs = filter (\<lambda>s. s \<noteq> []) (map (strip \<circ> py_str) xs)"

definition tasks_cfg :: "pyval \<Rightarrow> pyval list option" where
  "tasks_cfg config_snapshot =
     (case config_snapshot of VDict d \<Rightarrow> as_list (dget d ''tasks'') | _ \<Rightarrow> None)"

definition task_def_for_key :: "pyval \<Rightarrow> string \<Rightarrow> pydict option" where
  "task_def_for_key config_snapshot task_key =
     (case tasks_cfg config_snapshot of None \<Rightarrow> None
      | Some items \<Rightarrow>
          find (\<lambda>item. item_id item = task_key) (List.map_filter as_dict items))"

text \<open>An empty dict is falsy, so \<open>if not item\<close> treats it as absent.\<close>

definition plugin_for_task_key :: "pyval \<Rightarrow> string \<Rightarrow> string option" where
  "plugin_for_task_key config_snapshot task_key =
     (case task_def_for_key config_snapshot task_key of None \<Rightarrow> None
      | Some item \<Rightarrow> if item = [] then None else
          (case dget item ''plugin'' of
             VStr p \<Rightarrow> if strip p = [] then None else Some (strip p)
           | _ \<Rightarrow> None))"

definition required_artifacts_for_task :: "pyval \<Rightarrow> string \<Rightarrow> string list py" where
  "required_artifacts_for_task config_snapshot task_key =
     (case task_def_for_key config_snapshot task_key of None \<Rightarrow> ok []
      | Some item \<Rightarrow>
          pbind (py_iter (por (dget item ''required_artifacts'') (VList [])))
            (\<lambda>req. ok (strip_all req)))"

subsection \<open>The plan\<close>

fun plan_of_tasks :: "pyval list \<Rightarrow> plan \<Rightarrow> plan py" where
  "plan_of_tasks [] out = ok out"
| "plan_of_tasks (item # items) out =
     (case item of VDict d \<Rightarrow>
        (let key = item_id d in
         if key = [] then plan_of_tasks items out
         else pbind (py_iter (por (dget d ''depends_on'') (VList [])))
                (\<lambda>deps. plan_of_tasks items (dset key (strip_all deps) out)))
      | _ \<Rightarrow> plan_of_tasks items out)"

fun plan_of_steps :: "pyval list \<Rightarrow> string option \<Rightarrow> plan \<Rightarrow> plan" where
  "plan_of_steps [] prev out = out"
| "plan_of_steps (raw # steps) prev out =
     (let key = strip (py_str raw) in
      if key = [] then plan_of_steps steps prev out
      else plan_of_steps steps (Some key)
             (dset key (case prev of None \<Rightarrow> [] | Some p \<Rightarrow> [p]) out))"

definition default_plan :: plan where
  "default_plan = [(''task:1'', [])]"

definition build_task_plan :: "pyval \<Rightarrow> plan py" where
  "build_task_plan config_snapshot =
     (case config_snapshot of VDict d \<Rightarrow>
        (let from_steps =
           (let out = (case dget d ''steps'' of VList steps \<Rightarrow> plan_of_steps steps None [] | _ \<Rightarrow> [])
            in if out = [] then ok default_plan else ok out)
         in case dget d ''tasks'' of VList items \<Rightarrow>
              pbind (plan_of_tasks items []) (\<lambda>out. if out = [] then from_steps else ok out)
            | _ \<Rightarrow> from_steps)
      | _ \<Rightarrow> ok default_plan)"

subsection \<open>Task keys\<close>

definition full_id :: "string \<Rightarrow> string \<Rightarrow> string" where
  "full_id run_id key = run_id @ '':'' @ key"

definition task_key :: "string \<Rightarrow> string \<Rightarrow> string" where
  "task_key run_id task_id =
     (let prefix = run_id @ '':'' in
      if startswith task_id prefix then drop (length prefix) task_id else task_id)"

lemma task_key_full_id [simp]: "task_key run_id (full_id run_id key) = key"
  by (simp add: task_key_def full_id_def startswith_def)

lemma full_id_inject [simp]: "full_id r k = full_id r k' \<longleftrightarrow> k = k'"
  by (simp add: full_id_def)

lemma full_id_task_key:
  "startswith tid (r @ '':'') \<Longrightarrow> full_id r (task_key r tid) = tid"
  by (auto simp: task_key_def full_id_def startswith_iff)

subsection \<open>The replay filter\<close>

definition deps_of :: "plan \<Rightarrow> string \<Rightarrow> string list" where
  "deps_of plan key = (case map_of plan key of None \<Rightarrow> [] | Some ds \<Rightarrow> ds)"

definition children :: "plan \<Rightarrow> string \<Rightarrow> string list" where
  "children plan cur =
     concat (map (\<lambda>(node, deps). map (\<lambda>_. node) (filter (\<lambda>dep. dep = cur) deps)) plan)"

fun visit :: "string list \<Rightarrow> string list \<Rightarrow> string list \<Rightarrow> string list \<times> string list" where
  "visit [] selected q = (selected, q)"
| "visit (nxt # rest) selected q =
     (if nxt \<in> set selected then visit rest selected q
      else visit rest (selected @ [nxt]) (q @ [nxt]))"

lemma set_children: "n \<in> set (children plan cur) \<longleftrightarrow> (\<exists>deps. (n, deps) \<in> set plan \<and> cur \<in> set deps)"
  by (force simp: children_def)

lemma children_keys: "set (children plan cur) \<subseteq> set (dkeys plan)"
  by (auto simp: set_children dkeys_def rev_image_eqI)

text \<open>One visit adds the unseen neighbours, each once, to the result and to the queue.\<close>

lemma visit_adds:
  "\<exists>new. visit ns sel q = (sel @ new, q @ new) \<and> distinct new \<and> set new = set ns - set sel"
proof (induction ns arbitrary: sel q)
  case Nil
  then show ?case by simp
next
  case (Cons n ns)
  show ?case
  proof (cases "n \<in> set sel")
    case True
    with Cons.IH [of sel q] show ?thesis by auto
  next
    case False
    obtain new where "visit ns (sel @ [n]) (q @ [n]) = (sel @ [n] @ new, q @ [n] @ new)"
      "distinct new" "set new = set ns - set (sel @ [n])"
      using Cons.IH [of "sel @ [n]" "q @ [n]"] by auto
    with False show ?thesis by (intro exI [of _ "n # new"]) auto
  qed
qed

function bfs :: "plan \<Rightarrow> string list \<Rightarrow> string list \<Rightarrow> string list" where
  "bfs plan selected [] = selected"
| "bfs plan selected (cur # q) =
     (case visit (children plan cur) selected q of (selected', q') \<Rightarrow> bfs plan selected' q')"
  by pat_completeness auto

termination
proof (relation "measure (\<lambda>(plan, sel, q). card (set (dkeys plan) - set sel) + length q)")
  fix plan :: plan and sel cur q sel' q'
  assume "(sel', q') = visit (children plan cur) sel q"
  moreover obtain new where new: "visit (children plan cur) sel q = (sel @ new, q @ new)"
    "distinct new" "set new = set (children plan cur) - set sel"
    using visit_adds by blast
  ultimately have eq: "sel' = sel @ new" "q' = q @ new" by simp_all
  have sub: "set new \<subseteq> set (dkeys plan) - set sel"
    using new(3) children_keys by blast
  have "set (dkeys plan) - set sel' = (set (dkeys plan) - set sel) - set new"
    by (auto simp: eq)
  then have "card (set (dkeys plan) - set sel') = card (set (dkeys plan) - set sel) - length new"
    using card_Diff_subset [OF _ sub] new(2) by (simp add: distinct_card)
  moreover have "length new \<le> card (set (dkeys plan) - set sel)"
    using card_mono [OF _ sub] new(2) by (simp add: distinct_card)
  ultimately show "((plan, sel', q'), (plan, sel, cur # q))
      \<in> measure (\<lambda>(plan, sel, q). card (set (dkeys plan) - set sel) + length q)"
    by (simp add: eq)
qed simp

definition apply_replay_filter ::
    "plan \<Rightarrow> string option \<Rightarrow> string \<Rightarrow> string list \<times> string list" where
  "apply_replay_filter plan replay_from_task_id run_id =
     (let keys = dkeys plan in
      case opt_or replay_from_task_id [] of
        [] \<Rightarrow> (keys, [])
      | rf \<Rightarrow>
         (let start = task_key run_id rf in
          if start \<notin> set keys then (keys, [])
          else (let selected = bfs plan [start] [start]
                in (selected, filter (\<lambda>k. k \<notin> set selected) keys))))"

text \<open>\<open>depends plan\<close>: the pairs of a task and a task that depends on it directly.\<close>

definition depends :: "plan \<Rightarrow> (string \<times> string) set" where
  "depends plan = {(d, n). \<exists>deps. (n, deps) \<in> set plan \<and> d \<in> set deps}"

lemma children_depends: "n \<in> set (children plan cur) \<longleftrightarrow> (cur, n) \<in> depends plan"
  by (simp add: set_children depends_def)

text \<open>
  The invariant of the search: everything selected is reachable, and what is reachable from a
  selected task that is no longer in the queue has been selected as well.
\<close>

definition bfs_inv :: "plan \<Rightarrow> string \<Rightarrow> string list \<Rightarrow> string list \<Rightarrow> bool" where
  "bfs_inv plan start sel q \<longleftrightarrow>
     start \<in> set sel \<and> set q \<subseteq> set sel \<and> distinct sel \<and>
     set sel \<subseteq> (depends plan)\<^sup>* `` {start} \<and>
     (\<forall>a \<in> set sel - set q. depends plan `` {a} \<subseteq> set sel)"

lemma bfs_inv_step:
  assumes inv: "bfs_inv plan start sel (cur # q)"
    and v: "visit (children plan cur) sel q = (sel', q')"
  shows "bfs_inv plan start sel' q'"
proof -
  obtain new where new: "sel' = sel @ new" "q' = q @ new" "distinct new"
    "set new = set (children plan cur) - set sel"
    using visit_adds [of "children plan cur" sel q] v by auto
  have "set new \<subseteq> (depends plan)\<^sup>* `` {start}"
    using inv new(4) children_depends [of _ plan cur]
    by (auto simp: bfs_inv_def intro: rtrancl_into_rtrancl)
  moreover have "depends plan `` {a} \<subseteq> set sel'" if "a \<in> set sel' - set q'" for a
  proof (cases "a = cur")
    case True
    then show ?thesis using new(1,4) children_depends [of _ plan cur] by auto
  next
    case False
    with that inv new show ?thesis by (auto simp: bfs_inv_def)
  qed
  ultimately show ?thesis
    using inv new by (auto simp: bfs_inv_def)
qed

lemma bfs_final:
  "bfs_inv plan start sel q \<Longrightarrow> bfs_inv plan start (bfs plan sel q) []"
  by (induction plan sel q rule: bfs.induct) (auto split: prod.splits dest: bfs_inv_step)

declare bfs.simps [simp del]

lemma bfs_reachable:
  "set (bfs plan [start] [start]) = (depends plan)\<^sup>* `` {start} \<and> distinct (bfs plan [start] [start])"
proof -
  have inv: "bfs_inv plan start (bfs plan [start] [start]) []"
    by (rule bfs_final) (simp add: bfs_inv_def)
  have "x \<in> set (bfs plan [start] [start])" if "(start, x) \<in> (depends plan)\<^sup>*" for x
    using that by (induction rule: rtrancl_induct) (use inv in \<open>auto simp: bfs_inv_def\<close>)
  with inv show ?thesis by (auto simp: bfs_inv_def)
qed

text \<open>
  Replaying from a task selects that task and everything that depends on it, directly or
  through other tasks, and skips the rest of the plan; every task is on exactly one side.
\<close>

theorem replay_selects_descendants:
  assumes "task_key run_id tid \<in> set (dkeys plan)" and "tid \<noteq> []"
  shows "set (fst (apply_replay_filter plan (Some tid) run_id)) =
           (depends plan)\<^sup>* `` {task_key run_id tid} \<and>
         set (snd (apply_replay_filter plan (Some tid) run_id)) =
           set (dkeys plan) - (depends plan)\<^sup>* `` {task_key run_id tid}"
proof -
  obtain c cs where "tid = c # cs" using assms(2) by (cases tid) auto
  with assms bfs_reachable [of plan "task_key run_id tid"] show ?thesis
    by (auto simp: apply_replay_filter_def Let_def)
qed

lemma apply_replay_filter_partition:
  assumes "apply_replay_filter plan rf run_id = (selected, skipped)"
  shows "set skipped = set (dkeys plan) - set selected \<or> skipped = []"
    and "distinct (dkeys plan) \<Longrightarrow> distinct selected"
  using assms bfs_reachable [of plan]
  by (auto simp: apply_replay_filter_def Let_def split: list.splits if_splits)

theorem replay_selects_descendants_witness:
  "set (fst (apply_replay_filter
       [(''a'', []), (''b'', [''a'']), (''c'', [''b'']), (''d'', [''a''])] (Some ''r:b'') ''r''))
   = (depends [(''a'', []), (''b'', [''a'']), (''c'', [''b'']), (''d'', [''a''])])\<^sup>* `` {''b''}
   \<and> apply_replay_filter
       [(''a'', []), (''b'', [''a'']), (''c'', [''b'']), (''d'', [''a''])] (Some ''r:b'') ''r''
   = ([''b'', ''c''], [''a'', ''d''])"
proof -
  have k: "task_key ''r'' ''r:b'' = ''b''" by code_simp
  have "task_key ''r'' ''r:b''
      \<in> set (dkeys [(''a'', []), (''b'', [''a'']), (''c'', [''b'']), (''d'', [''a''])])"
    by (simp add: k dkeys_def)
  note sel = conjunct1 [OF replay_selects_descendants [OF this]]
  have "apply_replay_filter
       [(''a'', []), (''b'', [''a'']), (''c'', [''b'']), (''d'', [''a''])] (Some ''r:b'') ''r''
     = ([''b'', ''c''], [''a'', ''d''])"
    by code_simp
  with sel show ?thesis by (simp add: k)
qed

end
