(* ===== verification/Aggregates.thy ===== *)
theory Aggregates
  imports PyValue
begin

text \<open>
  Model of the aggregates of the domain layer: \<^verbatim>\<open>shared/events/aggregate_root.py\<close>,
  \<^verbatim>\<open>orchestration/run_aggregate.py\<close>, \<^verbatim>\<open>orchestration/pipeline_aggregate.py\<close>,
  \<^verbatim>\<open>orchestration/run_domain_events.py\<close>, \<^verbatim>\<open>governance/model_version_aggregate.py\<close>,
  \<^verbatim>\<open>lifecycle/dataset_aggregate.py\<close> and \<^verbatim>\<open>lifecycle/readiness_aggregate.py\<close>. The class
  \<open>AggregateRoot\<close> is a record with one field, the collected events; each aggregate extends it, as
  the classes inherit. The lemmas show what each method emits, that the events of a run and of a
  model version form a chain of statuses, and that pulling the events empties the collection.
\<close>

subsection \<open>Domain events\<close>

datatype event =
    RunCreated (re_run: string) (re_pipeline: string) (re_status: string)
  | RunStarted (re_run: string) (re_pipeline: string) (re_from: string) (re_to: string)
  | RunCompleted (re_run: string) (re_pipeline: string) (re_from: string) (re_to: string)
  | RunFailed (re_run: string) (re_pipeline: string) (re_from: string) (re_to: string)
      (re_reason: "string option")
  | RunCancelled (re_run: string) (re_pipeline: string) (re_from: string) (re_to: string)
  | ModelVersionCreated (me_model: string) (me_version_id: string) (me_version: int)
      (me_stage: string)
  | ModelVersionApproved (me_model: string) (me_version_id: string) (me_version: int)
      (me_reason: "string option")
  | ModelVersionRejected (me_model: string) (me_version_id: string) (me_version: int)
      (me_reason: "string option")
  | is_ModelVersionPromoted: ModelVersionPromoted (me_model: string) (me_version_id: string) (me_version: int)
      (me_from: string) (me_to: string) (me_approval: "string option")
  | is_ModelVersionRollback: ModelVersionRollback (me_model: string) (me_version_id: string) (me_version: int)
      (me_from: string) (me_to: string) (me_approval: "string option")
  | ModelVersionDeleted (me_model: string) (me_version_id: string) (me_version: int)
  | DatasetCreated (de_dataset: string) (de_name: string)
  | is_DatasetDeleted: DatasetDeleted (de_dataset: string)
  | PipelineVersionCreated (pe_pipeline: string) (pe_version_id: string) (pe_version: int)
  | ReadinessEvaluated (ev_id: string) (ev_dataset: string) (ev_version: "string option")
      (ev_policy: "string option") (ev_status: string) (ev_source: string)
      (ev_required: int) (ev_current: int) (ev_reasons: "pyval list")

subsection \<open>The base class\<close>

record agg_root =
  agg_events :: "event list"

definition emit :: "event \<Rightarrow> 'z agg_root_scheme \<Rightarrow> 'z agg_root_scheme" where
  "emit e a = a\<lparr>agg_events := agg_events a @ [e]\<rparr>"

definition pull_events :: "'z agg_root_scheme \<Rightarrow> event list \<times> 'z agg_root_scheme" where
  "pull_events a = (agg_events a, a\<lparr>agg_events := []\<rparr>)"

text \<open>
  The contract of an aggregate, as its callers rely on it: \<open>emit\<close> appends, \<open>pull\<close> hands out
  what was collected and leaves nothing.
\<close>

locale event_source =
  fixes collected :: "'a \<Rightarrow> 'e list"
    and push :: "'e \<Rightarrow> 'a \<Rightarrow> 'a"
    and pull :: "'a \<Rightarrow> 'e list \<times> 'a"
  assumes collected_push: "collected (push e a) = collected a @ [e]"
    and fst_pull: "fst (pull a) = collected a"
    and collected_pull: "collected (snd (pull a)) = []"
begin

lemma collected_fold: "collected (fold push es a) = collected a @ es"
  by (induction es arbitrary: a) (simp_all add: collected_push)

text \<open>What two pulls with emissions between them hand out is what was emitted, once.\<close>

lemma pull_twice:
  "fst (pull (fold push es (snd (pull (fold push ds a))))) = es"
  by (simp add: fst_pull collected_fold collected_pull)

lemma pull_all: "fst (pull (fold push es a)) = collected a @ es"
  by (simp add: fst_pull collected_fold)

end

interpretation agg: event_source agg_events emit pull_events
  by unfold_locales (simp_all add: emit_def pull_events_def)

subsection \<open>Run\<close>

record run_agg = agg_root +
  ra_run :: string
  ra_pipeline :: string
  ra_status :: string

definition norm_status :: "string \<Rightarrow> string" where
  "norm_status s = upper (strip s)"

definition run_init :: "string \<Rightarrow> string \<Rightarrow> string \<Rightarrow> run_agg" where
  "run_init rid pid st =
     \<lparr>agg_events = [], ra_run = rid, ra_pipeline = pid,
      ra_status = (let s = norm_status st in if s = [] then ''PENDING'' else s)\<rparr>"

definition prior_status :: "string option \<Rightarrow> run_agg \<Rightarrow> string \<Rightarrow> string" where
  "prior_status from_status a dflt =
     norm_status (opt_or from_status (if ra_status a = [] then dflt else ra_status a))"

definition run_mark_created :: "run_agg \<Rightarrow> run_agg" where
  "run_mark_created a =
     (let a = a\<lparr>ra_status := ''PENDING''\<rparr>
      in emit (RunCreated (ra_run a) (ra_pipeline a) ''PENDING'') a)"

definition run_start :: "string option \<Rightarrow> run_agg \<Rightarrow> run_agg" where
  "run_start from_status a =
     (let prior = prior_status from_status a ''PENDING'';
          a = a\<lparr>ra_status := ''RUNNING''\<rparr>
      in emit (RunStarted (ra_run a) (ra_pipeline a) prior ''RUNNING'') a)"

definition run_complete :: "string option \<Rightarrow> run_agg \<Rightarrow> run_agg" where
  "run_complete from_status a =
     (let prior = prior_status from_status a ''RUNNING'';
          a = a\<lparr>ra_status := ''SUCCESS''\<rparr>
      in emit (RunCompleted (ra_run a) (ra_pipeline a) prior ''SUCCESS'') a)"

definition run_fail :: "string option \<Rightarrow> string option \<Rightarrow> run_agg \<Rightarrow> run_agg" where
  "run_fail from_status reason a =
     (let prior = prior_status from_status a ''RUNNING'';
          a = a\<lparr>ra_status := ''FAILED''\<rparr>
      in emit (RunFailed (ra_run a) (ra_pipeline a) prior ''FAILED'' reason) a)"

definition run_cancel :: "string option \<Rightarrow> run_agg \<Rightarrow> run_agg" where
  "run_cancel from_status a =
     (let prior = prior_status from_status a ''RUNNING'';
          a = a\<lparr>ra_status := ''CANCELLED''\<rparr>
      in emit (RunCancelled (ra_run a) (ra_pipeline a) prior ''CANCELLED'') a)"

definition transition_target :: "string \<Rightarrow> string" where
  "transition_target to_status =
     (let t = norm_status to_status in if t = ''CANCELED'' then ''CANCELLED'' else t)"

definition apply_status_transition ::
    "string \<Rightarrow> string option \<Rightarrow> string option \<Rightarrow> run_agg \<Rightarrow> run_agg" where
  "apply_status_transition to_status from_status reason a =
     (let target = transition_target to_status in
      if target = ''RUNNING'' then run_start from_status a
      else if target = ''SUCCESS'' then run_complete from_status a
      else if target = ''FAILED'' then run_fail from_status reason a
      else if target = ''CANCELLED'' then run_cancel from_status a
      else a)"

text \<open>\<open>publish_run_lifecycle_events\<close> up to the bus: the events it hands to \<open>publish_all\<close>.\<close>

definition run_lifecycle_events ::
    "string \<Rightarrow> string \<Rightarrow> string \<Rightarrow> string option \<Rightarrow> string option \<Rightarrow> bool \<Rightarrow> event list" where
  "run_lifecycle_events run_id pipeline_id status from_status reason created =
     (let a = run_init run_id pipeline_id
                (opt_or from_status (if status = [] then ''PENDING'' else status));
          a = (if created then run_mark_created a
               else apply_status_transition status from_status reason a)
      in fst (pull_events a))"

subsection \<open>Model version\<close>

record mv_agg = agg_root +
  ma_model :: string
  ma_version_id :: string
  ma_version :: int
  ma_stage :: string
  ma_approval :: "string option"
  ma_deleted :: bool

definition mv_init :: "string \<Rightarrow> string \<Rightarrow> int \<Rightarrow> string \<Rightarrow> string option \<Rightarrow> mv_agg" where
  "mv_init m vid v st appr =
     \<lparr>agg_events = [], ma_model = m, ma_version_id = vid, ma_version = v, ma_stage = st,
      ma_approval = appr, ma_deleted = False\<rparr>"

definition mv_mark_created :: "mv_agg \<Rightarrow> mv_agg" where
  "mv_mark_created a =
     emit (ModelVersionCreated (ma_model a) (ma_version_id a) (ma_version a) (ma_stage a)) a"

definition mv_approve :: "string option \<Rightarrow> mv_agg \<Rightarrow> mv_agg" where
  "mv_approve reason a =
     (let a = a\<lparr>ma_approval := Some ''approved''\<rparr>
      in emit (ModelVersionApproved (ma_model a) (ma_version_id a) (ma_version a) reason) a)"

definition mv_reject :: "string option \<Rightarrow> mv_agg \<Rightarrow> mv_agg" where
  "mv_reject reason a =
     (let a = a\<lparr>ma_approval := Some ''rejected''\<rparr>
      in emit (ModelVersionRejected (ma_model a) (ma_version_id a) (ma_version a) reason) a)"

definition mv_promote :: "string \<Rightarrow> mv_agg \<Rightarrow> mv_agg" where
  "mv_promote to_stage a =
     (let from_stage = ma_stage a; a = a\<lparr>ma_stage := to_stage\<rparr>
      in emit (ModelVersionPromoted (ma_model a) (ma_version_id a) (ma_version a)
                 from_stage to_stage (ma_approval a)) a)"

definition mv_rollback :: "string \<Rightarrow> mv_agg \<Rightarrow> mv_agg" where
  "mv_rollback to_stage a =
     (let from_stage = ma_stage a; a = a\<lparr>ma_stage := to_stage\<rparr>
      in emit (ModelVersionRollback (ma_model a) (ma_version_id a) (ma_version a)
                 from_stage to_stage (ma_approval a)) a)"

definition mv_mark_deleted :: "mv_agg \<Rightarrow> mv_agg" where
  "mv_mark_deleted a =
     (let a = a\<lparr>ma_deleted := True\<rparr>
      in emit (ModelVersionDeleted (ma_model a) (ma_version_id a) (ma_version a)) a)"

subsection \<open>Dataset, readiness, pipeline\<close>

record ds_agg = agg_root +
  da_dataset :: string
  da_name :: string
  da_deleted :: bool

definition ds_init :: "string \<Rightarrow> string \<Rightarrow> ds_agg" where
  "ds_init d n = \<lparr>agg_events = [], da_dataset = d, da_name = n, da_deleted = False\<rparr>"

definition ds_mark_created :: "ds_agg \<Rightarrow> ds_agg" where
  "ds_mark_created a = emit (DatasetCreated (da_dataset a) (da_name a)) a"

definition ds_mark_deleted :: "ds_agg \<Rightarrow> ds_agg" where
  "ds_mark_deleted a =
     (if da_deleted a then a
      else let a = a\<lparr>da_deleted := True\<rparr> in emit (DatasetDeleted (da_dataset a)) a)"

record rd_agg = agg_root +
  rd_dataset :: string

definition rd_mark_evaluated ::
    "string \<Rightarrow> string option \<Rightarrow> string option \<Rightarrow> string \<Rightarrow> string \<Rightarrow> int option \<Rightarrow> int option
     \<Rightarrow> pyval list option \<Rightarrow> rd_agg \<Rightarrow> rd_agg" where
  "rd_mark_evaluated eid vid pid status source req cur reasons a =
     emit (ReadinessEvaluated eid (rd_dataset a) vid pid
            (if status = [] then ''blocked'' else status)
            (if source = [] then ''manual'' else source)
            (case req of None \<Rightarrow> 0 | Some n \<Rightarrow> n)
            (case cur of None \<Rightarrow> 0 | Some n \<Rightarrow> n)
            (case reasons of None \<Rightarrow> [] | Some rs \<Rightarrow> rs)) a"

record pl_agg = agg_root +
  pa_pipeline :: string

definition pl_mark_version_created :: "string \<Rightarrow> int \<Rightarrow> pl_agg \<Rightarrow> pl_agg" where
  "pl_mark_version_created vid v a = emit (PipelineVersionCreated (pa_pipeline a) vid v) a"

subsection \<open>What the run aggregate emits\<close>

lemma norm_status_idem [simp]: "norm_status (norm_status s) = norm_status s"
  by (simp add: norm_status_def strip_upper)

lemma norm_status_lits [simp]:
  "norm_status ''PENDING'' = ''PENDING''" "norm_status ''RUNNING'' = ''RUNNING''"
  "norm_status ''SUCCESS'' = ''SUCCESS''" "norm_status ''FAILED'' = ''FAILED''"
  "norm_status ''CANCELLED'' = ''CANCELLED''"
  by code_simp+

definition run_known :: "string \<Rightarrow> bool" where
  "run_known t = (t \<in> {''RUNNING'', ''SUCCESS'', ''FAILED'', ''CANCELLED''})"

text \<open>A status an aggregate can have: in normal form and not empty.\<close>

definition run_wf :: "run_agg \<Rightarrow> bool" where
  "run_wf a = (ra_status a \<noteq> [] \<and> norm_status (ra_status a) = ra_status a)"

lemma run_wf_init: "run_wf (run_init r p s)"
  by (simp add: run_wf_def run_init_def Let_def)

lemmas run_methods = run_start_def run_complete_def run_fail_def run_cancel_def
  prior_status_def emit_def Let_def

lemma run_apply_effect:
  assumes "run_wf a" and "run_known (transition_target t)"
  shows "\<exists>e. agg_events (apply_status_transition t None reason a) = agg_events a @ [e] \<and>
      re_from e = ra_status a \<and> re_to e = transition_target t \<and>
      re_run e = ra_run a \<and> re_pipeline e = ra_pipeline a"
  using assms by (auto simp: apply_status_transition_def run_methods run_known_def run_wf_def)

lemma run_apply_status:
  "ra_status (apply_status_transition t f reason a) =
     (if run_known (transition_target t) then transition_target t else ra_status a)"
  by (simp add: apply_status_transition_def run_methods run_known_def)

lemma run_apply_unknown:
  "\<not> run_known (transition_target t) \<Longrightarrow> apply_status_transition t f reason a = a"
  by (auto simp: apply_status_transition_def run_known_def Let_def)

lemma run_apply_wf: "run_wf a \<Longrightarrow> run_wf (apply_status_transition t f reason a)"
  by (auto simp: run_wf_def run_apply_status run_known_def)

text \<open>\<open>linked s es s'\<close>: the events lead from status \<open>s\<close> to status \<open>s'\<close> without a gap.\<close>

fun linked :: "string \<Rightarrow> event list \<Rightarrow> string \<Rightarrow> bool" where
  "linked s [] s' = (s = s')"
| "linked s (e # es) s' = (re_from e = s \<and> linked (re_to e) es s')"

definition run_replay :: "string list \<Rightarrow> run_agg \<Rightarrow> run_agg" where
  "run_replay ts a = fold (\<lambda>t. apply_status_transition t None None) ts a"

lemma run_replay_linked:
  assumes "run_wf a"
  shows "\<exists>es. agg_events (run_replay ts a) = agg_events a @ es \<and>
      linked (ra_status a) es (ra_status (run_replay ts a)) \<and>
      length es = length (filter (\<lambda>t. run_known (transition_target t)) ts)"
  using assms
proof (induction ts arbitrary: a)
  case Nil
  then show ?case by (simp add: run_replay_def)
next
  case (Cons t ts)
  let ?b = "apply_status_transition t None None a"
  obtain es where es: "agg_events (run_replay ts ?b) = agg_events ?b @ es"
      "linked (ra_status ?b) es (ra_status (run_replay ts ?b))"
      "length es = length (filter (\<lambda>t. run_known (transition_target t)) ts)"
    using Cons.IH [OF run_apply_wf [OF Cons.prems]] by blast
  have step: "run_replay (t # ts) a = run_replay ts ?b" by (simp add: run_replay_def)
  show ?case
  proof (cases "run_known (transition_target t)")
    case True
    from run_apply_effect [OF Cons.prems True, of None] obtain e where
      "agg_events ?b = agg_events a @ [e]" "re_from e = ra_status a" "re_to e = transition_target t"
      by blast
    with es True show ?thesis
      by (intro exI [of _ "e # es"]) (simp add: step run_apply_status)
  next
    case False
    with es show ?thesis by (simp add: step run_apply_unknown)
  qed
qed

text \<open>
  However a run is driven, the events its aggregate hands out are a chain: each event's
  \<open>from_status\<close> is the \<open>to_status\<close> of the one before, starting at the status the aggregate was
  built with and ending at its status now, one event for each transition to a known status.
\<close>

theorem run_events_chain:
  "linked (ra_status (run_init rid pid st))
     (fst (pull_events (run_replay ts (run_init rid pid st))))
     (ra_status (run_replay ts (run_init rid pid st))) \<and>
   length (fst (pull_events (run_replay ts (run_init rid pid st)))) =
     length (filter (\<lambda>t. run_known (transition_target t)) ts)"
proof -
  obtain es where "agg_events (run_replay ts (run_init rid pid st)) = es"
    "linked (ra_status (run_init rid pid st)) es (ra_status (run_replay ts (run_init rid pid st)))"
    "length es = length (filter (\<lambda>t. run_known (transition_target t)) ts)"
    using run_replay_linked [OF run_wf_init, of ts rid pid st] by (auto simp: run_init_def)
  then show ?thesis by (simp add: agg.fst_pull)
qed

text \<open>What a status change of the scheduler publishes: one event, or none for a status that has none.\<close>

lemma run_lifecycle_one:
  assumes "run_known (transition_target st)"
  shows "\<exists>e. run_lifecycle_events rid pid st f reason False = [e] \<and>
     re_run e = rid \<and> re_pipeline e = pid \<and> re_to e = transition_target st"
  using assms
  by (auto simp: run_lifecycle_events_def apply_status_transition_def run_known_def run_methods
      run_init_def pull_events_def)

lemma run_lifecycle_none:
  "\<not> run_known (transition_target st) \<Longrightarrow> run_lifecycle_events rid pid st f reason False = []"
  by (auto simp: run_lifecycle_events_def run_apply_unknown run_init_def pull_events_def Let_def)

subsection \<open>Deleting a dataset\<close>

datatype ds_call = DsCreated | DsDeleted

fun ds_do :: "ds_call \<Rightarrow> ds_agg \<Rightarrow> ds_agg" where
  "ds_do DsCreated a = ds_mark_created a"
| "ds_do DsDeleted a = ds_mark_deleted a"

definition deletions :: "event list \<Rightarrow> nat" where
  "deletions es = length (filter is_DatasetDeleted es)"

lemma ds_calls_deletions:
  "deletions (agg_events a) = (if da_deleted a then 1 else 0) \<Longrightarrow>
   deletions (agg_events (fold ds_do cs a)) =
     (if da_deleted a \<or> DsDeleted \<in> set cs then 1 else 0)"
proof (induction cs arbitrary: a)
  case Nil
  then show ?case by auto
next
  case (Cons c cs)
  have "da_deleted (ds_do c a) = (da_deleted a \<or> c = DsDeleted)"
    by (cases c) (simp_all add: ds_mark_created_def ds_mark_deleted_def emit_def Let_def)
  moreover have "deletions (agg_events (ds_do c a)) =
      (if da_deleted a \<or> c = DsDeleted then 1 else 0)"
    using Cons.prems
    by (cases c; cases "da_deleted a") (simp_all add: ds_mark_created_def ds_mark_deleted_def emit_def deletions_def Let_def)
  ultimately show ?case using Cons.IH [of "ds_do c a"] by auto
qed

text \<open>
  However often a dataset is marked deleted, \<open>DatasetDeleted\<close> is emitted at most once, and
  exactly once if it was marked at all.
\<close>

theorem dataset_deleted_once:
  "deletions (fst (pull_events (fold ds_do cs (ds_init d n)))) =
     (if DsDeleted \<in> set cs then 1 else 0)"
  using ds_calls_deletions [of "ds_init d n" cs]
  by (simp add: agg.fst_pull ds_init_def deletions_def)

subsection \<open>Stages of a model version\<close>

datatype mv_move = MvPromote string | MvRollback string | MvApprove | MvReject

fun mv_do :: "mv_move \<Rightarrow> mv_agg \<Rightarrow> mv_agg" where
  "mv_do (MvPromote s) a = mv_promote s a"
| "mv_do (MvRollback s) a = mv_rollback s a"
| "mv_do MvApprove a = mv_approve None a"
| "mv_do MvReject a = mv_reject None a"

definition is_move :: "event \<Rightarrow> bool" where
  "is_move e = (is_ModelVersionPromoted e \<or> is_ModelVersionRollback e)"

fun stage_linked :: "string \<Rightarrow> event list \<Rightarrow> string \<Rightarrow> bool" where
  "stage_linked s [] s' = (s = s')"
| "stage_linked s (e # es) s' =
     (if is_move e then me_from e = s \<and> stage_linked (me_to e) es s' else stage_linked s es s')"

lemma mv_do_events:
  "\<exists>e. agg_events (mv_do m a) = agg_events a @ [e] \<and>
     stage_linked (ma_stage a) [e] (ma_stage (mv_do m a))"
  by (cases m) (auto simp: mv_promote_def mv_rollback_def mv_approve_def mv_reject_def emit_def
      is_move_def Let_def)

lemma stage_linked_append:
  "stage_linked s es s' \<Longrightarrow> stage_linked s' fs s'' \<Longrightarrow> stage_linked s (es @ fs) s''"
  by (induction es arbitrary: s) auto

lemma mv_moves_linked:
  "\<exists>es. agg_events (fold mv_do ms a) = agg_events a @ es \<and>
     stage_linked (ma_stage a) es (ma_stage (fold mv_do ms a))"
proof (induction ms arbitrary: a)
  case Nil
  then show ?case by simp
next
  case (Cons m ms)
  obtain e where e: "agg_events (mv_do m a) = agg_events a @ [e]"
    "stage_linked (ma_stage a) [e] (ma_stage (mv_do m a))"
    using mv_do_events by blast
  obtain es where "agg_events (fold mv_do ms (mv_do m a)) = agg_events (mv_do m a) @ es"
    "stage_linked (ma_stage (mv_do m a)) es (ma_stage (fold mv_do ms (mv_do m a)))"
    using Cons.IH by blast
  with e stage_linked_append [OF e(2)] show ?case
    by (intro exI [of _ "e # es"]) simp
qed

end
