(* ===== verification/Store.thy ===== *)
theory Store
  imports TaskPlan Aggregates
begin

text \<open>
  The shared state of the control plane as the scheduler, the API and the workers see it: the
  \<open>tasks\<close> and \<open>runs\<close> tables, the Redis lists, the environment and the clock, and the trace of
  outgoing calls (metrics, domain events, realtime messages, usage roll-ups), in the order they
  are made. A table is the list of its rows, in insertion order; the key of \<open>tasks\<close> is \<open>t_id\<close>
  and the key of \<open>runs\<close> is \<open>r_id\<close>. Times are integers (microseconds); within one statement
  \<open>NOW()\<close> is \<open>w_now\<close>. The realtime publisher, the metrics client and the usage roll-up are
  calls recorded in the trace; what they do outside this state is not modelled.
\<close>

record task_row =
  t_id :: string
  t_run :: string
  t_status :: string
  t_attempt :: int
  t_max_attempts :: int
  t_backoff_ms :: int
  t_plugin :: "string option"
  t_leased_by :: "string option"
  t_lease_expires :: "int option"
  t_started :: "int option"
  t_finished :: "int option"
  t_error :: "string option"
  t_duration_ms :: "int option"
  t_cpu :: "pyfloat option"
  t_rss_kb :: "int option"
  t_created :: int
  t_updated :: int

record run_row =
  r_id :: string
  r_tenant :: string
  r_project :: string
  r_pipeline :: string
  r_status :: string
  r_priority :: "string option"
  r_max_parallel :: int
  r_version :: "string option"
  r_config :: pyval
  r_context :: pyval
  r_override :: pyval
  r_plugin_name :: "string option"
  r_replay_from :: "string option"
  r_replay_of :: "string option"
  r_idempotency :: "string option"
  r_experiment :: "string option"
  r_environment :: pyval
  r_created :: int
  r_updated :: int

datatype outcall =
    Metric string "string list"
  | PublishEvents string string "event list"
  | RollupUsage string
  | RtRunUpdated string string string string int "string option"
  | RtRunCreated string string string string int string
  | RunLog string string string
  | RtTaskUpdated string string string string string int "string option" string
  | RtTrainingCompleted string string string string string "string option" "string option"
  | RtTrackingUpdated string string string string "string option" string
  | TaskLog string string string string "string option" "string option"
  | IngestUsage string
  | UsageSample string
  | LogMetric string string pyfloat int
  | LogArtifact string string string
  | IngestLineage string string
  | RegisterModelVersion string string

text \<open>A Redis message: JSON that decodes, or text that does not.\<close>

datatype msg = Json pyval | Garbled string

record world =
  w_tasks :: "task_row list"
  w_runs :: "run_row list"
  w_queues :: "string \<Rightarrow> msg list"
  w_env :: "string \<Rightarrow> string option"
  w_now :: int
  w_trace :: "outcall list"

definition effect :: "outcall \<Rightarrow> world \<Rightarrow> world" where
  "effect e w = w\<lparr>w_trace := w_trace w @ [e]\<rparr>"

definition rpush :: "string \<Rightarrow> msg \<Rightarrow> world \<Rightarrow> world" where
  "rpush q m w = w\<lparr>w_queues := (w_queues w)(q := w_queues w q @ [m])\<rparr>"

definition lpop :: "string \<Rightarrow> world \<Rightarrow> msg option \<times> world" where
  "lpop q w = (case w_queues w q of [] \<Rightarrow> (None, w)
     | m # ms \<Rightarrow> (Some m, w\<lparr>w_queues := (w_queues w)(q := ms)\<rparr>))"

definition getenv :: "world \<Rightarrow> string \<Rightarrow> string \<Rightarrow> string" where
  "getenv w name dflt = (case w_env w name of None \<Rightarrow> dflt | Some v \<Rightarrow> v)"

subsection \<open>The tasks table\<close>

definition task_find :: "world \<Rightarrow> string \<Rightarrow> task_row option" where
  "task_find w tid = find (\<lambda>t. t_id t = tid) (w_tasks w)"

definition run_find :: "world \<Rightarrow> string \<Rightarrow> run_row option" where
  "run_find w rid = find (\<lambda>r. r_id r = rid) (w_runs w)"

text \<open>\<open>UPDATE tasks SET f WHERE p\<close> and the same on \<open>runs\<close>.\<close>

definition update_tasks :: "(task_row \<Rightarrow> bool) \<Rightarrow> (task_row \<Rightarrow> task_row) \<Rightarrow> world \<Rightarrow> world" where
  "update_tasks p f w = w\<lparr>w_tasks := map (\<lambda>t. if p t then f t else t) (w_tasks w)\<rparr>"

definition update_runs :: "(run_row \<Rightarrow> bool) \<Rightarrow> (run_row \<Rightarrow> run_row) \<Rightarrow> world \<Rightarrow> world" where
  "update_runs p f w = w\<lparr>w_runs := map (\<lambda>r. if p r then f r else r) (w_runs w)\<rparr>"

definition keys_unique :: "world \<Rightarrow> bool" where
  "keys_unique w = (distinct (map t_id (w_tasks w)) \<and> distinct (map r_id (w_runs w)))"

lemma update_tasks_frame [frame, simp]:
  "w_runs (update_tasks p f w) = w_runs w" "w_queues (update_tasks p f w) = w_queues w"
  "w_env (update_tasks p f w) = w_env w" "w_now (update_tasks p f w) = w_now w"
  "w_trace (update_tasks p f w) = w_trace w"
  by (simp_all add: update_tasks_def)

lemma update_runs_frame [frame, simp]:
  "w_tasks (update_runs p f w) = w_tasks w" "w_queues (update_runs p f w) = w_queues w"
  "w_env (update_runs p f w) = w_env w" "w_now (update_runs p f w) = w_now w"
  "w_trace (update_runs p f w) = w_trace w"
  by (simp_all add: update_runs_def)

lemma effect_frame [frame, simp]:
  "w_tasks (effect e w) = w_tasks w" "w_runs (effect e w) = w_runs w"
  "w_queues (effect e w) = w_queues w" "w_env (effect e w) = w_env w"
  "w_now (effect e w) = w_now w" "w_trace (effect e w) = w_trace w @ [e]"
  by (simp_all add: effect_def)

lemma rpush_frame [frame, simp]:
  "w_tasks (rpush q m w) = w_tasks w" "w_runs (rpush q m w) = w_runs w"
  "w_env (rpush q m w) = w_env w" "w_now (rpush q m w) = w_now w"
  "w_trace (rpush q m w) = w_trace w"
  "w_queues (rpush q m w) = (w_queues w)(q := w_queues w q @ [m])"
  by (simp_all add: rpush_def)

lemma task_find_cong [frame]:
  "w_tasks w' = w_tasks w \<Longrightarrow> task_find w' tid = task_find w tid"
  by (simp add: task_find_def)

lemma run_find_cong [frame]:
  "w_runs w' = w_runs w \<Longrightarrow> run_find w' rid = run_find w rid"
  by (simp add: run_find_def)

lemma find_simps_frame [simp]:
  "task_find (effect e w) tid = task_find w tid" "run_find (effect e w) rid = run_find w rid"
  "task_find (rpush q m w) tid = task_find w tid" "run_find (rpush q m w) rid = run_find w rid"
  "run_find (update_tasks p f w) rid = run_find w rid"
  "task_find (update_runs p' g w) tid = task_find w tid"
  by (simp_all add: task_find_def run_find_def)

lemma task_find_update:
  assumes "\<And>t. t_id (f t) = t_id t"
  shows "task_find (update_tasks p f w) tid =
           map_option (\<lambda>t. if p t then f t else t) (task_find w tid)"
  unfolding task_find_def update_tasks_def using assms by (simp add: find_map_iff)

lemma run_find_update:
  assumes "\<And>r. r_id (f r) = r_id r"
  shows "run_find (update_runs p f w) rid =
           map_option (\<lambda>r. if p r then f r else r) (run_find w rid)"
  unfolding run_find_def update_runs_def using assms by (simp add: find_map_iff)

lemma keys_unique_update_tasks:
  assumes "\<And>t. t_id (f t) = t_id t"
  shows "keys_unique (update_tasks p f w) = keys_unique w"
proof -
  have "t_id \<circ> (\<lambda>t. if p t then f t else t) = t_id"
    using assms by auto
  then show ?thesis by (simp add: keys_unique_def update_tasks_def)
qed

lemma keys_unique_update_runs:
  assumes "\<And>r. r_id (f r) = r_id r"
  shows "keys_unique (update_runs p f w) = keys_unique w"
proof -
  have "r_id \<circ> (\<lambda>r. if p r then f r else r) = r_id"
    using assms by auto
  then show ?thesis by (simp add: keys_unique_def update_runs_def)
qed

lemma task_find_mem: "task_find w tid = Some t \<Longrightarrow> t \<in> set (w_tasks w) \<and> t_id t = tid"
  by (auto simp: task_find_def dest: find_SomeD)

lemma task_find_unique:
  assumes "keys_unique w" and "t \<in> set (w_tasks w)"
  shows "task_find w (t_id t) = Some t"
proof -
  have "distinct (map t_id xs) \<Longrightarrow> t \<in> set xs \<Longrightarrow> find (\<lambda>x. t_id x = t_id t) xs = Some t" for xs
    by (induction xs) (auto simp: rev_image_eqI)
  with assms show ?thesis by (simp add: keys_unique_def task_find_def)
qed

lemma run_find_mem: "run_find w rid = Some r \<Longrightarrow> r \<in> set (w_runs w) \<and> r_id r = rid"
  by (auto simp: run_find_def dest: find_SomeD)

text \<open>An update of one key changes the row of that key and no other.\<close>

lemma task_find_update_key:
  assumes "\<And>t. t_id (f t) = t_id t"
  shows "task_find (update_tasks (\<lambda>t. t_id t = a) f w) tid =
           (if tid = a then map_option f (task_find w tid) else task_find w tid)"
  using assms by (cases "task_find w tid") (auto simp: task_find_update dest: task_find_mem)

lemma run_find_update_key:
  assumes "\<And>r. r_id (f r) = r_id r"
  shows "run_find (update_runs (\<lambda>r. r_id r = a) f w) rid =
           (if rid = a then map_option f (run_find w rid) else run_find w rid)"
  using assms by (cases "run_find w rid") (auto simp: run_find_update dest: run_find_mem)

subsection \<open>Legal statuses\<close>

definition run_allowed :: "string \<Rightarrow> string list" where
  "run_allowed s =
     (if s = ''PENDING'' then [''RUNNING'', ''FAILED'', ''CANCELLED'']
      else if s = ''RUNNING'' then [''SUCCESS'', ''FAILED'', ''CANCELLED'']
      else if s = ''FAILED'' then [''RUNNING'']
      else [])"

definition task_allowed :: "string \<Rightarrow> string list" where
  "task_allowed s =
     (if s = ''PENDING'' then [''RUNNING'', ''QUEUED'', ''FAILED'', ''SUCCESS'', ''CANCELLED'']
      else if s = ''QUEUED'' then [''RUNNING'', ''FAILED'', ''CANCELLED'']
      else if s = ''RUNNING'' then [''SUCCESS'', ''FAILED'', ''PENDING'', ''CANCELLED'']
      else if s = ''FAILED'' then [''RETRY'']
      else if s = ''RETRY'' then [''RUNNING'', ''QUEUED'', ''CANCELLED'']
      else [])"

lemma upper_status [simp]:
  "upper ''PENDING'' = ''PENDING''" "upper ''QUEUED'' = ''QUEUED''" "upper ''RUNNING'' = ''RUNNING''"
  "upper ''SUCCESS'' = ''SUCCESS''" "upper ''FAILED'' = ''FAILED''" "upper ''RETRY'' = ''RETRY''"
  "upper ''CANCELLED'' = ''CANCELLED''"
  by code_simp+

text \<open>A status is final when no transition leaves it.\<close>

definition task_final :: "string \<Rightarrow> bool" where
  "task_final s = (s = ''SUCCESS'' \<or> s = ''CANCELLED'')"

definition run_final :: "string \<Rightarrow> bool" where
  "run_final s = (s = ''SUCCESS'' \<or> s = ''CANCELLED'')"

lemma task_final_allowed: "task_final s \<Longrightarrow> task_allowed s = []"
  by (auto simp: task_final_def task_allowed_def)

lemma run_final_allowed: "run_final s \<Longrightarrow> run_allowed s = []"
  by (auto simp: run_final_def run_allowed_def)

subsection \<open>Evolution of the tables\<close>

text \<open>
  \<open>evolves w w'\<close> says how the tables may change from \<open>w\<close> to \<open>w'\<close>: no row disappears, a row
  keeps its identity (a task its run, a run its scope), a task or a run that is in a final status
  keeps it, and keys stay unique. It is reflexive and transitive, so an operation is shown to
  obey it call by call.
\<close>

definition task_kept :: "task_row \<Rightarrow> task_row \<Rightarrow> bool" where
  "task_kept t t' = (t_run t' = t_run t \<and> (task_final (t_status t) \<longrightarrow> t_status t' = t_status t))"

definition run_kept :: "run_row \<Rightarrow> run_row \<Rightarrow> bool" where
  "run_kept r r' = (r_tenant r' = r_tenant r \<and> r_project r' = r_project r \<and>
     r_pipeline r' = r_pipeline r \<and> (run_final (r_status r) \<longrightarrow> r_status r' = r_status r))"

definition evolves :: "world \<Rightarrow> world \<Rightarrow> bool" where
  "evolves w w' \<longleftrightarrow>
     (keys_unique w \<longrightarrow> keys_unique w') \<and>
     (\<forall>tid t. task_find w tid = Some t \<longrightarrow> (\<exists>t'. task_find w' tid = Some t' \<and> task_kept t t')) \<and>
     (\<forall>rid r. run_find w rid = Some r \<longrightarrow> (\<exists>r'. run_find w' rid = Some r' \<and> run_kept r r'))"

lemma task_kept_trans: "task_kept a b \<Longrightarrow> task_kept b c \<Longrightarrow> task_kept a c"
  by (auto simp: task_kept_def)

lemma run_kept_trans: "run_kept a b \<Longrightarrow> run_kept b c \<Longrightarrow> run_kept a c"
  by (auto simp: run_kept_def)

lemma evolves_refl [intro!, simp]: "evolves w w"
  by (auto simp: evolves_def task_kept_def run_kept_def)

lemma evolves_taskD:
  "evolves w w' \<Longrightarrow> task_find w tid = Some t \<Longrightarrow> \<exists>t'. task_find w' tid = Some t' \<and> task_kept t t'"
  by (simp add: evolves_def)

lemma evolves_runD:
  "evolves w w' \<Longrightarrow> run_find w rid = Some r \<Longrightarrow> \<exists>r'. run_find w' rid = Some r' \<and> run_kept r r'"
  by (simp add: evolves_def)

lemma evolves_trans [trans]:
  assumes ab: "evolves a b" and bc: "evolves b c"
  shows "evolves a c"
proof -
  have "\<exists>t'. task_find c tid = Some t' \<and> task_kept t t'" if "task_find a tid = Some t" for tid t
    using evolves_taskD [OF ab that] evolves_taskD [OF bc] task_kept_trans by blast
  moreover have "\<exists>r'. run_find c rid = Some r' \<and> run_kept r r'"
    if "run_find a rid = Some r" for rid r
    using evolves_runD [OF ab that] evolves_runD [OF bc] run_kept_trans by blast
  moreover have "keys_unique a \<Longrightarrow> keys_unique c"
    using ab bc by (simp add: evolves_def)
  ultimately show ?thesis by (simp add: evolves_def)
qed

lemma evolves_same_tables:
  "w_tasks w' = w_tasks w \<Longrightarrow> w_runs w' = w_runs w \<Longrightarrow> evolves w w'"
  by (auto simp: evolves_def task_find_def run_find_def keys_unique_def task_kept_def run_kept_def)

lemma evolves_effect [simp]: "evolves w (effect e w')" if "evolves w w'"
  using that evolves_trans evolves_same_tables [of "effect e w'" w'] by simp

lemma evolves_rpush [simp]: "evolves w (rpush q m w')" if "evolves w w'"
  using that evolves_trans evolves_same_tables [of "rpush q m w'" w'] by simp

lemma lpop_frame [frame, simp]:
  "w_tasks (snd (lpop q w)) = w_tasks w" "w_runs (snd (lpop q w)) = w_runs w"
  "w_env (snd (lpop q w)) = w_env w"
  by (simp_all add: lpop_def split: list.split)

lemma evolves_update_tasks:
  assumes "\<And>t. t_id (f t) = t_id t" and "\<And>t. p t \<Longrightarrow> task_kept t (f t)"
  shows "evolves w (update_tasks p f w)"
  using assms
  by (auto simp: evolves_def keys_unique_update_tasks task_find_update run_kept_def task_kept_def)

lemma evolves_update_runs:
  assumes "\<And>r. r_id (f r) = r_id r" and "\<And>r. p r \<Longrightarrow> run_kept r (f r)"
  shows "evolves w (update_runs p f w)"
  using assms
  by (auto simp: evolves_def keys_unique_update_runs run_find_update task_kept_def run_kept_def)

lemma evolves_update_task_key:
  assumes "\<And>t. t_id (f t) = t_id t" and "task_find w a = Some row" and "task_kept row (f row)"
  shows "evolves w (update_tasks (\<lambda>t. t_id t = a) f w)"
  using assms
  by (auto simp: evolves_def keys_unique_update_tasks task_find_update_key run_kept_def
      task_kept_def)

lemma evolves_update_run_key:
  assumes "\<And>r. r_id (f r) = r_id r" and "run_find w a = Some row" and "run_kept row (f row)"
  shows "evolves w (update_runs (\<lambda>r. r_id r = a) f w)"
  using assms
  by (auto simp: evolves_def keys_unique_update_runs run_find_update_key run_kept_def
      task_kept_def)

lemma evolves_insert_task:
  assumes "task_find w (t_id t) = None"
  shows "evolves w (w\<lparr>w_tasks := w_tasks w @ [t]\<rparr>)"
proof -
  have "task_find (w\<lparr>w_tasks := w_tasks w @ [t]\<rparr>) tid = Some r"
    if "task_find w tid = Some r" for tid r
  proof -
    have "find P (xs @ ys) = Some r" if "find P xs = Some r" for P and xs ys :: "task_row list"
      using that by (induction xs) (auto split: if_splits)
    with that show ?thesis by (simp add: task_find_def)
  qed
  moreover have "t_id t \<notin> t_id ` set (w_tasks w)"
    using assms by (auto simp: task_find_def dest: find_NoneD)
  ultimately show ?thesis
    by (auto simp: evolves_def keys_unique_def task_kept_def run_kept_def run_find_def)
qed

lemma evolves_final_task:
  assumes "evolves w w'" and "task_find w tid = Some t" and "task_final (t_status t)"
  shows "\<exists>t'. task_find w' tid = Some t' \<and> t_status t' = t_status t"
  using evolves_taskD [OF assms(1,2)] assms(3) by (auto simp: task_kept_def)

lemma evolves_final_run:
  assumes "evolves w w'" and "run_find w rid = Some r" and "run_final (r_status r)"
  shows "\<exists>r'. run_find w' rid = Some r' \<and> r_status r' = r_status r"
  using evolves_runD [OF assms(1,2)] assms(3) by (auto simp: run_kept_def)

text \<open>
  The part of it that concerns the tasks alone, for operations that may set the status of a run
  to anything.
\<close>

definition tasks_evolve :: "world \<Rightarrow> world \<Rightarrow> bool" where
  "tasks_evolve w w' \<longleftrightarrow> (keys_unique w \<longrightarrow> keys_unique w') \<and>
     (\<forall>tid t. task_find w tid = Some t \<longrightarrow> (\<exists>t'. task_find w' tid = Some t' \<and> task_kept t t'))"

lemma evolves_tasks: "evolves w w' \<Longrightarrow> tasks_evolve w w'"
  by (simp add: evolves_def tasks_evolve_def)

lemma tasks_evolve_refl [simp]: "tasks_evolve w w"
  by (simp add: evolves_tasks)

lemma tasks_evolve_trans:
  assumes ab: "tasks_evolve a b" and bc: "tasks_evolve b c"
  shows "tasks_evolve a c"
proof -
  have "\<exists>t'. task_find c tid = Some t' \<and> task_kept t t'" if t: "task_find a tid = Some t" for tid t
    using ab bc t task_kept_trans unfolding tasks_evolve_def by blast
  with ab bc show ?thesis by (simp add: tasks_evolve_def)
qed

lemma tasks_evolve_same:
  "w_tasks w' = w_tasks w \<Longrightarrow> (keys_unique w \<Longrightarrow> keys_unique w') \<Longrightarrow> tasks_evolve w w'"
  by (auto simp: tasks_evolve_def task_find_def task_kept_def)

text \<open>
  The interface of a component that acts on the tables: commands whose step lets the tasks evolve,
  as long as the keys are unique, which they are in every table with a primary key. Then a whole
  execution does, and what is final stays final. A component that respects the runs as well
  satisfies the stronger interface \<open>table_client\<close>.
\<close>

locale task_client =
  fixes step :: "'c \<Rightarrow> world \<Rightarrow> world"
  assumes step_tasks: "keys_unique w \<Longrightarrow> tasks_evolve w (step c w)"
begin

lemma run_tasks: "keys_unique w \<Longrightarrow> tasks_evolve w (fold step cs w)"
proof (induction cs arbitrary: w)
  case Nil
  then show ?case by simp
next
  case (Cons c cs)
  have s: "tasks_evolve w (step c w)" by (rule step_tasks [OF Cons.prems])
  then have "keys_unique (step c w)" using Cons.prems by (simp add: tasks_evolve_def)
  from tasks_evolve_trans [OF s Cons.IH [OF this]] show ?case by simp
qed

lemma keys_stay_unique: "keys_unique w \<Longrightarrow> keys_unique (fold step cs w)"
  using run_tasks unfolding tasks_evolve_def by blast

lemma final_task_stays:
  assumes "keys_unique w" and "task_find w tid = Some t" and "task_final (t_status t)"
  shows "\<exists>t'. task_find (fold step cs w) tid = Some t' \<and> t_status t' = t_status t"
  using run_tasks [OF assms(1), of cs] assms(2,3) by (fastforce simp: tasks_evolve_def task_kept_def)

end

locale table_client =
  fixes step :: "'c \<Rightarrow> world \<Rightarrow> world"
  assumes step_evolves: "keys_unique w \<Longrightarrow> evolves w (step c w)"

sublocale table_client \<subseteq> task_client step
  by unfold_locales (simp add: evolves_tasks step_evolves)

context table_client
begin

lemma run_evolves: "keys_unique w \<Longrightarrow> evolves w (fold step cs w)"
proof (induction cs arbitrary: w)
  case Nil
  then show ?case by simp
next
  case (Cons c cs)
  have s: "evolves w (step c w)" by (rule step_evolves [OF Cons.prems])
  then have "keys_unique (step c w)" using Cons.prems by (simp add: evolves_def)
  from evolves_trans [OF s Cons.IH [OF this]] show ?case by simp
qed

lemma final_run_stays:
  "keys_unique w \<Longrightarrow> run_find w rid = Some r \<Longrightarrow> run_final (r_status r) \<Longrightarrow>
   \<exists>r'. run_find (fold step cs w) rid = Some r' \<and> r_status r' = r_status r"
  by (rule evolves_final_run [OF run_evolves])

end

end
