(* ===== verification/Quota.thy ===== *)
theory Quota
  imports Store
begin

text \<open>
  Model of \<^verbatim>\<open>governance/tenant_quota_service.py\<close> with the platform limits it starts from
  (\<^verbatim>\<open>settings/platform_policy.py\<close>, \<^verbatim>\<open>settings/policy_env.py\<close>) and of
  \<^verbatim>\<open>orchestration/pipeline_version_service.py\<close>: the quota row of a tenant, the effective limits,
  the cap on parallel tasks, the check before a resource is created, and the numbered versions of a
  pipeline's configuration. The tables they read and write are the record \<open>catalog\<close>; \<open>l4\<close> is the
  platform settings document, empty when there is none.
\<close>

subsection \<open>Tables\<close>

record quota_row =
  q_tenant :: string
  q_projects :: "int option"
  q_datasets :: "int option"
  q_models :: "int option"
  q_runs :: "int option"
  q_webhooks :: "int option"
  q_hosts :: "string list option"
  q_updated :: int
  q_parallel :: "int option"

record version_row =
  v_id :: string
  v_tenant :: string
  v_project :: string
  v_pipeline :: string
  v_version :: int
  v_config :: pyval
  v_created :: int

record catalog =
  c_quotas :: "quota_row list"
  c_projects :: "(string \<times> string) list"
  c_datasets :: "(string \<times> string \<times> string) list"
  c_models :: "(string \<times> string) list"
  c_webhooks :: "(string \<times> string) list"
  c_versions :: "version_row list"

subsection \<open>Platform limits\<close>

definition quota_env_map :: "(string \<times> string \<times> int) list" where
  "quota_env_map =
     [(''max_projects'', ''ML_AIR_TENANT_QUOTA_MAX_PROJECTS'', 200),
      (''max_datasets_per_project'', ''ML_AIR_TENANT_QUOTA_MAX_DATASETS_PER_PROJECT'', 500),
      (''max_models_per_project'', ''ML_AIR_TENANT_QUOTA_MAX_MODELS_PER_PROJECT'', 200),
      (''max_runs_per_project'', ''ML_AIR_TENANT_QUOTA_MAX_RUNS_PER_PROJECT'', 50000),
      (''max_webhook_subscriptions_per_project'',
       ''ML_AIR_TENANT_QUOTA_MAX_WEBHOOK_SUBSCRIPTIONS_PER_PROJECT'', 50),
      (''max_parallel_tasks'', ''ML_AIR_TENANT_QUOTA_DEFAULT_MAX_PARALLEL_TASKS'', 1000)]"

definition l1_quota_defaults :: "(string \<times> int) list" where
  "l1_quota_defaults = map (\<lambda>(k, env, n). (k, n)) quota_env_map"

definition positive_int :: "pyval \<Rightarrow> int \<Rightarrow> int py" where
  "positive_int raw fallback = (case py_int raw of
     Inl OverflowError \<Rightarrow> raise OverflowError | Inl _ \<Rightarrow> ok fallback | Inr n \<Rightarrow> ok (max 1 n))"

definition env_limit_optional :: "world \<Rightarrow> string \<Rightarrow> int option" where
  "env_limit_optional w name = map_option (max 1) (parse_int (strip (getenv w name [])))"

fun quota_from_dict :: "pydict \<Rightarrow> (string \<times> int) list \<Rightarrow> (string \<times> int) list py" where
  "quota_from_dict raw [] = ok []"
| "quota_from_dict raw ((k, fallback) # ks) =
     (if dget raw k = VNone then quota_from_dict raw ks
      else pbind (positive_int (dget raw k) fallback)
             (\<lambda>n. pbind (quota_from_dict raw ks) (\<lambda>out. ok ((k, n) # out))))"

definition quota_from_l4 :: "pydict \<Rightarrow> (string \<times> int) list py" where
  "quota_from_l4 l4 =
     (case dget l4 ''governance'' of
        VDict g \<Rightarrow> (case dget g ''quota_defaults'' of
            VDict raw \<Rightarrow> quota_from_dict raw l1_quota_defaults | _ \<Rightarrow> ok [])
      | _ \<Rightarrow> ok [])"

definition quota_from_env :: "world \<Rightarrow> (string \<times> int) list" where
  "quota_from_env w = List.map_filter
     (\<lambda>(k, env, n). map_option (Pair k) (env_limit_optional w env)) quota_env_map"

definition update_all :: "(string \<times> 'a) list \<Rightarrow> (string \<times> 'a) list \<Rightarrow> (string \<times> 'a) list" where
  "update_all new old = fold (\<lambda>(k, v). dset k v) new old"

definition policy_env_aliases_enabled :: "world \<Rightarrow> bool" where
  "policy_env_aliases_enabled w =
     (lower (strip (getenv w ''ML_AIR_CONFIG_ACCEPT_POLICY_ENV'' ''0''))
        \<in> {''1'', ''true'', ''yes'', ''on''})"

definition use_l4_first_policy :: "pydict \<Rightarrow> world \<Rightarrow> bool" where
  "use_l4_first_policy l4 w = (l4 \<noteq> [] \<and> \<not> policy_env_aliases_enabled w)"

definition platform_quota_limits :: "pydict \<Rightarrow> world \<Rightarrow> (string \<times> int) list py" where
  "platform_quota_limits l4 w =
     pbind (quota_from_l4 l4) (\<lambda>l4_limits.
       let limits = update_all l4_limits l1_quota_defaults
       in ok (if \<not> use_l4_first_policy l4 w \<or> l4_limits = []
              then update_all (quota_from_env w) limits else limits))"

definition limit_of :: "(string \<times> int) list \<Rightarrow> string \<Rightarrow> int" where
  "limit_of limits k = (case map_of limits k of None \<Rightarrow> 1 | Some n \<Rightarrow> n)"

subsection \<open>Quotas of a tenant\<close>

definition quota_find :: "catalog \<Rightarrow> string \<Rightarrow> quota_row option" where
  "quota_find c tid = find (\<lambda>q. q_tenant q = tid) (c_quotas c)"

record limits =
  lm_projects :: int
  lm_datasets :: int
  lm_models :: int
  lm_runs :: int
  lm_webhooks :: int
  lm_parallel :: int
  lm_hosts :: "string list option"

definition or_default :: "int option \<Rightarrow> (string \<times> int) list \<Rightarrow> string \<Rightarrow> int" where
  "or_default stored defaults k = (case stored of None \<Rightarrow> limit_of defaults k | Some n \<Rightarrow> n)"

definition empty_quota :: "string \<Rightarrow> quota_row" where
  "empty_quota tid =
     \<lparr>q_tenant = tid, q_projects = None, q_datasets = None, q_models = None, q_runs = None,
      q_webhooks = None, q_hosts = None, q_updated = 0, q_parallel = None\<rparr>"

definition normalize_hosts :: "string list option \<Rightarrow> string list option" where
  "normalize_hosts hosts =
     (case hosts of None \<Rightarrow> None
      | Some hs \<Rightarrow>
          (let out = sort (remdups (map (lower \<circ> strip) (filter (\<lambda>h. strip h \<noteq> []) hs)))
           in if out = [] then None else Some out))"

lemma normalize_hosts_idem [simp]: "normalize_hosts (normalize_hosts hosts) = normalize_hosts hosts"
proof (cases hosts)
  case None
  then show ?thesis by (simp add: normalize_hosts_def)
next
  case (Some hs)
  define out where "out = sort (remdups (map (lower \<circ> strip) (filter (\<lambda>h. strip h \<noteq> []) hs)))"
  have st: "strip h = h \<and> lower h = h \<and> h \<noteq> []" if "h \<in> set out" for h
    using that by (auto simp: out_def strip_lower lower_idem strip_idem)
  then have "map (lower \<circ> strip) (filter (\<lambda>h. strip h \<noteq> []) out) = out"
    by (simp add: map_idI filter_True)
  moreover have "sort (remdups out) = out"
    by (simp add: out_def sort_key_id_if_sorted distinct_remdups_id)
  ultimately show ?thesis
    by (auto simp: normalize_hosts_def Some Let_def out_def [symmetric])
qed

text \<open>Without a row every limit is the default; a row overrides the limits it sets.\<close>

definition get_tenant_quotas :: "catalog \<Rightarrow> (string \<times> int) list \<Rightarrow> string \<Rightarrow> limits" where
  "get_tenant_quotas c defaults tenant_id =
     (let q = (case quota_find c (strip tenant_id) of None \<Rightarrow> empty_quota (strip tenant_id)
               | Some q \<Rightarrow> q)
      in \<lparr>lm_projects = or_default (q_projects q) defaults ''max_projects'',
          lm_datasets = or_default (q_datasets q) defaults ''max_datasets_per_project'',
          lm_models = or_default (q_models q) defaults ''max_models_per_project'',
          lm_runs = or_default (q_runs q) defaults ''max_runs_per_project'',
          lm_webhooks = or_default (q_webhooks q) defaults ''max_webhook_subscriptions_per_project'',
          lm_parallel = or_default (q_parallel q) defaults ''max_parallel_tasks'',
          lm_hosts = normalize_hosts (q_hosts q)\<rparr>)"

definition clamp_parallel_tasks :: "int \<Rightarrow> int" where
  "clamp_parallel_tasks value = max 1 (min 1000 value)"

definition tenant_max_parallel_tasks :: "catalog \<Rightarrow> (string \<times> int) list \<Rightarrow> string \<Rightarrow> int" where
  "tenant_max_parallel_tasks c defaults tenant_id =
     (let raw = lm_parallel (get_tenant_quotas c defaults tenant_id)
      in clamp_parallel_tasks (if raw = 0 then 1 else raw))"

definition resolve_max_parallel_tasks ::
    "catalog \<Rightarrow> (string \<times> int) list \<Rightarrow> string \<Rightarrow> int option \<Rightarrow> int" where
  "resolve_max_parallel_tasks c defaults tenant_id requested =
     (let cap = tenant_max_parallel_tasks c defaults tenant_id
      in case requested of None \<Rightarrow> cap | Some n \<Rightarrow> min (clamp_parallel_tasks n) cap)"

definition check_limit :: "string \<Rightarrow> int option \<Rightarrow> unit py" where
  "check_limit name v = (case v of None \<Rightarrow> ok ()
     | Some n \<Rightarrow> if n < 1 then raise (ValueError (''invalid_'' @ name)) else ok ())"

definition upsert_tenant_quotas ::
    "string \<Rightarrow> int option \<Rightarrow> int option \<Rightarrow> int option \<Rightarrow> int option \<Rightarrow> int option \<Rightarrow> int option
     \<Rightarrow> string list option \<Rightarrow> int \<Rightarrow> catalog \<Rightarrow> catalog py" where
  "upsert_tenant_quotas tenant_id projects datasets models runs webhooks parallel hosts now c =
     (let tid = strip tenant_id in
      if tid = [] then raise (ValueError ''tenant_id_required'')
      else
        pbind (check_limit ''max_projects'' projects) (\<lambda>_.
        pbind (check_limit ''max_datasets_per_project'' datasets) (\<lambda>_.
        pbind (check_limit ''max_models_per_project'' models) (\<lambda>_.
        pbind (check_limit ''max_runs_per_project'' runs) (\<lambda>_.
        pbind (check_limit ''max_webhook_subscriptions_per_project'' webhooks) (\<lambda>_.
        pbind (check_limit ''max_parallel_tasks'' parallel) (\<lambda>_.
        if (case parallel of None \<Rightarrow> False | Some n \<Rightarrow> 1000 < n)
        then raise (ValueError ''max_parallel_tasks_exceeds_hard_limit'')
        else
          (let row = \<lparr>q_tenant = tid, q_projects = projects, q_datasets = datasets,
                 q_models = models, q_runs = runs, q_webhooks = webhooks,
                 q_hosts = normalize_hosts hosts, q_updated = now, q_parallel = parallel\<rparr>
           in ok (c\<lparr>c_quotas := (if quota_find c tid = None then c_quotas c @ [row]
                   else map (\<lambda>q. if q_tenant q = tid then row else q) (c_quotas c))\<rparr>)))))))))"

subsection \<open>Usage and the check\<close>

definition usage_of :: "catalog \<Rightarrow> world \<Rightarrow> string \<Rightarrow> string \<Rightarrow> string \<Rightarrow> nat" where
  "usage_of c w tid pid resource =
     (if resource = ''projects''
      then length (remdups (map snd (filter (\<lambda>(t, p). t = tid) (c_projects c)) @
                            map r_project (filter (\<lambda>r. r_tenant r = tid) (w_runs w))))
      else if resource = ''datasets''
      then length (filter (\<lambda>(t, p, n). t = tid \<and> p = pid) (c_datasets c))
      else if resource = ''models'' then length (filter (\<lambda>(t, p). t = tid \<and> p = pid) (c_models c))
      else if resource = ''runs''
      then length (filter (\<lambda>r. r_tenant r = tid \<and> r_project r = pid) (w_runs w))
      else length (filter (\<lambda>(t, p). t = tid \<and> p = pid) (c_webhooks c)))"

definition limit_for :: "limits \<Rightarrow> string \<Rightarrow> int" where
  "limit_for l resource =
     (if resource = ''projects'' then lm_projects l
      else if resource = ''datasets'' then lm_datasets l
      else if resource = ''models'' then lm_models l
      else if resource = ''runs'' then lm_runs l else lm_webhooks l)"

definition quota_resources :: "string list" where
  "quota_resources = [''projects'', ''datasets'', ''models'', ''runs'', ''webhook_subscriptions'']"

definition assert_within_quota ::
    "bool \<Rightarrow> catalog \<Rightarrow> (string \<times> int) list \<Rightarrow> world \<Rightarrow> string \<Rightarrow> string \<Rightarrow> string option \<Rightarrow> unit py" where
  "assert_within_quota enforced c defaults w tenant_id resource project_id =
     (if \<not> enforced then ok ()
      else (let res = strip resource; tid = strip tenant_id; pid = strip (opt_or project_id []) in
        if res \<notin> set quota_resources then raise (ValueError ''unknown_quota_resource'')
        else if res \<noteq> ''projects'' \<and> opt_or project_id [] = []
        then raise (ValueError ''project_id_required'')
        else (let current = (if res \<noteq> ''projects'' \<and> pid = [] then 0 else usage_of c w tid pid res);
                  limit = limit_for (get_tenant_quotas c defaults tenant_id) res
              in if limit \<le> int current
                 then raise (ValueError (''tenant_quota_exceeded:'' @ res @ '':'' @ nat_str current
                        @ ''/'' @ int_str limit))
                 else ok ())))"

subsection \<open>Versions of a pipeline\<close>

definition same_pipeline :: "string \<Rightarrow> string \<Rightarrow> string \<Rightarrow> version_row \<Rightarrow> bool" where
  "same_pipeline t p pl v = (v_tenant v = t \<and> v_project v = p \<and> v_pipeline v = pl)"

definition versions_of :: "catalog \<Rightarrow> string \<Rightarrow> string \<Rightarrow> string \<Rightarrow> version_row list" where
  "versions_of c t p pl = filter (same_pipeline t p pl) (c_versions c)"

text \<open>\<open>COALESCE(MAX(version), 0) + 1\<close>\<close>

definition next_version :: "version_row list \<Rightarrow> int" where
  "next_version vs = (case map v_version vs of [] \<Rightarrow> 0 | n # ns \<Rightarrow> foldl max n ns) + 1"

definition create_pipeline_version ::
    "string \<Rightarrow> string \<Rightarrow> string \<Rightarrow> string \<Rightarrow> pydict \<Rightarrow> catalog \<Rightarrow> world \<Rightarrow> version_row \<times> catalog \<times> world" where
  "create_pipeline_version version_id t p pl config c w =
     (let row = \<lparr>v_id = version_id, v_tenant = t, v_project = p, v_pipeline = pl,
             v_version = next_version (versions_of c t p pl), v_config = VDict config,
             v_created = w_now w\<rparr>;
          agg = pl_mark_version_created version_id (v_version row)
                  \<lparr>agg_events = [], pa_pipeline = pl\<rparr>
      in (row, c\<lparr>c_versions := c_versions c @ [row]\<rparr>,
          effect (PublishEvents t p (fst (pull_events agg))) w))"

definition get_pipeline_version :: "catalog \<Rightarrow> string \<Rightarrow> version_row option" where
  "get_pipeline_version c version_id = find (\<lambda>v. v_id v = version_id) (c_versions c)"

text \<open>\<open>ORDER BY version DESC LIMIT 1\<close>\<close>

fun newest :: "version_row list \<Rightarrow> version_row option" where
  "newest [] = None"
| "newest (v # vs) = (case newest vs of None \<Rightarrow> Some v
     | Some u \<Rightarrow> if v_version u < v_version v then Some v else Some u)"

definition get_latest_version_id :: "catalog \<Rightarrow> string \<Rightarrow> string \<Rightarrow> string \<Rightarrow> string option" where
  "get_latest_version_id c t p pl = map_option v_id (newest (versions_of c t p pl))"

text \<open>The stored configuration is decoded when it comes back as text, by \<open>json.loads\<close>.\<close>

definition version_config :: "(string \<Rightarrow> pyval option) \<Rightarrow> version_row \<Rightarrow> pyval py" where
  "version_config loads v = (case v_config v of
     VStr s \<Rightarrow> (case loads s of None \<Rightarrow> raise (ValueError ''json'') | Some x \<Rightarrow> ok x)
   | x \<Rightarrow> ok x)"

definition get_config_for_version_in_scope ::
    "(string \<Rightarrow> pyval option) \<Rightarrow> catalog \<Rightarrow> string \<Rightarrow> string \<Rightarrow> string \<Rightarrow> pyval py" where
  "get_config_for_version_in_scope loads c t p version_id =
     (case get_pipeline_version c version_id of None \<Rightarrow> ok VNone
      | Some v \<Rightarrow> pbind (version_config loads v)
          (\<lambda>cfg. if v_tenant v \<noteq> t \<or> v_project v \<noteq> p then ok VNone else ok cfg))"

subsection \<open>What they guarantee\<close>

text \<open>
  The cap on parallel tasks: whatever is asked for and whatever the quota row says, a run gets
  between one and a thousand slots, never more than its tenant's cap, and exactly what it asked
  for when that lies within the cap.
\<close>

theorem parallel_cap:
  "(let n = resolve_max_parallel_tasks c defaults tid requested;
        cap = tenant_max_parallel_tasks c defaults tid
    in {1..cap} \<subseteq> {1..1000} \<and> n \<in> {1..cap} \<and>
       n = (case requested of None \<Rightarrow> cap | Some k \<Rightarrow> if k \<in> {1..cap} then k
              else if k < 1 then 1 else cap))"
  by (auto simp: resolve_max_parallel_tasks_def tenant_max_parallel_tasks_def clamp_parallel_tasks_def
      Let_def min_def max_def split: option.split)

text \<open>
  Quotas take effect as written: after an update that is accepted, the effective limits of the
  tenant are the values given, the platform's default where none was given, and no other tenant's
  limits change.
\<close>

theorem quota_update_effective:
  assumes "upsert_tenant_quotas tid pr ds md rn wh pl hosts now c = Inr c'"
  shows "get_tenant_quotas c' defaults tid =
           \<lparr>lm_projects = or_default pr defaults ''max_projects'',
            lm_datasets = or_default ds defaults ''max_datasets_per_project'',
            lm_models = or_default md defaults ''max_models_per_project'',
            lm_runs = or_default rn defaults ''max_runs_per_project'',
            lm_webhooks = or_default wh defaults ''max_webhook_subscriptions_per_project'',
            lm_parallel = or_default pl defaults ''max_parallel_tasks'',
            lm_hosts = normalize_hosts hosts\<rparr> \<and>
         (strip other \<noteq> strip tid \<longrightarrow>
            get_tenant_quotas c' defaults other = get_tenant_quotas c defaults other)"
proof -
  let ?row = "\<lparr>q_tenant = strip tid, q_projects = pr, q_datasets = ds, q_models = md, q_runs = rn,
     q_webhooks = wh, q_hosts = normalize_hosts hosts, q_updated = now, q_parallel = pl\<rparr>"
  have c': "c_quotas c' = (if quota_find c (strip tid) = None then c_quotas c @ [?row]
      else map (\<lambda>q. if q_tenant q = strip tid then ?row else q) (c_quotas c))"
    using assms by (auto simp: upsert_tenant_quotas_def Let_def pbind_eq_Inr split: if_splits)
  have upd: "find (\<lambda>q. q_tenant q = k) (map (\<lambda>q. if q_tenant q = strip tid then ?row else q) qs)
      = map_option (\<lambda>q. if q_tenant q = strip tid then ?row else q) (find (\<lambda>q. q_tenant q = k) qs)"
    for k qs
    by (induction qs) auto
  have app: "find (\<lambda>q. q_tenant q = k) (qs @ [?row]) =
      (case find (\<lambda>q. q_tenant q = k) qs of None \<Rightarrow> if k = strip tid then Some ?row else None
       | Some q \<Rightarrow> Some q)" for k qs
    by (induction qs) auto
  have "quota_find c' (strip tid) = Some ?row"
    by (cases "quota_find c (strip tid)")
      (auto simp: quota_find_def c' upd app dest: find_SomeD)
  moreover have "quota_find c' k = quota_find c k" if "k \<noteq> strip tid" for k
    using that by (cases "quota_find c k")
      (auto simp: quota_find_def c' upd app dest: find_SomeD)
  ultimately show ?thesis by (simp add: get_tenant_quotas_def Let_def)
qed

text \<open>
  The check lets a resource be created exactly while the tenant holds fewer of it than its
  limit allows, and says so only for a known resource, with the project named where it counts.
\<close>

theorem quota_check_exact:
  "assert_within_quota True c defaults w tid resource (Some pid) = Inr () \<longleftrightarrow>
     strip resource \<in> set quota_resources \<and> \<not> (strip resource \<noteq> ''projects'' \<and> pid = []) \<and>
     int (if strip resource \<noteq> ''projects'' \<and> strip pid = [] then 0
          else usage_of c w (strip tid) (strip pid) (strip resource))
       < limit_for (get_tenant_quotas c defaults tid) (strip resource)"
  by (auto simp: assert_within_quota_def Let_def strip_idem)

lemma foldl_max: "foldl max (n::int) ns = Max (set (n # ns))"
proof (induction ns arbitrary: n)
  case Nil
  then show ?case by simp
next
  case (Cons m ns)
  have "Max (set (max n m # ns)) = Max (set (n # m # ns))"
    by (cases "ns = []") (simp_all add: max.assoc)
  with Cons.IH [of "max n m"] show ?case by simp
qed

definition numbered :: "version_row list \<Rightarrow> bool" where
  "numbered vs = (map v_version vs = map int [1..<Suc (length vs)])"

lemma numbered_next: "numbered vs \<Longrightarrow> next_version vs = int (length vs) + 1"
proof -
  assume n: "numbered vs"
  show "next_version vs = int (length vs) + 1"
  proof (cases "map v_version vs")
    case Nil
    then show ?thesis by (simp add: next_version_def)
  next
    case (Cons x xs)
    then have "next_version vs = Max (set (map v_version vs)) + 1"
      unfolding next_version_def using foldl_max [of x xs] by simp
    also have "set (map v_version vs) = int ` {1..length vs}"
      using n unfolding numbered_def by (simp only: set_map set_upt atLeastLessThanSuc_atLeastAtMost)
    also have "Max (int ` {1..length vs}) = int (length vs)"
    proof (rule Max_eqI)
      show "int (length vs) \<in> int ` {1..length vs}"
        by (rule imageI) (use Cons in \<open>cases vs, auto\<close>)
    qed auto
    finally show ?thesis .
  qed
qed

text \<open>
  The versions of a pipeline are numbered 1, 2, 3 and so on without a gap, in the order they
  were created, whatever happens to other pipelines; the newest one is the one a new run gets.
\<close>

theorem versions_numbered:
  assumes "\<And>t p pl. numbered (versions_of c t p pl)"
    and "create_pipeline_version vid t p pl cfg c w = (row, c', w')"
  shows "numbered (versions_of c' t' p' pl') \<and> v_version row = int (length (versions_of c' t p pl)) \<and>
         get_latest_version_id c' t p pl = Some vid"
proof -
  have row: "v_tenant row = t" "v_project row = p" "v_pipeline row = pl" "v_id row = vid"
    "v_version row = int (length (versions_of c t p pl)) + 1"
    and c': "c_versions c' = c_versions c @ [row]"
    using assms(2) numbered_next [OF assms(1)]
    by (auto simp: create_pipeline_version_def Let_def)
  have vs: "versions_of c' a b d = versions_of c a b d @ (if a = t \<and> b = p \<and> d = pl then [row] else [])"
    for a b d
    using row by (auto simp: versions_of_def c' same_pipeline_def)
  have "newest (xs @ [v]) = Some v" if "\<forall>x \<in> set xs. v_version x < v_version v" for xs v
    using that by (induction xs) auto
  moreover have "\<forall>x \<in> set (versions_of c t p pl). v_version x < v_version row"
  proof
    fix x assume "x \<in> set (versions_of c t p pl)"
    then have "v_version x \<in> set (map v_version (versions_of c t p pl))" by simp
    then show "v_version x < v_version row"
      using assms(1) [of t p pl] unfolding numbered_def row by (simp only: set_map set_upt) auto
  qed
  ultimately have "newest (versions_of c' t p pl) = Some row" by (simp add: vs)
  moreover have "numbered (versions_of c' t' p' pl')"
    using assms(1) [of t' p' pl'] row(5)
    by (cases "t' = t \<and> p' = p \<and> pl' = pl") (auto simp: numbered_def vs)
  ultimately show ?thesis using row by (simp add: get_latest_version_id_def vs)
qed

end
