(* ===== verification/SchedOps.thy ===== *)
theory SchedOps
  imports Store
begin

text \<open>
  The table operations of \<^verbatim>\<open>scheduler/main.py\<close>: status transitions of runs and tasks, telemetry,
  cancellation, the concurrency count and the loaders. Each is one definition over \<^typ>\<open>world\<close>;
  the lemmas give its effect on a row and show that it evolves the tables.
\<close>

subsection \<open>Environment\<close>

definition task_execution_mode :: "world \<Rightarrow> string" where
  "task_execution_mode w = lower (strip (getenv w ''ML_AIR_TASK_EXECUTION_MODE'' ''internal''))"

definition queue_name_for_priority :: "pyval \<Rightarrow> string" where
  "queue_name_for_priority priority =
     (if priority = VStr ''high'' then ''mlair:tasks:high''
      else if priority = VStr ''low'' then ''mlair:tasks:low''
      else ''mlair:tasks:default'')"

subsection \<open>Tasks\<close>

text \<open>\<open>COALESCE(a, b)\<close>\<close>

definition coalesce :: "'a option \<Rightarrow> 'a option \<Rightarrow> 'a option" where
  "coalesce a b = (case a of None \<Rightarrow> b | Some x \<Rightarrow> Some x)"

definition new_task ::
    "world \<Rightarrow> string \<Rightarrow> string \<Rightarrow> string \<Rightarrow> int \<Rightarrow> string option \<Rightarrow> task_row" where
  "new_task w task_id run_id status attempt plugin =
     \<lparr>t_id = task_id, t_run = run_id, t_status = status, t_attempt = attempt,
      t_max_attempts = 3, t_backoff_ms = 1000, t_plugin = plugin, t_leased_by = None,
      t_lease_expires = None, t_started = None, t_finished = None, t_error = None,
      t_duration_ms = None, t_cpu = None, t_rss_kb = None, t_created = w_now w,
      t_updated = w_now w\<rparr>"

text \<open>The \<open>DO UPDATE\<close> part of the upsert.\<close>

definition conflict_update :: "world \<Rightarrow> string \<Rightarrow> int \<Rightarrow> string option \<Rightarrow> task_row \<Rightarrow> task_row" where
  "conflict_update w status attempt plugin t =
     t\<lparr>t_status := status, t_attempt := attempt, t_plugin := coalesce plugin (t_plugin t),
       t_leased_by := None, t_lease_expires := None,
       t_started := (if status = ''RUNNING'' then coalesce (t_started t) (Some (w_now w))
                     else t_started t),
       t_finished := (if status \<in> {''SUCCESS'', ''FAILED'', ''CANCELLED''}
                      then coalesce (t_finished t) (Some (w_now w)) else t_finished t),
       t_updated := w_now w\<rparr>"

definition upsert_or_transition_task ::
    "string \<Rightarrow> string \<Rightarrow> string \<Rightarrow> int \<Rightarrow> string option \<Rightarrow> world \<Rightarrow> world" where
  "upsert_or_transition_task task_id run_id next_status attempt plugin w =
     (case task_find w task_id of
        None \<Rightarrow>
          w\<lparr>w_tasks := w_tasks w @ [new_task w task_id run_id next_status attempt plugin]\<rparr>
      | Some row \<Rightarrow>
          if upper (t_status row) = upper next_status then w
          else if next_status \<notin> set (task_allowed (t_status row)) then w
          else update_tasks (\<lambda>t. t_id t = task_id)
                 (conflict_update w next_status attempt plugin) w)"

definition update_task_telemetry ::
    "string \<Rightarrow> int option \<Rightarrow> int option \<Rightarrow> string option \<Rightarrow> int option \<Rightarrow> pyfloat option
     \<Rightarrow> int option \<Rightarrow> world \<Rightarrow> world" where
  "update_task_telemetry task_id started_at finished_at error_message duration_ms cpu rss w =
     update_tasks (\<lambda>t. t_id t = task_id)
       (\<lambda>t. t\<lparr>t_started := coalesce started_at (t_started t),
              t_finished := coalesce finished_at (t_finished t),
              t_error := coalesce error_message (t_error t),
              t_duration_ms := coalesce duration_ms (t_duration_ms t),
              t_cpu := coalesce cpu (t_cpu t),
              t_rss_kb := coalesce rss (t_rss_kb t),
              t_updated := w_now w\<rparr>) w"

definition cancellable :: "bool \<Rightarrow> task_row \<Rightarrow> bool" where
  "cancellable only_pending_like t =
     (if only_pending_like then t_status t \<in> {''PENDING'', ''QUEUED'', ''RETRY''}
      else t_status t \<notin> {''SUCCESS'', ''FAILED'', ''CANCELLED''})"

definition cancel_tasks_for_run :: "string \<Rightarrow> bool \<Rightarrow> world \<Rightarrow> nat \<times> world" where
  "cancel_tasks_for_run run_id only_pending_like w =
     (let p = (\<lambda>t. t_run t = run_id \<and> cancellable only_pending_like t)
      in (length (filter p (w_tasks w)),
          update_tasks p (\<lambda>t. t\<lparr>t_status := ''CANCELLED'',
            t_finished := coalesce (t_finished t) (Some (w_now w)), t_updated := w_now w\<rparr>) w))"

definition load_task_retry_policy :: "string \<Rightarrow> world \<Rightarrow> int \<times> int" where
  "load_task_retry_policy task_id w =
     (case task_find w task_id of None \<Rightarrow> (3, 1000)
      | Some t \<Rightarrow> (t_max_attempts t, t_backoff_ms t))"

text \<open>The dict \<open>_list_run_task_states\<close> returns; a later row of the result replaces an earlier one.\<close>

type_synonym states = "(string \<times> (string \<times> int)) list"

definition list_run_task_states :: "string \<Rightarrow> world \<Rightarrow> states" where
  "list_run_task_states run_id w =
     fold (\<lambda>t. dset (task_key run_id (t_id t)) (t_status t, t_attempt t))
       (filter (\<lambda>t. t_run t = run_id) (w_tasks w)) []"

definition state_of :: "states \<Rightarrow> string \<Rightarrow> string \<times> int" where
  "state_of states key = (case map_of states key of None \<Rightarrow> (''PENDING'', 1) | Some p \<Rightarrow> p)"

fun cancel_unreachable_loop ::
    "string \<Rightarrow> plan \<Rightarrow> states \<Rightarrow> string list \<Rightarrow> nat \<Rightarrow> world \<Rightarrow> nat \<times> world" where
  "cancel_unreachable_loop run_id plan states [] cancelled w = (cancelled, w)"
| "cancel_unreachable_loop run_id plan states (key # keys) cancelled w =
     (case state_of states key of (st, attempt) \<Rightarrow>
        if st \<noteq> ''PENDING'' then cancel_unreachable_loop run_id plan states keys cancelled w
        else if list_ex (\<lambda>dep. fst (state_of states dep) \<in> {''FAILED'', ''CANCELLED''})
                  (deps_of plan key)
        then cancel_unreachable_loop run_id plan states keys (Suc cancelled)
               (upsert_or_transition_task (full_id run_id key) run_id ''CANCELLED'' attempt None w)
        else cancel_unreachable_loop run_id plan states keys cancelled w)"

definition cancel_unreachable_downstream_tasks ::
    "string \<Rightarrow> plan \<Rightarrow> string list \<Rightarrow> states \<Rightarrow> world \<Rightarrow> nat \<times> world" where
  "cancel_unreachable_downstream_tasks run_id plan selected states w =
     cancel_unreachable_loop run_id plan states (sort selected) 0 w"

subsection \<open>Runs\<close>

definition get_run_status :: "string \<Rightarrow> world \<Rightarrow> string option" where
  "get_run_status run_id w = map_option r_status (run_find w run_id)"

definition run_is_cancelled :: "string \<Rightarrow> world \<Rightarrow> bool" where
  "run_is_cancelled run_id w =
     (case get_run_status run_id w of None \<Rightarrow> False
      | Some st \<Rightarrow> st \<noteq> [] \<and> upper st = ''CANCELLED'')"

text \<open>
  \<open>_coerce_json_dict\<close>: a \<open>jsonb\<close> column comes back decoded; the text form (a column holding a JSON
  string) is decoded by \<open>json.loads\<close>, whose result is the parameter \<open>loads\<close>.
\<close>

definition coerce_json_dict :: "(string \<Rightarrow> pyval option) \<Rightarrow> pyval \<Rightarrow> pydict" where
  "coerce_json_dict loads value =
     (case value of VDict d \<Rightarrow> d
      | VStr s \<Rightarrow> if strip s = [] then []
                  else (case loads s of Some (VDict d) \<Rightarrow> d | _ \<Rightarrow> [])
      | _ \<Rightarrow> [])"

definition maybe_publish_training_completed ::
    "(string \<Rightarrow> pyval option) \<Rightarrow> run_row \<Rightarrow> world \<Rightarrow> world" where
  "maybe_publish_training_completed loads r w =
     (if upper (r_status r) \<noteq> ''SUCCESS'' then w
      else (let ov = coerce_json_dict loads (r_override r);
                pc = coerce_json_dict loads (r_context r);
                d1 = strip (str_or (dget ov ''dataset_version_id'') []);
                dvid = (if d1 = [] then strip (str_or (dget pc ''dataset_version_id'') []) else d1)
            in if dvid = [] then w
               else effect (RtTrainingCompleted (r_tenant r) (r_project r) (r_id r) (r_pipeline r)
                      dvid
                      (some_nonempty (strip (str_or
                         (por (dget pc ''model_id'') (dget pc ''mlair_model_id'')) [])))
                      (some_nonempty (strip (str_or (dget pc ''dataset_id'') [])))) w))"

text \<open>
  The calls that follow a successful update, in the code's order: domain events on the same
  connection, the usage roll-up of a finished run, the realtime messages. \<open>u\<close> is the row
  \<open>RETURNING\<close> gives. Each is guarded by its own \<open>try\<close>, so none stops the next.
\<close>

definition announce_run_status ::
    "(string \<Rightarrow> pyval option) \<Rightarrow> string \<Rightarrow> string \<Rightarrow> string \<Rightarrow> run_row \<Rightarrow> world \<Rightarrow> world" where
  "announce_run_status loads run_id next_status from_status u w =
     (let w2 = (if next_status \<in> {''RUNNING'', ''SUCCESS'', ''FAILED'', ''CANCELLED''}
                then effect (PublishEvents (r_tenant u) (r_project u)
                       (run_lifecycle_events run_id (r_pipeline u) next_status
                          (Some from_status) None False)) w
                else w);
          w3 = (if next_status \<in> {''SUCCESS'', ''FAILED'', ''CANCELLED''}
                then effect (RollupUsage run_id) w2 else w2);
          w4 = effect (RtRunUpdated (r_tenant u) (r_project u) run_id (r_status u)
                 (r_updated u) (some_nonempty (r_pipeline u))) w3
      in maybe_publish_training_completed loads u w4)"

definition transition_run_status ::
    "(string \<Rightarrow> pyval option) \<Rightarrow> string \<Rightarrow> string \<Rightarrow> world \<Rightarrow> world" where
  "transition_run_status loads run_id next_status w =
     (case run_find w run_id of None \<Rightarrow> w
      | Some r \<Rightarrow>
        if next_status \<notin> set (run_allowed (r_status r)) then w
        else
          (let u = r\<lparr>r_status := next_status, r_updated := w_now w\<rparr>
           in announce_run_status loads run_id next_status (norm_status (r_status r)) u
                (update_runs (\<lambda>x. r_id x = run_id)
                   (\<lambda>x. x\<lparr>r_status := next_status, r_updated := w_now w\<rparr>) w)))"

text \<open>\<open>r.tenant_id = %s\<close> with the parameter as Python holds it: only text can be equal.\<close>

definition sql_eq :: "string \<Rightarrow> pyval \<Rightarrow> bool" where
  "sql_eq s v = (v = VStr s)"

definition occupies_slot :: "world \<Rightarrow> pyval \<Rightarrow> pyval \<Rightarrow> task_row \<Rightarrow> bool" where
  "occupies_slot w tenant_id project_id t =
     ((if task_execution_mode w = ''external'' then t_status t \<in> {''QUEUED'', ''RUNNING''}
       else t_status t = ''RUNNING'') \<and>
      (case run_find w (t_run t) of None \<Rightarrow> False
       | Some r \<Rightarrow> sql_eq (r_tenant r) tenant_id \<and> sql_eq (r_project r) project_id \<and>
                   r_status r \<in> {''PENDING'', ''RUNNING''}))"

definition project_running_tasks :: "pyval \<Rightarrow> pyval \<Rightarrow> world \<Rightarrow> nat" where
  "project_running_tasks tenant_id project_id w =
     length (filter (occupies_slot w tenant_id project_id) (w_tasks w))"

definition load_run_replay_meta ::
    "string \<Rightarrow> world \<Rightarrow> int \<times> string option \<times> string option" where
  "load_run_replay_meta run_id w =
     (case run_find w run_id of None \<Rightarrow> (1, None, None)
      | Some r \<Rightarrow> (max 1 (r_max_parallel r), r_replay_from r, r_replay_of r))"

subsection \<open>Effect on a row\<close>

lemma conflict_update_simps [simp]:
  "t_id (conflict_update w s a p t) = t_id t" "t_run (conflict_update w s a p t) = t_run t"
  "t_status (conflict_update w s a p t) = s" "t_attempt (conflict_update w s a p t) = a"
  by (simp_all add: conflict_update_def)

lemma new_task_simps [simp]:
  "t_id (new_task w tid r s a p) = tid" "t_run (new_task w tid r s a p) = r"
  "t_status (new_task w tid r s a p) = s" "t_attempt (new_task w tid r s a p) = a"
  by (simp_all add: new_task_def)

lemma upsert_frame [frame, simp]:
  "w_runs (upsert_or_transition_task tid rid s a p w) = w_runs w"
  "w_queues (upsert_or_transition_task tid rid s a p w) = w_queues w"
  "w_env (upsert_or_transition_task tid rid s a p w) = w_env w"
  "w_now (upsert_or_transition_task tid rid s a p w) = w_now w"
  "w_trace (upsert_or_transition_task tid rid s a p w) = w_trace w"
  "run_find (upsert_or_transition_task tid rid s a p w) = run_find w"
  by (simp_all add: upsert_or_transition_task_def run_find_def fun_eq_iff split: option.split)

lemma telemetry_frame [frame, simp]:
  "w_runs (update_task_telemetry tid s f e d c m w) = w_runs w"
  "w_queues (update_task_telemetry tid s f e d c m w) = w_queues w"
  "w_env (update_task_telemetry tid s f e d c m w) = w_env w"
  "w_now (update_task_telemetry tid s f e d c m w) = w_now w"
  "run_find (update_task_telemetry tid s f e d c m w) = run_find w"
  by (simp_all add: update_task_telemetry_def run_find_def fun_eq_iff)

lemma cancel_frame [frame, simp]:
  "w_runs (snd (cancel_tasks_for_run rid b w)) = w_runs w"
  "w_queues (snd (cancel_tasks_for_run rid b w)) = w_queues w"
  "w_env (snd (cancel_tasks_for_run rid b w)) = w_env w"
  by (simp_all add: cancel_tasks_for_run_def Let_def)

text \<open>The status of a task after an upsert, in every case.\<close>

definition upsert_effect :: "string \<Rightarrow> string \<Rightarrow> string" where
  "upsert_effect cur next =
     (if upper cur = upper next then cur
      else if next \<in> set (task_allowed cur) then next else cur)"

definition task_status :: "world \<Rightarrow> string \<Rightarrow> string option" where
  "task_status w tid = map_option t_status (task_find w tid)"

lemma find_append_new:
  "find P (xs @ [x]) = (case find P xs of None \<Rightarrow> if P x then Some x else None | Some y \<Rightarrow> Some y)"
  by (induction xs) auto

lemma upsert_task_status:
  "task_status (upsert_or_transition_task tid rid next a p w) tid' =
     (if tid' = tid
      then Some (case task_status w tid of None \<Rightarrow> next | Some cur \<Rightarrow> upsert_effect cur next)
      else task_status w tid')"
proof (cases "task_find w tid")
  case None
  then show ?thesis
    by (auto simp: task_status_def upsert_or_transition_task_def task_find_def find_append_new
        split: option.splits)
next
  case (Some row)
  have id: "t_id row = tid" using Some by (auto dest: task_find_mem)
  show ?thesis
  proof (cases "upper (t_status row) = upper next \<or> next \<notin> set (task_allowed (t_status row))")
    case True
    with Some show ?thesis
      by (auto simp: task_status_def upsert_or_transition_task_def upsert_effect_def)
  next
    case False
    with Some id show ?thesis
      by (auto simp: task_status_def upsert_or_transition_task_def upsert_effect_def
          task_find_update_key split: option.splits)
  qed
qed

lemma evolves_upsert: "evolves w (upsert_or_transition_task tid rid s a p w)"
proof (cases "task_find w tid")
  case None
  then show ?thesis
    by (simp add: upsert_or_transition_task_def evolves_insert_task)
next
  case (Some row)
  show ?thesis
  proof (cases "s \<in> set (task_allowed (t_status row))")
    case True
    then have "\<not> task_final (t_status row)" using task_final_allowed [of "t_status row"] by auto
    then have "task_kept row (conflict_update w s a p row)" by (simp add: task_kept_def)
    with Some show ?thesis
      by (simp add: upsert_or_transition_task_def evolves_update_task_key)
  next
    case False
    with Some show ?thesis by (simp add: upsert_or_transition_task_def)
  qed
qed

lemma evolves_telemetry: "evolves w (update_task_telemetry tid s f e d c m w)"
  unfolding update_task_telemetry_def by (rule evolves_update_tasks) (auto simp: task_kept_def)

lemma evolves_cancel: "evolves w (snd (cancel_tasks_for_run rid b w))"
  unfolding cancel_tasks_for_run_def Let_def snd_conv
  by (rule evolves_update_tasks)
    (auto simp: task_kept_def cancellable_def task_final_def split: if_splits)

lemma evolves_cancel_loop: "evolves w (snd (cancel_unreachable_loop rid plan sts keys n w))"
proof (induction keys arbitrary: n w)
  case Nil
  then show ?case by simp
next
  case (Cons key keys)
  show ?case
    using Cons.IH evolves_trans [OF evolves_upsert Cons.IH]
    by (simp split: prod.split)
qed

lemma evolves_cancel_unreachable:
  "evolves w (snd (cancel_unreachable_downstream_tasks rid plan sel sts w))"
  by (simp add: cancel_unreachable_downstream_tasks_def evolves_cancel_loop)

lemma training_frame [frame, simp]:
  "w_tasks (maybe_publish_training_completed loads r w) = w_tasks w"
  "w_runs (maybe_publish_training_completed loads r w) = w_runs w"
  "w_queues (maybe_publish_training_completed loads r w) = w_queues w"
  "w_env (maybe_publish_training_completed loads r w) = w_env w"
  "w_now (maybe_publish_training_completed loads r w) = w_now w"
  by (simp_all add: maybe_publish_training_completed_def Let_def)

lemma announce_frame [frame, simp]:
  "w_tasks (announce_run_status loads rid s f u w) = w_tasks w"
  "w_runs (announce_run_status loads rid s f u w) = w_runs w"
  "w_queues (announce_run_status loads rid s f u w) = w_queues w"
  "w_env (announce_run_status loads rid s f u w) = w_env w"
  "w_now (announce_run_status loads rid s f u w) = w_now w"
  by (simp_all add: announce_run_status_def Let_def)

lemma transition_frame [frame, simp]:
  "w_tasks (transition_run_status loads rid s w) = w_tasks w"
  "w_queues (transition_run_status loads rid s w) = w_queues w"
  "w_env (transition_run_status loads rid s w) = w_env w"
  "task_find (transition_run_status loads rid s w) = task_find w"
  by (simp_all add: transition_run_status_def Let_def task_find_def fun_eq_iff split: option.split)

definition run_status :: "world \<Rightarrow> string \<Rightarrow> string option" where
  "run_status w rid = map_option r_status (run_find w rid)"

lemma run_status_announce [simp]:
  "run_find (announce_run_status loads rid s f u w) = run_find w"
  by (simp add: run_find_def fun_eq_iff)

lemma transition_run_status_effect:
  "run_status (transition_run_status loads rid next w) rid' =
     (case run_status w rid' of None \<Rightarrow> None
      | Some cur \<Rightarrow> Some (if rid' = rid \<and> next \<in> set (run_allowed cur) then next else cur))"
proof (cases "run_find w rid")
  case None
  then show ?thesis
    by (auto simp: run_status_def transition_run_status_def split: option.split)
next
  case (Some r)
  then show ?thesis
    by (auto simp: run_status_def transition_run_status_def run_find_update_key Let_def
        split: option.split)
qed

lemma evolves_announce: "evolves w (announce_run_status loads rid s f u w)"
  by (rule evolves_same_tables) simp_all

lemma evolves_transition_run: "evolves w (transition_run_status loads rid s w)"
proof (cases "run_find w rid")
  case None
  then show ?thesis by (simp add: transition_run_status_def)
next
  case (Some r)
  let ?w1 = "update_runs (\<lambda>x. r_id x = rid) (\<lambda>x. x\<lparr>r_status := s, r_updated := w_now w\<rparr>) w"
  show ?thesis
  proof (cases "s \<in> set (run_allowed (r_status r))")
    case True
    then have nf: "\<not> run_final (r_status r)" using run_final_allowed [of "r_status r"] by auto
    have w1: "evolves w ?w1"
      by (rule evolves_update_run_key [OF _ Some]) (use nf in \<open>simp_all add: run_kept_def\<close>)
    with Some True show ?thesis
      by (simp add: transition_run_status_def Let_def evolves_trans [OF w1 evolves_announce])
  next
    case False
    with Some show ?thesis by (simp add: transition_run_status_def)
  qed
qed

text \<open>A transition the table of legal statuses does not list leaves the whole state as it was.\<close>

lemma transition_run_refused:
  "run_status w rid = Some cur \<Longrightarrow> next \<notin> set (run_allowed cur) \<Longrightarrow>
   transition_run_status loads rid next w = w"
  by (auto simp: run_status_def transition_run_status_def)

end
