(* ===== verification/Replay.thy ===== *)
theory Replay
  imports SchedOps
begin

text \<open>
  Model of the replay gate of \<^verbatim>\<open>scheduler/main.py\<close>: the evidence a parent run left behind
  (lineage edges, artifacts, checksums, signed manifests), the selection of verification keys and
  the checks on a manifest, and \<open>_init_replay_tasks_with_gating\<close>, which may mark an upstream task
  as done without running it only when all of that is in order. The record \<open>ext\<close> holds what
  the code takes from outside: decoded key files and JSON text, the HMAC and Ed25519 primitives,
  the canonical JSON text of a value, the reading and writing of timestamps as text, the trace id of an
  event and of the current request, the trace headers put on a message, and the evidence tables, which
  the scheduler only reads.
\<close>

subsection \<open>Parameters and evidence tables\<close>

record features =
  f_require_checksum :: bool
  f_require_signed :: bool
  f_strict_keys :: bool

text \<open>The scheduler runs without the \<open>app\<close> package, or with it and perhaps its settings.\<close>

datatype policy_src = NoApp | App "features option"

record lineage_edge =
  le_run :: string
  le_task :: string
  le_output_version :: "string option"

record artifact_row =
  ar_run :: string
  ar_path :: string
  ar_uri :: "string option"

record manifest_row =
  mf_run :: string
  mf_task :: string
  mf_algorithm :: string
  mf_key_id :: string
  mf_signature :: string
  mf_payload :: pyval

record ext =
  x_loads :: "string \<Rightarrow> pyval option"
  x_dumps :: "pyval \<Rightarrow> string"
  x_file :: "string \<Rightarrow> pyval option"
  x_when :: "string \<Rightarrow> int option"
  x_iso :: "int \<Rightarrow> string"
  x_carrier :: "pydict \<Rightarrow> pydict"
  x_trace_id :: string
  x_hmac :: "string \<Rightarrow> string \<Rightarrow> string"
  x_ed25519 :: "string \<Rightarrow> string \<Rightarrow> string \<Rightarrow> bool"
  x_trace :: "pydict \<Rightarrow> string"
  x_policy :: policy_src
  x_edges :: "lineage_edge list"
  x_artifacts :: "artifact_row list"
  x_checksums :: "(string \<times> string option) list"
  x_manifests :: "manifest_row list"

subsection \<open>Switches\<close>

definition env_bool :: "world \<Rightarrow> string \<Rightarrow> bool \<Rightarrow> bool" where
  "env_bool w name dflt =
     (case w_env w name of None \<Rightarrow> dflt
      | Some raw \<Rightarrow>
          (let t = lower (strip raw) in
           if t \<in> {''1'', ''true'', ''yes'', ''on''} then True
           else if t \<in> {''0'', ''false'', ''no'', ''off''} then False else dflt))"

definition require_artifact_evidence :: "ext \<Rightarrow> world \<Rightarrow> bool" where
  "require_artifact_evidence X w =
     (case x_policy X of
        NoApp \<Rightarrow> getenv w ''ML_AIR_REPLAY_REQUIRE_ARTIFACT_EVIDENCE'' ''1'' \<noteq> ''0''
      | App _ \<Rightarrow> env_bool w ''ML_AIR_REPLAY_REQUIRE_ARTIFACT_EVIDENCE'' True)"

definition policy_switch :: "ext \<Rightarrow> world \<Rightarrow> (features \<Rightarrow> bool) \<Rightarrow> string \<Rightarrow> bool" where
  "policy_switch X w f name =
     (case x_policy X of
        NoApp \<Rightarrow> getenv w name ''1'' = ''1''
      | App (Some fs) \<Rightarrow> f fs
      | App None \<Rightarrow> env_bool w name True)"

definition require_checksum :: "ext \<Rightarrow> world \<Rightarrow> bool" where
  "require_checksum X w = policy_switch X w f_require_checksum ''ML_AIR_REPLAY_REQUIRE_CHECKSUM''"

definition require_signed_manifest :: "ext \<Rightarrow> world \<Rightarrow> bool" where
  "require_signed_manifest X w =
     policy_switch X w f_require_signed ''ML_AIR_REPLAY_REQUIRE_SIGNED_MANIFEST''"

definition strict_key_lifecycle :: "ext \<Rightarrow> world \<Rightarrow> bool" where
  "strict_key_lifecycle X w = policy_switch X w f_strict_keys ''ML_AIR_MANIFEST_STRICT_KEY_LIFECYCLE''"

subsection \<open>Evidence of the parent run\<close>

definition load_parent_success_tasks :: "string \<Rightarrow> world \<Rightarrow> string list" where
  "load_parent_success_tasks parent w =
     map (\<lambda>t. task_key parent (t_id t))
       (filter (\<lambda>t. t_run t = parent \<and> t_status t = ''SUCCESS'') (w_tasks w))"

text \<open>
  SQL \<open>ILIKE\<close>: \<open>%\<close> matches any text, \<open>_\<close> one character, a backslash takes the next character
  literally; letters match in either case.
\<close>

fun ilike :: "string \<Rightarrow> string \<Rightarrow> bool" where
  "ilike [] s = (s = [])"
| "ilike (p # ps) s =
     (if p = CHR ''%'' then ilike ps s \<or> (case s of [] \<Rightarrow> False | _ # t \<Rightarrow> ilike (p # ps) t)
      else if p = CHR ''_'' then (case s of [] \<Rightarrow> False | _ # t \<Rightarrow> ilike ps t)
      else if p = backslash then
        (case ps of [] \<Rightarrow> False
         | q # qs \<Rightarrow> (case s of [] \<Rightarrow> False | c # t \<Rightarrow> lower_char c = lower_char q \<and> ilike qs t))
      else (case s of [] \<Rightarrow> False | c # t \<Rightarrow> lower_char c = lower_char p \<and> ilike ps t))"

definition has_parent_artifact_evidence :: "ext \<Rightarrow> string \<Rightarrow> string \<Rightarrow> bool" where
  "has_parent_artifact_evidence X parent key =
     (let full = full_id parent key in
      list_ex (\<lambda>e. le_run e = parent \<and> le_task e = full) (x_edges X) \<or>
      list_ex (\<lambda>a. ar_run a = parent \<and>
          (ilike (''%'' @ key @ ''%'') (ar_path a) \<or> ilike (''%'' @ full @ ''%'') (ar_path a) \<or>
           ilike (''%'' @ key @ ''%'') (case ar_uri a of None \<Rightarrow> [] | Some u \<Rightarrow> u)))
        (x_artifacts X))"

definition has_parent_checksum_evidence :: "ext \<Rightarrow> string \<Rightarrow> string \<Rightarrow> bool" where
  "has_parent_checksum_evidence X parent key =
     list_ex (\<lambda>e. le_run e = parent \<and> le_task e = full_id parent key \<and>
         (case le_output_version e of None \<Rightarrow> False
          | Some v \<Rightarrow> list_ex (\<lambda>(v', c). v' = v \<and> (case c of None \<Rightarrow> False | Some s \<Rightarrow> s \<noteq> []))
                        (x_checksums X)))
       (x_edges X)"

text \<open>The payload column is decoded; its text form goes through \<open>json.loads\<close>, which may raise.\<close>

definition load_parent_task_manifest ::
    "ext \<Rightarrow> string \<Rightarrow> string \<Rightarrow> (string \<times> string \<times> string \<times> pydict) option py" where
  "load_parent_task_manifest X parent key =
     (case find (\<lambda>m. mf_run m = parent \<and> mf_task m = full_id parent key) (x_manifests X) of
        None \<Rightarrow> ok None
      | Some m \<Rightarrow>
          pbind (case mf_payload m of
                   VStr s \<Rightarrow> (case x_loads X s of None \<Rightarrow> raise (ValueError ''json'') | Some v \<Rightarrow> ok v)
                 | v \<Rightarrow> ok v)
            (\<lambda>payload. case payload of
               VDict d \<Rightarrow> ok (Some (mf_algorithm m, mf_key_id m, mf_signature m, d))
             | _ \<Rightarrow> ok None))"

subsection \<open>Keys\<close>

definition managed_keys_blob :: "ext \<Rightarrow> world \<Rightarrow> pydict" where
  "managed_keys_blob X w =
     (if lower (strip (getenv w ''ML_AIR_MANIFEST_KEY_PROVIDER'' ''env'')) \<noteq> ''file'' then []
      else (let path = strip (getenv w ''ML_AIR_MANIFEST_MANAGED_KEYS_FILE'' []) in
            if path = [] then []
            else (case x_file X path of Some (VDict d) \<Rightarrow> d | _ \<Rightarrow> [])))"

definition allowed_key_ids :: "ext \<Rightarrow> world \<Rightarrow> string list" where
  "allowed_key_ids X w =
     (case dget (managed_keys_blob X w) ''allowed_key_ids'' of
        VList xs \<Rightarrow> strip_all xs
      | _ \<Rightarrow>
         (let raw = strip (getenv w ''ML_AIR_MANIFEST_ALLOWED_KEY_IDS'' []) in
          if raw = [] then []
          else filter (\<lambda>s. s \<noteq> []) (map strip (split_on CHR '','' raw))))"

fun managed_keyset_loop :: "world \<Rightarrow> pydict \<Rightarrow> (string \<times> string) list \<Rightarrow> (string \<times> string) list" where
  "managed_keyset_loop w [] out = out"
| "managed_keyset_loop w ((k, v) # rest) out =
     (let ks = strip k; vs0 = strip (py_str v);
          vs = (if startswith vs0 ''env:'' then strip (getenv w (strip (drop 4 vs0)) []) else vs0)
      in managed_keyset_loop w rest (if ks \<noteq> [] \<and> vs \<noteq> [] then dset ks vs out else out))"

definition managed_keyset :: "ext \<Rightarrow> world \<Rightarrow> string \<Rightarrow> (string \<times> string) list" where
  "managed_keyset X w kind =
     (case dget (managed_keys_blob X w) kind of
        VDict d \<Rightarrow> managed_keyset_loop w d [] | _ \<Rightarrow> [])"

definition manifest_verify_key :: "ext \<Rightarrow> world \<Rightarrow> string \<Rightarrow> string option" where
  "manifest_verify_key X w key_id =
     (let managed_active =
            strip (py_str (dget_or (managed_keys_blob X w) ''active_key_id'' (VStr [])));
          env_active = strip (getenv w ''ML_AIR_MANIFEST_ACTIVE_KEY_ID'' ''v1'');
          active = (if managed_active \<noteq> [] then managed_active
                    else if env_active \<noteq> [] then env_active else ''v1'');
          default_key = getenv w ''ML_AIR_MANIFEST_SIGNING_KEY'' ''mlair-dev-manifest-signing-key'';
          managed = managed_keyset X w ''hmac_keys'';
          strict = strict_key_lifecycle X w;
          raw = strip (getenv w ''ML_AIR_MANIFEST_SIGNING_KEYS_JSON'' [])
      in if managed \<noteq> [] then
           (if strict \<and> active \<notin> set (dkeys managed) then None else map_of managed key_id)
         else if raw = [] then
           (if strict then None
            else if key_id = active \<or> key_id = ''v1'' then Some default_key else None)
         else (case x_loads X raw of
             Some (VDict d) \<Rightarrow>
               (case dget d key_id of
                  VNone \<Rightarrow> if key_id = active \<and> \<not> strict then Some default_key else None
                | v \<Rightarrow> some_nonempty (strip (py_str v)))
           | _ \<Rightarrow> if key_id = active then Some default_key else None))"

text \<open>\<open>s.replace("\\n", "\n")\<close>: the two characters backslash, n become a line break.\<close>

fun unescape_nl :: "string \<Rightarrow> string" where
  "unescape_nl (a # b # s) =
     (if a = backslash \<and> b = CHR ''n'' then char_of (10::nat) # unescape_nl s
      else a # unescape_nl (b # s))"
| "unescape_nl s = s"

definition manifest_verify_public_key_for_kid :: "ext \<Rightarrow> world \<Rightarrow> string \<Rightarrow> string option" where
  "manifest_verify_public_key_for_kid X w key_id =
     (let managed = managed_keyset X w ''ed25519_public_keys'' in
      if managed \<noteq> [] then
        some_nonempty (unescape_nl
          (strip (case map_of managed key_id of None \<Rightarrow> [] | Some v \<Rightarrow> v)))
      else
        (let raw = strip (getenv w ''ML_AIR_MANIFEST_ED25519_PUBLIC_KEYS_JSON'' []);
             from_json =
               (if raw = [] then []
                else (case x_loads X raw of
                    Some (VDict d) \<Rightarrow>
                      (if truthy (dget d key_id)
                       then unescape_nl (strip (py_str (dget d key_id))) else [])
                  | _ \<Rightarrow> []));
             single = unescape_nl (strip (getenv w ''ML_AIR_MANIFEST_ED25519_PUBLIC_KEY'' []))
         in if from_json \<noteq> [] then Some from_json else some_nonempty single))"

definition verify_manifest_signature ::
    "ext \<Rightarrow> world \<Rightarrow> string \<Rightarrow> string \<Rightarrow> string \<Rightarrow> pydict \<Rightarrow> bool" where
  "verify_manifest_signature X w algorithm key_id signature payload =
     (let allowed = allowed_key_ids X w; text = x_dumps X (VDict payload) in
      if allowed \<noteq> [] \<and> key_id \<notin> set allowed then False
      else if algorithm = ''ed25519'' then
        (case manifest_verify_public_key_for_kid X w key_id of None \<Rightarrow> False
         | Some pem \<Rightarrow> x_ed25519 X pem signature text)
      else if algorithm \<noteq> ''hmac-sha256'' then False
      else (case manifest_verify_key X w key_id of None \<Rightarrow> False
        | Some key \<Rightarrow> key \<noteq> [] \<and> x_hmac X key text = signature))"

subsection \<open>Checks on a manifest\<close>

definition manifest_satisfies_required_artifacts :: "pydict \<Rightarrow> string list \<Rightarrow> bool" where
  "manifest_satisfies_required_artifacts payload required =
     (if required = [] then True
      else (case dget payload ''artifacts'' of
          VList items \<Rightarrow>
            (let blobs = concat (map (\<lambda>item. case item of
                     VDict d \<Rightarrow> [py_str (dget_or d ''path'' (VStr [])),
                                 py_str (dget_or d ''uri'' (VStr []))]
                   | _ \<Rightarrow> []) items)
             in list_all (\<lambda>marker. list_ex (contains marker) blobs) required)
        | _ \<Rightarrow> False))"

definition required_manifest_keys :: "string list" where
  "required_manifest_keys =
     [''run_id'', ''task_id'', ''status'', ''pipeline_id'', ''attempt'', ''artifacts'',
      ''lineage'', ''finished_at'']"

definition valid_attempt :: "pyval \<Rightarrow> bool" where
  "valid_attempt v = (case v of VInt i \<Rightarrow> 1 \<le> i | VBool b \<Rightarrow> b | _ \<Rightarrow> False)"

definition manifest_payload_valid_for_task :: "string \<Rightarrow> string \<Rightarrow> pydict \<Rightarrow> bool" where
  "manifest_payload_valid_for_task parent key payload \<longleftrightarrow>
     list_all (\<lambda>k. k \<in> set (dkeys payload)) required_manifest_keys \<and>
     py_str (dget_or payload ''run_id'' (VStr [])) = parent \<and>
     py_str (dget_or payload ''task_id'' (VStr [])) = full_id parent key \<and>
     upper (py_str (dget_or payload ''status'' (VStr []))) = ''SUCCESS'' \<and>
     valid_attempt (dget payload ''attempt'') \<and>
     (case dget payload ''artifacts'' of
        VList items \<Rightarrow> list_all (\<lambda>item. case item of
            VDict d \<Rightarrow> strip (py_str (dget_or d ''path'' (VStr []))) \<noteq> [] | _ \<Rightarrow> False) items
      | _ \<Rightarrow> False) \<and>
     as_dict (dget payload ''lineage'') \<noteq> None \<and>
     strip (py_str (dget_or payload ''finished_at'' (VStr []))) \<noteq> []"

subsection \<open>The gate\<close>

text \<open>
  The four conditions on an upstream task that is to be skipped, in the order the code computes
  them. The environment does not change during the call, so the switches and the keys are read
  in the state at its start.
\<close>

type_synonym skip_flags = "bool \<times> bool \<times> bool \<times> bool"

definition skip_check ::
    "ext \<Rightarrow> world \<Rightarrow> string \<Rightarrow> pyval \<Rightarrow> string list \<Rightarrow> string \<Rightarrow> skip_flags py" where
  "skip_check X w parent cfg parent_success key =
     (let success_ok = key \<in> set parent_success;
          artifact_ok = (\<not> require_artifact_evidence X w \<or> has_parent_artifact_evidence X parent key);
          checksum_ok = (\<not> require_checksum X w \<or> has_parent_checksum_evidence X parent key)
      in pbind
           (if require_signed_manifest X w then
              pbind (load_parent_task_manifest X parent key) (\<lambda>m.
              pbind (required_artifacts_for_task cfg key) (\<lambda>required.
              ok (case m of None \<Rightarrow> False
                  | Some (alg, kid, sig, payload) \<Rightarrow>
                      verify_manifest_signature X w alg kid sig payload \<and>
                      manifest_payload_valid_for_task parent key payload \<and>
                      manifest_satisfies_required_artifacts payload required)))
            else ok True)
           (\<lambda>manifest_ok. ok (success_ok, artifact_ok, checksum_ok, manifest_ok)))"

definition block_reason :: "ext \<Rightarrow> world \<Rightarrow> skip_flags \<Rightarrow> string" where
  "block_reason X w c = (case c of (success_ok, artifact_ok, checksum_ok, manifest_ok) \<Rightarrow>
     if success_ok \<and> require_artifact_evidence X w \<and> \<not> artifact_ok
     then ''missing_parent_artifact_evidence''
     else if success_ok \<and> artifact_ok \<and> require_checksum X w \<and> \<not> checksum_ok
     then ''missing_parent_checksum_evidence''
     else if success_ok \<and> artifact_ok \<and> checksum_ok \<and> require_signed_manifest X w \<and> \<not> manifest_ok
     then ''missing_or_invalid_signed_manifest''
     else ''missing_parent_success'')"

fun gate_loop ::
    "ext \<Rightarrow> world \<Rightarrow> string \<Rightarrow> string \<Rightarrow> pyval \<Rightarrow> string list \<Rightarrow> string list \<Rightarrow> string list \<Rightarrow> bool
     \<Rightarrow> world \<Rightarrow> bool py \<times> world" where
  "gate_loop X w0 run_id parent cfg psucc skipped [] gating_ok w = (ok gating_ok, w)"
| "gate_loop X w0 run_id parent cfg psucc skipped (key # keys) gating_ok w =
     (let full = full_id run_id key in
      if key \<in> set skipped then
        (case skip_check X w0 parent cfg psucc key of
           Inl e \<Rightarrow> (Inl e, w)
         | Inr c \<Rightarrow>
             if c = (True, True, True, True)
             then gate_loop X w0 run_id parent cfg psucc skipped keys gating_ok
                    (upsert_or_transition_task full run_id ''SUCCESS'' 1 None w)
             else
               (let reason = block_reason X w0 c;
                    w1 = upsert_or_transition_task full run_id ''FAILED'' 1 None w;
                    w2 = effect (Metric ''manifest_verify_failure'' [reason]) w1;
                    w3 = update_task_telemetry full None (Some (w_now w2))
                           (Some (''replay_gating_blocked_'' @ reason @ '':'' @ key))
                           None None None w2
                in gate_loop X w0 run_id parent cfg psucc skipped keys False w3))
      else gate_loop X w0 run_id parent cfg psucc skipped keys gating_ok
             (upsert_or_transition_task full run_id ''PENDING'' 1 None w))"

definition init_replay_tasks_with_gating ::
    "ext \<Rightarrow> string \<Rightarrow> string \<Rightarrow> plan \<Rightarrow> pyval \<Rightarrow> string list \<Rightarrow> string list \<Rightarrow> world
     \<Rightarrow> bool py \<times> world" where
  "init_replay_tasks_with_gating X run_id parent plan cfg selected skipped w =
     gate_loop X w run_id parent cfg (load_parent_success_tasks parent w) skipped
       (sort (dkeys plan)) True w"

subsection \<open>What the gate guarantees\<close>

lemma evolves_gate_loop:
  "evolves w (snd (gate_loop X w0 rid parent cfg ps skipped keys g w))"
proof (induction keys arbitrary: g w)
  case Nil
  then show ?case by simp
next
  case (Cons key keys)
  note step = evolves_trans [OF _ Cons.IH]
  have "evolves w (update_task_telemetry tid s f e d c m (effect x (upsert_or_transition_task
      tid' rid st a p w)))" for tid s f e d c m x tid' st a p
    by (rule evolves_trans [OF _ evolves_telemetry]) (simp add: evolves_upsert)
  with step evolves_upsert show ?case
    by (auto simp: Let_def split: sum.split)
qed

lemma evolves_gating: "evolves w (snd (init_replay_tasks_with_gating X rid p plan cfg sel sk w))"
  by (simp add: init_replay_tasks_with_gating_def evolves_gate_loop)

lemma gate_loop_frame [frame]:
  "w_runs (snd (gate_loop X w0 rid parent cfg ps skipped keys g w)) = w_runs w"
  "w_queues (snd (gate_loop X w0 rid parent cfg ps skipped keys g w)) = w_queues w"
  "w_env (snd (gate_loop X w0 rid parent cfg ps skipped keys g w)) = w_env w"
  by (induction keys arbitrary: g w) (simp_all add: Let_def split: sum.split)

lemma gate_loop_result:
  assumes "gate_loop X w0 rid parent cfg ps skipped keys g w = (Inr b, w')"
  shows "b \<longleftrightarrow> g \<and> (\<forall>key \<in> set keys \<inter> set skipped.
      skip_check X w0 parent cfg ps key = Inr (True, True, True, True))"
  using assms
  by (induction keys arbitrary: g w)
    (auto simp: Let_def split: if_splits sum.splits)

text \<open>
  C26. The replay gate opens exactly when, for every upstream task it would skip, the parent run
  succeeded in that task and left the evidence the switches ask for; a signed manifest, when one
  is required, must verify under a configured key, describe this very task of the parent as
  successful and hold the required artifacts.
\<close>

theorem gate_open_iff:
  assumes "init_replay_tasks_with_gating X rid parent plan cfg sel skipped w = (Inr b, w')"
  shows "b \<longleftrightarrow> (\<forall>key \<in> set (dkeys plan) \<inter> set skipped.
      key \<in> set (load_parent_success_tasks parent w) \<and>
      (require_artifact_evidence X w \<longrightarrow> has_parent_artifact_evidence X parent key) \<and>
      (require_checksum X w \<longrightarrow> has_parent_checksum_evidence X parent key) \<and>
      (require_signed_manifest X w \<longrightarrow> (\<exists>alg kid sig payload required.
          load_parent_task_manifest X parent key = Inr (Some (alg, kid, sig, payload)) \<and>
          required_artifacts_for_task cfg key = Inr required \<and>
          verify_manifest_signature X w alg kid sig payload \<and>
          manifest_payload_valid_for_task parent key payload \<and>
          manifest_satisfies_required_artifacts payload required)))"
proof -
  have check: "skip_check X w parent cfg ps key = Inr (True, True, True, True) \<longleftrightarrow>
      key \<in> set ps \<and>
      (require_artifact_evidence X w \<longrightarrow> has_parent_artifact_evidence X parent key) \<and>
      (require_checksum X w \<longrightarrow> has_parent_checksum_evidence X parent key) \<and>
      (require_signed_manifest X w \<longrightarrow> (\<exists>alg kid sig payload required.
          load_parent_task_manifest X parent key = Inr (Some (alg, kid, sig, payload)) \<and>
          required_artifacts_for_task cfg key = Inr required \<and>
          verify_manifest_signature X w alg kid sig payload \<and>
          manifest_payload_valid_for_task parent key payload \<and>
          manifest_satisfies_required_artifacts payload required))" for ps key
    by (fastforce simp: skip_check_def pbind_eq_Inr Let_def split: option.splits)
  from assms have "b \<longleftrightarrow> (\<forall>key \<in> set (dkeys plan) \<inter> set skipped.
      skip_check X w parent cfg (load_parent_success_tasks parent w) key
        = Inr (True, True, True, True))"
    by (auto simp: init_replay_tasks_with_gating_def dest: gate_loop_result)
  then show ?thesis by (simp only: check)
qed

end
