(* ===== verification/RetryPolicy.thy ===== *)
theory RetryPolicy
  imports PyValue
begin

text \<open>
  Model of \<^verbatim>\<open>sdk/retry_policy.py\<close>, the backoff of failed tasks. The delay is the exact
  quotient (the code's float division rounds it); attempts start at 1.
\<close>

definition retry_delay_ms :: "int \<Rightarrow> int \<Rightarrow> int" where
  "retry_delay_ms backoff_ms current_attempt =
     max 0 backoff_ms * 2 ^ nat (max 1 current_attempt - 1)"

definition compute_retry_delay_seconds :: "int \<Rightarrow> int \<Rightarrow> rat" where
  "compute_retry_delay_seconds backoff_ms current_attempt =
     of_int (retry_delay_ms backoff_ms current_attempt) / 1000"

definition should_schedule_retry :: "int \<Rightarrow> int \<Rightarrow> bool" where
  "should_schedule_retry current_attempt max_attempts = (current_attempt < max_attempts)"

definition next_retry_attempt :: "int \<Rightarrow> int" where
  "next_retry_attempt current_attempt = current_attempt + 1"

text \<open>Each attempt waits twice as long as the one before.\<close>

lemma retry_delay_doubles:
  "1 \<le> n \<Longrightarrow> compute_retry_delay_seconds b (n + 1) = 2 * compute_retry_delay_seconds b n"
proof -
  assume "1 \<le> n"
  then have "nat n = Suc (nat (n - 1))" by simp
  then have "(2::int) ^ nat n = 2 * 2 ^ nat (n - 1)" by (simp only: power_Suc)
  with \<open>1 \<le> n\<close> show ?thesis by (simp add: compute_retry_delay_seconds_def retry_delay_ms_def)
qed

lemma retry_delay_nonneg: "0 \<le> compute_retry_delay_seconds b n"
  by (simp add: compute_retry_delay_seconds_def retry_delay_ms_def)

text \<open>
  The attempts of one task: starting from \<open>attempt\<close>, each failure asks the policy for another.
  \<open>attempt_chain\<close> lists them; it is finite because the attempt grows towards the maximum.
\<close>

function attempt_chain :: "int \<Rightarrow> int \<Rightarrow> int list" where
  "attempt_chain attempt max_attempts =
     (if should_schedule_retry attempt max_attempts
      then attempt # attempt_chain (next_retry_attempt attempt) max_attempts
      else [attempt])"
  by pat_completeness auto
termination
  by (relation "measure (\<lambda>(a, m). nat (m - a))")
    (auto simp: should_schedule_retry_def next_retry_attempt_def)

declare attempt_chain.simps [simp del]

lemma attempt_chain_upto: "attempt_chain a m = (if a < m then [a..m] else [a])"
proof (induction a m rule: attempt_chain.induct)
  case (1 a m)
  show ?case
  proof (cases "a < m")
    case True
    then have "attempt_chain a m = a # attempt_chain (a + 1) m"
      by (simp add: attempt_chain.simps [of a m] should_schedule_retry_def next_retry_attempt_def)
    with 1 True show ?thesis
      by (cases "a + 1 < m") (auto simp: should_schedule_retry_def next_retry_attempt_def upto_rec1)
  next
    case False
    then show ?thesis
      by (simp add: attempt_chain.simps [of a m] should_schedule_retry_def)
  qed
qed


end
