(* ===== verification/HttpTask.thy ===== *)
theory HttpTask
  imports PyValue
begin

text \<open>
  Model of the configuration part of \<^verbatim>\<open>sdk/http_task_contract.py\<close>: which pipeline tasks are
  HTTP tasks and the normalised request block the scheduler puts on the queue. The network call
  itself (\<open>execute_http_task\<close>) is not modelled here.
\<close>

definition normalize_http_block :: "pydict \<Rightarrow> pydict option py" where
  "normalize_http_block item =
     (case dget item ''http'' of
        VDict block \<Rightarrow>
          (let meth = (let m = upper (strip (str_or (dget block ''method'') ''POST''))
                       in if m = [] then ''POST'' else m);
               url = strip (str_or (dget block ''url'') []);
               headers = dict_or_empty (dget block ''headers'');
               body0 = dget block ''json_body'';
               body = (if body0 = VNone \<and> ''body'' \<in> set (dkeys block) then dget block ''body''
                       else body0);
               jp = strip (str_or (por (dget block ''json_body_jsonpath'')
                                       (dget block ''body_jsonpath'')) []);
               timeout = dget_or block ''timeout_seconds''
                           (dget_or block ''timeout_sec'' (VInt 30));
               secret = strip (str_or (por (dget block ''secret_env'')
                                           (dget block ''authorization_secret_env'')) [])
           in pbind (py_int timeout) (\<lambda>t. ok (Some
                [(''method'', VStr meth), (''url'', VStr url),
                 (''headers'', VDict (map (\<lambda>(k, v). (k, VStr (py_str v))) headers)),
                 (''json_body'', body),
                 (''json_body_jsonpath'', if jp = [] then VNone else VStr jp),
                 (''timeout_seconds'', VInt (max 1 (min t 300))),
                 (''secret_env'', if secret = [] then VNone else VStr secret)])))
      | _ \<Rightarrow> ok None)"

definition task_is_http :: "pydict \<Rightarrow> bool py" where
  "task_is_http item =
     (if lower (strip (str_or (por (dget item ''type'') (dget item ''kind'')) [])) = ''http''
      then ok True
      else pbind (normalize_http_block item) (\<lambda>b. ok (b \<noteq> None)))"

text \<open>The block the scheduler sends always has a timeout between 1 and 300 seconds.\<close>

lemma normalized_timeout:
  assumes "normalize_http_block item = ok (Some b)"
  shows "\<exists>t. dget b ''timeout_seconds'' = VInt t \<and> 1 \<le> t \<and> t \<le> 300"
  using assms
  by (auto simp: normalize_http_block_def pbind_eq_Inr dget_def Let_def split: pyval.splits)

lemma normalized_method:
  assumes "normalize_http_block item = ok (Some b)"
  shows "\<exists>m. dget b ''method'' = VStr m \<and> m \<noteq> []"
  using assms
  by (auto simp: normalize_http_block_def pbind_eq_Inr dget_def Let_def split: pyval.splits)

end
