(* ===== verification/SchedRun.thy ===== *)
theory SchedRun
  imports Replay RetryPolicy HttpTask
begin

text \<open>
  Model of the scheduling half of \<^verbatim>\<open>scheduler/main.py\<close>: putting a task on its queue, the
  scheduling loop of a run, the synchronisation of the run's status, the lease reaper, the choice
  of the next run and the two handlers of the main loop, for a new run and for a finished task.
  An exception is the \<open>Inl\<close> result, paired with the state it leaves behind: every statement of
  the code commits on its own, so what was done before the exception stays done.
\<close>

record run_event =
  e_run :: string
  e_data :: pydict

abbreviation e_config :: "run_event \<Rightarrow> pyval" where
  "e_config ev \<equiv> dget (e_data ev) ''config_snapshot''"

definition opt_str :: "pyval \<Rightarrow> string option" where
  "opt_str v = (case v of VStr s \<Rightarrow> Some s | _ \<Rightarrow> None)"

definition of_opt_str :: "string option \<Rightarrow> pyval" where
  "of_opt_str s = (case s of None \<Rightarrow> VNone | Some x \<Rightarrow> VStr x)"

subsection \<open>Putting a task on its queue\<close>

definition http_task_config_for_key :: "pyval \<Rightarrow> string \<Rightarrow> pydict option py" where
  "http_task_config_for_key cfg key =
     (case task_def_for_key cfg key of None \<Rightarrow> ok None
      | Some item \<Rightarrow>
          if item = [] then ok None
          else pbind (task_is_http item)
                 (\<lambda>h. if h then normalize_http_block item else ok None))"

definition event_task_key :: "string \<Rightarrow> string \<Rightarrow> string" where
  "event_task_key rid full =
     (if startswith full (rid @ '':'') then drop (length rid + 1) full
      else last (split_once CHR '':'' full))"

fun copy_trace_headers :: "string list \<Rightarrow> pydict \<Rightarrow> pydict \<Rightarrow> pydict" where
  "copy_trace_headers [] src out = out"
| "copy_trace_headers (k # ks) src out =
     (case dget src k of
        VStr v \<Rightarrow> copy_trace_headers ks src (if strip v = [] then out else dset k (VStr (strip v)) out)
      | _ \<Rightarrow> copy_trace_headers ks src out)"

definition task_ready_message ::
    "run_event \<Rightarrow> string \<Rightarrow> int \<Rightarrow> string option \<Rightarrow> pydict option \<Rightarrow> world \<Rightarrow> pydict" where
  "task_ready_message ev full attempt plugin http_task w =
     (let d = e_data ev in
      copy_trace_headers [''traceparent'', ''tracestate''] d
        [(''event_type'', VStr ''task_ready''), (''run_id'', VStr (e_run ev)),
         (''task_id'', VStr full), (''attempt'', VInt attempt),
         (''tenant_id'', dget_or d ''tenant_id'' (VStr ''default'')),
         (''project_id'', dget_or d ''project_id'' (VStr ''default_project'')),
         (''pipeline_id'', dget_or d ''pipeline_id'' (VStr ''demo_pipeline'')),
         (''priority'', dget_or d ''priority'' (VStr ''normal'')),
         (''trace_id'', dget d ''trace_id''),
         (''plugin_name'', if http_task \<noteq> None then VNone
                           else por (of_opt_str plugin) (dget d ''plugin_name'')),
         (''task_type'', VStr (if http_task \<noteq> None then ''http'' else ''plugin'')),
         (''http_task'', case http_task of None \<Rightarrow> VNone | Some b \<Rightarrow> VDict b),
         (''context'', dget_or d ''context'' (VDict [])),
         (''override_config'', dget_or d ''override_config'' (VDict [])),
         (''pipeline_version_id'', dget d ''pipeline_version_id''),
         (''config_snapshot'', dget d ''config_snapshot''),
         (''replay_from_task_id'', dget d ''replay_from_task_id''),
         (''created_at'', VInt (w_now w))])"

definition enqueue_task_event ::
    "run_event \<Rightarrow> string \<Rightarrow> int \<Rightarrow> world \<Rightarrow> bool py \<times> world" where
  "enqueue_task_event ev full attempt w =
     (let rid = e_run ev; key = event_task_key rid full;
          plugin = plugin_for_task_key (e_config ev) key
      in case http_task_config_for_key (e_config ev) key of
           Inl e \<Rightarrow> (Inl e, w)
         | Inr http_task \<Rightarrow>
            (let external = (task_execution_mode w = ''external'' \<and> http_task = None);
                 w1 = upsert_or_transition_task full rid
                        (if external then ''QUEUED'' else ''RUNNING'') attempt plugin w
             in if external then
                  (if plugin = None then
                     (let w2 = upsert_or_transition_task full rid ''FAILED'' attempt plugin w1;
                          w3 = update_task_telemetry full None (Some (w_now w2))
                                 (Some ''missing_task_plugin_external_mode'') None None None w2
                      in (ok False, w3))
                   else (ok True, w1))
                else (ok True,
                      rpush (queue_name_for_priority
                               (dget_or (e_data ev) ''priority'' (VStr ''normal'')))
                        (Json (VDict (task_ready_message ev full attempt plugin http_task w1))) w1)))"

subsection \<open>Status of the run\<close>

definition sync_run_status_after_task ::
    "ext \<Rightarrow> string \<Rightarrow> plan \<Rightarrow> string list \<Rightarrow> world \<Rightarrow> world" where
  "sync_run_status_after_task X run_id plan selected w =
     (let states = list_run_task_states run_id w;
          w1 = snd (cancel_unreachable_downstream_tasks run_id plan selected states w);
          sel = map (\<lambda>key. fst (state_of states key)) selected
      in if sel \<noteq> [] \<and> list_all (\<lambda>s. s = ''SUCCESS'') sel
         then transition_run_status (x_loads X) run_id ''SUCCESS'' w1
         else if list_ex (\<lambda>s. s = ''FAILED'') sel
         then transition_run_status (x_loads X) run_id ''FAILED'' w1
         else w1)"

subsection \<open>The scheduling loop\<close>

fun sched_loop ::
    "run_event \<Rightarrow> plan \<Rightarrow> states \<Rightarrow> int \<Rightarrow> string list \<Rightarrow> int \<Rightarrow> bool \<Rightarrow> world
     \<Rightarrow> (int \<times> bool) py \<times> world" where
  "sched_loop ev plan states max_parallel [] scheduled failed w = (ok (scheduled, failed), w)"
| "sched_loop ev plan states max_parallel (key # keys) scheduled failed w =
     (case state_of states key of (st, attempt) \<Rightarrow>
        if st \<noteq> ''PENDING'' then sched_loop ev plan states max_parallel keys scheduled failed w
        else if list_ex (\<lambda>dep. fst (state_of states dep) \<noteq> ''SUCCESS'') (deps_of plan key)
        then sched_loop ev plan states max_parallel keys scheduled failed w
        else if int (project_running_tasks (dget_or (e_data ev) ''tenant_id'' (VStr ''default''))
                 (dget_or (e_data ev) ''project_id'' (VStr ''default_project'')) w) \<ge> max_parallel
        then (ok (scheduled, failed), w)
        else (case enqueue_task_event ev (full_id (e_run ev) key) attempt w of
                (Inl e, w1) \<Rightarrow> (Inl e, w1)
              | (Inr done, w1) \<Rightarrow>
                  sched_loop ev plan states max_parallel keys
                    (if done then scheduled + 1 else scheduled) (failed \<or> \<not> done) w1))"

definition schedule_ready_tasks :: "ext \<Rightarrow> run_event \<Rightarrow> world \<Rightarrow> int py \<times> world" where
  "schedule_ready_tasks X ev w =
     (let rid = e_run ev in
      if run_is_cancelled rid w then (ok 0, snd (cancel_tasks_for_run rid False w))
      else (case build_task_plan (e_config ev) of Inl e \<Rightarrow> (Inl e, w)
        | Inr plan \<Rightarrow>
           (let selected = fst (apply_replay_filter plan
                  (opt_str (dget (e_data ev) ''replay_from_task_id'')) rid);
                states = list_run_task_states rid w
            in case py_int (dget_or (e_data ev) ''max_parallel_tasks'' (VInt 1)) of
                 Inl e \<Rightarrow> (Inl e, w)
               | Inr max_parallel \<Rightarrow>
                  (case sched_loop ev plan states max_parallel (sort selected) 0 False w of
                     (Inl e, w1) \<Rightarrow> (Inl e, w1)
                   | (Inr (scheduled, failed), w1) \<Rightarrow>
                       (ok scheduled,
                        if failed then sync_run_status_after_task X rid plan selected w1 else w1)))))"

subsection \<open>Leases\<close>

text \<open>
  \<open>_load_run_event_for_scheduler\<close>. A \<open>jsonb\<close> column in text form is decoded; a configuration that
  does not decode is \<open>None\<close>, a context or override that is not a dict is empty.
\<close>

definition decode_column :: "ext \<Rightarrow> pyval \<Rightarrow> pyval \<Rightarrow> pyval" where
  "decode_column X bad v =
     (case v of VStr s \<Rightarrow> (case x_loads X s of None \<Rightarrow> bad | Some u \<Rightarrow> u) | _ \<Rightarrow> v)"

definition load_run_event_for_scheduler :: "ext \<Rightarrow> string \<Rightarrow> world \<Rightarrow> run_event option" where
  "load_run_event_for_scheduler X run_id w =
     (case run_find w run_id of None \<Rightarrow> None
      | Some r \<Rightarrow> Some \<lparr>e_run = r_id r, e_data =
          [(''run_id'', VStr (r_id r)), (''tenant_id'', VStr (r_tenant r)),
           (''project_id'', VStr (r_project r)), (''pipeline_id'', VStr (r_pipeline r)),
           (''priority'', VStr (opt_or (r_priority r) ''normal'')),
           (''max_parallel_tasks'', VInt (if r_max_parallel r = 0 then 1 else r_max_parallel r)),
           (''pipeline_version_id'', of_opt_str (r_version r)),
           (''config_snapshot'', decode_column X VNone (r_config r)),
           (''replay_from_task_id'', of_opt_str (r_replay_from r)),
           (''replay_of_run_id'', of_opt_str (r_replay_of r)),
           (''context'', VDict (dict_or_empty (decode_column X (VDict []) (r_context r)))),
           (''override_config'', VDict (dict_or_empty (decode_column X (VDict []) (r_override r)))),
           (''plugin_name'', of_opt_str (r_plugin_name r)),
           (''trace_id'', VNone)]\<rparr>)"

definition lease_expired :: "world \<Rightarrow> task_row \<Rightarrow> bool" where
  "lease_expired w t =
     (t_status t = ''RUNNING'' \<and>
      (case t_lease_expires t of None \<Rightarrow> False | Some e \<Rightarrow> e < w_now w))"

definition reset_expired :: "world \<Rightarrow> world" where
  "reset_expired w =
     update_tasks (lease_expired w)
       (\<lambda>t. t\<lparr>t_status := ''PENDING'', t_leased_by := None, t_lease_expires := None,
              t_updated := w_now w\<rparr>) w"

text \<open>
  The runs of the returned rows are visited in some order (the code iterates over a set); the
  model takes the order of the rows. An exception ends the call and the main loop logs it.
\<close>

fun reap_runs :: "ext \<Rightarrow> string list \<Rightarrow> world \<Rightarrow> unit py \<times> world" where
  "reap_runs X [] w = (ok (), w)"
| "reap_runs X (rid # rids) w =
     (case load_run_event_for_scheduler X rid w of
        None \<Rightarrow> reap_runs X rids w
      | Some ev \<Rightarrow> (case schedule_ready_tasks X ev w of
            (Inl e, w1) \<Rightarrow> (Inl e, w1)
          | (Inr n, w1) \<Rightarrow> reap_runs X rids w1))"

definition requeue_expired_leases :: "ext \<Rightarrow> world \<Rightarrow> nat py \<times> world" where
  "requeue_expired_leases X w =
     (if task_execution_mode w \<noteq> ''external'' then (ok 0, w)
      else (let run_ids = remdups (map t_run (filter (lease_expired w) (w_tasks w)))
            in case reap_runs X run_ids (reset_expired w) of
                 (Inl e, w1) \<Rightarrow> (Inl e, w1)
               | (Inr _, w1) \<Rightarrow> (ok (length run_ids), w1)))"

subsection \<open>The next run\<close>

definition placement_cluster :: "pydict \<Rightarrow> string" where
  "placement_cluster d =
     strip (str_or (dget (dict_or_empty (dget d ''placement'')) ''cluster_id'') [])"

definition runs_queue :: string where "runs_queue = ''mlair:runs:new''"

fun pop_next_run_loop :: "nat \<Rightarrow> string \<Rightarrow> world \<Rightarrow> msg option py \<times> world" where
  "pop_next_run_loop 0 local_cluster w = (ok None, w)"
| "pop_next_run_loop (Suc n) local_cluster w =
     (case lpop runs_queue w of
        (None, w1) \<Rightarrow> (ok None, w1)
      | (Some m, w1) \<Rightarrow>
          if local_cluster = [] then (ok (Some m), w1)
          else (case m of
              Garbled s \<Rightarrow> (ok (Some m), w1)
            | Json (VDict d) \<Rightarrow>
                (if placement_cluster d = [] \<or> placement_cluster d = local_cluster
                 then (ok (Some m), w1)
                 else pop_next_run_loop n local_cluster (rpush runs_queue m w1))
            | Json _ \<Rightarrow> (raise TypeError, w1)))"

definition pop_next_run :: "world \<Rightarrow> msg option py \<times> world" where
  "pop_next_run w =
     (let local_cluster = strip (getenv w ''ML_AIR_CLUSTER_ID'' []) in
      case parse_int (getenv w ''ML_AIR_SCHEDULER_CLUSTER_SCAN_LIMIT'' ''32'') of
        None \<Rightarrow> (raise (ValueError ''invalid literal for int()''), w)
      | Some n \<Rightarrow> pop_next_run_loop (nat (max 1 n)) local_cluster w)"

subsection \<open>A new run\<close>

definition run_event_of :: "ext \<Rightarrow> msg \<Rightarrow> run_event py" where
  "run_event_of X m =
     (case m of
        Json (VDict d) \<Rightarrow>
          (case map_of d ''run_id'' of
             None \<Rightarrow> raise (KeyError ''run_id'')
           | Some (VStr rid) \<Rightarrow> ok \<lparr>e_run = rid, e_data = dset ''trace_id'' (VStr (x_trace X d)) d\<rparr>
           | Some _ \<Rightarrow> raise TypeError)
      | Json _ \<Rightarrow> raise TypeError
      | Garbled s \<Rightarrow> raise (ValueError ''json''))"

fun init_run_tasks_loop :: "string \<Rightarrow> string list \<Rightarrow> string list \<Rightarrow> world \<Rightarrow> world" where
  "init_run_tasks_loop run_id skipped [] w = w"
| "init_run_tasks_loop run_id skipped (key # keys) w =
     init_run_tasks_loop run_id skipped keys
       (upsert_or_transition_task (full_id run_id key) run_id
          (if key \<in> set skipped then ''SUCCESS'' else ''PENDING'') 1 None w)"

definition init_run_tasks :: "string \<Rightarrow> plan \<Rightarrow> string list \<Rightarrow> string list \<Rightarrow> world \<Rightarrow> world" where
  "init_run_tasks run_id plan selected skipped w =
     init_run_tasks_loop run_id skipped (sort (dkeys plan)) w"

definition sleep_us :: "int \<Rightarrow> world \<Rightarrow> world" where
  "sleep_us us w = w\<lparr>w_now := w_now w + us\<rparr>"

definition start_run :: "ext \<Rightarrow> run_event \<Rightarrow> world \<Rightarrow> unit py \<times> world" where
  "start_run X ev w =
     (let rid = e_run ev; d = e_data ev;
          tenant = dget_or d ''tenant_id'' (VStr ''default'');
          project = dget_or d ''project_id'' (VStr ''default_project'');
          w1 = transition_run_status (x_loads X) rid ''RUNNING'' w
      in case build_task_plan (e_config ev) of Inl e \<Rightarrow> (Inl e, w1)
         | Inr plan \<Rightarrow>
            (case apply_replay_filter plan (opt_str (dget d ''replay_from_task_id'')) rid of
              (selected, skipped) \<Rightarrow>
                (let parent = dget d ''replay_of_run_id'';
                     (gate, w2) = (if truthy parent
                        then init_replay_tasks_with_gating X rid (py_str parent) plan (e_config ev)
                               selected skipped w1
                        else (ok True, init_run_tasks rid plan selected skipped w1))
                 in case gate of Inl e \<Rightarrow> (Inl e, w2)
                    | Inr False \<Rightarrow> (ok (), transition_run_status (x_loads X) rid ''FAILED'' w2)
                    | Inr True \<Rightarrow>
                        (case schedule_ready_tasks X ev w2 of
                           (Inl e, w3) \<Rightarrow> (Inl e, w3)
                         | (Inr scheduled, w3) \<Rightarrow>
                            (let w4 = (if scheduled > 0 then effect (Metric ''run_scheduled'' []) w3 else w3)
                             in (ok (), effect (Metric ''project_running_tasks''
                                  [nat_str (project_running_tasks tenant project w4)]) w4))))))"

definition consume_run :: "ext \<Rightarrow> msg \<Rightarrow> world \<Rightarrow> unit py \<times> world" where
  "consume_run X m w =
     (case run_event_of X m of Inl e \<Rightarrow> (Inl e, w)
      | Inr ev \<Rightarrow>
         (let d = e_data ev; rid = e_run ev;
              tenant = dget_or d ''tenant_id'' (VStr ''default'');
              project = dget_or d ''project_id'' (VStr ''default_project'')
          in case py_int (dget_or d ''max_parallel_tasks'' (VInt 1)) of Inl e \<Rightarrow> (Inl e, w)
             | Inr max_parallel \<Rightarrow>
                if run_is_cancelled rid w then (ok (), snd (cancel_tasks_for_run rid False w))
                else if int (project_running_tasks tenant project w) \<ge> max_parallel
                then (ok (), sleep_us 200000 (effect (Metric ''run_requeued'' [])
                       (rpush runs_queue m w)))
                else start_run X ev w))"

end
