(* ===== verification/SchedSafety.thy ===== *)
theory SchedSafety
  imports SchedRun "HOL-Library.Multiset"
begin

text \<open>
  Properties of the scheduling loop of \<open>SchedRun\<close>: it evolves the tables, it never takes more
  slots than the run's limit, it starts a task only when all its dependencies have succeeded, it
  leaves no startable task behind while a slot is free, and the choice of the next run loses
  no message.
\<close>

subsection \<open>Frames and evolution\<close>

lemma evolves_enqueue: "evolves w (snd (enqueue_task_event ev full a w))"
proof -
  note up = evolves_upsert evolves_trans [OF evolves_trans [OF evolves_upsert evolves_upsert]
      evolves_telemetry]
  show ?thesis
    by (auto simp: enqueue_task_event_def Let_def up split: sum.split)
qed

lemma evolves_sched_loop: "evolves w (snd (sched_loop ev plan sts mp keys n f w))"
proof (induction keys arbitrary: n f w)
  case Nil
  then show ?case by simp
next
  case (Cons key keys)
  show ?case
  proof (cases "enqueue_task_event ev (full_id (e_run ev) key) (snd (state_of sts key)) w")
    case (Pair r w1)
    then have "evolves w w1" using evolves_enqueue by (metis snd_conv)
    with Cons.IH Pair show ?thesis
      by (auto split: prod.split sum.split intro: evolves_trans)
  qed
qed

lemma evolves_sync: "evolves w (sync_run_status_after_task X rid plan sel w)"
  by (auto simp: sync_run_status_after_task_def Let_def
      intro: evolves_cancel_unreachable evolves_trans [OF evolves_cancel_unreachable evolves_transition_run])

lemma evolves_schedule: "evolves w (snd (schedule_ready_tasks X ev w))"
proof -
  have "evolves w w1" if "sched_loop ev plan sts mp keys n f w = (r, w1)" for plan sts mp keys n f r w1
    using that evolves_sched_loop by (metis snd_conv)
  then show ?thesis
    by (auto simp: schedule_ready_tasks_def Let_def evolves_cancel split: sum.split prod.split
        intro: evolves_trans [OF _ evolves_sync])
qed

lemma reset_expired_evolves: "evolves w (reset_expired w)"
  unfolding reset_expired_def
  by (rule evolves_update_tasks) (auto simp: task_kept_def lease_expired_def task_final_def)

lemma evolves_reap: "evolves w (snd (reap_runs X rids w))"
proof (induction rids arbitrary: w)
  case Nil
  then show ?case by simp
next
  case (Cons rid rids)
  have s: "evolves w w1" if "schedule_ready_tasks X ev w = (r, w1)" for ev r w1
    using that evolves_schedule by (metis snd_conv)
  then have "evolves w (snd (reap_runs X rids w1))" if "schedule_ready_tasks X ev w = (r, w1)"
    for ev r w1
    using that Cons.IH evolves_trans by blast
  with s Cons.IH show ?case
    by (auto split: option.split sum.split prod.split)
qed

lemma evolves_requeue: "evolves w (snd (requeue_expired_leases X w))"
proof -
  have "evolves w w1" if "reap_runs X ids (reset_expired w) = (r, w1)" for ids r w1
    using that evolves_reap evolves_trans [OF reset_expired_evolves] by (metis snd_conv)
  then show ?thesis
    by (auto simp: requeue_expired_leases_def Let_def split: prod.split sum.split)
qed

lemma evolves_init_loop: "evolves w (init_run_tasks_loop rid sk keys w)"
proof (induction keys arbitrary: w)
  case Nil
  then show ?case by simp
next
  case (Cons key keys)
  then show ?case by (auto intro: evolves_trans [OF evolves_upsert])
qed

lemma evolves_sleep [simp]: "evolves w (sleep_us n w)"
  by (rule evolves_same_tables) (simp_all add: sleep_us_def)

lemma evolves_start: "evolves w (snd (start_run X ev w))"
proof -
  let ?w1 = "transition_run_status (x_loads X) (e_run ev) ''RUNNING'' w"
  have t: "evolves w ?w1" by (rule evolves_transition_run)
  have g: "evolves w w2" if "init_replay_tasks_with_gating X r p pl c s k ?w1 = (b, w2)"
    for r p pl c s k b w2
    using that evolves_gating evolves_trans [OF t] by (metis snd_conv)
  have i: "evolves w (init_run_tasks r pl s k ?w1)" for r pl s k
    unfolding init_run_tasks_def by (rule evolves_trans [OF t evolves_init_loop])
  have sc: "evolves w w3" if "schedule_ready_tasks X ev w2 = (r, w3)" "evolves w w2" for r w2 w3
    using that evolves_schedule evolves_trans by (metis snd_conv)
  show ?thesis
    by (auto simp: start_run_def Let_def t i split: sum.split prod.split bool.split
        intro: evolves_trans [OF _ evolves_transition_run] dest: g sc [OF _ g] sc [OF _ i])
qed

lemma evolves_consume_run: "evolves w (snd (consume_run X m w))"
  by (auto simp: consume_run_def Let_def evolves_cancel evolves_start split: sum.split
      intro!: evolves_trans [OF _ evolves_sleep])

subsection \<open>Slots\<close>

lemma occupies_slot_cong:
  "w_runs w' = w_runs w \<Longrightarrow> w_env w' = w_env w \<Longrightarrow> occupies_slot w' tn pj = occupies_slot w tn pj"
  by (simp add: occupies_slot_def fun_eq_iff task_execution_mode_def getenv_def run_find_def)

lemma slots_update_le:
  assumes "\<And>t. p t \<Longrightarrow> occupies_slot w tn pj (f t) \<Longrightarrow> occupies_slot w tn pj t"
  shows "project_running_tasks tn pj (update_tasks p f w) \<le> project_running_tasks tn pj w"
proof -
  have o: "occupies_slot (update_tasks p f w) tn pj = occupies_slot w tn pj"
    by (rule occupies_slot_cong) simp_all
  have "length (filter (occupies_slot w tn pj) (map (\<lambda>t. if p t then f t else t) (w_tasks w)))
      \<le> length (filter (occupies_slot w tn pj) (w_tasks w))"
    by (rule length_filter_map_le) (use assms in \<open>auto split: if_splits\<close>)
  then show ?thesis by (simp add: project_running_tasks_def o) (simp add: update_tasks_def)
qed

lemma not_slot_status:
  "t_status t \<notin> {''QUEUED'', ''RUNNING''} \<Longrightarrow> \<not> occupies_slot w tn pj t"
  by (auto simp: occupies_slot_def)

text \<open>An upsert takes at most one slot, and none when the new status does not occupy one.\<close>

lemma slots_upsert_Suc:
  assumes "keys_unique w"
  shows "project_running_tasks tn pj (upsert_or_transition_task tid rid s a pl w)
      \<le> Suc (project_running_tasks tn pj w)"
proof -
  let ?o = "occupies_slot w tn pj"
  have o: "occupies_slot (upsert_or_transition_task tid rid s a pl w) tn pj = ?o"
    by (rule occupies_slot_cong) simp_all
  have "length (filter ?o (map (\<lambda>t. if t_id t = tid then conflict_update w s a pl t else t) (w_tasks w)))
      \<le> Suc (length (filter ?o (w_tasks w)))"
    by (rule length_filter_key_update) (use assms in \<open>simp add: keys_unique_def\<close>)
  then show ?thesis
    by (auto simp: project_running_tasks_def o)
      (auto simp: upsert_or_transition_task_def update_tasks_def split: option.split)
qed

lemma slots_upsert_le:
  assumes "s \<notin> {''QUEUED'', ''RUNNING''}"
  shows "project_running_tasks tn pj (upsert_or_transition_task tid rid s a pl w)
      \<le> project_running_tasks tn pj w"
proof (cases "task_find w tid")
  case None
  have o: "occupies_slot (upsert_or_transition_task tid rid s a pl w) tn pj = occupies_slot w tn pj"
    by (rule occupies_slot_cong) simp_all
  have "\<not> occupies_slot w tn pj (new_task w tid rid s a pl)"
    by (rule not_slot_status) (use assms in simp)
  with None show ?thesis
    by (simp add: project_running_tasks_def o) (simp add: upsert_or_transition_task_def)
next
  case (Some row)
  have "project_running_tasks tn pj (update_tasks (\<lambda>t. t_id t = tid) (conflict_update w s a pl) w)
      \<le> project_running_tasks tn pj w"
    by (rule slots_update_le) (use assms not_slot_status [of "conflict_update w s a pl _"] in auto)
  with Some show ?thesis by (simp add: upsert_or_transition_task_def)
qed

lemma slots_telemetry:
  "project_running_tasks tn pj (update_task_telemetry tid s f e d c m w)
     \<le> project_running_tasks tn pj w"
  unfolding update_task_telemetry_def
  by (rule slots_update_le) (auto simp: occupies_slot_def split: if_splits)

lemma slots_enqueue:
  assumes "keys_unique w"
  shows "project_running_tasks tn pj (snd (enqueue_task_event ev full a w))
      \<le> Suc (project_running_tasks tn pj w)"
proof -
  note one = slots_upsert_Suc [OF assms, of tn pj]
  have r: "project_running_tasks tn pj (rpush q m w') = project_running_tasks tn pj w'" for q m w'
    by (simp add: project_running_tasks_def occupies_slot_cong [of "rpush q m w'" w'])
  have "project_running_tasks tn pj (update_task_telemetry i1 s1 f1 e1 d1 c1 m1
      (upsert_or_transition_task i2 r2 ''FAILED'' a2 p2
        (upsert_or_transition_task i3 r3 s3 a3 p3 w))) \<le> Suc (project_running_tasks tn pj w)"
    for i1 s1 f1 e1 d1 c1 m1 i2 r2 a2 p2 i3 r3 s3 a3 p3
    by (rule order.trans [OF slots_telemetry order.trans [OF slots_upsert_le one]]) simp
  with one show ?thesis
    by (auto simp: enqueue_task_event_def Let_def r split: sum.split)
qed

abbreviation event_slots :: "run_event \<Rightarrow> world \<Rightarrow> nat" where
  "event_slots ev w \<equiv> project_running_tasks (dget_or (e_data ev) ''tenant_id'' (VStr ''default''))
     (dget_or (e_data ev) ''project_id'' (VStr ''default_project'')) w"

lemma slots_sched_loop:
  assumes "keys_unique w"
  shows "int (event_slots ev (snd (sched_loop ev plan sts mp keys n f w)))
      \<le> max (int (event_slots ev w)) mp"
  using assms
proof (induction keys arbitrary: n f w)
  case Nil
  then show ?case by simp
next
  case (Cons key keys)
  obtain st a where sa: "state_of sts key = (st, a)" by fastforce
  obtain r w1 where e: "enqueue_task_event ev (full_id (e_run ev) key) a w = (r, w1)" by fastforce
  have w1: "event_slots ev w1 \<le> Suc (event_slots ev w)"
    using slots_enqueue [OF Cons.prems] e by (metis snd_conv)
  have "keys_unique w1"
    using evolves_enqueue [of w ev "full_id (e_run ev) key" a] Cons.prems e
    by (simp add: evolves_def)
  note IH1 = Cons.IH [OF this] and IH = Cons.IH [OF Cons.prems]
  show ?case
  proof (cases "mp \<le> int (event_slots ev w)")
    case True
    with IH show ?thesis by (auto simp: sa e)
  next
    case False
    then have le: "max (int (event_slots ev w1)) mp \<le> max (int (event_slots ev w)) mp"
      using w1 by linarith
    have "int (event_slots ev (snd (sched_loop ev plan sts mp keys n' f' w1)))
        \<le> max (int (event_slots ev w)) mp" for n' f'
      using IH1 le by (rule order.trans)
    with le IH False show ?thesis
      by (auto simp: sa e split: sum.split)
  qed
qed

lemma slots_cancel:
  "project_running_tasks tn pj (snd (cancel_tasks_for_run rid b w)) \<le> project_running_tasks tn pj w"
  unfolding cancel_tasks_for_run_def Let_def snd_conv
  by (rule slots_update_le) (auto simp: occupies_slot_def split: if_splits)

lemma slots_cancel_loop:
  "project_running_tasks tn pj (snd (cancel_unreachable_loop rid plan sts keys n w))
     \<le> project_running_tasks tn pj w"
proof (induction keys arbitrary: n w)
  case Nil
  then show ?case by simp
next
  case (Cons key keys)
  have "project_running_tasks tn pj (upsert_or_transition_task tid rid ''CANCELLED'' a p w)
      \<le> project_running_tasks tn pj w" for tid a p
    by (rule slots_upsert_le) simp
  then have "project_running_tasks tn pj (snd (cancel_unreachable_loop rid plan sts keys n'
      (upsert_or_transition_task tid rid ''CANCELLED'' a p w))) \<le> project_running_tasks tn pj w"
    for n' tid a p
    using Cons.IH order.trans by blast
  with Cons.IH show ?case by (auto split: prod.split)
qed

text \<open>A run that leaves the active statuses gives its slots back.\<close>

lemma slots_transition_le:
  assumes "nx \<notin> {''PENDING'', ''RUNNING''}"
  shows "project_running_tasks tn pj (transition_run_status loads rid nx w)
      \<le> project_running_tasks tn pj w"
proof -
  have "occupies_slot w tn pj t" if "occupies_slot (transition_run_status loads rid nx w) tn pj t" for t
  proof -
    let ?w' = "transition_run_status loads rid nx w"
    have env: "task_execution_mode ?w' = task_execution_mode w"
      by (simp add: task_execution_mode_def getenv_def)
    note occ = that
    obtain r' where r': "run_find ?w' (t_run t) = Some r'" "r_status r' \<noteq> nx"
      using occ assms by (auto simp: occupies_slot_def split: option.splits)
    have "run_find ?w' (t_run t) = run_find w (t_run t)"
      using r' by (auto simp: transition_run_status_def Let_def run_find_update_key
          split: option.splits if_splits)
    with occ env show ?thesis
      by (cases "run_find w (t_run t)") (auto simp: occupies_slot_def split: if_splits)
  qed
  then show ?thesis
    unfolding project_running_tasks_def by (simp add: length_filter_mono)
qed

lemma slots_sync:
  "project_running_tasks tn pj (sync_run_status_after_task X rid plan sel w)
     \<le> project_running_tasks tn pj w"
proof -
  have c: "project_running_tasks tn pj (snd (cancel_unreachable_downstream_tasks rid plan sel sts w))
      \<le> project_running_tasks tn pj w" for sts
    by (simp add: cancel_unreachable_downstream_tasks_def slots_cancel_loop)
  have "project_running_tasks tn pj (transition_run_status loads rid nx
        (snd (cancel_unreachable_downstream_tasks rid plan sel sts w)))
      \<le> project_running_tasks tn pj w" if "nx \<notin> {''PENDING'', ''RUNNING''}" for loads nx sts
    using slots_transition_le [OF that] c by (rule order.trans)
  with c show ?thesis
    unfolding sync_run_status_after_task_def Let_def by (simp only: split: if_split) simp
qed

text \<open>
  C3. Scheduling a run never takes a project above its limit: afterwards the project holds at
  most \<open>max_parallel_tasks\<close> slots, or no more than it held before (the limit may have been
  lowered, or other runs of the project may have a higher one).
\<close>

theorem concurrency_bound:
  assumes "keys_unique w"
    and "py_int (dget_or (e_data ev) ''max_parallel_tasks'' (VInt 1)) = Inr mp"
  shows "int (event_slots ev (snd (schedule_ready_tasks X ev w))) \<le> max (int (event_slots ev w)) mp"
proof -
  have sync: "int (event_slots ev (sync_run_status_after_task X rid plan sel w1)) \<le> b"
    if "int (event_slots ev w1) \<le> b" for rid plan sel w1 b
    using that slots_sync order.trans of_nat_mono by blast
  have loop: "int (event_slots ev w1) \<le> max (int (event_slots ev w)) mp"
    if "sched_loop ev plan sts mp keys n f w = (r, w1)" for plan sts keys n f r w1
    using slots_sched_loop [OF assms(1)] that by (metis snd_conv)
  have "int (event_slots ev (snd (cancel_tasks_for_run (e_run ev) False w)))
      \<le> max (int (event_slots ev w)) mp"
    by (rule max.coboundedI1) (simp add: slots_cancel)
  then show ?thesis
    using assms(2)
    by (auto simp: schedule_ready_tasks_def Let_def split: sum.split prod.split
        dest!: loop intro: sync)
qed

subsection \<open>Dependencies\<close>

text \<open>A selected row of the snapshot the loop reads is a row of the table.\<close>

lemma list_run_task_states_row:
  assumes "map_of (list_run_task_states rid w) key = Some (st, a)"
  shows "\<exists>t \<in> set (w_tasks w). t_run t = rid \<and> task_key rid (t_id t) = key \<and>
      t_status t = st \<and> t_attempt t = a"
proof -
  let ?f = "\<lambda>t. dset (task_key rid (t_id t)) (t_status t, t_attempt t)"
  have "map_of d key = Some p \<or>
      (\<exists>t \<in> set ts. task_key rid (t_id t) = key \<and> (t_status t, t_attempt t) = p)"
    if "map_of (fold ?f ts d) key = Some p" for ts d p
    using that
  proof (induction ts arbitrary: d)
    case Nil
    then show ?case by simp
  next
    case (Cons t ts)
    have "map_of (?f t d) key = Some p \<or>
        (\<exists>t \<in> set ts. task_key rid (t_id t) = key \<and> (t_status t, t_attempt t) = p)"
      by (rule Cons.IH) (use Cons.prems in simp)
    then show ?case by (auto split: if_splits)
  qed
  from this [of "filter (\<lambda>t. t_run t = rid) (w_tasks w)" "[]" "(st, a)"] assms show ?thesis by (auto simp: list_run_task_states_def)
qed

lemma state_of_success:
  "fst (state_of (list_run_task_states rid w) key) = ''SUCCESS'' \<Longrightarrow>
   \<exists>t \<in> set (w_tasks w). t_run t = rid \<and> task_key rid (t_id t) = key \<and> t_status t = ''SUCCESS''"
  by (cases "map_of (list_run_task_states rid w) key")
    (auto simp: state_of_def dest!: list_run_task_states_row)

text \<open>\<open>starts w w' S\<close>: the tasks that have come to occupy a status of execution are in \<open>S\<close>.\<close>

definition starts :: "world \<Rightarrow> world \<Rightarrow> string set \<Rightarrow> bool" where
  "starts w w' S \<longleftrightarrow> (\<forall>tid s. task_status w' tid = Some s \<longrightarrow> s \<in> {''QUEUED'', ''RUNNING''} \<longrightarrow>
     task_status w tid \<noteq> Some s \<longrightarrow> tid \<in> S)"

lemma starts_refl [simp]: "starts w w S"
  by (simp add: starts_def)

lemma starts_trans: "starts a b S \<Longrightarrow> starts b c S \<Longrightarrow> starts a c S"
  by (fastforce simp: starts_def)

lemma starts_mono: "starts a b S \<Longrightarrow> S \<subseteq> T \<Longrightarrow> starts a b T"
  by (fastforce simp: starts_def)

lemma starts_same: "task_status b = task_status a \<Longrightarrow> starts a b S"
  by (simp add: starts_def)

lemma starts_upsert: "starts w (upsert_or_transition_task tid rid s a p w) {tid}"
  by (auto simp: starts_def upsert_task_status)

lemma starts_upsert_other:
  "s \<notin> {''QUEUED'', ''RUNNING''} \<Longrightarrow> starts w (upsert_or_transition_task tid rid s a p w) S"
  by (auto simp: starts_def upsert_task_status upsert_effect_def split: option.splits if_splits)

lemma task_status_telemetry [simp]:
  "task_status (update_task_telemetry tid s f e d c m w) = task_status w"
proof
  fix x
  show "task_status (update_task_telemetry tid s f e d c m w) x = task_status w x"
    by (cases "task_find w x")
      (simp_all add: task_status_def update_task_telemetry_def task_find_update)
qed

lemma task_status_frame [simp]:
  "task_status (rpush q m w) = task_status w" "task_status (effect e w) = task_status w"
  "task_status (transition_run_status loads rid s w) = task_status w"
  by (simp_all add: task_status_def fun_eq_iff)

lemma starts_enqueue: "starts w (snd (enqueue_task_event ev full a w)) {full}"
proof -
  have "starts w (upsert_or_transition_task full rid ''FAILED'' a p
      (upsert_or_transition_task full rid s a p w)) {full}" for rid s p
    by (rule starts_trans [OF starts_upsert starts_upsert_other]) simp
  then show ?thesis
    using starts_upsert
    by (auto simp: enqueue_task_event_def Let_def starts_def split: sum.split)
qed

definition startable :: "plan \<Rightarrow> states \<Rightarrow> string \<Rightarrow> bool" where
  "startable plan states key \<longleftrightarrow> fst (state_of states key) = ''PENDING'' \<and>
     (\<forall>dep \<in> set (deps_of plan key). fst (state_of states dep) = ''SUCCESS'')"

lemma starts_sched_loop:
  "starts w (snd (sched_loop ev plan sts mp keys n f w))
     (full_id (e_run ev) ` {key \<in> set keys. startable plan sts key})"
proof (induction keys arbitrary: n f w)
  case Nil
  then show ?case by simp
next
  case (Cons key keys)
  let ?S = "full_id (e_run ev) ` {k \<in> set (key # keys). startable plan sts k}"
  obtain st a where sa: "state_of sts key = (st, a)" by fastforce
  obtain r w1 where e: "enqueue_task_event ev (full_id (e_run ev) key) a w = (r, w1)" by fastforce
  have IH: "starts w' (snd (sched_loop ev plan sts mp keys n' f' w')) ?S" for n' f' w'
    by (rule starts_mono [OF Cons.IH]) auto
  show ?case
  proof (cases "startable plan sts key")
    case True
    then have "starts w w1 ?S"
      using starts_enqueue [of w ev "full_id (e_run ev) key" a] e by (auto intro: starts_mono)
    then have "starts w (snd (sched_loop ev plan sts mp keys n' f' w1)) ?S" for n' f'
      using IH starts_trans by blast
    with IH \<open>starts w w1 ?S\<close> show ?thesis by (auto simp: sa e split: sum.split)
  next
    case False
    then have "st \<noteq> ''PENDING'' \<or> list_ex (\<lambda>dep. fst (state_of sts dep) \<noteq> ''SUCCESS'') (deps_of plan key)"
      by (auto simp: startable_def sa list_ex_iff)
    with IH show ?thesis by (auto simp: sa)
  qed
qed

lemma starts_cancel_loop: "starts w (snd (cancel_unreachable_loop rid plan sts keys n w)) S"
proof (induction keys arbitrary: n w)
  case Nil
  then show ?case by simp
next
  case (Cons key keys)
  have "starts w (snd (cancel_unreachable_loop rid plan sts keys n'
      (upsert_or_transition_task tid rid ''CANCELLED'' a p w))) S" for n' tid a p
    by (rule starts_trans [OF starts_upsert_other Cons.IH]) simp
  with Cons.IH show ?case by (simp split: prod.split)
qed

lemma starts_sync: "starts w (sync_run_status_after_task X rid plan sel w) S"
  using starts_cancel_loop
  by (auto simp: sync_run_status_after_task_def cancel_unreachable_downstream_tasks_def Let_def
      starts_def)

lemma starts_cancel: "starts w (snd (cancel_tasks_for_run rid b w)) S"
proof -
  have "task_status (snd (cancel_tasks_for_run rid b w)) tid = Some s \<Longrightarrow>
      s = ''CANCELLED'' \<or> task_status w tid = Some s" for tid s
    by (auto simp: cancel_tasks_for_run_def Let_def task_status_def task_find_update
        split: if_splits)
  then show ?thesis by (fastforce simp: starts_def)
qed

text \<open>
  C2. A task is put into execution only when every task it depends on has succeeded: if scheduling
  a run has made a task \<open>QUEUED\<close> or \<open>RUNNING\<close>, the task is a task of the run's plan that was
  pending, and each of its dependencies has a row of this run in status \<open>SUCCESS\<close>.
\<close>

theorem dependencies_respected:
  assumes "task_status (snd (schedule_ready_tasks X ev w)) tid = Some s"
    and "s \<in> {''QUEUED'', ''RUNNING''}" and "task_status w tid \<noteq> Some s"
  shows "\<exists>plan key. build_task_plan (e_config ev) = Inr plan \<and> tid = full_id (e_run ev) key \<and>
      (\<forall>dep \<in> set (deps_of plan key). \<exists>t \<in> set (w_tasks w).
         t_run t = e_run ev \<and> task_key (e_run ev) (t_id t) = dep \<and> t_status t = ''SUCCESS'')"
proof -
  let ?sts = "list_run_task_states (e_run ev) w"
  have loop: "starts w w1 (full_id (e_run ev) ` {key. startable plan ?sts key})"
    if "sched_loop ev plan ?sts mp keys n f w = (r, w1)" for plan mp keys n f r w1
    by (rule starts_mono [OF starts_sched_loop [of w ev plan ?sts mp keys n f,
            unfolded that snd_conv]]) auto
  have "\<exists>plan. build_task_plan (e_config ev) = Inr plan \<and>
      tid \<in> full_id (e_run ev) ` {key. startable plan ?sts key}"
  proof (cases "run_is_cancelled (e_run ev) w")
    case True
    with assms starts_cancel [of w "e_run ev" False "{}"] show ?thesis
      by (auto simp: schedule_ready_tasks_def starts_def)
  next
    case False
    with assms(1,3) have "build_task_plan (e_config ev) \<noteq> Inl e" for e
      by (auto simp: schedule_ready_tasks_def Let_def)
    then obtain plan where p: "build_task_plan (e_config ev) = Inr plan"
      by (cases "build_task_plan (e_config ev)") auto
    have "starts w (snd (schedule_ready_tasks X ev w))
        (full_id (e_run ev) ` {key. startable plan ?sts key})"
      using False
      by (auto simp: schedule_ready_tasks_def Let_def p split: sum.split prod.split
          dest!: loop intro: starts_trans [OF _ starts_sync])
    with p assms show ?thesis by (fastforce simp: starts_def)
  qed
  then obtain plan key where "build_task_plan (e_config ev) = Inr plan"
    "tid = full_id (e_run ev) key" "startable plan ?sts key"
    by auto
  then show ?thesis unfolding startable_def using state_of_success by blast
qed

subsection \<open>No idle slot\<close>

lemma enqueue_status:
  "task_status (snd (enqueue_task_event ev full a w)) tid = task_status w tid" if "tid \<noteq> full"
  using that by (simp add: enqueue_task_event_def Let_def upsert_task_status split: sum.split)

lemma enqueue_leaves_pending:
  assumes "enqueue_task_event ev full a w = (Inr b, w')"
  shows "task_status w' full \<notin> {None, Some ''PENDING''}"
  using assms
  by (auto simp: enqueue_task_event_def Let_def upsert_task_status upsert_effect_def
      task_allowed_def split: sum.splits option.splits if_splits)

lemma sched_loop_status:
  "tid \<notin> full_id (e_run ev) ` set keys \<Longrightarrow>
   task_status (snd (sched_loop ev plan sts mp keys n f w)) tid = task_status w tid"
proof (induction keys arbitrary: n f w)
  case Nil
  then show ?case by simp
next
  case (Cons key keys)
  then have "task_status (snd (enqueue_task_event ev (full_id (e_run ev) key) a w)) tid
      = task_status w tid" for a
    by (simp add: enqueue_status)
  then have "task_status w1 tid = task_status w tid"
    if "enqueue_task_event ev (full_id (e_run ev) key) a w = (r, w1)" for a r w1
    using that by (metis snd_conv)
  with Cons show ?case by (auto split: prod.split sum.split)
qed

text \<open>
  C4. The loop leaves no slot idle: when it returns, every startable task of the list (pending,
  all dependencies succeeded) has left \<open>PENDING\<close>, or the project has reached its limit.
\<close>

theorem no_idle_slot:
  assumes "sched_loop ev plan sts mp keys n f w = (Inr res, w')" and "distinct keys"
  shows "(\<forall>key \<in> set keys. startable plan sts key \<longrightarrow>
            task_status w' (full_id (e_run ev) key) \<notin> {None, Some ''PENDING''}) \<or>
         mp \<le> int (event_slots ev w')"
  using assms
proof (induction keys arbitrary: n f w)
  case Nil
  then show ?case by simp
next
  case (Cons key keys)
  obtain st a where sa: "state_of sts key = (st, a)" by fastforce
  show ?case
  proof (cases "startable plan sts key")
    case False
    then have "st \<noteq> ''PENDING'' \<or> list_ex (\<lambda>dep. fst (state_of sts dep) \<noteq> ''SUCCESS'') (deps_of plan key)"
      by (auto simp: startable_def sa list_ex_iff)
    then have "sched_loop ev plan sts mp (key # keys) n f w = sched_loop ev plan sts mp keys n f w"
      by (simp only: sched_loop.simps sa prod.case) (auto simp del: sched_loop.simps)
    with Cons.prems(1) have "sched_loop ev plan sts mp keys n f w = (Inr res, w')" by simp
    from Cons.IH [OF this] Cons.prems(2) False show ?thesis by auto
  next
    case True
    then have st: "st = ''PENDING''"
      "\<not> list_ex (\<lambda>dep. fst (state_of sts dep) \<noteq> ''SUCCESS'') (deps_of plan key)"
      by (auto simp: startable_def sa list_ex_iff)
    show ?thesis
    proof (cases "mp \<le> int (event_slots ev w)")
      case True
      with Cons.prems st show ?thesis by (simp add: sa)
    next
      case False
      with Cons.prems st obtain b w1 n' f' where
        e: "enqueue_task_event ev (full_id (e_run ev) key) a w = (Inr b, w1)"
        and l: "sched_loop ev plan sts mp keys n' f' w1 = (Inr res, w')"
        by (auto simp: sa split: prod.splits sum.splits)
      have "task_status w' (full_id (e_run ev) key) = task_status w1 (full_id (e_run ev) key)"
        using sched_loop_status [of "full_id (e_run ev) key" ev keys plan sts mp n' f' w1]
          Cons.prems(2) l by (auto simp: image_iff)
      with enqueue_leaves_pending [OF e] Cons.IH [OF l] Cons.prems(2) show ?thesis by auto
    qed
  qed
qed

subsection \<open>The run after a task\<close>

definition doomed :: "plan \<Rightarrow> states \<Rightarrow> string \<Rightarrow> bool" where
  "doomed plan states key \<longleftrightarrow> fst (state_of states key) = ''PENDING'' \<and>
     list_ex (\<lambda>dep. fst (state_of states dep) \<in> {''FAILED'', ''CANCELLED''}) (deps_of plan key)"

definition cancelled_status :: "string option \<Rightarrow> string" where
  "cancelled_status cur = (case cur of None \<Rightarrow> ''CANCELLED'' | Some c \<Rightarrow> upsert_effect c ''CANCELLED'')"

lemma cancelled_status_idem [simp]:
  "cancelled_status (Some (cancelled_status cur)) = cancelled_status cur"
  by (auto simp: cancelled_status_def upsert_effect_def split: option.split)

lemma cancel_loop_status:
  "task_status (snd (cancel_unreachable_loop rid plan sts keys n w)) tid =
     (if tid \<in> full_id rid ` {key \<in> set keys. doomed plan sts key}
      then Some (cancelled_status (task_status w tid)) else task_status w tid)"
proof (induction keys arbitrary: n w)
  case Nil
  then show ?case by simp
next
  case (Cons key keys)
  obtain st a where sa: "state_of sts key = (st, a)" by fastforce
  show ?case
  proof (cases "doomed plan sts key")
    case True
    then have step: "cancel_unreachable_loop rid plan sts (key # keys) n w
        = cancel_unreachable_loop rid plan sts keys (Suc n)
            (upsert_or_transition_task (full_id rid key) rid ''CANCELLED'' a None w)"
      by (auto simp: doomed_def sa)
    have u: "task_status (upsert_or_transition_task (full_id rid key) rid ''CANCELLED'' a None w) tid
        = (if tid = full_id rid key then Some (cancelled_status (task_status w tid))
           else task_status w tid)"
      by (simp add: upsert_task_status cancelled_status_def)
    have "tid \<in> full_id rid ` {k \<in> set (key # keys). doomed plan sts k} \<longleftrightarrow>
        tid = full_id rid key \<or> tid \<in> full_id rid ` {k \<in> set keys. doomed plan sts k}"
      using True by auto
    then show ?thesis by (simp only: step Cons.IH u) auto
  next
    case False
    then have step: "cancel_unreachable_loop rid plan sts (key # keys) n w
        = cancel_unreachable_loop rid plan sts keys n w"
      by (auto simp: doomed_def sa)
    have "{k \<in> set (key # keys). doomed plan sts k} = {k \<in> set keys. doomed plan sts k}"
      using False by auto
    then show ?thesis by (simp only: step Cons.IH)
  qed
qed

lemma run_status_cancel_loop [simp]:
  "w_runs (snd (cancel_unreachable_loop rid plan sts keys n w)) = w_runs w"
  by (induction keys arbitrary: n w) (simp_all split: prod.split)

lemma run_status_cancel_unreachable [simp]:
  "run_status (snd (cancel_unreachable_downstream_tasks rid plan sel sts w)) r = run_status w r"
  by (simp add: run_status_def cancel_unreachable_downstream_tasks_def run_find_def)

text \<open>
  C5. After a task the run is brought up to date: it becomes \<open>SUCCESS\<close> when it is running and
  every selected task has succeeded, \<open>FAILED\<close> when it is pending or running and some selected
  task has failed, and keeps its status otherwise; a selected pending task with a failed or
  cancelled dependency is cancelled, and no other task changes.
\<close>

theorem sync_exact:
  "run_status (sync_run_status_after_task X rid plan sel w) rid =
     (case run_status w rid of None \<Rightarrow> None
      | Some cur \<Rightarrow>
         (let sts = set (map (\<lambda>key. fst (state_of (list_run_task_states rid w) key)) sel)
          in Some (if sts = {''SUCCESS''} then if cur = ''RUNNING'' then ''SUCCESS'' else cur
                   else if ''FAILED'' \<in> sts
                   then if cur \<in> {''PENDING'', ''RUNNING''} then ''FAILED'' else cur
                   else cur))) \<and>
   task_status (sync_run_status_after_task X rid plan sel w) tid =
     (if tid \<in> full_id rid ` {key \<in> set sel. doomed plan (list_run_task_states rid w) key}
      then Some (cancelled_status (task_status w tid)) else task_status w tid)"
  (is "?R \<and> ?T")
proof
  let ?sts = "list_run_task_states rid w"
  let ?w1 = "snd (cancel_unreachable_downstream_tasks rid plan sel ?sts w)"
  let ?sel = "map (\<lambda>key. fst (state_of ?sts key)) sel"
  have all: "(?sel \<noteq> [] \<and> list_all (\<lambda>s. s = ''SUCCESS'') ?sel) \<longleftrightarrow> set ?sel = {''SUCCESS''}"
    by (cases sel) (auto simp: list_all_iff)
  have failed: "list_ex (\<lambda>s. s = ''FAILED'') ?sel \<longleftrightarrow> ''FAILED'' \<in> set ?sel"
    by (auto simp: list_ex_iff)
  have sync: "sync_run_status_after_task X rid plan sel w =
      (if set ?sel = {''SUCCESS''} then transition_run_status (x_loads X) rid ''SUCCESS'' ?w1
       else if ''FAILED'' \<in> set ?sel then transition_run_status (x_loads X) rid ''FAILED'' ?w1
       else ?w1)"
    unfolding sync_run_status_after_task_def Let_def all failed ..
  show ?R
    unfolding sync Let_def
    by (cases "run_status w rid") (simp_all add: transition_run_status_effect run_allowed_def)
  have "task_status ?w1 tid =
     (if tid \<in> full_id rid ` {key \<in> set sel. doomed plan ?sts key}
      then Some (cancelled_status (task_status w tid)) else task_status w tid)"
    by (simp add: cancel_unreachable_downstream_tasks_def cancel_loop_status)
  then show ?T unfolding sync by simp
qed

subsection \<open>The next run\<close>

lemma lpop_queues:
  "lpop q w = (None, w') \<Longrightarrow> w' = w \<and> w_queues w q = []"
  "lpop q w = (Some m, w') \<Longrightarrow>
     w_queues w q = m # w_queues w' q \<and> (\<forall>q'. q' \<noteq> q \<longrightarrow> w_queues w' q' = w_queues w q')"
  by (auto simp: lpop_def split: list.splits)

lemma pop_loop_conserves:
  assumes "pop_next_run_loop n c w = (Inr res, w')"
  shows "mset (w_queues w runs_queue) =
           mset (case res of None \<Rightarrow> [] | Some m \<Rightarrow> [m]) + mset (w_queues w' runs_queue) \<and>
         (\<forall>d. c \<noteq> [] \<longrightarrow> res = Some (Json (VDict d)) \<longrightarrow> placement_cluster d \<in> {[], c}) \<and>
         (\<forall>q. q \<noteq> runs_queue \<longrightarrow> w_queues w' q = w_queues w q)"
  using assms
proof (induction n arbitrary: w)
  case 0
  then show ?case by simp
next
  case (Suc n)
  show ?case
  proof (cases "lpop runs_queue w")
    case (Pair m w1)
    show ?thesis
    proof (cases m)
      case None
      with Suc.prems Pair lpop_queues(1) show ?thesis by auto
    next
      case (Some msg)
      note q = lpop_queues(2) [OF Pair [unfolded Some]]
      show ?thesis
      proof (cases "c \<noteq> [] \<and> (\<exists>d. msg = Json (VDict d) \<and> placement_cluster d \<notin> {[], c})")
        case False
        with Suc.prems q Some Pair show ?thesis
          by (auto split: msg.splits pyval.splits if_splits)
      next
        case True
        with Suc.prems Pair Some
        have "pop_next_run_loop n c (rpush runs_queue msg w1) = (Inr res, w')" by auto
        from Suc.IH [OF this] q show ?thesis by auto
      qed
    qed
  qed
qed

text \<open>
  Choosing the next run loses and duplicates no message: the queue of new runs afterwards,
  with the message returned, is the queue before, up to order; no other queue changes; and a
  scheduler that has a cluster of its own never takes a run placed on another one.
\<close>

theorem pop_next_run_conserves:
  assumes "pop_next_run w = (Inr res, w')"
  shows "mset (w_queues w runs_queue) =
           mset (case res of None \<Rightarrow> [] | Some m \<Rightarrow> [m]) + mset (w_queues w' runs_queue) \<and>
         (\<forall>d. strip (getenv w ''ML_AIR_CLUSTER_ID'' []) \<noteq> [] \<longrightarrow> res = Some (Json (VDict d)) \<longrightarrow>
           placement_cluster d \<in> {[], strip (getenv w ''ML_AIR_CLUSTER_ID'' [])}) \<and>
         (\<forall>q. q \<noteq> runs_queue \<longrightarrow> w_queues w' q = w_queues w q)"
  using assms pop_loop_conserves
  by (auto simp: pop_next_run_def Let_def split: option.splits)

end
