(* ===== verification/SchedDone.thy ===== *)
theory SchedDone
  imports SchedSafety
begin

text \<open>
  Model of the second half of the main loop of \<^verbatim>\<open>scheduler/main.py\<close>, the handler of a finished
  task: the transition of its row, its telemetry, the usage and model hand-offs, then either the
  next wave of the run or a retry, and the dead letter queue when the attempts are used up. Below
  it the tick locks and the whole loop as a sequence of commands.
\<close>

subsection \<open>The message\<close>

record done_event =
  d_task :: string
  d_run :: string
  d_status :: string
  d_attempt :: int
  d_data :: pydict

definition get_text :: "pydict \<Rightarrow> string \<Rightarrow> string py" where
  "get_text d k = (case map_of d k of None \<Rightarrow> raise (KeyError k)
     | Some (VStr s) \<Rightarrow> ok s | Some _ \<Rightarrow> raise TypeError)"

text \<open>
  The arguments of the first call, evaluated in the code's order. An id or a status that is not
  text is refused by the statement that receives it.
\<close>

definition done_event_of :: "ext \<Rightarrow> msg \<Rightarrow> done_event py" where
  "done_event_of X m =
     (case m of
        Json (VDict d) \<Rightarrow>
          pbind (get_text d ''task_id'') (\<lambda>task.
          pbind (get_text d ''run_id'') (\<lambda>run.
          pbind (get_text d ''status'') (\<lambda>status.
          pbind (py_int (dget_or d ''attempt'' (VInt 1))) (\<lambda>attempt.
          ok \<lparr>d_task = task, d_run = run, d_status = status, d_attempt = attempt,
              d_data = dset ''trace_id'' (VStr (x_trace X d)) d\<rparr>))))
      | Json _ \<Rightarrow> raise TypeError
      | Garbled s \<Rightarrow> raise (ValueError ''json''))"

subsection \<open>Telemetry\<close>

definition error_of :: "done_event \<Rightarrow> pyval" where
  "error_of e =
     (if d_status e = ''SUCCESS'' then VNone
      else case dget (d_data e) ''plugin_exec'' of
             VDict pex \<Rightarrow> if pex = [] then VStr ''task_failed''
               else por (por (dget pex ''error'') (dget pex ''stderr'')) (VStr ''task_failed'')
           | _ \<Rightarrow> VStr ''task_failed'')"

definition usage_field :: "pydict \<Rightarrow> string \<Rightarrow> pyval py" where
  "usage_field d k =
     (case por (dget d ''resource_usage'') (VDict []) of VDict u \<Rightarrow> ok (dget u k)
      | _ \<Rightarrow> raise TypeError)"

definition opt_num :: "(pyval \<Rightarrow> 'a py) \<Rightarrow> pyval \<Rightarrow> 'a option py" where
  "opt_num f v = (if v = VNone then ok None else pbind (f v) (\<lambda>x. ok (Some x)))"

definition timestamp_arg :: "ext \<Rightarrow> pyval \<Rightarrow> int option py" where
  "timestamp_arg X v = (case v of VNone \<Rightarrow> ok None
     | VStr s \<Rightarrow> (case x_when X s of Some t \<Rightarrow> ok (Some t)
                  | None \<Rightarrow> raise (ValueError ''invalid input syntax for type timestamp''))
     | _ \<Rightarrow> raise TypeError)"

definition text_arg :: "pyval \<Rightarrow> string option py" where
  "text_arg v = (case v of VNone \<Rightarrow> ok None | VStr s \<Rightarrow> ok (Some s) | _ \<Rightarrow> raise TypeError)"

definition record_telemetry :: "ext \<Rightarrow> done_event \<Rightarrow> world \<Rightarrow> world py" where
  "record_telemetry X e w =
     (let d = d_data e in
      pbind (pbind (usage_field d ''duration_ms'') (opt_num py_int)) (\<lambda>duration.
      pbind (pbind (usage_field d ''cpu_time_seconds'') (opt_num py_float)) (\<lambda>cpu.
      pbind (pbind (usage_field d ''memory_rss_kb'') (opt_num py_int)) (\<lambda>rss.
      pbind (timestamp_arg X (dget d ''started_at'')) (\<lambda>started.
      pbind (timestamp_arg X (dget d ''finished_at'')) (\<lambda>finished.
      pbind (text_arg (error_of e)) (\<lambda>err.
      ok (update_task_telemetry (d_task e) started finished err duration cpu rss w))))))))"

subsection \<open>A task that succeeded\<close>

definition next_wave_event :: "done_event \<Rightarrow> int \<Rightarrow> string option \<Rightarrow> string option \<Rightarrow> run_event" where
  "next_wave_event e max_parallel replay_from replay_of =
     (let d = d_data e in
      \<lparr>e_run = d_run e, e_data = copy_trace_headers [''traceparent'', ''tracestate''] d
         [(''run_id'', VStr (d_run e)),
          (''tenant_id'', dget_or d ''tenant_id'' (VStr ''default'')),
          (''project_id'', dget_or d ''project_id'' (VStr ''default_project'')),
          (''pipeline_id'', dget_or d ''pipeline_id'' (VStr ''demo_pipeline'')),
          (''priority'', dget_or d ''priority'' (VStr ''normal'')),
          (''trace_id'', dget d ''trace_id''), (''plugin_name'', dget d ''plugin_name''),
          (''context'', dget_or d ''context'' (VDict [])),
          (''override_config'', dget_or d ''override_config'' (VDict [])),
          (''pipeline_version_id'', dget d ''pipeline_version_id''),
          (''config_snapshot'', dget d ''config_snapshot''),
          (''replay_from_task_id'', of_opt_str replay_from),
          (''replay_of_run_id'', of_opt_str replay_of),
          (''max_parallel_tasks'', VInt max_parallel)]\<rparr>)"

text \<open>The plan, the replay filter and the synchronisation, as the three branches repeat them.\<close>

definition settle_run ::
    "ext \<Rightarrow> done_event \<Rightarrow> string option \<Rightarrow> world \<Rightarrow> unit py \<times> world" where
  "settle_run X e replay_from w =
     (case build_task_plan (dget (d_data e) ''config_snapshot'') of Inl err \<Rightarrow> (Inl err, w)
      | Inr plan \<Rightarrow>
          (ok (), sync_run_status_after_task X (d_run e) plan
                    (fst (apply_replay_filter plan replay_from (d_run e))) w))"

definition task_succeeded :: "ext \<Rightarrow> done_event \<Rightarrow> world \<Rightarrow> unit py \<times> world" where
  "task_succeeded X e w =
     (case load_run_replay_meta (d_run e) w of (max_parallel, replay_from, replay_of) \<Rightarrow>
       (case schedule_ready_tasks X (next_wave_event e max_parallel replay_from replay_of) w of
          (Inl err, w1) \<Rightarrow> (Inl err, w1)
        | (Inr n, w1) \<Rightarrow> settle_run X e replay_from w1))"

subsection \<open>A task that failed\<close>

definition retry_run_event :: "done_event \<Rightarrow> run_event" where
  "retry_run_event e =
     (let d = d_data e in
      \<lparr>e_run = d_run e, e_data = copy_trace_headers [''traceparent'', ''tracestate''] d
         [(''tenant_id'', dget_or d ''tenant_id'' (VStr ''default'')),
          (''project_id'', dget_or d ''project_id'' (VStr ''default_project'')),
          (''pipeline_id'', dget_or d ''pipeline_id'' (VStr ''demo_pipeline'')),
          (''priority'', dget_or d ''priority'' (VStr ''normal'')),
          (''trace_id'', dget d ''trace_id''), (''plugin_name'', dget d ''plugin_name''),
          (''context'', dget_or d ''context'' (VDict [])),
          (''override_config'', dget_or d ''override_config'' (VDict [])),
          (''pipeline_version_id'', dget d ''pipeline_version_id''),
          (''config_snapshot'', dget d ''config_snapshot''),
          (''replay_from_task_id'', dget d ''replay_from_task_id'')]\<rparr>)"

definition dlq :: string where "dlq = ''mlair:tasks:dlq''"

definition task_failed :: "ext \<Rightarrow> done_event \<Rightarrow> msg \<Rightarrow> world \<Rightarrow> unit py \<times> world" where
  "task_failed X e raw w =
     (let replay_from = opt_str (dget (d_data e) ''replay_from_task_id'') in
      case load_task_retry_policy (d_task e) w of (max_attempts, backoff_ms) \<Rightarrow>
        if should_schedule_retry (d_attempt e) max_attempts then
          (let attempt = next_retry_attempt (d_attempt e);
               w1 = upsert_or_transition_task (d_task e) (d_run e) ''RETRY'' attempt None w;
               w2 = sleep_us (1000 * retry_delay_ms backoff_ms (d_attempt e)) w1
           in case enqueue_task_event (retry_run_event e) (d_task e) attempt w2 of
                (Inl err, w3) \<Rightarrow> (Inl err, w3)
              | (Inr True, w3) \<Rightarrow> (ok (), effect (Metric ''retry_enqueued'' []) w3)
              | (Inr False, w3) \<Rightarrow> settle_run X e replay_from w3)
        else settle_run X e replay_from (effect (Metric ''dlq_pushed'' []) (rpush dlq raw w)))"

subsection \<open>The handler\<close>

definition emit_task_scheduler_realtime :: "done_event \<Rightarrow> world \<Rightarrow> world" where
  "emit_task_scheduler_realtime e w =
     (if task_execution_mode w = ''external'' then w
      else case task_find w (d_task e) of None \<Rightarrow> w
      | Some t \<Rightarrow>
          effect (RtTaskUpdated
            (py_str (dget_or (d_data e) ''tenant_id'' (VStr ''default'')))
            (py_str (dget_or (d_data e) ''project_id'' (VStr ''default_project'')))
            (d_task e) (d_run e) (upper (t_status t)) (t_updated t)
            (some_nonempty (str_or (dget (d_data e) ''pipeline_id'') []))
            (py_str (dget (d_data e) ''trace_id''))) w)"

definition finish_done :: "done_event \<Rightarrow> unit py \<times> world \<Rightarrow> unit py \<times> world" where
  "finish_done e res =
     (case res of (Inl err, w) \<Rightarrow> (Inl err, w)
      | (Inr _, w) \<Rightarrow>
          (ok (), effect (Metric ''task_completed'' [d_status e]) (emit_task_scheduler_realtime e w)))"

definition hand_off :: "done_event \<Rightarrow> world \<Rightarrow> world" where
  "hand_off e w =
     (let w1 = effect (IngestUsage (d_task e)) w
      in if d_status e = ''SUCCESS'' then effect (RegisterModelVersion (d_run e) (d_task e)) w1
         else w1)"

definition handle_done :: "ext \<Rightarrow> msg \<Rightarrow> done_event \<Rightarrow> world \<Rightarrow> unit py \<times> world" where
  "handle_done X raw e w =
     (let w1 = upsert_or_transition_task (d_task e) (d_run e) (d_status e) (d_attempt e) None w
      in case record_telemetry X e w1 of Inl err \<Rightarrow> (Inl err, w1)
         | Inr w2 \<Rightarrow>
            (let w3 = hand_off e w2
             in if d_status e = ''SUCCESS'' then
                  (if run_is_cancelled (d_run e) w3
                   then (ok (), snd (cancel_tasks_for_run (d_run e) False w3))
                   else finish_done e (task_succeeded X e w3))
                else finish_done e (task_failed X e raw w3)))"

definition consume_done :: "ext \<Rightarrow> msg \<Rightarrow> world \<Rightarrow> unit py \<times> world" where
  "consume_done X m w =
     (case done_event_of X m of Inl e \<Rightarrow> (Inl e, w) | Inr e \<Rightarrow> handle_done X m e w)"

subsection \<open>Tick locks\<close>

definition scheduler_tick_lock_enabled :: "world \<Rightarrow> bool" where
  "scheduler_tick_lock_enabled w =
     (lower (strip (getenv w ''ML_AIR_SCHEDULER_TICK_LOCK'' ''1''))
        \<notin> {''0'', ''false'', ''no'', ''off''})"

definition scheduler_worker_id :: "nat \<Rightarrow> world \<Rightarrow> string" where
  "scheduler_worker_id pid w =
     (let explicit = strip (getenv w ''ML_AIR_SCHEDULER_WORKER_ID'' []);
          host = strip (getenv w ''HOSTNAME'' [])
      in if explicit \<noteq> [] then explicit else if host \<noteq> [] then host
         else ''scheduler-'' @ nat_str pid)"

text \<open>
  The lock keys in Redis: name of the tick, owner and expiry. \<open>SET key value NX EX ttl\<close> succeeds
  when the key is absent or expired.
\<close>

type_synonym locks = "string \<Rightarrow> (string \<times> int) option"

definition set_nx_ex :: "string \<Rightarrow> string \<Rightarrow> int \<Rightarrow> int \<Rightarrow> locks \<Rightarrow> bool \<times> locks" where
  "set_nx_ex key value ttl now l =
     (case l key of
        Some (owner, until) \<Rightarrow> if now < until then (False, l) else (True, l(key \<mapsto> (value, now + ttl)))
      | None \<Rightarrow> (True, l(key \<mapsto> (value, now + ttl))))"

definition try_acquire_scheduler_tick_lock ::
    "nat \<Rightarrow> string \<Rightarrow> int \<Rightarrow> world \<Rightarrow> locks \<Rightarrow> bool \<times> locks" where
  "try_acquire_scheduler_tick_lock pid tick_name ttl_seconds w l =
     (if \<not> scheduler_tick_lock_enabled w then (True, l)
      else set_nx_ex (''mlair:scheduler:tick-lock:'' @ tick_name) (scheduler_worker_id pid w)
             (1000000 * max 1 ttl_seconds) (w_now w) l)"

subsection \<open>Frames and evolution\<close>

lemma evolves_settle: "evolves w (snd (settle_run X e rf w))"
  by (simp add: settle_run_def evolves_sync split: sum.split)

lemma evolves_succeeded: "evolves w (snd (task_succeeded X e w))"
proof -
  have "evolves w w1" if "schedule_ready_tasks X ev w = (r, w1)" for ev r w1
    using that evolves_schedule by (metis snd_conv)
  then show ?thesis
    by (auto simp: task_succeeded_def split: prod.split sum.split
        intro: evolves_trans [OF _ evolves_settle])
qed

lemma evolves_failed: "evolves w (snd (task_failed X e raw w))"
proof -
  let ?retry = "\<lambda>b. sleep_us b (upsert_or_transition_task (d_task e) (d_run e) ''RETRY''
      (next_retry_attempt (d_attempt e)) None w)"
  have r: "evolves w (?retry b)" for b
    by (rule evolves_trans [OF evolves_upsert evolves_sleep])
  have q: "evolves w w3"
    if "enqueue_task_event ev full a (?retry b) = (res, w3)" for ev full a b res w3
    using that evolves_trans [OF r evolves_enqueue] by (metis snd_conv)
  have s: "evolves w (snd (settle_run X e rf w'))" if "evolves w w'" for rf w'
    using that evolves_settle by (rule evolves_trans)
  show ?thesis
    by (auto simp: task_failed_def Let_def s split: prod.split sum.split bool.split dest!: q)
qed

lemma evolves_emit: "evolves w (emit_task_scheduler_realtime e w)"
  by (rule evolves_same_tables)
    (auto simp: emit_task_scheduler_realtime_def split: option.split)

lemma evolves_finish: "evolves w (snd res) \<Longrightarrow> evolves w (snd (finish_done e res))"
  by (auto simp: finish_done_def split: prod.split sum.split intro!: evolves_effect intro: evolves_trans [OF _ evolves_emit])

lemma evolves_record: "record_telemetry X e w = Inr w' \<Longrightarrow> evolves w w'"
  by (auto simp: record_telemetry_def Let_def pbind_eq_Inr evolves_telemetry)

lemma evolves_hand_off: "evolves w (hand_off e w)"
  by (simp add: hand_off_def Let_def)

lemma evolves_handle_done: "evolves w (snd (handle_done X raw e w))"
proof (cases "record_telemetry X e
    (upsert_or_transition_task (d_task e) (d_run e) (d_status e) (d_attempt e) None w)")
  case (Inl err)
  then show ?thesis by (simp add: handle_done_def evolves_upsert)
next
  case (Inr w2)
  let ?w3 = "hand_off e w2"
  have w3: "evolves w ?w3"
    using evolves_trans [OF evolves_upsert evolves_record [OF Inr]] evolves_hand_off
    by (rule evolves_trans)
  have "evolves w (snd (cancel_tasks_for_run (d_run e) False ?w3))"
    "evolves w (snd (finish_done e (task_succeeded X e ?w3)))"
    "evolves w (snd (finish_done e (task_failed X e raw ?w3)))"
    using evolves_trans [OF w3] evolves_cancel evolves_finish evolves_succeeded evolves_failed
    by blast+
  then show ?thesis by (simp add: handle_done_def Inr Let_def)
qed

lemma evolves_consume_done: "evolves w (snd (consume_done X m w))"
  by (simp add: consume_done_def evolves_handle_done split: sum.split)

subsection \<open>The commands of the main loop\<close>

text \<open>
  One command is one round of work of a replica: a message for a new run, a message for a
  finished task, or the lease reaper. Several replicas interleave their commands.
\<close>

datatype sched_cmd = NewRun msg | TaskDone msg | ReapLeases | Pause int

fun sched_do :: "ext \<Rightarrow> sched_cmd \<Rightarrow> world \<Rightarrow> world" where
  "sched_do X (NewRun m) w = snd (consume_run X m w)"
| "sched_do X (TaskDone m) w = snd (consume_done X m w)"
| "sched_do X ReapLeases w = snd (requeue_expired_leases X w)"
| "sched_do X (Pause us) w = sleep_us us w"

lemma sched_do_evolves: "evolves w (sched_do X c w)"
  by (cases c) (simp_all add: evolves_consume_run evolves_consume_done evolves_requeue)

interpretation scheduler: table_client "sched_do X" for X
  by unfold_locales (rule sched_do_evolves)

text \<open>
  Whatever the scheduler does, in any order and with any messages, late and duplicated ones
  included, a task that is \<open>SUCCESS\<close> or \<open>CANCELLED\<close> keeps that status, and so does a run.
\<close>

theorem final_statuses_stay:
  assumes "keys_unique w" and "task_final s" and "run_final s'"
  shows "(task_status w tid = Some s \<longrightarrow> task_status (fold (sched_do X) cs w) tid = Some s) \<and>
         (run_status w rid = Some s' \<longrightarrow> run_status (fold (sched_do X) cs w) rid = Some s')"
  using scheduler.final_task_stays [of w tid _ X cs] scheduler.final_run_stays [of w rid _ X cs] assms
  by (auto simp: task_status_def run_status_def)

subsection \<open>Retries and the dead letter queue\<close>

lemma enqueue_dlq:
  "w_queues (snd (enqueue_task_event ev full a w)) dlq = w_queues w dlq"
  by (auto simp: enqueue_task_event_def Let_def queue_name_for_priority_def dlq_def split: sum.split)

lemma sync_queues [simp]: "w_queues (sync_run_status_after_task X rid plan sel w) = w_queues w"
proof -
  have "w_queues (snd (cancel_unreachable_loop rid plan sts keys n w)) = w_queues w" for sts keys n
    by (induction keys arbitrary: n w) (simp_all split: prod.split)
  then show ?thesis
    by (simp add: sync_run_status_after_task_def Let_def cancel_unreachable_downstream_tasks_def)
qed

lemma settle_queues [simp]: "w_queues (snd (settle_run X e rf w)) = w_queues w"
  by (simp add: settle_run_def split: sum.split)

lemma sleep_frame [simp]: "w_queues (sleep_us n w) = w_queues w"
  by (simp add: sleep_us_def)

text \<open>
  A failed task goes to the dead letter queue exactly when its attempts are used up, and then
  once, with the message as it came; while attempts are left that queue is not touched.
\<close>

theorem dead_letter_exactly:
  "w_queues (snd (task_failed X e raw w)) dlq =
     (if d_attempt e < fst (load_task_retry_policy (d_task e) w) then w_queues w dlq
      else w_queues w dlq @ [raw])"
proof -
  have q: "w_queues w3 dlq = w_queues w dlq"
    if "enqueue_task_event ev full a (sleep_us n (upsert_or_transition_task t r s b p w)) = (res, w3)"
    for ev full a n t r s b p res w3
    using that enqueue_dlq [of ev full a "sleep_us n (upsert_or_transition_task t r s b p w)"] by simp
  show ?thesis
    by (auto simp: task_failed_def Let_def should_schedule_retry_def split: prod.split sum.split
        bool.split dest!: q)
qed

subsection \<open>Tick locks\<close>

text \<open>
  While a replica holds a tick, no replica gets it: after a successful attempt at time \<open>t0\<close>
  every attempt on the same tick fails until the time to live has passed, and it succeeds then.
\<close>

theorem tick_lock_exclusive:
  assumes "scheduler_tick_lock_enabled w0" and "scheduler_tick_lock_enabled w1"
    and "try_acquire_scheduler_tick_lock p0 tick ttl w0 l0 = (True, l1)"
  shows "fst (try_acquire_scheduler_tick_lock p1 tick ttl1 w1 l1) \<longleftrightarrow>
           w_now w0 + 1000000 * max 1 ttl \<le> w_now w1"
  using assms
  by (auto simp: try_acquire_scheduler_tick_lock_def set_nx_ex_def
      split: option.splits if_splits)

end
