(* ===== verification/WorkerTasks.thy ===== *)
theory WorkerTasks
  imports SchedDone
begin

text \<open>
  Model of \<^verbatim>\<open>api/app/domains/orchestration/worker_task_service.py\<close>, the protocol of external
  workers: lease, heartbeat, complete, fail and logs. A lease is one atomic statement over the
  tables; completing and failing read the row first and then write conditionally, so they are
  modelled as a check and a commit, between which other operations may run. The platform settings
  (\<open>l4\<close>, empty when they cannot be read), the versions of the model registry and its create
  operation are arguments.
\<close>

subsection \<open>Settings and scope\<close>

record principal =
  p_tenant :: string
  p_projects :: "string list"

definition runtime_settings :: "pydict \<Rightarrow> pydict" where
  "runtime_settings l4 = dict_or_empty (dget l4 ''runtime'')"

definition lease_ttl_seconds :: "pydict \<Rightarrow> world \<Rightarrow> int" where
  "lease_ttl_seconds l4 w =
     (let env = (case parse_int (strip (getenv w ''ML_AIR_TASK_LEASE_SECONDS'' ''30'')) of
                   None \<Rightarrow> 30 | Some n \<Rightarrow> max 5 n)
      in case dget (runtime_settings l4) ''task_lease_seconds'' of
           VNone \<Rightarrow> env
         | v \<Rightarrow> (case py_int v of Inl _ \<Rightarrow> env | Inr n \<Rightarrow> max 5 n))"

definition worker_execution_mode :: "pydict \<Rightarrow> world \<Rightarrow> string" where
  "worker_execution_mode l4 w =
     (let mode = lower (strip (str_or (dget (runtime_settings l4) ''task_execution_mode'') []))
      in if mode \<in> {''internal'', ''external''} then mode else task_execution_mode w)"

definition external_execution_enabled :: "pydict \<Rightarrow> world \<Rightarrow> bool" where
  "external_execution_enabled l4 w = (worker_execution_mode l4 w = ''external'')"

text \<open>The scope of a principal as a condition on the joined row of \<open>runs\<close>.\<close>

definition in_scope :: "principal option \<Rightarrow> run_row \<Rightarrow> bool" where
  "in_scope p r =
     (case p of None \<Rightarrow> True
      | Some q \<Rightarrow> (p_tenant q = [] \<or> r_tenant r = p_tenant q) \<and>
          (p_projects q = [] \<or> ''*'' \<in> set (p_projects q) \<or> r_project r \<in> set (p_projects q)))"

subsection \<open>Lease\<close>

definition priority_rank :: "string option \<Rightarrow> nat" where
  "priority_rank p =
     (let s = lower (case p of None \<Rightarrow> ''normal'' | Some q \<Rightarrow> q)
      in if s = ''high'' then 0 else if s = ''low'' then 2 else 1)"

definition leasable :: "string list \<Rightarrow> principal option \<Rightarrow> world \<Rightarrow> task_row \<Rightarrow> bool" where
  "leasable caps p w t =
     (case run_find w (t_run t) of None \<Rightarrow> False
      | Some r \<Rightarrow> t_status t = ''QUEUED'' \<and> r_status r = ''RUNNING'' \<and>
          (caps = [] \<or> (case t_plugin t of None \<Rightarrow> False | Some pl \<Rightarrow> pl \<in> set caps)) \<and>
          in_scope p r)"

definition task_rank :: "world \<Rightarrow> task_row \<Rightarrow> nat" where
  "task_rank w t = (case run_find w (t_run t) of None \<Rightarrow> 1 | Some r \<Rightarrow> priority_rank (r_priority r))"

text \<open>\<open>ORDER BY rank, created_at LIMIT limit\<close>; equal keys in the order of the table.\<close>

definition pick_tasks :: "string list \<Rightarrow> principal option \<Rightarrow> nat \<Rightarrow> world \<Rightarrow> task_row list" where
  "pick_tasks caps p limit w =
     take limit (sort_key (task_rank w) (sort_key t_created (filter (leasable caps p w) (w_tasks w))))"

definition lease_row :: "string \<Rightarrow> int \<Rightarrow> int \<Rightarrow> task_row \<Rightarrow> task_row" where
  "lease_row wid ttl now t =
     t\<lparr>t_status := ''RUNNING'', t_leased_by := Some wid, t_lease_expires := Some (now + 1000000 * ttl),
       t_started := coalesce (t_started t) (Some now), t_updated := now\<rparr>"

definition lease_rows :: "string \<Rightarrow> int \<Rightarrow> string list \<Rightarrow> world \<Rightarrow> world" where
  "lease_rows wid ttl ids w = update_tasks (\<lambda>t. t_id t \<in> set ids) (lease_row wid ttl (w_now w)) w"

definition json_dict :: "ext \<Rightarrow> pyval \<Rightarrow> pydict" where
  "json_dict X v = dict_or_empty (decode_column X (VDict []) v)"

definition lease_entry :: "ext \<Rightarrow> task_row \<Rightarrow> run_row \<Rightarrow> pydict" where
  "lease_entry X t r =
     (let base = dsetdefault ''pipeline_id'' (VStr (r_pipeline r))
                (dsetdefault ''project_id'' (VStr (r_project r))
                (dsetdefault ''tenant_id'' (VStr (r_tenant r))
                (dsetdefault ''task_id'' (VStr (t_id t))
                (dsetdefault ''run_id'' (VStr (t_run t)) (json_dict X (r_context r))))))
      in [(''task_id'', VStr (t_id t)), (''run_id'', VStr (t_run t)),
          (''plugin'', VStr (case t_plugin t of None \<Rightarrow> [] | Some pl \<Rightarrow> pl)),
          (''attempt'', VInt (if t_attempt t = 0 then 1 else t_attempt t)),
          (''tenant_id'', VStr (r_tenant r)), (''project_id'', VStr (r_project r)),
          (''pipeline_id'', VStr (r_pipeline r)), (''priority'', VStr (opt_or (r_priority r) ''normal'')),
          (''task_key'', VStr (task_key (t_run t) (t_id t))),
          (''payload'', VDict
            [(''params'', VDict (dict_or_empty (dget base ''params''))), (''context'', VDict base),
             (''dataset'', VDict (dict_or_empty (dget base ''dataset''))),
             (''config_snapshot'', VDict (json_dict X (r_config r))),
             (''pipeline_version_id'', of_opt_str (r_version r)),
             (''override_config'', VDict (json_dict X (r_override r))),
             (''replay_from_task_id'', of_opt_str (r_replay_from r)),
             (''plugin_name'', of_opt_str (r_plugin_name r))])])"

definition announce_lease :: "ext \<Rightarrow> string \<Rightarrow> task_row \<Rightarrow> run_row \<Rightarrow> world \<Rightarrow> world" where
  "announce_lease X wid t r w =
     effect (TaskLog (t_run t) (t_id t) ''INFO'' (''Task leased by worker '' @ wid)
         (case t_plugin t of None \<Rightarrow> None | Some pl \<Rightarrow> some_nonempty pl) (Some wid))
      (effect (RtTaskUpdated (r_tenant r) (r_project r) (t_id t) (t_run t) ''RUNNING'' (t_updated t)
         (some_nonempty (r_pipeline r)) (x_trace_id X)) w)"

fun lease_out :: "ext \<Rightarrow> string \<Rightarrow> task_row list \<Rightarrow> pydict list \<Rightarrow> world \<Rightarrow> pydict list \<times> world" where
  "lease_out X wid [] out w = (out, w)"
| "lease_out X wid (t # ts) out w =
     (case run_find w (t_run t) of None \<Rightarrow> lease_out X wid ts out w
      | Some r \<Rightarrow> lease_out X wid ts (out @ [lease_entry X t r]) (announce_lease X wid t r w))"

definition lease_tasks ::
    "ext \<Rightarrow> pydict \<Rightarrow> string \<Rightarrow> string list \<Rightarrow> int \<Rightarrow> principal option \<Rightarrow> world
     \<Rightarrow> pydict list \<times> world" where
  "lease_tasks X l4 worker_id capabilities max_tasks p w =
     (if \<not> external_execution_enabled l4 w then ([], w)
      else (let wid = strip worker_id in
        if wid = [] then ([], w)
        else (let limit = nat (max 1 (min max_tasks 50));
                  caps = filter (\<lambda>c. c \<noteq> []) (map strip capabilities);
                  ids = map t_id (pick_tasks caps p limit w);
                  w1 = lease_rows wid (lease_ttl_seconds l4 w) ids w
              in if ids = [] then ([], w1)
                 else lease_out X wid (filter (\<lambda>t. t_id t \<in> set ids) (w_tasks w1)) [] w1)))"

subsection \<open>Heartbeat\<close>

definition held_by :: "string \<Rightarrow> string \<Rightarrow> task_row \<Rightarrow> bool" where
  "held_by task_id wid t =
     (t_id t = task_id \<and> t_status t = ''RUNNING'' \<and> t_leased_by t = Some wid)"

definition heartbeat_task ::
    "pydict \<Rightarrow> string \<Rightarrow> string \<Rightarrow> principal option \<Rightarrow> pydict option \<Rightarrow> world \<Rightarrow> bool \<times> world" where
  "heartbeat_task l4 task_id worker_id p usage w =
     (if \<not> external_execution_enabled l4 w then (False, w)
      else (let wid = strip worker_id;
                hit = (\<lambda>t. held_by task_id wid t \<and>
                   (case run_find w (t_run t) of None \<Rightarrow> False | Some r \<Rightarrow> in_scope p r));
                done = list_ex hit (w_tasks w);
                w1 = update_tasks hit (\<lambda>t. t\<lparr>t_lease_expires :=
                       Some (w_now w + 1000000 * lease_ttl_seconds l4 w), t_updated := w_now w\<rparr>) w
            in (done, case usage of None \<Rightarrow> w1
                | Some sample \<Rightarrow> if done \<and> sample \<noteq> [] then effect (UsageSample task_id) w1 else w1)))"

subsection \<open>Artifacts, metrics and resource usage of a report\<close>

definition text_of :: "pyval \<Rightarrow> string" where
  "text_of v = strip (str_or v [])"

definition normalize_complete_artifacts :: "pyval \<Rightarrow> string option \<Rightarrow> pydict list" where
  "normalize_complete_artifacts artifacts artifact_uri =
     (let items = (case artifacts of VList xs \<Rightarrow> List.map_filter as_dict xs | _ \<Rightarrow> []);
          out = map (\<lambda>d. let path = strip (str_or (dget d ''path'') ''artifact'')
                         in [(''path'', VStr (take 512 (if path = [] then ''artifact'' else path))),
                             (''uri'', VStr (take 2048 (text_of (dget d ''uri''))))])
                  (filter (\<lambda>d. text_of (dget d ''uri'') \<noteq> []) items);
          uri = strip (opt_or artifact_uri [])
      in if out = [] \<and> uri \<noteq> []
         then [[(''path'', VStr ''model''), (''uri'', VStr (take 2048 uri))]] else out)"

definition is_model_path :: "string \<Rightarrow> bool" where
  "is_model_path path =
     (endswith path ''/checkpoint'' \<or> endswith path ''/best.pt'' \<or> path = ''model'' \<or>
      startswith path ''weights/'' \<or> contains ''/weights/'' path)"

definition artifact_uri_for_model_version :: "pydict list \<Rightarrow> string option" where
  "artifact_uri_for_model_version artifacts =
     map_option (\<lambda>d. text_of (dget d ''uri''))
       (find (\<lambda>d. text_of (dget d ''uri'') \<noteq> [] \<and> is_model_path (lower (text_of (dget d ''path''))))
         artifacts)"

definition drop_none :: "pydict \<Rightarrow> pydict" where
  "drop_none d = filter (\<lambda>(k, v). v \<noteq> VNone) d"

definition megabytes_to_kb :: "pyval \<Rightarrow> int option py" where
  "megabytes_to_kb v =
     (case py_float v of
        Inl OverflowError \<Rightarrow> raise OverflowError
      | Inl _ \<Rightarrow> ok None
      | Inr (Fin q) \<Rightarrow> if max_double < \<bar>q * 1024\<bar> then raise OverflowError
                       else ok (Some (trunc_rat (q * 1024)))
      | Inr NaN \<Rightarrow> ok None
      | Inr _ \<Rightarrow> raise OverflowError)"

definition resource_usage_for_done_event :: "int \<Rightarrow> pyval \<Rightarrow> pydict py" where
  "resource_usage_for_done_event duration_ms resource_usage =
     (let ru0 = (if duration_ms > 0 then [(''duration_ms'', VInt duration_ms)] else []);
          ru1 = fold (\<lambda>(k, v). dset k v) (drop_none (dict_or_empty resource_usage)) ru0;
          ru2 = (if duration_ms > 0 \<and> dget ru1 ''duration_ms'' = VNone
                 then dset ''duration_ms'' (VInt duration_ms) ru1 else ru1)
      in if dget ru2 ''memory_rss_kb'' = VNone \<and> dget ru2 ''memory_mb_peak'' \<noteq> VNone
         then pbind (megabytes_to_kb (dget ru2 ''memory_mb_peak''))
                (\<lambda>kb. ok (drop_none (case kb of None \<Rightarrow> ru2
                   | Some n \<Rightarrow> dset ''memory_rss_kb'' (VInt n) ru2)))
         else ok (drop_none ru2))"

text \<open>
  One metric: a number, or a dict with a value and a step. What does not convert is skipped;
  an overflow is the one conversion error the code does not catch.
\<close>

definition metric_step :: "pyval \<Rightarrow> int py" where
  "metric_step v = (case py_int (por v (VInt 0)) of
     Inl OverflowError \<Rightarrow> raise OverflowError | Inl _ \<Rightarrow> ok 0 | Inr n \<Rightarrow> ok n)"

definition metric_entry :: "string \<Rightarrow> string \<Rightarrow> string \<Rightarrow> pyval \<Rightarrow> outcall option py" where
  "metric_entry run_id prefix key value =
     (let mk = strip key in
      if mk = [] then ok None
      else pbind (case value of VDict d \<Rightarrow> metric_step (dget d ''step'') | _ \<Rightarrow> ok 0)
        (\<lambda>step. case py_float (case value of VDict d \<Rightarrow> dget d ''value'' | _ \<Rightarrow> value) of
           Inl OverflowError \<Rightarrow> raise OverflowError
         | Inl _ \<Rightarrow> ok None
         | Inr x \<Rightarrow> ok (Some (LogMetric run_id (prefix @ mk) x step))))"

fun log_metrics :: "string \<Rightarrow> string \<Rightarrow> pydict \<Rightarrow> world \<Rightarrow> unit py \<times> world" where
  "log_metrics run_id prefix [] w = (ok (), w)"
| "log_metrics run_id prefix ((k, v) # ms) w =
     (case metric_entry run_id prefix k v of
        Inl e \<Rightarrow> (Inl e, w)
      | Inr None \<Rightarrow> log_metrics run_id prefix ms w
      | Inr (Some c) \<Rightarrow> log_metrics run_id prefix ms (effect c w))"

definition log_artifacts :: "string \<Rightarrow> pydict list \<Rightarrow> world \<Rightarrow> world" where
  "log_artifacts run_id artifacts w =
     fold (\<lambda>d. effect (LogArtifact run_id (text_of (dget d ''path'')) (text_of (dget d ''uri''))))
       artifacts w"

definition persist_run_plugin_tracking ::
    "string \<Rightarrow> string \<Rightarrow> pydict \<Rightarrow> pydict list \<Rightarrow> world \<Rightarrow> unit py \<times> world" where
  "persist_run_plugin_tracking run_id plugin_name metrics artifacts w =
     (let plugin = (if strip plugin_name = [] then ''plugin'' else strip plugin_name)
      in case log_metrics run_id (plugin @ ''.'') metrics w of
           (Inl e, w1) \<Rightarrow> (Inl e, w1)
         | (Inr _, w1) \<Rightarrow> (ok (), log_artifacts run_id artifacts w1))"

subsection \<open>The row of a task\<close>

definition load_task_run_row :: "string \<Rightarrow> world \<Rightarrow> (task_row \<times> run_row) option" where
  "load_task_run_row task_id w =
     (case task_find w task_id of None \<Rightarrow> None
      | Some t \<Rightarrow> map_option (Pair t) (run_find w (t_run t)))"

definition authorize_task_row :: "principal option \<Rightarrow> run_row \<Rightarrow> unit py" where
  "authorize_task_row p r =
     (case p of None \<Rightarrow> ok ()
      | Some q \<Rightarrow>
          if p_tenant q \<noteq> [] \<and> r_tenant r \<noteq> p_tenant q then raise (HTTPException 403 ''tenant_forbidden'')
          else if p_projects q \<noteq> [] \<and> ''*'' \<notin> set (p_projects q) \<and> r_project r \<notin> set (p_projects q)
          then raise (HTTPException 403 ''project_forbidden'')
          else ok ())"

text \<open>The checks complete, fail and logs share; completing asks first whether it is done already.\<close>

definition load_authorized ::
    "pydict \<Rightarrow> string \<Rightarrow> principal option \<Rightarrow> world \<Rightarrow> (task_row \<times> run_row) py" where
  "load_authorized l4 task_id p w =
     (if \<not> external_execution_enabled l4 w then raise (HTTPException 503 ''external_execution_disabled'')
      else case load_task_run_row task_id w of
        None \<Rightarrow> raise (HTTPException 404 ''task_not_found'')
      | Some (t, r) \<Rightarrow> pbind (authorize_task_row p r) (\<lambda>_. ok (t, r)))"

definition leased_by_worker :: "string \<Rightarrow> task_row \<Rightarrow> bool" where
  "leased_by_worker wid t =
     (upper (t_status t) = ''RUNNING'' \<and> opt_or (t_leased_by t) [] = wid)"

definition plugin_of :: "task_row \<Rightarrow> run_row \<Rightarrow> string" where
  "plugin_of t r = opt_or (t_plugin t) (opt_or (r_plugin_name r) [])"

subsection \<open>The model version of a finished task\<close>

text \<open>
  The registry as the service uses it: the versions of a model, and the create operation, which
  gives the new version or fails with a text.
\<close>

record registry =
  g_versions :: "string \<Rightarrow> pydict list"
  g_create :: "string \<Rightarrow> string \<Rightarrow> string \<Rightarrow> string + pydict"

definition version_number :: "pydict \<Rightarrow> int py" where
  "version_number mv = py_int (por (dget mv ''version'') (VInt 0))"

fun max_version :: "pydict \<Rightarrow> int \<Rightarrow> pydict list \<Rightarrow> pydict py" where
  "max_version best n [] = ok best"
| "max_version best n (mv # mvs) =
     pbind (version_number mv) (\<lambda>k. if n < k then max_version mv k mvs else max_version best n mvs)"

definition same_origin :: "string \<Rightarrow> string \<Rightarrow> pydict \<Rightarrow> bool" where
  "same_origin run_id uri mv =
     (text_of (dget mv ''run_id'') = run_id \<and> text_of (dget mv ''artifact_uri'') = uri)"

definition register_log :: "string \<Rightarrow> string \<Rightarrow> string \<Rightarrow> string \<Rightarrow> pydict \<Rightarrow> string option \<Rightarrow> string option
     \<Rightarrow> world \<Rightarrow> world" where
  "register_log run_id task_id model_id uri created plugin worker w =
     effect (TaskLog run_id task_id ''INFO''
       (take 500 (''Model version auto-registered model_id='' @ model_id @ '' version=''
          @ py_str (dget created ''version'') @ '' artifact_uri='' @ uri)) plugin worker) w"

definition auto_register_model_version ::
    "ext \<Rightarrow> registry \<Rightarrow> task_row \<Rightarrow> run_row \<Rightarrow> string \<Rightarrow> pydict list \<Rightarrow> string option \<Rightarrow> world
     \<Rightarrow> pydict option py \<times> world" where
  "auto_register_model_version X G t r plugin_name artifacts worker w =
     (let ctx = json_dict X (r_context r);
          model_id = strip (str_or (por (dget ctx ''model_id'') (dget ctx ''mlair_model_id'')) []);
          run_id = strip (t_run t)
      in case artifact_uri_for_model_version artifacts of
           None \<Rightarrow> (ok None, w)
         | Some uri \<Rightarrow>
            if model_id = [] \<or> run_id = [] then (ok None, w)
            else (case filter (same_origin run_id uri) (g_versions G model_id) of
                mv # mvs \<Rightarrow>
                  (pbind (version_number mv) (\<lambda>n. pbind (max_version mv n mvs) (\<lambda>b. ok (Some b))), w)
              | [] \<Rightarrow>
                 (case g_create G model_id run_id uri of
                    Inl exc \<Rightarrow> (ok None, effect (TaskLog run_id (t_id t) ''WARNING''
                        (''model_version_auto_register_failed: '' @ exc)
                        (some_nonempty plugin_name) worker) w)
                  | Inr created \<Rightarrow> (ok (Some created),
                      register_log run_id (t_id t) model_id uri created
                        (some_nonempty plugin_name) worker w))))"

text \<open>The metric that records an imported version; any failure in it is swallowed.\<close>

definition log_imported_version :: "string \<Rightarrow> string \<Rightarrow> pydict \<Rightarrow> world \<Rightarrow> world" where
  "log_imported_version run_id plugin_name mv w =
     (case version_number mv of Inl _ \<Rightarrow> w
      | Inr n \<Rightarrow> (case py_float (VInt n) of Inl _ \<Rightarrow> w
         | Inr x \<Rightarrow> effect (LogMetric run_id (plugin_name @ ''.imported_version'') x 0) w))"

definition artifacts_from_internal_plugin_exec :: "pyval \<Rightarrow> pydict list" where
  "artifacts_from_internal_plugin_exec plugin_exec =
     (case plugin_exec of
        VDict d \<Rightarrow> if \<not> truthy (dget d ''ok'') then []
                   else (case dget d ''result'' of
                       VDict res \<Rightarrow> (case dget res ''artifacts'' of
                           VList xs \<Rightarrow> normalize_complete_artifacts (VList xs) None | _ \<Rightarrow> [])
                     | _ \<Rightarrow> [])
      | _ \<Rightarrow> [])"

definition register_model_version_from_internal_task_done ::
    "ext \<Rightarrow> registry \<Rightarrow> pydict \<Rightarrow> string option \<Rightarrow> world \<Rightarrow> pydict option py \<times> world" where
  "register_model_version_from_internal_task_done X G done_event worker_id w =
     (let task_id = strip (str_or (dget done_event ''task_id'') []) in
      if upper (str_or (dget done_event ''status'') []) \<noteq> ''SUCCESS'' \<or> task_id = [] then (ok None, w)
      else (case load_task_run_row task_id w of None \<Rightarrow> (ok None, w)
        | Some (t, r) \<Rightarrow>
           (let plugin_name = py_str (por (dget done_event ''plugin_name'')
                                 (VStr (opt_or (t_plugin t) (opt_or (r_plugin_name r) ''plugin''))));
                wid = strip (opt_or worker_id
                        (opt_or (w_env w ''ML_AIR_EXECUTOR_WORKER_ID'') ''executor''));
                worker = Some (if wid = [] then ''executor'' else wid);
                artifacts = artifacts_from_internal_plugin_exec (dget done_event ''plugin_exec'')
            in case auto_register_model_version X G t r plugin_name artifacts worker w of
                 (Inl e, w1) \<Rightarrow> (Inl e, w1)
               | (Inr None, w1) \<Rightarrow> (ok None, w1)
               | (Inr (Some mv), w1) \<Rightarrow>
                   (ok (Some mv), if mv = [] then w1
                      else log_imported_version (t_run t) plugin_name mv w1))))"

subsection \<open>Reports to the scheduler\<close>

definition duration_since :: "int option \<Rightarrow> int \<Rightarrow> int" where
  "duration_since started now = (case started of None \<Rightarrow> 0 | Some s \<Rightarrow> max 0 ((now - s) div 1000))"

definition done_context :: "ext \<Rightarrow> task_row \<Rightarrow> run_row \<Rightarrow> pydict" where
  "done_context X t r =
     dsetdefault ''task_id'' (VStr (t_id t))
       (dsetdefault ''run_id'' (VStr (t_run t)) (json_dict X (r_context r)))"

definition done_payload ::
    "ext \<Rightarrow> task_row \<Rightarrow> run_row \<Rightarrow> string \<Rightarrow> pydict \<Rightarrow> int \<Rightarrow> pydict \<Rightarrow> pyval list \<Rightarrow> pydict" where
  "done_payload X t r status plugin_exec finished ru samples =
     (let d = [(''event_type'', VStr ''task_finished''), (''run_id'', VStr (t_run t)),
         (''task_id'', VStr (t_id t)), (''status'', VStr status),
         (''attempt'', VInt (if t_attempt t = 0 then 1 else t_attempt t)),
         (''pipeline_id'', VStr (r_pipeline r)), (''priority'', VStr (opt_or (r_priority r) ''normal'')),
         (''tenant_id'', VStr (r_tenant r)), (''project_id'', VStr (r_project r)),
         (''trace_id'', VStr (x_trace_id X)),
         (''plugin_name'', por (of_opt_str (t_plugin t)) (of_opt_str (r_plugin_name r))),
         (''plugin_exec'', VDict plugin_exec), (''context'', VDict (done_context X t r)),
         (''started_at'', VStr (x_iso X (case t_started t of None \<Rightarrow> finished | Some s \<Rightarrow> s))),
         (''finished_at'', VStr (x_iso X finished)), (''resource_usage'', VDict ru),
         (''pipeline_version_id'', of_opt_str (r_version r)),
         (''config_snapshot'', VDict (json_dict X (r_config r))),
         (''replay_from_task_id'', of_opt_str (r_replay_from r))]
      in if samples = [] then d else d @ [(''usage_samples'', VList samples)])"

definition tasks_done :: string where "tasks_done = ''mlair:tasks:done''"

definition publish_task_finished :: "ext \<Rightarrow> pydict \<Rightarrow> world \<Rightarrow> world" where
  "publish_task_finished X event w = rpush tasks_done (Json (VDict (x_carrier X event))) w"

definition announce_report :: "ext \<Rightarrow> task_row \<Rightarrow> run_row \<Rightarrow> string \<Rightarrow> world \<Rightarrow> world" where
  "announce_report X t r status w =
     effect (RtTrackingUpdated (r_tenant r) (r_project r) (t_run t) (t_id t)
         (some_nonempty (plugin_of t r)) (x_trace_id X))
      (effect (RtTaskUpdated (r_tenant r) (r_project r) (t_id t) (t_run t) status
         (case task_find w (t_id t) of None \<Rightarrow> 0 | Some u \<Rightarrow> t_updated u)
         (some_nonempty (r_pipeline r)) (x_trace_id X)) w)"

subsection \<open>Complete\<close>

datatype outcome = Completed | Idempotent

record report =
  o_metrics :: pydict
  o_artifacts :: "pydict list"
  o_lineage :: pydict
  o_usage :: pyval
  o_samples :: "pyval list"

definition complete_row :: "int \<Rightarrow> task_row \<Rightarrow> task_row" where
  "complete_row now t =
     t\<lparr>t_status := ''SUCCESS'', t_leased_by := None, t_lease_expires := None,
       t_finished := Some now, t_error := None, t_updated := now\<rparr>"

definition fail_row :: "string \<Rightarrow> int \<Rightarrow> task_row \<Rightarrow> task_row" where
  "fail_row err now t =
     t\<lparr>t_status := ''FAILED'', t_leased_by := None, t_lease_expires := None,
       t_finished := Some now, t_error := Some err, t_updated := now\<rparr>"

definition should_ingest_lineage_on_complete :: "pydict \<Rightarrow> bool" where
  "should_ingest_lineage_on_complete block =
     (truthy (dget block ''inputs'') \<or> truthy (dget block ''outputs''))"

text \<open>The two usage columns take a number or \<open>NULL\<close>; the request model lets nothing else through.\<close>

definition float_column :: "pyval \<Rightarrow> pyfloat option py" where
  "float_column v = (case v of VNone \<Rightarrow> ok None | VInt i \<Rightarrow> ok (Some (Fin (of_int i)))
     | VFloat x _ \<Rightarrow> ok (Some x) | _ \<Rightarrow> raise TypeError)"

definition int_column :: "pyval \<Rightarrow> int option py" where
  "int_column v = (case v of VNone \<Rightarrow> ok None | VInt i \<Rightarrow> ok (Some i) | _ \<Rightarrow> raise TypeError)"

definition record_duration :: "string \<Rightarrow> int \<Rightarrow> world \<Rightarrow> world" where
  "record_duration task_id duration w =
     update_tasks (\<lambda>t. t_id t = task_id) (\<lambda>t. t\<lparr>t_duration_ms := Some duration\<rparr>) w"

definition record_usage :: "string \<Rightarrow> pydict \<Rightarrow> world \<Rightarrow> world py" where
  "record_usage task_id ru w =
     pbind (float_column (dget ru ''cpu_time_seconds'')) (\<lambda>cpu.
     pbind (int_column (dget ru ''memory_rss_kb'')) (\<lambda>rss.
     ok (update_tasks (\<lambda>t. t_id t = task_id)
           (\<lambda>t. t\<lparr>t_cpu := coalesce cpu (t_cpu t), t_rss_kb := coalesce rss (t_rss_kb t)\<rparr>) w)))"

definition success_exec :: "report \<Rightarrow> pydict option \<Rightarrow> pydict" where
  "success_exec rep mv =
     [(''ok'', VBool True),
      (''result'', VDict ([(''params'', VDict []), (''metrics'', VDict (o_metrics rep)),
         (''artifacts'', VList (map VDict (o_artifacts rep))), (''lineage'', VDict (o_lineage rep))]
         @ (case mv of None \<Rightarrow> [] | Some d \<Rightarrow> if d = [] then [] else [(''model_version'', VDict d)])))]"

text \<open>What follows the write that completes the task.\<close>

definition complete_tracking ::
    "ext \<Rightarrow> registry \<Rightarrow> string \<Rightarrow> report \<Rightarrow> task_row \<Rightarrow> run_row \<Rightarrow> world
     \<Rightarrow> pydict option py \<times> world" where
  "complete_tracking X G wid rep t r w =
     (let plugin_name = opt_or (t_plugin t) (opt_or (r_plugin_name r) ''plugin'')
      in case persist_run_plugin_tracking (t_run t) plugin_name (o_metrics rep) (o_artifacts rep) w of
           (Inl e, w1) \<Rightarrow> (Inl e, w1)
         | (Inr _, w1) \<Rightarrow>
            (case auto_register_model_version X G t r plugin_name (o_artifacts rep)
                    (some_nonempty wid) w1 of
               (Inl e, w2) \<Rightarrow> (Inl e, w2)
             | (Inr None, w2) \<Rightarrow> (ok None, w2)
             | (Inr (Some mv), w2) \<Rightarrow>
                 (ok (Some mv), if mv = [] then w2 else log_imported_version (t_run t) plugin_name mv w2)))"

definition complete_publish ::
    "ext \<Rightarrow> string \<Rightarrow> report \<Rightarrow> task_row \<Rightarrow> run_row \<Rightarrow> int \<Rightarrow> pydict \<Rightarrow> pydict option \<Rightarrow> world \<Rightarrow> world" where
  "complete_publish X wid rep t r finished ru mv w =
     (let payload = done_payload X t r ''SUCCESS'' (success_exec rep mv) finished ru (o_samples rep);
          w1 = announce_report X t r ''SUCCESS'' (publish_task_finished X payload w)
      in effect (TaskLog (t_run t) (t_id t) ''INFO'' ''Task completed successfully''
           (some_nonempty (opt_or (t_plugin t) [])) (Some wid)) w1)"

definition complete_rest ::
    "ext \<Rightarrow> registry \<Rightarrow> string \<Rightarrow> report \<Rightarrow> task_row \<Rightarrow> run_row \<Rightarrow> int \<Rightarrow> world \<Rightarrow> outcome py \<times> world" where
  "complete_rest X G wid rep t r now w =
     (let tid = t_id t;
          w2 = (if should_ingest_lineage_on_complete (o_lineage rep)
                then effect (IngestLineage (t_run t) tid) w else w);
          duration = duration_since (t_started t) now
      in case resource_usage_for_done_event duration (o_usage rep) of
           Inl e \<Rightarrow> (Inl e, w2)
         | Inr ru \<Rightarrow>
            (let w3 = record_duration tid duration w2 in
             case record_usage tid ru w3 of Inl e \<Rightarrow> (Inl e, w3)
             | Inr w4 \<Rightarrow>
                (case complete_tracking X G wid rep t r w4 of
                   (Inl e, w5) \<Rightarrow> (Inl e, w5)
                 | (Inr mv, w5) \<Rightarrow>
                     (ok Completed, complete_publish X wid rep t r now ru mv w5))))"

definition complete_commit ::
    "ext \<Rightarrow> registry \<Rightarrow> string \<Rightarrow> report \<Rightarrow> task_row \<Rightarrow> run_row \<Rightarrow> world \<Rightarrow> outcome py \<times> world" where
  "complete_commit X G wid rep t r w =
     (let tid = t_id t; now = w_now w in
      if \<not> list_ex (held_by tid wid) (w_tasks w) then
        (case task_find w tid of
           None \<Rightarrow> (raise (HTTPException 409 ''task_lease_conflict''), w)
         | Some u \<Rightarrow> if upper (t_status u) = ''SUCCESS'' then (ok Idempotent, w)
                     else (raise (HTTPException 409 ''task_lease_conflict''), w))
      else complete_rest X G wid rep t r now
             (update_tasks (held_by tid wid) (complete_row now) w))"

definition complete_check ::
    "pydict \<Rightarrow> string \<Rightarrow> string \<Rightarrow> principal option \<Rightarrow> world \<Rightarrow> (task_row \<times> run_row) option py" where
  "complete_check l4 task_id wid p w =
     pbind (load_authorized l4 task_id p w) (\<lambda>(t, r).
       if upper (t_status t) = ''SUCCESS'' then ok None
       else if \<not> leased_by_worker wid t then raise (HTTPException 409 ''task_not_leased_by_worker'')
       else ok (Some (t, r)))"

definition complete_task ::
    "ext \<Rightarrow> registry \<Rightarrow> pydict \<Rightarrow> string \<Rightarrow> string \<Rightarrow> pydict \<Rightarrow> pyval \<Rightarrow> string option
     \<Rightarrow> pyval \<Rightarrow> pyval list \<Rightarrow> pydict \<Rightarrow> principal option \<Rightarrow> world \<Rightarrow> outcome py \<times> world" where
  "complete_task X G l4 task_id worker_id metrics artifacts artifact_uri usage samples lineage p w =
     (let wid = strip worker_id;
          rep = \<lparr>o_metrics = metrics,
                 o_artifacts = normalize_complete_artifacts artifacts artifact_uri,
                 o_lineage = lineage, o_usage = usage, o_samples = samples\<rparr>
      in case complete_check l4 task_id wid p w of
           Inl e \<Rightarrow> (Inl e, w)
         | Inr None \<Rightarrow> (ok Idempotent, w)
         | Inr (Some (t, r)) \<Rightarrow> complete_commit X G wid rep t r w)"

subsection \<open>Fail\<close>

definition fail_publish ::
    "ext \<Rightarrow> string \<Rightarrow> string \<Rightarrow> pyval list \<Rightarrow> task_row \<Rightarrow> run_row \<Rightarrow> int \<Rightarrow> pydict \<Rightarrow> world \<Rightarrow> world" where
  "fail_publish X wid err samples t r finished ru w =
     (let plugin_name = opt_or (t_plugin t) (opt_or (r_plugin_name r) ''plugin'');
          w1 = effect (LogMetric (t_run t) (plugin_name @ ''.passed'') (Fin 0) 0) w;
          payload = done_payload X t r ''FAILED'' [(''ok'', VBool False), (''error'', VStr err)]
                      finished ru samples;
          w2 = announce_report X t r ''FAILED'' (publish_task_finished X payload w1)
      in effect (TaskLog (t_run t) (t_id t) ''ERROR'' (''Task failed: '' @ take 500 err)
           (some_nonempty (opt_or (t_plugin t) [])) (Some wid)) w2)"

definition fail_commit ::
    "ext \<Rightarrow> string \<Rightarrow> string \<Rightarrow> pyval \<Rightarrow> pyval list \<Rightarrow> task_row \<Rightarrow> run_row \<Rightarrow> world \<Rightarrow> unit py \<times> world" where
  "fail_commit X wid err usage samples t r w =
     (let tid = t_id t; now = w_now w in
      case resource_usage_for_done_event (duration_since (t_started t) now) usage of
        Inl e \<Rightarrow> (Inl e, w)
      | Inr ru \<Rightarrow>
          if \<not> list_ex (held_by tid wid) (w_tasks w)
          then (raise (HTTPException 409 ''task_lease_conflict''), w)
          else (ok (), fail_publish X wid err samples t r now ru
                         (update_tasks (held_by tid wid) (fail_row err now) w)))"

definition fail_check ::
    "pydict \<Rightarrow> string \<Rightarrow> string \<Rightarrow> principal option \<Rightarrow> world \<Rightarrow> (task_row \<times> run_row) py" where
  "fail_check l4 task_id wid p w =
     pbind (load_authorized l4 task_id p w) (\<lambda>(t, r).
       if leased_by_worker wid t then ok (t, r)
       else raise (HTTPException 409 ''task_not_leased_by_worker''))"

definition fail_task ::
    "ext \<Rightarrow> pydict \<Rightarrow> string \<Rightarrow> string \<Rightarrow> string \<Rightarrow> pyval \<Rightarrow> pyval list \<Rightarrow> principal option
     \<Rightarrow> world \<Rightarrow> unit py \<times> world" where
  "fail_task X l4 task_id worker_id error usage samples p w =
     (let wid = strip worker_id;
          err = take 8000 (strip (if error = [] then ''task_failed'' else error))
      in case fail_check l4 task_id wid p w of
           Inl e \<Rightarrow> (Inl e, w)
         | Inr (t, r) \<Rightarrow> fail_commit X wid err usage samples t r w)"

subsection \<open>Logs\<close>

definition log_line :: "string \<Rightarrow> task_row \<Rightarrow> pyval \<Rightarrow> outcall option" where
  "log_line wid t line =
     (case line of VDict d \<Rightarrow>
        (let message = text_of (dget d ''message'');
             level = take 16 (upper (strip (str_or (dget d ''level'') ''INFO'')))
         in if message = [] then None
            else Some (TaskLog (t_run t) (t_id t) (if level = [] then ''INFO'' else level)
                   (take 8000 message) (some_nonempty (opt_or (t_plugin t) [])) (Some wid)))
      | _ \<Rightarrow> None)"

definition append_worker_task_logs ::
    "pydict \<Rightarrow> string \<Rightarrow> string \<Rightarrow> pyval list \<Rightarrow> principal option \<Rightarrow> world \<Rightarrow> nat py \<times> world" where
  "append_worker_task_logs l4 task_id worker_id lines p w =
     (let wid = strip worker_id in
      case fail_check l4 task_id wid p w of
        Inl e \<Rightarrow> (Inl e, w)
      | Inr (t, r) \<Rightarrow>
         (let logs = List.map_filter (log_line wid t) (take 100 lines)
          in (ok (length logs), fold effect logs w)))"

end
