(* ===== verification/WorkerSafety.thy ===== *)
theory WorkerSafety
  imports WorkerTasks
begin

text \<open>
  What the worker protocol of \<open>WorkerTasks\<close> guarantees: no task is leased twice, only the holder
  of a lease completes or fails a task, a task is completed at most once whatever runs in between,
  a heartbeat keeps the lease reaper away, and the report of a worker is read by the scheduler as
  it was meant.
\<close>

subsection \<open>Frames\<close>

lemma log_artifacts_frame [frame, simp]:
  "w_tasks (log_artifacts rid as w) = w_tasks w" "w_runs (log_artifacts rid as w) = w_runs w"
  "w_queues (log_artifacts rid as w) = w_queues w"
  unfolding log_artifacts_def by (induction as arbitrary: w) simp_all

lemma fold_effect_frame [frame, simp]:
  "w_tasks (fold effect es w) = w_tasks w" "w_runs (fold effect es w) = w_runs w"
  "w_queues (fold effect es w) = w_queues w"
  by (induction es arbitrary: w) simp_all

lemma log_metrics_frame [frame, simp]:
  "w_tasks (snd (log_metrics rid p ms w)) = w_tasks w"
  "w_runs (snd (log_metrics rid p ms w)) = w_runs w"
  "w_queues (snd (log_metrics rid p ms w)) = w_queues w"
  by (induction rid p ms w rule: log_metrics.induct) (simp_all split: sum.split option.split)

lemma persist_frame [frame, simp]:
  "w_tasks (snd (persist_run_plugin_tracking rid p ms as w)) = w_tasks w"
  "w_runs (snd (persist_run_plugin_tracking rid p ms as w)) = w_runs w"
  "w_queues (snd (persist_run_plugin_tracking rid p ms as w)) = w_queues w"
proof -
  let ?pl = "if strip p = [] then ''plugin'' else strip p"
  obtain a w1 where e: "log_metrics rid (?pl @ ''.'') ms w = (a, w1)" by fastforce
  note f = log_metrics_frame [of rid "?pl @ ''.''" ms w, unfolded e snd_conv]
  show "w_tasks (snd (persist_run_plugin_tracking rid p ms as w)) = w_tasks w"
    "w_runs (snd (persist_run_plugin_tracking rid p ms as w)) = w_runs w"
    "w_queues (snd (persist_run_plugin_tracking rid p ms as w)) = w_queues w"
    unfolding persist_run_plugin_tracking_def Let_def e using f by (simp_all split: sum.split)
qed

lemma auto_register_frame [frame, simp]:
  "w_tasks (snd (auto_register_model_version X G t r p as wk w)) = w_tasks w"
  "w_runs (snd (auto_register_model_version X G t r p as wk w)) = w_runs w"
  "w_queues (snd (auto_register_model_version X G t r p as wk w)) = w_queues w"
  by (simp_all add: auto_register_model_version_def register_log_def Let_def
      split: option.split list.split sum.split)

lemma log_imported_frame [frame, simp]:
  "w_tasks (log_imported_version rid p mv w) = w_tasks w"
  "w_runs (log_imported_version rid p mv w) = w_runs w"
  "w_queues (log_imported_version rid p mv w) = w_queues w"
  by (simp_all add: log_imported_version_def split: sum.split)

lemma tracking_frame [frame, simp]:
  "w_tasks (snd (complete_tracking X G wid rep t r w)) = w_tasks w"
  "w_runs (snd (complete_tracking X G wid rep t r w)) = w_runs w"
  "w_queues (snd (complete_tracking X G wid rep t r w)) = w_queues w"
proof -
  let ?pn = "opt_or (t_plugin t) (opt_or (r_plugin_name r) ''plugin'')"
  obtain a w1 where p: "persist_run_plugin_tracking (t_run t) ?pn (o_metrics rep) (o_artifacts rep) w
      = (a, w1)" by fastforce
  obtain b w2 where q: "auto_register_model_version X G t r ?pn (o_artifacts rep) (some_nonempty wid) w1
      = (b, w2)" by fastforce
  note f = persist_frame [of "t_run t" ?pn "o_metrics rep" "o_artifacts rep" w, unfolded p snd_conv]
    auto_register_frame [of X G t r ?pn "o_artifacts rep" "some_nonempty wid" w1, unfolded q snd_conv]
  show "w_tasks (snd (complete_tracking X G wid rep t r w)) = w_tasks w"
    "w_runs (snd (complete_tracking X G wid rep t r w)) = w_runs w"
    "w_queues (snd (complete_tracking X G wid rep t r w)) = w_queues w"
    unfolding complete_tracking_def Let_def p using f
    by (simp_all add: q split: sum.split option.split)
qed

lemma announce_report_frame [frame, simp]:
  "w_tasks (announce_report X t r s w) = w_tasks w" "w_runs (announce_report X t r s w) = w_runs w"
  "w_queues (announce_report X t r s w) = w_queues w"
  by (simp_all add: announce_report_def)

lemma complete_publish_frame [frame, simp]:
  "w_tasks (complete_publish X wid rep t r f ru mv w) = w_tasks w"
  "w_runs (complete_publish X wid rep t r f ru mv w) = w_runs w"
  "w_queues (complete_publish X wid rep t r f ru mv w) = (w_queues w)(tasks_done := w_queues w tasks_done
     @ [Json (VDict (x_carrier X (done_payload X t r ''SUCCESS'' (success_exec rep mv) f ru
          (o_samples rep))))])"
  by (simp_all add: complete_publish_def Let_def publish_task_finished_def)

lemma fail_publish_frame [frame, simp]:
  "w_tasks (fail_publish X wid err ss t r f ru w) = w_tasks w"
  "w_runs (fail_publish X wid err ss t r f ru w) = w_runs w"
  "w_queues (fail_publish X wid err ss t r f ru w) = (w_queues w)(tasks_done := w_queues w tasks_done
     @ [Json (VDict (x_carrier X (done_payload X t r ''FAILED''
          [(''ok'', VBool False), (''error'', VStr err)] f ru ss)))])"
  by (simp_all add: fail_publish_def Let_def publish_task_finished_def)

lemma announce_lease_frame [frame, simp]:
  "w_tasks (announce_lease X wid t r w) = w_tasks w" "w_runs (announce_lease X wid t r w) = w_runs w"
  "run_find (announce_lease X wid t r w) = run_find w"
  by (simp_all add: announce_lease_def fun_eq_iff)

lemma lease_out_frame [frame, simp]:
  "w_tasks (snd (lease_out X wid ts out w)) = w_tasks w"
  "w_runs (snd (lease_out X wid ts out w)) = w_runs w"
  by (induction X wid ts out w rule: lease_out.induct) (simp_all split: option.split)

subsection \<open>Evolution\<close>

lemma pick_tasks_set:
  "t \<in> set (pick_tasks caps p n w) \<Longrightarrow> t \<in> set (w_tasks w) \<and> leasable caps p w t"
  by (auto simp: pick_tasks_def dest: in_set_takeD)

lemma picked_rows:
  assumes "keys_unique w" and "t \<in> set (w_tasks w)"
    and "t_id t \<in> set (map t_id (pick_tasks caps p n w))"
  shows "leasable caps p w t"
proof -
  obtain t' where t': "t' \<in> set (pick_tasks caps p n w)" "t_id t' = t_id t"
    using assms(3) by auto
  have "task_find w (t_id t') = Some t'"
    by (rule task_find_unique) (use assms(1) pick_tasks_set [OF t'(1)] in simp_all)
  then have "task_find w (t_id t) = Some t'" unfolding t'(2) .
  then have "Some t = Some t'" unfolding task_find_unique [OF assms(1,2)] .
  then show ?thesis using pick_tasks_set [OF t'(1)] by (simp only: option.inject)
qed

lemma leasable_queued: "leasable caps p w t \<Longrightarrow> t_status t = ''QUEUED''"
  by (auto simp: leasable_def split: option.splits)

lemma evolves_lease_rows:
  assumes "keys_unique w"
  shows "evolves w (lease_rows wid ttl (map t_id (pick_tasks caps p n w)) w)"
proof -
  let ?p = "\<lambda>t. t_id t \<in> set (map t_id (pick_tasks caps p n w)) \<and> t_status t = ''QUEUED''"
  have eq: "(if t_id t \<in> set (map t_id (pick_tasks caps p n w)) then f t else t)
      = (if ?p t then f t else t)" if "t \<in> set (w_tasks w)" for t f
    using leasable_queued [OF picked_rows [OF assms that]] by auto
  have "update_tasks (\<lambda>t. t_id t \<in> set (map t_id (pick_tasks caps p n w))) f w = update_tasks ?p f w"
    for f
    unfolding update_tasks_def using eq by (simp cong: map_cong)
  moreover have "evolves w (update_tasks ?p (lease_row wid ttl (w_now w)) w)"
    by (rule evolves_update_tasks) (auto simp: lease_row_def task_kept_def task_final_def)
  ultimately show ?thesis by (simp add: lease_rows_def)
qed

lemma lease_tasks_tables:
  "w_tasks (snd (lease_tasks X l4 wid caps n p w)) =
     (if external_execution_enabled l4 w \<and> strip wid \<noteq> []
      then w_tasks (lease_rows (strip wid) (lease_ttl_seconds l4 w)
        (map t_id (pick_tasks (filter (\<lambda>c. c \<noteq> []) (map strip caps)) p (nat (max 1 (min n 50))) w)) w)
      else w_tasks w)"
  "w_runs (snd (lease_tasks X l4 wid caps n p w)) = w_runs w"
  by (simp_all add: lease_tasks_def Let_def) (simp_all add: lease_rows_def)

lemma evolves_lease: "keys_unique w \<Longrightarrow> evolves w (snd (lease_tasks X l4 wid caps n p w))"
  using evolves_lease_rows [of w "strip wid" "lease_ttl_seconds l4 w"
      "filter (\<lambda>c. c \<noteq> []) (map strip caps)" p "nat (max 1 (min n 50))"]
  by (auto intro: evolves_trans [OF _ evolves_same_tables]
      simp: lease_tasks_tables lease_tasks_def Let_def)

lemma evolves_heartbeat: "evolves w (snd (heartbeat_task l4 tid wid p u w))"
proof -
  have "evolves w (update_tasks hit (\<lambda>t. t\<lparr>t_lease_expires := e, t_updated := n\<rparr>) w)" for hit e n
    by (rule evolves_update_tasks) (simp_all add: task_kept_def)
  then show ?thesis by (auto simp: heartbeat_task_def Let_def split: option.split)
qed

lemma evolves_record_duration: "evolves w (record_duration tid d w)"
  unfolding record_duration_def by (rule evolves_update_tasks) (simp_all add: task_kept_def)

lemma evolves_record_usage: "record_usage tid ru w = Inr w' \<Longrightarrow> evolves w w'"
  by (auto simp: record_usage_def pbind_eq_Inr task_kept_def intro!: evolves_update_tasks)

lemma evolves_complete_rest: "evolves w (snd (complete_rest X G wid rep t r now w))"
proof -
  let ?w2 = "if should_ingest_lineage_on_complete (o_lineage rep)
      then effect (IngestLineage (t_run t) (t_id t)) w else w"
  let ?w3 = "record_duration (t_id t) (duration_since (t_started t) now) ?w2"
  have w2: "evolves w ?w2" by simp
  have w3: "evolves w ?w3" by (rule evolves_trans [OF w2 evolves_record_duration])
  show ?thesis
  proof (cases "resource_usage_for_done_event (duration_since (t_started t) now) (o_usage rep)")
    case (Inl e)
    with w2 show ?thesis unfolding complete_rest_def Let_def by simp
  next
    case ru: (Inr ru)
    show ?thesis
    proof (cases "record_usage (t_id t) ru ?w3")
      case (Inl e)
      with w3 ru show ?thesis unfolding complete_rest_def Let_def by simp
    next
      case (Inr w4)
      obtain res w5 where tr: "complete_tracking X G wid rep t r w4 = (res, w5)" by fastforce
      have "evolves w4 w5"
        using tracking_frame [of X G wid rep t r w4] by (simp add: tr evolves_same_tables)
      then have w5: "evolves w w5"
        using evolves_trans [OF w3 evolves_record_usage [OF Inr]] evolves_trans by blast
      have "evolves w (complete_publish X wid rep t r now ru mv w5)" for mv
        by (rule evolves_trans [OF w5 evolves_same_tables]) simp_all
      with ru Inr tr w5 show ?thesis
        unfolding complete_rest_def Let_def by (cases res) simp_all
    qed
  qed
qed

lemma evolves_complete_commit: "evolves w (snd (complete_commit X G wid rep t r w))"
proof -
  have "evolves w (update_tasks (held_by (t_id t) wid) (complete_row (w_now w)) w)"
    by (rule evolves_update_tasks)
      (auto simp: complete_row_def task_kept_def held_by_def task_final_def)
  from evolves_trans [OF this evolves_complete_rest] show ?thesis
    by (simp add: complete_commit_def Let_def split: option.split)
qed

lemma evolves_complete: "evolves w (snd (complete_task X G l4 tid wid m a u ru ss lin p w))"
  using evolves_complete_commit
  by (auto simp: complete_task_def Let_def split: sum.split option.split)

lemma evolves_fail_commit: "evolves w (snd (fail_commit X wid err u ss t r w))"
proof -
  have "evolves w (update_tasks (held_by (t_id t) wid) (fail_row err (w_now w)) w)"
    by (rule evolves_update_tasks) (auto simp: fail_row_def task_kept_def held_by_def task_final_def)
  then have "evolves w (fail_publish X wid err ss t r f ru
      (update_tasks (held_by (t_id t) wid) (fail_row err (w_now w)) w))" for f ru
    by (rule evolves_trans [OF _ evolves_same_tables]) simp_all
  then show ?thesis by (simp add: fail_commit_def Let_def split: sum.split)
qed

lemma evolves_fail: "evolves w (snd (fail_task X l4 tid wid err u ss p w))"
  using evolves_fail_commit by (auto simp: fail_task_def Let_def split: sum.split)

lemma evolves_logs: "evolves w (snd (append_worker_task_logs l4 tid wid lines p w))"
  by (rule evolves_same_tables)
    (simp_all add: append_worker_task_logs_def Let_def split: sum.split)

subsection \<open>Commands of the workers\<close>

text \<open>
  One request of a worker. Completing and failing appear whole and as their commits alone, with
  whatever row was read before: other commands may have run in between.
\<close>

datatype worker_cmd =
    Lease string "string list" int "principal option"
  | Heartbeat string string "principal option" "pydict option"
  | Complete string string pydict pyval "string option" pyval "pyval list" pydict "principal option"
  | CompleteCommit string report task_row run_row
  | Fail string string string pyval "pyval list" "principal option"
  | FailCommit string string pyval "pyval list" task_row run_row
  | Logs string string "pyval list" "principal option"

fun worker_do :: "ext \<Rightarrow> registry \<Rightarrow> pydict \<Rightarrow> worker_cmd \<Rightarrow> world \<Rightarrow> world" where
  "worker_do X G l4 (Lease wid caps n p) w = snd (lease_tasks X l4 wid caps n p w)"
| "worker_do X G l4 (Heartbeat tid wid p u) w = snd (heartbeat_task l4 tid wid p u w)"
| "worker_do X G l4 (Complete tid wid ms as uri u ss lin p) w =
     snd (complete_task X G l4 tid wid ms as uri u ss lin p w)"
| "worker_do X G l4 (CompleteCommit wid rep t r) w = snd (complete_commit X G wid rep t r w)"
| "worker_do X G l4 (Fail tid wid err u ss p) w = snd (fail_task X l4 tid wid err u ss p w)"
| "worker_do X G l4 (FailCommit wid err u ss t r) w = snd (fail_commit X wid err u ss t r w)"
| "worker_do X G l4 (Logs tid wid lines p) w = snd (append_worker_task_logs l4 tid wid lines p w)"

lemma worker_do_evolves: "keys_unique w \<Longrightarrow> evolves w (worker_do X G l4 c w)"
  by (cases c) (simp_all add: evolves_lease evolves_heartbeat evolves_complete
      evolves_complete_commit evolves_fail evolves_fail_commit evolves_logs)

interpretation workers: table_client "worker_do X G l4" for X G l4
  by unfold_locales (rule worker_do_evolves)

subsection \<open>Leases\<close>

definition entry_id :: "pydict \<Rightarrow> pyval" where
  "entry_id e = dget e ''task_id''"

lemma entry_id_lease [simp]: "entry_id (lease_entry X t r) = VStr (t_id t)"
  by (simp add: entry_id_def lease_entry_def Let_def dget_def)

lemma lease_out_entries:
  "map entry_id (fst (lease_out X wid ts out w)) =
     map entry_id out @ map (VStr \<circ> t_id) (filter (\<lambda>t. run_find w (t_run t) \<noteq> None) ts)"
  by (induction X wid ts out w rule: lease_out.induct) (auto split: option.split)

lemma length_ids_le:
  assumes "distinct (map f xs)"
  shows "length (filter (\<lambda>x. f x \<in> set ids) xs) \<le> length ids"
proof -
  have "distinct (map f (filter (\<lambda>x. f x \<in> set ids) xs))"
    using assms by (induction xs) auto
  then have "length (filter (\<lambda>x. f x \<in> set ids) xs) = card (f ` set (filter (\<lambda>x. f x \<in> set ids) xs))"
    by (metis distinct_card length_map set_map)
  also have "\<dots> \<le> card (set ids)" by (intro card_mono) auto
  also have "\<dots> \<le> length ids" by (rule card_length)
  finally show ?thesis .
qed

lemma lease_shape:
  assumes "lease_tasks X l4 wid caps n p w = (out, w')" and "out \<noteq> []"
  obtains caps' w1 where
    "w1 = lease_rows (strip wid) (lease_ttl_seconds l4 w)
       (map t_id (pick_tasks caps' p (nat (max 1 (min n 50))) w)) w"
    "map entry_id out = map (VStr \<circ> t_id) (filter (\<lambda>t. run_find w1 (t_run t) \<noteq> None)
       (filter (\<lambda>t. t_id t \<in> set (map t_id (pick_tasks caps' p (nat (max 1 (min n 50))) w)))
         (w_tasks w1)))"
    "w_tasks w' = w_tasks w1"
proof -
  define caps' where "caps' = filter (\<lambda>c. c \<noteq> []) (map strip caps)"
  define k where "k = nat (max 1 (min n 50))"
  define ids where "ids = map t_id (pick_tasks caps' p k w)"
  define w1 where "w1 = lease_rows (strip wid) (lease_ttl_seconds l4 w) ids w"
  define rows where "rows = filter (\<lambda>t. t_id t \<in> set ids) (w_tasks w1)"
  have "lease_out X (strip wid) rows [] w1 = (out, w')"
    using assms by (auto simp: lease_tasks_def Let_def rows_def w1_def ids_def caps'_def k_def
        split: if_splits)
  then have o: "out = fst (lease_out X (strip wid) rows [] w1)"
    and w': "w' = snd (lease_out X (strip wid) rows [] w1)" by simp_all
  have "map entry_id out = map (VStr \<circ> t_id) (filter (\<lambda>t. run_find w1 (t_run t) \<noteq> None) rows)"
    unfolding o lease_out_entries by simp
  moreover have "w_tasks w' = w_tasks w1" unfolding w' by simp
  ultimately show thesis
    using that unfolding rows_def w1_def ids_def k_def by blast
qed

text \<open>What a lease hands out: tasks that were queued and now run under this worker's lease.\<close>

lemma lease_entries:
  assumes "keys_unique w" and "lease_tasks X l4 wid caps n p w = (out, w')"
    and "VStr tid \<in> set (map entry_id out)"
  shows "\<exists>t r. task_find w tid = Some t \<and> t_status t = ''QUEUED'' \<and>
      run_find w (t_run t) = Some r \<and> r_status r = ''RUNNING'' \<and> in_scope p r \<and>
      task_find w' tid = Some (lease_row (strip wid) (lease_ttl_seconds l4 w) (w_now w) t)"
proof -
  have "out \<noteq> []" using assms(3) by auto
  then obtain caps' w1 where
    w1: "w1 = lease_rows (strip wid) (lease_ttl_seconds l4 w)
       (map t_id (pick_tasks caps' p (nat (max 1 (min n 50))) w)) w" and
    out: "map entry_id out = map (VStr \<circ> t_id) (filter (\<lambda>t. run_find w1 (t_run t) \<noteq> None)
       (filter (\<lambda>t. t_id t \<in> set (map t_id (pick_tasks caps' p (nat (max 1 (min n 50))) w)))
         (w_tasks w1)))" and
    w': "w_tasks w' = w_tasks w1"
    using lease_shape [OF assms(2)] by blast
  let ?picked = "pick_tasks caps' p (nat (max 1 (min n 50))) w"
  from assms(3) have tid: "tid \<in> set (map t_id ?picked)" unfolding out by auto
  then obtain t where t: "t \<in> set ?picked" "t_id t = tid" by auto
  have found: "task_find w tid = Some t"
    using task_find_unique [OF assms(1)] pick_tasks_set [OF t(1)] t(2) by blast
  have "task_find w1 tid = Some (lease_row (strip wid) (lease_ttl_seconds l4 w) (w_now w) t)"
    unfolding w1 lease_rows_def using found tid t(2)
    by (subst task_find_update) (auto simp: lease_row_def)
  moreover obtain r where "run_find w (t_run t) = Some r" "t_status t = ''QUEUED''"
    "r_status r = ''RUNNING''" "in_scope p r"
    using pick_tasks_set [OF t(1)] by (auto simp: leasable_def split: option.splits)
  moreover have "task_find w' tid = task_find w1 tid" by (simp add: task_find_def w')
  ultimately show ?thesis using found by auto
qed


subsection \<open>Completion\<close>

lemma held_by_find:
  assumes "keys_unique w" and "list_ex (held_by tid wid) (w_tasks w)"
  shows "\<exists>t. task_find w tid = Some t \<and> t_status t = ''RUNNING'' \<and> t_leased_by t = Some wid"
proof -
  obtain t where t: "t \<in> set (w_tasks w)" "held_by tid wid t"
    using assms(2) by (auto simp: list_ex_iff)
  with task_find_unique [OF assms(1) t(1)] show ?thesis by (auto simp: held_by_def)
qed

lemma not_held_final:
  assumes "keys_unique w" and "task_find w tid = Some t" and "task_final (t_status t)"
  shows "\<not> list_ex (held_by tid wid) (w_tasks w)"
  using held_by_find [OF assms(1), of tid wid] assms(2,3) by (auto simp: task_final_def)

text \<open>A commit that goes through: the row was held, and is \<open>SUCCESS\<close> afterwards.\<close>

lemma update_held_status:
  assumes "keys_unique w" and "list_ex (held_by tid wid) (w_tasks w)"
    and "\<And>t. t_id (f t) = t_id t"
  shows "task_status (update_tasks (held_by tid wid) f w) tid
       = map_option (t_status \<circ> f) (task_find w tid)"
  using held_by_find [OF assms(1,2)] assms(3)
  by (auto simp: task_status_def task_find_update held_by_def dest: task_find_mem)

lemma task_status_tasks: "w_tasks w' = w_tasks w \<Longrightarrow> task_status w' tid = task_status w tid"
  by (simp add: task_status_def task_find_def)

lemma complete_commit_done:
  assumes "keys_unique w" and "complete_commit X G wid rep t r w = (Inr Completed, w')"
  shows "list_ex (held_by (t_id t) wid) (w_tasks w)"
    and "task_status w' (t_id t) = Some ''SUCCESS''"
proof -
  show h: "list_ex (held_by (t_id t) wid) (w_tasks w)"
    using assms(2) by (auto simp: complete_commit_def Let_def split: option.splits if_splits)
  let ?w1 = "update_tasks (held_by (t_id t) wid) (complete_row (w_now w)) w"
  have "task_status ?w1 (t_id t) = Some ''SUCCESS''"
    using held_by_find [OF assms(1) h] update_held_status [OF assms(1) h, of "complete_row (w_now w)"]
    by (auto simp: complete_row_def)
  then obtain u where u: "task_find ?w1 (t_id t) = Some u" "task_final (t_status u)"
      "t_status u = ''SUCCESS''"
    by (auto simp: task_status_def task_final_def)
  have "evolves ?w1 w'"
    using assms(2) h evolves_complete_rest [of ?w1 X G wid rep t r "w_now w"]
    by (simp add: complete_commit_def Let_def)
  from evolves_final_task [OF this u(1,2)] u(3) show "task_status w' (t_id t) = Some ''SUCCESS''"
    by (auto simp: task_status_def)
qed

text \<open>
  C7. A task is completed once: after one worker's commit has gone through, and whatever happens
  to the tables in between (the reaper, the scheduler, other workers), no later commit of any
  worker completes or fails that task again, so the scheduler hears of one completion.
\<close>

theorem completed_once:
  assumes "keys_unique w" and "complete_commit X G wid rep t r w = (Inr Completed, w1)"
    and "evolves w1 w2" and "t_id t' = t_id t"
  shows "fst (complete_commit Y H wid' rep' t' r' w2) \<noteq> Inr Completed \<and>
         fst (fail_commit Y wid' err u ss t' r' w2) \<noteq> Inr ()"
proof -
  have k: "keys_unique w1"
    using evolves_complete_commit [of w X G wid rep t r] assms(1,2) by (simp add: evolves_def)
  obtain x where x: "task_find w1 (t_id t) = Some x" "t_status x = ''SUCCESS''"
    using complete_commit_done [OF assms(1,2)] by (auto simp: task_status_def)
  have k2: "keys_unique w2" using k assms(3) by (simp add: evolves_def)
  obtain x2 where "task_find w2 (t_id t) = Some x2" "t_status x2 = ''SUCCESS''"
    using evolves_final_task [OF assms(3) x(1)] x(2) by (auto simp: task_final_def)
  then have n: "\<not> list_ex (held_by (t_id t') wid') (w_tasks w2)"
    using not_held_final [OF k2, of "t_id t" x2 wid'] assms(4) by (simp add: task_final_def)
  then show ?thesis
    by (simp add: complete_commit_def fail_commit_def Let_def split: option.split sum.split)
qed

text \<open>The errors after the commit are conversion errors, never a refusal of the request.\<close>

fun refusal :: "pyerr \<Rightarrow> bool" where
  "refusal (HTTPException c d) = True"
| "refusal e = False"

lemma py_int_refusal: "py_int v = Inl e \<Longrightarrow> \<not> refusal e"
  by (induction v rule: py_int.induct) (auto split: option.splits)

lemma py_float_refusal: "py_float v = Inl e \<Longrightarrow> \<not> refusal e"
  by (induction v rule: py_float.induct) (auto split: option.splits if_splits)

lemma resource_usage_refusal: "resource_usage_for_done_event d u = Inl e \<Longrightarrow> \<not> refusal e"
  by (auto simp: resource_usage_for_done_event_def Let_def pbind_def megabytes_to_kb_def
      split: sum.splits if_splits pyerr.splits pyfloat.splits)

lemma record_usage_refusal: "record_usage tid u w = Inl e \<Longrightarrow> \<not> refusal e"
  by (auto simp: record_usage_def pbind_def float_column_def int_column_def
      split: sum.splits pyval.splits)

lemma metric_entry_refusal: "metric_entry rid p k v = Inl e \<Longrightarrow> \<not> refusal e"
  by (auto simp: metric_entry_def Let_def pbind_def metric_step_def
      split: sum.splits if_splits pyerr.splits pyval.splits)

lemma log_metrics_refusal: "fst (log_metrics rid p ms w) = Inl e \<Longrightarrow> \<not> refusal e"
  by (induction rid p ms w rule: log_metrics.induct)
    (auto split: sum.splits option.splits dest: metric_entry_refusal)

lemma version_number_refusal: "version_number mv = Inl e \<Longrightarrow> \<not> refusal e"
  by (auto simp: version_number_def dest: py_int_refusal)

lemma max_version_refusal: "max_version b n mvs = Inl e \<Longrightarrow> \<not> refusal e"
  by (induction b n mvs rule: max_version.induct)
    (auto simp: pbind_def split: sum.splits if_splits dest: version_number_refusal)

lemma auto_register_refusal:
  "fst (auto_register_model_version X G t r pn as wk w) = Inl e \<Longrightarrow> \<not> refusal e"
  by (auto simp: auto_register_model_version_def Let_def pbind_def
      split: option.splits if_splits list.splits sum.splits
      dest: version_number_refusal max_version_refusal)

lemma persist_refusal:
  assumes "fst (persist_run_plugin_tracking rid p ms as w) = Inl e"
  shows "\<not> refusal e"
proof -
  let ?pl = "if strip p = [] then ''plugin'' else strip p"
  obtain a w1 where l: "log_metrics rid (?pl @ ''.'') ms w = (a, w1)" by fastforce
  then have "a = Inl e"
    using assms unfolding persist_run_plugin_tracking_def Let_def by (simp split: sum.splits)
  then show ?thesis using log_metrics_refusal [of rid "?pl @ ''.''" ms w e] l by simp
qed

lemma tracking_refusal:
  assumes "complete_tracking X G wid rep t r w = (Inl e, w')"
  shows "\<not> refusal e"
proof -
  let ?pn = "opt_or (t_plugin t) (opt_or (r_plugin_name r) ''plugin'')"
  obtain a w1 where p: "persist_run_plugin_tracking (t_run t) ?pn (o_metrics rep) (o_artifacts rep) w
      = (a, w1)" by fastforce
  obtain b w2 where q: "auto_register_model_version X G t r ?pn (o_artifacts rep) (some_nonempty wid) w1
      = (b, w2)" by fastforce
  have "a = Inl e \<or> b = Inl e"
    using assms unfolding complete_tracking_def Let_def p by (auto simp: q split: sum.splits option.splits)
  then show ?thesis
    using persist_refusal [of "t_run t" ?pn "o_metrics rep" "o_artifacts rep" w e]
      auto_register_refusal [of X G t r ?pn "o_artifacts rep" "some_nonempty wid" w1 e]
    by (auto simp: p q)
qed

lemma complete_rest_result:
  "fst (complete_rest X G wid rep t r now w) = Inl e \<Longrightarrow> \<not> refusal e"
  "fst (complete_rest X G wid rep t r now w) \<noteq> Inr Idempotent"
  by (auto simp: complete_rest_def Let_def split: sum.splits prod.splits
      dest: resource_usage_refusal record_usage_refusal tracking_refusal)

lemma complete_commit_unchanged:
  assumes "complete_commit X G wid rep t r w = (res, w')"
    and "res = Inr Idempotent \<or> (\<exists>e. res = Inl e \<and> refusal e)"
  shows "w' = w"
proof (cases "list_ex (held_by (t_id t) wid) (w_tasks w)")
  case True
  with assms(1) have "fst (complete_rest X G wid rep t r (w_now w)
      (update_tasks (held_by (t_id t) wid) (complete_row (w_now w)) w)) = res"
    by (simp add: complete_commit_def Let_def)
  with assms(2) complete_rest_result show ?thesis by metis
next
  case False
  with assms show ?thesis by (auto simp: complete_commit_def split: option.splits if_splits)
qed

text \<open>
  C8. Only the holder of the lease completes a task, within the scope of its principal; a request
  that is refused (disabled, unknown task, other tenant or project, lease lost) changes nothing.
\<close>

theorem complete_only_by_holder:
  assumes "keys_unique w"
    and "complete_task X G l4 tid worker ms as uri u ss lin p w = (res, w')"
  shows "(res = Inr Completed \<longrightarrow> external_execution_enabled l4 w \<and>
            (\<exists>t r. task_find w tid = Some t \<and> t_status t = ''RUNNING'' \<and>
               t_leased_by t = Some (strip worker) \<and> run_find w (t_run t) = Some r \<and> in_scope p r) \<and>
            task_status w' tid = Some ''SUCCESS'') \<and>
         (res = Inr Idempotent \<longrightarrow> w' = w) \<and>
         (\<forall>code detail. res = Inl (HTTPException code detail) \<longrightarrow> w' = w)"
proof -
  let ?wid = "strip worker"
  let ?rep = "\<lparr>o_metrics = ms, o_artifacts = normalize_complete_artifacts as uri, o_lineage = lin,
      o_usage = u, o_samples = ss\<rparr>"
  note task = assms(2) [unfolded complete_task_def Let_def]
  show ?thesis
  proof (cases "complete_check l4 tid ?wid p w")
    case (Inl e)
    with task show ?thesis by auto
  next
    case (Inr row)
    show ?thesis
    proof (cases row)
      case None
      with task Inr show ?thesis by auto
    next
      case (Some tr)
      obtain t r where tr: "tr = (t, r)" by fastforce
      with task Inr Some have c: "complete_commit X G ?wid ?rep t r w = (res, w')" by simp
      have auth: "external_execution_enabled l4 w" "task_find w tid = Some t"
        "run_find w (t_run t) = Some r" "in_scope p r"
        using Inr Some tr
        by (auto simp: complete_check_def load_authorized_def load_task_run_row_def pbind_eq_Inr
            authorize_task_row_def in_scope_def split: if_splits option.splits)
      then have "t_id t = tid" by (auto dest: task_find_mem)
      with c auth complete_commit_done [OF assms(1), of X G ?wid ?rep t r w']
        held_by_find [OF assms(1), of tid ?wid]
        complete_commit_unchanged [OF c]
      show ?thesis by auto
    qed
  qed
qed

subsection \<open>Heartbeats and the reaper\<close>

text \<open>
  A heartbeat that is accepted keeps the task with its worker: the lease reaper takes the task
  back only when no further heartbeat has come for the whole time to live, at least five seconds.
\<close>

theorem heartbeat_keeps_lease:
  assumes "keys_unique w" and "heartbeat_task l4 tid worker p u w = (True, w')"
  shows "(\<exists>t'. task_find w' tid = Some t' \<and> t_status t' = ''RUNNING'' \<and>
            t_leased_by t' = Some (strip worker) \<and>
            lease_expired (w'\<lparr>w_now := now\<rparr>) t' =
              (w_now w + 1000000 * lease_ttl_seconds l4 w < now)) \<and>
         5 \<le> lease_ttl_seconds l4 w"
proof
  let ?hit = "\<lambda>t. held_by tid (strip worker) t \<and>
      (case run_find w (t_run t) of None \<Rightarrow> False | Some r \<Rightarrow> in_scope p r)"
  let ?f = "\<lambda>t. t\<lparr>t_lease_expires := Some (w_now w + 1000000 * lease_ttl_seconds l4 w),
      t_updated := w_now w\<rparr>"
  have ex: "list_ex ?hit (w_tasks w)" and w': "w_tasks w' = w_tasks (update_tasks ?hit ?f w)"
    using assms(2) by (auto simp: heartbeat_task_def Let_def split: if_splits option.splits)
  then obtain t where t: "t \<in> set (w_tasks w)" "?hit t" by (auto simp: list_ex_iff)
  then have "task_find w tid = Some t"
    using task_find_unique [OF assms(1) t(1)] by (simp add: held_by_def)
  then have "task_find w' tid = Some (?f t)"
    unfolding task_find_cong [OF w'] using t(2) by (subst task_find_update) auto
  with t(2) show "\<exists>t'. task_find w' tid = Some t' \<and> t_status t' = ''RUNNING'' \<and>
            t_leased_by t' = Some (strip worker) \<and>
            lease_expired (w'\<lparr>w_now := now\<rparr>) t' =
              (w_now w + 1000000 * lease_ttl_seconds l4 w < now)"
    by (auto simp: held_by_def lease_expired_def)
  show "5 \<le> lease_ttl_seconds l4 w"
    by (auto simp: lease_ttl_seconds_def Let_def split: pyval.split option.split sum.split)
qed

subsection \<open>The report reaches the scheduler\<close>

definition carrier_ok :: "ext \<Rightarrow> bool" where
  "carrier_ok X \<longleftrightarrow> (\<forall>d k. k \<notin> {''traceparent'', ''tracestate''} \<longrightarrow>
     map_of (x_carrier X d) k = map_of d k)"

lemma complete_rest_queue:
  assumes "complete_rest X G wid rep t r now w = (Inr Completed, w')"
  shows "\<exists>ru mv. w_queues w' tasks_done = w_queues w tasks_done @ [Json (VDict (x_carrier X
      (done_payload X t r ''SUCCESS'' (success_exec rep mv) now ru (o_samples rep))))]"
proof -
  let ?w2 = "if should_ingest_lineage_on_complete (o_lineage rep)
      then effect (IngestLineage (t_run t) (t_id t)) w else w"
  let ?w3 = "record_duration (t_id t) (duration_since (t_started t) now) ?w2"
  obtain ru w4 mv w5 where
    "record_usage (t_id t) ru ?w3 = Inr w4" and
    tr: "complete_tracking X G wid rep t r w4 = (Inr mv, w5)" and
    w': "w' = complete_publish X wid rep t r now ru mv w5"
    using assms unfolding complete_rest_def Let_def
    by (auto split: sum.splits prod.splits if_splits)
  then have "w_queues w4 = w_queues ?w3"
    by (auto simp: record_usage_def pbind_eq_Inr)
  then have "w_queues w4 = w_queues w" by (simp add: record_duration_def)
  moreover have "w_queues w5 = w_queues w4"
    using tracking_frame(3) [of X G wid rep t r w4] by (simp add: tr)
  ultimately show ?thesis unfolding w' by auto
qed

lemma done_payload_fields:
  "map_of (done_payload X t r s ex f ru ss) ''task_id'' = Some (VStr (t_id t))"
  "map_of (done_payload X t r s ex f ru ss) ''run_id'' = Some (VStr (t_run t))"
  "map_of (done_payload X t r s ex f ru ss) ''status'' = Some (VStr s)"
  "map_of (done_payload X t r s ex f ru ss) ''attempt''
     = Some (VInt (if t_attempt t = 0 then 1 else t_attempt t))"
  by (simp_all add: done_payload_def Let_def)

text \<open>
  A completion puts one message on the queue of finished tasks, and the scheduler reads it as
  it was meant: a success of this task, of this run, in this attempt.
\<close>

theorem completion_reaches_scheduler:
  assumes "carrier_ok X" and "complete_commit X G wid rep t r w = (Inr Completed, w')"
  shows "\<exists>m e. w_queues w' tasks_done = w_queues w tasks_done @ [m] \<and>
      done_event_of X m = Inr e \<and> d_task e = t_id t \<and> d_run e = t_run t \<and>
      d_status e = ''SUCCESS'' \<and> d_attempt e = (if t_attempt t = 0 then 1 else t_attempt t)"
proof -
  obtain ru mv where q: "w_queues w' tasks_done = w_queues w tasks_done @ [Json (VDict (x_carrier X
      (done_payload X t r ''SUCCESS'' (success_exec rep mv) (w_now w) ru (o_samples rep))))]"
    using assms(2) complete_rest_queue
    by (fastforce simp: complete_commit_def Let_def split: option.splits if_splits)
  have c: "map_of (x_carrier X d) k = map_of d k" if "k \<notin> {''traceparent'', ''tracestate''}" for d k
    using assms(1) that by (simp add: carrier_ok_def)
  let ?d = "x_carrier X (done_payload X t r ''SUCCESS'' (success_exec rep mv) (w_now w) ru (o_samples rep))"
  have "done_event_of X (Json (VDict ?d)) = Inr \<lparr>d_task = t_id t, d_run = t_run t,
      d_status = ''SUCCESS'', d_attempt = (if t_attempt t = 0 then 1 else t_attempt t),
      d_data = dset ''trace_id'' (VStr (x_trace X ?d)) ?d\<rparr>"
    by (simp add: done_event_of_def get_text_def dget_or_def c done_payload_fields)
  with q show ?thesis by fastforce
qed

end
