(* ===== verification/RunService.thy ===== *)
theory RunService
  imports Quota WorkerSafety
begin

text \<open>
  Model of \<^verbatim>\<open>orchestration/run_service.py\<close> and \<^verbatim>\<open>shared/queue_service.py\<close>: creating a run
  (quota cap, configuration, inheritance from the parent of a replay, idempotency key), the status
  changes the API makes, cancellation, the replay of the dead letter queue, and the graphs of a
  pipeline and of a run. The services it calls are the record \<open>services\<close>: the platform settings,
  the tables of \<open>Quota\<close>, the placement of a run on a cluster and the captured environment.
\<close>

record services =
  s_l4 :: pydict
  s_catalog :: catalog
  s_place :: "string \<Rightarrow> pydict \<Rightarrow> pydict option"
  s_environment :: "pydict option"

subsection \<open>The dict of a run\<close>

definition row_to_run :: "ext \<Rightarrow> run_row \<Rightarrow> pydict" where
  "row_to_run X r =
     (let env = decode_column X VNone (r_environment r) in
      [(''run_id'', VStr (r_id r)), (''tenant_id'', VStr (r_tenant r)),
       (''project_id'', VStr (r_project r)), (''pipeline_id'', VStr (r_pipeline r)),
       (''status'', VStr (r_status r)), (''idempotency_key'', of_opt_str (r_idempotency r)),
       (''priority'', of_opt_str (r_priority r)), (''max_parallel_tasks'', VInt (r_max_parallel r)),
       (''experiment_id'', of_opt_str (r_experiment r)),
       (''pipeline_version_id'', of_opt_str (r_version r)),
       (''config_snapshot'', decode_column X VNone (r_config r)),
       (''replay_of_run_id'', of_opt_str (r_replay_of r)),
       (''replay_from_task_id'', of_opt_str (r_replay_from r)),
       (''plugin_name'', of_opt_str (r_plugin_name r)),
       (''plugin_context'', por (decode_column X VNone (r_context r)) (VDict [])),
       (''created_at'', VStr (x_iso X (r_created r))), (''updated_at'', VStr (x_iso X (r_updated r))),
       (''override_config'', por (decode_column X VNone (r_override r)) (VDict [])),
       (''environment'', case env of VDict d \<Rightarrow> VDict d | v \<Rightarrow> por v VNone)])"

definition get_run :: "ext \<Rightarrow> string \<Rightarrow> world \<Rightarrow> pydict option" where
  "get_run X run_id w = map_option (row_to_run X) (run_find w run_id)"

subsection \<open>Creating a run\<close>

record run_request =
  cr_tenant :: string
  cr_project :: string
  cr_pipeline :: string
  cr_idempotency :: "string option"
  cr_priority :: string
  cr_max_parallel :: int
  cr_trace :: "string option"
  cr_experiment :: "string option"
  cr_plugin :: "string option"
  cr_context :: pydict
  cr_version :: "string option"
  cr_use_latest :: bool
  cr_replay_of :: "string option"
  cr_replay_from :: "string option"
  cr_override :: pydict

definition effective_parallel :: "services \<Rightarrow> run_request \<Rightarrow> world \<Rightarrow> int" where
  "effective_parallel S q w =
     (case platform_quota_limits (s_l4 S) w of
        Inl _ \<Rightarrow> max 1 (min 1000 (cr_max_parallel q))
      | Inr defaults \<Rightarrow>
          resolve_max_parallel_tasks (s_catalog S) defaults (cr_tenant q) (Some (cr_max_parallel q)))"

definition normalized_priority :: "string \<Rightarrow> string" where
  "normalized_priority p =
     (if lower p \<in> {''high'', ''normal'', ''low''} then lower p else ''normal'')"

text \<open>What a run takes from the request, its pipeline version and the parent it replays.\<close>

record run_spec =
  sp_version :: "string option"
  sp_config :: pyval
  sp_plugin :: "string option"
  sp_context :: pydict
  sp_experiment :: "string option"

definition pinned_spec :: "ext \<Rightarrow> services \<Rightarrow> run_request \<Rightarrow> run_spec py" where
  "pinned_spec X S q =
     (let pv = (if cr_use_latest q \<and> opt_or (cr_version q) [] = []
                then get_latest_version_id (s_catalog S) (cr_tenant q) (cr_project q) (cr_pipeline q)
                else cr_version q)
      in pbind (if opt_or pv [] = [] then ok VNone
                else get_config_for_version_in_scope (x_loads X) (s_catalog S) (cr_tenant q)
                       (cr_project q) (opt_or pv []))
           (\<lambda>cfg. ok \<lparr>sp_version = pv, sp_config = cfg, sp_plugin = cr_plugin q,
                     sp_context = cr_context q, sp_experiment = cr_experiment q\<rparr>))"

definition falsy :: "string option \<Rightarrow> bool" where
  "falsy s = (opt_or s [] = [])"

text \<open>
  The context column of a run is only ever written with an object or \<open>NULL\<close>; anything else is
  refused as \<open>dict(...)\<close> refuses a scalar.
\<close>

definition inherit_spec :: "ext \<Rightarrow> run_row \<Rightarrow> run_spec \<Rightarrow> run_spec py" where
  "inherit_spec X parent sp =
     (let pconfig = decode_column X VNone (r_config parent);
          pcontext = por (decode_column X VNone (r_context parent)) (VDict [])
      in pbind (if sp_context sp = [] \<and> truthy pcontext
                then (case pcontext of VDict d \<Rightarrow> ok d | _ \<Rightarrow> raise TypeError)
                else ok (sp_context sp))
           (\<lambda>ctx. ok (sp\<lparr>
              sp_version := (if falsy (sp_version sp) \<and> \<not> falsy (r_version parent)
                             then r_version parent else sp_version sp),
              sp_config := (if pconfig \<noteq> VNone \<and> sp_config sp = VNone then pconfig else sp_config sp),
              sp_plugin := (if falsy (sp_plugin sp) \<and> \<not> falsy (r_plugin_name parent)
                            then r_plugin_name parent else sp_plugin sp),
              sp_context := ctx,
              sp_experiment := (if falsy (sp_experiment sp) \<and> \<not> falsy (r_experiment parent)
                                then r_experiment parent else sp_experiment sp)\<rparr>)))"

definition run_spec_for :: "ext \<Rightarrow> services \<Rightarrow> run_request \<Rightarrow> world \<Rightarrow> run_spec py" where
  "run_spec_for X S q w =
     pbind (pinned_spec X S q) (\<lambda>sp.
       if falsy (cr_replay_of q) then ok sp
       else (case run_find w (opt_or (cr_replay_of q) []) of
          None \<Rightarrow> raise (ValueError ''replay_parent_not_found'')
        | Some parent \<Rightarrow>
            if r_tenant parent \<noteq> cr_tenant q \<or> r_project parent \<noteq> cr_project q
            then raise (ValueError ''replay_parent_not_found'')
            else pbind (inherit_spec X parent sp) (\<lambda>sp'.
              ok (sp'\<lparr>sp_context := dset ''replay''
                (VDict [(''from_run_id'', of_opt_str (cr_replay_of q)),
                        (''from_task_id'', of_opt_str (cr_replay_from q))]) (sp_context sp')\<rparr>))))"

definition trace_for :: "ext \<Rightarrow> run_request \<Rightarrow> string" where
  "trace_for X q =
     (let t = strip (opt_or (cr_trace q) []) in if t = [] then x_trace_id X else t)"

definition run_snapshot :: "ext \<Rightarrow> run_request \<Rightarrow> run_spec \<Rightarrow> pydict" where
  "run_snapshot X q sp = dset ''trace_id'' (VStr (trace_for X q)) (dict_or_empty (sp_config sp))"

definition json_or_null :: "pydict \<Rightarrow> pyval" where
  "json_or_null d = (if d = [] then VNone else VDict d)"

definition new_run :: "ext \<Rightarrow> services \<Rightarrow> string \<Rightarrow> run_request \<Rightarrow> run_spec \<Rightarrow> world \<Rightarrow> run_row" where
  "new_run X S run_id q sp w =
     \<lparr>r_id = run_id, r_tenant = cr_tenant q, r_project = cr_project q, r_pipeline = cr_pipeline q,
      r_status = ''PENDING'', r_priority = Some (normalized_priority (cr_priority q)),
      r_max_parallel = effective_parallel S q w, r_version = sp_version sp,
      r_config = VDict (run_snapshot X q sp), r_context = json_or_null (sp_context sp),
      r_override = json_or_null (cr_override q), r_plugin_name = sp_plugin sp,
      r_replay_from = cr_replay_from q, r_replay_of = cr_replay_of q,
      r_idempotency = cr_idempotency q, r_experiment = sp_experiment sp,
      r_environment = (case s_environment S of None \<Rightarrow> VNone | Some d \<Rightarrow> json_or_null d),
      r_created = w_now w, r_updated = w_now w\<rparr>"

definition run_created_event ::
    "ext \<Rightarrow> run_request \<Rightarrow> run_spec \<Rightarrow> run_row \<Rightarrow> pydict option \<Rightarrow> pydict" where
  "run_created_event X q sp r placement =
     [(''event_type'', VStr ''run_created''), (''run_id'', VStr (r_id r)),
      (''tenant_id'', VStr (cr_tenant q)), (''project_id'', VStr (cr_project q)),
      (''pipeline_id'', VStr (cr_pipeline q)),
      (''priority'', VStr (normalized_priority (cr_priority q))),
      (''max_parallel_tasks'', VInt (r_max_parallel r)), (''trace_id'', VStr (trace_for X q)),
      (''plugin_name'', of_opt_str (sp_plugin sp)), (''context'', VDict (sp_context sp)),
      (''pipeline_version_id'', of_opt_str (r_version r)),
      (''config_snapshot'', VDict (run_snapshot X q sp)),
      (''replay_of_run_id'', of_opt_str (cr_replay_of q)),
      (''replay_from_task_id'', of_opt_str (cr_replay_from q)),
      (''override_config'', VDict (cr_override q)),
      (''placement'', case placement of None \<Rightarrow> VNone | Some d \<Rightarrow> VDict d)]"

definition scheduling_hints :: "pydict \<Rightarrow> pydict" where
  "scheduling_hints override = dict_or_empty (dget override ''scheduling'')"

definition insert_run :: "ext \<Rightarrow> services \<Rightarrow> string \<Rightarrow> run_request \<Rightarrow> run_spec \<Rightarrow> world \<Rightarrow> pydict \<times> world" where
  "insert_run X S run_id q sp w =
     (let r = new_run X S run_id q sp w;
          w1 = w\<lparr>w_runs := w_runs w @ [r]\<rparr>;
          w2 = effect (PublishEvents (cr_tenant q) (cr_project q)
                 (run_lifecycle_events run_id (cr_pipeline q) ''PENDING'' None None True)) w1;
          placement = s_place S run_id (scheduling_hints (cr_override q));
          w3 = rpush runs_queue
                 (Json (VDict (x_carrier X (run_created_event X q sp r placement)))) w2;
          w4 = effect (RunLog run_id ''INFO'' ''run created and queued'') w3;
          w5 = effect (RtRunCreated (cr_tenant q) (cr_project q) run_id (cr_pipeline q) (r_updated r)
                 (trace_for X q)) w4
      in (row_to_run X r, w5))"

definition idempotent_hit :: "run_request \<Rightarrow> world \<Rightarrow> run_row option" where
  "idempotent_hit q w =
     (if falsy (cr_idempotency q) then None
      else find (\<lambda>r. r_tenant r = cr_tenant q \<and> r_project r = cr_project q \<and>
             r_idempotency r = cr_idempotency q) (w_runs w))"

text \<open>
  The primary key of \<open>runs\<close> refuses an id that is taken, its index on the idempotency key a second
  run with the same key, the empty key included, which the lookup above takes for no key.
\<close>

definition index_refuses :: "string \<Rightarrow> run_request \<Rightarrow> world \<Rightarrow> bool" where
  "index_refuses run_id q w =
     (run_find w run_id \<noteq> None \<or>
      cr_idempotency q \<noteq> None \<and> list_ex (\<lambda>r. r_tenant r = cr_tenant q \<and>
        r_project r = cr_project q \<and> r_idempotency r = cr_idempotency q) (w_runs w))"

definition create_run ::
    "ext \<Rightarrow> services \<Rightarrow> string \<Rightarrow> run_request \<Rightarrow> world \<Rightarrow> pydict py \<times> world" where
  "create_run X S run_id q w =
     (case run_spec_for X S q w of Inl e \<Rightarrow> (Inl e, w)
      | Inr sp \<Rightarrow> (case idempotent_hit q w of
            Some r \<Rightarrow> (ok (row_to_run X r), w)
          | None \<Rightarrow>
              if index_refuses run_id q w then (raise (RuntimeError ''UniqueViolation''), w)
              else (case insert_run X S run_id q sp w of (d, w1) \<Rightarrow> (ok d, w1))))"

definition create_replay_run ::
    "ext \<Rightarrow> services \<Rightarrow> string \<Rightarrow> string \<Rightarrow> string \<Rightarrow> string \<Rightarrow> string \<Rightarrow> string option \<Rightarrow> string
     \<Rightarrow> int option \<Rightarrow> string option \<Rightarrow> string option \<Rightarrow> pydict \<Rightarrow> world \<Rightarrow> pydict py \<times> world" where
  "create_replay_run X S run_id tenant project parent_id from_task idem priority parallel trace
     plugin ctx w =
     (case run_find w parent_id of
        None \<Rightarrow> (raise (ValueError ''replay_parent_not_found''), w)
      | Some parent \<Rightarrow>
          if r_tenant parent \<noteq> tenant \<or> r_project parent \<noteq> project
          then (raise (ValueError ''replay_parent_not_found''), w)
          else create_run X S run_id
            \<lparr>cr_tenant = tenant, cr_project = project, cr_pipeline = r_pipeline parent,
             cr_idempotency = idem, cr_priority = priority,
             cr_max_parallel = (case parallel of Some n \<Rightarrow> n
               | None \<Rightarrow> if r_max_parallel parent = 0 then 1 else r_max_parallel parent),
             cr_trace = trace, cr_experiment = r_experiment parent, cr_plugin = plugin,
             cr_context = ctx, cr_version = None, cr_use_latest = False,
             cr_replay_of = Some parent_id, cr_replay_from = Some from_task, cr_override = []\<rparr> w)"

subsection \<open>Changing the status of a run\<close>

definition announce_run :: "ext \<Rightarrow> string \<Rightarrow> world \<Rightarrow> world" where
  "announce_run X run_id w =
     (case run_find w run_id of None \<Rightarrow> w
      | Some r \<Rightarrow> effect (RtRunUpdated (r_tenant r) (r_project r) (r_id r) (r_status r) (r_updated r)
                   (some_nonempty (r_pipeline r))) w)"

definition change_status :: "string \<Rightarrow> run_row \<Rightarrow> string \<Rightarrow> world \<Rightarrow> world" where
  "change_status run_id r status w =
     effect (PublishEvents (r_tenant r) (r_project r)
         (run_lifecycle_events run_id (r_pipeline r) status
            (Some (upper (strip (r_status r)))) None False))
       (update_runs (\<lambda>x. r_id x = run_id) (\<lambda>x. x\<lparr>r_status := status, r_updated := w_now w\<rparr>) w)"

definition mark_run_running :: "ext \<Rightarrow> string \<Rightarrow> world \<Rightarrow> world" where
  "mark_run_running X run_id w =
     (case run_find w run_id of None \<Rightarrow> w
      | Some r \<Rightarrow>
          if upper (strip (r_status r)) \<notin> {''PENDING'', ''FAILED''} then w
          else if r_status r \<notin> {''PENDING'', ''FAILED''} then w
          else announce_run X run_id (change_status run_id r ''RUNNING'' w))"

definition training_completed :: "ext \<Rightarrow> string \<Rightarrow> world \<Rightarrow> world" where
  "training_completed X run_id w =
     (case get_run X run_id w of None \<Rightarrow> w
      | Some row \<Rightarrow>
         (let ov = dict_or_empty (dget row ''override_config'');
              pc = dict_or_empty (dget row ''plugin_context'');
              own = strip (str_or (dget ov ''dataset_version_id'') []);
              dvid = (if own = [] then strip (str_or (dget pc ''dataset_version_id'') []) else own);
              field = (\<lambda>k. strip (str_or (dget row k) []))
          in if upper (str_or (dget row ''status'') []) \<noteq> ''SUCCESS'' \<or> dvid = [] \<or>
                field ''tenant_id'' = [] \<or> field ''project_id'' = [] \<or> field ''run_id'' = [] then w
             else effect (RtTrainingCompleted (field ''tenant_id'') (field ''project_id'')
                    (field ''run_id'') (field ''pipeline_id'') dvid
                    (some_nonempty (strip (str_or
                       (por (dget pc ''model_id'') (dget pc ''mlair_model_id'')) [])))
                    (some_nonempty (strip (str_or (dget pc ''dataset_id'') [])))) w))"

definition normalized_run_status :: "string \<Rightarrow> string" where
  "normalized_run_status status =
     (let s = upper (strip status) in if s = ''CANCELED'' then ''CANCELLED'' else s)"

definition set_run_status :: "ext \<Rightarrow> string \<Rightarrow> string \<Rightarrow> world \<Rightarrow> bool py \<times> world" where
  "set_run_status X run_id status w =
     (let normalized = normalized_run_status status in
      if normalized \<notin> {''PENDING'', ''RUNNING'', ''SUCCESS'', ''FAILED'', ''CANCELLED''}
      then (raise (ValueError ''invalid_run_status''), w)
      else (case run_find w run_id of None \<Rightarrow> (ok False, w)
        | Some r \<Rightarrow>
            if upper (strip (r_status r)) = normalized then (ok True, w)
            else
              (let w1 = (if normalized = ''PENDING''
                     then update_runs (\<lambda>x. r_id x = run_id)
                            (\<lambda>x. x\<lparr>r_status := normalized, r_updated := w_now w\<rparr>) w
                     else change_status run_id r normalized w);
                   w2 = announce_run X run_id w1
               in (ok True, if normalized = ''SUCCESS'' then training_completed X run_id w2 else w2))))"

definition cancel_run_and_tasks :: "ext \<Rightarrow> string \<Rightarrow> world \<Rightarrow> bool py \<times> world" where
  "cancel_run_and_tasks X run_id w =
     (case set_run_status X run_id ''CANCELLED'' w of
        (res, w1) \<Rightarrow> (res, snd (cancel_tasks_for_run run_id False w1)))"

subsection \<open>Replay of the dead letter queue\<close>

definition default_queue :: string where "default_queue = ''mlair:tasks:default''"

definition replay_payload :: "pydict \<Rightarrow> int \<Rightarrow> pydict" where
  "replay_payload d attempt =
     dset ''attempt'' (VInt (attempt + 1))
       (dset ''event_type'' (VStr ''task_ready'') (dset ''status'' (VStr ''RETRY'') d))"

text \<open>The items are read once; each replayed one is pushed and its first copy removed.\<close>

fun replay_dlq_loop :: "string \<Rightarrow> msg list \<Rightarrow> nat \<Rightarrow> world \<Rightarrow> nat py \<times> world" where
  "replay_dlq_loop run_id [] n w = (ok n, w)"
| "replay_dlq_loop run_id (m # ms) n w =
     (case m of
        Garbled s \<Rightarrow> replay_dlq_loop run_id ms n w
      | Json (VDict d) \<Rightarrow>
          if dget d ''run_id'' \<noteq> VStr run_id then replay_dlq_loop run_id ms n w
          else (case py_int (dget_or d ''attempt'' (VInt 1)) of
              Inl e \<Rightarrow> (Inl e, w)
            | Inr a \<Rightarrow>
               (let w1 = rpush default_queue (Json (VDict (replay_payload d a))) w
                in replay_dlq_loop run_id ms (Suc n)
                     (w1\<lparr>w_queues := (w_queues w1)(dlq := remove1 m (w_queues w1 dlq))\<rparr>)))
      | Json _ \<Rightarrow> (raise TypeError, w))"

definition replay_dlq_for_run :: "string \<Rightarrow> world \<Rightarrow> nat py \<times> world" where
  "replay_dlq_for_run run_id w = replay_dlq_loop run_id (w_queues w dlq) 0 w"

definition replay_run_dlq :: "ext \<Rightarrow> string \<Rightarrow> string \<Rightarrow> string \<Rightarrow> world \<Rightarrow> nat py \<times> world" where
  "replay_run_dlq X tenant project run_id w =
     (case run_find w run_id of
        None \<Rightarrow> (raise (HTTPException 404 ''run_not_found''), w)
      | Some r \<Rightarrow> if r_tenant r \<noteq> tenant \<or> r_project r \<noteq> project
          then (raise (HTTPException 404 ''run_not_found''), w)
          else replay_dlq_for_run run_id (mark_run_running X run_id w))"

subsection \<open>Graphs\<close>

text \<open>A node is its id, which is also its label, and its status; an edge a source and a target.\<close>

type_synonym graph = "(string \<times> string) list \<times> (string \<times> string) list"

fun dag_tasks :: "string \<Rightarrow> pyval list \<Rightarrow> graph \<Rightarrow> graph py" where
  "dag_tasks dflt [] g = ok g"
| "dag_tasks dflt (t # ts) (nodes, edges) =
     (case t of VDict d \<Rightarrow>
        (let tid = text_of (dget d ''id'') in
         if tid = [] then dag_tasks dflt ts (nodes, edges)
         else pbind (py_iter (por (dget d ''depends_on'') (VList [])))
           (\<lambda>deps. dag_tasks dflt ts
              (nodes @ [(tid, dflt)], edges @ map (\<lambda>dep. (dep, tid)) (strip_all deps))))
      | _ \<Rightarrow> dag_tasks dflt ts (nodes, edges))"

definition dag_from_pipeline_config :: "pyval \<Rightarrow> string \<Rightarrow> graph py" where
  "dag_from_pipeline_config cfg dflt =
     (case cfg of VDict d \<Rightarrow> (case dget d ''tasks'' of
          VList ts \<Rightarrow> dag_tasks dflt ts ([], []) | _ \<Rightarrow> ok ([], []))
      | _ \<Rightarrow> ok ([], []))"

definition resolve_run_pipeline_config ::
    "ext \<Rightarrow> catalog \<Rightarrow> run_row \<Rightarrow> (pyval \<times> string option) py" where
  "resolve_run_pipeline_config X c r =
     (let snap = decode_column X VNone (r_config r);
          has_tasks = (case snap of VDict d \<Rightarrow> as_list (dget d ''tasks'') \<noteq> None | _ \<Rightarrow> False);
          pv = strip (opt_or (r_version r) [])
      in if has_tasks then ok (snap, some_nonempty (opt_or (r_version r) []))
         else if pv = [] then ok (VNone, None)
         else (case get_pipeline_version c pv of None \<Rightarrow> ok (VNone, None)
           | Some v \<Rightarrow> pbind (version_config (x_loads X) v)
               (\<lambda>cfg. case cfg of VDict d \<Rightarrow> ok (VDict d, Some pv) | _ \<Rightarrow> ok (VNone, None))))"

definition list_tasks_by_run :: "string \<Rightarrow> world \<Rightarrow> task_row list" where
  "list_tasks_by_run run_id w = sort_key t_created (filter (\<lambda>t. t_run t = run_id) (w_tasks w))"

definition chain_graph :: "(string \<times> string) list \<Rightarrow> graph" where
  "chain_graph nodes = (nodes, zip (map fst (butlast nodes)) (map fst (tl nodes)))"

definition overlay :: "(string \<times> string) list \<Rightarrow> (string \<times> string) list \<Rightarrow> (string \<times> string) list" where
  "overlay statuses nodes =
     map (\<lambda>(n, st). (n, case map_of statuses n of None \<Rightarrow> st | Some s \<Rightarrow> s)) nodes"

text \<open>The lookup of a run's graph holds a task under its full id and under its key.\<close>

definition graph_statuses :: "string \<Rightarrow> task_row list \<Rightarrow> (string \<times> string) list" where
  "graph_statuses run_id ts =
     fold (\<lambda>t d. dset (task_key run_id (strip (t_id t))) (t_status t) (dset (t_id t) (t_status t) d)) ts []"

definition get_run_execution_graph ::
    "ext \<Rightarrow> catalog \<Rightarrow> string \<Rightarrow> string \<Rightarrow> string \<Rightarrow> world \<Rightarrow> graph option py" where
  "get_run_execution_graph X c tenant project run_id w =
     (case run_find w run_id of None \<Rightarrow> ok None
      | Some r \<Rightarrow> if r_tenant r \<noteq> tenant \<or> r_project r \<noteq> project then ok None
         else pbind (resolve_run_pipeline_config X c r) (\<lambda>(cfg, pv).
           pbind (dag_from_pipeline_config cfg ''PENDING'') (\<lambda>(nodes, edges).
             let ts = list_tasks_by_run run_id w
             in ok (Some (if nodes = [] then (if ts = [] then (nodes, edges)
                            else chain_graph (map (\<lambda>t. (t_id t, t_status t)) ts))
                          else (overlay (graph_statuses run_id ts) nodes, edges))))))"

text \<open>\<open>ORDER BY updated_at DESC LIMIT 1\<close>\<close>

fun latest_run :: "run_row list \<Rightarrow> run_row option" where
  "latest_run [] = None"
| "latest_run (r # rs) = (case latest_run rs of None \<Rightarrow> Some r
     | Some s \<Rightarrow> if r_updated s < r_updated r then Some r else Some s)"

definition dag_statuses :: "string \<Rightarrow> world \<Rightarrow> (string \<times> string) list" where
  "dag_statuses run_id w =
     fold (\<lambda>t. dset (t_id t) (t_status t)) (list_tasks_by_run run_id w) []"

definition get_pipeline_dag ::
    "ext \<Rightarrow> catalog \<Rightarrow> string \<Rightarrow> string \<Rightarrow> string \<Rightarrow> world \<Rightarrow> graph py" where
  "get_pipeline_dag X c tenant project pipeline_id w =
     pbind (case get_latest_version_id c tenant project pipeline_id of None \<Rightarrow> ok ([], [])
        | Some vid \<Rightarrow> (case get_pipeline_version c vid of None \<Rightarrow> ok ([], [])
            | Some v \<Rightarrow> pbind (version_config (x_loads X) v)
                          (\<lambda>cfg. dag_from_pipeline_config cfg ''PENDING'')))
       (\<lambda>(nodes, edges).
          let statuses = (case latest_run (filter (\<lambda>r. r_tenant r = tenant \<and> r_project r = project \<and>
                              r_pipeline r = pipeline_id) (w_runs w)) of
                            None \<Rightarrow> [] | Some r \<Rightarrow> dag_statuses (r_id r) w)
          in ok (if nodes \<noteq> [] then (overlay statuses nodes, edges)
                 else if statuses \<noteq> [] then chain_graph statuses else ([], [])))"

definition get_pipeline_topology ::
    "ext \<Rightarrow> catalog \<Rightarrow> string \<Rightarrow> string \<Rightarrow> string \<Rightarrow> (string list \<times> (string \<times> string) list) py" where
  "get_pipeline_topology X c tenant project pipeline_id =
     (case get_latest_version_id c tenant project pipeline_id of
        None \<Rightarrow> ok ([], [])
      | Some vid \<Rightarrow> (case get_pipeline_version c vid of None \<Rightarrow> ok ([], [])
          | Some v \<Rightarrow> pbind (version_config (x_loads X) v) (\<lambda>cfg.
              pbind (dag_from_pipeline_config cfg ''idle'') (\<lambda>(nodes, edges).
                ok (map fst nodes, edges)))))"

definition merge_run_worker_environment ::
    "ext \<Rightarrow> string \<Rightarrow> pydict \<Rightarrow> string \<Rightarrow> world \<Rightarrow> bool \<times> world" where
  "merge_run_worker_environment X run_id patch capturer w =
     (if strip run_id = [] \<or> patch = [] then (False, w)
      else (case run_find w run_id of None \<Rightarrow> (False, w)
        | Some r \<Rightarrow>
           (let current = dict_or_empty (decode_column X VNone (r_environment r));
                merged = dset ''capturer'' (VStr capturer) (update_all patch current);
                hit = (\<lambda>x. r_id x = strip run_id)
            in (list_ex hit (w_runs w),
                update_runs hit (\<lambda>x. x\<lparr>r_environment := VDict merged, r_updated := w_now w\<rparr>) w))))"

end
