(* ===== verification/SchedExamples.thy ===== *)
theory SchedExamples
  imports SchedDone
begin

text \<open>
  The scheduler on concrete states: instances of the properties of \<open>Replay\<close>, \<open>SchedSafety\<close> and
  \<open>SchedDone\<close> where their hypotheses hold, and two executions that show what the code does where
  one might expect otherwise.
\<close>

text \<open>
  The parameters instantiated: a keyed text as the signature, one lineage edge with a checksum and
  one signed manifest for the task \<open>a\<close> of the parent run \<open>p\<close>.
\<close>

definition example_manifest :: pydict where
  "example_manifest = [(''run_id'', VStr ''p''), (''task_id'', VStr ''p:a''), (''status'', VStr ''SUCCESS''),
     (''pipeline_id'', VStr ''pipe''), (''attempt'', VInt 1), (''artifacts'', VList []),
     (''lineage'', VDict []), (''finished_at'', VStr ''2024'')]"

definition example_ext :: ext where
  "example_ext = \<lparr>x_loads = (\<lambda>s. None), x_dumps = py_str, x_file = (\<lambda>s. None), x_when = (\<lambda>s. None),
     x_iso = int_str, x_carrier = (\<lambda>d. d), x_trace_id = ''trace'',
     x_hmac = (\<lambda>key text. key @ text), x_ed25519 = (\<lambda>pem signature text. signature = pem @ text),
     x_trace = (\<lambda>d. ''trace''),
     x_policy = App (Some \<lparr>f_require_checksum = True, f_require_signed = True, f_strict_keys = False\<rparr>),
     x_edges = [\<lparr>le_run = ''p'', le_task = ''p:a'', le_output_version = Some ''v''\<rparr>],
     x_artifacts = [], x_checksums = [(''v'', Some ''sha'')],
     x_manifests = [\<lparr>mf_run = ''p'', mf_task = ''p:a'', mf_algorithm = ''hmac-sha256'',
       mf_key_id = ''v1'', mf_signature = ''mlair-dev-manifest-signing-key'' @ py_str (VDict example_manifest),
       mf_payload = VDict example_manifest\<rparr>]\<rparr>"

definition example_task :: "string \<Rightarrow> string \<Rightarrow> string \<Rightarrow> int \<Rightarrow> task_row" where
  "example_task tid rid status attempt =
     \<lparr>t_id = tid, t_run = rid, t_status = status, t_attempt = attempt, t_max_attempts = 3,
      t_backoff_ms = 1000, t_plugin = None, t_leased_by = None, t_lease_expires = None,
      t_started = None, t_finished = None, t_error = None, t_duration_ms = None, t_cpu = None,
      t_rss_kb = None, t_created = 0, t_updated = 0\<rparr>"

definition example_run :: "string \<Rightarrow> string \<Rightarrow> run_row" where
  "example_run rid status =
     \<lparr>r_id = rid, r_tenant = ''default'', r_project = ''default_project'', r_pipeline = ''pipe'',
      r_status = status, r_priority = None, r_max_parallel = 2, r_version = None, r_config = VNone,
      r_context = VNone, r_override = VNone, r_plugin_name = None, r_replay_from = None,
      r_replay_of = None, r_idempotency = None, r_experiment = None,
      r_environment = VNone, r_created = 0, r_updated = 0\<rparr>"

definition example_world :: "(string \<times> string) list \<Rightarrow> string \<Rightarrow> world" where
  "example_world tasks status =
     \<lparr>w_tasks = map (\<lambda>(key, st). example_task (''r:'' @ key) ''r'' st 1) tasks,
      w_runs = [example_run ''r'' status, example_run ''p'' ''SUCCESS''], w_queues = (\<lambda>q. []),
      w_env = (\<lambda>n. None), w_now = 0, w_trace = []\<rparr>"

definition chain_config :: pyval where
  "chain_config = VDict [(''tasks'', VList
     [VDict [(''id'', VStr ''a'')],
      VDict [(''id'', VStr ''b''), (''depends_on'', VList [VStr ''a''])],
      VDict [(''id'', VStr ''c''), (''depends_on'', VList [VStr ''b''])]])]"

definition chain_event :: run_event where
  "chain_event = \<lparr>e_run = ''r'', e_data = [(''config_snapshot'', chain_config)]\<rparr>"

definition chain_plan :: plan where
  "chain_plan = [(''a'', []), (''b'', [''a'']), (''c'', [''b''])]"

text \<open>The parent run \<open>p\<close> of a replay, with one finished task.\<close>

definition gate_world :: world where
  "gate_world = (example_world [] ''PENDING'')\<lparr>w_tasks := [example_task ''p:a'' ''p'' ''SUCCESS'' 1]\<rparr>"

lemma chain_plan_built: "build_task_plan chain_config = Inr chain_plan"
  by code_simp

subsection \<open>Instances\<close>

lemma concurrency_bound_witness:
  "int (event_slots chain_event (snd (schedule_ready_tasks example_ext chain_event
      (example_world [(''a'', ''SUCCESS''), (''b'', ''PENDING'')] ''RUNNING''))))
   \<le> max (int (event_slots chain_event
      (example_world [(''a'', ''SUCCESS''), (''b'', ''PENDING'')] ''RUNNING''))) 1"
proof (rule concurrency_bound)
  show "keys_unique (example_world [(''a'', ''SUCCESS''), (''b'', ''PENDING'')] ''RUNNING'')"
    by (simp add: keys_unique_def example_world_def example_task_def example_run_def)
  show "py_int (dget_or (e_data chain_event) ''max_parallel_tasks'' (VInt 1)) = Inr 1"
    by code_simp
qed

lemma dependencies_respected_witness:
  "\<exists>plan key. build_task_plan (e_config chain_event) = Inr plan \<and>
      ''r:b'' = full_id (e_run chain_event) key \<and>
      (\<forall>dep \<in> set (deps_of plan key). \<exists>t \<in> set (w_tasks
          (example_world [(''a'', ''SUCCESS''), (''b'', ''PENDING'')] ''RUNNING'')).
         t_run t = e_run chain_event \<and> task_key (e_run chain_event) (t_id t) = dep \<and>
         t_status t = ''SUCCESS'')"
proof (rule dependencies_respected)
  show "task_status (snd (schedule_ready_tasks example_ext chain_event
      (example_world [(''a'', ''SUCCESS''), (''b'', ''PENDING'')] ''RUNNING''))) ''r:b''
     = Some ''RUNNING''"
    by code_simp
  show "task_status (example_world [(''a'', ''SUCCESS''), (''b'', ''PENDING'')] ''RUNNING'') ''r:b''
      \<noteq> Some ''RUNNING''"
    by code_simp
qed simp

text \<open>Two startable tasks and a limit of one: the second one waits and the limit is reached.\<close>

lemma no_idle_slot_witness:
  "(\<forall>key \<in> set [''a'', ''d'']. startable [(''a'', []), (''d'', [])] [] key \<longrightarrow>
      task_status (snd (sched_loop chain_event [(''a'', []), (''d'', [])] [] 1 [''a'', ''d''] 0 False
        (example_world [] ''RUNNING''))) (full_id (e_run chain_event) key)
      \<notin> {None, Some ''PENDING''}) \<or>
   1 \<le> int (event_slots chain_event (snd (sched_loop chain_event [(''a'', []), (''d'', [])] [] 1
        [''a'', ''d''] 0 False (example_world [] ''RUNNING''))))"
proof (rule no_idle_slot)
  have "fst (sched_loop chain_event [(''a'', []), (''d'', [])] [] 1 [''a'', ''d''] 0 False
      (example_world [] ''RUNNING'')) = Inr (1, False)"
    by code_simp
  then show "sched_loop chain_event [(''a'', []), (''d'', [])] [] 1 [''a'', ''d''] 0 False
      (example_world [] ''RUNNING'') = (Inr (1, False),
        snd (sched_loop chain_event [(''a'', []), (''d'', [])] [] 1 [''a'', ''d''] 0 False
          (example_world [] ''RUNNING'')))"
    by (metis prod.collapse)
qed simp

text \<open>The parent run succeeded in \<open>a\<close> and wrote an output version, so the gate opens.\<close>

lemma gate_open_iff_witness:
  "True \<longleftrightarrow> (\<forall>key \<in> set (dkeys chain_plan) \<inter> set [''a''].
      key \<in> set (load_parent_success_tasks ''p'' gate_world) \<and>
      (require_artifact_evidence example_ext gate_world \<longrightarrow>
         has_parent_artifact_evidence example_ext ''p'' key) \<and>
      (require_checksum example_ext gate_world \<longrightarrow> has_parent_checksum_evidence example_ext ''p'' key) \<and>
      (require_signed_manifest example_ext gate_world \<longrightarrow> (\<exists>alg kid sig payload required.
          load_parent_task_manifest example_ext ''p'' key = Inr (Some (alg, kid, sig, payload)) \<and>
          required_artifacts_for_task chain_config key = Inr required \<and>
          verify_manifest_signature example_ext gate_world alg kid sig payload \<and>
          manifest_payload_valid_for_task ''p'' key payload \<and>
          manifest_satisfies_required_artifacts payload required)))"
proof (rule gate_open_iff)
  have "fst (init_replay_tasks_with_gating example_ext ''r'' ''p'' chain_plan chain_config
      [''b'', ''c''] [''a''] gate_world) = Inr True"
    by code_simp
  then show "init_replay_tasks_with_gating example_ext ''r'' ''p'' chain_plan chain_config
      [''b'', ''c''] [''a''] gate_world = (Inr True, snd (init_replay_tasks_with_gating example_ext
        ''r'' ''p'' chain_plan chain_config [''b'', ''c''] [''a''] gate_world))"
    by (metis prod.collapse)
qed

definition clustered :: world where
  "clustered = (example_world [] ''PENDING'')\<lparr>
     w_env := (\<lambda>n. if n = ''ML_AIR_CLUSTER_ID'' then Some ''eu'' else None),
     w_queues := (\<lambda>q. if q = runs_queue then
       [Json (VDict [(''placement'', VDict [(''cluster_id'', VStr ''us'')])]),
        Json (VDict [(''placement'', VDict [(''cluster_id'', VStr ''eu'')])])] else [])\<rparr>"

lemma pop_next_run_conserves_witness:
  "mset (w_queues clustered runs_queue) =
     {#Json (VDict [(''placement'', VDict [(''cluster_id'', VStr ''eu'')])])#}
     + mset (w_queues (snd (pop_next_run clustered)) runs_queue) \<and>
   placement_cluster [(''placement'', VDict [(''cluster_id'', VStr ''eu'')])]
     \<in> {[], strip (getenv clustered ''ML_AIR_CLUSTER_ID'' [])} \<and>
   w_queues (snd (pop_next_run clustered)) dlq = w_queues clustered dlq"
proof -
  have "fst (pop_next_run clustered)
      = Inr (Some (Json (VDict [(''placement'', VDict [(''cluster_id'', VStr ''eu'')])])))"
    by code_simp
  then have "pop_next_run clustered
      = (Inr (Some (Json (VDict [(''placement'', VDict [(''cluster_id'', VStr ''eu'')])]))),
         snd (pop_next_run clustered))"
    by (metis prod.collapse)
  moreover have "strip (getenv clustered ''ML_AIR_CLUSTER_ID'' []) \<noteq> []" by code_simp
  ultimately show ?thesis
    using pop_next_run_conserves [of clustered _ "snd (pop_next_run clustered)"]
    by (simp add: runs_queue_def dlq_def)
qed

lemma final_statuses_stay_witness:
  "task_status (fold (sched_do example_ext) [ReapLeases, NewRun (Garbled [])]
     (example_world [(''a'', ''SUCCESS'')] ''CANCELLED'')) ''r:a'' = Some ''SUCCESS'' \<and>
   run_status (fold (sched_do example_ext) [ReapLeases, NewRun (Garbled [])]
     (example_world [(''a'', ''SUCCESS'')] ''CANCELLED'')) ''r'' = Some ''CANCELLED''"
proof -
  let ?w = "example_world [(''a'', ''SUCCESS'')] ''CANCELLED''"
  have "keys_unique ?w" "task_final ''SUCCESS''" "run_final ''CANCELLED''"
    by (simp_all add: task_final_def run_final_def keys_unique_def example_world_def example_task_def
        example_run_def)
  note stay = final_statuses_stay [OF this]
  have "task_status ?w ''r:a'' = Some ''SUCCESS''" "run_status ?w ''r'' = Some ''CANCELLED''"
    by code_simp+
  then show ?thesis using stay by blast
qed

lemma tick_lock_exclusive_witness:
  "fst (try_acquire_scheduler_tick_lock 2 ''closed_loop'' 59 (example_world [] ''RUNNING'')
      (snd (try_acquire_scheduler_tick_lock 1 ''closed_loop'' 59 (example_world [] ''RUNNING'')
        (\<lambda>k. None)))) \<longleftrightarrow>
   w_now (example_world [] ''RUNNING'') + 1000000 * max 1 59 \<le> w_now (example_world [] ''RUNNING'')"
proof (rule tick_lock_exclusive)
  show e: "scheduler_tick_lock_enabled (example_world [] ''RUNNING'')" by code_simp
  then show "scheduler_tick_lock_enabled (example_world [] ''RUNNING'')" .
  from e show "try_acquire_scheduler_tick_lock 1 ''closed_loop'' 59 (example_world [] ''RUNNING'')
      (\<lambda>k. None) = (True, snd (try_acquire_scheduler_tick_lock 1 ''closed_loop'' 59
        (example_world [] ''RUNNING'') (\<lambda>k. None)))"
    by (simp add: try_acquire_scheduler_tick_lock_def set_nx_ex_def)
qed

subsection \<open>Two executions\<close>

text \<open>
  The synchronisation after a failure works on one snapshot of the statuses: with a chain of
  three tasks whose first has failed, the run becomes \<open>FAILED\<close> and the second task is cancelled,
  but the third one, whose dependency is cancelled in the same call, stays \<open>PENDING\<close>.
\<close>

theorem third_task_stays_pending:
  "(let w = sync_run_status_after_task example_ext ''r'' chain_plan (dkeys chain_plan)
              (example_world [(''a'', ''FAILED''), (''b'', ''PENDING''), (''c'', ''PENDING'')]
                ''RUNNING'')
    in (run_status w ''r'', map (task_status w) [''r:a'', ''r:b'', ''r:c'']))
   = (Some ''FAILED'', [Some ''FAILED'', Some ''CANCELLED'', Some ''PENDING''])"
  by code_simp

definition late_failure :: msg where
  "late_failure = Json (VDict [(''task_id'', VStr ''r:a''), (''run_id'', VStr ''r''),
     (''status'', VStr ''FAILED''), (''attempt'', VInt 1), (''config_snapshot'', chain_config)])"

text \<open>
  A failure report that arrives after the run was cancelled is retried all the same: the rows
  stay \<open>CANCELLED\<close>, as every transition is refused, but the task is put on the queue again, so an
  executor runs it once more.
\<close>

theorem cancelled_task_queued_again:
  "(let w = snd (consume_done example_ext late_failure
              (example_world [(''a'', ''CANCELLED''), (''b'', ''CANCELLED'')] ''CANCELLED''))
    in (run_status w ''r'', task_status w ''r:a'', length (w_queues w ''mlair:tasks:default'')))
   = (Some ''CANCELLED'', Some ''CANCELLED'', 1)"
  by code_simp

end
