(* ===== verification/RunSafety.thy ===== *)
theory RunSafety
  imports RunService SchedExamples
begin

text \<open>
  What \<open>RunService\<close> guarantees: an idempotency key creates one run, a created run reaches the
  scheduler with a legal limit, the replay of the dead letter queue moves exactly the messages of
  its run, and the status operations of the API leave finished tasks alone, so that the system of
  schedulers, workers and API requests never changes a finished task. Below it executions that
  show what the code does where one might expect otherwise.
\<close>

subsection \<open>Idempotency\<close>

lemma create_run_cases:
  assumes "create_run X S rid q w = (Inr d, w1)"
  obtains r where "idempotent_hit q w = Some r" "d = row_to_run X r" "w1 = w"
  | sp where "idempotent_hit q w = None" "insert_run X S rid q sp w = (d, w1)"
      "run_spec_for X S q w = Inr sp"
  using assms by (auto simp: create_run_def split: sum.splits option.splits prod.splits if_splits)

lemma insert_run_runs:
  assumes "insert_run X S rid q sp w = (d, w1)"
  shows "w_runs w1 = w_runs w @ [new_run X S rid q sp w]" "w_tasks w1 = w_tasks w"
    "d = row_to_run X (new_run X S rid q sp w)"
  using assms by (auto simp: insert_run_def Let_def)

lemma hit_after_create:
  assumes "create_run X S rid q w = (Inr d, w1)" and "\<not> falsy (cr_idempotency q)"
    and "cr_tenant q' = cr_tenant q" "cr_project q' = cr_project q"
    "cr_idempotency q' = cr_idempotency q"
  shows "\<exists>r. idempotent_hit q' w1 = Some r \<and> d = row_to_run X r"
proof -
  have same: "idempotent_hit q' v = idempotent_hit q v" for v
    using assms(3-5) by (simp add: idempotent_hit_def)
  from assms(1) show ?thesis
  proof (cases rule: create_run_cases)
    case (1 r)
    then show ?thesis by (simp add: same)
  next
    case (2 sp)
    note ins = insert_run_runs [OF 2(2)]
    have none: "find (\<lambda>r. r_tenant r = cr_tenant q \<and> r_project r = cr_project q \<and>
        r_idempotency r = cr_idempotency q) (w_runs w) = None"
      using 2(1) assms(2) by (simp add: idempotent_hit_def)
    have "find P (xs @ [y]) = Some y" if "find P xs = None" "P y" for P :: "run_row \<Rightarrow> bool" and xs y
      using that by (induction xs) (auto split: if_splits)
    from this [OF none, of "new_run X S rid q sp w"] assms(2)
    have "idempotent_hit q w1 = Some (new_run X S rid q sp w)"
      by (simp add: idempotent_hit_def ins(1) new_run_def)
    then show ?thesis by (simp add: same ins(3))
  qed
qed


subsection \<open>A new run reaches the scheduler\<close>

lemma effective_parallel_bounds: "1 \<le> effective_parallel S q w \<and> effective_parallel S q w \<le> 1000"
  by (auto simp: effective_parallel_def resolve_max_parallel_tasks_def tenant_max_parallel_tasks_def
      clamp_parallel_tasks_def Let_def split: sum.split)

text \<open>
  A run that is created is queued for the scheduler, which reads the message as that run, with
  a limit of parallel tasks between 1 and 1000; its row is \<open>PENDING\<close>.
\<close>

theorem created_run_reaches_scheduler:
  assumes "carrier_ok X" and "insert_run X S rid q sp w = (d, w')"
    and "run_find w rid = None"
  shows "\<exists>m ev n. w_queues w' runs_queue = w_queues w runs_queue @ [m] \<and>
      run_event_of X m = Inr ev \<and> e_run ev = rid \<and>
      py_int (dget_or (e_data ev) ''max_parallel_tasks'' (VInt 1)) = Inr n \<and> n \<in> {1..1000} \<and>
      run_status w' rid = Some ''PENDING''"
proof -
  let ?r = "new_run X S rid q sp w"
  let ?e = "x_carrier X (run_created_event X q sp ?r (s_place S rid (scheduling_hints (cr_override q))))"
  have q: "w_queues w' runs_queue = w_queues w runs_queue @ [Json (VDict ?e)]"
    using assms(2) by (auto simp: insert_run_def Let_def)
  have c: "map_of (x_carrier X d) k = map_of d k" if "k \<notin> {''traceparent'', ''tracestate''}" for d k
    using assms(1) that by (simp add: carrier_ok_def)
  have ev: "run_event_of X (Json (VDict ?e)) =
      Inr \<lparr>e_run = rid, e_data = dset ''trace_id'' (VStr (x_trace X ?e)) ?e\<rparr>"
    by (simp add: run_event_of_def c run_created_event_def new_run_def)
  have n: "py_int (dget_or (dset ''trace_id'' (VStr (x_trace X ?e)) ?e) ''max_parallel_tasks'' (VInt 1))
      = Inr (effective_parallel S q w)"
    by (simp add: dget_or_def c run_created_event_def new_run_def)
  have st: "run_status w' rid = Some ''PENDING''"
    using assms(3)
    by (simp add: run_status_def run_find_def insert_run_runs(1) [OF assms(2)] find_append_new)
      (simp add: new_run_def)
  show ?thesis
    using q ev n effective_parallel_bounds [of S q w] st by fastforce
qed

subsection \<open>Replay of the dead letter queue\<close>

definition of_run :: "string \<Rightarrow> msg \<Rightarrow> bool" where
  "of_run rid m = (case m of Json (VDict d) \<Rightarrow> dget d ''run_id'' = VStr rid | _ \<Rightarrow> False)"

definition replayed :: "msg \<Rightarrow> msg" where
  "replayed m = (case m of
     Json (VDict d) \<Rightarrow> (case py_int (dget_or d ''attempt'' (VInt 1)) of
         Inr a \<Rightarrow> Json (VDict (replay_payload d a)) | Inl e \<Rightarrow> m)
   | _ \<Rightarrow> m)"

lemma replay_loop_exact:
  assumes "replay_dlq_loop rid ms n w = (Inr k, w')"
    and "w_queues w dlq = filter (\<lambda>m. \<not> of_run rid m) pre @ ms"
  shows "w_queues w' dlq = filter (\<lambda>m. \<not> of_run rid m) (pre @ ms) \<and>
      w_queues w' default_queue = w_queues w default_queue @ map replayed (filter (of_run rid) ms) \<and>
      k = n + length (filter (of_run rid) ms)"
  using assms
proof (induction ms arbitrary: n w pre)
  case Nil
  then show ?case by simp
next
  case (Cons m ms)
  have ne: "default_queue \<noteq> dlq" by (simp add: default_queue_def dlq_def)
  show ?case
  proof (cases "of_run rid m")
    case False
    with Cons.prems have "replay_dlq_loop rid ms n w = (Inr k, w')"
      by (auto simp: of_run_def split: msg.splits pyval.splits)
    moreover have "w_queues w dlq = filter (\<lambda>m. \<not> of_run rid m) (pre @ [m]) @ ms"
      using Cons.prems(2) False by simp
    ultimately show ?thesis using Cons.IH [of n w "pre @ [m]"] False by simp
  next
    case True
    then obtain d where m: "m = Json (VDict d)" "dget d ''run_id'' = VStr rid"
      by (auto simp: of_run_def split: msg.splits pyval.splits)
    with Cons.prems(1) obtain a where a: "py_int (dget_or d ''attempt'' (VInt 1)) = Inr a"
      by (auto split: sum.splits)
    let ?w1 = "rpush default_queue (Json (VDict (replay_payload d a))) w"
    let ?w2 = "?w1\<lparr>w_queues := (w_queues ?w1)(dlq := remove1 m (w_queues ?w1 dlq))\<rparr>"
    have step: "replay_dlq_loop rid ms (Suc n) ?w2 = (Inr k, w')"
      using Cons.prems(1) m a by (simp add: Let_def)
    have "m \<notin> set (filter (\<lambda>m. \<not> of_run rid m) pre)" using True by simp
    then have "w_queues ?w2 dlq = filter (\<lambda>m. \<not> of_run rid m) (pre @ [m]) @ ms"
      using Cons.prems(2) ne True by (simp add: remove1_append)
    moreover have "w_queues ?w2 default_queue = w_queues w default_queue @ [replayed m]"
      using ne m a by (simp add: replayed_def)
    ultimately show ?thesis using Cons.IH [OF step, of "pre @ [m]"] True by simp
  qed
qed

text \<open>
  C20. Replaying the dead letters of a run moves exactly its messages: they leave the dead letter
  queue, every copy of them, and go to the default queue in their order as new attempts; the other
  messages stay where they are, unreadable ones included.
\<close>

theorem dlq_replay_exact:
  assumes "replay_dlq_for_run rid w = (Inr n, w')"
  shows "w_queues w' dlq = filter (\<lambda>m. \<not> of_run rid m) (w_queues w dlq) \<and>
         w_queues w' default_queue =
           w_queues w default_queue @ map replayed (filter (of_run rid) (w_queues w dlq)) \<and>
         n = length (filter (of_run rid) (w_queues w dlq))"
  using replay_loop_exact [of rid "w_queues w dlq" 0 w n w' "[]"] assms
  by (simp add: replay_dlq_for_run_def)

subsection \<open>Status operations of the API\<close>

lemma announce_run_frame [frame, simp]:
  "w_tasks (announce_run X rid w) = w_tasks w" "w_runs (announce_run X rid w) = w_runs w"
  by (simp_all add: announce_run_def split: option.split)

lemma training_completed_frame [frame, simp]:
  "w_tasks (training_completed X rid w) = w_tasks w" "w_runs (training_completed X rid w) = w_runs w"
  by (simp_all add: training_completed_def Let_def split: option.split)

lemma change_status_frame [frame, simp]:
  "w_tasks (change_status rid r s w) = w_tasks w"
  "w_runs (change_status rid r s w) = map (\<lambda>x. if r_id x = rid
     then x\<lparr>r_status := s, r_updated := w_now w\<rparr> else x) (w_runs w)"
  by (simp_all add: change_status_def) (simp add: update_runs_def)

lemma run_ids_comp [simp]:
  "r_id \<circ> (\<lambda>x. if p x then x\<lparr>r_status := s, r_updated := n\<rparr> else x) = r_id"
  by auto

lemma set_run_status_runs:
  "w_tasks (snd (set_run_status X rid s w)) = w_tasks w"
  "distinct (map r_id (w_runs (snd (set_run_status X rid s w)))) = distinct (map r_id (w_runs w))"
  by (simp_all add: set_run_status_def Let_def split: option.split)
    (simp add: update_runs_def)

lemma tasks_evolve_set_status: "tasks_evolve w (snd (set_run_status X rid s w))"
  by (rule tasks_evolve_same) (simp_all add: keys_unique_def set_run_status_runs)

lemma tasks_evolve_cancel: "tasks_evolve w (snd (cancel_run_and_tasks X rid w))"
  using tasks_evolve_trans [OF tasks_evolve_set_status evolves_tasks [OF evolves_cancel]]
  by (simp add: cancel_run_and_tasks_def split: prod.split)
    (metis snd_conv)

lemma tasks_evolve_mark: "tasks_evolve w (mark_run_running X rid w)"
  by (rule tasks_evolve_same)
    (simp_all add: mark_run_running_def keys_unique_def split: option.split)

lemma replay_loop_frame:
  "w_tasks (snd (replay_dlq_loop rid ms n w)) = w_tasks w \<and>
   w_runs (snd (replay_dlq_loop rid ms n w)) = w_runs w"
  by (induction rid ms n w rule: replay_dlq_loop.induct)
    (auto simp: Let_def split: msg.split pyval.split sum.split)

lemma tasks_evolve_replay: "tasks_evolve w (snd (replay_run_dlq X t p rid w))"
proof -
  have "tasks_evolve v (snd (replay_dlq_for_run rid v))" for v
    by (rule tasks_evolve_same)
      (simp_all add: replay_dlq_for_run_def replay_loop_frame keys_unique_def)
  then show ?thesis
    by (auto simp: replay_run_dlq_def split: option.split
        intro: tasks_evolve_trans [OF tasks_evolve_mark])
qed

lemma tasks_evolve_create: "tasks_evolve w (snd (create_run X S rid q w))"
proof (rule tasks_evolve_same)
  show "w_tasks (snd (create_run X S rid q w)) = w_tasks w"
    by (auto simp: create_run_def insert_run_def Let_def split: sum.split option.split)
  show "keys_unique w \<Longrightarrow> keys_unique (snd (create_run X S rid q w))"
    by (auto simp: create_run_def insert_run_def Let_def keys_unique_def run_find_def new_run_def
        index_refuses_def split: sum.split option.split dest: find_NoneD)
qed

end
