(* ===== verification/System.thy ===== *)
theory System
  imports RunSafety
begin

text \<open>
  The whole control plane over the shared tables: schedulers, external workers and API requests as
  one set of commands, interleaved in any way. A state is reachable when a finite sequence of
  commands leads to it.
\<close>

datatype api_cmd =
    CreateRun services string run_request
  | SetStatus string string
  | CancelRun string
  | ReplayDeadLetters string string string

fun api_do :: "ext \<Rightarrow> api_cmd \<Rightarrow> world \<Rightarrow> world" where
  "api_do X (CreateRun S rid q) w = snd (create_run X S rid q w)"
| "api_do X (SetStatus rid status) w = snd (set_run_status X rid status w)"
| "api_do X (CancelRun rid) w = snd (cancel_run_and_tasks X rid w)"
| "api_do X (ReplayDeadLetters tenant project rid) w = snd (replay_run_dlq X tenant project rid w)"

datatype command = BySched sched_cmd | ByWorker worker_cmd | ByApi api_cmd

fun system_do :: "ext \<Rightarrow> registry \<Rightarrow> pydict \<Rightarrow> command \<Rightarrow> world \<Rightarrow> world" where
  "system_do X G l4 (BySched c) w = sched_do X c w"
| "system_do X G l4 (ByWorker c) w = worker_do X G l4 c w"
| "system_do X G l4 (ByApi c) w = api_do X c w"

interpretation api: task_client "api_do X" for X
proof unfold_locales
  show "tasks_evolve w (api_do X c w)" for c w
    by (cases c) (simp_all add: tasks_evolve_create tasks_evolve_set_status tasks_evolve_cancel
        tasks_evolve_replay)
qed

interpretation system: task_client "system_do X G l4" for X G l4
proof unfold_locales
  show "tasks_evolve w (system_do X G l4 c w)" if "keys_unique w" for c w
    using scheduler.step_tasks [OF that] workers.step_tasks [OF that] api.step_tasks [OF that]
    by (cases c) simp_all
qed

inductive reachable :: "ext \<Rightarrow> registry \<Rightarrow> pydict \<Rightarrow> world \<Rightarrow> world \<Rightarrow> bool"
  for X G l4 w0 where
  start: "reachable X G l4 w0 w0"
| step: "reachable X G l4 w0 w \<Longrightarrow> reachable X G l4 w0 (system_do X G l4 c w)"

inductive_cases reachableE: "reachable X G l4 w0 w"

lemma reachable_fold: "reachable X G l4 w0 (fold (system_do X G l4) cs w0)"
  by (induction cs rule: rev_induct) (auto intro: reachable.intros)

lemma reachable_iff: "reachable X G l4 w0 w \<longleftrightarrow> (\<exists>cs. w = fold (system_do X G l4) cs w0)"
proof
  assume "reachable X G l4 w0 w"
  then show "\<exists>cs. w = fold (system_do X G l4) cs w0"
  proof induction
    case start
    show ?case by (rule exI [of _ "[]"]) simp
  next
    case (step w c)
    then obtain cs where "w = fold (system_do X G l4) cs w0" by blast
    then show ?case by (intro exI [of _ "cs @ [c]"]) simp
  qed
qed (use reachable_fold in blast)

lemma reachable_tasks: "reachable X G l4 w0 w \<Longrightarrow> keys_unique w0 \<Longrightarrow> tasks_evolve w0 w"
proof (induction rule: reachable.induct)
  case start
  then show ?case by simp
next
  case (step w c)
  then have e: "tasks_evolve w0 w" by simp
  then have "keys_unique w" using step.prems by (simp add: tasks_evolve_def)
  from tasks_evolve_trans [OF e system.step_tasks [OF this]] show ?case .
qed

text \<open>
  C1. In every state the system can reach, whatever schedulers, workers and API requests do and
  in whatever order, every task still exists, belongs to its run, and, once it is \<open>SUCCESS\<close> or
  \<open>CANCELLED\<close>, is so for good; task and run ids stay unique.
\<close>

theorem system_preserves_tasks:
  assumes "reachable X G l4 w0 w" and "keys_unique w0" and "task_find w0 tid = Some t"
  shows "keys_unique w \<and> (\<exists>t'. task_find w tid = Some t' \<and> t_run t' = t_run t \<and>
           \<not> (task_final (t_status t) \<and> t_status t' \<noteq> t_status t))"
  using reachable_tasks [OF assms(1,2)] assms(2,3)
  by (auto simp: tasks_evolve_def task_kept_def)

end
