(* ===== verification/RunExamples.thy ===== *)
theory RunExamples
  imports RunService
begin

text \<open>The services and requests the concrete executions of later theories share.\<close>

definition no_tables :: catalog where
  "no_tables = \<lparr>c_quotas = [], c_projects = [], c_datasets = [], c_models = [], c_webhooks = [],
     c_versions = []\<rparr>"

definition no_services :: services where
  "no_services = \<lparr>s_l4 = [], s_catalog = no_tables, s_place = (\<lambda>r h. None), s_environment = None\<rparr>"

definition keyed_request :: run_request where
  "keyed_request = \<lparr>cr_tenant = ''t'', cr_project = ''p'', cr_pipeline = ''pipe'',
     cr_idempotency = Some ''once'', cr_priority = ''HIGH'', cr_max_parallel = 4, cr_trace = None,
     cr_experiment = None, cr_plugin = None, cr_context = [], cr_version = None, cr_use_latest = False,
     cr_replay_of = None, cr_replay_from = None, cr_override = []\<rparr>"

end
