(* ===== verification/SystemExamples.thy ===== *)
theory SystemExamples
  imports System RunExamples
begin

text \<open>
  The worker protocol, the run service and the system on concrete states: instances of their
  properties, and executions that show what the code does where one might expect otherwise.
\<close>

definition worker_env :: "string \<Rightarrow> string option" where
  "worker_env = (\<lambda>n. if n = ''ML_AIR_TASK_EXECUTION_MODE'' then Some ''external'' else None)"

definition queued_world :: world where
  "queued_world = (example_world [(''a'', ''QUEUED''), (''b'', ''QUEUED'')] ''RUNNING'')
     \<lparr>w_env := worker_env\<rparr>"

definition leased_task :: task_row where
  "leased_task = (example_task ''r:a'' ''r'' ''RUNNING'' 1)
     \<lparr>t_leased_by := Some ''w1'', t_lease_expires := Some 30000000\<rparr>"

definition leased_world :: world where
  "leased_world = queued_world\<lparr>w_tasks := [leased_task]\<rparr>"

definition no_registry :: registry where
  "no_registry = \<lparr>g_versions = (\<lambda>m. []), g_create = (\<lambda>m r u. Inl ''unavailable'')\<rparr>"

definition plain_report :: report where
  "plain_report = \<lparr>o_metrics = [(''loss'', VInt 1)], o_artifacts = [], o_lineage = [], o_usage = VNone,
     o_samples = []\<rparr>"

lemma keys_queued: "keys_unique queued_world"
  by (simp add: keys_unique_def queued_world_def example_world_def example_task_def example_run_def)

lemma keys_leased: "keys_unique leased_world"
  by (simp add: keys_unique_def leased_world_def leased_task_def queued_world_def example_world_def
      example_task_def example_run_def)

lemma carrier_example: "carrier_ok example_ext"
  by (simp add: carrier_ok_def example_ext_def)

subsection \<open>Workers\<close>


lemma commit_example:
  "complete_commit example_ext no_registry ''w1'' plain_report leased_task (example_run ''r'' ''RUNNING'')
     leased_world = (Inr Completed, snd (complete_commit example_ext no_registry ''w1'' plain_report
       leased_task (example_run ''r'' ''RUNNING'') leased_world))"
proof -
  have "fst (complete_commit example_ext no_registry ''w1'' plain_report leased_task
      (example_run ''r'' ''RUNNING'') leased_world) = Inr Completed"
    by code_simp
  then show ?thesis by (metis prod.collapse)
qed

lemma completed_once_witness:
  "fst (complete_commit example_ext no_registry ''w1'' plain_report leased_task
      (example_run ''r'' ''RUNNING'') (snd (complete_commit example_ext no_registry ''w1'' plain_report
       leased_task (example_run ''r'' ''RUNNING'') leased_world))) \<noteq> Inr Completed \<and>
   fst (fail_commit example_ext ''w1'' ''late'' VNone [] leased_task
      (example_run ''r'' ''RUNNING'') (snd (complete_commit example_ext no_registry ''w1'' plain_report
       leased_task (example_run ''r'' ''RUNNING'') leased_world))) \<noteq> Inr ()"
  by (rule completed_once [OF keys_leased commit_example evolves_refl refl])

lemma complete_example:
  "complete_task example_ext no_registry [] ''r:a'' '' w1'' [] VNone None VNone [] [] None leased_world
     = (Inr Completed, snd (complete_task example_ext no_registry [] ''r:a'' '' w1'' [] VNone None VNone
         [] [] None leased_world))"
proof -
  have "fst (complete_task example_ext no_registry [] ''r:a'' '' w1'' [] VNone None VNone [] [] None
      leased_world) = Inr Completed"
    by code_simp
  then show ?thesis by (metis prod.collapse)
qed

lemma complete_only_by_holder_witness:
  "(external_execution_enabled [] leased_world \<and>
    (\<exists>t r. task_find leased_world ''r:a'' = Some t \<and> t_status t = ''RUNNING'' \<and>
       t_leased_by t = Some (strip '' w1'') \<and> run_find leased_world (t_run t) = Some r \<and>
       in_scope None r)) \<and>
   task_status (snd (complete_task example_ext no_registry [] ''r:a'' '' w1'' [] VNone None VNone [] []
      None leased_world)) ''r:a'' = Some ''SUCCESS''"
  using complete_only_by_holder [OF keys_leased complete_example] by simp

lemma heartbeat_keeps_lease_witness:
  "(\<exists>t'. task_find (snd (heartbeat_task [] ''r:a'' ''w1'' None None leased_world)) ''r:a'' = Some t' \<and>
      t_status t' = ''RUNNING'' \<and> t_leased_by t' = Some (strip ''w1'') \<and>
      lease_expired ((snd (heartbeat_task [] ''r:a'' ''w1'' None None leased_world))\<lparr>w_now := 29000000\<rparr>) t'
        = (w_now leased_world + 1000000 * lease_ttl_seconds [] leased_world < 29000000)) \<and>
   5 \<le> lease_ttl_seconds [] leased_world"
proof (rule heartbeat_keeps_lease [OF keys_leased])
  have "fst (heartbeat_task [] ''r:a'' ''w1'' None None leased_world) = True" by code_simp
  then show "heartbeat_task [] ''r:a'' ''w1'' None None leased_world
      = (True, snd (heartbeat_task [] ''r:a'' ''w1'' None None leased_world))"
    by (metis prod.collapse)
qed

lemma completion_reaches_scheduler_witness:
  "\<exists>m e. w_queues (snd (complete_commit example_ext no_registry ''w1'' plain_report leased_task
        (example_run ''r'' ''RUNNING'') leased_world)) tasks_done = w_queues leased_world tasks_done @ [m] \<and>
      done_event_of example_ext m = Inr e \<and> d_task e = t_id leased_task \<and>
      d_run e = t_run leased_task \<and> d_status e = ''SUCCESS'' \<and>
      d_attempt e = (if t_attempt leased_task = 0 then 1 else t_attempt leased_task)"
  by (rule completion_reaches_scheduler [OF carrier_example commit_example])

subsection \<open>Runs and quotas\<close>

abbreviation first_run :: "pydict py \<times> world" where
  "first_run \<equiv> create_run example_ext no_services ''n1'' keyed_request queued_world"

abbreviation second_run :: "pydict py \<times> world" where
  "second_run \<equiv> create_run example_ext no_services ''n2'' keyed_request (snd first_run)"

lemma created_ok: "isl (fst first_run) = False" "isl (fst second_run) = False"
  by code_simp+

lemma answered: "isl (fst p) = False \<Longrightarrow> p = (Inr (projr (fst p)), snd p)"
  by (cases p) (auto split: sum.splits)


abbreviation keyed_spec :: run_spec where
  "keyed_spec \<equiv> \<lparr>sp_version = None, sp_config = VNone, sp_plugin = None, sp_context = [],
     sp_experiment = None\<rparr>"

lemma created_run_reaches_scheduler_witness:
  "\<exists>m ev n. w_queues (snd (insert_run example_ext no_services ''n1'' keyed_request keyed_spec
         queued_world)) runs_queue = w_queues queued_world runs_queue @ [m] \<and>
      run_event_of example_ext m = Inr ev \<and> e_run ev = ''n1'' \<and>
      py_int (dget_or (e_data ev) ''max_parallel_tasks'' (VInt 1)) = Inr n \<and> n \<in> {1..1000} \<and>
      run_status (snd (insert_run example_ext no_services ''n1'' keyed_request keyed_spec
         queued_world)) ''n1'' = Some ''PENDING''"
proof (rule created_run_reaches_scheduler [OF carrier_example prod.collapse [symmetric]])
  show "run_find queued_world ''n1'' = None" by code_simp
qed

lemma quota_update_effective_witness:
  "get_tenant_quotas (projr (upsert_tenant_quotas '' acme '' (Some 3) None None None None (Some 8)
       (Some [''B.example'', ''a.example'', ''b.example'']) 7 no_tables)) [(''max_projects'', 200)] ''acme'' =
     \<lparr>lm_projects = 3, lm_datasets = 1, lm_models = 1, lm_runs = 1, lm_webhooks = 1, lm_parallel = 8,
      lm_hosts = Some [''a.example'', ''b.example'']\<rparr>"
proof -
  have "isl (upsert_tenant_quotas '' acme '' (Some 3) None None None None (Some 8)
       (Some [''B.example'', ''a.example'', ''b.example'']) 7 no_tables) = False"
    by code_simp
  then obtain c' where c': "upsert_tenant_quotas '' acme '' (Some 3) None None None None (Some 8)
       (Some [''B.example'', ''a.example'', ''b.example'']) 7 no_tables = Inr c'"
    by (auto split: sum.splits simp: isl_def)
      (metis sum.exhaust_sel)
  have strip: "strip '' acme '' = ''acme''" "strip ''acme'' = ''acme''" by code_simp+
  have hosts: "normalize_hosts (Some [''B.example'', ''a.example'', ''b.example'']) =
      Some [''a.example'', ''b.example'']" by code_simp
  have "get_tenant_quotas c' [(''max_projects'', 200)] ''acme'' =
      get_tenant_quotas c' [(''max_projects'', 200)] '' acme ''"
    unfolding get_tenant_quotas_def strip ..
  with quota_update_effective [OF c', of "[(''max_projects'', 200)]"] show ?thesis
    by (simp add: c' hosts or_default_def limit_of_def)
qed

lemma versions_numbered_witness:
  "numbered (versions_of (fst (snd (create_pipeline_version ''v1'' ''t'' ''p'' ''pipe'' [] no_tables
       queued_world))) ''t'' ''p'' ''pipe'') \<and>
   v_version (fst (create_pipeline_version ''v1'' ''t'' ''p'' ''pipe'' [] no_tables queued_world)) =
     int (length (versions_of (fst (snd (create_pipeline_version ''v1'' ''t'' ''p'' ''pipe'' [] no_tables
       queued_world))) ''t'' ''p'' ''pipe'')) \<and>
   get_latest_version_id (fst (snd (create_pipeline_version ''v1'' ''t'' ''p'' ''pipe'' [] no_tables
       queued_world))) ''t'' ''p'' ''pipe'' = Some ''v1''"
proof (rule versions_numbered)
  show "numbered (versions_of no_tables t p pl)" for t p pl
    by (simp add: numbered_def versions_of_def no_tables_def)
  show "create_pipeline_version ''v1'' ''t'' ''p'' ''pipe'' [] no_tables queued_world =
      (fst (create_pipeline_version ''v1'' ''t'' ''p'' ''pipe'' [] no_tables queued_world),
       fst (snd (create_pipeline_version ''v1'' ''t'' ''p'' ''pipe'' [] no_tables queued_world)),
       snd (snd (create_pipeline_version ''v1'' ''t'' ''p'' ''pipe'' [] no_tables queued_world)))"
    by simp
qed

subsection \<open>Dead letters\<close>

definition dead_letter :: "string \<Rightarrow> msg" where
  "dead_letter rid = Json (VDict [(''task_id'', VStr (rid @ '':a'')), (''run_id'', VStr rid),
     (''attempt'', VInt 3)])"

definition failed_world :: world where
  "failed_world = (example_world [(''a'', ''FAILED'')] ''FAILED'')\<lparr>w_queues := (\<lambda>q.
     if q = dlq then [dead_letter ''x'', Garbled ''?'', dead_letter ''r''] else [])\<rparr>"

lemma dlq_replay_exact_witness:
  "w_queues (snd (replay_dlq_for_run ''r'' failed_world)) dlq =
     filter (\<lambda>m. \<not> of_run ''r'' m) (w_queues failed_world dlq) \<and>
   w_queues (snd (replay_dlq_for_run ''r'' failed_world)) default_queue =
     w_queues failed_world default_queue @
       map replayed (filter (of_run ''r'') (w_queues failed_world dlq)) \<and>
   1 = length (filter (of_run ''r'') (w_queues failed_world dlq))"
proof (rule dlq_replay_exact)
  have "fst (replay_dlq_for_run ''r'' failed_world) = Inr 1" by code_simp
  then show "replay_dlq_for_run ''r'' failed_world = (Inr 1, snd (replay_dlq_for_run ''r'' failed_world))"
    by (metis prod.collapse)
qed

lemma system_preserves_tasks_witness:
  "keys_unique (fold (system_do example_ext no_registry []) [ByApi (CancelRun ''r''), BySched ReapLeases]
       leased_world) \<and>
   (\<exists>t'. task_find (fold (system_do example_ext no_registry [])
       [ByApi (CancelRun ''r''), BySched ReapLeases] leased_world) ''r:a'' = Some t' \<and>
     t_run t' = t_run leased_task \<and>
     \<not> (task_final (t_status leased_task) \<and> t_status t' \<noteq> t_status leased_task))"
proof (rule system_preserves_tasks [OF reachable_fold keys_leased])
  show "task_find leased_world ''r:a'' = Some leased_task"
    by (simp add: leased_world_def task_find_def leased_task_def example_task_def)
qed

subsection \<open>Three executions\<close>

definition late_success :: msg where
  "late_success = Json (VDict [(''task_id'', VStr ''r:a''), (''run_id'', VStr ''r''),
     (''status'', VStr ''SUCCESS''), (''attempt'', VInt 4),
     (''config_snapshot'', VDict [(''tasks'', VList [VDict [(''id'', VStr ''a'')]])])])"

text \<open>
  The work of a replayed dead letter is lost: the replay puts the failed task on the queue and
  the run back to \<open>RUNNING\<close>, but the row of the task stays \<open>FAILED\<close>, and when the task then succeeds
  the transition from \<open>FAILED\<close> is refused, so the run is \<open>FAILED\<close> again.
\<close>

theorem replayed_success_lost:
  "(let w1 = snd (replay_run_dlq example_ext ''default'' ''default_project'' ''r'' failed_world);
        w2 = snd (consume_done example_ext late_success w1)
    in (run_status w1 ''r'', length (w_queues w1 default_queue), task_status w1 ''r:a'',
        task_status w2 ''r:a'', run_status w2 ''r''))
   = (Some ''RUNNING'', 1, Some ''FAILED'', Some ''FAILED'', Some ''FAILED'')"
  by code_simp

text \<open>
  The status operations of the API do not look at the transitions the scheduler allows: the
  cancellation of a run that has succeeded makes it \<open>CANCELLED\<close>, with all its tasks \<open>SUCCESS\<close>.
\<close>

theorem finished_run_cancelled:
  "(let w = example_world [(''a'', ''SUCCESS'')] ''SUCCESS'';
        w' = snd (cancel_run_and_tasks example_ext ''r'' w)
    in (run_allowed ''SUCCESS'', run_status w' ''r'', task_status w' ''r:a''))
   = ([], Some ''CANCELLED'', Some ''SUCCESS'')"
  by code_simp

definition pipe_tables :: catalog where
  "pipe_tables = no_tables\<lparr>c_versions := [\<lparr>v_id = ''v'', v_tenant = ''default'',
     v_project = ''default_project'', v_pipeline = ''pipe'', v_version = 1,
     v_config = VDict [(''tasks'', VList [VDict [(''id'', VStr ''a'')]])], v_created = 0\<rparr>]\<rparr>"

definition pinned_world :: world where
  "pinned_world = update_runs (\<lambda>r. r_id r = ''r'') (\<lambda>r. r\<lparr>r_version := Some ''v'', r_updated := 5\<rparr>)
     (example_world [(''a'', ''SUCCESS'')] ''SUCCESS'')"

text \<open>
  The graph of a pipeline looks its nodes up among the full task ids, which start with the run
  id, so it never shows a status: for the same finished run the graph of the run says \<open>SUCCESS\<close> and
  the graph of the pipeline \<open>PENDING\<close>.
\<close>

theorem pipeline_graph_pending:
  "(get_run_execution_graph example_ext pipe_tables ''default'' ''default_project'' ''r'' pinned_world,
    get_pipeline_dag example_ext pipe_tables ''default'' ''default_project'' ''pipe'' pinned_world)
   = (Inr (Some ([(''a'', ''SUCCESS'')], [])), Inr ([(''a'', ''PENDING'')], []))"
  by code_simp

end
