(* ===== verification/Promotion.thy ===== *)
theory Promotion
  imports PyValue
begin

text \<open>
  Model of \<^verbatim>\<open>api/app/domains/governance/promotion_policy.py\<close>: the order of the stages of a model
  version, the classification of a move and the decision whether it is allowed. The platform
  settings the functions read (\<^verbatim>\<open>get_settings().promotion\<close>) are the record \<open>promo\<close>.
  The lemmas give the decision in terms of the ranks alone and show that the branches behind
  the two guards on the rank are never taken.
\<close>

record promo =
  stage_order :: "string list"
  rollback_on :: bool
  rollback_needs_approval :: bool
  allow_skip :: bool

datatype tkind = Forward | Rollback | Noop | UnknownKind

fun index_of :: "'a \<Rightarrow> 'a list \<Rightarrow> nat option" where
  "index_of x [] = None"
| "index_of x (y # ys) = (if y = x then Some 0 else map_option Suc (index_of x ys))"

definition normalize_stage :: "string option \<Rightarrow> string option" where
  "normalize_stage stage =
     (let s = lower (strip (opt_or stage [])) in
      if s = [] \<or> s = ''archived'' then None else Some s)"

definition stage_rank :: "promo \<Rightarrow> string option \<Rightarrow> string list \<Rightarrow> nat option" where
  "stage_rank P stage order =
     (let order = (if order = [] then stage_order P else order) in
      case normalize_stage stage of None \<Rightarrow> None | Some s \<Rightarrow> index_of s order)"

definition target_of :: "string \<Rightarrow> string" where
  "target_of t = (let s = lower (strip t) in if s = [] then ''production'' else s)"

definition transition_kind :: "promo \<Rightarrow> string option \<Rightarrow> string \<Rightarrow> tkind" where
  "transition_kind P current_stage target_stage =
     (let order = stage_order P;
          target = target_of target_stage;
          current = normalize_stage current_stage
      in if current = Some target then Noop
         else (let cr = stage_rank P current order; tr = stage_rank P (Some target) order
           in case tr of None \<Rightarrow> UnknownKind
              | Some t \<Rightarrow> (case cr of None \<Rightarrow> Forward
                  | Some c \<Rightarrow> if t > c then Forward else if t < c then Rollback else UnknownKind)))"

record verdict =
  allowed :: bool
  error_code :: "string option"
  vmessage :: "string option"
  vkind :: tkind

definition permit :: "tkind \<Rightarrow> verdict" where
  "permit k = \<lparr>allowed = True, error_code = None, vmessage = None, vkind = k\<rparr>"

definition refuse :: "string \<Rightarrow> string \<Rightarrow> tkind \<Rightarrow> verdict" where
  "refuse code msg k = \<lparr>allowed = False, error_code = Some code, vmessage = Some msg, vkind = k\<rparr>"

definition q1 :: "string \<Rightarrow> string" where
  "q1 s = quote1 # s @ [quote1]"

text \<open>
  The ranks of the forward branch are compared as the code compares them: \<open>tr\<close> is not
  \<open>None\<close> there, because the kind would be \<open>UnknownKind\<close> otherwise.
\<close>

definition evaluate_stage_transition :: "promo \<Rightarrow> string option \<Rightarrow> string \<Rightarrow> verdict" where
  "evaluate_stage_transition P current_stage target_stage =
     (let order = stage_order P;
          target = target_of (if target_stage = [] then ''production'' else target_stage);
          kind = transition_kind P current_stage target;
          cr = stage_rank P current_stage order;
          tr = stage_rank P (Some target) order
      in case kind of
        Noop \<Rightarrow> refuse ''already_at_stage''
                  (''Version is already at stage '' @ q1 target @ ''.'') kind
      | UnknownKind \<Rightarrow> refuse ''unknown_target_stage''
          (''Target stage '' @ q1 target @ '' is not in promotion order ('' @ join '', '' order @ '').'')
          kind
      | Rollback \<Rightarrow>
          if \<not> rollback_on P
          then refuse ''rollback_disabled''
                 ''Rollback is disabled (ML_AIR_ROLLBACK_ENABLED=0).'' kind
          else if (case (cr, tr) of (Some c, Some t) \<Rightarrow> t \<ge> c | _ \<Rightarrow> False)
          then refuse ''invalid_rollback'' ''Rollback target must be a lower stage.'' kind
          else permit kind
      | Forward \<Rightarrow>
         (case cr of
            None \<Rightarrow>
              if tr = Some 0 \<or> allow_skip P then permit kind
              else refuse ''invalid_stage_transition''
                (''Version must be promoted to '' @ q1 (order ! 0) @ '' before '' @ q1 target @ ''.'')
                kind
          | Some c \<Rightarrow>
              let t = the tr in
              if t = c + 1 then permit kind
              else if allow_skip P \<and> t > c then permit kind
              else if t \<le> c then refuse ''invalid_stage_transition''
                ''Use Rollback to move to a lower stage, not Promote.'' kind
              else if c + 1 < length order \<and> order ! (c + 1) \<noteq> [] then
                refuse ''invalid_stage_transition''
                  (''Forward promotion must go to the next stage '' @ q1 (order ! (c + 1)) @
                   '' (or enable ML_AIR_PROMOTION_ALLOW_SKIP_STAGES).'') kind
              else refuse ''invalid_stage_transition''
                ''No higher stage available in promotion order.'' kind))"

subsection \<open>Ranks\<close>

lemma index_of_SomeD: "index_of x ys = Some i \<Longrightarrow> i < length ys \<and> ys ! i = x"
  by (induction ys arbitrary: i) (auto split: if_splits)

lemma index_of_None_iff: "index_of x ys = None \<longleftrightarrow> x \<notin> set ys"
  by (induction ys) auto

lemma index_of_inj: "index_of x ys = Some i \<Longrightarrow> index_of y ys = Some i \<Longrightarrow> x = y"
  by (metis index_of_SomeD)

lemma normalize_stage_fixed:
  "normalize_stage s = Some t \<Longrightarrow> normalize_stage (Some t) = Some t"
  by (auto simp: normalize_stage_def Let_def strip_lower split: if_splits)

lemma normalize_stage_idem [simp]: "normalize_stage (normalize_stage s) = normalize_stage s"
proof (cases "normalize_stage s")
  case None
  then show ?thesis by (simp add: normalize_stage_def)
next
  case (Some t)
  then show ?thesis by (simp add: normalize_stage_fixed)
qed

lemma stage_rank_normalize [simp]:
  "stage_rank P (normalize_stage s) order = stage_rank P s order"
  by (simp add: stage_rank_def)

lemma target_of_idem [simp]: "target_of (target_of t) = target_of t"
proof -
  have "target_of ''production'' = ''production''" by code_simp
  then show ?thesis by (simp add: target_of_def Let_def strip_lower)
qed

lemma target_of_Nil [simp]: "target_of [] = ''production''"
  by (simp add: target_of_def)

lemma normalize_stage_target:
  "normalize_stage (Some (target_of t)) =
     (if target_of t = ''archived'' then None else Some (target_of t))"
proof -
  have "lower (strip (target_of t)) = target_of t"
  proof (cases "lower (strip t) = []")
    case True
    then have "target_of t = ''production''" by (simp add: target_of_def)
    then show ?thesis by simp code_simp
  next
    case False
    then show ?thesis by (simp add: target_of_def Let_def strip_lower)
  qed
  moreover have "target_of t \<noteq> []" by (simp add: target_of_def Let_def)
  ultimately show ?thesis by (simp add: normalize_stage_def Let_def)
qed

subsection \<open>The decision on the ranks\<close>

text \<open>What a move means, given the rank of the current stage and of the target.\<close>

definition move_allowed :: "promo \<Rightarrow> nat option \<Rightarrow> nat option \<Rightarrow> bool" where
  "move_allowed P cr tr = (case tr of None \<Rightarrow> False
     | Some t \<Rightarrow> (case cr of None \<Rightarrow> t = 0 \<or> allow_skip P
         | Some c \<Rightarrow> (t < c \<and> rollback_on P) \<or> t = c + 1 \<or> (t > c \<and> allow_skip P)))"

lemma same_rank_same_stage:
  assumes "stage_rank P cur order = Some r" and "stage_rank P (Some (target_of t)) order = Some r"
  shows "normalize_stage cur = Some (target_of t)"
proof -
  from assms(1) obtain s where s: "normalize_stage cur = Some s"
    and i: "index_of s (if order = [] then stage_order P else order) = Some r"
    by (auto simp: stage_rank_def Let_def split: option.splits)
  from assms(2) have "index_of (target_of t) (if order = [] then stage_order P else order) = Some r"
    by (auto simp: stage_rank_def Let_def normalize_stage_target split: option.splits if_splits)
  with i s show ?thesis using index_of_inj by metis
qed

lemma noop_same_rank:
  "normalize_stage cur = Some (target_of t) \<Longrightarrow>
   stage_rank P (Some (target_of t)) order = stage_rank P cur order"
  by (simp add: stage_rank_def normalize_stage_fixed)

lemma kind_cases:
  "transition_kind P cur t =
     (let cr = stage_rank P cur (stage_order P);
          tr = stage_rank P (Some (target_of t)) (stage_order P)
      in if normalize_stage cur = Some (target_of t) then Noop
         else case tr of None \<Rightarrow> UnknownKind
         | Some u \<Rightarrow> (case cr of None \<Rightarrow> Forward
             | Some c \<Rightarrow> if u > c then Forward else if u < c then Rollback else UnknownKind))"
  by (simp add: transition_kind_def Let_def)

lemma target_nonempty: "target_of (if t = [] then ''production'' else t) = target_of t"
proof (cases t)
  case Nil
  then show ?thesis using target_of_idem [of "[]"] by simp
qed simp

lemmas verdict_unfold = evaluate_stage_transition_def kind_cases target_nonempty Let_def
  permit_def refuse_def

text \<open>
  The decision of \<open>evaluate_stage_transition\<close> depends on the two ranks alone: a version of
  rank \<open>c\<close> may go to rank \<open>c + 1\<close>, to a lower rank when rollback is on, to any higher one when
  stages may be skipped, and an unlisted version only to the first stage (or anywhere, with
  skipping); nothing else is allowed, whatever the casing and white space of the names.
\<close>

theorem evaluate_allowed_iff:
  "allowed (evaluate_stage_transition P cur t) =
     move_allowed P (stage_rank P cur (stage_order P))
       (stage_rank P (Some (target_of t)) (stage_order P))"
proof (cases "normalize_stage cur = Some (target_of t)")
  case True
  then show ?thesis
    by (auto simp: verdict_unfold noop_same_rank move_allowed_def split: option.splits)
next
  case False
  show ?thesis
    using same_rank_same_stage [of P cur "stage_order P" _ t] False
    by (auto simp: verdict_unfold move_allowed_def split: option.splits)
qed

text \<open>
  Two refusals of the code are never produced: the rollback branch never finds a target that
  is not lower, and the forward branch never finds one that is not higher, because the kind was
  computed from the same ranks. A request for a lower stage is a rollback, never this error.
\<close>

theorem refusals_unreachable:
  "error_code (evaluate_stage_transition P cur t) \<noteq> Some ''invalid_rollback'' \<and>
   vmessage (evaluate_stage_transition P cur t)
     \<noteq> Some ''Use Rollback to move to a lower stage, not Promote.''"
  by (auto simp: verdict_unfold split: option.splits)

text \<open>The kind the decision carries is the one \<open>transition_kind\<close> computes.\<close>

lemma evaluate_kind: "vkind (evaluate_stage_transition P cur t) = transition_kind P cur t"
  by (auto simp: verdict_unfold split: option.splits)

text \<open>A permitted verdict has no error, a refused one has a code and a message.\<close>

lemma verdict_wf:
  "allowed (evaluate_stage_transition P cur t) =
     (error_code (evaluate_stage_transition P cur t) = None)"
  "(error_code (evaluate_stage_transition P cur t) = None) =
     (vmessage (evaluate_stage_transition P cur t) = None)"
  by (auto simp: verdict_unfold split: option.splits)

end
