(* ===== verification/Json.thy ===== *)
theory Json
  imports PyValue
begin

text \<open>
  What the code uses of Python's \<^verbatim>\<open>json\<close> and \<^verbatim>\<open>base64\<close>: the compact text of a value, the parser,
  the URL-safe alphabet and the decoder, which skips what is not in the alphabet as
  \<^verbatim>\<open>binascii.a2b_base64\<close> does. A character is a code point below 256; an escape beyond that is refused,
  and a parsed float keeps its token as its text.
\<close>

subsection \<open>The text of a value\<close>

definition json_escape :: "char \<Rightarrow> string" where
  "json_escape c = (let n = of_char c :: nat in
     if c = quote2 then [backslash, quote2]
     else if c = backslash then [backslash, backslash]
     else if n = 8 then [backslash, CHR ''b'']
     else if n = 9 then [backslash, CHR ''t'']
     else if n = 10 then [backslash, CHR ''n'']
     else if n = 12 then [backslash, CHR ''f'']
     else if n = 13 then [backslash, CHR ''r'']
     else if n < 32 \<or> 126 < n
     then [backslash, CHR ''u'', CHR ''0'', CHR ''0'', hex_digit (n div 16), hex_digit (n mod 16)]
     else [c])"

definition json_string :: "string \<Rightarrow> string" where
  "json_string s = quote2 # concat (map json_escape s) @ [quote2]"

definition json_float :: "pyfloat \<Rightarrow> string \<Rightarrow> string" where
  "json_float f r = (case f of Fin q \<Rightarrow> r | PosInf \<Rightarrow> ''Infinity'' | NegInf \<Rightarrow> ''-Infinity''
     | NaN \<Rightarrow> ''NaN'')"

fun json_text :: "pyval \<Rightarrow> string" where
  "json_text VNone = ''null''"
| "json_text (VBool b) = (if b then ''true'' else ''false'')"
| "json_text (VInt i) = int_str i"
| "json_text (VFloat f r) = json_float f r"
| "json_text (VStr s) = json_string s"
| "json_text (VList xs) = ''['' @ join '','' (map json_text xs) @ '']''"
| "json_text (VDict d) =
     ''{'' @ join '','' (map (\<lambda>(k, v). json_string k @ '':'' @ json_text v) d) @ ''}''"

text \<open>\<open>sort_keys=True\<close>\<close>

fun sort_keys :: "pyval \<Rightarrow> pyval" where
  "sort_keys (VList xs) = VList (map sort_keys xs)"
| "sort_keys (VDict d) = VDict (sort_key fst (map (\<lambda>(k, v). (k, sort_keys v)) d))"
| "sort_keys v = v"

subsection \<open>The parser\<close>

definition json_ws :: "char \<Rightarrow> bool" where
  "json_ws c = ((of_char c :: nat) \<in> {9, 10, 13, 32})"

abbreviation skip :: "string \<Rightarrow> string" where "skip \<equiv> dropWhile json_ws"

definition hex_val :: "char \<Rightarrow> nat option" where
  "hex_val c = (let n = of_char c :: nat in
     if 48 \<le> n \<and> n \<le> 57 then Some (n - 48)
     else if 97 \<le> n \<and> n \<le> 102 then Some (n - 87)
     else if 65 \<le> n \<and> n \<le> 70 then Some (n - 55) else None)"

definition hex4 :: "char \<Rightarrow> char \<Rightarrow> char \<Rightarrow> char \<Rightarrow> char option" where
  "hex4 a b c d = (case (hex_val a, hex_val b, hex_val c, hex_val d) of
     (Some w, Some x, Some y, Some z) \<Rightarrow>
        if w = 0 \<and> x = 0 then Some (char_of (16 * y + z)) else None
   | _ \<Rightarrow> None)"

definition simple_escape :: "char \<Rightarrow> char option" where
  "simple_escape e =
     (if e = quote2 \<or> e = backslash \<or> e = CHR ''/'' then Some e
      else if e = CHR ''b'' then Some (char_of (8 :: nat))
      else if e = CHR ''f'' then Some (char_of (12 :: nat))
      else if e = CHR ''n'' then Some (char_of (10 :: nat))
      else if e = CHR ''r'' then Some (char_of (13 :: nat))
      else if e = CHR ''t'' then Some (char_of (9 :: nat)) else None)"

text \<open>The characters up to the closing quote, and what follows it.\<close>

fun scan_string :: "string \<Rightarrow> (string \<times> string) option" where
  "scan_string [] = None"
| "scan_string (c # s) =
     (if c = quote2 then Some ([], s)
      else if c = backslash then
        (case s of
           [] \<Rightarrow> None
         | e # t \<Rightarrow>
             if e = CHR ''u'' then
               (case t of
                  h1 # h2 # h3 # h4 # u \<Rightarrow>
                    (case hex4 h1 h2 h3 h4 of None \<Rightarrow> None
                     | Some x \<Rightarrow> map_option (apfst ((#) x)) (scan_string u))
                | _ \<Rightarrow> None)
             else (case simple_escape e of None \<Rightarrow> None
                   | Some x \<Rightarrow> map_option (apfst ((#) x)) (scan_string t)))
      else if (of_char c :: nat) < 32 then None
      else map_option (apfst ((#) c)) (scan_string s))"

definition digits_val :: "string \<Rightarrow> int" where
  "digits_val s = foldl (\<lambda>n c. 10 * n + digit_val c) 0 s"

definition scan_fraction :: "string \<Rightarrow> string" where
  "scan_fraction s = (case s of
     c # d # u \<Rightarrow> if c = CHR ''.'' \<and> is_digit d then c # takeWhile is_digit (d # u) else []
   | _ \<Rightarrow> [])"

definition scan_exponent :: "string \<Rightarrow> string" where
  "scan_exponent s = (case s of [] \<Rightarrow> []
     | c # u \<Rightarrow>
        if c \<in> {CHR ''e'', CHR ''E''} then
          (let sgn = takeWhile (\<lambda>d. d \<in> {CHR ''+'', CHR ''-''}) (take 1 u);
               ds = takeWhile is_digit (drop (length sgn) u)
           in if ds = [] then [] else c # sgn @ ds)
        else [])"

definition scan_unsigned :: "bool \<Rightarrow> string \<Rightarrow> (pyval \<times> string) option" where
  "scan_unsigned neg s =
     (let ip = (if take 1 s = ''0'' then ''0'' else takeWhile is_digit s);
          r1 = drop (length ip) s;
          fp = scan_fraction r1;
          r2 = drop (length fp) r1;
          ep = scan_exponent r2;
          r3 = drop (length ep) r2;
          tok = (if neg then ''-'' else []) @ ip @ fp @ ep
      in if ip = [] then None
         else if fp = [] \<and> ep = []
         then Some (VInt (if neg then - digits_val ip else digits_val ip), r3)
         else (case parse_float tok of None \<Rightarrow> None | Some f \<Rightarrow> Some (VFloat f tok, r3)))"

definition scan_number :: "string \<Rightarrow> (pyval \<times> string) option" where
  "scan_number s = (if take 1 s = ''-'' then scan_unsigned True (drop 1 s) else scan_unsigned False s)"

text \<open>The first argument bounds the depth of calls; \<open>json_loads\<close> gives enough of it.\<close>

fun json_value :: "nat \<Rightarrow> string \<Rightarrow> (pyval \<times> string) option"
  and json_elems :: "nat \<Rightarrow> pyval list \<Rightarrow> string \<Rightarrow> (pyval \<times> string) option"
  and json_members :: "nat \<Rightarrow> pydict \<Rightarrow> string \<Rightarrow> (pyval \<times> string) option" where
  "json_value 0 s = None"
| "json_value (Suc n) s =
     (case s of [] \<Rightarrow> None
      | c # t \<Rightarrow>
         if c = quote2 then map_option (apfst VStr) (scan_string t)
         else if c = CHR ''{'' then
           (if take 1 (skip t) = ''}'' then Some (VDict [], drop 1 (skip t))
            else json_members n [] (skip t))
         else if c = CHR ''['' then
           (if take 1 (skip t) = '']'' then Some (VList [], drop 1 (skip t))
            else json_elems n [] (skip t))
         else if startswith s ''null'' then Some (VNone, drop 4 s)
         else if startswith s ''true'' then Some (VBool True, drop 4 s)
         else if startswith s ''false'' then Some (VBool False, drop 5 s)
         else if startswith s ''NaN'' then Some (VFloat NaN ''nan'', drop 3 s)
         else if startswith s ''Infinity'' then Some (VFloat PosInf ''inf'', drop 8 s)
         else if startswith s ''-Infinity'' then Some (VFloat NegInf ''-inf'', drop 9 s)
         else scan_number s)"
| "json_elems 0 acc s = None"
| "json_elems (Suc n) acc s =
     (case json_value n s of None \<Rightarrow> None
      | Some (v, r) \<Rightarrow>
         (case skip r of [] \<Rightarrow> None
          | c # u \<Rightarrow> if c = CHR '','' then json_elems n (acc @ [v]) (skip u)
                    else if c = CHR '']'' then Some (VList (acc @ [v]), u) else None))"
| "json_members 0 acc s = None"
| "json_members (Suc n) acc s =
     (if take 1 s \<noteq> [quote2] then None
      else (case scan_string (drop 1 s) of None \<Rightarrow> None
        | Some (k, r) \<Rightarrow>
            if take 1 (skip r) \<noteq> '':'' then None
            else (case json_value n (skip (drop 1 (skip r))) of None \<Rightarrow> None
              | Some (v, r2) \<Rightarrow>
                  (case skip r2 of [] \<Rightarrow> None
                   | c # u \<Rightarrow> if c = CHR '','' then json_members n (dset k v acc) (skip u)
                             else if c = CHR ''}'' then Some (VDict (dset k v acc), u) else None))))"

definition json_loads :: "string \<Rightarrow> pyval option" where
  "json_loads s = (case json_value (Suc (2 * length s)) (skip s) of None \<Rightarrow> None
     | Some (v, r) \<Rightarrow> if skip r = [] then Some v else None)"

subsection \<open>Base64\<close>

definition b64_char :: "nat \<Rightarrow> char" where
  "b64_char n = (if n < 26 then char_of (65 + n) else if n < 52 then char_of (71 + n)
     else if n < 62 then char_of (n - 4) else if n = 62 then CHR ''-'' else CHR ''_'')"

definition b64_val :: "char \<Rightarrow> nat option" where
  "b64_val c = (let n = of_char c :: nat in
     if 65 \<le> n \<and> n \<le> 90 then Some (n - 65)
     else if 97 \<le> n \<and> n \<le> 122 then Some (n - 71)
     else if 48 \<le> n \<and> n \<le> 57 then Some (n + 4)
     else if c = CHR ''-'' \<or> c = CHR ''+'' then Some 62
     else if c = CHR ''_'' \<or> c = CHR ''/'' then Some 63 else None)"

text \<open>Without the padding, which the code strips.\<close>

fun b64_encode :: "string \<Rightarrow> string" where
  "b64_encode [] = []"
| "b64_encode [a] = (let x = of_char a :: nat in [b64_char (x div 4), b64_char (x mod 4 * 16)])"
| "b64_encode [a, b] = (let x = of_char a :: nat; y = of_char b :: nat in
     [b64_char (x div 4), b64_char (x mod 4 * 16 + y div 16), b64_char (y mod 16 * 4)])"
| "b64_encode (a # b # c # s) =
     (let x = of_char a :: nat; y = of_char b :: nat; z = of_char c :: nat in
      [b64_char (x div 4), b64_char (x mod 4 * 16 + y div 16), b64_char (y mod 16 * 4 + z div 64),
       b64_char (z mod 64)] @ b64_encode s)"

text \<open>\<open>quad_pos\<close>, the bits left over, the padding seen, and the characters to come.\<close>

fun b64_loop :: "nat \<Rightarrow> nat \<Rightarrow> nat \<Rightarrow> string \<Rightarrow> string option" where
  "b64_loop q left pads [] = (if q = 0 then Some [] else None)"
| "b64_loop q left pads (c # s) =
     (if c = CHR ''='' then
        (if 2 \<le> q \<and> 4 \<le> q + pads + 1 then Some []
         else b64_loop q left (if 2 \<le> q then pads + 1 else pads) s)
      else (case b64_val c of
          None \<Rightarrow> b64_loop q left pads s
        | Some x \<Rightarrow>
            if q = 0 then b64_loop 1 x 0 s
            else if q = 1
            then map_option ((#) (char_of (left * 4 + x div 16))) (b64_loop 2 (x mod 16) 0 s)
            else if q = 2
            then map_option ((#) (char_of (left * 16 + x div 4))) (b64_loop 3 (x mod 4) 0 s)
            else map_option ((#) (char_of (left * 64 + x))) (b64_loop 0 0 0 s)))"

definition is_ascii :: "char \<Rightarrow> bool" where "is_ascii c = ((of_char c :: nat) < 128)"

definition urlsafe_b64decode :: "string \<Rightarrow> string option" where
  "urlsafe_b64decode s = (if list_all is_ascii s then b64_loop 0 0 0 s else None)"

text \<open>Decoding UTF-8, as far as the code point stays below 256.\<close>

fun utf8_decode :: "string \<Rightarrow> string option" where
  "utf8_decode [] = Some []"
| "utf8_decode (c # s) =
     (if is_ascii c then map_option ((#) c) (utf8_decode s)
      else (case s of [] \<Rightarrow> None
        | d # t \<Rightarrow> (let n = of_char c :: nat; m = of_char d :: nat in
            if n \<in> {194, 195} \<and> 128 \<le> m \<and> m < 192
            then map_option ((#) (char_of ((n - 192) * 64 + (m - 128)))) (utf8_decode t)
            else None)))"

end
