(* ===== verification/JsonRoundTrip.thy ===== *)
theory JsonRoundTrip
  imports Json
begin

text \<open>
  What is printed is read back: \<open>json_loads\<close> after \<open>json_text\<close>, the Base64 decoder after the encoder,
  UTF-8 on ASCII. The fuel of the parser, twice the length of the text, is enough for every text
  that the printer makes.
\<close>

subsection \<open>JSON\<close>

lemma hex_val_digit [simp]: "d < 16 \<Longrightarrow> hex_val (hex_digit d) = Some d"
  by (auto simp: hex_val_def hex_digit_def Let_def)

lemma of_char_less_256 [simp]: "(of_char c :: nat) < 256"
  by (metis nat_of_char_less_256)

lemma scan_escape:
  "scan_string (json_escape c @ t) = map_option (apfst ((#) c)) (scan_string t)"
proof -
  let ?n = "of_char c :: nat"
  have hex: "hex4 (CHR ''0'') (CHR ''0'') (hex_digit (?n div 16)) (hex_digit (?n mod 16)) = Some c"
  proof -
    have "hex_val (CHR ''0'') = Some 0" by code_simp
    moreover have "?n div 16 < 16" by (rule less_mult_imp_div_less) simp
    moreover have "char_of (16 * (?n div 16) + ?n mod 16) = c" by simp
    ultimately show ?thesis by (simp add: hex4_def)
  qed
  have simple: "simple_escape quote2 = Some quote2" "simple_escape backslash = Some backslash"
    "simple_escape (CHR ''b'') = Some (char_of (8::nat))" "simple_escape (CHR ''t'') = Some (char_of (9::nat))"
    "simple_escape (CHR ''n'') = Some (char_of (10::nat))" "simple_escape (CHR ''f'') = Some (char_of (12::nat))"
    "simple_escape (CHR ''r'') = Some (char_of (13::nat))"
    by code_simp+
  have ne: "quote2 \<noteq> CHR ''u''" "backslash \<noteq> CHR ''u''" "backslash \<noteq> quote2" by code_simp+
  have c: "c = char_of ?n" by simp
  consider "c = quote2" | "c = backslash" | "?n = 8" | "?n = 9" | "?n = 10" | "?n = 12" | "?n = 13"
    | "?n \<notin> {8, 9, 10, 12, 13}" "c \<noteq> quote2" "c \<noteq> backslash"
    by blast
  then show ?thesis
  proof cases
    case 1 then show ?thesis using ne by (simp add: json_escape_def simple)
  next
    case 2 then show ?thesis using ne by (simp add: json_escape_def simple)
  next
    case 3 then have "c = char_of (8::nat)" using c by simp
    moreover have "json_escape (char_of (8::nat)) = [backslash, CHR ''b'']" by code_simp
    ultimately show ?thesis using ne by (simp add: simple)
  next
    case 4 then have "c = char_of (9::nat)" using c by simp
    moreover have "json_escape (char_of (9::nat)) = [backslash, CHR ''t'']" by code_simp
    ultimately show ?thesis using ne by (simp add: simple)
  next
    case 5 then have "c = char_of (10::nat)" using c by simp
    moreover have "json_escape (char_of (10::nat)) = [backslash, CHR ''n'']" by code_simp
    ultimately show ?thesis using ne by (simp add: simple)
  next
    case 6 then have "c = char_of (12::nat)" using c by simp
    moreover have "json_escape (char_of (12::nat)) = [backslash, CHR ''f'']" by code_simp
    ultimately show ?thesis using ne by (simp add: simple)
  next
    case 7 then have "c = char_of (13::nat)" using c by simp
    moreover have "json_escape (char_of (13::nat)) = [backslash, CHR ''r'']" by code_simp
    ultimately show ?thesis using ne by (simp add: simple)
  next
    case 8
    then show ?thesis using ne hex by (auto simp: json_escape_def Let_def)
  qed
qed

lemma scan_json_string:
  "scan_string (concat (map json_escape s) @ quote2 # rest) = Some (s, rest)"
  by (induction s) (simp_all add: scan_escape)

lemma nat_str_digits: "list_all is_digit (nat_str n)"
proof (induction n rule: nat_str.induct)
  case (1 n)
  have "is_digit (digit d)" if "d < 10" for d
    using that by (simp add: is_digit_def digit_def)
  then show ?case using 1 by (subst nat_str.simps) auto
qed

lemma nat_str_val: "digits_val (nat_str n) = int n"
proof (induction n rule: nat_str.induct)
  case (1 n)
  have d: "digit_val (digit d) = int d" if "d < 10" for d
    using that by (simp add: digit_val_def digit_def)
  show ?case
  proof (cases "n < 10")
    case True
    then show ?thesis by (subst nat_str.simps) (simp add: digits_val_def d)
  next
    case False
    then have "digits_val (nat_str n) = 10 * digits_val (nat_str (n div 10)) + int (n mod 10)"
      by (subst nat_str.simps) (simp add: digits_val_def d)
    also have "\<dots> = 10 * int (n div 10) + int (n mod 10)" using 1 False by simp
    also have "\<dots> = int (10 * (n div 10) + n mod 10)" by (simp only: of_nat_add of_nat_mult of_nat_numeral)
    also have "\<dots> = int n" by simp
    finally show ?thesis .
  qed
qed

lemma nat_str_head: "nat_str n \<noteq> [] \<and> (0 < n \<longrightarrow> hd (nat_str n) \<noteq> CHR ''0'')"
proof (induction n rule: nat_str.induct)
  case (1 n)
  have "digit n \<noteq> CHR ''0''" if "0 < n" "n < 10"
  proof
    assume "digit n = CHR ''0''"
    then have "(of_char (digit n) :: nat) = of_char (CHR ''0'')" by simp
    then show False using that by (simp add: digit_def)
  qed
  then show ?case using 1 by (subst (1 2) nat_str.simps) (auto simp: hd_append)
qed

lemma nat_str_zero: "nat_str 0 = ''0''"
  by code_simp

definition stops :: "string \<Rightarrow> bool" where
  "stops rest = (case rest of [] \<Rightarrow> True | c # u \<Rightarrow> c \<in> {CHR '','', CHR '']'', CHR ''}''})"

lemma stops_scan: "stops rest \<Longrightarrow> takeWhile is_digit rest = [] \<and> scan_fraction rest = [] \<and> scan_exponent rest = []"
  by (auto simp: stops_def scan_fraction_def scan_exponent_def is_digit_def split: list.splits)

lemma takeWhile_digits: "list_all is_digit s \<Longrightarrow> stops rest \<Longrightarrow> takeWhile is_digit (s @ rest) = s"
  using stops_scan [of rest] by (simp add: list_all_iff takeWhile_append2)

lemma scan_unsigned_nat:
  assumes "stops rest"
  shows "scan_unsigned neg (nat_str n @ rest) = Some (VInt (if neg then - int n else int n), rest)"
proof -
  have d: "list_all is_digit (nat_str n)" "nat_str n \<noteq> []" using nat_str_digits nat_str_head by auto
  have ip: "(if take 1 (nat_str n @ rest) = ''0'' then ''0''
      else takeWhile is_digit (nat_str n @ rest)) = nat_str n"
  proof (cases "n = 0")
    case True
    then show ?thesis by (simp add: nat_str_zero)
  next
    case False
    then have "take 1 (nat_str n @ rest) \<noteq> ''0''"
      using nat_str_head [of n] by (cases "nat_str n") auto
    then show ?thesis using takeWhile_digits [OF d(1) assms] by simp
  qed
  show ?thesis
    unfolding scan_unsigned_def Let_def ip
    using d(2) stops_scan [OF assms] by (simp add: nat_str_val)
qed

lemma scan_int:
  assumes "stops rest"
  shows "scan_number (int_str i @ rest) = Some (VInt i, rest)"
proof (cases "i < 0")
  case True
  then show ?thesis
    using scan_unsigned_nat [OF assms, of True] by (simp add: scan_number_def int_str_def)
next
  case False
  obtain c s where cs: "nat_str (nat i) = c # s" "is_digit c"
    using nat_str_digits [of "nat i"] nat_str_head [of "nat i"] by (cases "nat_str (nat i)") auto
  have "take 1 (nat_str (nat i) @ rest) \<noteq> ''-''" using cs by (auto simp: is_digit_def)
  then show ?thesis
    using scan_unsigned_nat [OF assms, of False "nat i"] False
    by (simp add: scan_number_def int_str_def)
qed


lemma quote2_char: "quote2 = CHR 0x22" "backslash = CHR 0x5C"
  by code_simp+

text \<open>Values without floats, whose dicts have distinct keys.\<close>

fun json_ok :: "pyval \<Rightarrow> bool" where
  "json_ok (VFloat f r) = False"
| "json_ok (VList xs) = list_all json_ok xs"
| "json_ok (VDict d) = (distinct (map fst d) \<and> list_all (\<lambda>(k, v). json_ok v) d)"
| "json_ok v = True"

lemma join_Cons2: "join sep (x # y # ys) = x @ sep @ join sep (y # ys)"
  by simp

lemma int_str_head: "\<exists>c s. int_str i = c # s \<and> (is_digit c \<or> c = CHR ''-'' \<and> s \<noteq> [] \<and> is_digit (hd s))"
proof -
  have d: "\<exists>c s. nat_str n = c # s \<and> is_digit c" for n
    using nat_str_digits [of n] nat_str_head [of n] by (cases "nat_str n") auto
  show ?thesis using d [of "nat i"] d [of "nat (- i)"] by (auto simp: int_str_def)
qed

lemma json_value_int:
  assumes "stops rest"
  shows "json_value (Suc n) (int_str i @ rest) = Some (VInt i, rest)"
proof -
  obtain c s where cs: "int_str i = c # s" "is_digit c \<or> c = CHR ''-'' \<and> s \<noteq> [] \<and> is_digit (hd s)"
    using int_str_head by blast
  have c: "c \<noteq> quote2" "c \<noteq> CHR ''{''" "c \<noteq> CHR ''[''" "c \<notin> set ''ntfNI''"
    using cs(2) by (auto simp: is_digit_def quote2_char)
  have "\<not> startswith (c # s @ rest) ''-Infinity''"
    using cs(2) by (cases s) (auto simp: startswith_def is_digit_def)
  then show ?thesis
    using scan_int [OF assms, of i] c by (simp add: cs startswith_def)
qed

lemma json_text_head: "json_ok v \<Longrightarrow> \<exists>c s. json_text v = c # s \<and> \<not> json_ws c \<and> c \<noteq> CHR '']''"
proof (cases v)
  case (VInt i)
  then show ?thesis using int_str_head [of i] by (auto simp: json_ws_def is_digit_def)
qed (auto simp: json_ws_def json_string_def quote2_char)

lemma skip_json_text [simp]: "json_ok v \<Longrightarrow> skip (json_text v @ rest) = json_text v @ rest"
  using json_text_head [of v] by auto

lemma dset_new: "k \<notin> fst ` set d \<Longrightarrow> dset k v d = d @ [(k, v)]"
  by (induction d) auto

lemma json_value_text:
  "json_ok v \<Longrightarrow> stops rest \<Longrightarrow> 2 * length (json_text v) \<le> n \<Longrightarrow>
     json_value n (json_text v @ rest) = Some (v, rest)"
proof (induction v arbitrary: n rest)
  case (VList xs)
  then obtain m where n: "n = Suc m" by (cases n) auto
  have elems: "json_elems k acc (join '','' (map json_text (y # ys)) @ '']'' @ rest) =
      Some (VList (acc @ y # ys), rest)"
    if "set (y # ys) \<subseteq> set xs" "2 * length (join '','' (map json_text (y # ys))) + 2 \<le> k" for y ys acc k
    using that
  proof (induction ys arbitrary: y acc k)
    case Nil
    then obtain j where j: "k = Suc j" by (cases k) auto
    have "json_value j (json_text y @ '']'' @ rest) = Some (y, '']'' @ rest)"
      using Nil VList by (auto simp: j list_all_iff stops_def)
    then show ?case by (simp add: j json_ws_def)
  next
    case (Cons z zs)
    then obtain j where j: "k = Suc j" by (cases k) auto
    let ?rest = "'','' @ join '','' (map json_text (z # zs)) @ '']'' @ rest"
    have z: "json_ok z" using Cons.prems VList.prems by (auto simp: list_all_iff)
    have "json_value j (json_text y @ ?rest) = Some (y, ?rest)"
      using Cons.prems VList by (auto simp: j list_all_iff stops_def)
    moreover have "skip (join '','' (map json_text (z # zs)) @ '']'' @ rest) =
        join '','' (map json_text (z # zs)) @ '']'' @ rest"
      using z by (cases zs) simp_all
    moreover have "json_elems j (acc @ [y]) (join '','' (map json_text (z # zs)) @ '']'' @ rest) =
        Some (VList ((acc @ [y]) @ z # zs), rest)"
      using Cons.prems by (intro Cons.IH) (auto simp: j)
    ultimately show ?case by (simp add: j json_ws_def)
  qed
  show ?case
  proof (cases xs)
    case Nil
    then show ?thesis by (simp add: n json_ws_def quote2_char)
  next
    case (Cons y ys)
    have y: "json_ok y" using VList.prems Cons by simp
    obtain c s where cs: "json_text y = c # s" and c: "c \<noteq> CHR '']''"
      using json_text_head [OF y] by blast
    have "skip (join '','' (map json_text (y # ys)) @ '']'' @ rest) =
        join '','' (map json_text (y # ys)) @ '']'' @ rest"
      using y by (cases ys) simp_all
    moreover have "take 1 (join '','' (map json_text (y # ys)) @ '']'' @ rest) \<noteq> '']''"
      using cs c by (cases ys) simp_all
    moreover have "json_elems m [] (join '','' (map json_text (y # ys)) @ '']'' @ rest) =
        Some (VList ([] @ y # ys), rest)"
      using VList.prems by (intro elems) (auto simp: Cons n)
    ultimately show ?thesis by (simp add: n Cons quote2_char del: join.simps)
  qed
next
  case (VDict d)
  then obtain m where n: "n = Suc m" by (cases n) auto
  let ?item = "\<lambda>(k, v). json_string k @ '':'' @ json_text v"
  have item: "json_members (Suc j) acc (?item (k, v) @ r) =
      (case skip r of [] \<Rightarrow> None
       | c # u \<Rightarrow> if c = CHR '','' then json_members j (dset k v acc) (skip u)
                 else if c = CHR ''}'' then Some (VDict (dset k v acc), u) else None)"
    if "(k, v) \<in> set d" "stops r" "2 * length (json_text v) \<le> j" for k v r j acc
  proof -
    have v: "json_ok v" using that(1) VDict.prems(1) by (auto simp: list_all_iff)
    have "json_value j (json_text v @ r) = Some (v, r)"
      using that VDict.IH [of "(k, v)" v r j] v by (simp add: snds.intros)
    moreover have "scan_string (concat (map json_escape k) @ quote2 # '':'' @ json_text v @ r) =
        Some (k, '':'' @ json_text v @ r)"
      by (rule scan_json_string)
    ultimately show ?thesis
      using v by (simp add: json_string_def json_ws_def)
  qed
  have members: "json_members k acc (join '','' (map ?item (y # ys)) @ ''}'' @ rest) =
      Some (VDict (acc @ y # ys), rest)"
    if "set (y # ys) \<subseteq> set d" "distinct (map fst (acc @ y # ys))"
      "2 * length (join '','' (map ?item (y # ys))) + 2 \<le> k" for y ys acc k
    using that
  proof (induction ys arbitrary: y acc k)
    case Nil
    then obtain j where j: "k = Suc j" by (cases k) auto
    obtain a b where y: "y = (a, b)" by (cases y)
    have "dset a b acc = acc @ [(a, b)]" using Nil.prems(2) by (intro dset_new) (simp add: y)
    then show ?case using Nil.prems item [of a b "''}'' @ rest" j acc]
      by (simp add: j y json_ws_def stops_def json_string_def)
  next
    case (Cons z zs)
    then obtain j where j: "k = Suc j" by (cases k) auto
    obtain a b where y: "y = (a, b)" by (cases y)
    let ?rest = "'','' @ join '','' (map ?item (z # zs)) @ ''}'' @ rest"
    have "dset a b acc = acc @ [(a, b)]" using Cons.prems(2) by (intro dset_new) (simp add: y)
    moreover have "skip (join '','' (map ?item (z # zs)) @ ''}'' @ rest) =
        join '','' (map ?item (z # zs)) @ ''}'' @ rest"
      by (cases zs) (auto simp: json_string_def json_ws_def quote2_char split: prod.split)
    moreover have "json_members j (acc @ [(a, b)]) (join '','' (map ?item (z # zs)) @ ''}'' @ rest) =
        Some (VDict ((acc @ [(a, b)]) @ z # zs), rest)"
      using Cons.prems by (intro Cons.IH) (auto simp: j y)
    moreover have "json_members (Suc j) acc (?item (a, b) @ ?rest) =
      (case skip ?rest of [] \<Rightarrow> None
       | c # u \<Rightarrow> if c = CHR '','' then json_members j (dset a b acc) (skip u)
                 else if c = CHR ''}'' then Some (VDict (dset a b acc), u) else None)"
      using Cons.prems by (intro item) (auto simp: j y stops_def)
    ultimately show ?case by (simp add: j y json_ws_def)
  qed
  show ?case
  proof (cases d)
    case Nil
    then show ?thesis by (simp add: n json_ws_def quote2_char)
  next
    case (Cons y ys)
    have q: "\<exists>s. join '','' (map ?item (y # ys)) = quote2 # s"
      by (cases ys) (auto simp: json_string_def split: prod.split)
    then have "skip (join '','' (map ?item (y # ys)) @ ''}'' @ rest) =
        join '','' (map ?item (y # ys)) @ ''}'' @ rest"
      by (auto simp: json_ws_def quote2_char)
    moreover have "take 1 (join '','' (map ?item (y # ys)) @ ''}'' @ rest) \<noteq> ''}''"
      using q by (auto simp: quote2_char)
    moreover have "json_members m [] (join '','' (map ?item (y # ys)) @ ''}'' @ rest) =
        Some (VDict ([] @ y # ys), rest)"
      using VDict.prems by (intro members) (auto simp: Cons n)
    ultimately show ?thesis by (simp add: n Cons quote2_char del: join.simps)
  qed
next
  case VNone
  then obtain m where "n = Suc m" by (cases n) auto
  then show ?case by (simp add: startswith_def quote2_char)
next
  case (VBool b)
  then obtain m where "n = Suc m" by (cases n) (auto split: if_splits)
  then show ?case by (simp add: startswith_def quote2_char)
next
  case (VInt i)
  then obtain m where "n = Suc m" using int_str_head [of i] by (cases n) auto
  then show ?case using VInt by (simp only: json_text.simps json_value_int)
next
  case (VStr s)
  then obtain m where "n = Suc m" by (cases n) (auto simp: json_string_def)
  then show ?case by (simp add: json_string_def scan_json_string)
qed simp

lemma distinct_sort_key: "distinct (map fst (sort_key f xs)) = distinct (map fst xs)"
  by (simp add: distinct_map)

lemma json_ok_sort [simp]: "json_ok v \<Longrightarrow> json_ok (sort_keys v)"
proof (induction v)
  case (VDict d)
  let ?d = "map (\<lambda>(k, v). (k, sort_keys v)) d"
  have m: "map fst ?d = map fst d" by (induction d) auto
  have "distinct (map fst (sort_key fst ?d))"
    unfolding distinct_sort_key m using VDict.prems by simp
  then show ?case using VDict by (fastforce simp: list_all_iff snds.simps)
qed (auto simp: list_all_iff)

lemma json_loads_text: "json_ok v \<Longrightarrow> json_loads (json_text v) = Some v"
  using json_value_text [of v "[]" "Suc (2 * length (json_text v))"] skip_json_text [of v "[]"]
  by (simp add: json_loads_def stops_def)

subsection \<open>ASCII, UTF-8, Base64\<close>

lemma ascii_simps: "is_ascii quote2" "is_ascii backslash" "d < 16 \<Longrightarrow> is_ascii (hex_digit d)"
  "is_digit c \<Longrightarrow> is_ascii c"
  by (simp_all add: is_ascii_def quote2_def backslash_def hex_digit_def is_digit_def Let_def)

lemma ascii_escape: "list_all is_ascii (json_escape c)"
proof -
  have "(of_char c :: nat) div 16 < 16" by (rule less_mult_imp_div_less) simp
  moreover have "list_all is_ascii ''bntfru0''" by code_simp
  ultimately show ?thesis
    by (auto simp: json_escape_def Let_def ascii_simps) (auto simp: is_ascii_def)
qed

lemma ascii_json_string: "list_all is_ascii (json_string s)"
proof -
  have "list_all is_ascii (concat (map json_escape s))" by (induction s) (simp_all add: ascii_escape)
  then show ?thesis by (simp add: json_string_def ascii_simps)
qed

lemma ascii_join: "list_all is_ascii sep \<Longrightarrow> \<forall>x \<in> set xs. list_all is_ascii x \<Longrightarrow>
    list_all is_ascii (join sep xs)"
  by (induction sep xs rule: join.induct) auto

lemma ascii_int: "list_all is_ascii (int_str i)"
proof -
  have "list_all is_ascii (nat_str n)" for n
    using nat_str_digits [of n] by (auto simp: list_all_iff ascii_simps)
  moreover have "is_ascii (CHR ''-'')" by code_simp
  ultimately show ?thesis by (simp add: int_str_def)
qed

lemma ascii_json_text: "json_ok v \<Longrightarrow> list_all is_ascii (json_text v)"
proof (induction v)
  case (VList xs)
  have c: "list_all is_ascii ''[],''" by code_simp
  have "list_all is_ascii (join '','' (map json_text xs))"
    by (rule ascii_join) (use c VList in \<open>auto simp: list_all_iff\<close>)
  then show ?case using c by simp
next
  case (VDict d)
  have c: "list_all is_ascii ''{},:''" by code_simp
  have "list_all is_ascii (json_string k @ '':'' @ json_text v)" if "(k, v) \<in> set d" for k v
    using VDict.IH [OF that, of v] VDict.prems that c ascii_json_string
    by (auto simp: list_all_iff snds.simps)
  then have "list_all is_ascii (join '','' (map (\<lambda>(k, v). json_string k @ '':'' @ json_text v) d))"
    by (intro ascii_join) (use c in auto)
  then show ?case using c by simp
next
  case VNone
  show ?case by code_simp
next
  case (VBool b)
  have "list_all is_ascii ''truefalse''" by code_simp
  then show ?case by simp
qed (simp_all add: ascii_int ascii_json_string)

lemma utf8_ascii: "list_all is_ascii s \<Longrightarrow> utf8_decode s = Some s"
  by (induction s) auto

lemma b64_char_code: "n < 64 \<Longrightarrow> (of_char (b64_char n) :: nat) =
    (if n < 26 then 65 + n else if n < 52 then 71 + n else if n < 62 then n - 4
     else if n = 62 then 45 else 95)"
  by (auto simp: b64_char_def)

lemma b64_char_facts:
  assumes "n < 64"
  shows "b64_val (b64_char n) = Some n" "b64_char n \<noteq> CHR ''=''" "is_ascii (b64_char n)"
    "\<not> is_ws (b64_char n)"
proof -
  have 62: "n \<noteq> 63 \<Longrightarrow> \<not> n < 62 \<Longrightarrow> n = 62" using assms by arith
  show "b64_val (b64_char n) = Some n"
    using assms b64_char_code [OF assms]
    by (auto simp: b64_val_def Let_def split: if_splits) (auto simp: b64_char_def)
  show "b64_char n \<noteq> CHR ''=''"
  proof
    assume "b64_char n = CHR ''=''"
    then have "(of_char (b64_char n) :: nat) = 61" by simp
    then show False using b64_char_code [OF assms] assms by (auto split: if_splits)
  qed
  show "is_ascii (b64_char n)" using b64_char_code [OF assms] assms by (auto simp: is_ascii_def)
  show "\<not> is_ws (b64_char n)" using b64_char_code [OF assms] assms by (auto simp: is_ws_def)
qed


lemma b64_sextets:
  fixes x y z :: nat
  assumes "x < 256" "y < 256" "z < 256"
  shows "x div 4 < 64" "x mod 4 * 16 + y div 16 < 64" "y mod 16 * 4 + z div 64 < 64" "z mod 64 < 64"
    "x mod 4 * 16 < 64" "y mod 16 * 4 < 64"
proof -
  have d: "x div 4 < 64" "y div 16 < 16" "z div 64 < 4"
    using assms by (simp_all add: less_mult_imp_div_less)
  moreover have "x mod 4 < 4" "y mod 16 < 16" "z mod 64 < 64" by simp_all
  ultimately show "x div 4 < 64" "x mod 4 * 16 + y div 16 < 64" "y mod 16 * 4 + z div 64 < 64"
    "z mod 64 < 64" "x mod 4 * 16 < 64" "y mod 16 * 4 < 64"
    by linarith+
qed

lemma split_digits: "d < b \<Longrightarrow> (m * b + d) div b = m \<and> (m * b + d) mod b = d" for m d b :: nat
  by simp

lemma b64_bytes:
  fixes x y z :: nat
  assumes "x < 256" "y < 256" "z < 256"
  shows "x div 4 * 4 + (x mod 4 * 16 + y div 16) div 16 = x"
    "(x mod 4 * 16 + y div 16) mod 16 * 16 + (y mod 16 * 4 + z div 64) div 4 = y"
    "(y mod 16 * 4 + z div 64) mod 4 * 64 + z mod 64 = z"
    "x div 4 * 4 + x mod 4 * 16 div 16 = x"
    "(x mod 4 * 16 + y div 16) mod 16 * 16 + y mod 16 * 4 div 4 = y"
proof -
  have d: "y div 16 < 16" "z div 64 < 4"
    using assms by (simp_all add: less_mult_imp_div_less)
  show "x div 4 * 4 + (x mod 4 * 16 + y div 16) div 16 = x"
    "(x mod 4 * 16 + y div 16) mod 16 * 16 + (y mod 16 * 4 + z div 64) div 4 = y"
    "(y mod 16 * 4 + z div 64) mod 4 * 64 + z mod 64 = z"
    "x div 4 * 4 + x mod 4 * 16 div 16 = x"
    "(x mod 4 * 16 + y div 16) mod 16 * 16 + y mod 16 * 4 div 4 = y"
    by (simp_all only: split_digits [OF d(1)] split_digits [OF d(2)] div_mult_mod_eq
        nonzero_mult_div_cancel_right zero_neq_numeral [symmetric] not_False_eq_True simp_thms)
qed

lemma b64_loop_sextet:
  "n < 64 \<Longrightarrow> b64_loop q left pads (b64_char n # s) =
     (if q = 0 then b64_loop 1 n 0 s
      else if q = 1 then map_option ((#) (char_of (left * 4 + n div 16))) (b64_loop 2 (n mod 16) 0 s)
      else if q = 2 then map_option ((#) (char_of (left * 16 + n div 4))) (b64_loop 3 (n mod 4) 0 s)
      else map_option ((#) (char_of (left * 64 + n))) (b64_loop 0 0 0 s))"
  by (simp add: b64_char_facts)

definition b64_pad :: "string \<Rightarrow> string" where
  "b64_pad s = replicate ((4 - length s mod 4) mod 4) (CHR ''='')"

lemma b64_groups:
  assumes "n1 < 64" "n2 < 64" "n3 < 64" "n4 < 64"
  shows "b64_loop 0 0 p (b64_char n1 # b64_char n2 # b64_char n3 # b64_char n4 # s) =
      map_option (\<lambda>t. char_of (n1 * 4 + n2 div 16) # char_of (n2 mod 16 * 16 + n3 div 4)
        # char_of (n3 mod 4 * 64 + n4) # t) (b64_loop 0 0 0 s)"
    "b64_loop 0 0 p [b64_char n1, b64_char n2, CHR ''='', CHR ''=''] = Some [char_of (n1 * 4 + n2 div 16)]"
    "b64_loop 0 0 p [b64_char n1, b64_char n2, b64_char n3, CHR ''=''] =
      Some [char_of (n1 * 4 + n2 div 16), char_of (n2 mod 16 * 16 + n3 div 4)]"
  using assms
  by (simp_all add: b64_loop_sextet option.map_comp comp_def del: b64_loop.simps(2))
    (simp_all add: numeral_2_eq_2 numeral_3_eq_3)

lemma b64_round: "b64_loop 0 0 0 (b64_encode s @ b64_pad (b64_encode s)) = Some s"
proof (induction s rule: b64_encode.induct)
  case 1
  show ?case by (simp add: b64_pad_def)
next
  case (2 a)
  let ?x = "of_char a :: nat"
  note s = b64_sextets [of ?x 0 0, OF of_char_less_256 zero_less_numeral zero_less_numeral]
  note b = b64_bytes [of ?x 0 0, OF of_char_less_256 zero_less_numeral zero_less_numeral]
  have pad: "b64_pad [u, v] = [CHR ''='', CHR ''='']" for u v
  proof -
    have "(4 - length [u, v] mod 4) mod 4 = Suc (Suc 0)" by simp
    then show ?thesis by (simp only: b64_pad_def replicate.simps)
  qed
  have "b64_loop 0 0 0 [b64_char (?x div 4), b64_char (?x mod 4 * 16), CHR ''='', CHR ''=''] = Some [a]"
    by (simp only: b64_groups(2) [OF s(1,5) s(1) s(1)] b(4) char_of_char)
  then show ?case by (simp only: b64_encode.simps Let_def pad append.simps)
next
  case (3 a b)
  let ?x = "of_char a :: nat" and ?y = "of_char b :: nat"
  note s = b64_sextets [of ?x ?y 0, OF of_char_less_256 of_char_less_256 zero_less_numeral]
  note b = b64_bytes [of ?x ?y 0, OF of_char_less_256 of_char_less_256 zero_less_numeral]
  have pad: "b64_pad [u, v, w] = [CHR ''='']" for u v w
  proof -
    have "(4 - length [u, v, w] mod 4) mod 4 = Suc 0" by simp
    then show ?thesis by (simp only: b64_pad_def replicate.simps)
  qed
  have "b64_loop 0 0 0 [b64_char (?x div 4), b64_char (?x mod 4 * 16 + ?y div 16),
      b64_char (?y mod 16 * 4), CHR ''=''] = Some [a, b]"
    unfolding b64_groups(3) [OF s(1,2,6) s(1)] b(1) b(5) by (simp only: char_of_char)
  then show ?case by (simp only: b64_encode.simps Let_def pad append.simps)
next
  case (4 a b c s)
  let ?x = "of_char a :: nat" and ?y = "of_char b :: nat" and ?z = "of_char c :: nat"
  note s = b64_sextets [of ?x ?y ?z, OF of_char_less_256 of_char_less_256 of_char_less_256]
  note b = b64_bytes [of ?x ?y ?z, OF of_char_less_256 of_char_less_256 of_char_less_256]
  have pad: "b64_pad (u # v # w # x # t) = b64_pad t" for u v w x t
    by (simp add: b64_pad_def)
  have "b64_loop 0 0 0 (b64_char (?x div 4) # b64_char (?x mod 4 * 16 + ?y div 16) #
      b64_char (?y mod 16 * 4 + ?z div 64) # b64_char (?z mod 64) # b64_encode s @ b64_pad (b64_encode s))
      = Some (a # b # c # s)"
    unfolding b64_groups(1) [OF s(1-4)] b(1-3) 4 [OF refl refl refl] by (simp only: option.map char_of_char)
  then show ?case by (simp only: b64_encode.simps Let_def pad append.simps)
qed

lemma b64_alphabet: "c \<in> set (b64_encode s) \<Longrightarrow> \<exists>n < 64. c = b64_char n"
proof (induction s rule: b64_encode.induct)
  case (2 a)
  note s = b64_sextets [of "of_char a" 0 0, OF of_char_less_256 zero_less_numeral zero_less_numeral]
  from 2 have "c \<in> {b64_char (of_char a div 4), b64_char (of_char a mod 4 * 16)}"
    by (simp add: Let_def)
  then show ?case using s(1,5) by fast
next
  case (3 a b)
  note s = b64_sextets [of "of_char a" "of_char b" 0, OF of_char_less_256 of_char_less_256 zero_less_numeral]
  from 3 have "c \<in> {b64_char (of_char a div 4), b64_char (of_char a mod 4 * 16 + of_char b div 16),
      b64_char (of_char b mod 16 * 4)}"
    by (simp add: Let_def)
  then show ?case using s(1,2,6) by fast
next
  case (4 a b d s)
  note s = b64_sextets [of "of_char a" "of_char b" "of_char d",
      OF of_char_less_256 of_char_less_256 of_char_less_256]
  from 4(2) have "c \<in> set (b64_encode s) \<or> c \<in> {b64_char (of_char a div 4),
      b64_char (of_char a mod 4 * 16 + of_char b div 16),
      b64_char (of_char b mod 16 * 4 + of_char d div 64), b64_char (of_char d mod 64)}"
    by (auto simp: Let_def)
  then show ?case using s(1-4) 4(1) [OF refl refl refl] by fast
qed simp

lemma b64_encode_Nil [simp]: "b64_encode s = [] \<longleftrightarrow> s = []"
  by (cases s rule: b64_encode.cases) (simp_all add: Let_def)

lemma b64_decode_encode: "urlsafe_b64decode (b64_encode s @ b64_pad (b64_encode s)) = Some s"
proof -
  have "list_all is_ascii (b64_encode s)"
    using b64_alphabet [of _ s] b64_char_facts(3) by (fastforce simp: list_all_iff)
  moreover have "list_all is_ascii (b64_pad t)" for t
    by (simp add: b64_pad_def list_all_iff is_ascii_def)
  ultimately show ?thesis by (simp add: urlsafe_b64decode_def b64_round)
qed

lemma strip_id:
  assumes "\<forall>c \<in> set s. \<not> is_ws c"
  shows "strip s = s"
proof -
  have "dropWhile is_ws t = t" if "\<forall>c \<in> set t. \<not> is_ws c" for t
    using that by (cases t) auto
  from this [of s] this [of "rev s"] show ?thesis using assms by (simp add: strip_def)
qed

lemma strip_b64 [simp]: "strip (b64_encode s) = b64_encode s"
proof (rule strip_id, rule)
  fix c
  assume "c \<in> set (b64_encode s)"
  then obtain n where "n < 64" "c = b64_char n" using b64_alphabet by blast
  then show "\<not> is_ws c" by (simp add: b64_char_facts)
qed

end
