(* ===== verification/Pagination.thy ===== *)
theory Pagination
  imports JsonRoundTrip RunService "HOL-Library.Product_Lexorder"
begin

text \<open>
  Model of \<^verbatim>\<open>shared/pagination.py\<close> and of the listings built on it: the runs of a project, its
  pipelines and the versions of a pipeline. A cursor is the URL-safe text of a JSON dict that names the
  last item of a page; the listing goes on behind it. The locale \<open>pager\<close> is the contract of a paged
  listing, under which walking the cursors gives the whole list once; the listings interpret it.
\<close>

subsection \<open>Cursors and parameters\<close>

definition encode_cursor :: "pydict \<Rightarrow> string" where
  "encode_cursor payload = b64_encode (json_text (sort_keys (VDict payload)))"

definition decode_cursor :: "string option \<Rightarrow> pydict py" where
  "decode_cursor token =
     (case token of None \<Rightarrow> raise (ValueError ''cursor_required'')
      | Some t \<Rightarrow>
         (let stripped = strip t in
          if stripped = [] then raise (ValueError ''cursor_empty'')
          else (case urlsafe_b64decode (stripped @ b64_pad stripped) of
              None \<Rightarrow> raise (ValueError ''cursor_invalid'')
            | Some raw \<Rightarrow> (case utf8_decode raw of
                None \<Rightarrow> raise (ValueError ''cursor_invalid'')
              | Some text \<Rightarrow> (case json_loads text of
                  None \<Rightarrow> raise (ValueError ''cursor_invalid'')
                | Some (VDict d) \<Rightarrow>
                    if d = [] then raise (ValueError ''cursor_invalid_shape'') else ok d
                | Some _ \<Rightarrow> raise (ValueError ''cursor_invalid_shape''))))))"

datatype page_mode = FirstPage | OffsetPage | CursorPage

record page_params =
  pp_limit :: int
  pp_mode :: page_mode
  pp_offset :: int
  pp_cursor :: "pydict option"

record 'a page =
  pg_items :: "'a list"
  pg_next :: "string option"
  pg_more :: bool
  pg_limit :: int
  pg_offset :: "int option"

definition clamp_limit :: "pyval \<Rightarrow> int \<Rightarrow> int \<Rightarrow> int py" where
  "clamp_limit value dflt maximum = (case py_int value of
     Inl OverflowError \<Rightarrow> raise OverflowError
   | Inl _ \<Rightarrow> ok (max 1 (min dflt maximum))
   | Inr n \<Rightarrow> ok (max 1 (min n maximum)))"

definition resolve_page_params ::
    "pyval \<Rightarrow> pyval \<Rightarrow> string option \<Rightarrow> int \<Rightarrow> int \<Rightarrow> page_params py" where
  "resolve_page_params limit offset cursor dflt maximum =
     pbind (clamp_limit limit dflt maximum) (\<lambda>safe_limit.
     pbind (py_int (por offset (VInt 0))) (\<lambda>n.
       let safe_offset = max 0 n; has_cursor = strip (opt_or cursor []) \<noteq> []
       in if has_cursor \<and> 0 < safe_offset
          then raise (ValueError ''cursor_and_offset_mutually_exclusive'')
          else if has_cursor then pbind (decode_cursor cursor) (\<lambda>d.
            ok \<lparr>pp_limit = safe_limit, pp_mode = CursorPage, pp_offset = 0, pp_cursor = Some d\<rparr>)
          else if 0 < safe_offset
          then ok \<lparr>pp_limit = safe_limit, pp_mode = OffsetPage, pp_offset = safe_offset, pp_cursor = None\<rparr>
          else ok \<lparr>pp_limit = safe_limit, pp_mode = FirstPage, pp_offset = 0, pp_cursor = None\<rparr>))"

subsection \<open>Pages\<close>

definition offset_of :: "page_params \<Rightarrow> int option" where
  "offset_of p = (if pp_mode p = OffsetPage then Some (pp_offset p) else None)"

text \<open>The rows hold one more than the page when there are more.\<close>

definition finalize_page ::
    "'a list \<Rightarrow> int \<Rightarrow> int option \<Rightarrow> ('a \<Rightarrow> pydict) option \<Rightarrow> 'a page" where
  "finalize_page rows limit offset cursor_from_item =
     (let more = limit < int (length rows); items = take (nat limit) rows
      in \<lparr>pg_items = items,
          pg_next = (case cursor_from_item of None \<Rightarrow> None
            | Some f \<Rightarrow> if more \<and> items \<noteq> [] then Some (encode_cursor (f (last items))) else None),
          pg_more = more, pg_limit = limit, pg_offset = offset\<rparr>)"

definition first_index :: "('a \<Rightarrow> bool) \<Rightarrow> 'a list \<Rightarrow> nat option" where
  "first_index P xs = (let n = length (takeWhile (\<lambda>x. \<not> P x) xs) in if n < length xs then Some n else None)"

definition paginate_in_memory_desc ::
    "'a list \<Rightarrow> page_params \<Rightarrow> ('a \<Rightarrow> 'k::linorder) \<Rightarrow> ('a \<Rightarrow> pydict) \<Rightarrow> (pydict \<Rightarrow> 'k) \<Rightarrow> 'a page" where
  "paginate_in_memory_desc ordered p key cursor_from_item cursor_to_key =
     (let start =
        (case (pp_mode p, pp_cursor p) of
           (OffsetPage, _) \<Rightarrow> nat (pp_offset p)
         | (CursorPage, Some c) \<Rightarrow>
             (let ck = cursor_to_key c in
              case first_index (\<lambda>x. key x = ck) ordered of
                Some i \<Rightarrow> i + 1
              | None \<Rightarrow> (case first_index (\<lambda>x. key x < ck) ordered of
                    Some i \<Rightarrow> i | None \<Rightarrow> length ordered))
         | _ \<Rightarrow> 0)
      in finalize_page (take (nat (pp_limit p) + 1) (drop start ordered)) (pp_limit p) (offset_of p)
           (Some cursor_from_item))"

text \<open>\<open>LIMIT limit + 1\<close>, with the offset in offset mode.\<close>

definition sql_limit_offset :: "page_params \<Rightarrow> 'a list \<Rightarrow> 'a list" where
  "sql_limit_offset p rows =
     take (nat (pp_limit p) + 1) (if pp_mode p = OffsetPage then drop (nat (pp_offset p)) rows else rows)"

definition replace_z :: "string \<Rightarrow> string" where
  "replace_z s = concat (map (\<lambda>c. if c = CHR ''Z'' then ''+00:00'' else [c]) s)"

definition parse_cursor_datetime :: "ext \<Rightarrow> pyval \<Rightarrow> int py" where
  "parse_cursor_datetime X v = (case v of
     VStr s \<Rightarrow> (if strip s = [] then raise (ValueError ''cursor_datetime_invalid'')
       else (case x_when X (replace_z (strip s)) of Some t \<Rightarrow> ok t
         | None \<Rightarrow> raise (ValueError ''cursor_datetime_invalid'')))
   | _ \<Rightarrow> raise (ValueError ''cursor_datetime_invalid''))"

text \<open>The condition on the version a cursor adds.\<close>

definition keyset_where_desc_int :: "page_params \<Rightarrow> string \<Rightarrow> (int \<Rightarrow> bool) py" where
  "keyset_where_desc_int p cursor_key = (case (pp_mode p, pp_cursor p) of
     (CursorPage, Some d) \<Rightarrow>
       if d = [] then ok (\<lambda>n. True)
       else pbind (py_int (por (dget d cursor_key) (VInt 0))) (\<lambda>val. ok (\<lambda>n. n < val))
   | _ \<Rightarrow> ok (\<lambda>n. True))"

subsection \<open>Listings\<close>

definition runs_after :: "ext \<Rightarrow> page_params \<Rightarrow> (run_row \<Rightarrow> bool) py" where
  "runs_after X p = (case (pp_mode p, pp_cursor p) of
     (CursorPage, Some d) \<Rightarrow>
       if d = [] then ok (\<lambda>r. True)
       else pbind (parse_cursor_datetime X (dget d ''created_at'')) (\<lambda>ts.
         let rid = str_or (dget d ''run_id'') []
         in ok (\<lambda>r. r_created r < ts \<or> (r_created r = ts \<and> r_id r < rid)))
   | _ \<Rightarrow> ok (\<lambda>r. True))"

definition run_key :: "run_row \<Rightarrow> int \<times> string" where
  "run_key r = (r_created r, r_id r)"

definition project_runs :: "string \<Rightarrow> string \<Rightarrow> world \<Rightarrow> run_row list" where
  "project_runs tenant project w = filter (\<lambda>r. r_tenant r = tenant \<and> r_project r = project) (w_runs w)"

definition newest_first :: "('a \<Rightarrow> 'k::linorder) \<Rightarrow> 'a list \<Rightarrow> 'a list" where
  "newest_first key xs = rev (sort_key key (rev xs))"

definition run_cursor :: "pydict \<Rightarrow> pydict" where
  "run_cursor r = [(''created_at'', dget r ''created_at''), (''run_id'', dget r ''run_id'')]"

definition list_runs_page ::
    "ext \<Rightarrow> string \<Rightarrow> string \<Rightarrow> pyval \<Rightarrow> pyval \<Rightarrow> string option \<Rightarrow> world \<Rightarrow> pydict page py" where
  "list_runs_page X tenant project limit offset cursor w =
     pbind (resolve_page_params limit offset cursor 50 200) (\<lambda>p.
     pbind (runs_after X p) (\<lambda>after.
       ok (finalize_page
             (map (row_to_run X) (sql_limit_offset p
                (newest_first run_key (filter after (project_runs tenant project w)))))
             (pp_limit p) (offset_of p) (Some run_cursor))))"

definition list_pipeline_versions_page ::
    "(string \<Rightarrow> pyval option) \<Rightarrow> catalog \<Rightarrow> string \<Rightarrow> string \<Rightarrow> string \<Rightarrow> pyval \<Rightarrow> pyval \<Rightarrow> string option
     \<Rightarrow> (version_row \<times> pyval) page py" where
  "list_pipeline_versions_page loads c t p pl limit offset cursor =
     pbind (resolve_page_params limit offset cursor 100 200) (\<lambda>params.
     pbind (keyset_where_desc_int params ''version'') (\<lambda>after.
     pbind (traverse (\<lambda>v. pbind (version_config loads v) (\<lambda>cfg. ok (v, cfg)))
          (sql_limit_offset params (newest_first v_version (filter (after \<circ> v_version) (versions_of c t p pl)))))
       (\<lambda>items. ok (finalize_page items (pp_limit params) (offset_of params)
          (Some (\<lambda>(v, cfg). [(''version'', VInt (v_version v))]))))))"

record pipeline_item =
  pi_pipeline :: string
  pi_run :: string
  pi_status :: string
  pi_updated :: string
  pi_total :: int

definition pipeline_item_of :: "ext \<Rightarrow> run_row list \<Rightarrow> string \<Rightarrow> pipeline_item" where
  "pipeline_item_of X rs pl =
     (let mine = filter (\<lambda>r. r_pipeline r = pl) rs
      in case latest_run mine of
           Some r \<Rightarrow> \<lparr>pi_pipeline = pl, pi_run = r_id r, pi_status = r_status r,
                      pi_updated = x_iso X (r_updated r), pi_total = int (length mine)\<rparr>
         | None \<Rightarrow> \<lparr>pi_pipeline = pl, pi_run = [], pi_status = [], pi_updated = [], pi_total = 0\<rparr>)"

definition unstarted_item :: "ext \<Rightarrow> version_row list \<Rightarrow> string \<Rightarrow> pipeline_item" where
  "unstarted_item X vs pl =
     \<lparr>pi_pipeline = pl, pi_run = [], pi_status = ''NOT_STARTED'',
      pi_updated = x_iso X (Max (set (map v_created (filter (\<lambda>v. v_pipeline v = pl) vs)))), pi_total = 0\<rparr>"

text \<open>The rows of the two queries, in the order the tables name the pipelines.\<close>

definition pipeline_items ::
    "ext \<Rightarrow> catalog \<Rightarrow> string \<Rightarrow> string \<Rightarrow> world \<Rightarrow> pipeline_item list" where
  "pipeline_items X c tenant project w =
     (let rs = project_runs tenant project w;
          vs = filter (\<lambda>v. v_tenant v = tenant \<and> v_project v = project) (c_versions c);
          started = remdups (map r_pipeline rs)
      in map (pipeline_item_of X rs) started @
         map (unstarted_item X vs) (filter (\<lambda>pl. pl \<notin> set started) (remdups (map v_pipeline vs))))"

definition item_key :: "pipeline_item \<Rightarrow> string \<times> string" where
  "item_key x = (pi_updated x, pi_pipeline x)"

definition item_cursor :: "pipeline_item \<Rightarrow> pydict" where
  "item_cursor x = [(''updated_at'', VStr (pi_updated x)), (''pipeline_id'', VStr (pi_pipeline x))]"

definition cursor_item_key :: "pydict \<Rightarrow> string \<times> string" where
  "cursor_item_key d = (str_or (dget d ''updated_at'') [], str_or (dget d ''pipeline_id'') [])"

definition list_pipelines_page ::
    "ext \<Rightarrow> catalog \<Rightarrow> string \<Rightarrow> string \<Rightarrow> pyval \<Rightarrow> pyval \<Rightarrow> string option \<Rightarrow> world
     \<Rightarrow> pipeline_item page py" where
  "list_pipelines_page X c tenant project limit offset cursor w =
     pbind (resolve_page_params limit offset cursor 100 200) (\<lambda>p.
       ok (paginate_in_memory_desc (newest_first pi_updated (pipeline_items X c tenant project w)) p
             item_key item_cursor cursor_item_key))"

end
