(* ===== verification/PageWalk.thy ===== *)
theory PageWalk
  imports Pagination
begin

text \<open>
  Walking a paged listing: \<open>pager\<close> says what a page behind a cursor holds, \<open>walk\<close> follows the cursors,
  and under the contract it returns the whole list, every item once and in order. The listings of
  pipelines, runs and pipeline versions meet the contract.
\<close>

subsection \<open>The round trip of a cursor\<close>

definition sorted_dict :: "pydict \<Rightarrow> pydict" where
  "sorted_dict d = sort_key fst (map (\<lambda>(k, v). (k, sort_keys v)) d)"

lemma json_text_Nil [simp]: "json_ok v \<Longrightarrow> json_text v \<noteq> []"
  using json_text_head [of v] by auto

lemma decode_encode:
  assumes "json_ok (VDict d)" "d \<noteq> []"
  shows "decode_cursor (Some (encode_cursor d)) = Inr (sorted_dict d)"
    "strip (encode_cursor d) = encode_cursor d" "encode_cursor d \<noteq> []"
proof -
  let ?v = "sort_keys (VDict d)"
  have v: "json_ok ?v" by (rule json_ok_sort [OF assms(1)])
  show s: "strip (encode_cursor d) = encode_cursor d" by (simp add: encode_cursor_def)
  show n: "encode_cursor d \<noteq> []" using json_text_Nil [OF v] unfolding encode_cursor_def by simp
  have "?v = VDict (sorted_dict d)" "sorted_dict d \<noteq> []"
    using assms(2) by (simp_all add: sorted_dict_def) (metis length_0_conv length_map length_sort)
  moreover have "utf8_decode (json_text ?v) = Some (json_text ?v)"
    by (rule utf8_ascii [OF ascii_json_text [OF v]])
  moreover have "json_loads (json_text ?v) = Some ?v" by (rule json_loads_text [OF v])
  ultimately show "decode_cursor (Some (encode_cursor d)) = Inr (sorted_dict d)"
    unfolding decode_cursor_def using s n
    by (simp add: Let_def encode_cursor_def b64_decode_encode del: sort_keys.simps)
qed

lemma dget_sorted:
  assumes "distinct (map fst d)"
  shows "dget (sorted_dict d) k = sort_keys (dget d k)"
proof -
  let ?d = "map (\<lambda>(k, v). (k, sort_keys v)) d"
  have m: "map fst ?d = map fst d" by (induction d) auto
  have "map_of (sort_key fst ?d) = map_of ?d"
    by (subst map_of_inject_set) (simp_all only: distinct_sort_key m assms set_sort)
  moreover have "map_of ?d k = map_option sort_keys (map_of d k)" by (induction d) auto
  ultimately show ?thesis by (simp add: dget_def sorted_dict_def split: option.split)
qed

text \<open>
  C14. A cursor is read back as it was written: the decoder gives the payload, key by key, whatever
  text it holds, unless it holds a float or nothing at all.
\<close>

theorem cursor_roundtrip:
  assumes "json_ok (VDict payload)" and "payload \<noteq> []"
  shows "\<exists>d. decode_cursor (Some (encode_cursor payload)) = Inr d \<and>
           (\<forall>k. dget d k = sort_keys (dget payload k))"
  using decode_encode(1) [OF assms] dget_sorted [of payload] assms(1) by simp

lemma resolve_cursor:
  assumes "json_ok (VDict d)" "d \<noteq> []"
  shows "resolve_page_params (VInt limit) VNone (Some (encode_cursor d)) dflt maximum =
     ok \<lparr>pp_limit = max 1 (min limit maximum), pp_mode = CursorPage, pp_offset = 0,
         pp_cursor = Some (sorted_dict d)\<rparr>"
  using decode_encode [OF assms] by (simp add: resolve_page_params_def clamp_limit_def por_def Let_def)

lemma resolve_first:
  "resolve_page_params (VInt limit) VNone None dflt maximum =
     ok \<lparr>pp_limit = max 1 (min limit maximum), pp_mode = FirstPage, pp_offset = 0, pp_cursor = None\<rparr>"
  by (simp add: resolve_page_params_def clamp_limit_def por_def Let_def)

subsection \<open>Walking the pages\<close>

text \<open>Follows the cursors for at most so many pages.\<close>

fun walk :: "nat \<Rightarrow> (string option \<Rightarrow> 'a page py) \<Rightarrow> string option \<Rightarrow> 'a list py" where
  "walk 0 fetch cursor = raise (RuntimeError ''pages left'')"
| "walk (Suc n) fetch cursor = pbind (fetch cursor) (\<lambda>p.
     case pg_next p of None \<Rightarrow> ok (pg_items p)
     | Some c \<Rightarrow> pbind (walk n fetch (Some c)) (\<lambda>rest. ok (pg_items p @ rest)))"

definition page_of :: "nat \<Rightarrow> ('a \<Rightarrow> string) \<Rightarrow> 'a list \<Rightarrow> 'a page \<Rightarrow> bool" where
  "page_of n token rest p =
     (pg_items p = take n rest \<and>
      pg_next p = (if n < length rest then Some (token (rest ! (n - 1))) else None))"

locale pager =
  fixes fetch :: "string option \<Rightarrow> 'a page py" and whole :: "'a list"
    and token :: "'a \<Rightarrow> string" and n :: nat
  assumes size: "0 < n"
    and page_first: "\<exists>p. fetch None = Inr p \<and> page_of n token whole p"
    and page_next: "i < length whole \<Longrightarrow>
      \<exists>p. fetch (Some (token (whole ! i))) = Inr p \<and> page_of n token (drop (Suc i) whole) p"
begin

lemma walk_from:
  assumes "fetch c = Inr p" "page_of n token (drop k whole) p" "length (drop k whole) < m"
  shows "walk m fetch c = Inr (drop k whole)"
  using assms
proof (induction m arbitrary: c p k)
  case 0
  then show ?case by simp
next
  case (Suc m)
  let ?rest = "drop k whole"
  show ?case
  proof (cases "n < length ?rest")
    case False
    then show ?thesis using Suc.prems by (simp add: page_of_def)
  next
    case True
    let ?i = "k + (n - 1)"
    have i: "?i < length whole" "drop (Suc ?i) whole = drop n ?rest" "?rest ! (n - 1) = whole ! ?i"
      using True size by (simp_all add: add.commute)
    obtain q where q: "fetch (Some (token (whole ! ?i))) = Inr q"
        "page_of n token (drop (Suc ?i) whole) q"
      using page_next [OF i(1)] by blast
    have "walk m fetch (Some (token (whole ! ?i))) = Inr (drop (Suc ?i) whole)"
      by (rule Suc.IH [OF q]) (use Suc.prems(3) size True in simp)
    moreover have "take n ?rest @ drop (Suc ?i) whole = ?rest"
      by (simp only: i(2) append_take_drop_id)
    ultimately show ?thesis
      using Suc.prems(1,2) True i(3) by (simp add: page_of_def del: drop_drop)
  qed
qed

theorem walk_all: "length whole < m \<Longrightarrow> walk m fetch None = Inr whole"
  using page_first walk_from [of None _ 0 m] by auto

end

lemma page_of_finalize:
  assumes "0 < limit"
  shows "page_of (nat limit) (encode_cursor \<circ> f) rest
      (finalize_page (take (nat limit + 1) rest) limit off (Some f))"
proof (cases "nat limit < length rest")
  case True
  moreover have "limit < int (length rest)" using True by linarith
  moreover have "take (nat limit) rest \<noteq> []" using True assms by auto
  moreover have "last (take (nat limit) rest) = rest ! (nat limit - 1)"
    using True assms calculation(3) by (simp add: last_conv_nth min_def)
  ultimately show ?thesis
    using assms by (simp add: page_of_def finalize_page_def Let_def min_def)
next
  case False
  then have "\<not> limit < int (length rest)" using assms by linarith
  then show ?thesis using assms False by (simp add: page_of_def finalize_page_def Let_def)
qed

subsection \<open>Pipelines\<close>

lemma first_index_nth:
  assumes "distinct (map key xs)" "i < length xs"
  shows "first_index (\<lambda>x. key x = key (xs ! i)) xs = Some i"
proof -
  have "takeWhile (\<lambda>x. key x \<noteq> key (xs ! i)) xs = take i xs"
  proof (rule takeWhile_eq_take_P_nth)
    show "key (xs ! j) \<noteq> key (xs ! i)" if "j < i" "j < length xs" for j
      using nth_eq_iff_index_eq [OF assms(1), of j i] assms(2) that by simp
  qed simp
  then show ?thesis using assms(2) by (simp add: first_index_def Let_def)
qed

lemma set_newest_first [simp]: "set (newest_first key xs) = set xs"
  by (simp add: newest_first_def)

lemma mset_newest_first: "mset (newest_first key xs) = mset xs"
  by (simp add: newest_first_def)

lemma distinct_newest_first: "distinct (map f (newest_first key xs)) = distinct (map f xs)"
  by (simp add: distinct_map newest_first_def)

lemma distinct_pipeline_items: "distinct (map pi_pipeline (pipeline_items X c t p w))"
proof -
  have "pi_pipeline (pipeline_item_of X rs pl) = pl" for rs pl
    by (simp add: pipeline_item_of_def Let_def split: option.split)
  then have "pi_pipeline \<circ> pipeline_item_of X rs = id" for rs by auto
  moreover have "pi_pipeline \<circ> unstarted_item X vs = id" for vs
    by (auto simp: unstarted_item_def)
  ultimately show ?thesis by (auto simp: pipeline_items_def Let_def)
qed

interpretation pipelines: pager
  "\<lambda>cursor. list_pipelines_page X c t p (VInt limit) VNone cursor w"
  "newest_first pi_updated (pipeline_items X c t p w)"
  "encode_cursor \<circ> item_cursor"
  "nat (max 1 (min limit 200))" for X c t p limit w
proof unfold_locales
  let ?whole = "newest_first pi_updated (pipeline_items X c t p w)"
  let ?n = "max 1 (min limit 200)"
  show "0 < nat ?n" by simp
  show "\<exists>q. list_pipelines_page X c t p (VInt limit) VNone None w = Inr q \<and>
      page_of (nat ?n) (encode_cursor \<circ> item_cursor) ?whole q"
    using page_of_finalize [of ?n item_cursor ?whole]
    by (simp add: list_pipelines_page_def resolve_first paginate_in_memory_desc_def)
  show "\<exists>q. list_pipelines_page X c t p (VInt limit) VNone
        (Some ((encode_cursor \<circ> item_cursor) (?whole ! i))) w = Inr q \<and>
      page_of (nat ?n) (encode_cursor \<circ> item_cursor) (drop (Suc i) ?whole) q"
    if i: "i < length ?whole" for i
  proof -
    have k: "cursor_item_key (sorted_dict (item_cursor x)) = item_key x" for x
      using dget_sorted [of "item_cursor x"]
      by (simp add: cursor_item_key_def item_key_def) (simp add: item_cursor_def dget_def)
    have r: "resolve_page_params (VInt limit) VNone (Some (encode_cursor (item_cursor x))) 100 200 =
        ok \<lparr>pp_limit = ?n, pp_mode = CursorPage, pp_offset = 0,
            pp_cursor = Some (sorted_dict (item_cursor x))\<rparr>" for x
      by (rule resolve_cursor) (simp_all add: item_cursor_def)
    have "distinct (map item_key ?whole)"
    proof -
      have "distinct (map pi_pipeline ?whole)"
        unfolding distinct_newest_first by (rule distinct_pipeline_items)
      then show ?thesis by (auto simp: distinct_map inj_on_def item_key_def)
    qed
    from first_index_nth [OF this i]
    show ?thesis
      using page_of_finalize [of ?n item_cursor "drop (Suc i) ?whole"]
      by (simp add: list_pipelines_page_def r k paginate_in_memory_desc_def)
  qed
qed


lemma pipelines_walk:
  "length (pipeline_items X c t p w) < m \<Longrightarrow>
   walk m (\<lambda>cursor. list_pipelines_page X c t p (VInt limit) VNone cursor w) None =
     Inr (newest_first pi_updated (pipeline_items X c t p w))"
  by (rule pipelines.walk_all) (simp add: newest_first_def)

subsection \<open>Runs\<close>

lemma newest_first_filter: "newest_first key (filter P xs) = filter P (newest_first key xs)"
  by (simp add: newest_first_def rev_filter [symmetric] filter_sort)

lemma sorted_newest_first: "sorted_wrt (\<lambda>x y. key y \<le> key x) (newest_first key xs)"
proof -
  have "sorted (map key (sort_key key (rev xs)))" by simp
  then show ?thesis by (simp add: newest_first_def sorted_wrt_rev sorted_wrt_map)
qed

lemma behind_cursor:
  assumes "distinct (map key xs)" "i < length xs"
  shows "filter (\<lambda>x. key x < key (newest_first key xs ! i)) (newest_first key xs) =
      drop (Suc i) (newest_first key xs)"
proof -
  let ?ys = "newest_first key xs"
  have d: "distinct (map key ?ys)" using assms(1) by (simp only: distinct_newest_first)
  have len: "length ?ys = length xs" by (simp add: newest_first_def)
  have le: "key (?ys ! b) \<le> key (?ys ! a)" if "a < b" "b < length ?ys" for a b
    using sorted_newest_first [of key xs] that by (simp add: sorted_wrt_iff_nth_less)
  have ne: "key (?ys ! a) \<noteq> key (?ys ! b)" if "a \<noteq> b" "a < length ?ys" "b < length ?ys" for a b
    using nth_eq_iff_index_eq [OF d, of a b] that by simp
  have before: "\<not> key x < key (?ys ! i)" if x: "x \<in> set (take (Suc i) ?ys)" for x
  proof -
    obtain j where "j < Suc i" "j < length ?ys" "x = ?ys ! j"
      using x by (auto simp: in_set_conv_nth)
    then show ?thesis using le [of j i] assms(2) len by (cases "j = i") auto
  qed
  have behind: "key x < key (?ys ! i)" if x: "x \<in> set (drop (Suc i) ?ys)" for x
  proof -
    obtain j where j: "j < length (drop (Suc i) ?ys)" "x = drop (Suc i) ?ys ! j"
      using x by (auto simp: in_set_conv_nth)
    then have "x = ?ys ! (Suc i + j)" "Suc i + j < length ?ys" by simp_all
    then show ?thesis using le [of i "Suc i + j"] ne [of i "Suc i + j"] by fastforce
  qed
  have "filter P ?ys = filter P (take (Suc i) ?ys) @ filter P (drop (Suc i) ?ys)" for P
    by (metis append_take_drop_id filter_append)
  then show ?thesis using before behind by (simp add: filter_empty_conv filter_id_conv)
qed

text \<open>What \<open>isoformat\<close> writes is what \<open>fromisoformat\<close> reads.\<close>

definition iso_readable :: "ext \<Rightarrow> bool" where
  "iso_readable X = (\<forall>t. strip (x_iso X t) \<noteq> [] \<and> x_when X (replace_z (strip (x_iso X t))) = Some t)"

lemma runs_pager:
  assumes "keys_unique w" "iso_readable X"
  shows "pager (\<lambda>cursor. list_runs_page X t p (VInt limit) VNone cursor w)
    (map (row_to_run X) (newest_first run_key (project_runs t p w)))
    (encode_cursor \<circ> run_cursor) (nat (max 1 (min limit 200)))"
proof unfold_locales
  let ?rs = "newest_first run_key (project_runs t p w)"
  let ?whole = "map (row_to_run X) ?rs"
  let ?n = "max 1 (min limit 200)"
  show "0 < nat ?n" by simp
  show "\<exists>q. list_runs_page X t p (VInt limit) VNone None w = Inr q \<and>
      page_of (nat ?n) (encode_cursor \<circ> run_cursor) ?whole q"
    using page_of_finalize [of ?n run_cursor ?whole]
    by (simp add: list_runs_page_def resolve_first runs_after_def sql_limit_offset_def take_map)
  show "\<exists>q. list_runs_page X t p (VInt limit) VNone
        (Some ((encode_cursor \<circ> run_cursor) (?whole ! i))) w = Inr q \<and>
      page_of (nat ?n) (encode_cursor \<circ> run_cursor) (drop (Suc i) ?whole) q"
    if i: "i < length ?whole" for i
  proof -
    let ?r = "?rs ! i"
    have cur: "run_cursor (row_to_run X ?r) =
        [(''created_at'', VStr (x_iso X (r_created ?r))), (''run_id'', VStr (r_id ?r))]"
      by (simp add: run_cursor_def row_to_run_def dget_def Let_def)
    let ?d = "sorted_dict (run_cursor (row_to_run X ?r))"
    have "resolve_page_params (VInt limit) VNone (Some (encode_cursor (run_cursor (row_to_run X ?r)))) 50 200 =
        ok \<lparr>pp_limit = ?n, pp_mode = CursorPage, pp_offset = 0, pp_cursor = Some ?d\<rparr>"
      unfolding cur by (rule resolve_cursor) simp_all
    moreover have "dget ?d ''created_at'' = VStr (x_iso X (r_created ?r))"
      "dget ?d ''run_id'' = VStr (r_id ?r)"
      unfolding cur by (subst dget_sorted; simp add: dget_def)+
    moreover have "?d \<noteq> []" using calculation(2) by (auto simp: dget_def)
    moreover have "(\<lambda>r. r_created r < r_created ?r \<or> r_created r = r_created ?r \<and> r_id r < r_id ?r) =
        (\<lambda>r. run_key r < run_key ?r)"
      by (auto simp: run_key_def fun_eq_iff)
    moreover have "distinct (map run_key (project_runs t p w))"
      using assms(1) by (auto simp: keys_unique_def project_runs_def run_key_def distinct_map inj_on_def)
    then have "newest_first run_key (filter (\<lambda>r. run_key r < run_key ?r) (project_runs t p w)) =
        drop (Suc i) ?rs"
      by (subst newest_first_filter, intro behind_cursor)
        (use i in \<open>simp_all add: newest_first_def\<close>)
    ultimately show ?thesis
      using page_of_finalize [of ?n run_cursor "drop (Suc i) ?whole"] i assms(2)
      by (simp add: list_runs_page_def runs_after_def parse_cursor_datetime_def iso_readable_def
          sql_limit_offset_def take_map drop_map Let_def)
  qed
qed

text \<open>
  C13. Following the cursors of the run listing gives every run of the project exactly once, newest
  first, whatever the page size asked for, within as many pages as there are runs and one more.
\<close>

theorem runs_pages_cover:
  assumes "keys_unique w" and "iso_readable X" and "length (project_runs t p w) < m"
  shows "walk m (\<lambda>cursor. list_runs_page X t p (VInt limit) VNone cursor w) None =
     Inr (map (row_to_run X) (newest_first run_key (project_runs t p w)))"
  by (rule pager.walk_all [OF runs_pager [OF assms(1,2)]])
    (use assms(3) in \<open>simp add: newest_first_def\<close>)

end
