(* ===== verification/PageExamples.thy ===== *)
theory PageExamples
  imports PageWalk SchedExamples
begin

text \<open>The paged listings on concrete states.\<close>

lemma cursor_roundtrip_witness:
  "\<exists>d. decode_cursor (Some (encode_cursor [(''run_id'', VStr [CHR ''a'', quote2, CHR 0xE9]),
      (''created_at'', VStr ''2024-01-01T00:00:00+00:00'')])) = Inr d \<and>
     (\<forall>k. dget d k = sort_keys (dget [(''run_id'', VStr [CHR ''a'', quote2, CHR 0xE9]),
      (''created_at'', VStr ''2024-01-01T00:00:00+00:00'')] k))"
  by (rule cursor_roundtrip) simp_all

text \<open>Timestamps as decimal numbers, read back by the JSON parser.\<close>

definition decimal_time :: "string \<Rightarrow> int option" where
  "decimal_time s = (case json_loads s of Some (VInt i) \<Rightarrow> Some i | _ \<Rightarrow> None)"

definition listing_ext :: ext where
  "listing_ext = example_ext\<lparr>x_when := decimal_time\<rparr>"

lemma int_str_chars: "c \<in> set (int_str i) \<Longrightarrow> is_digit c \<or> c = CHR ''-''"
  using nat_str_digits by (auto simp: int_str_def list_all_iff split: if_splits)

lemma iso_example: "iso_readable listing_ext"
proof -
  have "strip (int_str t) = int_str t" for t
  proof (rule strip_id, rule)
    fix c
    assume "c \<in> set (int_str t)"
    then show "\<not> is_ws c" using int_str_chars [of c t] by (auto simp: is_digit_def is_ws_def)
  qed
  moreover have "replace_z (int_str t) = int_str t" for t
  proof -
    have "replace_z s = s" if "CHR ''Z'' \<notin> set s" for s
      using that by (induction s) (auto simp: replace_z_def)
    then show ?thesis using int_str_chars [of "CHR ''Z''" t] by (auto simp: is_digit_def)
  qed
  moreover have "decimal_time (int_str t) = Some t" for t
    using json_loads_text [of "VInt t"] by (simp add: decimal_time_def)
  ultimately show ?thesis
    using json_text_Nil [of "VInt t" for t] by (simp add: iso_readable_def listing_ext_def example_ext_def)
qed

lemma runs_pages_cover_witness:
  "walk 3 (\<lambda>cursor. list_runs_page listing_ext ''default'' ''default_project'' (VInt 1) VNone cursor
     (example_world [] ''RUNNING'')) None =
   Inr (map (row_to_run listing_ext) [example_run ''r'' ''RUNNING'', example_run ''p'' ''SUCCESS''])"
proof -
  have "newest_first run_key (project_runs ''default'' ''default_project'' (example_world [] ''RUNNING''))
      = [example_run ''r'' ''RUNNING'', example_run ''p'' ''SUCCESS'']"
    by code_simp
  moreover have "keys_unique (example_world [] ''RUNNING'')"
    by (simp add: keys_unique_def example_world_def example_run_def)
  moreover have "length (project_runs ''default'' ''default_project'' (example_world [] ''RUNNING'')) < 3"
    by code_simp
  ultimately show ?thesis
    using runs_pages_cover [OF _ iso_example] by metis
qed

end
