(* ===== verification/Cron.thy ===== *)
theory Cron
  imports PyValue
begin

text \<open>
  Model of the cron expressions of \<^verbatim>\<open>scheduler/main.py\<close> and of the clock they are compared with: a
  point in time is a number of microseconds since 1970, and \<open>utc_of\<close> is what \<open>datetime.now(utc)\<close>
  shows of it. A set of values is kept as a list.
\<close>

subsection \<open>The clock\<close>

record utc =
  u_year :: int
  u_month :: int
  u_day :: int
  u_hour :: int
  u_minute :: int
  u_weekday :: int

text \<open>The proleptic Gregorian calendar from a day count, in eras of 400 years that start in March.\<close>

definition civil_of_days :: "int \<Rightarrow> int \<times> int \<times> int" where
  "civil_of_days days =
     (let z = days + 719468;
          era = z div 146097;
          doe = z mod 146097;
          yoe = (doe - doe div 1460 + doe div 36524 - doe div 146096) div 365;
          doy = doe - (365 * yoe + yoe div 4 - yoe div 100);
          mp = (5 * doy + 2) div 153;
          d = doy - (153 * mp + 2) div 5 + 1;
          m = (if mp < 10 then mp + 3 else mp - 9)
      in (yoe + era * 400 + (if m \<le> 2 then 1 else 0), m, d))"

definition day_us :: int where "day_us = 86400000000"

definition utc_of :: "int \<Rightarrow> utc" where
  "utc_of now =
     (case civil_of_days (now div day_us) of (y, m, d) \<Rightarrow>
        \<lparr>u_year = y, u_month = m, u_day = d,
         u_hour = now mod day_us div 3600000000,
         u_minute = now mod 3600000000 div 60000000,
         u_weekday = (now div day_us + 3) mod 7\<rparr>)"

definition two_digits :: "int \<Rightarrow> string" where
  "two_digits n = (if n < 10 then ''0'' @ int_str n else int_str n)"

definition four_digits :: "int \<Rightarrow> string" where
  "four_digits n = replicate (4 - length (int_str n)) (CHR ''0'') @ int_str n"

text \<open>\<open>strftime('%Y%m%d%H%M')\<close>\<close>

definition minute_stamp :: "int \<Rightarrow> string" where
  "minute_stamp now = (let u = utc_of now in
     four_digits (u_year u) @ two_digits (u_month u) @ two_digits (u_day u) @ two_digits (u_hour u)
       @ two_digits (u_minute u))"

subsection \<open>Fields\<close>

definition cron_number :: "string \<Rightarrow> int py" where
  "cron_number raw = (case parse_int raw of None \<Rightarrow> raise (ValueError ''invalid literal for int()'')
     | Some n \<Rightarrow> ok n)"

definition parse_cron_int :: "string \<Rightarrow> int \<Rightarrow> int \<Rightarrow> int list py" where
  "parse_cron_int raw lo hi = pbind (cron_number raw) (\<lambda>val.
     if val < lo \<or> hi < val then raise (ValueError ''cron_value_out_of_range'') else ok [val])"

text \<open>Every \<open>step\<close>-th value, from the first.\<close>

definition every :: "int \<Rightarrow> int list \<Rightarrow> int list" where
  "every step vals = map snd (filter (\<lambda>(idx, v). int idx mod step = 0) (enumerate 0 vals))"

definition cron_base :: "string \<Rightarrow> int \<Rightarrow> int \<Rightarrow> int list py" where
  "cron_base base lo hi =
     (if base = ''*'' \<or> base = [] then ok [lo..hi]
      else if CHR ''-'' \<in> set base then
        (case split_once (CHR ''-'') base of
           start_raw # end_raw # _ \<Rightarrow>
             pbind (cron_number start_raw) (\<lambda>start. pbind (cron_number end_raw) (\<lambda>end'.
               if start < lo \<or> hi < end' \<or> end' < start then raise (ValueError ''cron_range_invalid'')
               else ok [start..end']))
         | _ \<Rightarrow> raise (ValueError ''not enough values to unpack''))
      else parse_cron_int base lo hi)"

definition parse_cron_segment :: "string \<Rightarrow> int \<Rightarrow> int \<Rightarrow> int list py" where
  "parse_cron_segment segment lo hi =
     (let seg = strip segment in
      if seg = [] then raise (ValueError ''empty_cron_segment'')
      else if seg = ''*'' then ok [lo..hi]
      else if CHR ''/'' \<in> set seg then
        (case split_once (CHR ''/'') seg of
           base # step_raw # _ \<Rightarrow> pbind (cron_number step_raw) (\<lambda>step.
             if step \<le> 0 then raise (ValueError ''cron_step_must_be_positive'')
             else pbind (cron_base base lo hi) (\<lambda>vals. ok (every step vals)))
         | _ \<Rightarrow> raise (ValueError ''not enough values to unpack''))
      else cron_base seg lo hi)"

definition parse_cron_field :: "string \<Rightarrow> int \<Rightarrow> int \<Rightarrow> int list py" where
  "parse_cron_field field lo hi =
     pbind (traverse (\<lambda>seg. parse_cron_segment seg lo hi) (split_on (CHR '','') field))
       (\<lambda>outs. if concat outs = [] then raise (ValueError ''cron_field_empty'') else ok (concat outs))"

definition cron_weekday :: "utc \<Rightarrow> int" where
  "cron_weekday u = (u_weekday u + 1) mod 7"

definition cron_fields :: "string list \<Rightarrow> int list list py" where
  "cron_fields parts =
     (case parts of
        [mi, ho, da, mo, wd] \<Rightarrow>
          pbind (parse_cron_field mi 0 59) (\<lambda>minutes.
          pbind (parse_cron_field ho 0 23) (\<lambda>hours.
          pbind (parse_cron_field da 1 31) (\<lambda>mdays.
          pbind (parse_cron_field mo 1 12) (\<lambda>months.
          pbind (parse_cron_field wd 0 7) (\<lambda>wd_raw.
            ok [minutes, hours, mdays, months, map (\<lambda>x. if x = 7 then 0 else x) wd_raw])))))
      | _ \<Rightarrow> raise (ValueError ''parts''))"

definition cron_due :: "string \<Rightarrow> int \<Rightarrow> bool" where
  "cron_due expr now =
     (let raw = strip expr; u = utc_of now in
      if raw = [] then False
      else (case cron_fields (words raw) of
          Inr [minutes, hours, mdays, months, weekdays] \<Rightarrow>
            u_minute u \<in> set minutes \<and> u_hour u \<in> set hours \<and> u_day u \<in> set mdays \<and>
            u_month u \<in> set months \<and> cron_weekday u \<in> set weekdays
        | _ \<Rightarrow> False))"

subsection \<open>What a segment means\<close>

lemma upto_nth: "a + int i \<le> b \<Longrightarrow> [a..b] ! i = a + int i"
  by (rule nth_upto)

lemma set_every:
  assumes "0 < step"
  shows "set (every step [a..b]) = {v. a \<le> v \<and> v \<le> b \<and> (v - a) mod step = 0}"
proof -
  have e: "set (enumerate 0 [a..b]) = {(i, a + int i) |i. a + int i \<le> b}"
  proof -
    have "set (enumerate 0 [a..b]) = {(i, [a..b] ! i) |i. i < length [a..b]}"
      by (auto simp: in_set_enumerate_eq)
    also have "\<dots> = {(i, a + int i) |i. a + int i \<le> b}"
      by (auto simp: upto_nth)
    finally show ?thesis .
  qed
  have "set (every step [a..b]) = snd ` {(i, v) \<in> set (enumerate 0 [a..b]). int i mod step = 0}"
    by (simp add: every_def case_prod_unfold)
  also have "\<dots> = {v. a \<le> v \<and> v \<le> b \<and> (v - a) mod step = 0}" (is "?l = ?r")
  proof
    show "?l \<subseteq> ?r" by (auto simp: e)
    show "?r \<subseteq> ?l"
    proof
      fix v
      assume v: "v \<in> ?r"
      then have "(nat (v - a), v) \<in> {(i, v) \<in> set (enumerate 0 [a..b]). int i mod step = 0}"
        by (auto simp: e)
      then show "v \<in> ?l" by force
    qed
  qed
  finally show ?thesis .
qed

lemma cron_base_range:
  assumes "cron_base base lo hi = Inr vals"
  shows "\<exists>a b. lo \<le> a \<and> b \<le> hi \<and> vals = [a..b]"
proof -
  have one: "[v] = [v..v]" for v :: int by simp
  from assms consider "vals = [lo..hi]" | a b where "\<not> a < lo" "\<not> hi < b" "vals = [a..b]"
    | v where "\<not> v < lo" "\<not> hi < v" "vals = [v]"
    by (auto simp: cron_base_def parse_cron_int_def pbind_eq_Inr split: if_splits list.splits)
  then show ?thesis
    by cases (use one in \<open>metis order_refl linorder_not_less\<close>)+
qed

type_synonym progression = "int \<times> int \<times> int"

definition values_of :: "progression \<Rightarrow> int set" where
  "values_of p = (case p of (a, b, step) \<Rightarrow> {v. a \<le> v \<and> v \<le> b \<and> (v - a) mod step = 0})"

definition in_bounds :: "int \<Rightarrow> int \<Rightarrow> progression \<Rightarrow> bool" where
  "in_bounds lo hi p = (case p of (a, b, step) \<Rightarrow> 0 < step \<and> lo \<le> a \<and> b \<le> hi)"

lemma segment_progression:
  assumes "parse_cron_segment seg lo hi = Inr vals"
  shows "\<exists>p. in_bounds lo hi p \<and> set vals = values_of p"
proof (cases "CHR ''/'' \<in> set (strip seg) \<and> strip seg \<noteq> ''*''")
  case True
  then have "\<exists>step base vs. 0 < step \<and> cron_base base lo hi = Inr vs \<and> vals = every step vs"
    using assms
    by (auto simp: parse_cron_segment_def Let_def pbind_eq_Inr not_le split: if_splits list.splits) blast?
  then obtain step a b where "0 < step" "lo \<le> a" "b \<le> hi" "vals = every step [a..b]"
    using cron_base_range by blast
  then show ?thesis
    by (intro exI [of _ "(a, b, step)"]) (simp add: in_bounds_def values_of_def set_every)
next
  case False
  then have "vals = [lo..hi] \<or> cron_base (strip seg) lo hi = Inr vals"
    using assms by (auto simp: parse_cron_segment_def Let_def split: if_splits)
  then obtain a b where "lo \<le> a" "b \<le> hi" "vals = [a..b]" using cron_base_range by blast
  then show ?thesis
    by (intro exI [of _ "(a, b, 1)"]) (auto simp: in_bounds_def values_of_def)
qed

text \<open>
  A cron field denotes one arithmetic progression per comma-separated segment, each within the
  bounds of the field: from a first value to a last one, every \<open>step\<close>-th, the step counting from the
  first value. The field matches exactly the values of its progressions, so nothing outside the bounds.
\<close>

theorem cron_field_meaning:
  assumes "parse_cron_field field lo hi = Inr vals"
  shows "\<exists>ps. length ps = length (split_on (CHR '','') field) \<and> list_all (in_bounds lo hi) ps \<and>
           set vals = (\<Union>p \<in> set ps. values_of p)"
proof -
  have "\<exists>ps. length ps = length segs \<and> list_all (in_bounds lo hi) ps \<and>
      set (concat outs) = (\<Union>p \<in> set ps. values_of p)"
    if "traverse (\<lambda>seg. parse_cron_segment seg lo hi) segs = Inr outs" for segs outs
    using that
  proof (induction segs arbitrary: outs)
    case Nil
    then show ?case by simp
  next
    case (Cons seg segs)
    then obtain vs rest where r: "parse_cron_segment seg lo hi = Inr vs" "outs = vs # rest"
        "traverse (\<lambda>seg. parse_cron_segment seg lo hi) segs = Inr rest"
      by (auto simp: pbind_eq_Inr)
    obtain p where "in_bounds lo hi p" "set vs = values_of p" using segment_progression [OF r(1)] by blast
    moreover obtain ps where "length ps = length segs" "list_all (in_bounds lo hi) ps"
        "set (concat rest) = (\<Union>p \<in> set ps. values_of p)"
      using Cons.IH [OF r(3)] by blast
    ultimately show ?case by (intro exI [of _ "p # ps"]) (simp add: r(2))
  qed
  then show ?thesis
    using assms by (auto simp: parse_cron_field_def pbind_eq_Inr split: if_splits)
qed

lemma cron_field_meaning_witness:
  "\<exists>ps. length ps = length (split_on (CHR '','') ''5,10-40/7'') \<and> list_all (in_bounds 0 59) ps \<and>
     set (5 # every 7 [10..40]) = (\<Union>p \<in> set ps. values_of p)"
proof (rule cron_field_meaning)
  show "parse_cron_field ''5,10-40/7'' 0 59 = Inr (5 # every 7 [10..40])" by code_simp
qed

end
