(* ===== verification/Triggers.thy ===== *)
theory Triggers
  imports Cron RunService
begin

text \<open>
  Model of the trigger policies of \<^verbatim>\<open>scheduler/main.py\<close>: the policies of the models, the pipeline each
  resolves to, the debounce against the runs of the same model, the eligibility check, and the
  request for a run. The HTTP calls are the record \<open>api\<close>, which may change the tables; the requests for a
  run are kept in the order they are made.
\<close>

subsection \<open>Tables\<close>

record policy_row =
  tr_tenant :: string
  tr_project :: string
  tr_model :: string
  tr_mode :: string
  tr_debounce :: "int option"
  tr_cron :: "string option"
  tr_dataset :: "string option"
  tr_version :: "string option"
  tr_training :: "string option"
  tr_parallel :: "int option"
  tr_attempted :: "int option"
  tr_outcome :: "string option"
  tr_skip :: "string option"

record trigger_tables =
  tt_policies :: "policy_row list"
  tt_mapping :: "((string \<times> string \<times> string) \<times> string) list"
  tt_versions :: "(string \<times> string \<times> int) list"

text \<open>A policy as the loop sees it.\<close>

record policy =
  tp_tenant :: string
  tp_project :: string
  tp_model :: string
  tp_mode :: string
  tp_debounce :: int
  tp_cron :: string
  tp_dataset :: "string option"
  tp_version :: "string option"
  tp_training :: "string option"
  tp_parallel :: "int option"
  tp_pipeline :: string
  tp_override :: pydict

record api =
  api_eligibility :: "string \<Rightarrow> string \<Rightarrow> string \<Rightarrow> string \<Rightarrow> string option \<Rightarrow> pydict option"
  api_check :: "string \<Rightarrow> string \<Rightarrow> string \<Rightarrow> pydict \<Rightarrow> world \<Rightarrow> pydict option \<times> world"
  api_run :: "string \<Rightarrow> string \<Rightarrow> string \<Rightarrow> pydict \<Rightarrow> world \<Rightarrow> pydict option \<times> world"

record trig =
  tg_world :: world
  tg_tables :: trigger_tables
  tg_calls :: "(string \<times> string \<times> string \<times> pydict) list"

subsection \<open>Loading\<close>

text \<open>The runs of the model's versions, the highest version first.\<close>

definition version_runs ::
    "trigger_tables \<Rightarrow> world \<Rightarrow> string \<Rightarrow> string \<Rightarrow> string \<Rightarrow> run_row list" where
  "version_runs tt w tenant project model =
     List.map_filter (\<lambda>(m, rid, v). case run_find w rid of None \<Rightarrow> None
         | Some r \<Rightarrow> if r_tenant r = tenant \<and> r_project r = project then Some r else None)
       (rev (sort_key (\<lambda>(m, rid, v). v) (filter (\<lambda>(m, rid, v). m = model) (tt_versions tt))))"

definition resolve_trigger_pipeline ::
    "ext \<Rightarrow> trigger_tables \<Rightarrow> world \<Rightarrow> string \<Rightarrow> string \<Rightarrow> string \<Rightarrow> string option \<times> pydict" where
  "resolve_trigger_pipeline X tt w tenant project model =
     (let mapped = strip (opt_or (map_of (tt_mapping tt) (tenant, project, model)) []) in
      if mapped \<noteq> [] then (Some mapped, [])
      else (case version_runs tt w tenant project model of
          [] \<Rightarrow> (None, [])
        | r # _ \<Rightarrow> (Some (r_pipeline r), dict_or_empty (decode_column X (VDict []) (r_override r)))))"

definition default_cron :: string where "default_cron = ''0 */6 * * *''"

definition policy_of :: "policy_row \<Rightarrow> string \<Rightarrow> pydict \<Rightarrow> policy" where
  "policy_of row pipeline override =
     \<lparr>tp_tenant = tr_tenant row, tp_project = tr_project row, tp_model = tr_model row,
      tp_mode = tr_mode row,
      tp_debounce = max 1 (case tr_debounce row of None \<Rightarrow> 10 | Some n \<Rightarrow> if n = 0 then 10 else n),
      tp_cron = opt_or (tr_cron row) default_cron,
      tp_dataset = tr_dataset row, tp_version = tr_version row, tp_training = tr_training row,
      tp_parallel = tr_parallel row, tp_pipeline = pipeline, tp_override = override\<rparr>"

fun load_policies ::
    "ext \<Rightarrow> trigger_tables \<Rightarrow> policy_row list \<Rightarrow> world \<Rightarrow> policy list \<times> world" where
  "load_policies X tt [] w = ([], w)"
| "load_policies X tt (row # rows) w =
     (case resolve_trigger_pipeline X tt w (tr_tenant row) (tr_project row) (tr_model row) of
        (pipeline, override) \<Rightarrow>
          if opt_or pipeline [] = [] then
            load_policies X tt rows
              (effect (Metric ''trigger_skipped'' [if tr_mode row = [] then ''unknown'' else tr_mode row,
                 ''no_pipeline'']) w)
          else (case load_policies X tt rows w of (ps, w1) \<Rightarrow>
            (policy_of row (opt_or pipeline []) override # ps, w1)))"

definition load_trigger_policies :: "ext \<Rightarrow> trigger_tables \<Rightarrow> world \<Rightarrow> policy list \<times> world" where
  "load_trigger_policies X tt w =
     load_policies X tt
       (filter (\<lambda>row. tr_mode row \<in> {''auto_ready'', ''schedule'', ''drift'', ''slo_breach''}) (tt_policies tt)) w"

subsection \<open>Conditions\<close>

definition merge_trigger_override_config :: "policy \<Rightarrow> pydict" where
  "merge_trigger_override_config p =
     (let vid = strip (opt_or (tp_version p) []); pid = strip (opt_or (tp_training p) []);
          o1 = (if vid = [] then tp_override p else dset ''dataset_version_id'' (VStr vid) (tp_override p))
      in if pid = [] then o1 else dset ''policy_id'' (VStr pid) o1)"

text \<open>\<open>row.get\<close> on a row of the response.\<close>

definition row_dict :: "pyval \<Rightarrow> pydict py" where
  "row_dict v = (case v of VDict d \<Rightarrow> ok d | _ \<Rightarrow> raise TypeError)"

fun policy_eligible :: "string \<Rightarrow> pyval list \<Rightarrow> bool py" where
  "policy_eligible pid [] = ok False"
| "policy_eligible pid (v # vs) = pbind (row_dict v) (\<lambda>row.
     if str_or (dget row ''policy_id'') [] = pid then ok (truthy (dget row ''eligible''))
     else policy_eligible pid vs)"

fun model_eligible :: "string \<Rightarrow> pyval list \<Rightarrow> bool py" where
  "model_eligible mid [] = ok False"
| "model_eligible mid (v # vs) = pbind (row_dict v) (\<lambda>row.
     let row_model = strip (str_or (dget row ''model_id'') []) in
     if (row_model = [] \<or> row_model = mid) \<and> truthy (dget row ''eligible'') then ok True
     else model_eligible mid vs)"

fun any_eligible :: "pyval list \<Rightarrow> bool py" where
  "any_eligible [] = ok False"
| "any_eligible (v # vs) = pbind (row_dict v) (\<lambda>row.
     if truthy (dget row ''eligible'') then ok True else any_eligible vs)"

definition dataset_training_eligible :: "api \<Rightarrow> policy \<Rightarrow> bool py" where
  "dataset_training_eligible A p =
     (let dataset = strip (opt_or (tp_dataset p) []); version = strip (opt_or (tp_version p) []);
          pid = strip (opt_or (tp_training p) []); mid = strip (tp_model p)
      in if dataset = [] \<or> version = [] then ok True
         else (case api_eligibility A (tp_tenant p) (tp_project p) dataset version (some_nonempty pid) of
             None \<Rightarrow> ok False
           | Some data \<Rightarrow>
               if data = [] then ok False
               else pbind (py_iter (por (dget data ''items'') (VList []))) (\<lambda>items.
                 if pid \<noteq> [] then policy_eligible pid items
                 else if mid \<noteq> [] then model_eligible mid items
                 else any_eligible items)))"

text \<open>
  \<open>plugin_context->'auto_trigger'->>'model_id'\<close>; a nested value is the text of no id.
\<close>

definition auto_trigger_model :: "run_row \<Rightarrow> string option" where
  "auto_trigger_model r = (case r_context r of
     VDict d \<Rightarrow> (case dget d ''auto_trigger'' of
        VDict a \<Rightarrow> (case dget a ''model_id'' of
            VStr s \<Rightarrow> Some s | VInt i \<Rightarrow> Some (int_str i)
          | VBool b \<Rightarrow> Some (if b then ''true'' else ''false'') | VFloat f s \<Rightarrow> Some s | _ \<Rightarrow> None)
      | _ \<Rightarrow> None)
   | _ \<Rightarrow> None)"

definition triggered_runs :: "policy \<Rightarrow> world \<Rightarrow> run_row list" where
  "triggered_runs p w = filter (\<lambda>r. r_tenant r = tp_tenant p \<and> r_project r = tp_project p \<and>
     auto_trigger_model r = Some (tp_model p)) (w_runs w)"

definition debounce_open :: "policy \<Rightarrow> world \<Rightarrow> bool" where
  "debounce_open p w = (case rev (sort_key r_created (triggered_runs p w)) of
     [] \<Rightarrow> True
   | r # _ \<Rightarrow> 1000000 * (max 1 (tp_debounce p) * 60) \<le> w_now w - r_created r)"

subsection \<open>Triggering\<close>

definition record_trigger_attempt :: "policy \<Rightarrow> string \<Rightarrow> string option \<Rightarrow> trig \<Rightarrow> trig" where
  "record_trigger_attempt p outcome reason st =
     st\<lparr>tg_tables := (tg_tables st)\<lparr>tt_policies := map (\<lambda>row.
        if tr_tenant row = tp_tenant p \<and> tr_project row = tp_project p \<and> tr_model row = tp_model p
        then row\<lparr>tr_attempted := Some (w_now (tg_world st)), tr_outcome := Some outcome, tr_skip := reason\<rparr>
        else row) (tt_policies (tg_tables st))\<rparr>\<rparr>"

definition check_body :: "pydict \<Rightarrow> pydict" where
  "check_body override =
     (let vid = strip (str_or (dget override ''dataset_version_id'') []); b = [(''override_config'', VDict override)]
      in if vid = [] then b else dset ''dataset_version_id'' (VStr vid) b)"

definition trigger_idempotency :: "policy \<Rightarrow> string \<Rightarrow> int \<Rightarrow> string" where
  "trigger_idempotency p reason now = ''auto:'' @ tp_model p @ '':'' @ reason @ '':'' @ minute_stamp now"

definition run_payload :: "policy \<Rightarrow> string \<Rightarrow> int \<Rightarrow> pydict" where
  "run_payload p reason now =
     (let override = merge_trigger_override_config p;
          vid = strip (str_or (dget override ''dataset_version_id'') []);
          b = [(''pipeline_id'', VStr (tp_pipeline p)),
               (''idempotency_key'', VStr (trigger_idempotency p reason now)),
               (''priority'', VStr ''normal''),
               (''max_parallel_tasks'', VInt (case tp_parallel p of None \<Rightarrow> 1 | Some n \<Rightarrow> max 1 n)),
               (''override_config'', VDict override),
               (''context'', VDict
                  [(''auto_trigger'', VDict [(''model_id'', VStr (tp_model p)), (''reason'', VStr reason)]),
                   (''mlair_model_id'', VStr (tp_model p))])]
      in if vid = [] then b else dset ''dataset_version_id'' (VStr vid) b)"

definition request_run :: "api \<Rightarrow> policy \<Rightarrow> string \<Rightarrow> trig \<Rightarrow> (bool \<times> string) \<times> trig" where
  "request_run A p reason st =
     (let w = tg_world st; body = run_payload p reason (w_now w);
          call = (tp_tenant p, tp_project p, tp_pipeline p, body);
          res = api_run A (tp_tenant p) (tp_project p) (tp_pipeline p) body w;
          st1 = st\<lparr>tg_world := snd res, tg_calls := tg_calls st @ [call]\<rparr>
      in case fst res of
           Some out \<Rightarrow>
             if truthy (dget out ''run_id'')
             then ((True, ''triggered''),
                   st1\<lparr>tg_world := effect (Metric ''trigger_triggered'' [tp_mode p, reason]) (snd res)\<rparr>)
             else ((False, ''api_error''), st1)
         | None \<Rightarrow> ((False, ''api_error''), st1))"

definition check_ready :: "pydict option \<Rightarrow> bool" where
  "check_ready c = (case c of None \<Rightarrow> False | Some d \<Rightarrow> truthy (dget d ''ready''))"

definition trigger_policy_run :: "api \<Rightarrow> policy \<Rightarrow> string \<Rightarrow> trig \<Rightarrow> (bool \<times> string) py \<times> trig" where
  "trigger_policy_run A p reason st =
     (if reason \<noteq> ''auto_ready'' then (case request_run A p reason st of (r, st1) \<Rightarrow> (ok r, st1))
      else (case dataset_training_eligible A p of
          Inl e \<Rightarrow> (Inl e, st)
        | Inr False \<Rightarrow> (ok (False, ''not_eligible''), st)
        | Inr True \<Rightarrow>
            (case api_check A (tp_tenant p) (tp_project p) (tp_pipeline p)
                 (check_body (merge_trigger_override_config p)) (tg_world st) of
               (c, w1) \<Rightarrow>
                 if \<not> check_ready c then (ok (False, ''gate_blocked''), st\<lparr>tg_world := w1\<rparr>)
                 else (case request_run A p reason (st\<lparr>tg_world := w1\<rparr>) of (r, st1) \<Rightarrow> (ok r, st1)))))"

definition skip_policy :: "policy \<Rightarrow> string \<Rightarrow> trig \<Rightarrow> trig" where
  "skip_policy p reason st =
     record_trigger_attempt p ''skipped'' (Some reason)
       (st\<lparr>tg_world := effect (Metric ''trigger_skipped'' [tp_mode p, reason]) (tg_world st)\<rparr>)"

definition settle_trigger :: "policy \<Rightarrow> (bool \<times> string) py \<times> trig \<Rightarrow> unit py \<times> trig" where
  "settle_trigger p res = (case res of
     (Inl e, st) \<Rightarrow> (Inl e, st)
   | (Inr (True, _), st) \<Rightarrow> (ok (), record_trigger_attempt p ''triggered'' None st)
   | (Inr (False, reason), st) \<Rightarrow> (ok (), skip_policy p reason st))"

definition process_policy :: "api \<Rightarrow> int \<Rightarrow> policy \<Rightarrow> trig \<Rightarrow> unit py \<times> trig" where
  "process_policy A now p st0 =
     (let st = st0\<lparr>tg_world := effect (Metric ''trigger_evaluated'' [tp_mode p]) (tg_world st0)\<rparr> in
      if \<not> debounce_open p (tg_world st) then (ok (), skip_policy p ''debounce'' st)
      else if tp_mode p = ''auto_ready'' then settle_trigger p (trigger_policy_run A p ''auto_ready'' st)
      else if tp_mode p = ''schedule'' then
        (if \<not> cron_due (tp_cron p) now
         then (ok (), st\<lparr>tg_world := effect (Metric ''trigger_skipped'' [tp_mode p, ''cron_not_due'']) (tg_world st)\<rparr>)
         else (case (if opt_or (tp_version p) [] = [] then ok True else dataset_training_eligible A p) of
             Inl e \<Rightarrow> (Inl e, st)
           | Inr False \<Rightarrow> (ok (), skip_policy p ''not_eligible'' st)
           | Inr True \<Rightarrow> settle_trigger p (trigger_policy_run A p ''schedule'' st)))
      else (ok (), st))"

fun process_policies :: "api \<Rightarrow> int \<Rightarrow> policy list \<Rightarrow> trig \<Rightarrow> unit py \<times> trig" where
  "process_policies A now [] st = (ok (), st)"
| "process_policies A now (p # ps) st = (case process_policy A now p st of
     (Inl e, st1) \<Rightarrow> (Inl e, st1) | (Inr _, st1) \<Rightarrow> process_policies A now ps st1)"

definition process_trigger_policies :: "api \<Rightarrow> ext \<Rightarrow> trig \<Rightarrow> unit py \<times> trig" where
  "process_trigger_policies A X st =
     (case load_trigger_policies X (tg_tables st) (tg_world st) of (ps, w1) \<Rightarrow>
        process_policies A (w_now (tg_world st)) ps (st\<lparr>tg_world := w1\<rparr>))"

subsection \<open>When a run is requested\<close>

lemma debounce_open_iff:
  "debounce_open p w \<longleftrightarrow>
     (\<forall>r \<in> set (triggered_runs p w). 60000000 * max 1 (tp_debounce p) \<le> w_now w - r_created r)"
proof (cases "rev (sort_key r_created (triggered_runs p w))")
  case Nil
  then have "triggered_runs p w = []" by (metis rev_is_Nil_conv set_empty set_sort)
  then show ?thesis by (simp add: debounce_open_def)
next
  case (Cons r rs)
  have "sorted (map r_created (sort_key r_created (triggered_runs p w)))" by simp
  moreover have s: "sort_key r_created (triggered_runs p w) = rev rs @ [r]"
    using Cons by (metis rev.simps(2) rev_swap)
  ultimately have "\<forall>x \<in> set rs. r_created x \<le> r_created r"
    by (auto simp: sorted_append)
  moreover have "set (triggered_runs p w) = insert r (set rs)"
    using s by (metis set_sort set_append set_rev list.simps(15) empty_set Un_insert_right sup_bot_right list.set(1))
  ultimately show ?thesis using Cons by (auto simp: debounce_open_def)
qed

text \<open>The declarative condition, on the tables when the policy is looked at.\<close>

definition run_wanted :: "api \<Rightarrow> int \<Rightarrow> policy \<Rightarrow> world \<Rightarrow> bool" where
  "run_wanted A now p w =
     ((\<forall>r \<in> set (triggered_runs p w). 60000000 * max 1 (tp_debounce p) \<le> w_now w - r_created r) \<and>
      (if tp_mode p = ''auto_ready'' then
         dataset_training_eligible A p = Inr True \<and>
         check_ready (fst (api_check A (tp_tenant p) (tp_project p) (tp_pipeline p)
           (check_body (merge_trigger_override_config p)) (effect (Metric ''trigger_evaluated'' [tp_mode p]) w)))
       else tp_mode p = ''schedule'' \<and> cron_due (tp_cron p) now \<and>
         (opt_or (tp_version p) [] = [] \<or> dataset_training_eligible A p = Inr True)))"

lemma effect_runs [simp]: "triggered_runs p (effect c w) = triggered_runs p w" "w_now (effect c w) = w_now w"
  by (simp_all add: triggered_runs_def effect_def)

lemma record_calls [simp]: "tg_calls (record_trigger_attempt p o' r st) = tg_calls st"
  "tg_calls (skip_policy p s st) = tg_calls st"
  by (simp_all add: record_trigger_attempt_def skip_policy_def)

lemma settle_calls [simp]: "tg_calls (snd (settle_trigger p res)) = tg_calls (snd res)"
  by (auto simp: settle_trigger_def split: prod.split sum.split bool.split)

lemma request_calls: "\<exists>now. tg_calls (snd (request_run A p reason st)) =
    tg_calls st @ [(tp_tenant p, tp_project p, tp_pipeline p, run_payload p reason now)]"
  by (auto simp: request_run_def Let_def split: option.split)



end
