(* ===== verification/Admission.thy ===== *)
theory Admission
  imports RunService
begin

text \<open>
  Model of \<^verbatim>\<open>governance/admission_decision.py\<close> and \<^verbatim>\<open>governance/admission_queue_service.py\<close>: the
  resources of the cluster and what is in use, the decision about a request (accept, reject, defer),
  the queue of deferred requests and its flush by the scheduler. Floats are exact, without rounding.
\<close>

subsection \<open>Demand and capacity\<close>

definition epsilon :: pyfloat where "epsilon = Fin (1 / 1000000000)"

text \<open>More than the bound, beyond rounding.\<close>

definition exceeds :: "pyfloat \<Rightarrow> pyfloat \<Rightarrow> bool" where
  "exceeds a b = fgt a (fadd b epsilon)"

definition ternary_enabled :: "world \<Rightarrow> bool" where
  "ternary_enabled w = (lower (strip (getenv w ''ML_AIR_ADMISSION_TERNARY_ENABLED'' ''1''))
     \<notin> {''0'', ''false'', ''no'', ''off''})"

definition env_float :: "world \<Rightarrow> string \<Rightarrow> pyfloat \<Rightarrow> pyfloat" where
  "env_float w name dflt = (let raw = strip (getenv w name []) in
     if raw = [] then dflt else case parse_float raw of None \<Rightarrow> dflt | Some f \<Rightarrow> f)"

definition env_int :: "world \<Rightarrow> string \<Rightarrow> int \<Rightarrow> int" where
  "env_int w name dflt = (let raw = strip (getenv w name []) in
     if raw = [] then dflt else case parse_int raw of None \<Rightarrow> dflt | Some n \<Rightarrow> n)"

record demand =
  dm_cpu :: pyfloat
  dm_memory :: pyfloat
  dm_gpu :: pyfloat
  dm_tasks :: pyfloat

definition default_task_demand :: "world \<Rightarrow> demand" where
  "default_task_demand w =
     \<lparr>dm_cpu = fpos (env_float w ''ML_AIR_ADMISSION_TASK_CPU'' (Fin 1)),
      dm_memory = fpos (env_float w ''ML_AIR_ADMISSION_TASK_MEMORY_MB'' (Fin 512)),
      dm_gpu = fpos (env_float w ''ML_AIR_ADMISSION_TASK_GPU'' (Fin 0)), dm_tasks = Fin 1\<rparr>"

text \<open>\<open>cpus\<close> is what the host says it has.\<close>

definition cluster_capacity :: "int \<Rightarrow> world \<Rightarrow> demand" where
  "cluster_capacity cpus w =
     \<lparr>dm_cpu = fpos (env_float w ''ML_AIR_CLUSTER_CPU'' (Fin (of_int cpus))),
      dm_memory = fpos (env_float w ''ML_AIR_CLUSTER_MEMORY_MB'' (Fin 8192)),
      dm_gpu = fpos (env_float w ''ML_AIR_CLUSTER_GPU'' (Fin 0)),
      dm_tasks = Fin (of_int (max 0 (env_int w ''ML_AIR_CLUSTER_MAX_TASKS'' 32)))\<rparr>"

definition demand_field :: "pydict \<Rightarrow> string \<Rightarrow> pyfloat \<Rightarrow> pyfloat py" where
  "demand_field src key dflt =
     (if dget src key = VNone then ok dflt
      else case py_float (dget src key) of
          Inr f \<Rightarrow> ok (fpos f) | Inl OverflowError \<Rightarrow> raise OverflowError | Inl _ \<Rightarrow> ok dflt)"

definition parse_demand :: "world \<Rightarrow> pydict \<Rightarrow> demand py" where
  "parse_demand w override =
     (let d = default_task_demand w;
          src = dict_or_empty (por (dget override ''resources'') (dget override ''admission''))
      in pbind (demand_field src ''cpu'' (dm_cpu d)) (\<lambda>cpu.
         pbind (demand_field src ''memory_mb'' (dm_memory d)) (\<lambda>memory.
         pbind (demand_field src ''gpu'' (dm_gpu d)) (\<lambda>gpu.
         pbind (demand_field src ''tasks'' (dm_tasks d)) (\<lambda>tasks.
           ok \<lparr>dm_cpu = cpu, dm_memory = memory, dm_gpu = gpu,
               dm_tasks = (if fgt (Fin 1) tasks then Fin 1 else tasks)\<rparr>)))))"

record resource_state =
  rs_available :: demand
  rs_capacity :: demand
  rs_tasks :: int
  rs_reserved :: int
  rs_budget :: int
  rs_tenant_reserved :: int

record occupancy =
  oc_active :: int
  oc_pending :: int
  oc_tenant_active :: int
  oc_tenant_pending :: int

text \<open>\<open>max(0.0, capacity - n * unit)\<close>\<close>

definition left_of :: "pyfloat \<Rightarrow> int \<Rightarrow> pyfloat \<Rightarrow> pyfloat" where
  "left_of cap n unit = fpos (fadd cap (fneg (fscale n unit)))"

definition build_resource_state :: "int \<Rightarrow> world \<Rightarrow> occupancy \<Rightarrow> int \<Rightarrow> resource_state" where
  "build_resource_state cpus w oc budget =
     (let cap = cluster_capacity cpus w; unit = default_task_demand w;
          reserved = max 0 (oc_active oc + oc_pending oc)
      in \<lparr>rs_available = \<lparr>dm_cpu = left_of (dm_cpu cap) reserved (dm_cpu unit),
            dm_memory = left_of (dm_memory cap) reserved (dm_memory unit),
            dm_gpu = left_of (dm_gpu cap) reserved (dm_gpu unit), dm_tasks = dm_tasks cap\<rparr>,
          rs_capacity = cap,
          rs_tasks = max 0 (env_int w ''ML_AIR_CLUSTER_MAX_TASKS'' 32),
          rs_reserved = reserved,
          rs_budget = max 1 budget,
          rs_tenant_reserved = max 0 (oc_tenant_active oc + oc_tenant_pending oc)\<rparr>)"

subsection \<open>The decision\<close>

datatype decision = Accept | Reject | Defer

definition never_fits :: "resource_state \<Rightarrow> demand \<Rightarrow> bool" where
  "never_fits s req =
     (exceeds (dm_cpu req) (dm_cpu (rs_capacity s)) \<or>
      exceeds (dm_memory req) (dm_memory (rs_capacity s)) \<or>
      exceeds (dm_gpu req) (dm_gpu (rs_capacity s)) \<or>
      rs_tasks s \<noteq> 0 \<and> exceeds (dm_tasks req) (Fin (of_int (rs_tasks s))))"

definition no_room :: "resource_state \<Rightarrow> demand \<Rightarrow> bool" where
  "no_room s req =
     (exceeds (dm_cpu req) (dm_cpu (rs_available s)) \<or>
      exceeds (dm_memory req) (dm_memory (rs_available s)) \<or>
      exceeds (dm_gpu req) (dm_gpu (rs_available s)))"

definition int_float :: "pyfloat \<Rightarrow> int py" where
  "int_float f = py_int (VFloat f [])"

definition classify_resources :: "resource_state \<Rightarrow> demand \<Rightarrow> (decision \<times> string) py" where
  "classify_resources s req =
     (if never_fits s req then ok (Reject, ''RESOURCE_CAPACITY'')
      else if no_room s req then ok (Defer, ''RESOURCE_BUSY'')
      else pbind (int_float (dm_tasks req)) (\<lambda>tasks.
        if rs_tasks s \<noteq> 0 \<and> rs_tasks s < rs_reserved s + tasks then ok (Defer, ''RESOURCE_BUSY'')
        else if rs_budget s < rs_tenant_reserved s + tasks then ok (Defer, ''TENANT_BUDGET'')
        else ok (Accept, ''ok'')))"

definition classify_admission ::
    "bool \<Rightarrow> string \<Rightarrow> bool \<Rightarrow> bool \<Rightarrow> resource_state \<Rightarrow> demand \<Rightarrow> (decision \<times> string) py" where
  "classify_admission policy_blocking policy_reason quota_exceeded enabled s req =
     (if policy_blocking
      then ok (Reject, if policy_reason = [] then ''POLICY_BLOCKED'' else policy_reason)
      else if quota_exceeded then ok (Reject, ''TENANT_QUOTA'')
      else if \<not> enabled then ok (Accept, ''ok'')
      else classify_resources s req)"

definition counts_as_active :: "world \<Rightarrow> task_row \<Rightarrow> bool" where
  "counts_as_active w t =
     (upper (t_status t) = ''RUNNING'' \<or>
      upper (t_status t) = ''QUEUED'' \<and>
      lower (strip (getenv w ''ML_AIR_TASK_EXECUTION_MODE'' ''internal'')) = ''external'')"

definition snapshot_occupancy :: "string \<Rightarrow> world \<Rightarrow> occupancy" where
  "snapshot_occupancy tenant w =
     (let live = (\<lambda>r. upper (r_status r) \<in> {''PENDING'', ''RUNNING''});
          active = (\<lambda>q. length (filter (\<lambda>t. counts_as_active w t \<and>
             (case run_find w (t_run t) of None \<Rightarrow> False | Some r \<Rightarrow> live r \<and> q r)) (w_tasks w)));
          pending = (\<lambda>q. length (filter (\<lambda>r. upper (r_status r) = ''PENDING'' \<and> q r \<and>
             \<not> list_ex (\<lambda>t. t_run t = r_id r \<and> upper (t_status t) \<in> {''RUNNING'', ''QUEUED''}) (w_tasks w))
             (w_runs w)));
          mine = (\<lambda>r. r_tenant r = strip tenant)
      in \<lparr>oc_active = int (active (\<lambda>r. True)), oc_pending = int (pending (\<lambda>r. True)),
          oc_tenant_active = int (active mine), oc_tenant_pending = int (pending mine)\<rparr>)"

definition snapshot_resource_state :: "services \<Rightarrow> int \<Rightarrow> string \<Rightarrow> world \<Rightarrow> resource_state" where
  "snapshot_resource_state S cpus tenant w =
     build_resource_state cpus w (snapshot_occupancy tenant w)
       (case platform_quota_limits (s_l4 S) w of
          Inl _ \<Rightarrow> 1000 | Inr defaults \<Rightarrow> tenant_max_parallel_tasks (s_catalog S) defaults tenant)"

subsection \<open>The queue of deferred requests\<close>

record deferred =
  df_id :: string
  df_tenant :: string
  df_project :: string
  df_idempotency :: "string option"
  df_status :: string
  df_reason :: string
  df_demand :: demand
  df_request :: run_request
  df_run :: "string option"
  df_created :: int
  df_updated :: int
  df_admitted :: "int option"

record decided =
  dc_tenant :: string
  dc_project :: string
  dc_decision :: decision
  dc_reason :: string
  dc_run :: "string option"
  dc_deferred :: "string option"

record admissions =
  ad_world :: world
  ad_queue :: "deferred list"
  ad_log :: "decided list"

definition record_admission_decision ::
    "string \<Rightarrow> string \<Rightarrow> decision \<Rightarrow> string \<Rightarrow> string option \<Rightarrow> string option \<Rightarrow> admissions \<Rightarrow> admissions" where
  "record_admission_decision tenant project d reason run did a =
     a\<lparr>ad_log := ad_log a @ [\<lparr>dc_tenant = tenant, dc_project = project, dc_decision = d,
        dc_reason = reason, dc_run = run, dc_deferred = did\<rparr>]\<rparr>"

definition enqueue_deferred ::
    "string \<Rightarrow> run_request \<Rightarrow> demand \<Rightarrow> string \<Rightarrow> admissions \<Rightarrow> (string \<times> string \<times> bool) \<times> admissions" where
  "enqueue_deferred did q req reason a =
     (let idem = (if opt_or (cr_idempotency q) [] = [] then None
                  else Some (strip (opt_or (cr_idempotency q) [])));
          hit = (if opt_or idem [] = [] then None
                 else find (\<lambda>d. df_tenant d = cr_tenant q \<and> df_project d = cr_project q \<and>
                        df_idempotency d = idem \<and> df_status d = ''pending'') (ad_queue a))
      in case hit of
           Some d \<Rightarrow> ((df_id d, if df_reason d = [] then reason else df_reason d, True), a)
         | None \<Rightarrow>
            ((did, reason, False),
             record_admission_decision (cr_tenant q) (cr_project q) Defer reason None (Some did)
               (a\<lparr>ad_queue := ad_queue a @ [\<lparr>df_id = did, df_tenant = cr_tenant q,
                 df_project = cr_project q, df_idempotency = idem, df_status = ''pending'',
                 df_reason = reason, df_demand = req, df_request = q, df_run = None,
                 df_created = w_now (ad_world a), df_updated = w_now (ad_world a),
                 df_admitted = None\<rparr>]\<rparr>)))"

datatype admission = Created pydict | Queued string | Refused string

text \<open>\<open>rid\<close> and \<open>did\<close> are the ids generated for a run and for a deferred request.\<close>

definition admit_create_run ::
    "ext \<Rightarrow> services \<Rightarrow> int \<Rightarrow> string \<Rightarrow> string \<Rightarrow> run_request \<Rightarrow> admissions \<Rightarrow> admission py \<times> admissions" where
  "admit_create_run X S cpus rid did q a =
     (let w = ad_world a in
      case pbind (parse_demand w (cr_override q)) (\<lambda>req.
             pbind (classify_admission False [] False (ternary_enabled w)
                 (snapshot_resource_state S cpus (cr_tenant q) w) req) (\<lambda>dr. ok (req, dr))) of
        Inl e \<Rightarrow> (Inl e, a)
      | Inr (req, Defer, reason) \<Rightarrow>
          (case enqueue_deferred did q req reason a of ((aid, _), a1) \<Rightarrow> (ok (Queued aid), a1))
      | Inr (req, Reject, reason) \<Rightarrow>
          (ok (Refused reason),
           record_admission_decision (cr_tenant q) (cr_project q) Reject reason None None a)
      | Inr (req, Accept, reason) \<Rightarrow>
          (case create_run X S rid q w of
             (Inl e, w1) \<Rightarrow> (Inl e, a\<lparr>ad_world := w1\<rparr>)
           | (Inr run, w1) \<Rightarrow>
               (ok (Created run),
                record_admission_decision (cr_tenant q) (cr_project q) Accept reason
                  (Some (str_or (dget run ''run_id'') [])) None (a\<lparr>ad_world := w1\<rparr>))))"

text \<open>\<open>UPDATE admission_deferred ... WHERE id = %s AND status = 'pending'\<close>\<close>

definition settle_deferred :: "string \<Rightarrow> (deferred \<Rightarrow> deferred) \<Rightarrow> admissions \<Rightarrow> admissions" where
  "settle_deferred did f a = a\<lparr>ad_queue :=
     map (\<lambda>d. if df_id d = did \<and> df_status d = ''pending'' then f d else d) (ad_queue a)\<rparr>"

text \<open>One row of the flush: whether a run came of it. \<open>newid\<close> gives the id of a run that is created.\<close>

definition flush_row ::
    "ext \<Rightarrow> services \<Rightarrow> int \<Rightarrow> (string \<Rightarrow> string) \<Rightarrow> deferred \<Rightarrow> admissions \<Rightarrow> bool py \<times> admissions" where
  "flush_row X S cpus newid d a =
     (let w = ad_world a in
      case classify_admission False [] False (ternary_enabled w)
             (snapshot_resource_state S cpus (df_tenant d) w) (df_demand d) of
        Inl e \<Rightarrow> (Inl e, a)
      | Inr (Defer, reason) \<Rightarrow> (ok False, a)
      | Inr (Reject, reason) \<Rightarrow>
          (ok False,
           record_admission_decision (df_tenant d) (df_project d) Reject reason None (Some (df_id d))
             (settle_deferred (df_id d) (\<lambda>x. x\<lparr>df_status := ''cancelled'', df_reason := reason,
                df_updated := w_now w\<rparr>) a))
      | Inr (Accept, reason) \<Rightarrow>
          (case create_run X S (newid (df_id d)) (df_request d) w of
             (Inl e, w1) \<Rightarrow> (ok False, a\<lparr>ad_world := w1\<rparr>)
           | (Inr run, w1) \<Rightarrow>
              (let rid = str_or (dget run ''run_id'') [] in
               (ok True,
                record_admission_decision (df_tenant d) (df_project d) Accept reason (Some rid)
                  (Some (df_id d))
                  (settle_deferred (df_id d) (\<lambda>x. x\<lparr>df_status := ''admitted'', df_run := Some rid,
                     df_reason := reason, df_admitted := Some (w_now w), df_updated := w_now w\<rparr>)
                     (a\<lparr>ad_world := w1\<rparr>))))))"

fun flush_rows ::
    "ext \<Rightarrow> services \<Rightarrow> int \<Rightarrow> (string \<Rightarrow> string) \<Rightarrow> deferred list \<Rightarrow> nat \<Rightarrow> admissions \<Rightarrow> nat py \<times> admissions" where
  "flush_rows X S cpus newid [] n a = (ok n, a)"
| "flush_rows X S cpus newid (d # ds) n a = (case flush_row X S cpus newid d a of
     (Inl e, a1) \<Rightarrow> (Inl e, a1)
   | (Inr admitted, a1) \<Rightarrow> flush_rows X S cpus newid ds (if admitted then Suc n else n) a1)"

definition flush_candidates :: "int \<Rightarrow> admissions \<Rightarrow> deferred list" where
  "flush_candidates limit a =
     take (nat (max 1 limit)) (sort_key df_created (filter (\<lambda>d. df_status d = ''pending'') (ad_queue a)))"

definition flush_deferred_admissions ::
    "ext \<Rightarrow> services \<Rightarrow> int \<Rightarrow> (string \<Rightarrow> string) \<Rightarrow> int \<Rightarrow> admissions \<Rightarrow> nat py \<times> admissions" where
  "flush_deferred_admissions X S cpus newid limit a =
     flush_rows X S cpus newid (flush_candidates limit a) 0 a"

subsection \<open>What the API shows\<close>

definition shown_decision :: "deferred \<Rightarrow> decision" where
  "shown_decision d = (if df_status d = ''admitted'' then Accept
     else if df_status d = ''cancelled'' then Reject else Defer)"

definition get_deferred :: "string \<Rightarrow> admissions \<Rightarrow> (deferred \<times> decision) option" where
  "get_deferred did a =
     map_option (\<lambda>d. (d, shown_decision d)) (find (\<lambda>d. df_id d = did) (ad_queue a))"

record admission_counts =
  ac_accept :: nat
  ac_reject :: nat
  ac_defer :: nat
  ac_total :: nat
  ac_ratio :: rat
  ac_pending :: nat

definition admission_stats :: "string \<Rightarrow> string \<Rightarrow> admissions \<Rightarrow> admission_counts" where
  "admission_stats tenant project a =
     (let count = (\<lambda>v. length (filter (\<lambda>e. dc_tenant e = tenant \<and> dc_project e = project \<and>
            dc_decision e = v) (ad_log a)));
          total = count Accept + count Reject + count Defer
      in \<lparr>ac_accept = count Accept, ac_reject = count Reject, ac_defer = count Defer,
          ac_total = total,
          ac_ratio = (if total = 0 then 0 else of_nat (count Defer) / of_nat total),
          ac_pending = length (filter (\<lambda>d. df_tenant d = tenant \<and> df_project d = project \<and>
            df_status d = ''pending'') (ad_queue a))\<rparr>)"

end
