(* ===== verification/AdmissionSafety.thy ===== *)
theory AdmissionSafety
  imports Admission RunSafety
begin

text \<open>
  What \<open>Admission\<close> guarantees: a demand is well formed, an accepted request fits what is left, the
  flush settles each deferred request at most once and with a run that exists. It does not look past
  the oldest requests, and never gives up on one that its tenant's budget cannot hold.
\<close>

subsection \<open>Demands\<close>

definition amount :: "pyfloat \<Rightarrow> bool" where
  "amount f = (case f of Fin q \<Rightarrow> 0 \<le> q | PosInf \<Rightarrow> True | _ \<Rightarrow> False)"

definition demand_ok :: "demand \<Rightarrow> bool" where
  "demand_ok d = (amount (dm_cpu d) \<and> amount (dm_memory d) \<and> amount (dm_gpu d) \<and>
     amount (dm_tasks d) \<and> \<not> fgt (Fin 1) (dm_tasks d))"

lemma amount_fpos [simp]: "amount (fpos f)"
  by (cases f) (auto simp: fpos_def fgt_def amount_def)

lemma amount_count [simp]: "0 \<le> q \<Longrightarrow> amount (Fin q)"
  by (simp add: amount_def)

lemma demand_field_amount: "demand_field src key dflt = Inr f \<Longrightarrow> amount dflt \<Longrightarrow> amount f"
  by (auto simp: demand_field_def split: if_splits sum.splits pyerr.splits)

lemma default_demand_amounts [simp]:
  "amount (dm_cpu (default_task_demand w))" "amount (dm_memory (default_task_demand w))"
  "amount (dm_gpu (default_task_demand w))" "amount (dm_tasks (default_task_demand w))"
  by (simp_all add: default_task_demand_def)

text \<open>
  The demand a request may state is well formed whatever it says: each amount is a number or
  infinite, never negative and never NaN, and it is for one task at least.
\<close>

theorem parse_demand_typed:
  assumes "parse_demand w override = Inr d"
  shows "demand_ok d"
proof -
  obtain c m g t where fields: "amount c" "amount m" "amount g" "amount t"
    and d: "d = \<lparr>dm_cpu = c, dm_memory = m, dm_gpu = g, dm_tasks = if fgt (Fin 1) t then Fin 1 else t\<rparr>"
    using assms by (auto simp: parse_demand_def Let_def pbind_def split: sum.splits
        dest!: demand_field_amount)
  have "\<not> fgt (Fin 1) (Fin 1)" by (simp add: fgt_def)
  then show ?thesis by (simp add: demand_ok_def d fields)
qed

subsection \<open>The decision\<close>

lemma exceeds_exact:
  "\<not> exceeds (Fin p) (Fin q) \<longleftrightarrow> p \<le> q + 1 / 1000000000"
  by (auto simp: exceeds_def fadd_def epsilon_def fgt_def)


text \<open>
  A request for more tasks than its tenant may ever run is deferred whatever is in use, also when
  nothing is: it is neither refused nor will a flush ever admit it.
\<close>

theorem over_budget_always_deferred:
  assumes "dm_tasks req = Fin t" and "max 1 budget < trunc_rat t"
    and "\<not> never_fits (build_resource_state cpus w oc budget) req"
  shows "\<exists>reason. classify_admission False why False True (build_resource_state cpus w oc' budget) req
    = Inr (Defer, reason)"
proof -
  have "\<not> never_fits (build_resource_state cpus w oc' budget) req"
    using assms(3) by (simp add: never_fits_def build_resource_state_def Let_def)
  moreover have "rs_budget (build_resource_state cpus w oc' budget)
      < rs_tenant_reserved (build_resource_state cpus w oc' budget) + trunc_rat t"
    using assms(2) by (auto simp: build_resource_state_def Let_def)
  ultimately show ?thesis
    using assms(1) by (simp add: classify_admission_def classify_resources_def int_float_def)
qed

subsection \<open>The flush\<close>

text \<open>A row of the queue before and after: only a pending one changes, and it is settled for good.\<close>

definition settles :: "deferred \<Rightarrow> deferred \<Rightarrow> bool" where
  "settles d d' = (d' = d \<or> df_status d = ''pending'' \<and>
     df_status d' \<in> {''admitted'', ''cancelled''} \<and> df_id d' = df_id d \<and>
     df_request d' = df_request d \<and> df_demand d' = df_demand d \<and> df_created d' = df_created d)"

definition admitted_rows :: "admissions \<Rightarrow> nat" where
  "admitted_rows a = length (filter (\<lambda>d. df_status d = ''admitted'') (ad_queue a))"

definition backed :: "world \<Rightarrow> deferred \<Rightarrow> bool" where
  "backed w d = (\<exists>rid. df_run d = Some rid \<and> run_find w rid \<noteq> None)"

definition flushed :: "admissions \<Rightarrow> nat \<Rightarrow> admissions \<Rightarrow> bool" where
  "flushed a n a' =
     (list_all2 settles (ad_queue a) (ad_queue a') \<and>
      admitted_rows a' = admitted_rows a + n \<and>
      (\<forall>d\<in>set (ad_queue a'). d \<in> set (ad_queue a) \<or> df_status d = ''cancelled'' \<or>
         df_status d = ''admitted'' \<and> backed (ad_world a') d) \<and>
      w_tasks (ad_world a') = w_tasks (ad_world a) \<and>
      (\<exists>new. w_runs (ad_world a') = w_runs (ad_world a) @ new \<and> length new \<le> n))"

lemma settles_refl [simp]: "settles d d"
  by (simp add: settles_def)

lemma settles_trans: "settles a b \<Longrightarrow> settles b c \<Longrightarrow> settles a c"
  by (auto simp: settles_def)

lemma settles_id: "settles d d' \<Longrightarrow> df_id d' = df_id d"
  by (auto simp: settles_def)

lemma settles_all_refl [simp]: "list_all2 settles q q"
  by (rule list.rel_refl) simp

lemma settles_ids: "list_all2 settles q q' \<Longrightarrow> map df_id q' = map df_id q"
  by (induction rule: list_all2_induct) (simp_all add: settles_id)

lemma flushed_refl [simp]: "flushed a 0 a"
  by (simp add: flushed_def)

lemma run_find_append: "run_find w rid \<noteq> None \<Longrightarrow> w_runs w' = w_runs w @ new \<Longrightarrow> run_find w' rid \<noteq> None"
  by (auto simp: run_find_def find_None_iff)

lemma backed_later: "backed w d \<Longrightarrow> w_runs w' = w_runs w @ new \<Longrightarrow> backed w' d"
  unfolding backed_def by (metis run_find_append)

lemma flushed_trans:
  assumes ab: "flushed a n b" and bc: "flushed b m c"
  shows "flushed a (n + m) c"
proof -
  obtain new1 new2 where runs: "w_runs (ad_world b) = w_runs (ad_world a) @ new1" "length new1 \<le> n"
      "w_runs (ad_world c) = w_runs (ad_world b) @ new2" "length new2 \<le> m"
    using ab bc unfolding flushed_def by blast
  have "list_all2 settles (ad_queue a) (ad_queue c)"
    using ab bc list_all2_trans [of settles settles settles] settles_trans
    unfolding flushed_def by blast
  moreover have "d \<in> set (ad_queue a) \<or> df_status d = ''cancelled'' \<or>
      df_status d = ''admitted'' \<and> backed (ad_world c) d" if "d \<in> set (ad_queue c)" for d
    using that ab bc backed_later [OF _ runs(3)] unfolding flushed_def by blast
  moreover have "\<exists>new. w_runs (ad_world c) = w_runs (ad_world a) @ new \<and> length new \<le> n + m"
    using runs by (intro exI [of _ "new1 @ new2"]) simp
  ultimately show ?thesis
    using ab bc unfolding flushed_def by simp
qed

text \<open>Settling one pending row of a queue without duplicate ids.\<close>

lemma settle_absent: "did \<notin> df_id ` set q \<Longrightarrow> map (\<lambda>d. if df_id d = did \<and> P d then f d else d) q = q"
  by (induction q) auto

lemma settle_one:
  assumes "distinct (map df_id q)" and "d \<in> set q" and "df_status d = ''pending''"
    and "settles d (f d)"
  shows "list_all2 settles q (map (\<lambda>x. if df_id x = df_id d \<and> df_status x = ''pending'' then f x else x) q) \<and>
    length (filter (\<lambda>x. df_status x = ''admitted'')
        (map (\<lambda>x. if df_id x = df_id d \<and> df_status x = ''pending'' then f x else x) q)) =
      length (filter (\<lambda>x. df_status x = ''admitted'') q)
        + (if df_status (f d) = ''admitted'' then 1 else 0) \<and>
    set (map (\<lambda>x. if df_id x = df_id d \<and> df_status x = ''pending'' then f x else x) q) \<subseteq> insert (f d) (set q)"
  using assms(1,2)
proof (induction q)
  case (Cons x q)
  show ?case
  proof (cases "x = d")
    case True
    then show ?thesis
      using Cons.prems assms(3,4) by (auto simp: settle_absent)
  next
    case False
    then have "d \<in> set q" "df_id x \<noteq> df_id d"
      using Cons.prems by (auto simp: rev_image_eqI)
    then show ?thesis
      using Cons.IH Cons.prems by auto
  qed
qed simp

lemma settle_flushed:
  assumes "distinct (map df_id (ad_queue a))" and "d \<in> set (ad_queue a)"
    and "df_status d = ''pending''" and "settles d (f d)"
    and "ad_queue b = map (\<lambda>x. if df_id x = df_id d \<and> df_status x = ''pending'' then f x else x) (ad_queue a)"
    and "df_status (f d) = ''cancelled'' \<or> df_status (f d) = ''admitted'' \<and> backed (ad_world b) (f d)"
    and "w_tasks (ad_world b) = w_tasks (ad_world a)"
    and "w_runs (ad_world b) = w_runs (ad_world a) @ new"
    and "length new \<le> n" and "n = (if df_status (f d) = ''admitted'' then 1 else 0)"
  shows "flushed a n b"
  using settle_one [where f = f, OF assms(1-4)] assms(5-) unfolding flushed_def admitted_rows_def by auto

lemma create_run_refused: "create_run X S rid q w = (Inl e, w1) \<Longrightarrow> w1 = w"
  by (auto simp: create_run_def split: sum.splits option.splits prod.splits if_splits)

lemma row_to_run_id [simp]: "dget (row_to_run X r) ''run_id'' = VStr (r_id r)"
  by (simp add: row_to_run_def Let_def dget_def)

lemma create_run_found:
  assumes "create_run X S rid q w = (Inr d, w1)"
  shows "\<exists>new. w_runs w1 = w_runs w @ new \<and> length new \<le> 1 \<and> w_tasks w1 = w_tasks w \<and>
    run_find w1 (str_or (dget d ''run_id'') []) \<noteq> None"
  using assms
proof (cases rule: create_run_cases)
  case (1 r)
  then have "r \<in> set (w_runs w)"
    by (auto simp: idempotent_hit_def find_Some_iff split: if_splits)
  with 1 show ?thesis by (auto simp: run_find_def find_None_iff)
next
  case (2 sp)
  then show ?thesis
    using insert_run_runs [OF 2(2)] by (auto simp: run_find_def find_None_iff)
qed

lemma record_admission_frame [simp]:
  "ad_queue (record_admission_decision t p v reason run did a) = ad_queue a"
  "ad_world (record_admission_decision t p v reason run did a) = ad_world a"
  by (simp_all add: record_admission_decision_def)

lemma settle_frame [simp]: "ad_world (settle_deferred did f a) = ad_world a"
  by (simp add: settle_deferred_def)

lemma flush_row_flushed:
  assumes row: "flush_row X S cpus newid d a = (r, b)"
    and ids: "distinct (map df_id (ad_queue a))" and d: "d \<in> set (ad_queue a)"
    and pending: "df_status d = ''pending''"
  shows "flushed a (case r of Inr True \<Rightarrow> 1 | _ \<Rightarrow> 0) b"
proof (cases "classify_admission False [] False (ternary_enabled (ad_world a))
    (snapshot_resource_state S cpus (df_tenant d) (ad_world a)) (df_demand d)")
  case (Inl e)
  with row show ?thesis by (auto simp: flush_row_def)
next
  case (Inr v)
  then obtain dec reason where v: "v = (dec, reason)" by (cases v)
  show ?thesis
  proof (cases dec)
    case Defer
    with row Inr v show ?thesis by (auto simp: flush_row_def)
  next
    case Reject
    with row Inr v have r: "r = Inr False" and b: "ad_world b = ad_world a"
        "ad_queue b = ad_queue (settle_deferred (df_id d) (\<lambda>x. x\<lparr>df_status := ''cancelled'',
            df_reason := reason, df_updated := w_now (ad_world a)\<rparr>) a)"
      by (auto simp: flush_row_def)
    have "flushed a 0 b"
      by (rule settle_flushed [OF ids d pending _ b(2) [unfolded settle_deferred_def, simplified]])
        (simp_all add: settles_def pending b(1))
    with r show ?thesis by simp
  next
    case Accept
    obtain c w1 where create: "create_run X S (newid (df_id d)) (df_request d) (ad_world a) = (c, w1)"
      by fastforce
    show ?thesis
    proof (cases c)
      case (Inl e)
      with row \<open>_ = Inr v\<close> v Accept create create_run_refused show ?thesis
        by (fastforce simp: flush_row_def)
    next
      case (Inr run)
      define rid where "rid = str_or (dget run ''run_id'') []"
      from row \<open>_ = Inr v\<close> v Accept create Inr have r: "r = Inr True" and b: "ad_world b = w1"
        "ad_queue b = ad_queue (settle_deferred (df_id d) (\<lambda>x. x\<lparr>df_status := ''admitted'',
            df_run := Some rid, df_reason := reason, df_admitted := Some (w_now (ad_world a)),
            df_updated := w_now (ad_world a)\<rparr>) (a\<lparr>ad_world := w1\<rparr>))"
        by (auto simp: flush_row_def Let_def rid_def)
      obtain new where new: "w_runs w1 = w_runs (ad_world a) @ new" "length new \<le> 1"
          "w_tasks w1 = w_tasks (ad_world a)" "run_find w1 rid \<noteq> None"
        using create_run_found [OF create [unfolded Inr]] by (auto simp: rid_def)
      have "flushed a 1 b"
        by (rule settle_flushed [OF ids d pending _ b(2) [unfolded settle_deferred_def, simplified]])
          (use new in \<open>simp_all add: settles_def pending b(1) backed_def\<close>)
      with r show ?thesis by simp
    qed
  qed
qed

lemma settled_still_pending:
  assumes "flush_row X S cpus newid d a = (r, b)" and "x \<in> set (ad_queue a)" and "df_id x \<noteq> df_id d"
  shows "x \<in> set (ad_queue b)"
  using assms by (force simp: flush_row_def Let_def settle_deferred_def
      split: sum.splits decision.splits prod.splits)

lemma flush_rows_flushed:
  assumes "flush_rows X S cpus newid ds n a = (r, b)"
    and "distinct (map df_id (ad_queue a))" and "distinct (map df_id ds)"
    and "set ds \<subseteq> set (ad_queue a)" and "\<forall>d\<in>set ds. df_status d = ''pending''"
  shows "\<exists>m\<le>length ds. flushed a m b \<and> (\<forall>k. r = Inr k \<longrightarrow> k = n + m)"
  using assms
proof (induction X S cpus newid ds n a rule: flush_rows.induct)
  case (1 X S cpus newid n a)
  then show ?case by auto
next
  case (2 X S cpus newid d ds n a)
  obtain v a1 where row: "flush_row X S cpus newid d a = (v, a1)" by fastforce
  define k where "k = (case v of Inr True \<Rightarrow> 1 | _ \<Rightarrow> (0::nat))"
  have one: "flushed a k a1" "k \<le> 1"
    using flush_row_flushed [OF row] "2.prems" by (auto simp: k_def split: sum.split bool.split)
  then have "list_all2 settles (ad_queue a) (ad_queue a1)" by (simp add: flushed_def)
  then have ids: "distinct (map df_id (ad_queue a1))"
    using "2.prems"(2) by (simp add: settles_ids)
  show ?case
  proof (cases v)
    case (Inl e)
    with "2.prems"(1) row one show ?thesis
      by (intro exI [of _ k]) auto
  next
    case (Inr adm)
    let ?n = "if adm then Suc n else n"
    have rest: "flush_rows X S cpus newid ds ?n a1 = (r, b)"
      using "2.prems"(1) row Inr by simp
    have "set ds \<subseteq> set (ad_queue a1)"
      using settled_still_pending [OF row] "2.prems"(3,4) by (fastforce simp: image_iff)
    then obtain m where m: "m \<le> length ds" "flushed a1 m b" "\<forall>k. r = Inr k \<longrightarrow> k = ?n + m"
      using "2.IH" [OF row [symmetric] Inr rest ids] "2.prems"(3,5) by auto
    then show ?thesis
      using flushed_trans [OF one(1) m(2)] one(2) Inr
      by (intro exI [of _ "k + m"]) (auto simp: k_def split: if_splits)
  qed
qed

lemma candidates_pending:
  "set (flush_candidates limit a) \<subseteq> set (ad_queue a)"
  "\<forall>d\<in>set (flush_candidates limit a). df_status d = ''pending''"
  "length (flush_candidates limit a) \<le> nat (max 1 limit)"
  by (auto simp: flush_candidates_def dest!: in_set_takeD)

lemma candidates_distinct:
  assumes "distinct (map df_id (ad_queue a))"
  shows "distinct (map df_id (flush_candidates limit a))"
proof -
  let ?pending = "filter (\<lambda>d. df_status d = ''pending'') (ad_queue a)"
  have "distinct (map df_id ?pending)"
    using assms by (rule distinct_map_filter)
  then have "distinct (map df_id (sort_key df_created ?pending))"
    by (simp add: distinct_map)
  then show ?thesis
    by (simp add: flush_candidates_def take_map [symmetric])
qed

text \<open>
  C15. A flush settles each deferred request at most once: of the queue only pending rows change, to
  admitted with a run that exists or to cancelled; the rows admitted are as many as it answers, no
  more than its limit; it makes no more runs than that, and neither a run nor a task is touched.
\<close>

theorem flush_settles_once:
  assumes "flush_deferred_admissions X S cpus newid limit a = (r, b)"
    and "distinct (map df_id (ad_queue a))"
  shows "\<exists>m\<le>nat (max 1 limit). flushed a m b \<and> (\<forall>k. r = Inr k \<longrightarrow> k = m)"
proof -
  obtain m where "m \<le> length (flush_candidates limit a)" "flushed a m b" "\<forall>k. r = Inr k \<longrightarrow> k = 0 + m"
    using flush_rows_flushed [OF assms(1) [unfolded flush_deferred_admissions_def] assms(2)
        candidates_distinct [OF assms(2)] candidates_pending(1,2)] by blast
  then show ?thesis
    using candidates_pending(3) [of limit a] by (intro exI [of _ m]) simp
qed

lemma flush_rows_blocked:
  assumes "\<forall>d\<in>set ds. \<exists>reason. classify_admission False [] False (ternary_enabled (ad_world a))
      (snapshot_resource_state S cpus (df_tenant d) (ad_world a)) (df_demand d) = Inr (Defer, reason)"
  shows "flush_rows X S cpus newid ds n a = (ok n, a)"
  using assms by (induction ds) (auto simp: flush_row_def Let_def)

text \<open>
  A flush looks no further than the oldest pending requests it may admit: when each of them must
  wait, nothing is admitted, however many later requests would fit.
\<close>

theorem flush_blocked_by_head:
  assumes "\<forall>d\<in>set (flush_candidates limit a). \<exists>reason.
      classify_admission False [] False (ternary_enabled (ad_world a))
        (snapshot_resource_state S cpus (df_tenant d) (ad_world a)) (df_demand d) = Inr (Defer, reason)"
  shows "flush_deferred_admissions X S cpus newid limit a = (ok 0, a)"
  unfolding flush_deferred_admissions_def by (rule flush_rows_blocked [OF assms])

end
