(* ===== verification/AdmissionExamples.thy ===== *)
theory AdmissionExamples
  imports AdmissionSafety RunExamples
begin

text \<open>
  The admission of runs on concrete states: instances of its properties, and two executions that show
  a request that fits waiting behind eight that never will, and a cluster promised more than it has.
\<close>

definition idle_world :: world where
  "idle_world = \<lparr>w_tasks = [], w_runs = [], w_queues = (\<lambda>q. []), w_env = (\<lambda>n. None), w_now = 0,
     w_trace = []\<rparr>"

text \<open>A tenant that may run one task at a time.\<close>

definition small_tenant :: services where
  "small_tenant = no_services\<lparr>s_catalog := no_tables\<lparr>c_quotas :=
     [(empty_quota ''small'')\<lparr>q_parallel := Some 1\<rparr>]\<rparr>\<rparr>"

definition asks :: "nat \<Rightarrow> nat \<Rightarrow> demand" where
  "asks cpu tasks = \<lparr>dm_cpu = Fin (of_nat cpu), dm_memory = Fin 512, dm_gpu = Fin 0,
     dm_tasks = Fin (of_nat tasks)\<rparr>"

definition waiting :: "string \<Rightarrow> string \<Rightarrow> int \<Rightarrow> demand \<Rightarrow> deferred" where
  "waiting did tenant created d =
     \<lparr>df_id = did, df_tenant = tenant, df_project = ''p'', df_idempotency = None,
      df_status = ''pending'', df_reason = ''RESOURCE_BUSY'', df_demand = d,
      df_request = keyed_request\<lparr>cr_tenant := tenant, cr_idempotency := None\<rparr>, df_run = None,
      df_created = created, df_updated = created, df_admitted = None\<rparr>"

definition blocked_queue :: admissions where
  "blocked_queue = \<lparr>ad_world = idle_world,
     ad_queue = map (\<lambda>n. waiting [n] ''small'' 0 (asks 1 2)) ''12345678'' @ [waiting ''9'' ''other'' 1 (asks 1 1)],
     ad_log = []\<rparr>"

definition open_queue :: admissions where
  "open_queue = blocked_queue\<lparr>ad_queue := [waiting ''8'' ''small'' 0 (asks 1 2), waiting ''9'' ''other'' 1 (asks 1 1),
     waiting ''10'' ''other'' 2 (asks 9 1)]\<rparr>"

abbreviation opened :: "nat py \<times> admissions" where
  "opened \<equiv> flush_deferred_admissions example_ext small_tenant 8 (\<lambda>did. did) 8 open_queue"

lemma parse_demand_typed_witness:
  "\<exists>d. parse_demand idle_world [(''resources'', VDict [(''cpu'', VFloat (Fin (- 3)) ''-3.0''), (''tasks'', VFloat NaN ''nan'')])] = Inr d \<and>
     demand_ok d"
proof -
  have "isl (parse_demand idle_world [(''resources'', VDict [(''cpu'', VFloat (Fin (- 3)) ''-3.0''), (''tasks'', VFloat NaN ''nan'')])])
      = False"
    by code_simp
  then obtain d where
    "parse_demand idle_world [(''resources'', VDict [(''cpu'', VFloat (Fin (- 3)) ''-3.0''), (''tasks'', VFloat NaN ''nan'')])] = Inr d"
    by (auto simp: isl_def split: sum.splits) (metis sum.exhaust sum.disc(1) isl_def)
  with parse_demand_typed [OF this] show ?thesis by blast
qed

abbreviation free_state :: resource_state where
  "free_state \<equiv> build_resource_state 8 idle_world \<lparr>oc_active = 0, oc_pending = 0, oc_tenant_active = 0,
     oc_tenant_pending = 0\<rparr> 1000"


lemma over_budget_always_deferred_witness:
  "\<exists>reason. classify_admission False [] False True
     (build_resource_state 8 idle_world \<lparr>oc_active = 0, oc_pending = 0, oc_tenant_active = 0,
        oc_tenant_pending = 0\<rparr> 1) (asks 1 2) = Inr (Defer, reason)"
proof (rule over_budget_always_deferred)
  show "dm_tasks (asks 1 2) = Fin 2" "max 1 1 < trunc_rat 2" by code_simp+
  show "\<not> never_fits (build_resource_state 8 idle_world \<lparr>oc_active = 5, oc_pending = 0,
      oc_tenant_active = 0, oc_tenant_pending = 0\<rparr> 1) (asks 1 2)"
    by code_simp
qed

lemma flush_settles_once_witness:
  "(\<exists>m\<le>nat (max 1 8). flushed open_queue m (snd opened) \<and> (\<forall>k. fst opened = Inr k \<longrightarrow> k = m)) \<and>
   fst opened = Inr 1 \<and>
   map df_status (ad_queue (snd opened)) = [''pending'', ''admitted'', ''cancelled'']"
proof (intro conjI)
  show "fst opened = Inr 1" "map df_status (ad_queue (snd opened)) = [''pending'', ''admitted'', ''cancelled'']"
    by code_simp+
  have "distinct (map df_id (ad_queue open_queue))" by code_simp
  then show "\<exists>m\<le>nat (max 1 8). flushed open_queue m (snd opened) \<and> (\<forall>k. fst opened = Inr k \<longrightarrow> k = m)"
    by (rule flush_settles_once [OF prod.collapse [symmetric]])
qed

lemma flush_blocked_by_head_witness:
  "flush_deferred_admissions example_ext small_tenant 8 (\<lambda>did. did) 8 blocked_queue = (ok 0, blocked_queue) \<and>
   classify_admission False [] False (ternary_enabled idle_world)
     (snapshot_resource_state small_tenant 8 ''other'' idle_world) (asks 1 1) = Inr (Accept, ''ok'') \<and>
   df_demand (last (ad_queue blocked_queue)) = asks 1 1"
proof (intro conjI)
  have "flush_candidates 8 blocked_queue = map (\<lambda>n. waiting [n] ''small'' 0 (asks 1 2)) ''12345678''"
    by (simp add: flush_candidates_def blocked_queue_def waiting_def)
  moreover have "classify_admission False [] False (ternary_enabled idle_world)
      (snapshot_resource_state small_tenant 8 ''small'' idle_world) (asks 1 2) = Inr (Defer, ''TENANT_BUDGET'')"
    by code_simp
  ultimately show "flush_deferred_admissions example_ext small_tenant 8 (\<lambda>did. did) 8 blocked_queue
      = (ok 0, blocked_queue)"
    by (intro flush_blocked_by_head) (auto simp: waiting_def blocked_queue_def)
qed code_simp+

subsection \<open>A cluster promised more than it has\<close>

definition wants_six_cpus :: run_request where
  "wants_six_cpus = keyed_request\<lparr>cr_idempotency := None,
     cr_override := [(''resources'', VDict [(''cpu'', VFloat (Fin 6) ''6.0'')])]\<rparr>"

abbreviation first_admission :: "admission py \<times> admissions" where
  "first_admission \<equiv> admit_create_run example_ext no_services 8 ''n1'' ''d1'' wants_six_cpus
     \<lparr>ad_world = idle_world, ad_queue = [], ad_log = []\<rparr>"

abbreviation second_admission :: "admission py \<times> admissions" where
  "second_admission \<equiv> admit_create_run example_ext no_services 8 ''n2'' ''d2'' wants_six_cpus
     (snd first_admission)"

text \<open>
  A run in flight counts for the default demand of a task whatever it asked for: of two requests for
  six of eight processors the second is accepted next to the first.
\<close>

lemma cluster_overcommitted:
  "map dc_decision (ad_log (snd second_admission)) = [Accept, Accept]"
  "map r_id (w_runs (ad_world (snd second_admission))) = [''n1'', ''n2'']"
  by code_simp+

end
