(* ===== verification/ModelPolicies.thy ===== *)
theory ModelPolicies
  imports Triggers
begin

text \<open>
  Model of \<^verbatim>\<open>governance/trigger_policy_service.py\<close> and of the policy rows of
  \<^verbatim>\<open>governance/closed_loop_service.py\<close>: what the API stores about the automation of a model, with
  its defaults, and the checks of the dataset a trigger is anchored to.
\<close>

subsection \<open>Trigger policies\<close>

text \<open>The tables the anchor is checked against: keys of datasets, versions with their dataset, policies.\<close>

record anchors =
  an_datasets :: "(string \<times> string \<times> string) list"
  an_versions :: "(string \<times> string) list"
  an_policies :: "(string \<times> string \<times> string \<times> string) list"

definition dataset_of_version :: "anchors \<Rightarrow> string \<Rightarrow> string \<Rightarrow> string \<Rightarrow> string option" where
  "dataset_of_version A tenant project vid =
     map_option snd (find (\<lambda>(v, d). v = vid \<and> (tenant, project, d) \<in> set (an_datasets A)) (an_versions A))"

definition normalize_data_anchor ::
    "anchors \<Rightarrow> string \<Rightarrow> string \<Rightarrow> string option \<Rightarrow> string option \<Rightarrow> string option
     \<Rightarrow> (string option \<times> string option \<times> string option) py" where
  "normalize_data_anchor A tenant project dataset version policy =
     (let did0 = some_nonempty (strip (opt_or dataset [])); vid = some_nonempty (strip (opt_or version []));
          pid = some_nonempty (strip (opt_or policy [])) in
      if did0 = None \<and> vid = None \<and> pid = None then ok (None, None, None)
      else pbind (case (vid, did0) of
            (Some v, None) \<Rightarrow> (case dataset_of_version A tenant project v of
                None \<Rightarrow> raise (ValueError ''dataset_version_not_found'')
              | Some d \<Rightarrow> ok (some_nonempty (strip d)))
          | _ \<Rightarrow> ok did0) (\<lambda>did.
        if (case did of None \<Rightarrow> False | Some d \<Rightarrow> (tenant, project, d) \<notin> set (an_datasets A))
        then raise (ValueError ''dataset_not_found'')
        else if (case vid of None \<Rightarrow> False | Some v \<Rightarrow>
            (case dataset_of_version A tenant project v of None \<Rightarrow> True
              | Some d \<Rightarrow> did \<noteq> None \<and> did \<noteq> Some d))
        then raise (ValueError ''dataset_version_not_found'')
        else (case (pid, did) of
            (None, _) \<Rightarrow> ok (did, vid, pid)
          | (Some p, None) \<Rightarrow> raise (ValueError ''dataset_id_required_with_policy'')
          | (Some p, Some d) \<Rightarrow>
              if (tenant, project, d, p) \<in> set (an_policies A) then ok (did, vid, pid)
              else raise (ValueError ''dataset_training_policy_not_found''))))"

definition normalize_max_parallel :: "int option \<Rightarrow> int option py" where
  "normalize_max_parallel n = (case n of None \<Rightarrow> ok None
     | Some k \<Rightarrow> if k < 1 then raise (ValueError ''invalid_max_parallel_tasks'') else ok (Some (min k 1000)))"

definition same_policy :: "string \<Rightarrow> string \<Rightarrow> string \<Rightarrow> policy_row \<Rightarrow> bool" where
  "same_policy tenant project model row =
     (tr_tenant row = tenant \<and> tr_project row = project \<and> tr_model row = model)"

text \<open>\<open>int(row[1] or 10)\<close>\<close>

definition stored_debounce :: "int option \<Rightarrow> int" where
  "stored_debounce n = (case n of None \<Rightarrow> 10 | Some k \<Rightarrow> if k = 0 then 10 else k)"

text \<open>The fields of the answer the other services read.\<close>

definition trigger_dict :: "policy_row \<Rightarrow> string \<Rightarrow> pydict" where
  "trigger_dict row source =
     [(''tenant_id'', VStr (tr_tenant row)), (''project_id'', VStr (tr_project row)),
      (''model_id'', VStr (tr_model row)), (''trigger_mode'', VStr (tr_mode row)),
      (''debounce_minutes'', VInt (stored_debounce (tr_debounce row))),
      (''schedule_cron'', VStr (opt_or (tr_cron row) default_cron)),
      (''dataset_id'', of_opt_str (tr_dataset row)),
      (''dataset_version_id'', of_opt_str (tr_version row)),
      (''training_policy_id'', of_opt_str (tr_training row)),
      (''last_trigger_outcome'', of_opt_str (tr_outcome row)),
      (''last_skip_reason'', of_opt_str (tr_skip row)),
      (''max_parallel_tasks'', case tr_parallel row of None \<Rightarrow> VNone | Some n \<Rightarrow> VInt n),
      (''source'', VStr source)]"

definition default_policy_row :: "string \<Rightarrow> string \<Rightarrow> string \<Rightarrow> policy_row" where
  "default_policy_row tenant project model =
     \<lparr>tr_tenant = tenant, tr_project = project, tr_model = model, tr_mode = ''manual'',
      tr_debounce = Some 10, tr_cron = Some default_cron, tr_dataset = None, tr_version = None,
      tr_training = None, tr_parallel = None, tr_attempted = None, tr_outcome = None, tr_skip = None\<rparr>"

definition get_trigger_policy :: "policy_row list \<Rightarrow> string \<Rightarrow> string \<Rightarrow> string \<Rightarrow> pydict" where
  "get_trigger_policy rows tenant project model =
     (case find (same_policy tenant project model) rows of
        None \<Rightarrow> trigger_dict (default_policy_row tenant project model) ''default''
      | Some row \<Rightarrow> trigger_dict row ''stored'')"

definition valid_modes :: "string list" where
  "valid_modes = [''manual'', ''auto_ready'', ''schedule'', ''drift'', ''slo_breach'']"

record trigger_request =
  tq_mode :: string
  tq_debounce :: int
  tq_cron :: "string option"
  tq_dataset :: "string option"
  tq_version :: "string option"
  tq_training :: "string option"
  tq_parallel :: "int option"

text \<open>\<open>INSERT ... ON CONFLICT (tenant_id, project_id, model_id) DO UPDATE\<close>\<close>

definition upsert_trigger_policy ::
    "anchors \<Rightarrow> string \<Rightarrow> string \<Rightarrow> string \<Rightarrow> trigger_request \<Rightarrow> policy_row list \<Rightarrow> policy_row list py" where
  "upsert_trigger_policy A tenant project model q rows =
     (let mode0 = lower (strip (if tq_mode q = [] then ''manual'' else tq_mode q));
          mode = (if mode0 \<in> set valid_modes then mode0 else ''manual'');
          debounce = max 1 (if tq_debounce q = 0 then 10 else tq_debounce q);
          cron0 = strip (opt_or (tq_cron q) []);
          cron = (if cron0 = [] then default_cron else cron0)
      in pbind (normalize_max_parallel (tq_parallel q)) (\<lambda>mpt.
         pbind (normalize_data_anchor A tenant project (tq_dataset q) (tq_version q) (tq_training q))
           (\<lambda>(did, vid, pid).
             let fill = (\<lambda>row. row\<lparr>tr_mode := mode, tr_debounce := Some debounce, tr_cron := Some cron,
                   tr_dataset := did, tr_version := vid, tr_training := pid, tr_parallel := mpt\<rparr>)
             in ok (if list_ex (same_policy tenant project model) rows
                  then map (\<lambda>row. if same_policy tenant project model row then fill row else row) rows
                  else rows @ [fill (default_policy_row tenant project model)]))))"

subsection \<open>Closed loop policies\<close>

record closed_row =
  cl_tenant :: string
  cl_project :: string
  cl_model :: string
  cl_monitoring :: bool
  cl_retrain :: bool
  cl_promote :: bool
  cl_rollback :: bool
  cl_threshold :: pyval

definition default_threshold :: pyval where
  "default_threshold = VFloat (Fin (1 / 5)) ''0.2''"

definition same_closed :: "string \<Rightarrow> string \<Rightarrow> string \<Rightarrow> closed_row \<Rightarrow> bool" where
  "same_closed tenant project model row =
     (cl_tenant row = tenant \<and> cl_project row = project \<and> cl_model row = model)"

definition closed_dict :: "string \<Rightarrow> closed_row \<Rightarrow> pydict" where
  "closed_dict source row =
     [(''tenant_id'', VStr (cl_tenant row)), (''project_id'', VStr (cl_project row)),
      (''model_id'', VStr (cl_model row)), (''monitoring_enabled'', VBool (cl_monitoring row)),
      (''auto_retrain_on_breach'', VBool (cl_retrain row)),
      (''auto_promote_on_eval_pass'', VBool (cl_promote row)),
      (''auto_rollback_on_breach'', VBool (cl_rollback row)),
      (''drift_psi_threshold'', por (cl_threshold row) default_threshold),
      (''source'', VStr source)]"

definition default_closed :: "string \<Rightarrow> string \<Rightarrow> string \<Rightarrow> closed_row" where
  "default_closed tenant project model =
     \<lparr>cl_tenant = tenant, cl_project = project, cl_model = model, cl_monitoring = True,
      cl_retrain = False, cl_promote = False, cl_rollback = False, cl_threshold = default_threshold\<rparr>"

definition get_closed_loop_policy :: "closed_row list \<Rightarrow> string \<Rightarrow> string \<Rightarrow> string \<Rightarrow> pydict" where
  "get_closed_loop_policy rows tenant project model =
     (case find (same_closed tenant project model) rows of
        None \<Rightarrow> closed_dict ''default'' (default_closed tenant project model)
      | Some row \<Rightarrow> closed_dict ''stored'' row)"

text \<open>The threshold is a float with its text; \<open>max(0.0, t)\<close>.\<close>

definition upsert_closed_loop_policy :: "closed_row \<Rightarrow> pyfloat \<Rightarrow> string \<Rightarrow> closed_row list \<Rightarrow> closed_row list" where
  "upsert_closed_loop_policy row t shown rows =
     (let new = row\<lparr>cl_threshold := (if fgt t (Fin 0) then VFloat t shown else VFloat (Fin 0) ''0.0'')\<rparr>;
          same = same_closed (cl_tenant row) (cl_project row) (cl_model row)
      in if list_ex same rows then map (\<lambda>r. if same r then new else r) rows else rows @ [new])"

subsection \<open>What is stored\<close>

lemma find_map_same:
  assumes "\<And>r. P (f r) = P r"
  shows "find P (map (\<lambda>r. if P r then f r else r) rows) = map_option f (find P rows)"
  using assms by (induction rows) auto

lemma find_at_end: "find P rows = None \<Longrightarrow> P x \<Longrightarrow> find P (rows @ [x]) = Some x"
  by (induction rows) (auto split: if_splits)

lemma list_ex_find: "list_ex P rows \<longleftrightarrow> find P rows \<noteq> None"
  by (auto simp: list_ex_iff find_None_iff)

lemma find_other:
  assumes "\<And>r. Q r \<Longrightarrow> \<not> P r" and "\<And>r. P r \<Longrightarrow> P (f r)"
  shows "find Q (map (\<lambda>r. if P r then f r else r) rows) = find Q rows"
  using assms by (induction rows) auto

text \<open>
  What the API stores about the trigger of a model is what the services read back: one of the
  five modes, a debounce of a minute at least, a schedule, an anchor that exists, at most a thousand
  parallel tasks; the policies of other models stay.
\<close>

theorem trigger_policy_stored:
  assumes "upsert_trigger_policy A tenant project model q rows = Inr rows'"
  shows "\<exists>row. find (same_policy tenant project model) rows' = Some row \<and>
     get_trigger_policy rows' tenant project model = trigger_dict row ''stored'' \<and>
     tr_mode row \<in> set valid_modes \<and> (\<exists>n\<ge>1. tr_debounce row = Some n) \<and>
     opt_or (tr_cron row) [] \<noteq> [] \<and>
     normalize_data_anchor A tenant project (tq_dataset q) (tq_version q) (tq_training q)
       = Inr (tr_dataset row, tr_version row, tr_training row) \<and>
     (case tr_parallel row of None \<Rightarrow> tq_parallel q = None | Some n \<Rightarrow> 1 \<le> n \<and> n \<le> 1000)"
proof -
  obtain mpt did vid pid where mpt: "normalize_max_parallel (tq_parallel q) = Inr mpt"
    and anchor: "normalize_data_anchor A tenant project (tq_dataset q) (tq_version q) (tq_training q)
       = Inr (did, vid, pid)"
    using assms by (auto simp: upsert_trigger_policy_def Let_def pbind_eq_Inr)
  define mode where "mode = (let m = lower (strip (if tq_mode q = [] then ''manual'' else tq_mode q))
      in if m \<in> set valid_modes then m else ''manual'')"
  define n where "n = max 1 (if tq_debounce q = 0 then 10 else tq_debounce q)"
  define cron where "cron = (let c = strip (opt_or (tq_cron q) []) in if c = [] then default_cron else c)"
  define fill where "fill = (\<lambda>row::policy_row. row\<lparr>tr_mode := mode, tr_debounce := Some n,
      tr_cron := Some cron, tr_dataset := did, tr_version := vid, tr_training := pid, tr_parallel := mpt\<rparr>)"
  have keeps: "same_policy tenant project model (fill r) = same_policy tenant project model r" for r
    by (simp add: same_policy_def fill_def)
  have own: "same_policy tenant project model (fill (default_policy_row tenant project model))"
    by (simp add: keeps) (simp add: same_policy_def default_policy_row_def)
  have rows': "rows' = (if list_ex (same_policy tenant project model) rows
      then map (\<lambda>row. if same_policy tenant project model row then fill row else row) rows
      else rows @ [fill (default_policy_row tenant project model)])"
    using assms mpt anchor
    by (auto simp: upsert_trigger_policy_def Let_def fill_def mode_def n_def cron_def)
  obtain r where found: "find (same_policy tenant project model) rows' = Some (fill r)"
  proof (cases "find (same_policy tenant project model) rows")
    case None
    then show ?thesis
      using that [of "default_policy_row tenant project model"] rows' find_at_end [OF None own]
      by (simp add: list_ex_find)
  next
    case (Some r)
    then show ?thesis
      using that [of r] rows' by (simp add: list_ex_find find_map_same keeps)
  qed
  have "mode \<in> set valid_modes" by (auto simp: mode_def Let_def valid_modes_def)
  moreover have "1 \<le> n" by (simp add: n_def)
  moreover have "cron \<noteq> []" by (auto simp: cron_def Let_def default_cron_def)
  moreover have "case mpt of None \<Rightarrow> tq_parallel q = None | Some n \<Rightarrow> 1 \<le> n \<and> n \<le> 1000"
    using mpt by (auto simp: normalize_max_parallel_def split: option.splits if_splits)
  ultimately show ?thesis
    using found anchor by (auto simp: get_trigger_policy_def fill_def)
qed

lemma threshold_zero_lost:
  "dget (get_closed_loop_policy (upsert_closed_loop_policy row (Fin 0) ''0.0'' []) (cl_tenant row)
     (cl_project row) (cl_model row)) ''drift_psi_threshold'' = default_threshold"
  by (simp add: upsert_closed_loop_policy_def get_closed_loop_policy_def same_closed_def fgt_def
      closed_dict_def dget_def por_def)

end
