(* ===== verification/Config.thy ===== *)
theory Config
  imports ModelPolicies
begin

text \<open>
  Model of the package \<^verbatim>\<open>domains/configuration\<close>: the registered keys with their types, the scopes from
  global to resource, the stored entries and their log, the values bridged from the platform
  settings and from the older policies of a model, and the resolver that lets the narrowest scope
  win.
\<close>

subsection \<open>Scopes\<close>

datatype scope = Global | Project | Environment | Resource

text \<open>\<open>SCOPE_ORDER\<close>, from the widest to the narrowest.\<close>

definition scope_order :: "scope list" where
  "scope_order = [Global, Project, Environment, Resource]"

fun scope_rank :: "scope \<Rightarrow> nat" where
  "scope_rank Global = 0"
| "scope_rank Project = 1"
| "scope_rank Environment = 2"
| "scope_rank Resource = 3"

lemma scope_rank_inj: "scope_rank a = scope_rank b \<longleftrightarrow> a = b"
  by (cases a; cases b) simp_all

instantiation scope :: linorder
begin

definition "a \<le> b \<longleftrightarrow> scope_rank a \<le> scope_rank b"

definition "a < b \<longleftrightarrow> scope_rank a < scope_rank b"

instance
  by standard (auto simp: less_eq_scope_def less_scope_def scope_rank_inj)

end

record resolution =
  cx_tenant :: "string option"
  cx_project :: "string option"
  cx_env :: "string option"
  cx_rtype :: "string option"
  cx_rid :: "string option"

definition norm :: "string option \<Rightarrow> string" where
  "norm v = strip (opt_or v [])"

fun scope_applies :: "scope \<Rightarrow> resolution \<Rightarrow> bool" where
  "scope_applies Global c = True"
| "scope_applies Project c = (norm (cx_tenant c) \<noteq> [] \<and> norm (cx_project c) \<noteq> [])"
| "scope_applies Environment c =
     (norm (cx_tenant c) \<noteq> [] \<and> norm (cx_project c) \<noteq> [] \<and> norm (cx_env c) \<noteq> [])"
| "scope_applies Resource c =
     (norm (cx_tenant c) \<noteq> [] \<and> norm (cx_project c) \<noteq> [] \<and> norm (cx_rtype c) \<noteq> [] \<and>
      norm (cx_rid c) \<noteq> [])"

definition applicable_scope_levels :: "resolution \<Rightarrow> scope list" where
  "applicable_scope_levels c = filter (\<lambda>l. scope_applies l c) scope_order"

record identity =
  id_tenant :: string
  id_project :: string
  id_env :: string
  id_rtype :: string
  id_rid :: string

fun scope_identity :: "scope \<Rightarrow> resolution \<Rightarrow> identity" where
  "scope_identity Global c =
     \<lparr>id_tenant = [], id_project = [], id_env = [], id_rtype = [], id_rid = []\<rparr>"
| "scope_identity Project c =
     \<lparr>id_tenant = norm (cx_tenant c), id_project = norm (cx_project c), id_env = [], id_rtype = [],
      id_rid = []\<rparr>"
| "scope_identity Environment c =
     \<lparr>id_tenant = norm (cx_tenant c), id_project = norm (cx_project c), id_env = norm (cx_env c),
      id_rtype = [], id_rid = []\<rparr>"
| "scope_identity Resource c =
     \<lparr>id_tenant = norm (cx_tenant c), id_project = norm (cx_project c), id_env = norm (cx_env c),
      id_rtype = norm (cx_rtype c), id_rid = norm (cx_rid c)\<rparr>"

subsection \<open>Registered keys\<close>

datatype vtype = BooleanT | NumberT | StringT | DurationT | JsonT

text \<open>A coerced value.\<close>

datatype cval = CNone | CBool bool | CNum pyfloat | CText string | CJson pyval

record key_spec =
  ks_type :: vtype
  ks_default :: pyval
  ks_scopes :: "scope list"

definition key_registry :: "(string \<times> key_spec) list" where
  "key_registry =
     [(''mlops.experiment.enabled'', \<lparr>ks_type = BooleanT, ks_default = VBool False, ks_scopes = [Global, Project]\<rparr>),
      (''monitoring.drift.enabled'', \<lparr>ks_type = BooleanT, ks_default = VBool False, ks_scopes = scope_order\<rparr>),
      (''monitoring.drift.threshold'', \<lparr>ks_type = NumberT, ks_default = default_threshold, ks_scopes = scope_order\<rparr>),
      (''monitoring.drift.method'', \<lparr>ks_type = StringT, ks_default = VStr ''psi'', ks_scopes = [Global, Project]\<rparr>),
      (''monitoring.slo.check_interval'', \<lparr>ks_type = DurationT, ks_default = VStr ''15m'',
         ks_scopes = [Global, Project, Resource]\<rparr>),
      (''automation.retrain.enabled'', \<lparr>ks_type = BooleanT, ks_default = VBool False, ks_scopes = scope_order\<rparr>),
      (''automation.retrain.trigger_mode'', \<lparr>ks_type = StringT, ks_default = VStr ''manual'', ks_scopes = [Resource]\<rparr>),
      (''automation.retrain.debounce_minutes'', \<lparr>ks_type = NumberT, ks_default = VInt 10, ks_scopes = [Resource]\<rparr>),
      (''automation.retrain.schedule_cron'', \<lparr>ks_type = StringT, ks_default = VStr default_cron, ks_scopes = [Resource]\<rparr>),
      (''automation.deploy.enabled'', \<lparr>ks_type = BooleanT, ks_default = VBool False, ks_scopes = scope_order\<rparr>),
      (''automation.rollback.enabled'', \<lparr>ks_type = BooleanT, ks_default = VBool False, ks_scopes = scope_order\<rparr>),
      (''governance.approval.two_step_required'', \<lparr>ks_type = BooleanT, ks_default = VBool True,
         ks_scopes = [Global, Project]\<rparr>),
      (''governance.evaluation.require_before_promote'', \<lparr>ks_type = BooleanT, ks_default = VBool True,
         ks_scopes = [Global, Project]\<rparr>)]"

definition get_key_spec :: "string \<Rightarrow> key_spec py" where
  "get_key_spec key = (case map_of key_registry key of
     None \<Rightarrow> raise (ValueError ''key_not_registered'') | Some spec \<Rightarrow> ok spec)"

definition list_key_specs :: "string \<Rightarrow> string list" where
  "list_key_specs pre =
     sort (filter (\<lambda>k. pre = [] \<or> take (length pre) k = pre) (map fst key_registry))"

definition coerce_boolean :: "pyval \<Rightarrow> cval py" where
  "coerce_boolean v = (case v of VBool b \<Rightarrow> ok (CBool b)
     | _ \<Rightarrow> (let text = lower (strip (py_str v)) in
         if text \<in> {''1'', ''true'', ''yes'', ''on''} then ok (CBool True)
         else if text \<in> {''0'', ''false'', ''no'', ''off''} then ok (CBool False)
         else raise (ValueError ''invalid_boolean_value'')))"

definition coerce_value :: "pyval \<Rightarrow> vtype \<Rightarrow> cval py" where
  "coerce_value v t =
     (if v = VNone then ok CNone
      else (case t of
          BooleanT \<Rightarrow> coerce_boolean v
        | NumberT \<Rightarrow> pbind (py_float v) (\<lambda>f. ok (CNum f))
        | StringT \<Rightarrow> ok (CText (py_str v))
        | DurationT \<Rightarrow> ok (CText (py_str v))
        | JsonT \<Rightarrow> (case v of VDict d \<Rightarrow> ok (CJson v) | VList xs \<Rightarrow> ok (CJson v)
            | _ \<Rightarrow> raise (ValueError ''invalid_json_value''))))"

definition validate_scope_for_key :: "string \<Rightarrow> scope \<Rightarrow> unit py" where
  "validate_scope_for_key key level = pbind (get_key_spec key) (\<lambda>spec.
     if level \<in> set (ks_scopes spec) then ok () else raise (ValueError ''scope_not_allowed_for_key''))"

subsection \<open>Stored entries\<close>

record centry =
  en_id :: string
  en_key :: string
  en_value :: pyval
  en_level :: scope
  en_scope :: identity
  en_enabled :: bool
  en_version :: int
  en_created_by :: "string option"
  en_updated_by :: "string option"

record change =
  cg_entry :: string
  cg_key :: string
  cg_level :: scope
  cg_scope :: identity
  cg_type :: string
  cg_old :: pyval
  cg_new :: pyval
  cg_version :: int
  cg_actor :: "string option"
  cg_created :: int

record audit_row =
  au_tenant :: string
  au_project :: string
  au_action :: string
  au_target :: string
  au_key :: string
  au_version :: "int option"
  au_level :: scope
  au_actor :: "string option"

text \<open>
  What the package reads and writes; the bridged stores are the policies of the models and two
  platform settings. \<open>cs_text\<close> is the text Python writes for a float.
\<close>

record stores =
  cs_entries :: "centry list"
  cs_log :: "change list"
  cs_audit :: "audit_row list"
  cs_emitted :: "(string \<times> string \<times> string \<times> int option) list"
  cs_closed :: "closed_row list"
  cs_triggers :: "policy_row list"
  cs_stage_order :: "string list"
  cs_mode :: pyval
  cs_now :: int
  cs_text :: "pyfloat \<Rightarrow> string"

definition entry_version :: "centry \<Rightarrow> int" where
  "entry_version e = (if en_version e = 0 then 1 else en_version e)"

text \<open>The \<open>WHERE\<close> clause of \<open>fetch_chain\<close>.\<close>

definition in_chain :: "string \<Rightarrow> resolution \<Rightarrow> centry \<Rightarrow> bool" where
  "in_chain key c e =
     (let i = scope_identity Resource c; s = en_scope e in
      en_key e = key \<and>
      (case en_level e of
         Global \<Rightarrow> id_tenant s = [] \<and> id_project s = []
       | Project \<Rightarrow> id_tenant s = id_tenant i \<and> id_project s = id_project i
       | Environment \<Rightarrow>
           id_tenant s = id_tenant i \<and> id_project s = id_project i \<and> id_env s = id_env i
       | Resource \<Rightarrow>
           id_tenant s = id_tenant i \<and> id_project s = id_project i \<and>
           id_rtype s = id_rtype i \<and> id_rid s = id_rid i \<and> (id_env s = [] \<or> id_env s = id_env i)))"

fun last_version :: "centry option \<Rightarrow> centry list \<Rightarrow> centry option" where
  "last_version best [] = best"
| "last_version best (e # es) =
     last_version (case best of None \<Rightarrow> Some e
       | Some x \<Rightarrow> if entry_version x \<le> entry_version e then Some e else best) es"

definition fetch_chain :: "centry list \<Rightarrow> string \<Rightarrow> resolution \<Rightarrow> scope \<Rightarrow> centry option" where
  "fetch_chain rows key c level =
     last_version None (filter (\<lambda>e. en_level e = level) (filter (in_chain key c) rows))"

definition at_scope :: "string \<Rightarrow> scope \<Rightarrow> resolution \<Rightarrow> centry \<Rightarrow> bool" where
  "at_scope key level c e = (en_key e = key \<and> en_level e = level \<and> en_scope e = scope_identity level c)"

definition get_entry_at_scope :: "centry list \<Rightarrow> string \<Rightarrow> scope \<Rightarrow> resolution \<Rightarrow> centry option" where
  "get_entry_at_scope rows key level c = find (at_scope key level c) rows"

subsection \<open>Bridged stores\<close>

definition get_l4_value :: "stores \<Rightarrow> string \<Rightarrow> pyval" where
  "get_l4_value S key =
     (if key = ''governance.promotion.stage_order'' then VList (map VStr (cs_stage_order S))
      else if key = ''platform.runtime.task_execution_mode'' then cs_mode S
      else VNone)"

definition closed_loop_keys :: "(string \<times> string) list" where
  "closed_loop_keys =
     [(''monitoring.drift.threshold'', ''drift_psi_threshold''),
      (''monitoring.drift.enabled'', ''monitoring_enabled''),
      (''automation.retrain.enabled'', ''auto_retrain_on_breach''),
      (''automation.deploy.enabled'', ''auto_promote_on_eval_pass''),
      (''automation.rollback.enabled'', ''auto_rollback_on_breach'')]"

definition trigger_keys :: "(string \<times> string) list" where
  "trigger_keys =
     [(''automation.retrain.trigger_mode'', ''trigger_mode''),
      (''automation.retrain.debounce_minutes'', ''debounce_minutes''),
      (''automation.retrain.schedule_cron'', ''schedule_cron'')]"

definition get_legacy_value :: "stores \<Rightarrow> string \<Rightarrow> resolution \<Rightarrow> scope \<Rightarrow> pyval" where
  "get_legacy_value S key c level =
     (let t = opt_or (cx_tenant c) []; p = opt_or (cx_project c) []; m = opt_or (cx_rid c) [] in
      if level \<noteq> Resource \<or> cx_rtype c \<noteq> Some ''model'' \<or> m = [] \<or> t = [] \<or> p = [] then VNone
      else (case map_of closed_loop_keys key of
          Some field \<Rightarrow> dget (get_closed_loop_policy (cs_closed S) t p m) field
        | None \<Rightarrow> (case map_of trigger_keys key of
              Some field \<Rightarrow> dget (get_trigger_policy (cs_triggers S) t p m) field
            | None \<Rightarrow> VNone)))"

subsection \<open>Resolution\<close>

text \<open>What a scope says about a key.\<close>

record provenance =
  pv_level :: scope
  pv_scope :: identity
  pv_value :: cval
  pv_entry :: "(string \<times> int) option"
  pv_enabled :: bool
  pv_contributes :: bool
  pv_kind :: string

record effective =
  ef_key :: string
  ef_value :: cval
  ef_type :: vtype
  ef_level :: scope
  ef_kind :: string
  ef_entry :: "(string \<times> int) option"
  ef_inherited :: bool
  ef_chain :: "provenance list"

definition bridged :: "provenance \<Rightarrow> pyval \<Rightarrow> vtype \<Rightarrow> string \<Rightarrow> provenance py" where
  "bridged it v t kind =
     (if v = VNone then ok it
      else pbind (coerce_value v t) (\<lambda>x. ok (it\<lparr>pv_value := x, pv_contributes := True, pv_kind := kind\<rparr>)))"

definition level_item :: "stores \<Rightarrow> string \<Rightarrow> vtype \<Rightarrow> resolution \<Rightarrow> scope \<Rightarrow> provenance py" where
  "level_item S key t c level =
     (let it = \<lparr>pv_level = level, pv_scope = scope_identity level c, pv_value = CNone, pv_entry = None,
            pv_enabled = True, pv_contributes = False, pv_kind = ''entry''\<rparr>
      in case fetch_chain (cs_entries S) key c level of
           Some e \<Rightarrow>
             (let it1 = it\<lparr>pv_enabled := en_enabled e, pv_entry := Some (en_id e, entry_version e)\<rparr> in
              if en_enabled e \<and> en_value e \<noteq> VNone
              then pbind (coerce_value (en_value e) t) (\<lambda>x. ok (it1\<lparr>pv_value := x, pv_contributes := True\<rparr>))
              else ok it1)
         | None \<Rightarrow>
             (if level = Global then bridged it (get_l4_value S key) t ''l4''
              else if level = Resource then bridged it (get_legacy_value S key c level) t ''legacy''
              else ok it))"

definition effective_of :: "string \<Rightarrow> vtype \<Rightarrow> provenance \<Rightarrow> provenance list \<Rightarrow> effective" where
  "effective_of key t it chain =
     \<lparr>ef_key = key, ef_value = pv_value it, ef_type = t, ef_level = pv_level it, ef_kind = pv_kind it,
      ef_entry = pv_entry it, ef_inherited = False, ef_chain = chain\<rparr>"

fun resolve_levels ::
    "stores \<Rightarrow> string \<Rightarrow> vtype \<Rightarrow> resolution \<Rightarrow> scope list \<Rightarrow> provenance list \<Rightarrow> effective option
     \<Rightarrow> (provenance list \<times> effective option) py" where
  "resolve_levels S key t c [] chain best = ok (chain, best)"
| "resolve_levels S key t c (level # levels) chain best =
     pbind (level_item S key t c level) (\<lambda>it.
       resolve_levels S key t c levels (chain @ [it])
         (if pv_contributes it then Some (effective_of key t it (chain @ [it])) else best))"

definition resolve :: "stores \<Rightarrow> string \<Rightarrow> resolution \<Rightarrow> effective py" where
  "resolve S key c =
     pbind (get_key_spec key) (\<lambda>spec.
     pbind (resolve_levels S key (ks_type spec) c (applicable_scope_levels c) [] None) (\<lambda>(chain, best).
       case best of
         None \<Rightarrow> pbind (coerce_value (ks_default spec) (ks_type spec)) (\<lambda>v.
           ok \<lparr>ef_key = key, ef_value = v, ef_type = ks_type spec, ef_level = Global,
               ef_kind = ''default'', ef_entry = None, ef_inherited = True, ef_chain = chain\<rparr>)
       | Some e \<Rightarrow> ok (e\<lparr>ef_inherited := (ef_level e \<noteq> last (applicable_scope_levels c))\<rparr>)))"

definition resolve_prefix :: "stores \<Rightarrow> string \<Rightarrow> resolution \<Rightarrow> effective list py" where
  "resolve_prefix S pre c = traverse (\<lambda>key. resolve S key c) (list_key_specs pre)"

definition get_effective :: "stores \<Rightarrow> resolution \<Rightarrow> string list \<Rightarrow> string \<Rightarrow> effective list py" where
  "get_effective S c keys pre =
     (if keys \<noteq> [] then traverse (\<lambda>k. resolve S k c) keys
      else if pre \<noteq> [] then resolve_prefix S pre c
      else traverse (\<lambda>k. resolve S k c) (list_key_specs []))"

subsection \<open>Overrides\<close>

definition json_value_of :: "stores \<Rightarrow> cval \<Rightarrow> pyval py" where
  "json_value_of S v = (case v of
     CNone \<Rightarrow> ok VNone | CBool b \<Rightarrow> ok (VBool b) | CText s \<Rightarrow> ok (VStr s) | CJson j \<Rightarrow> ok j
   | CNum (Fin q) \<Rightarrow> ok (VFloat (Fin q) (cs_text S (Fin q)))
   | CNum f \<Rightarrow> raise (RuntimeError ''invalid input syntax for type json''))"

definition upsert_entry ::
    "string \<Rightarrow> string \<Rightarrow> pyval \<Rightarrow> scope \<Rightarrow> resolution \<Rightarrow> string option \<Rightarrow> bool \<Rightarrow> stores \<Rightarrow> (centry \<times> stores) py" where
  "upsert_entry eid key v level c actor enabled S =
     pbind (get_key_spec key) (\<lambda>spec.
     pbind (validate_scope_for_key key level) (\<lambda>u.
     pbind (coerce_value v (ks_type spec)) (\<lambda>x.
     pbind (json_value_of S x) (\<lambda>j.
       let same = at_scope key level c;
           row = (case get_entry_at_scope (cs_entries S) key level c of
             Some e \<Rightarrow> e\<lparr>en_value := j, en_enabled := enabled, en_version := en_version e + 1,
                         en_updated_by := actor\<rparr>
           | None \<Rightarrow> \<lparr>en_id = eid, en_key = key, en_value = j, en_level = level,
                       en_scope = scope_identity level c, en_enabled = enabled, en_version = 1,
                       en_created_by = actor, en_updated_by = actor\<rparr>);
           change = \<lparr>cg_entry = en_id row, cg_key = key, cg_level = level, cg_scope = scope_identity level c,
             cg_type = (if get_entry_at_scope (cs_entries S) key level c = None then ''create'' else ''update''),
             cg_old = (case get_entry_at_scope (cs_entries S) key level c of None \<Rightarrow> VNone | Some e \<Rightarrow> en_value e),
             cg_new = j,
             cg_version = (case get_entry_at_scope (cs_entries S) key level c of None \<Rightarrow> 1
               | Some e \<Rightarrow> entry_version e + 1),
             cg_actor = actor, cg_created = cs_now S\<rparr>
       in ok (row, S\<lparr>cs_entries := (if list_ex same (cs_entries S)
                      then map (\<lambda>e. if same e then row else e) (cs_entries S)
                      else cs_entries S @ [row]),
                    cs_log := cs_log S @ [change]\<rparr>)))))"

definition delete_override ::
    "string \<Rightarrow> scope \<Rightarrow> resolution \<Rightarrow> string option \<Rightarrow> stores \<Rightarrow> (bool \<times> stores) py" where
  "delete_override key level c actor S =
     pbind (validate_scope_for_key key level) (\<lambda>u.
       case get_entry_at_scope (cs_entries S) key level c of
         None \<Rightarrow> ok (False, S)
       | Some e \<Rightarrow> ok (True, S\<lparr>cs_entries := filter (\<lambda>x. \<not> at_scope key level c x) (cs_entries S),
           cs_log := cs_log S @ [\<lparr>cg_entry = en_id e, cg_key = key, cg_level = level,
             cg_scope = scope_identity level c, cg_type = ''reset'', cg_old = en_value e, cg_new = VNone,
             cg_version = entry_version e + 1, cg_actor = actor, cg_created = cs_now S\<rparr>]\<rparr>))"

text \<open>\<open>_record_mutation\<close> and \<open>_emit_updated\<close>.\<close>

definition record_mutation ::
    "string \<Rightarrow> resolution \<Rightarrow> string \<Rightarrow> string option \<Rightarrow> int option \<Rightarrow> string option \<Rightarrow> scope \<Rightarrow> stores \<Rightarrow> stores" where
  "record_mutation action c key eid version actor level S =
     (let t = opt_or (cx_tenant c) []; p = opt_or (cx_project c) [] in
      if t = [] \<or> p = [] then S
      else S\<lparr>cs_audit := cs_audit S @ [\<lparr>au_tenant = t, au_project = p, au_action = action,
               au_target = opt_or eid key, au_key = key, au_version = version, au_level = level,
               au_actor = actor\<rparr>],
             cs_emitted := cs_emitted S @ [(t, p, key, version)]\<rparr>)"

definition put_override ::
    "string \<Rightarrow> resolution \<Rightarrow> scope \<Rightarrow> string \<Rightarrow> pyval \<Rightarrow> string option \<Rightarrow> bool \<Rightarrow> stores \<Rightarrow> effective py \<times> stores" where
  "put_override eid c level key v actor enabled S =
     (case upsert_entry eid key v level c actor enabled S of
        Inl e \<Rightarrow> (Inl e, S)
      | Inr (row, S1) \<Rightarrow>
          (let S2 = record_mutation ''configuration.override.set'' c key (Some (en_id row))
                 (Some (entry_version row)) actor level S1
           in (resolve S2 key c, S2)))"

definition reset_override ::
    "resolution \<Rightarrow> scope \<Rightarrow> string \<Rightarrow> string option \<Rightarrow> stores \<Rightarrow> effective py \<times> stores" where
  "reset_override c level key actor S =
     (case pbind (get_key_spec key) (\<lambda>spec. delete_override key level c actor S) of
        Inl e \<Rightarrow> (Inl e, S)
      | Inr (deleted, S1) \<Rightarrow>
          (let S2 = (if deleted then record_mutation ''configuration.override.reset'' c key None None actor level S1
                     else S1)
           in (resolve S2 key c, S2)))"

text \<open>
  The columns of the log are never \<open>NULL\<close>, so only the comparisons with the context select a row, and
  a comparison with an absent value selects none.
\<close>

definition history :: "string \<Rightarrow> resolution \<Rightarrow> int \<Rightarrow> stores \<Rightarrow> change list py" where
  "history key c limit S =
     pbind (get_key_spec key) (\<lambda>spec.
       ok (take (nat (max 1 (min limit 200))) (rev (sort_key cg_created (filter (\<lambda>g. cg_key g = key \<and>
         Some (id_tenant (cg_scope g)) = cx_tenant c \<and> Some (id_project (cg_scope g)) = cx_project c)
         (cs_log S))))))"

end
