(* ===== verification/ConfigLaws.thy ===== *)
theory ConfigLaws
  imports Config
begin

text \<open>
  What the resolver of \<open>Config\<close> guarantees: the narrowest scope that says something wins, the value
  has the type of its key, an override takes effect and its reset takes it back. The bridge to the
  older policies hides every wider scope from a model.
\<close>

subsection \<open>The narrowest scope wins\<close>

lemma resolve_levels_items:
  assumes "resolve_levels S key t c levels chain best = Inr (chain', best')"
  shows "\<exists>items. traverse (level_item S key t c) levels = Inr items \<and> chain' = chain @ items \<and>
    (case find pv_contributes (rev items) of
       None \<Rightarrow> best' = best
     | Some it \<Rightarrow> \<exists>shown. best' = Some (effective_of key t it shown))"
  using assms
proof (induction levels arbitrary: chain best)
  case (Cons l levels)
  obtain it where it: "level_item S key t c l = Inr it"
    and rest: "resolve_levels S key t c levels (chain @ [it])
      (if pv_contributes it then Some (effective_of key t it (chain @ [it])) else best) = Inr (chain', best')"
    using Cons.prems by (auto simp: pbind_eq_Inr)
  have split: "find pv_contributes (xs @ [it]) = (case find pv_contributes xs of
      None \<Rightarrow> if pv_contributes it then Some it else None | Some y \<Rightarrow> Some y)" for xs
    by (induction xs) auto
  obtain items where "traverse (level_item S key t c) levels = Inr items" "chain' = (chain @ [it]) @ items"
    "case find pv_contributes (rev items) of
       None \<Rightarrow> best' = (if pv_contributes it then Some (effective_of key t it (chain @ [it])) else best)
     | Some it \<Rightarrow> \<exists>shown. best' = Some (effective_of key t it shown)"
    using Cons.IH [OF rest] by blast
  then show ?case
    using it by (intro exI [of _ "it # items"]) (auto simp: split split: option.splits)
qed simp

lemma level_item_level: "level_item S key t c l = Inr it \<Longrightarrow> pv_level it = l"
  by (auto simp: level_item_def bridged_def Let_def pbind_eq_Inr split: option.splits if_splits)

lemma traverse_map:
  assumes "traverse f xs = Inr ys" and "\<And>x y. f x = Inr y \<Longrightarrow> g y = x"
  shows "map g ys = xs"
  using assms(1) by (induction xs arbitrary: ys) (auto simp: pbind_eq_Inr assms(2))

lemma item_levels: "traverse (level_item S key t c) levels = Inr items \<Longrightarrow> map pv_level items = levels"
  by (rule traverse_map) (auto dest: level_item_level)

lemma applicable_sorted: "sorted_wrt (<) (applicable_scope_levels c)"
  by (simp add: applicable_scope_levels_def scope_order_def less_scope_def)

lemma applicable_nonempty [simp]: "applicable_scope_levels c \<noteq> []"
  by (simp add: applicable_scope_levels_def scope_order_def)

lemma last_is_Max:
  assumes "xs \<noteq> []" and "sorted_wrt (<) xs"
  shows "last xs = Max (set (xs :: 'a::linorder list))"
proof (rule Max_eqI [symmetric])
  show "y \<le> last xs" if "y \<in> set xs" for y
    using assms that by (induction xs rule: rev_induct) (auto simp: sorted_wrt_append less_imp_le)
qed (use assms in auto)

lemma last_contributing_Max:
  assumes "find P (rev xs) = Some x" and "sorted_wrt (<) (map f xs)"
  shows "P x \<and> x \<in> set xs \<and> f x = (Max (f ` set (filter P xs)) :: 'a::linorder)"
  using assms
proof (induction xs rule: rev_induct)
  case (snoc y ys)
  have smaller: "\<forall>z\<in>set ys. f z < f y"
    using snoc.prems(2) by (simp add: sorted_wrt_append)
  show ?case
  proof (cases "P y")
    case True
    then have "x = y" using snoc.prems(1) by simp
    moreover have "f y = Max (f ` set (filter P (ys @ [y])))"
      by (rule Max_eqI [symmetric]) (use smaller True in \<open>auto intro: less_imp_le\<close>)
    ultimately show ?thesis using True by simp
  next
    case False
    then show ?thesis
      using snoc by (auto simp: sorted_wrt_append)
  qed
qed simp

text \<open>
  C12. A key has the value the narrowest scope gives it: of the scopes that apply to the context and
  have an enabled entry or a bridged value, the greatest in the order from global to resource; the
  default of the key when none has. It counts as inherited when that scope is not the narrowest.
\<close>

theorem narrowest_scope_wins:
  assumes "resolve S key c = Inr ef"
  shows "\<exists>spec items. map_of key_registry key = Some spec \<and>
    traverse (level_item S key (ks_type spec) c) (applicable_scope_levels c) = Inr items \<and>
    (if filter pv_contributes items = []
     then ef_kind ef = ''default'' \<and> coerce_value (ks_default spec) (ks_type spec) = Inr (ef_value ef)
     else ef_level ef = Max (pv_level ` set (filter pv_contributes items)) \<and>
       (\<exists>it\<in>set items. pv_contributes it \<and> pv_level it = ef_level ef \<and> pv_value it = ef_value ef) \<and>
       ef_inherited ef = (ef_level ef < Max (set (applicable_scope_levels c))))"
proof -
  obtain spec chain best where spec: "map_of key_registry key = Some spec"
    and levels: "resolve_levels S key (ks_type spec) c (applicable_scope_levels c) [] None = Inr (chain, best)"
    using assms by (auto simp: resolve_def get_key_spec_def pbind_eq_Inr split: option.splits)
  obtain items where items: "traverse (level_item S key (ks_type spec) c) (applicable_scope_levels c) = Inr items"
    and best: "case find pv_contributes (rev items) of None \<Rightarrow> best = None
      | Some it \<Rightarrow> \<exists>shown. best = Some (effective_of key (ks_type spec) it shown)"
    using resolve_levels_items [OF levels] by blast
  have sorted: "sorted_wrt (<) (map pv_level items)"
    using item_levels [OF items] applicable_sorted by simp
  show ?thesis
  proof (cases "find pv_contributes (rev items)")
    case None
    then have "filter pv_contributes items = []" by (auto simp: find_None_iff filter_empty_conv)
    then show ?thesis
      using assms spec levels items best None
      by (auto simp: resolve_def get_key_spec_def pbind_eq_Inr)
  next
    case (Some it)
    note it = last_contributing_Max [OF Some sorted]
    have "filter pv_contributes items \<noteq> []"
      using it by (auto simp: filter_empty_conv)
    moreover have ef: "ef_level ef = pv_level it" "ef_value ef = pv_value it"
      "ef_inherited ef = (pv_level it \<noteq> last (applicable_scope_levels c))"
      using assms spec levels best Some
      by (auto simp: resolve_def get_key_spec_def effective_of_def)
    moreover have "pv_level it \<le> Max (set (applicable_scope_levels c))"
      using it item_levels [OF items] by (metis List.finite_set Max_ge image_eqI list.set_map)
    ultimately show ?thesis
      using spec items it last_is_Max [OF applicable_nonempty applicable_sorted, of c]
      by (auto simp: order_less_le)
  qed
qed

subsection \<open>Types\<close>

fun has_type :: "vtype \<Rightarrow> cval \<Rightarrow> bool" where
  "has_type BooleanT (CBool b) = True"
| "has_type NumberT (CNum f) = True"
| "has_type StringT (CText s) = True"
| "has_type DurationT (CText s) = True"
| "has_type JsonT (CJson (VDict d)) = True"
| "has_type JsonT (CJson (VList xs)) = True"
| "has_type t v = False"

lemma coerce_typed: "coerce_value v t = Inr x \<Longrightarrow> v \<noteq> VNone \<Longrightarrow> has_type t x"
  by (auto simp: coerce_value_def coerce_boolean_def Let_def pbind_eq_Inr
      split: vtype.splits pyval.splits if_splits)

lemma level_item_typed: "level_item S key t c l = Inr it \<Longrightarrow> pv_contributes it \<Longrightarrow> has_type t (pv_value it)"
  by (auto simp: level_item_def bridged_def Let_def pbind_eq_Inr dest: coerce_typed
      split: option.splits if_splits)

lemma traverse_elem: "traverse f xs = Inr ys \<Longrightarrow> y \<in> set ys \<Longrightarrow> \<exists>x\<in>set xs. f x = Inr y"
  by (induction xs arbitrary: ys) (auto simp: pbind_eq_Inr)

lemma defaults_not_none: "map_of key_registry key = Some spec \<Longrightarrow> ks_default spec \<noteq> VNone"
  by (auto simp: key_registry_def default_threshold_def split: if_splits)

text \<open>
  Whatever is stored, a key that resolves has a value of its registered type: what is stored as
  text for a switch is a switch when it is read, or the resolution fails.
\<close>

lemma resolve_typed:
  assumes "resolve S key c = Inr ef"
  shows "\<exists>spec. map_of key_registry key = Some spec \<and> ef_type ef = ks_type spec \<and>
    has_type (ks_type spec) (ef_value ef)"
proof -
  obtain spec chain best where spec: "map_of key_registry key = Some spec"
    and levels: "resolve_levels S key (ks_type spec) c (applicable_scope_levels c) [] None = Inr (chain, best)"
    using assms by (auto simp: resolve_def get_key_spec_def pbind_eq_Inr split: option.splits)
  from resolve_levels_items [OF levels] obtain items where
    items: "traverse (level_item S key (ks_type spec) c) (applicable_scope_levels c) = Inr items"
    and best: "case find pv_contributes (rev items) of None \<Rightarrow> best = None
      | Some it \<Rightarrow> \<exists>shown. best = Some (effective_of key (ks_type spec) it shown)"
    by blast
  show ?thesis
  proof (cases "find pv_contributes (rev items)")
    case None
    then show ?thesis
      using assms spec levels best coerce_typed [OF _ defaults_not_none [OF spec]]
      by (auto simp: resolve_def get_key_spec_def pbind_eq_Inr)
  next
    case (Some it)
    then have "it \<in> set items" "pv_contributes it" by (auto simp: find_Some_iff) (metis nth_mem set_rev length_rev)
    then have "has_type (ks_type spec) (pv_value it)"
      using traverse_elem [OF items] level_item_typed by blast
    then show ?thesis
      using assms spec levels best Some by (auto simp: resolve_def get_key_spec_def effective_of_def)
  qed
qed

lemma resolve_key:
  assumes "resolve S key c = Inr ef"
  shows "ef_key ef = key"
proof -
  obtain spec chain best where levels:
    "resolve_levels S key (ks_type spec) c (applicable_scope_levels c) [] None = Inr (chain, best)"
    "get_key_spec key = Inr spec"
    using assms by (auto simp: resolve_def pbind_eq_Inr)
  then have "best = None \<or> (\<exists>it shown. best = Some (effective_of key (ks_type spec) it shown))"
    using resolve_levels_items [OF levels(1)] by (auto split: option.splits)
  then show ?thesis
    using assms levels by (auto simp: resolve_def pbind_eq_Inr effective_of_def)
qed

text \<open>
  C19. The configuration of a context as it is read: the keys asked for, or those with a prefix, or all
  of them, in their order, and each with a value of its registered type.
\<close>

theorem effective_typed:
  assumes "get_effective S c keys pre = Inr efs"
  shows "map ef_key efs = (if keys \<noteq> [] then keys else list_key_specs pre) \<and>
    (\<forall>e\<in>set efs. \<exists>spec. map_of key_registry (ef_key e) = Some spec \<and> ef_type e = ks_type spec \<and>
      has_type (ks_type spec) (ef_value e))"
proof -
  have "traverse (\<lambda>k. resolve S k c) (if keys \<noteq> [] then keys else list_key_specs pre) = Inr efs"
    using assms by (auto simp: get_effective_def resolve_prefix_def split: if_splits)
  then show ?thesis
    using traverse_map [of "\<lambda>k. resolve S k c" _ efs ef_key]
    by (auto simp: resolve_key dest!: traverse_elem [of "\<lambda>k. resolve S k c"] intro: resolve_typed)
qed
subsection \<open>Overrides\<close>

lemma last_version_single:
  "\<forall>e\<in>set es. e = x \<Longrightarrow> es \<noteq> [] \<Longrightarrow> last_version best es = Some x \<or>
     (\<exists>y. best = Some y \<and> entry_version x < entry_version y)"
  by (induction best es rule: last_version.induct)
    (fastforce split: option.splits if_splits)+

lemma last_version_only: "\<forall>e\<in>set es. e = x \<Longrightarrow> es \<noteq> [] \<Longrightarrow> last_version None es = Some x"
  using last_version_single [of es x None] by simp

lemma last_applies: "scope_applies (last (applicable_scope_levels c)) c"
proof -
  have "last (applicable_scope_levels c) \<in> set (applicable_scope_levels c)" by simp
  then show ?thesis by (simp add: applicable_scope_levels_def del: last_in_set)
qed

lemma resolve_levels_append:
  "resolve_levels S key t c (ls @ [l]) chain best =
     pbind (resolve_levels S key t c ls chain best) (\<lambda>(chain', best').
       resolve_levels S key t c [l] chain' best')"
proof (induction ls arbitrary: chain best)
  case (Cons a ls)
  then show ?case by (cases "level_item S key t c a") simp_all
qed simp

lemma at_scope_in_chain: "at_scope key level c e \<Longrightarrow> in_chain key c e"
  by (cases level) (auto simp: at_scope_def in_chain_def Let_def)

lemma record_mutation_frame [simp]:
  "cs_entries (record_mutation action c key eid v actor level S) = cs_entries S"
  "cs_log (record_mutation action c key eid v actor level S) = cs_log S"
  "cs_closed (record_mutation action c key eid v actor level S) = cs_closed S"
  "cs_triggers (record_mutation action c key eid v actor level S) = cs_triggers S"
  "cs_stage_order (record_mutation action c key eid v actor level S) = cs_stage_order S"
  "cs_mode (record_mutation action c key eid v actor level S) = cs_mode S"
  by (simp_all add: record_mutation_def Let_def)

lemma json_coerce:
  assumes "has_type t x" and "json_value_of S x = Inr j"
  shows "coerce_value j t = Inr x \<and> j \<noteq> VNone"
  using assms
  by (induction t x rule: has_type.induct)
    (auto simp: coerce_value_def coerce_boolean_def json_value_of_def split: pyfloat.splits)

definition upserted :: "string \<Rightarrow> pyval \<Rightarrow> scope \<Rightarrow> resolution \<Rightarrow> string option \<Rightarrow> bool \<Rightarrow> string \<Rightarrow> stores \<Rightarrow> centry" where
  "upserted key j level c actor enabled eid S = (case get_entry_at_scope (cs_entries S) key level c of
     Some e \<Rightarrow> e\<lparr>en_value := j, en_enabled := enabled, en_version := en_version e + 1,
                 en_updated_by := actor\<rparr>
   | None \<Rightarrow> \<lparr>en_id = eid, en_key = key, en_value = j, en_level = level,
               en_scope = scope_identity level c, en_enabled = enabled, en_version = 1,
               en_created_by = actor, en_updated_by = actor\<rparr>)"

lemma upsert_entry_cases:
  assumes "upsert_entry eid key v level c actor enabled S = Inr (row, S1)"
  obtains spec x j where "map_of key_registry key = Some spec" "coerce_value v (ks_type spec) = Inr x"
    "json_value_of S x = Inr j" "row = upserted key j level c actor enabled eid S"
    "cs_entries S1 = (if list_ex (at_scope key level c) (cs_entries S)
       then map (\<lambda>e. if at_scope key level c e then row else e) (cs_entries S)
       else cs_entries S @ [row])"
    "cs_closed S1 = cs_closed S" "cs_triggers S1 = cs_triggers S"
    "cs_stage_order S1 = cs_stage_order S" "cs_mode S1 = cs_mode S" "level \<in> set (ks_scopes spec)"
  using assms
  by (auto simp: upsert_entry_def pbind_eq_Inr get_key_spec_def validate_scope_for_key_def Let_def
      upserted_def split: option.splits if_splits)

lemma upserted_at_scope: "at_scope key level c (upserted key j level c actor enabled eid S)"
  by (auto simp: upserted_def at_scope_def get_entry_at_scope_def split: option.splits dest!: find_SomeD)

lemma upserted_fields [simp]:
  "en_value (upserted key j level c actor enabled eid S) = j"
  "en_enabled (upserted key j level c actor enabled eid S) = enabled"
  by (auto simp: upserted_def split: option.splits)

text \<open>A context whose narrowest scope holds no row for another environment.\<close>

definition only_own_scope :: "string \<Rightarrow> scope \<Rightarrow> resolution \<Rightarrow> stores \<Rightarrow> bool" where
  "only_own_scope key level c S =
     list_all (\<lambda>e. \<not> in_chain key c e \<or> en_level e \<noteq> level \<or> at_scope key level c e) (cs_entries S)"

lemma fetch_after_upsert:
  assumes "only_own_scope key level c S"
    and "entries = (if list_ex (at_scope key level c) (cs_entries S)
       then map (\<lambda>e. if at_scope key level c e then row else e) (cs_entries S)
       else cs_entries S @ [row])"
    and "at_scope key level c row"
  shows "fetch_chain entries key c level = Some row"
  unfolding fetch_chain_def
proof (rule last_version_only)
  have row: "in_chain key c row" "en_level row = level"
    using assms(3) by (simp_all add: at_scope_in_chain) (simp add: at_scope_def)
  show "\<forall>e\<in>set (filter (\<lambda>e. en_level e = level) (filter (in_chain key c) entries)). e = row"
    using assms(1,2) by (auto simp: only_own_scope_def list_all_iff list_ex_iff split: if_splits)
  have "row \<in> set entries"
    using assms(2,3) by (force simp: list_ex_iff)
  then show "filter (\<lambda>e. en_level e = level) (filter (in_chain key c) entries) \<noteq> []"
    using row by (auto simp: filter_empty_conv)
qed

text \<open>
  An override takes effect: a value set at the narrowest scope of a context, enabled, is the
  value the context resolves to from then on, coerced to the type of the key and not inherited.
\<close>

theorem override_takes_effect:
  assumes "put_override eid c level key v actor True S = (Inr ef, S')"
    and "level = last (applicable_scope_levels c)" and "v \<noteq> VNone"
    and "only_own_scope key level c S"
  shows "\<exists>spec. map_of key_registry key = Some spec \<and>
    coerce_value v (ks_type spec) = Inr (ef_value ef) \<and> ef_level ef = level \<and> \<not> ef_inherited ef"
proof -
  obtain row S1 where up: "upsert_entry eid key v level c actor True S = Inr (row, S1)"
    and ef: "resolve S' key c = Inr ef" and S': "cs_entries S' = cs_entries S1"
    using assms(1) by (auto simp: put_override_def Let_def split: sum.splits prod.splits)
  from up obtain spec x j where spec: "map_of key_registry key = Some spec"
    and x: "coerce_value v (ks_type spec) = Inr x" and j: "json_value_of S x = Inr j"
    and row: "row = upserted key j level c actor True eid S"
    and entries: "cs_entries S1 = (if list_ex (at_scope key level c) (cs_entries S)
       then map (\<lambda>e. if at_scope key level c e then row else e) (cs_entries S)
       else cs_entries S @ [row])"
    by (rule upsert_entry_cases)
  have "fetch_chain (cs_entries S') key c level = Some row"
    using fetch_after_upsert [OF assms(4) entries] upserted_at_scope by (simp add: row S')
  then obtain it where it: "level_item S' key (ks_type spec) c level = Inr it" "pv_contributes it"
      "pv_value it = x" "pv_level it = level"
    using json_coerce [OF coerce_typed [OF x assms(3)] j] by (simp add: level_item_def Let_def row)
  obtain ls where ls: "applicable_scope_levels c = ls @ [level]"
    using assms(2) applicable_nonempty append_butlast_last_id by metis
  show ?thesis
    using ef spec it x
    by (auto simp: resolve_def get_key_spec_def ls resolve_levels_append pbind_eq_Inr effective_of_def)
qed

lemma level_item_cong:
  assumes "cs_entries S' = cs_entries S" "cs_closed S' = cs_closed S" "cs_triggers S' = cs_triggers S"
    "cs_stage_order S' = cs_stage_order S" "cs_mode S' = cs_mode S"
  shows "level_item S' key t c l = level_item S key t c l"
  unfolding level_item_def get_l4_value_def get_legacy_value_def assms ..

lemma resolve_cong:
  assumes "cs_entries S' = cs_entries S" "cs_closed S' = cs_closed S" "cs_triggers S' = cs_triggers S"
    "cs_stage_order S' = cs_stage_order S" "cs_mode S' = cs_mode S"
  shows "resolve S' key c = resolve S key c"
proof -
  have "resolve_levels S' key t c ls chain best = resolve_levels S key t c ls chain best" for t ls chain best
    by (induction ls arbitrary: chain best) (simp_all add: level_item_cong [OF assms])
  then show ?thesis by (simp add: resolve_def)
qed

text \<open>
  A reset takes back an override: when a scope had no entry, setting one and resetting it leaves
  the entries as they were, and every key resolves for every context as before.
\<close>

theorem reset_takes_back:
  assumes "put_override eid c level key v actor enabled S = (Inr ef, S1)"
    and "get_entry_at_scope (cs_entries S) key level c = None"
    and "reset_override c level key actor' S1 = (r, S2)"
  shows "cs_entries S2 = cs_entries S \<and> r = resolve S key c \<and> resolve S2 key' c' = resolve S key' c'"
proof -
  obtain row S0 where up: "upsert_entry eid key v level c actor enabled S = Inr (row, S0)"
    and S1: "S1 = record_mutation ''configuration.override.set'' c key (Some (en_id row))
      (Some (entry_version row)) actor level S0"
    using assms(1) by (auto simp: put_override_def Let_def split: sum.splits prod.splits)
  have fresh: "\<forall>e\<in>set (cs_entries S). \<not> at_scope key level c e"
    using assms(2) by (simp add: get_entry_at_scope_def find_None_iff)
  from up obtain spec j where spec: "map_of key_registry key = Some spec" "level \<in> set (ks_scopes spec)"
    and row: "row = upserted key j level c actor enabled eid S"
    and entries: "cs_entries S1 = cs_entries S @ [row]"
    and frame: "cs_closed S1 = cs_closed S" "cs_triggers S1 = cs_triggers S"
      "cs_stage_order S1 = cs_stage_order S" "cs_mode S1 = cs_mode S"
    using fresh by (rule_tac upsert_entry_cases [OF up]) (auto simp: S1 list_ex_iff)
  have "find (at_scope key level c) (cs_entries S1) = Some row"
    using fresh upserted_at_scope by (simp add: entries row find_at_end find_None_iff)
  moreover have "filter (\<lambda>x. \<not> at_scope key level c x) (cs_entries S1) = cs_entries S"
    using fresh upserted_at_scope by (simp add: entries row filter_id_conv)
  ultimately obtain S3 where "delete_override key level c actor' S1 = Inr (True, S3)"
      "cs_entries S3 = cs_entries S" "cs_closed S3 = cs_closed S" "cs_triggers S3 = cs_triggers S"
      "cs_stage_order S3 = cs_stage_order S" "cs_mode S3 = cs_mode S"
    using spec frame
    by (simp add: delete_override_def validate_scope_for_key_def get_key_spec_def get_entry_at_scope_def)
  then show ?thesis
    using assms(3) spec resolve_cong [of S2 S]
    by (auto simp: reset_override_def get_key_spec_def Let_def)
qed

subsection \<open>The bridge to the older policies\<close>

lemma por_not_none: "b \<noteq> VNone \<Longrightarrow> por a b \<noteq> VNone"
  by (cases a) (simp_all add: por_def)

lemma closed_field_present:
  assumes "map_of closed_loop_keys key = Some field"
  shows "dget (closed_dict src row) field \<noteq> VNone"
proof -
  have "field \<in> {''drift_psi_threshold'', ''monitoring_enabled'', ''auto_retrain_on_breach'',
      ''auto_promote_on_eval_pass'', ''auto_rollback_on_breach''}"
    using map_of_SomeD [OF assms] by (auto simp: closed_loop_keys_def)
  moreover have "por (cl_threshold row) default_threshold \<noteq> VNone"
    by (rule por_not_none) (simp add: default_threshold_def)
  ultimately show ?thesis by (elim insertE) (simp_all add: closed_dict_def dget_def)
qed

text \<open>
  For a model the keys the closed loop knows never come from a wider scope: without an entry of
  the model itself the stored closed loop policy answers, or the default that stands for it when
  there is none, so that a value set for the project or the platform has no effect.
\<close>

theorem wider_scopes_masked:
  assumes "map_of closed_loop_keys key = Some field" and "map_of key_registry key = Some spec"
    and "fetch_chain (cs_entries S) key c Resource = None"
    and "cx_rtype c = Some ''model''" and "scope_applies Resource c"
    and "resolve S key c = Inr ef"
  shows "ef_kind ef = ''legacy'' \<and> ef_level ef = Resource \<and>
    coerce_value (dget (get_closed_loop_policy (cs_closed S) (opt_or (cx_tenant c) [])
      (opt_or (cx_project c) []) (opt_or (cx_rid c) [])) field) (ks_type spec) = Inr (ef_value ef)"
proof -
  have blank: "norm v \<noteq> [] \<Longrightarrow> opt_or v [] \<noteq> []" for v
    by (auto simp: norm_def)
  then have ids: "opt_or (cx_tenant c) [] \<noteq> []" "opt_or (cx_project c) [] \<noteq> []" "opt_or (cx_rid c) [] \<noteq> []"
    using assms(5) by simp_all
  let ?v = "dget (get_closed_loop_policy (cs_closed S) (opt_or (cx_tenant c) [])
      (opt_or (cx_project c) []) (opt_or (cx_rid c) [])) field"
  have "?v \<noteq> VNone"
    using closed_field_present [OF assms(1)] by (simp add: get_closed_loop_policy_def split: option.split)
  then have item: "level_item S key t c Resource = pbind (coerce_value ?v t) (\<lambda>x. ok
      \<lparr>pv_level = Resource, pv_scope = scope_identity Resource c, pv_value = x, pv_entry = None,
       pv_enabled = True, pv_contributes = True, pv_kind = ''legacy''\<rparr>)" for t
    using assms(1,3,4) ids
    by (simp add: level_item_def bridged_def get_legacy_value_def del: scope_identity.simps)
  have last: "\<exists>ls. applicable_scope_levels c = ls @ [Resource]"
    using assms(5) by (simp add: applicable_scope_levels_def scope_order_def)
  then show ?thesis
    using assms(2,6) item
    by (auto simp: resolve_def get_key_spec_def resolve_levels_append pbind_eq_Inr effective_of_def
        simp del: scope_identity.simps)
qed

end
