(* ===== verification/Policies.thy ===== *)
theory Policies
  imports ConfigLaws Promotion
begin

text \<open>
  Model of \<^verbatim>\<open>policy/policy_engine.py\<close> with its repository, and of \<^verbatim>\<open>lifecycle/lifecycle_fsm.py\<close>: the rules of a
  project, the actions they give for a telemetry, and the guard on the stage of a model version. Both
  read the configuration through the resolver. The texts shown with an action are not modelled.
\<close>

subsection \<open>Rules\<close>

record policy_rule =
  ru_id :: string
  ru_tenant :: string
  ru_project :: string
  ru_rtype :: string
  ru_kind :: string
  ru_config :: pydict
  ru_enabled :: bool
  ru_created :: int

definition list_rules :: "policy_rule list \<Rightarrow> string \<Rightarrow> string \<Rightarrow> string \<Rightarrow> bool \<Rightarrow> policy_rule list" where
  "list_rules rows tenant project rtype enabled_only =
     sort_key ru_created (filter (\<lambda>r. ru_tenant r = tenant \<and> ru_project r = project \<and>
       (rtype = [] \<or> ru_rtype r = rtype) \<and> (enabled_only \<longrightarrow> ru_enabled r)) rows)"

text \<open>\<open>INSERT ... ON CONFLICT (rule_id) DO UPDATE\<close>; a new rule is created now.\<close>

definition upsert_rule ::
    "string \<Rightarrow> string \<Rightarrow> string \<Rightarrow> string \<Rightarrow> string option \<Rightarrow> string \<Rightarrow> pydict \<Rightarrow> bool \<Rightarrow> int
     \<Rightarrow> policy_rule list \<Rightarrow> policy_rule list" where
  "upsert_rule rid tenant project rtype resource kind config enabled now rows =
     (let merged = (if opt_or resource [] = [] then config
                    else dset ''resource_id'' (VStr (opt_or resource [])) config)
      in if list_ex (\<lambda>r. ru_id r = rid) rows
         then map (\<lambda>r. if ru_id r = rid
              then r\<lparr>ru_rtype := rtype, ru_kind := kind, ru_config := merged, ru_enabled := enabled\<rparr>
              else r) rows
         else rows @ [\<lparr>ru_id = rid, ru_tenant = tenant, ru_project = project, ru_rtype = rtype,
            ru_kind = kind, ru_config = merged, ru_enabled = enabled, ru_created = now\<rparr>])"

definition delete_rule :: "string \<Rightarrow> string \<Rightarrow> string \<Rightarrow> policy_rule list \<Rightarrow> bool \<times> policy_rule list" where
  "delete_rule rid tenant project rows =
     (let hit = (\<lambda>r. ru_id r = rid \<and> ru_tenant r = tenant \<and> ru_project r = project)
      in (list_ex hit rows, filter (\<lambda>r. \<not> hit r) rows))"

subsection \<open>Evaluation\<close>

datatype policy_action =
    DriftDetected pyfloat pyfloat string
  | SloBreached pyval string
  | RetrainingRequested string string string
  | RollbackRequested string

text \<open>The snapshot holds the values the rules have read.\<close>

type_synonym snapshot = "(string \<times> cval) list"

definition read_key :: "stores \<Rightarrow> resolution \<Rightarrow> string \<Rightarrow> snapshot \<Rightarrow> (cval \<times> snapshot) py" where
  "read_key S c key snap = pbind (resolve S key c) (\<lambda>e. ok (ef_value e, dset key (ef_value e) snap))"

fun ctruthy :: "cval \<Rightarrow> bool" where
  "ctruthy CNone = False"
| "ctruthy (CBool b) = b"
| "ctruthy (CNum f) = (f \<noteq> Fin 0)"
| "ctruthy (CText s) = (s \<noteq> [])"
| "ctruthy (CJson v) = truthy v"

text \<open>\<open>float(value or 0)\<close>\<close>

definition cfloat :: "cval \<Rightarrow> pyfloat py" where
  "cfloat v = (case v of
     CNone \<Rightarrow> ok (Fin 0) | CBool b \<Rightarrow> ok (Fin (if b then 1 else 0)) | CNum f \<Rightarrow> ok f
   | CText s \<Rightarrow> py_float (por (VStr s) (VInt 0)) | CJson j \<Rightarrow> py_float (por j (VInt 0)))"

definition fle :: "pyfloat \<Rightarrow> pyfloat \<Rightarrow> bool" where
  "fle a b = (a \<noteq> NaN \<and> b \<noteq> NaN \<and> \<not> fgt a b)"

text \<open>\<open>v.get(key)\<close> where \<open>v\<close> may be anything.\<close>

definition get_of :: "pyval \<Rightarrow> string \<Rightarrow> pyval py" where
  "get_of v key = (case v of VDict d \<Rightarrow> ok (dget d key) | _ \<Rightarrow> raise TypeError)"

definition eval_drift ::
    "stores \<Rightarrow> policy_rule \<Rightarrow> resolution \<Rightarrow> pydict \<Rightarrow> snapshot \<Rightarrow> (policy_action list \<times> snapshot) py" where
  "eval_drift S rule c telemetry snap =
     pbind (read_key S c ''monitoring.drift.enabled'' snap) (\<lambda>(on, snap1).
       if \<not> ctruthy on then ok ([], snap1)
       else pbind (read_key S c ''monitoring.drift.threshold'' snap1) (\<lambda>(t, snap2).
         pbind (cfloat t) (\<lambda>threshold.
         pbind (get_of (por (dget telemetry ''drift'') (VDict [])) ''psi'') (\<lambda>p.
         pbind (py_float (por p (por (dget telemetry ''drift_psi'') (VInt 0)))) (\<lambda>psi.
           ok (if fle psi threshold then [] else [DriftDetected psi threshold (ru_id rule)], snap2))))))"

definition breaches_of :: "pydict \<Rightarrow> pyval" where
  "breaches_of telemetry = por (dget telemetry ''slo_breaches'') (por (dget telemetry ''breaches'') (VList []))"

definition eval_slo ::
    "stores \<Rightarrow> policy_rule \<Rightarrow> resolution \<Rightarrow> pydict \<Rightarrow> snapshot \<Rightarrow> (policy_action list \<times> snapshot) py" where
  "eval_slo S rule c telemetry snap =
     ok (if truthy (breaches_of telemetry) then [SloBreached (breaches_of telemetry) (ru_id rule)] else [], snap)"

text \<open>\<open>str(value or 'manual')\<close> of the trigger mode, whose type is text.\<close>

definition trigger_text :: "cval \<Rightarrow> string" where
  "trigger_text v = (case v of CText s \<Rightarrow> if s = [] then ''manual'' else s | _ \<Rightarrow> ''manual'')"

definition eval_retrain ::
    "stores \<Rightarrow> policy_rule \<Rightarrow> resolution \<Rightarrow> pydict \<Rightarrow> snapshot \<Rightarrow> (policy_action list \<times> snapshot) py" where
  "eval_retrain S rule c telemetry snap =
     pbind (read_key S c ''automation.retrain.enabled'' snap) (\<lambda>(on, snap1).
       if \<not> ctruthy on then ok ([], snap1)
       else pbind (resolve S ''automation.retrain.trigger_mode'' c) (\<lambda>e.
         let trigger = trigger_text (ef_value e);
             snap2 = dset ''automation.retrain.trigger_mode'' (CText trigger) snap1;
             reason = str_or (dget telemetry ''reason'') []
         in ok (if (trigger = ''manual'' \<or> trigger \<notin> {''drift'', ''slo_breach'', ''auto_ready'', ''schedule''})
                    \<and> reason = [] then []
                else [RetrainingRequested (if reason = [] then ''trigger_mode='' @ trigger else reason)
                  trigger (ru_id rule)], snap2)))"

definition eval_rollback ::
    "stores \<Rightarrow> policy_rule \<Rightarrow> resolution \<Rightarrow> pydict \<Rightarrow> snapshot \<Rightarrow> (policy_action list \<times> snapshot) py" where
  "eval_rollback S rule c telemetry snap =
     pbind (read_key S c ''automation.rollback.enabled'' snap) (\<lambda>(on, snap1).
       ok (if ctruthy on \<and> truthy (breaches_of telemetry) then [RollbackRequested (ru_id rule)] else [], snap1))"

definition rule_handlers :: "(string \<times> (stores \<Rightarrow> policy_rule \<Rightarrow> resolution \<Rightarrow> pydict \<Rightarrow> snapshot
    \<Rightarrow> (policy_action list \<times> snapshot) py)) list" where
  "rule_handlers = [(''drift_threshold'', eval_drift), (''slo_breach'', eval_slo),
     (''retrain_on_breach'', eval_retrain), (''rollback_on_breach'', eval_rollback)]"

record evaluation =
  ev_actions :: "policy_action list"
  ev_rules :: nat
  ev_skipped :: nat
  ev_config :: snapshot

fun evaluate_rules ::
    "stores \<Rightarrow> resolution \<Rightarrow> pydict \<Rightarrow> policy_rule list \<Rightarrow> policy_action list \<Rightarrow> nat \<Rightarrow> snapshot
     \<Rightarrow> (policy_action list \<times> nat \<times> snapshot) py" where
  "evaluate_rules S c telemetry [] actions skipped snap = ok (actions, skipped, snap)"
| "evaluate_rules S c telemetry (r # rs) actions skipped snap =
     (if \<not> ru_enabled r then evaluate_rules S c telemetry rs actions (Suc skipped) snap
      else (case map_of rule_handlers (ru_kind r) of
          None \<Rightarrow> evaluate_rules S c telemetry rs actions (Suc skipped) snap
        | Some handler \<Rightarrow> pbind (handler S r c telemetry snap) (\<lambda>(new, snap1).
            evaluate_rules S c telemetry rs (actions @ new) skipped snap1)))"

definition rule_applies :: "string option \<Rightarrow> policy_rule \<Rightarrow> bool" where
  "rule_applies resource r =
     (\<not> truthy (dget (ru_config r) ''resource_id'') \<or> dget (ru_config r) ''resource_id'' = of_opt_str resource)"

definition evaluate ::
    "stores \<Rightarrow> policy_rule list \<Rightarrow> string \<Rightarrow> string \<Rightarrow> string \<Rightarrow> string option \<Rightarrow> pydict \<Rightarrow> evaluation py" where
  "evaluate S rows tenant project rtype resource telemetry =
     (let c = \<lparr>cx_tenant = Some tenant, cx_project = Some project, cx_env = None, cx_rtype = Some rtype,
            cx_rid = resource\<rparr>;
          rules = filter (rule_applies resource) (list_rules rows tenant project rtype True)
      in pbind (evaluate_rules S c telemetry rules [] 0 []) (\<lambda>(actions, skipped, snap).
           ok \<lparr>ev_actions = actions, ev_rules = length rules, ev_skipped = skipped, ev_config = snap\<rparr>))"

subsection \<open>The guard on the stage of a version\<close>

definition fsm_transition ::
    "stores \<Rightarrow> promo \<Rightarrow> string \<Rightarrow> string \<Rightarrow> string option \<Rightarrow> string \<Rightarrow> bool \<Rightarrow> string option \<Rightarrow> verdict py" where
  "fsm_transition S P tenant project current target passing resource =
     (let v = evaluate_stage_transition P current target;
          rid = opt_or resource [];
          c = \<lparr>cx_tenant = Some tenant, cx_project = Some project, cx_env = None,
               cx_rtype = (if rid = [] then None else Some ''model''), cx_rid = resource\<rparr>
      in if \<not> allowed v then ok v
         else pbind (resolve S ''governance.evaluation.require_before_promote'' c) (\<lambda>req.
              pbind (resolve S ''governance.approval.two_step_required'' c) (\<lambda>two.
                if ctruthy (ef_value req) \<and> lower (strip target) = ''production'' \<and> \<not> passing
                then ok (refuse ''evaluation_required''
                  ''Production promotion requires a passing evaluation.'' (vkind v))
                else ok (permit (vkind v)))))"

subsection \<open>What an action stands for\<close>

fun rule_of :: "policy_action \<Rightarrow> string" where
  "rule_of (DriftDetected psi t r) = r"
| "rule_of (SloBreached b r) = r"
| "rule_of (RetrainingRequested why trigger r) = r"
| "rule_of (RollbackRequested r) = r"

fun grounded :: "pydict \<Rightarrow> policy_action \<Rightarrow> bool" where
  "grounded telemetry (DriftDetected psi t r) = (\<not> fle psi t)"
| "grounded telemetry (SloBreached b r) = (b = breaches_of telemetry \<and> truthy b)"
| "grounded telemetry (RetrainingRequested why trigger r) = (why \<noteq> [])"
| "grounded telemetry (RollbackRequested r) = truthy (breaches_of telemetry)"

definition kind_of :: "policy_action \<Rightarrow> string" where
  "kind_of a = (case a of DriftDetected _ _ _ \<Rightarrow> ''drift_threshold'' | SloBreached _ _ \<Rightarrow> ''slo_breach''
     | RetrainingRequested _ _ _ \<Rightarrow> ''retrain_on_breach'' | RollbackRequested _ \<Rightarrow> ''rollback_on_breach'')"

lemma handler_grounded:
  assumes "map_of rule_handlers (ru_kind r) = Some handler" and "handler S r c telemetry snap = Inr (new, snap')"
  shows "\<forall>a\<in>set new. rule_of a = ru_id r \<and> kind_of a = ru_kind r \<and> grounded telemetry a"
proof -
  from assms(1) consider "ru_kind r = ''drift_threshold''" "handler = eval_drift"
    | "ru_kind r = ''slo_breach''" "handler = eval_slo"
    | "ru_kind r = ''retrain_on_breach''" "handler = eval_retrain"
    | "ru_kind r = ''rollback_on_breach''" "handler = eval_rollback"
    by (auto simp: rule_handlers_def split: if_splits)
  then show ?thesis
  proof cases
    case 1
    then show ?thesis
      using assms(2) by (auto simp: eval_drift_def kind_of_def pbind_eq_Inr split: if_splits)
  next
    case 2
    then show ?thesis
      using assms(2) by (auto simp: eval_slo_def kind_of_def)
  next
    case 3
    then show ?thesis
      using assms(2) by (auto simp: eval_retrain_def kind_of_def pbind_eq_Inr Let_def split: if_splits)
  next
    case 4
    then show ?thesis
      using assms(2) by (auto simp: eval_rollback_def kind_of_def pbind_eq_Inr split: if_splits)
  qed
qed

lemma evaluate_rules_grounded:
  assumes "evaluate_rules S c telemetry rs actions skipped snap = Inr (actions', skipped', snap')"
  shows "\<forall>a\<in>set actions'. a \<in> set actions \<or> (\<exists>r\<in>set rs. ru_enabled r \<and> rule_of a = ru_id r \<and>
    kind_of a = ru_kind r \<and> grounded telemetry a)"
  using assms
proof (induction rs arbitrary: actions skipped snap)
  case (Cons r rs)
  show ?case
  proof (cases "ru_enabled r \<and> map_of rule_handlers (ru_kind r) \<noteq> None")
    case False
    then have "evaluate_rules S c telemetry rs actions (Suc skipped) snap = Inr (actions', skipped', snap')"
      using Cons.prems by (auto split: option.splits if_splits)
    from Cons.IH [OF this] show ?thesis by auto
  next
    case True
    then obtain handler new snap1 where h: "map_of rule_handlers (ru_kind r) = Some handler"
      "handler S r c telemetry snap = Inr (new, snap1)"
      and rest: "evaluate_rules S c telemetry rs (actions @ new) skipped snap1 = Inr (actions', skipped', snap')"
      using Cons.prems by (auto simp: pbind_eq_Inr split: option.splits)
    show ?thesis
      using Cons.IH [OF rest] handler_grounded [OF h] True by auto
  qed
qed simp

text \<open>
  Every action of an evaluation comes from an enabled rule of the project that applies to the
  resource and is of its kind, and has its ground in the telemetry: a drift over the threshold, a
  breach, a reason.
\<close>

theorem actions_have_grounds:
  assumes "evaluate S rows tenant project rtype resource telemetry = Inr ev" and "a \<in> set (ev_actions ev)"
  shows "\<exists>r\<in>set rows. ru_id r = rule_of a \<and> ru_tenant r = tenant \<and> ru_project r = project \<and>
    ru_enabled r \<and> rule_applies resource r \<and> ru_kind r = kind_of a \<and> grounded telemetry a"
proof -
  obtain c skipped snap where
    "evaluate_rules S c telemetry (filter (rule_applies resource) (list_rules rows tenant project rtype True))
      [] 0 [] = Inr (ev_actions ev, skipped, snap)"
    using assms(1) by (auto simp: evaluate_def Let_def pbind_eq_Inr)
  from evaluate_rules_grounded [OF this] assms(2) show ?thesis
    by (fastforce simp: list_rules_def)
qed

text \<open>
  A rule id is one name space for all tenants: a project that writes a rule under the id of
  another project's rule replaces that rule's kind, configuration and switch, and gets none itself.
\<close>

theorem rule_overwritten_across_tenants:
  "r \<in> set rows \<Longrightarrow> ru_id r = rid \<Longrightarrow> ru_tenant r \<noteq> tenant \<Longrightarrow>
   r\<lparr>ru_rtype := rtype, ru_kind := kind, ru_config := config, ru_enabled := on\<rparr>
     \<in> set (upsert_rule rid tenant project rtype None kind config on now rows) \<and>
   length (upsert_rule rid tenant project rtype None kind config on now rows) = length rows"
  by (auto simp: upsert_rule_def list_ex_iff image_iff intro!: bexI [of _ r])

text \<open>
  The guard on a stage: a version may move exactly when the promotion policy allows the move and,
  for production with an evaluation required by the configuration, an evaluation has passed.
\<close>

theorem fsm_exact:
  assumes "fsm_transition S P tenant project current target passing resource = Inr v"
    and "resolve S ''governance.evaluation.require_before_promote''
      \<lparr>cx_tenant = Some tenant, cx_project = Some project, cx_env = None,
       cx_rtype = (if opt_or resource [] = [] then None else Some ''model''), cx_rid = resource\<rparr> = Inr req"
  shows "allowed v \<longleftrightarrow> allowed (evaluate_stage_transition P current target) \<and>
    (ef_value req = CBool True \<and> lower (strip target) = ''production'' \<longrightarrow> passing)"
proof -
  have "has_type BooleanT (ef_value req)"
    using resolve_typed [OF assms(2)] by (auto simp: key_registry_def)
  then obtain b where "ef_value req = CBool b" by (cases "ef_value req") simp_all
  then show ?thesis
    using assms by (auto simp: fsm_transition_def Let_def pbind_eq_Inr permit_def refuse_def split: if_splits)
qed

end
