(* ===== verification/Registry.thy ===== *)
theory Registry
  imports Policies Aggregates "HOL-Library.Product_Lexorder" "HOL-Library.List_Lexorder" "HOL-Library.Char_ord"
begin

text \<open>
  Model of \<^verbatim>\<open>governance/model_registry_service.py\<close> and of what it reads of
  \<^verbatim>\<open>model_evaluation_service.py\<close> and \<^verbatim>\<open>model_stakeholder_service.py\<close>: models and their numbered
  versions, the approval of a version, its promotion through the stages, the serving slots and the
  pipeline of a model. The events published are kept in order.
\<close>

subsection \<open>Tables\<close>

record model_row =
  mo_id :: string
  mo_tenant :: string
  mo_project :: string
  mo_name :: string
  mo_desc :: "string option"

record mversion =
  mv_id :: string
  mv_model :: string
  mv_num :: int
  mv_run :: "string option"
  mv_uri :: "string option"
  mv_stage :: string
  mv_created :: int
  mv_approval :: string
  mv_reason :: "string option"
  mv_approval_at :: "int option"
  mv_stage_at :: "int option"
  mv_reviewed_by :: "string option"
  mv_approved_by :: "string option"

record eval_row =
  me_id :: string
  me_tenant :: string
  me_project :: string
  me_mid :: string
  me_num :: int
  me_bench :: string
  me_status :: string
  me_metrics :: pyval
  me_at :: int

record stakeholder =
  sh_tenant :: string
  sh_project :: string
  sh_model :: string
  sh_user :: string
  sh_role :: string

record model_store =
  rg_models :: "model_row list"
  rg_versions :: "mversion list"
  rg_slots :: "((string \<times> string) \<times> string) list"
  rg_mapping :: "((string \<times> string \<times> string) \<times> string) list"
  rg_evals :: "eval_row list"
  rg_stakeholders :: "stakeholder list"
  rg_events :: "(string \<times> string \<times> event list) list"
  rg_world :: world

text \<open>The settings of the platform that govern a promotion, with the configuration of \<open>Config\<close>.\<close>

record governance =
  gv_promo :: promo
  gv_skip :: bool
  gv_stages :: "string list"
  gv_config :: stores

definition pending_approval :: "string list" where
  "pending_approval = [''pending_manual_approval'', ''pending_reviewer'', ''pending_approver'']"

definition valid_approval :: "string list" where
  "valid_approval = pending_approval @ [''approved'', ''rejected'']"

definition serving_slots :: "string list" where
  "serving_slots = [''candidate'', ''challenger'', ''champion'', ''canary'']"

definition model_find :: "model_store \<Rightarrow> string \<Rightarrow> model_row option" where
  "model_find R m = find (\<lambda>x. mo_id x = m) (rg_models R)"

definition version_find :: "model_store \<Rightarrow> string \<Rightarrow> int \<Rightarrow> mversion option" where
  "version_find R m n = find (\<lambda>v. mv_model v = m \<and> mv_num v = n) (rg_versions R)"

text \<open>A version joined with its model in a project.\<close>

definition scoped_version :: "model_store \<Rightarrow> string \<Rightarrow> string \<Rightarrow> string \<Rightarrow> int \<Rightarrow> mversion option" where
  "scoped_version R tenant project m n =
     (case model_find R m of None \<Rightarrow> None
      | Some x \<Rightarrow> if mo_tenant x = tenant \<and> mo_project x = project then version_find R m n else None)"

definition publish_all :: "string \<Rightarrow> string \<Rightarrow> event list \<Rightarrow> model_store \<Rightarrow> model_store" where
  "publish_all tenant project es R = (if es = [] then R
     else R\<lparr>rg_events := rg_events R @ [(tenant, project, es)]\<rparr>)"

definition model_scope :: "model_store \<Rightarrow> string \<Rightarrow> string \<times> string" where
  "model_scope R m = (case model_find R m of None \<Rightarrow> (''unknown'', ''unknown'')
     | Some x \<Rightarrow> (mo_tenant x, mo_project x))"

subsection \<open>Evaluations and stakeholders\<close>

definition has_passing_evaluation :: "model_store \<Rightarrow> string \<Rightarrow> string \<Rightarrow> string \<Rightarrow> int \<Rightarrow> bool" where
  "has_passing_evaluation R tenant project m n =
     list_ex (\<lambda>e. me_tenant e = tenant \<and> me_project e = project \<and> me_mid e = m \<and> me_num e = n \<and>
       lower (me_status e) = ''passed'') (rg_evals R)"

text \<open>\<open>ORDER BY evaluated_at DESC, evaluation_id DESC LIMIT 1\<close>\<close>

definition get_latest_evaluation :: "model_store \<Rightarrow> string \<Rightarrow> string \<Rightarrow> string \<Rightarrow> int \<Rightarrow> eval_row option" where
  "get_latest_evaluation R tenant project m n =
     (case rev (sort_key (\<lambda>e. (me_at e, me_id e)) (filter (\<lambda>e. me_tenant e = tenant \<and>
         me_project e = project \<and> me_mid e = m \<and> me_num e = n) (rg_evals R))) of
        [] \<Rightarrow> None | e # _ \<Rightarrow> Some e)"

definition latest_evaluation_passed :: "model_store \<Rightarrow> string \<Rightarrow> string \<Rightarrow> string \<Rightarrow> int \<Rightarrow> bool" where
  "latest_evaluation_passed R tenant project m n =
     (case get_latest_evaluation R tenant project m n of None \<Rightarrow> False | Some e \<Rightarrow> me_status e = ''passed'')"

definition require_evaluation_for_approval :: "model_store \<Rightarrow> bool" where
  "require_evaluation_for_approval R =
     (lower (strip (getenv (rg_world R) ''ML_AIR_REQUIRE_EVALUATION_FOR_APPROVAL'' ''0''))
       \<in> {''1'', ''true'', ''yes''})"

definition two_step_approval_required :: "model_store \<Rightarrow> string \<Rightarrow> string \<Rightarrow> string \<Rightarrow> bool" where
  "two_step_approval_required R tenant project m =
     list_ex (\<lambda>s. sh_tenant s = tenant \<and> sh_project s = project \<and> sh_model s = m \<and>
       (case model_find R m of None \<Rightarrow> False | Some x \<Rightarrow> mo_tenant x = tenant \<and> mo_project x = project) \<and>
       sh_role s \<in> {''reviewer'', ''approver''}) (rg_stakeholders R)"

subsection \<open>Models and versions\<close>

definition create_model ::
    "string \<Rightarrow> string \<Rightarrow> string \<Rightarrow> string \<Rightarrow> string option \<Rightarrow> model_store \<Rightarrow> model_row py \<times> model_store" where
  "create_model mid tenant project name desc R =
     (let n = strip name in
      if n = [] then (raise (ValueError ''model_name_required''), R)
      else if list_ex (\<lambda>x. mo_tenant x = tenant \<and> mo_project x = project \<and> mo_name x = n) (rg_models R)
      then (raise (ValueError ''model_name_exists''), R)
      else (let row = \<lparr>mo_id = mid, mo_tenant = tenant, mo_project = project, mo_name = n, mo_desc = desc\<rparr>
        in (ok row, R\<lparr>rg_models := rg_models R @ [row]\<rparr>)))"

definition versions_of_model :: "model_store \<Rightarrow> string \<Rightarrow> mversion list" where
  "versions_of_model R m = filter (\<lambda>v. mv_model v = m) (rg_versions R)"

definition next_model_version :: "model_store \<Rightarrow> string \<Rightarrow> int" where
  "next_model_version R m = (case map mv_num (versions_of_model R m) of
     [] \<Rightarrow> 1 | n # ns \<Rightarrow> foldl max n ns + 1)"

text \<open>A run of other characters becomes one dash.\<close>

definition slug_char :: "char \<Rightarrow> bool" where
  "slug_char c = (let n = (of_char c :: nat) in
     (97 \<le> n \<and> n \<le> 122) \<or> (65 \<le> n \<and> n \<le> 90) \<or> (48 \<le> n \<and> n \<le> 57) \<or> c \<in> {CHR ''_'', CHR ''.'', CHR ''-''})"

fun dash_runs :: "bool \<Rightarrow> string \<Rightarrow> string" where
  "dash_runs inside [] = []"
| "dash_runs inside (c # cs) =
     (if slug_char c then c # dash_runs False cs
      else if inside then dash_runs True cs else CHR ''-'' # dash_runs True cs)"

definition strip_dashes :: "string \<Rightarrow> string" where
  "strip_dashes s = rev (dropWhile (\<lambda>c. c = CHR ''-'') (rev (dropWhile (\<lambda>c. c = CHR ''-'') s)))"

definition slug_token :: "string \<Rightarrow> string" where
  "slug_token value =
     (let token = strip_dashes (dash_runs False (lower (strip value)))
      in if token = [] then ''unknown'' else token)"

definition artifact_root :: "world \<Rightarrow> string" where
  "artifact_root w =
     rev (dropWhile (\<lambda>c. c = CHR ''/'')
       (rev (getenv w ''ML_AIR_DEFAULT_MODEL_ARTIFACT_ROOT'' ''file:///mlair/artifacts/models'')))"

definition default_artifact_uri :: "model_store \<Rightarrow> string \<Rightarrow> int \<Rightarrow> string option" where
  "default_artifact_uri R m n = (case model_find R m of None \<Rightarrow> None
     | Some x \<Rightarrow> (let root = artifact_root (rg_world R) in
         if root = [] then None
         else Some (root @ ''/'' @ slug_token (mo_tenant x) @ ''/'' @ slug_token (mo_project x) @ ''/'' @
           slug_token (mo_name x) @ ''/v'' @ int_str n)))"

definition mv_agg_of :: "mversion \<Rightarrow> mv_agg" where
  "mv_agg_of v = mv_init (mv_model v) (mv_id v) (mv_num v) (mv_stage v) (Some (mv_approval v))"

text \<open>The foreign key refuses a version of a model that does not exist.\<close>

definition create_model_version ::
    "string \<Rightarrow> string \<Rightarrow> string option \<Rightarrow> string option \<Rightarrow> string \<Rightarrow> model_store \<Rightarrow> mversion py \<times> model_store" where
  "create_model_version vid m run uri stage R =
     (let n = next_model_version R m; own = strip (opt_or uri []);
          row = \<lparr>mv_id = vid, mv_model = m, mv_num = n, mv_run = run,
            mv_uri = (if own = [] then default_artifact_uri R m n else Some own), mv_stage = stage,
            mv_created = w_now (rg_world R), mv_approval = ''pending_reviewer'', mv_reason = None,
            mv_approval_at = Some (w_now (rg_world R)), mv_stage_at = None, mv_reviewed_by = None,
            mv_approved_by = None\<rparr>
      in if model_find R m = None then (raise (RuntimeError ''ForeignKeyViolation''), R)
         else (ok row, publish_all (fst (model_scope R m)) (snd (model_scope R m))
           (agg_events (mv_mark_created (mv_agg_of row))) (R\<lparr>rg_versions := rg_versions R @ [row]\<rparr>)))"

definition list_model_versions :: "model_store \<Rightarrow> string \<Rightarrow> mversion list" where
  "list_model_versions R m = rev (sort_key mv_num (versions_of_model R m))"

text \<open>Deletions cascade to what refers to the row.\<close>

definition delete_model :: "string \<Rightarrow> model_store \<Rightarrow> bool \<times> model_store" where
  "delete_model m R =
     (model_find R m \<noteq> None,
      R\<lparr>rg_models := filter (\<lambda>x. mo_id x \<noteq> m) (rg_models R),
        rg_versions := filter (\<lambda>v. mv_model v \<noteq> m) (rg_versions R),
        rg_slots := filter (\<lambda>((m', s), v). m' \<noteq> m) (rg_slots R),
        rg_mapping := filter (\<lambda>((t, p, m'), pl). m' \<noteq> m) (rg_mapping R),
        rg_evals := filter (\<lambda>e. me_mid e \<noteq> m) (rg_evals R),
        rg_stakeholders := filter (\<lambda>s. sh_model s \<noteq> m) (rg_stakeholders R)\<rparr>)"

definition delete_model_version :: "string \<Rightarrow> int \<Rightarrow> model_store \<Rightarrow> bool \<times> model_store" where
  "delete_model_version m n R =
     (case version_find R m n of None \<Rightarrow> (False, R)
      | Some v \<Rightarrow>
         (let R1 = R\<lparr>rg_versions := filter (\<lambda>x. \<not> (mv_model x = m \<and> mv_num x = n)) (rg_versions R),
                rg_slots := filter (\<lambda>(k, vid). vid \<noteq> mv_id v) (rg_slots R)\<rparr>
          in (True, if model_find R m = None then R1
               else publish_all (fst (model_scope R m)) (snd (model_scope R m))
                 (agg_events (mv_mark_deleted (mv_init m (mv_id v) n ''unknown'' None))) R1)))"

subsection \<open>Promotion\<close>

definition requires_approval_for_stage :: "governance \<Rightarrow> string \<Rightarrow> bool" where
  "requires_approval_for_stage G stage = (\<not> gv_skip G \<and> target_of stage \<in> set (gv_stages G))"

record eligibility =
  el_target :: string
  el_transition :: tkind
  el_requires :: bool
  el_eligible :: bool
  el_reasons :: "(string \<times> string) list"

text \<open>A reason is its code and the error a promotion raises for it.\<close>

definition compute_promotion_eligibility ::
    "governance \<Rightarrow> model_store \<Rightarrow> (string \<times> string) option \<Rightarrow> mversion \<Rightarrow> string \<Rightarrow> eligibility py" where
  "compute_promotion_eligibility G R scope v target_stage =
     (let target = target_of target_stage;
          kind = transition_kind (gv_promo G) (Some (mv_stage v)) target;
          requires = (case kind of Rollback \<Rightarrow> rollback_needs_approval (gv_promo G)
            | Forward \<Rightarrow> requires_approval_for_stage G target | _ \<Rightarrow> False)
      in pbind (case scope of
            Some (tenant, project) \<Rightarrow>
              if tenant \<noteq> [] \<and> project \<noteq> []
              then fsm_transition (gv_config G) (gv_promo G) tenant project (Some (mv_stage v)) target
                (has_passing_evaluation R tenant project (mv_model v) (mv_num v)) (Some (mv_model v))
              else ok (evaluate_stage_transition (gv_promo G) (Some (mv_stage v)) target)
          | None \<Rightarrow> ok (evaluate_stage_transition (gv_promo G) (Some (mv_stage v)) target)) (\<lambda>d.
         let code = opt_or (error_code d) [];
             blocked = (\<not> allowed d \<and> code \<noteq> []);
             approval = (requires \<and> \<not> blocked \<and> mv_approval v \<noteq> ''approved'')
         in ok \<lparr>el_target = target, el_transition = kind, el_requires = requires,
                el_eligible = (\<not> blocked \<and> \<not> approval),
                el_reasons = (if blocked then [(code, code)] else []) @
                  (if approval then
                     [(if mv_approval v = ''rejected'' then ''approval_rejected''
                       else if mv_approval v \<in> set pending_approval then ''approval_pending''
                       else ''approval_required'',
                       if target = ''production'' then ''approval_required_for_production''
                       else ''approval_required'')] else [])\<rparr>))"

definition set_model_serving_slot ::
    "string \<Rightarrow> string \<Rightarrow> string \<Rightarrow> string \<Rightarrow> int \<Rightarrow> model_store \<Rightarrow> unit py \<times> model_store" where
  "set_model_serving_slot tenant project m slot n R =
     (let sl = lower (strip slot) in
      if sl \<notin> set serving_slots then (raise (ValueError ''invalid_serving_slot''), R)
      else (case scoped_version R tenant project m n of
          None \<Rightarrow> (raise (ValueError ''model_version_not_found''), R)
        | Some v \<Rightarrow> (ok (), R\<lparr>rg_slots := dset (m, sl) (mv_id v) (rg_slots R)\<rparr>)))"

text \<open>The two updates of a promotion: what holds the stage is archived, then the version moves.\<close>

definition move_version :: "string \<Rightarrow> int \<Rightarrow> string \<Rightarrow> model_store \<Rightarrow> model_store" where
  "move_version m n stage R =
     R\<lparr>rg_versions := map (\<lambda>v. if mv_model v = m \<and> mv_num v = n
         then v\<lparr>mv_stage := stage, mv_stage_at := Some (w_now (rg_world R))\<rparr> else v)
       (map (\<lambda>v. if mv_model v = m \<and> mv_stage v = stage then v\<lparr>mv_stage := ''archived''\<rparr> else v)
         (rg_versions R))\<rparr>"

definition promotion_events :: "string \<Rightarrow> eligibility \<Rightarrow> mversion \<Rightarrow> event list" where
  "promotion_events target el v =
     agg_events (if el_transition el = Rollback then mv_rollback target (mv_agg_of v)
       else mv_promote target (mv_agg_of v))"

definition promote_model_version ::
    "governance \<Rightarrow> string \<Rightarrow> int \<Rightarrow> string \<Rightarrow> model_store \<Rightarrow> mversion py \<times> model_store" where
  "promote_model_version G m n stage R =
     (let target = target_of stage; scope = map_option (\<lambda>x. (mo_tenant x, mo_project x)) (model_find R m) in
      case version_find R m n of
        None \<Rightarrow> (raise (ValueError ''model_version_not_found''), R)
      | Some v \<Rightarrow> (case compute_promotion_eligibility G R scope v target of
          Inl e \<Rightarrow> (Inl e, R)
        | Inr el \<Rightarrow>
            if \<not> el_eligible el then
              (raise (ValueError (case el_reasons el of [] \<Rightarrow> ''promotion_blocked'' | (c, e) # _ \<Rightarrow> e)), R)
            else (case (version_find (move_version m n stage R) m n, scope) of
                (None, _) \<Rightarrow> (raise (ValueError ''model_version_not_found''), R)
              | (Some v1, None) \<Rightarrow> (ok v1, move_version m n stage R)
              | (Some v1, Some (tenant, project)) \<Rightarrow>
                  (let R1 = publish_all tenant project (promotion_events target el v) (move_version m n stage R)
                   in (ok v1, if target = ''production''
                     then snd (set_model_serving_slot tenant project m ''champion'' n R1) else R1)))))"

subsection \<open>Approval\<close>

text \<open>The statuses from which a status may be reached; the pending ones but one are not checked.\<close>

definition approval_step :: "model_store \<Rightarrow> string \<Rightarrow> string \<Rightarrow> string \<Rightarrow> int \<Rightarrow> string \<Rightarrow> string \<Rightarrow> unit py" where
  "approval_step R tenant project m n current st =
     (let two_step = two_step_approval_required R tenant project m in
      if st = ''pending_approver'' then
        (if current \<notin> set pending_approval then raise (ValueError ''invalid_approval_transition'') else ok ())
      else if st = ''approved'' then
        (if two_step \<and> current \<noteq> ''pending_approver'' then
           (if current \<in> set pending_approval then raise (ValueError ''approval_requires_reviewer_step'')
            else raise (ValueError ''invalid_approval_transition''))
         else if \<not> two_step \<and> current \<notin> set pending_approval
         then raise (ValueError ''invalid_approval_transition'')
         else if require_evaluation_for_approval R \<and> \<not> latest_evaluation_passed R tenant project m n
         then raise (ValueError ''evaluation_gate_failed'')
         else ok ())
      else if st = ''rejected'' then
        (if current \<notin> set pending_approval \<and> current \<noteq> ''approved''
         then raise (ValueError ''invalid_approval_transition'') else ok ())
      else ok ())"

definition approval_events :: "string \<Rightarrow> string option \<Rightarrow> mversion \<Rightarrow> event list" where
  "approval_events st reason v = agg_events
     (if st = ''approved'' then mv_approve reason (mv_agg_of v)
      else if st = ''rejected'' then mv_reject reason (mv_agg_of v) else mv_agg_of v)"

definition with_approval :: "string \<Rightarrow> string option \<Rightarrow> string option \<Rightarrow> int \<Rightarrow> mversion \<Rightarrow> mversion" where
  "with_approval st reason actor now v =
     v\<lparr>mv_approval := st, mv_reason := reason, mv_approval_at := Some now,
       mv_reviewed_by := coalesce (if st = ''pending_approver'' then actor else None) (mv_reviewed_by v),
       mv_approved_by := coalesce (if st = ''approved'' then actor else None) (mv_approved_by v)\<rparr>"

definition update_model_version_approval ::
    "string \<Rightarrow> string \<Rightarrow> string \<Rightarrow> int \<Rightarrow> string \<Rightarrow> string option \<Rightarrow> string option \<Rightarrow> model_store
     \<Rightarrow> mversion py \<times> model_store" where
  "update_model_version_approval tenant project m n status reason actor R =
     (let st = strip status in
      if st \<notin> set valid_approval then (raise (ValueError ''invalid_approval_status''), R)
      else (case scoped_version R tenant project m n of
          None \<Rightarrow> (raise (ValueError ''model_version_not_found''), R)
        | Some v \<Rightarrow> (case approval_step R tenant project m n (mv_approval v) st of
            Inl e \<Rightarrow> (Inl e, R)
          | Inr u \<Rightarrow>
             (let v1 = with_approval st reason actor (w_now (rg_world R)) v
              in (ok v1, publish_all tenant project (approval_events st reason v1)
                (R\<lparr>rg_versions := map (\<lambda>x. if mv_model x = m \<and> mv_num x = n then v1 else x)
                   (rg_versions R)\<rparr>))))))"

subsection \<open>Serving slots, artifacts and pipelines\<close>

definition slot_dict :: "string \<Rightarrow> mversion \<Rightarrow> pydict" where
  "slot_dict slot v =
     [(''slot'', VStr slot), (''version_id'', VStr (mv_id v)), (''version'', VInt (mv_num v)),
      (''artifact_uri'', of_opt_str (mv_uri v)), (''stage'', VStr (mv_stage v)),
      (''approval_status'', VStr (mv_approval v))]"

definition list_model_serving_slots :: "model_store \<Rightarrow> string \<Rightarrow> pydict" where
  "list_model_serving_slots R m =
     [(''model_id'', VStr m),
      (''slots'', VDict (map (\<lambda>(slot, v). (slot, VDict (slot_dict slot v)))
        (sort_key fst (List.map_filter (\<lambda>((m', slot), vid). if m' = m
           then map_option (Pair slot) (find (\<lambda>v. mv_id v = vid) (rg_versions R)) else None) (rg_slots R)))))]"

definition resolve_model_serving_route ::
    "string \<Rightarrow> string \<Rightarrow> string \<Rightarrow> model_store \<Rightarrow> pydict py" where
  "resolve_model_serving_route tenant project m R =
     (case model_find R m of None \<Rightarrow> raise (ValueError ''model_not_found'')
      | Some x \<Rightarrow> if mo_tenant x \<noteq> tenant \<or> mo_project x \<noteq> project then raise (ValueError ''model_not_found'')
          else (let slots = por (dget (list_model_serving_slots R m) ''slots'') (VList []) in
            pbind (py_iter slots) (\<lambda>items.
              let slot_map = List.map_filter (\<lambda>s. case s of
                    VDict d \<Rightarrow> Some (py_str (dget d ''slot''), VDict d) | _ \<Rightarrow> None) items
              in ok [(''model_id'', VStr m), (''model_name'', VStr (mo_name x)),
                  (''primary'', dget slot_map ''champion''), (''canary'', dget slot_map ''canary''),
                  (''candidate'', dget slot_map ''candidate''), (''challenger'', dget slot_map ''challenger''),
                  (''slots'', slots)])))"

text \<open>\<open>TRIM(artifact_uri) <> ''\<close>\<close>

definition has_artifact :: "mversion \<Rightarrow> bool" where
  "has_artifact v = (case mv_uri v of None \<Rightarrow> False | Some u \<Rightarrow> list_ex (\<lambda>c. c \<noteq> CHR '' '') u)"

definition resolve_base_model_artifact ::
    "model_store \<Rightarrow> string \<Rightarrow> string \<Rightarrow> string \<Rightarrow> (mversion \<times> string) option" where
  "resolve_base_model_artifact R tenant project m =
     (if model_scope R m \<noteq> (tenant, project) \<or> model_find R m = None then None
      else (let vs = filter has_artifact (versions_of_model R m) in
        case rev (sort_key mv_created (filter (\<lambda>v. mv_stage v = ''production'' \<and> mv_approval v = ''approved'') vs)) of
          v # _ \<Rightarrow> Some (v, ''production'')
        | [] \<Rightarrow> (case rev (sort_key mv_num vs) of [] \<Rightarrow> None | v # _ \<Rightarrow> Some (v, ''latest_artifact''))))"

definition upsert_model_pipeline_mapping ::
    "catalog \<Rightarrow> string \<Rightarrow> string \<Rightarrow> string \<Rightarrow> string \<Rightarrow> model_store \<Rightarrow> unit py \<times> model_store" where
  "upsert_model_pipeline_mapping c tenant project m pipeline R =
     (let pid = strip pipeline in
      if pid = [] then (raise (ValueError ''pipeline_id_required''), R)
      else if model_find R m = None \<or> model_scope R m \<noteq> (tenant, project)
      then (raise (ValueError ''model_not_found''), R)
      else if versions_of c tenant project pid = [] then (raise (ValueError ''pipeline_not_in_project''), R)
      else (ok (), R\<lparr>rg_mapping := dset (tenant, project, m) pid (rg_mapping R)\<rparr>))"

text \<open>The pipeline, the source of that answer, and the artifact to start from.\<close>

definition resolve_model_pipeline ::
    "model_store \<Rightarrow> string \<Rightarrow> string \<Rightarrow> string \<Rightarrow> string option \<times> string \<times> (mversion \<times> string) option" where
  "resolve_model_pipeline R tenant project m =
     (let mapped = strip (opt_or (map_of (rg_mapping R) (tenant, project, m)) []);
          base = resolve_base_model_artifact R tenant project m
      in if mapped \<noteq> [] then (Some mapped, ''model_pipeline_mapping'', base)
         else (case List.map_filter (\<lambda>v. case mv_run v of None \<Rightarrow> None
              | Some rid \<Rightarrow> run_find (rg_world R) rid)
              (if model_scope R m = (tenant, project) \<and> model_find R m \<noteq> None
               then list_model_versions R m else []) of
            [] \<Rightarrow> (None, ''unresolved'', base)
          | r # _ \<Rightarrow> (Some (r_pipeline r), ''latest_model_run'', base)))"

end
