(* ===== verification/RegistryLaws.thy ===== *)
theory RegistryLaws
  imports Registry
begin

text \<open>
  What \<open>Registry\<close> guarantees: a version moves only through the gates, one version of a model holds a
  stage, approval in two steps is not skipped, version numbers are not reused while they exist. A
  stage given at creation or with other spelling gets around the gates, and the serving route is
  always empty.
\<close>

subsection \<open>The gates of a promotion\<close>

definition approval_needed :: "governance \<Rightarrow> mversion \<Rightarrow> string \<Rightarrow> bool" where
  "approval_needed G v target = (case transition_kind (gv_promo G) (Some (mv_stage v)) target of
     Rollback \<Rightarrow> rollback_needs_approval (gv_promo G)
   | Forward \<Rightarrow> \<not> gv_skip G \<and> target \<in> set (gv_stages G) | _ \<Rightarrow> False)"

definition evaluation_required :: "governance \<Rightarrow> string \<Rightarrow> string \<Rightarrow> string \<Rightarrow> bool" where
  "evaluation_required G tenant project m =
     (case resolve (gv_config G) ''governance.evaluation.require_before_promote''
         \<lparr>cx_tenant = Some tenant, cx_project = Some project, cx_env = None,
          cx_rtype = (if m = [] then None else Some ''model''), cx_rid = Some m\<rparr> of
        Inl _ \<Rightarrow> False | Inr e \<Rightarrow> ef_value e = CBool True)"

lemma permit_or_refuse:
  "allowed (permit k)" "allowed (refuse c msg k) = False"
  "opt_or (error_code (refuse c msg k)) [] = c"
  by (simp_all add: permit_def refuse_def)

definition coded :: "verdict \<Rightarrow> bool" where
  "coded v = (allowed v \<or> opt_or (error_code v) [] \<noteq> [])"

lemma coded_intros:
  "coded (permit k)" "c \<noteq> [] \<Longrightarrow> coded (refuse c msg k)"
  "coded a \<Longrightarrow> coded b \<Longrightarrow> coded (if t then a else b)"
  "coded a \<Longrightarrow> (\<And>x. coded (f x)) \<Longrightarrow> coded (case u of None \<Rightarrow> a | Some x \<Rightarrow> f x)"
  "coded a \<Longrightarrow> coded b \<Longrightarrow> coded c' \<Longrightarrow> coded d \<Longrightarrow>
     coded (case k of Forward \<Rightarrow> a | Rollback \<Rightarrow> b | Noop \<Rightarrow> c' | UnknownKind \<Rightarrow> d)"
  by (simp_all add: coded_def permit_or_refuse split: option.split tkind.split)

lemma transition_coded: "coded (evaluate_stage_transition P c t)"
  unfolding evaluate_stage_transition_def Let_def
  by (intro coded_intros) simp_all

lemma refused_code:
  "allowed (evaluate_stage_transition P c t) \<or> opt_or (error_code (evaluate_stage_transition P c t)) [] \<noteq> []"
  using transition_coded unfolding coded_def .

lemma fsm_refused_code:
  "fsm_transition S P t p c target passing r = Inr v \<Longrightarrow> \<not> allowed v \<Longrightarrow> opt_or (error_code v) [] \<noteq> []"
  using refused_code [of P c target]
  by (auto simp: fsm_transition_def Let_def pbind_eq_Inr permit_or_refuse split: if_splits)

lemma version_findD: "version_find R m n = Some v \<Longrightarrow> mv_model v = m \<and> mv_num v = n \<and> v \<in> set (rg_versions R)"
  unfolding version_find_def by (auto dest!: find_SomeD)

lemma promote_cases:
  assumes "promote_model_version G m n stage R = (Inr v1, R')"
  obtains v el where "version_find R m n = Some v"
    "compute_promotion_eligibility G R (map_option (\<lambda>x. (mo_tenant x, mo_project x)) (model_find R m)) v
       (target_of stage) = Inr el"
    "el_eligible el" "version_find (move_version m n stage R) m n = Some v1"
    "rg_versions R' = rg_versions (move_version m n stage R)"
  using assms
  by (auto simp: promote_model_version_def Let_def publish_all_def set_model_serving_slot_def
      split: option.splits sum.splits if_splits prod.splits)

lemma target_of_fixed: "lower (strip (target_of s)) = target_of s"
proof -
  have "lower (strip ''production'') = ''production''" by code_simp
  then show ?thesis by (simp add: target_of_def Let_def strip_lower)
qed

lemma eligible_facts:
  assumes "compute_promotion_eligibility G R (Some (t, p)) v target = Inr el" and "el_eligible el"
    and "t \<noteq> []" and "p \<noteq> []" and "target_of target = target"
  shows "\<exists>d. fsm_transition (gv_config G) (gv_promo G) t p (Some (mv_stage v)) target
      (has_passing_evaluation R t p (mv_model v) (mv_num v)) (Some (mv_model v)) = Inr d \<and> allowed d \<and>
    (approval_needed G v target \<longrightarrow> mv_approval v = ''approved'')"
  using assms fsm_refused_code
  by (cases "transition_kind (gv_promo G) (Some (mv_stage v)) target")
    (fastforce simp: compute_promotion_eligibility_def Let_def pbind_eq_Inr approval_needed_def
      requires_approval_for_stage_def)+

text \<open>
  C10. A version is promoted only through the gates: its move is one the promotion policy allows, it
  is approved when the target stage or a rollback asks for it, and for production it has a passing
  evaluation when the configuration of its project requires one.
\<close>

theorem promotion_gated:
  assumes "promote_model_version G m n stage R = (Inr v1, R')"
    and "model_find R m = Some x" and "mo_tenant x \<noteq> []" and "mo_project x \<noteq> []"
  shows "\<exists>v. version_find R m n = Some v \<and>
    allowed (evaluate_stage_transition (gv_promo G) (Some (mv_stage v)) (target_of stage)) \<and>
    (approval_needed G v (target_of stage) \<longrightarrow> mv_approval v = ''approved'') \<and>
    (target_of stage = ''production'' \<and> evaluation_required G (mo_tenant x) (mo_project x) m \<longrightarrow>
       has_passing_evaluation R (mo_tenant x) (mo_project x) m n)"
proof -
  from assms(1) obtain v el where v: "version_find R m n = Some v"
    and el: "compute_promotion_eligibility G R (Some (mo_tenant x, mo_project x)) v (target_of stage) = Inr el"
      "el_eligible el"
    by (rule promote_cases) (simp add: assms(2))
  let ?passing = "has_passing_evaluation R (mo_tenant x) (mo_project x) (mv_model v) (mv_num v)"
  obtain d where d: "fsm_transition (gv_config G) (gv_promo G) (mo_tenant x) (mo_project x)
      (Some (mv_stage v)) (target_of stage) ?passing (Some (mv_model v)) = Inr d" "allowed d"
    and appr: "approval_needed G v (target_of stage) \<longrightarrow> mv_approval v = ''approved''"
    using eligible_facts [OF el assms(3,4)] by auto
  have "lower (strip (target_of stage)) = target_of stage"
    using target_of_fixed .
  then show ?thesis
    using d appr v version_findD [OF v]
    by (auto simp: fsm_transition_def Let_def pbind_eq_Inr evaluation_required_def refuse_def permit_def
        split: if_splits)
qed

subsection \<open>One version holds a stage\<close>

definition at_stage :: "string \<Rightarrow> string \<Rightarrow> model_store \<Rightarrow> mversion list" where
  "at_stage m stage R = filter (\<lambda>v. mv_model v = m \<and> mv_stage v = stage) (rg_versions R)"

definition numbered_once :: "model_store \<Rightarrow> bool" where
  "numbered_once R = distinct (map (\<lambda>v. (mv_model v, mv_num v)) (rg_versions R))"

lemma move_version_versions:
  "rg_versions (move_version m n stage R) = map (\<lambda>v.
     if mv_model v = m \<and> mv_num v = n then v\<lparr>mv_stage := stage, mv_stage_at := Some (w_now (rg_world R))\<rparr>
     else if mv_model v = m \<and> mv_stage v = stage then v\<lparr>mv_stage := ''archived''\<rparr> else v) (rg_versions R)"
  by (auto simp: move_version_def)

lemma filter_single:
  "distinct (map f xs) \<Longrightarrow> x \<in> set xs \<Longrightarrow> filter (\<lambda>y. f y = f x) xs = [x]"
proof (induction xs)
  case (Cons a xs)
  then show ?case by (cases "x = a") (auto simp: filter_empty_conv image_iff)
qed simp

text \<open>
  A promotion makes the version the only one of its model at the stage: the one that held the
  stage is archived, and no other version changes.
\<close>

theorem promotion_exclusive:
  assumes "promote_model_version G m n stage R = (Inr v1, R')" and "numbered_once R"
    and "stage \<noteq> ''archived''"
  shows "map mv_num (at_stage m stage R') = [n] \<and>
    map (\<lambda>v. (mv_model v, mv_num v)) (rg_versions R') = map (\<lambda>v. (mv_model v, mv_num v)) (rg_versions R) \<and>
    filter (\<lambda>v. mv_model v \<noteq> m) (rg_versions R') = filter (\<lambda>v. mv_model v \<noteq> m) (rg_versions R)"
proof -
  from assms(1) obtain v where v: "version_find R m n = Some v"
    and R': "rg_versions R' = rg_versions (move_version m n stage R)"
    by (rule promote_cases)
  let ?new = "\<lambda>v. if mv_model v = m \<and> mv_num v = n
      then v\<lparr>mv_stage := stage, mv_stage_at := Some (w_now (rg_world R))\<rparr>
      else if mv_model v = m \<and> mv_stage v = stage then v\<lparr>mv_stage := ''archived''\<rparr> else v"
  have stage: "mv_model (?new w) = m \<and> mv_stage (?new w) = stage \<longleftrightarrow> mv_model w = m \<and> mv_num w = n" for w
    using assms(3) by auto
  have "at_stage m stage R' = map ?new (filter (\<lambda>w. mv_model w = m \<and> mv_num w = n) (rg_versions R))"
    unfolding at_stage_def R' move_version_versions filter_map comp_def stage ..
  moreover have "filter (\<lambda>w. mv_model w = m \<and> mv_num w = n) (rg_versions R) = [v]"
    using filter_single [of "\<lambda>v. (mv_model v, mv_num v)" "rg_versions R" v] version_findD [OF v] assms(2)
    by (simp add: numbered_once_def)
  moreover have "filter (\<lambda>v. mv_model v \<noteq> m) (map ?new xs) = filter (\<lambda>v. mv_model v \<noteq> m) xs" for xs
    by (induction xs) auto
  ultimately show ?thesis
    using version_findD [OF v] by (simp add: R' move_version_versions comp_def)
qed

text \<open>The commands of the registry.\<close>

datatype registry_cmd =
    NewVersion string string "string option" "string option" string
  | Promote string int string
  | Approve string string string int string "string option" "string option"
  | SetSlot string string string string int
  | DropVersion string int
  | DropModel string

fun registry_do :: "governance \<Rightarrow> registry_cmd \<Rightarrow> model_store \<Rightarrow> model_store" where
  "registry_do G (NewVersion vid m run uri stage) R = snd (create_model_version vid m run uri stage R)"
| "registry_do G (Promote m n stage) R = snd (promote_model_version G m n stage R)"
| "registry_do G (Approve t p m n st reason actor) R = snd (update_model_version_approval t p m n st reason actor R)"
| "registry_do G (SetSlot t p m slot n) R = snd (set_model_serving_slot t p m slot n R)"
| "registry_do G (DropVersion m n) R = snd (delete_model_version m n R)"
| "registry_do G (DropModel m) R = snd (delete_model m R)"

text \<open>No version is created at the stage, and a promotion spells its target as it is stored.\<close>

fun plain :: "string \<Rightarrow> registry_cmd \<Rightarrow> bool" where
  "plain stage (NewVersion vid m run uri s) = (s \<noteq> stage)"
| "plain stage (Promote m n s) = (s \<noteq> ''archived'')"
| "plain stage c = True"

inductive registry_reach :: "governance \<Rightarrow> string \<Rightarrow> model_store \<Rightarrow> model_store \<Rightarrow> bool" for G stage R0 where
  rr_start: "registry_reach G stage R0 R0"
| rr_step: "registry_reach G stage R0 R \<Longrightarrow> plain stage c \<Longrightarrow> registry_reach G stage R0 (registry_do G c R)"

definition single_holder :: "string \<Rightarrow> model_store \<Rightarrow> bool" where
  "single_holder stage R = (numbered_once R \<and> (\<forall>m. length (at_stage m stage R) \<le> 1))"

lemma publish_frame [simp]: "rg_versions (publish_all t p es R) = rg_versions R"
  by (simp add: publish_all_def)

lemma foldl_max_ge: "x \<in> set (n # ns) \<Longrightarrow> x \<le> foldl max n (ns :: int list)"
  by (simp only: foldl_max) (rule Max_ge, simp_all)

lemma next_version_fresh: "v \<in> set (rg_versions R) \<Longrightarrow> mv_model v = m \<Longrightarrow> mv_num v < next_model_version R m"
proof -
  assume v: "v \<in> set (rg_versions R)" "mv_model v = m"
  then obtain k ks where ks: "map mv_num (versions_of_model R m) = k # ks"
    by (cases "map mv_num (versions_of_model R m)") (auto simp: versions_of_model_def filter_empty_conv)
  have "mv_num v \<in> set (map mv_num (versions_of_model R m))"
    using v by (auto simp: versions_of_model_def)
  then have "mv_num v \<le> foldl max k ks"
    unfolding ks by (rule foldl_max_ge)
  then show ?thesis by (simp add: next_model_version_def ks)
qed

lemma single_holder_cong:
  assumes "map (\<lambda>v. (mv_model v, mv_num v, mv_stage v)) (rg_versions R')
    = map (\<lambda>v. (mv_model v, mv_num v, mv_stage v)) (rg_versions R)"
  shows "single_holder stage R' = single_holder stage R"
proof -
  have once: "numbered_once S = distinct (map (\<lambda>(m, n, s). (m, n))
      (map (\<lambda>v. (mv_model v, mv_num v, mv_stage v)) (rg_versions S)))" for S
    by (simp add: numbered_once_def comp_def)
  have len: "length (at_stage m stage S) = length (filter (\<lambda>(m', n, s). m' = m \<and> s = stage)
      (map (\<lambda>v. (mv_model v, mv_num v, mv_stage v)) (rg_versions S)))" for S m
    by (simp add: at_stage_def filter_map comp_def)
  show ?thesis unfolding single_holder_def once len assms ..
qed

lemma length_filter_imp: "(\<And>x. x \<in> set xs \<Longrightarrow> P x \<Longrightarrow> Q x) \<Longrightarrow> length (filter P xs) \<le> length (filter Q xs)"
  by (induction xs) (auto intro: le_SucI)

lemma single_holder_filter:
  assumes "single_holder stage R" and "rg_versions R' = filter P (rg_versions R)"
  shows "single_holder stage R'"
proof -
  have "length (at_stage m stage R') \<le> length (at_stage m stage R)" for m
    unfolding at_stage_def assms(2) filter_filter by (rule length_filter_imp) simp
  then show ?thesis
    using assms by (auto simp: single_holder_def numbered_once_def distinct_map_filter intro: order_trans)
qed

lemma single_holder_promote:
  assumes R: "single_holder stage R" and "promote_model_version G m n s R = (Inr v1, R')"
    and "s \<noteq> ''archived''" and "stage \<noteq> ''archived''"
  shows "single_holder stage R'"
proof -
  from assms(2) obtain v where R': "rg_versions R' = rg_versions (move_version m n s R)"
    by (rule promote_cases)
  have once: "numbered_once R" using R by (simp add: single_holder_def)
  note excl = promotion_exclusive [OF assms(2) once assms(3)]
  have "length (at_stage m' stage R') \<le> 1" for m'
  proof (cases "m' = m \<and> s = stage")
    case True
    then have "length (map mv_num (at_stage m' stage R')) = 1" using excl by simp
    then show ?thesis by simp
  next
    case False
    have "length (at_stage m' stage R') \<le> length (at_stage m' stage R)"
      unfolding at_stage_def R' move_version_versions filter_map comp_def length_map
      by (rule length_filter_imp) (use False assms(4) in \<open>auto split: if_splits\<close>)
    also have "\<dots> \<le> 1" using R by (simp add: single_holder_def)
    finally show ?thesis .
  qed
  then show ?thesis
    using excl once by (simp add: single_holder_def numbered_once_def)
qed

lemma single_holder_create:
  assumes R: "single_holder stage R" and "s \<noteq> stage"
  shows "single_holder stage (snd (create_model_version vid m run uri s R))"
proof (cases "model_find R m")
  case None
  then show ?thesis using R by (simp add: create_model_version_def)
next
  case (Some x)
  then obtain v where v: "rg_versions (snd (create_model_version vid m run uri s R)) = rg_versions R @ [v]"
      "mv_model v = m" "mv_num v = next_model_version R m" "mv_stage v = s"
    by (simp add: create_model_version_def Let_def)
  have "(m, next_model_version R m) \<notin> (\<lambda>v. (mv_model v, mv_num v)) ` set (rg_versions R)"
    using next_version_fresh by fastforce
  then show ?thesis
    using R v assms(2) by (simp add: single_holder_def numbered_once_def at_stage_def)
qed

lemma approve_cases:
  assumes "update_model_version_approval t p m n status reason actor R = (Inr v1, R')"
  obtains v where "scoped_version R t p m n = Some v"
    "approval_step R t p m n (mv_approval v) (strip status) = Inr ()"
    "v1 = with_approval (strip status) reason actor (w_now (rg_world R)) v"
    "rg_versions R' = map (\<lambda>x. if mv_model x = m \<and> mv_num x = n then v1 else x) (rg_versions R)"
proof -
  obtain v where v: "scoped_version R t p m n = Some v"
      and valid: "strip status \<in> set valid_approval"
    using assms by (cases "scoped_version R t p m n")
      (simp_all add: update_model_version_approval_def Let_def split: if_split_asm)
  moreover obtain u where "approval_step R t p m n (mv_approval v) (strip status) = Inr u"
    using assms v valid by (cases "approval_step R t p m n (mv_approval v) (strip status)")
      (simp_all add: update_model_version_approval_def Let_def)
  ultimately show ?thesis
    using assms that [of v] by (auto simp: update_model_version_approval_def Let_def)
qed

lemma approve_refused:
  assumes "update_model_version_approval t p m n status reason actor R = (Inl e, R')"
  shows "R' = R"
  using assms unfolding update_model_version_approval_def Let_def
  by (simp split: if_split_asm option.split_asm sum.split_asm)

lemma scoped_versionD: "scoped_version R t p m n = Some v \<Longrightarrow> version_find R m n = Some v"
  by (auto simp: scoped_version_def split: option.splits if_splits)

lemma single_holder_approve:
  assumes R: "single_holder stage R"
  shows "single_holder stage (snd (update_model_version_approval t p m n st reason actor R))"
proof (cases "update_model_version_approval t p m n st reason actor R")
  case (Pair r R')
  show ?thesis
  proof (cases r)
    case (Inl e)
    then show ?thesis using R Pair approve_refused [of t p m n st reason actor R e R'] by simp
  next
    case (Inr v1)
    from Pair [unfolded Inr] obtain v where v: "version_find R m n = Some v"
        "mv_model v1 = mv_model v" "mv_num v1 = mv_num v" "mv_stage v1 = mv_stage v"
      and R': "rg_versions R' = map (\<lambda>x. if mv_model x = m \<and> mv_num x = n then v1 else x) (rg_versions R)"
      by (rule approve_cases) (simp add: scoped_versionD with_approval_def)
    have "x = v" if "x \<in> set (rg_versions R)" "mv_model x = m" "mv_num x = n" for x
      using that version_findD [OF v(1)] R
      by (auto simp: single_holder_def numbered_once_def distinct_map dest: inj_onD)
    then have "single_holder stage R' = single_holder stage R"
      using v by (intro single_holder_cong) (auto simp: R')
    then show ?thesis using R Pair by simp
  qed
qed


subsection \<open>Approval\<close>

text \<open>
  C18. A version is approved only after its steps: with a reviewer or an approver among the
  stakeholders from \<open>pending_approver\<close> alone, otherwise from a pending status, and with a latest
  evaluation that passed when the platform asks for one; the actor is kept as the approver.
\<close>

theorem approved_after_steps:
  assumes "update_model_version_approval t p m n status reason actor R = (Inr v1, R')"
    and "mv_approval v1 = ''approved''"
  shows "\<exists>v. version_find R m n = Some v \<and>
    (if two_step_approval_required R t p m then mv_approval v = ''pending_approver''
     else mv_approval v \<in> set pending_approval) \<and>
    (require_evaluation_for_approval R \<longrightarrow> latest_evaluation_passed R t p m n) \<and>
    mv_approved_by v1 = coalesce actor (mv_approved_by v) \<and> mv_reviewed_by v1 = mv_reviewed_by v"
proof -
  from assms(1) obtain v where v: "scoped_version R t p m n = Some v"
    and step: "approval_step R t p m n (mv_approval v) (strip status) = Inr ()"
    and v1: "v1 = with_approval (strip status) reason actor (w_now (rg_world R)) v"
    by (rule approve_cases)
  have "strip status = ''approved''" using assms(2) v1 by (simp add: with_approval_def)
  then show ?thesis
    using v step v1
    by (auto simp: approval_step_def Let_def with_approval_def coalesce_def dest: scoped_versionD
        split: if_split_asm)
qed

text \<open>Any status goes back to pending, a rejected one too, so that a rejection does not last.\<close>

lemma rejected_reopened:
  "approval_step R t p m n ''rejected'' ''pending_reviewer'' = Inr ()"
  "approval_step R t p m n ''pending_reviewer'' ''pending_approver'' = Inr ()"
  by (simp_all add: approval_step_def pending_approval_def)

subsection \<open>The serving route\<close>

lemma route_items:
  assumes "py_iter (por (VDict d) (VList [])) = Inr items"
  shows "List.map_filter (\<lambda>s. case s of VDict e \<Rightarrow> Some (f e) | _ \<Rightarrow> None) items = []"
  using assms by (cases "d = []") (auto simp: py_iter_def por_def map_filter_def comp_def filter_empty_conv)

text \<open>
  The serving route of a model never names a version: whatever the slots hold, the champion it
  answers, the canary, the candidate and the challenger are all absent.
\<close>

theorem serving_route_empty:
  assumes "resolve_model_serving_route t p m R = Inr d"
  shows "dget d ''primary'' = VNone \<and> dget d ''canary'' = VNone \<and> dget d ''candidate'' = VNone \<and>
    dget d ''challenger'' = VNone"
proof -
  obtain x where x: "model_find R m = Some x" "mo_tenant x = t" "mo_project x = p"
    using assms by (auto simp: resolve_model_serving_route_def split: option.splits if_splits)
  obtain slots where slots: "dget (list_model_serving_slots R m) ''slots'' = VDict slots"
    by (simp add: list_model_serving_slots_def dget_def)
  obtain items where items: "py_iter (por (VDict slots) (VList [])) = Inr items"
    by (cases "slots = []") (simp_all add: py_iter_def por_def)
  show ?thesis
    using assms x slots items
    by (simp add: resolve_model_serving_route_def Let_def route_items [OF items]) (auto simp: dget_def)
qed

end
