(* ===== verification/ConfigExamples.thy ===== *)
theory ConfigExamples
  imports RegistryLaws RunExamples
begin

text \<open>
  Concrete configurations: the witnesses of the laws of the resolver, of the policy rules and of the
  guard on a stage, and the cases in which the stored versions decide against the narrowest scope.
\<close>

definition bare_stores :: stores where
  "bare_stores = \<lparr>cs_entries = [], cs_log = [], cs_audit = [], cs_emitted = [], cs_closed = [],
     cs_triggers = [], cs_stage_order = [''staging'', ''production''], cs_mode = VStr ''thread'',
     cs_now = 0, cs_text = (\<lambda>f. ''0.5'')\<rparr>"

definition in_project :: resolution where
  "in_project = \<lparr>cx_tenant = Some ''t'', cx_project = Some ''p'', cx_env = None, cx_rtype = None, cx_rid = None\<rparr>"

definition at_model :: resolution where
  "at_model = \<lparr>cx_tenant = Some ''t'', cx_project = Some ''p'', cx_env = None, cx_rtype = Some ''model'',
     cx_rid = Some ''m''\<rparr>"

definition drift_key :: string where
  "drift_key = ''monitoring.drift.enabled''"

text \<open>The switch set for the project.\<close>

definition switched :: "effective py \<times> stores" where
  "switched = put_override ''e1'' in_project Project drift_key (VStr ''on'') (Some ''ann'') True bare_stores"

fun is_inr :: "'a + 'b \<Rightarrow> bool" where
  "is_inr (Inl e) = False"
| "is_inr (Inr x) = True"

lemma is_inrE: "is_inr r \<Longrightarrow> \<exists>x. r = Inr x"
  by (cases r) simp_all

lemma switched_ok: "is_inr (fst switched)"
  by code_simp

lemma switched_is:
  "put_override ''e1'' in_project Project drift_key (VStr ''on'') (Some ''ann'') True bare_stores
     = (fst switched, snd switched)"
  by (simp add: switched_def)

theorem override_takes_effect_witness:
  "\<exists>ef. fst switched = Inr ef \<and> ef_value ef = CBool True \<and> ef_level ef = Project"
proof -
  obtain ef where ef: "fst switched = Inr ef"
    using is_inrE [OF switched_ok] by blast
  have last: "Project = last (applicable_scope_levels in_project)" by code_simp
  have own: "only_own_scope drift_key Project in_project bare_stores" by code_simp
  have "ef_level ef = Project \<and> (\<exists>spec. map_of key_registry drift_key = Some spec \<and>
      coerce_value (VStr ''on'') (ks_type spec) = Inr (ef_value ef))"
    using override_takes_effect [OF switched_is [unfolded ef] last _ own] by blast
  moreover have "map_option ks_type (map_of key_registry drift_key) = Some BooleanT" by code_simp
  moreover have "coerce_value (VStr ''on'') BooleanT = Inr (CBool True)" by code_simp
  ultimately show ?thesis using ef by auto
qed

theorem reset_takes_back_witness:
  "cs_entries (snd (reset_override in_project Project drift_key (Some ''bob'') (snd switched))) = []"
proof -
  obtain ef where ef: "fst switched = Inr ef"
    using is_inrE [OF switched_ok] by blast
  have none: "get_entry_at_scope (cs_entries bare_stores) drift_key Project in_project = None" by code_simp
  obtain r S2 where "reset_override in_project Project drift_key (Some ''bob'') (snd switched) = (r, S2)"
    by fastforce
  then show ?thesis
    using reset_takes_back [OF switched_is [unfolded ef] none, of "Some ''bob''" r S2] by (simp add: bare_stores_def)
qed

theorem narrowest_scope_wins_witness:
  "\<exists>ef items. resolve (snd switched) drift_key in_project = Inr ef \<and>
     traverse (level_item (snd switched) drift_key BooleanT in_project) (applicable_scope_levels in_project)
       = Inr items \<and> ef_level ef = Max (pv_level ` set (filter pv_contributes items))"
proof -
  have "is_inr (resolve (snd switched) drift_key in_project)" by code_simp
  then obtain ef where ef: "resolve (snd switched) drift_key in_project = Inr ef" using is_inrE by blast
  have t: "map_option ks_type (map_of key_registry drift_key) = Some BooleanT" by code_simp
  have "(case resolve (snd switched) drift_key in_project of Inl _ \<Rightarrow> ''default'' | Inr e \<Rightarrow> ef_kind e) \<noteq> ''default''"
    by code_simp
  then show ?thesis
    using narrowest_scope_wins [OF ef] ef t by (auto split: if_splits)
qed

theorem effective_typed_witness:
  "\<exists>efs. get_effective bare_stores at_model [] ''automation.'' = Inr efs \<and>
     map ef_key efs = list_key_specs ''automation.''"
proof -
  have "is_inr (get_effective bare_stores at_model [] ''automation.'')" by code_simp
  then obtain efs where efs: "get_effective bare_stores at_model [] ''automation.'' = Inr efs"
    using is_inrE by blast
  show ?thesis using effective_typed [OF efs] efs by simp
qed

text \<open>The project switches the monitoring off, and its model stays on.\<close>

definition off_stores :: stores where
  "off_stores = snd (put_override ''e1'' in_project Project drift_key (VStr ''off'') None True bare_stores)"

theorem wider_scopes_masked_witness:
  "\<exists>ef. resolve off_stores drift_key at_model = Inr ef \<and> ef_kind ef = ''legacy'' \<and> ef_value ef = CBool True"
proof -
  have "is_inr (resolve off_stores drift_key at_model)" by code_simp
  then obtain ef where ef: "resolve off_stores drift_key at_model = Inr ef" using is_inrE by blast
  obtain spec where spec: "map_of key_registry drift_key = Some spec" "ks_type spec = BooleanT"
    by (simp add: key_registry_def drift_key_def)
  have field: "map_of closed_loop_keys drift_key = Some ''monitoring_enabled''" by code_simp
  have none: "fetch_chain (cs_entries off_stores) drift_key at_model Resource = None" by code_simp
  have res: "scope_applies Resource at_model" by code_simp
  have rtype: "cx_rtype at_model = Some ''model''" by code_simp
  have "coerce_value (dget (get_closed_loop_policy (cs_closed off_stores) (opt_or (cx_tenant at_model) [])
      (opt_or (cx_project at_model) []) (opt_or (cx_rid at_model) [])) ''monitoring_enabled'') BooleanT
      = Inr (CBool True)" by code_simp
  then show ?thesis
    using wider_scopes_masked [OF field spec(1) none rtype res ef] ef spec(2) by simp
qed

text \<open>
  A value for the model in one environment yields to an older value for the model in all of them
  when that one has been changed more often: the rows are ranked by their version alone.
\<close>

definition in_env :: resolution where
  "in_env = at_model\<lparr>cx_env := Some ''prod''\<rparr>"

definition ranked :: stores where
  "ranked = snd (put_override ''e3'' in_env Resource drift_key (VStr ''off'') None True
     (snd (put_override ''e2'' at_model Resource drift_key (VStr ''on'') None True
       (snd (put_override ''e1'' at_model Resource drift_key (VStr ''off'') None True bare_stores)))))"

lemma environment_value_loses:
  "(case resolve ranked drift_key in_env of Inl e \<Rightarrow> CNone | Inr ef \<Rightarrow> ef_value ef) = CBool True"
  by code_simp

text \<open>The history of a key shows no change made for the platform.\<close>

definition platform_wide :: resolution where
  "platform_wide = \<lparr>cx_tenant = None, cx_project = None, cx_env = None, cx_rtype = None, cx_rid = None\<rparr>"

lemma platform_changes_hidden:
  "map_sum id length (history drift_key platform_wide 50
     (snd (put_override ''e1'' platform_wide Global drift_key (VStr ''on'') None True bare_stores))) = Inr 0"
  by code_simp

subsection \<open>Rules\<close>

definition slo_rule :: policy_rule where
  "slo_rule = \<lparr>ru_id = ''r1'', ru_tenant = ''t'', ru_project = ''p'', ru_rtype = ''model'',
     ru_kind = ''slo_breach'', ru_config = [], ru_enabled = True, ru_created = 0\<rparr>"

theorem actions_have_grounds_witness:
  "\<exists>ev. evaluate bare_stores [slo_rule] ''t'' ''p'' ''model'' (Some ''m'')
       [(''slo_breaches'', VList [VStr ''latency''])] = Inr ev \<and>
     (\<exists>a\<in>set (ev_actions ev). rule_of a = ''r1'' \<and> grounded [(''slo_breaches'', VList [VStr ''latency''])] a)"
proof -
  let ?e = "evaluate bare_stores [slo_rule] ''t'' ''p'' ''model'' (Some ''m'')
       [(''slo_breaches'', VList [VStr ''latency''])]"
  have "(case ?e of Inl x \<Rightarrow> [] | Inr ev \<Rightarrow> ev_actions ev) = [SloBreached (VList [VStr ''latency'']) ''r1'']"
    by code_simp
  then obtain ev where ev: "?e = Inr ev" and a: "ev_actions ev = [SloBreached (VList [VStr ''latency'']) ''r1'']"
    by (cases ?e) simp_all
  then have "SloBreached (VList [VStr ''latency'']) ''r1'' \<in> set (ev_actions ev)" by simp
  from actions_have_grounds [OF ev this] show ?thesis
    using ev a by simp
qed

theorem rule_overwritten_across_tenants_witness:
  "slo_rule\<lparr>ru_rtype := ''run'', ru_kind := ''drift_threshold'', ru_config := [], ru_enabled := False\<rparr>
     \<in> set (upsert_rule ''r1'' ''other'' ''q'' ''run'' None ''drift_threshold'' [] False 5 [slo_rule])"
  using rule_overwritten_across_tenants [where r = slo_rule and rows = "[slo_rule]" and rid = "''r1''"
      and tenant = "''other''" and project = "''q''" and rtype = "''run''" and kind = "''drift_threshold''"
      and config = "[]" and on = False and now = 5]
  by (simp add: slo_rule_def)

definition two_stages :: promo where
  "two_stages = \<lparr>stage_order = [''staging'', ''production''], rollback_on = True,
     rollback_needs_approval = False, allow_skip = False\<rparr>"

theorem fsm_exact_witness:
  "\<exists>v. fsm_transition bare_stores two_stages ''t'' ''p'' (Some ''staging'') ''production'' False (Some ''m'')
     = Inr v \<and> \<not> allowed v"
proof -
  let ?c = "\<lparr>cx_tenant = Some ''t'', cx_project = Some ''p'', cx_env = None,
       cx_rtype = (if opt_or (Some ''m'') [] = [] then None else Some ''model''), cx_rid = Some ''m''\<rparr>"
  have "(case resolve bare_stores ''governance.evaluation.require_before_promote'' ?c of
      Inl _ \<Rightarrow> CNone | Inr e \<Rightarrow> ef_value e) = CBool True" by code_simp
  then obtain req where req: "resolve bare_stores ''governance.evaluation.require_before_promote'' ?c = Inr req"
      "ef_value req = CBool True"
    by (cases "resolve bare_stores ''governance.evaluation.require_before_promote'' ?c") simp_all
  have "is_inr (fsm_transition bare_stores two_stages ''t'' ''p'' (Some ''staging'') ''production'' False (Some ''m''))"
    by code_simp
  then obtain v where v: "fsm_transition bare_stores two_stages ''t'' ''p'' (Some ''staging'') ''production''
      False (Some ''m'') = Inr v" using is_inrE by blast
  have "lower (strip ''production'') = ''production''" by code_simp
  then show ?thesis using fsm_exact [OF v req(1)] req(2) v by simp
qed

end
