(* ===== verification/RegistryExamples.thy ===== *)
theory RegistryExamples
  imports ConfigExamples
begin

text \<open>
  A model with two versions: the witnesses of the laws of the registry, and the two ways around its
  gates, a version created at a stage and a stage written with spaces.
\<close>

definition quiet_world :: world where
  "quiet_world = \<lparr>w_tasks = [], w_runs = [], w_queues = (\<lambda>q. []), w_env = (\<lambda>n. None), w_now = 7,
     w_trace = []\<rparr>"

definition bare_registry :: model_store where
  "bare_registry = \<lparr>rg_models = [\<lparr>mo_id = ''m'', mo_tenant = ''t'', mo_project = ''p'', mo_name = ''churn'',
       mo_desc = None\<rparr>],
     rg_versions = [], rg_slots = [], rg_mapping = [],
     rg_evals = [\<lparr>me_id = ''e'', me_tenant = ''t'', me_project = ''p'', me_mid = ''m'', me_num = 1,
       me_bench = ''holdout'', me_status = ''passed'', me_metrics = VDict [], me_at = 3\<rparr>],
     rg_stakeholders = [\<lparr>sh_tenant = ''t'', sh_project = ''p'', sh_model = ''m'', sh_user = ''ann'',
       sh_role = ''reviewer''\<rparr>],
     rg_events = [], rg_world = quiet_world\<rparr>"

definition careful :: governance where
  "careful = \<lparr>gv_promo = two_stages, gv_skip = False, gv_stages = [''production''], gv_config = bare_stores\<rparr>"

definition one_version :: model_store where
  "one_version = snd (create_model_version ''v1'' ''m'' None None ''staging'' bare_registry)"

definition reviewed :: model_store where
  "reviewed = snd (update_model_version_approval ''t'' ''p'' ''m'' 1 ''pending_approver'' None (Some ''ann'') one_version)"

definition approved :: "mversion py \<times> model_store" where
  "approved = update_model_version_approval ''t'' ''p'' ''m'' 1 ''approved'' None (Some ''bob'') reviewed"

definition promoted :: "mversion py \<times> model_store" where
  "promoted = promote_model_version careful ''m'' 1 ''production'' (snd approved)"

lemma approved_ok: "is_inr (fst approved)"
  by code_simp

lemma promoted_ok: "is_inr (fst promoted)"
  by code_simp

theorem approved_after_steps_witness:
  "\<exists>v1 v. fst approved = Inr v1 \<and> version_find reviewed ''m'' 1 = Some v \<and>
     mv_approval v = ''pending_approver'' \<and> mv_approved_by v1 = Some ''bob''"
proof -
  obtain v1 where v1: "fst approved = Inr v1" using is_inrE [OF approved_ok] by blast
  then have call: "update_model_version_approval ''t'' ''p'' ''m'' 1 ''approved'' None (Some ''bob'') reviewed
      = (Inr v1, snd approved)"
    by (simp add: approved_def prod_eq_iff)
  have "(case fst approved of Inl _ \<Rightarrow> [] | Inr v \<Rightarrow> mv_approval v) = ''approved''" by code_simp
  then have st: "mv_approval v1 = ''approved''" using v1 by simp
  have two: "two_step_approval_required reviewed ''t'' ''p'' ''m''" by code_simp
  show ?thesis
    using approved_after_steps [OF call st] two v1 by (auto simp: coalesce_def)
qed

theorem promotion_gated_witness:
  "\<exists>v. version_find (snd approved) ''m'' 1 = Some v \<and> mv_approval v = ''approved'' \<and>
     has_passing_evaluation (snd approved) ''t'' ''p'' ''m'' 1"
proof -
  obtain v1 where "fst promoted = Inr v1" using is_inrE [OF promoted_ok] by blast
  then have call: "promote_model_version careful ''m'' 1 ''production'' (snd approved) = (Inr v1, snd promoted)"
    by (simp add: promoted_def prod_eq_iff)
  have "map_option mo_tenant (model_find (snd approved) ''m'') = Some ''t''"
    "map_option mo_project (model_find (snd approved) ''m'') = Some ''p''" by code_simp+
  then obtain x where x: "model_find (snd approved) ''m'' = Some x" "mo_tenant x = ''t''" "mo_project x = ''p''"
    by auto
  have target: "target_of ''production'' = ''production''" by code_simp
  have req: "evaluation_required careful ''t'' ''p'' ''m''" by code_simp
  have need: "(case version_find (snd approved) ''m'' 1 of None \<Rightarrow> False
      | Some v \<Rightarrow> approval_needed careful v ''production'')" by code_simp
  show ?thesis
    using promotion_gated [OF call x(1)] x req need target by auto
qed

theorem promotion_exclusive_witness:
  "map mv_num (at_stage ''m'' ''production'' (snd promoted)) = [1]"
proof -
  obtain v1 where "fst promoted = Inr v1" using is_inrE [OF promoted_ok] by blast
  then have call: "promote_model_version careful ''m'' 1 ''production'' (snd approved) = (Inr v1, snd promoted)"
    by (simp add: promoted_def prod_eq_iff)
  have once: "numbered_once (snd approved)" by code_simp
  show ?thesis using promotion_exclusive [OF call once] by simp
qed


theorem serving_route_empty_witness:
  "\<exists>d. resolve_model_serving_route ''t'' ''p'' ''m'' (snd promoted) = Inr d \<and> dget d ''primary'' = VNone"
proof -
  have "is_inr (resolve_model_serving_route ''t'' ''p'' ''m'' (snd promoted))" by code_simp
  then obtain d where d: "resolve_model_serving_route ''t'' ''p'' ''m'' (snd promoted) = Inr d"
    using is_inrE by blast
  show ?thesis using serving_route_empty [OF d] d by blast
qed

text \<open>The slot itself is set: the version promoted is the champion.\<close>

lemma champion_is_set: "rg_slots (snd promoted) = [((''m'', ''champion''), ''v1'')]"
  by code_simp

text \<open>A version created at production has passed no gate.\<close>

lemma created_at_production:
  "map (\<lambda>v. (mv_stage v, mv_approval v)) (rg_versions (snd
     (create_model_version ''v1'' ''m'' None None ''production'' bare_registry)))
     = [(''production'', ''pending_reviewer'')]"
  by code_simp

text \<open>
  The gates read the stage in lower case and without spaces, the update writes it as given: the
  version that holds production is not archived, and the stage no longer has a name the order knows.
\<close>

definition spelled :: model_store where
  "spelled = snd (promote_model_version (careful\<lparr>gv_skip := True\<rparr>) ''m'' 1 '' Production ''
     (snd (create_model_version ''v2'' ''m'' None None ''production'' (snd approved))))"

lemma stage_written_as_spelled:
  "map (\<lambda>v. (mv_num v, mv_stage v)) (rg_versions spelled) = [(1, '' Production ''), (2, ''production'')]"
  by code_simp

end
