(* ===== verification/Actions.thy ===== *)
theory Actions
  imports PyValue
begin

text \<open>
  Operations that read and write a state and may raise: what has been written before a raise stays
  written, since every statement of the code commits on its own. The rules about sequences say that a
  property of a state or of its changes holds for a whole operation when it holds for its parts.
\<close>

type_synonym ('s, 'a) act = "'s \<Rightarrow> 'a py \<times> 's"

definition give :: "'a \<Rightarrow> ('s, 'a) act" where
  "give x s = (ok x, s)"

definition fail :: "pyerr \<Rightarrow> ('s, 'a) act" where
  "fail e s = (raise e, s)"

definition seq :: "('s, 'a) act \<Rightarrow> ('a \<Rightarrow> ('s, 'b) act) \<Rightarrow> ('s, 'b) act" where
  "seq m f s = (case m s of (Inl e, s') \<Rightarrow> (Inl e, s') | (Inr x, s') \<Rightarrow> f x s')"

text \<open>A read, and a change of the state.\<close>

definition ask :: "('s \<Rightarrow> 'a) \<Rightarrow> ('s, 'a) act" where
  "ask f s = (ok (f s), s)"

definition put :: "('s \<Rightarrow> 's) \<Rightarrow> ('s, unit) act" where
  "put f s = (ok (), f s)"

definition check :: "pyerr \<Rightarrow> bool \<Rightarrow> ('s, unit) act" where
  "check e b = (if b then give () else fail e)"

lemma act_simps [simp]:
  "give x s = (ok x, s)" "fail e s = (raise e, s)" "ask f s = (ok (f s), s)" "put g s = (ok (), g s)"
  by (simp_all add: give_def fail_def ask_def put_def)

lemma seq_step:
  "m s = (Inr x, s') \<Longrightarrow> seq m f s = f x s'" "m s = (Inl e, s') \<Longrightarrow> seq m f s = (Inl e, s')"
  by (simp_all add: seq_def)

lemma seq_simps [simp]:
  "seq (give x) f s = f x s" "seq (fail e) f s = (Inl e, s)" "seq (ask g) f s = f (g s) s"
  "seq (put i) h s = h () (i s)" "seq (check e b) h s = (if b then h () s else (Inl e, s))"
  by (simp_all add: seq_def check_def)

lemma check_simps [simp]: "check e True = give ()" "check e False = fail e"
  by (simp_all add: check_def)

lemma seq_Inr:
  "seq m f s = (Inr y, s'') \<longleftrightarrow> (\<exists>x s'. m s = (Inr x, s') \<and> f x s' = (Inr y, s''))"
  by (auto simp: seq_def split: prod.splits sum.splits)

lemma seqE:
  assumes "seq m f s = (Inr y, s'')"
  obtains x s' where "m s = (Inr x, s')" "f x s' = (Inr y, s'')"
  using assms by (auto simp: seq_Inr)

lemma check_Inr: "check e b s = (Inr u, s') \<longleftrightarrow> b \<and> s' = s"
  by (auto simp: check_def)

subsection \<open>Properties of the changes\<close>

text \<open>A relation between the states before and after, kept by sequences.\<close>

locale change =
  fixes R :: "'s \<Rightarrow> 's \<Rightarrow> bool"
  assumes refl: "R s s"
    and trans: "R s s' \<Longrightarrow> R s' s'' \<Longrightarrow> R s s''"
begin

definition keeps :: "('s, 'a) act \<Rightarrow> bool" where
  "keeps m = (\<forall>s. R s (snd (m s)))"

lemma keepsI: "(\<And>s. R s (snd (m s))) \<Longrightarrow> keeps m"
  by (simp add: keeps_def)

lemma keepsD: "keeps m \<Longrightarrow> R s (snd (m s))"
  by (simp add: keeps_def)

lemma keeps_basic:
  "keeps (give x)" "keeps (fail e)" "keeps (ask f)" "keeps (check e b)"
  by (simp_all add: keeps_def refl check_def)

lemma keeps_put: "(\<And>s. R s (f s)) \<Longrightarrow> keeps (put f)"
  by (simp add: keeps_def)

lemma keeps_seq:
  assumes "keeps m" and "\<And>x. keeps (f x)"
  shows "keeps (seq m f)"
proof (rule keepsI)
  fix s
  obtain r s' where m: "m s = (r, s')" by fastforce
  then have "R s s'" using keepsD [OF assms(1), of s] by simp
  then show "R s (snd (seq m f s))"
    using m assms(2) by (cases r) (auto simp: seq_def keeps_def intro: trans)
qed

lemma keeps_if: "keeps a \<Longrightarrow> keeps b \<Longrightarrow> keeps (if c then a else b)"
  by simp

lemma keeps_case_option:
  "keeps a \<Longrightarrow> (\<And>x. keeps (f x)) \<Longrightarrow> keeps (case v of None \<Rightarrow> a | Some x \<Rightarrow> f x)"
  by (cases v) simp_all

lemma keeps_case_prod: "(\<And>x y. keeps (f x y)) \<Longrightarrow> keeps (case p of (x, y) \<Rightarrow> f x y)"
  by (cases p) simp

lemma keeps_Let: "(\<And>x. keeps (f x)) \<Longrightarrow> keeps (Let v f)"
  by simp

lemmas keeps_intros =
  keeps_basic keeps_seq keeps_if keeps_case_option keeps_case_prod keeps_Let

end

end
