(* ===== verification/IdentityStore.thy ===== *)
theory IdentityStore
  imports Actions
begin

text \<open>
  Model of \<^verbatim>\<open>governance/identity_repository.py\<close>: the tables of users, role assignments, sessions, second
  factors, personal access tokens and service accounts, with the constraints of their schema (unique
  columns, allowed states, cascading deletes). Times are microseconds; new ids and tokens are drawn by
  the caller and given as arguments. The columns of migration 0045 are there.
\<close>

subsection \<open>Tables\<close>

record user_row =
  us_id :: string
  us_name :: string
  us_password :: string
  us_state :: string
  us_admin :: bool
  us_failed :: int
  us_locked :: "int option"
  us_display :: "string option"
  us_email :: "string option"
  us_login :: "int option"

record assignment =
  ra_id :: string
  ra_user :: string
  ra_tenant :: string
  ra_role :: string
  ra_all :: bool
  ra_projects :: "string list"
  ra_created :: int

record session_row =
  se_id :: string
  se_user :: string
  se_hash :: string
  se_expires :: int
  se_revoked :: "int option"
  se_rotated :: "string option"
  se_created :: int
  se_used :: "int option"

record totp_row =
  tp_id :: string
  tp_user :: string
  tp_secret :: string
  tp_disabled :: "int option"
  tp_used :: "int option"
  tp_created :: int

record recovery_row =
  rv_id :: string
  rv_user :: string
  rv_hash :: string
  rv_used :: "int option"

record challenge_row =
  ch_id :: string
  ch_user :: string
  ch_hash :: string
  ch_expires :: int
  ch_consumed :: "int option"

record pat_row =
  pt_id :: string
  pt_user :: string
  pt_desc :: string
  pt_hash :: string
  pt_created :: int
  pt_expires :: "int option"
  pt_revoked :: "int option"
  pt_used :: "int option"

record account_row =
  sa_id :: string
  sa_name :: string
  sa_desc :: "string option"
  sa_state :: string

record credential_row =
  cd_id :: string
  cd_account :: string
  cd_hash :: string
  cd_revoked :: "int option"
  cd_used :: "int option"

record account_scope =
  sc_id :: string
  sc_account :: string
  sc_tenant :: string
  sc_all :: bool
  sc_projects :: "string list"

record identity_event =
  ie_kind :: string
  ie_actor :: "string option"
  ie_action :: string
  ie_target :: "string option"
  ie_result :: string

text \<open>\<open>i_counters\<close> are the attempt counters of Redis, key, count and expiry; \<open>i_fallback\<close> those of the process.\<close>

record identity_db =
  i_users :: "user_row list"
  i_assignments :: "assignment list"
  i_sessions :: "session_row list"
  i_totp :: "totp_row list"
  i_codes :: "recovery_row list"
  i_challenges :: "challenge_row list"
  i_pats :: "pat_row list"
  i_accounts :: "account_row list"
  i_credentials :: "credential_row list"
  i_permissions :: "(string \<times> string) list"
  i_scopes :: "account_scope list"
  i_audit :: "identity_event list"
  i_redis :: bool
  i_counters :: "(string \<times> int \<times> int) list"
  i_fallback :: "(string \<times> int \<times> int) list"
  i_now :: int

type_synonym 'a idact = "(identity_db, 'a) act"

abbreviation unique_violation :: pyerr where "unique_violation \<equiv> RuntimeError ''UniqueViolation''"

subsection \<open>Users\<close>

definition user_states :: "string list" where
  "user_states = [''pending_activation'', ''active'', ''locked'', ''disabled'', ''deleted'']"

definition get_user_by_id :: "identity_db \<Rightarrow> string \<Rightarrow> user_row option" where
  "get_user_by_id S uid = find (\<lambda>u. us_id u = uid) (i_users S)"

definition get_user_by_username :: "identity_db \<Rightarrow> string \<Rightarrow> user_row option" where
  "get_user_by_username S name = find (\<lambda>u. us_name u = name) (i_users S)"

definition count_global_admins :: "identity_db \<Rightarrow> nat" where
  "count_global_admins S = length (filter us_admin (i_users S))"

definition insert_user :: "string \<Rightarrow> string \<Rightarrow> string \<Rightarrow> string \<Rightarrow> bool \<Rightarrow> user_row idact" where
  "insert_user uid name password state admin =
     seq (check (RuntimeError ''CheckViolation'') (state \<in> set user_states)) (\<lambda>_.
     seq (ask (\<lambda>S. list_ex (\<lambda>u. us_id u = uid \<or> us_name u = name) (i_users S))) (\<lambda>taken.
     seq (check unique_violation (\<not> taken)) (\<lambda>_.
       let row = \<lparr>us_id = uid, us_name = name, us_password = password, us_state = state, us_admin = admin,
             us_failed = 0, us_locked = None, us_display = None, us_email = None, us_login = None\<rparr>
       in seq (put (\<lambda>S. S\<lparr>i_users := i_users S @ [row]\<rparr>)) (\<lambda>_. give row))))"

text \<open>The keyword arguments of \<open>update_user\<close>; the absent ones are left as they are.\<close>

record user_patch =
  up_state :: "string option"
  up_password :: "string option"
  up_admin :: "bool option"
  up_failed :: "int option"
  up_locked :: "int option"
  up_clear_lock :: bool
  up_display :: "string option"
  up_clear_display :: bool
  up_email :: "string option"
  up_clear_email :: bool
  up_login :: "int option"

definition no_patch :: user_patch where
  "no_patch = \<lparr>up_state = None, up_password = None, up_admin = None, up_failed = None, up_locked = None,
     up_clear_lock = False, up_display = None, up_clear_display = False, up_email = None,
     up_clear_email = False, up_login = None\<rparr>"

definition given :: "'a option \<Rightarrow> 'a \<Rightarrow> 'a" where
  "given v old = (case v of None \<Rightarrow> old | Some x \<Rightarrow> x)"

definition patched :: "bool \<Rightarrow> 'a option \<Rightarrow> 'a option \<Rightarrow> 'a option" where
  "patched clear v old = (if clear then None else case v of None \<Rightarrow> old | Some x \<Rightarrow> Some x)"

definition patch_row :: "user_patch \<Rightarrow> user_row \<Rightarrow> user_row" where
  "patch_row p u =
     u\<lparr>us_state := given (up_state p) (us_state u), us_password := given (up_password p) (us_password u),
       us_admin := given (up_admin p) (us_admin u), us_failed := given (up_failed p) (us_failed u),
       us_locked := patched (up_clear_lock p) (up_locked p) (us_locked u),
       us_display := patched (up_clear_display p) (up_display p) (us_display u),
       us_email := patched (up_clear_email p) (up_email p) (us_email u),
       us_login := patched False (up_login p) (us_login u)\<rparr>"

definition update_user :: "string \<Rightarrow> user_patch \<Rightarrow> user_row option idact" where
  "update_user uid p =
     seq (ask (\<lambda>S. get_user_by_id S uid)) (\<lambda>found.
     if found = None then give None
     else seq (check (RuntimeError ''CheckViolation'')
         (case up_state p of None \<Rightarrow> True | Some s \<Rightarrow> s \<in> set user_states)) (\<lambda>_.
       seq (put (\<lambda>S. S\<lparr>i_users := map (\<lambda>u. if us_id u = uid then patch_row p u else u) (i_users S)\<rparr>)) (\<lambda>_.
       ask (\<lambda>S. get_user_by_id S uid))))"

text \<open>The delete cascades to every table that refers to the user.\<close>

definition delete_user :: "string \<Rightarrow> bool idact" where
  "delete_user uid = seq (ask (\<lambda>S. get_user_by_id S uid \<noteq> None)) (\<lambda>found.
     seq (put (\<lambda>S. S\<lparr>i_users := filter (\<lambda>u. us_id u \<noteq> uid) (i_users S),
         i_assignments := filter (\<lambda>a. ra_user a \<noteq> uid) (i_assignments S),
         i_sessions := filter (\<lambda>s. se_user s \<noteq> uid) (i_sessions S),
         i_totp := filter (\<lambda>t. tp_user t \<noteq> uid) (i_totp S),
         i_codes := filter (\<lambda>c. rv_user c \<noteq> uid) (i_codes S),
         i_challenges := filter (\<lambda>c. ch_user c \<noteq> uid) (i_challenges S),
         i_pats := filter (\<lambda>p. pt_user p \<noteq> uid) (i_pats S)\<rparr>)) (\<lambda>_. give found))"

definition list_users :: "identity_db \<Rightarrow> string option \<Rightarrow> nat \<Rightarrow> user_row list" where
  "list_users S state limit =
     take limit (sort_key us_name (filter (\<lambda>u. us_state u \<noteq> ''deleted'' \<and>
       (opt_or state [] = [] \<or> us_state u = opt_or state [])) (i_users S)))"

subsection \<open>Role assignments\<close>

text \<open>\<open>ORDER BY tenant_id, role, created_at\<close>; the projects of a row in order, none for all projects.\<close>

definition list_assignments_for_user :: "identity_db \<Rightarrow> string \<Rightarrow> assignment list" where
  "list_assignments_for_user S uid =
     map (\<lambda>a. a\<lparr>ra_projects := (if ra_all a then [] else sort (ra_projects a))\<rparr>)
       (sort_key ra_tenant (sort_key ra_role (sort_key ra_created
         (filter (\<lambda>a. ra_user a = uid) (i_assignments S)))))"

definition all_projects_taken :: "identity_db \<Rightarrow> string \<Rightarrow> string \<Rightarrow> string \<Rightarrow> bool" where
  "all_projects_taken S uid tenant role =
     list_ex (\<lambda>a. ra_user a = uid \<and> ra_tenant a = tenant \<and> ra_role a = role \<and> ra_all a) (i_assignments S)"

text \<open>The row is there before its projects; a repeated project stops the second loop.\<close>

fun take_distinct :: "'a list \<Rightarrow> 'a list \<Rightarrow> 'a list" where
  "take_distinct seen [] = []"
| "take_distinct seen (x # xs) = (if x \<in> set seen then [] else x # take_distinct (x # seen) xs)"

definition insert_assignment ::
    "string \<Rightarrow> string \<Rightarrow> string \<Rightarrow> string \<Rightarrow> bool \<Rightarrow> string list \<Rightarrow> assignment idact" where
  "insert_assignment aid uid tenant role all projects =
     seq (ask (\<lambda>S. (get_user_by_id S uid \<noteq> None, i_now S,
         list_ex (\<lambda>a. ra_id a = aid) (i_assignments S) \<or> (all \<and> all_projects_taken S uid tenant role))))
       (\<lambda>(known, now, taken).
     seq (check (RuntimeError ''ForeignKeyViolation'') known) (\<lambda>_.
     seq (check unique_violation (\<not> taken)) (\<lambda>_.
       let row = \<lparr>ra_id = aid, ra_user = uid, ra_tenant = tenant, ra_role = role, ra_all = all,
             ra_projects = (if all then [] else take_distinct [] projects), ra_created = now\<rparr>
       in seq (put (\<lambda>S. S\<lparr>i_assignments := i_assignments S @ [row]\<rparr>)) (\<lambda>_.
          seq (check unique_violation (all \<or> distinct projects)) (\<lambda>_.
            give (row\<lparr>ra_projects := (if all then [] else projects)\<rparr>))))))"

definition delete_assignments_for_user :: "string \<Rightarrow> unit idact" where
  "delete_assignments_for_user uid =
     put (\<lambda>S. S\<lparr>i_assignments := filter (\<lambda>a. ra_user a \<noteq> uid) (i_assignments S)\<rparr>)"

definition get_assignment :: "identity_db \<Rightarrow> string \<Rightarrow> assignment option" where
  "get_assignment S aid = find (\<lambda>a. ra_id a = aid) (i_assignments S)"

definition delete_assignment :: "string \<Rightarrow> bool idact" where
  "delete_assignment aid = seq (ask (\<lambda>S. get_assignment S aid \<noteq> None)) (\<lambda>found.
     seq (put (\<lambda>S. S\<lparr>i_assignments := filter (\<lambda>a. ra_id a \<noteq> aid) (i_assignments S)\<rparr>)) (\<lambda>_. give found))"

subsection \<open>Sessions\<close>

definition insert_session :: "string \<Rightarrow> string \<Rightarrow> string \<Rightarrow> int \<Rightarrow> string option \<Rightarrow> session_row idact" where
  "insert_session sid uid hash expires rotated =
     seq (ask (\<lambda>S. (get_user_by_id S uid \<noteq> None, i_now S,
         list_ex (\<lambda>s. se_id s = sid \<or> se_hash s = hash) (i_sessions S)))) (\<lambda>(known, now, taken).
     seq (check (RuntimeError ''ForeignKeyViolation'') known) (\<lambda>_.
     seq (check unique_violation (\<not> taken)) (\<lambda>_.
       let row = \<lparr>se_id = sid, se_user = uid, se_hash = hash, se_expires = expires, se_revoked = None,
             se_rotated = rotated, se_created = now, se_used = None\<rparr>
       in seq (put (\<lambda>S. S\<lparr>i_sessions := i_sessions S @ [row]\<rparr>)) (\<lambda>_. give row))))"

definition get_session_by_refresh_hash :: "identity_db \<Rightarrow> string \<Rightarrow> session_row option" where
  "get_session_by_refresh_hash S h = find (\<lambda>s. se_hash s = h) (i_sessions S)"

definition get_session_by_id :: "identity_db \<Rightarrow> string \<Rightarrow> session_row option" where
  "get_session_by_id S sid = find (\<lambda>s. se_id s = sid) (i_sessions S)"

text \<open>\<open>UPDATE user_sessions SET revoked_at = now() WHERE ... AND revoked_at IS NULL\<close>\<close>

definition revoke_where :: "(session_row \<Rightarrow> bool) \<Rightarrow> identity_db \<Rightarrow> identity_db" where
  "revoke_where P S = S\<lparr>i_sessions := map (\<lambda>s. if P s \<and> se_revoked s = None
      then s\<lparr>se_revoked := Some (i_now S)\<rparr> else s) (i_sessions S)\<rparr>"

definition revoke_session :: "string \<Rightarrow> unit idact" where
  "revoke_session sid = put (revoke_where (\<lambda>s. se_id s = sid))"

definition revoke_all_sessions :: "string \<Rightarrow> unit idact" where
  "revoke_all_sessions uid = put (revoke_where (\<lambda>s. se_user s = uid))"

definition revoke_session_for_user :: "string \<Rightarrow> string \<Rightarrow> bool idact" where
  "revoke_session_for_user uid sid =
     seq (ask (\<lambda>S. list_ex (\<lambda>s. se_id s = sid \<and> se_user s = uid \<and> se_revoked s = None) (i_sessions S))) (\<lambda>hit.
     seq (put (revoke_where (\<lambda>s. se_id s = sid \<and> se_user s = uid))) (\<lambda>_. give hit))"

definition list_sessions :: "identity_db \<Rightarrow> string \<Rightarrow> session_row list" where
  "list_sessions S uid = rev (sort_key se_created (filter (\<lambda>s. se_user s = uid) (i_sessions S)))"

definition list_all_active_sessions :: "identity_db \<Rightarrow> nat \<Rightarrow> session_row list" where
  "list_all_active_sessions S limit =
     take limit (rev (sort_key (\<lambda>s. given (se_used s) (se_created s))
       (filter (\<lambda>s. se_revoked s = None \<and> i_now S < se_expires s \<and> get_user_by_id S (se_user s) \<noteq> None)
         (i_sessions S))))"

subsection \<open>The record of events\<close>

definition insert_audit_event ::
    "string \<Rightarrow> string option \<Rightarrow> string \<Rightarrow> string option \<Rightarrow> string \<Rightarrow> unit idact" where
  "insert_audit_event kind actor action target result =
     put (\<lambda>S. S\<lparr>i_audit := i_audit S @ [\<lparr>ie_kind = kind, ie_actor = actor, ie_action = action,
        ie_target = target, ie_result = result\<rparr>]\<rparr>)"

subsection \<open>Second factors\<close>

text \<open>The active row; at most one per user by a unique index.\<close>

definition get_active_totp_for_user :: "identity_db \<Rightarrow> string \<Rightarrow> totp_row option" where
  "get_active_totp_for_user S uid = find (\<lambda>t. tp_user t = uid \<and> tp_disabled t = None) (i_totp S)"

definition disable_totp_rows :: "string \<Rightarrow> identity_db \<Rightarrow> identity_db" where
  "disable_totp_rows uid S = S\<lparr>i_totp := map (\<lambda>t. if tp_user t = uid \<and> tp_disabled t = None
      then t\<lparr>tp_disabled := Some (i_now S)\<rparr> else t) (i_totp S)\<rparr>"

definition upsert_active_totp :: "string \<Rightarrow> string \<Rightarrow> string \<Rightarrow> totp_row idact" where
  "upsert_active_totp mid uid secret =
     seq (put (disable_totp_rows uid)) (\<lambda>_.
     seq (ask (\<lambda>S. (get_user_by_id S uid \<noteq> None, i_now S, list_ex (\<lambda>t. tp_id t = mid) (i_totp S))))
       (\<lambda>(known, now, taken).
     seq (check (RuntimeError ''ForeignKeyViolation'') known) (\<lambda>_.
     seq (check unique_violation (\<not> taken)) (\<lambda>_.
       let row = \<lparr>tp_id = mid, tp_user = uid, tp_secret = secret, tp_disabled = None, tp_used = None,
             tp_created = now\<rparr>
       in seq (put (\<lambda>S. S\<lparr>i_totp := i_totp S @ [row]\<rparr>)) (\<lambda>_. give row)))))"

definition disable_totp_for_user :: "string \<Rightarrow> nat idact" where
  "disable_totp_for_user uid =
     seq (ask (\<lambda>S. length (filter (\<lambda>t. tp_user t = uid \<and> tp_disabled t = None) (i_totp S)))) (\<lambda>n.
     seq (put (disable_totp_rows uid)) (\<lambda>_. give n))"

definition touch_totp_last_used :: "string \<Rightarrow> unit idact" where
  "touch_totp_last_used mid = put (\<lambda>S. S\<lparr>i_totp := map (\<lambda>t. if tp_id t = mid
      then t\<lparr>tp_used := Some (i_now S)\<rparr> else t) (i_totp S)\<rparr>)"

definition replace_recovery_codes :: "string \<Rightarrow> (string \<times> string) list \<Rightarrow> unit idact" where
  "replace_recovery_codes uid items =
     put (\<lambda>S. S\<lparr>i_codes := filter (\<lambda>c. rv_user c \<noteq> uid) (i_codes S) @
        map (\<lambda>(cid, h). \<lparr>rv_id = cid, rv_user = uid, rv_hash = h, rv_used = None\<rparr>) items\<rparr>)"

definition count_unused_recovery_codes :: "identity_db \<Rightarrow> string \<Rightarrow> nat" where
  "count_unused_recovery_codes S uid =
     length (filter (\<lambda>c. rv_user c = uid \<and> rv_used c = None) (i_codes S))"

definition consume_recovery_code :: "string \<Rightarrow> string \<Rightarrow> bool idact" where
  "consume_recovery_code uid h =
     seq (ask (\<lambda>S. list_ex (\<lambda>c. rv_user c = uid \<and> rv_hash c = h \<and> rv_used c = None) (i_codes S))) (\<lambda>hit.
     seq (put (\<lambda>S. S\<lparr>i_codes := map (\<lambda>c. if rv_user c = uid \<and> rv_hash c = h \<and> rv_used c = None
        then c\<lparr>rv_used := Some (i_now S)\<rparr> else c) (i_codes S)\<rparr>)) (\<lambda>_. give hit))"

definition create_challenge :: "string \<Rightarrow> string \<Rightarrow> string \<Rightarrow> int \<Rightarrow> unit idact" where
  "create_challenge cid uid h expires =
     seq (ask (\<lambda>S. list_ex (\<lambda>c. ch_id c = cid \<or> ch_hash c = h) (i_challenges S))) (\<lambda>taken.
     seq (check unique_violation (\<not> taken)) (\<lambda>_.
       put (\<lambda>S. S\<lparr>i_challenges := i_challenges S @ [\<lparr>ch_id = cid, ch_user = uid, ch_hash = h,
          ch_expires = expires, ch_consumed = None\<rparr>]\<rparr>)))"

definition open_challenge :: "int \<Rightarrow> string \<Rightarrow> challenge_row \<Rightarrow> bool" where
  "open_challenge now h c = (ch_hash c = h \<and> ch_consumed c = None \<and> now < ch_expires c)"

definition consume_open_mfa_challenge :: "string \<Rightarrow> challenge_row option idact" where
  "consume_open_mfa_challenge h =
     seq (ask (\<lambda>S. find (open_challenge (i_now S) h) (i_challenges S))) (\<lambda>found.
     seq (put (\<lambda>S. S\<lparr>i_challenges := map (\<lambda>c. if open_challenge (i_now S) h c
        then c\<lparr>ch_consumed := Some (i_now S)\<rparr> else c) (i_challenges S)\<rparr>)) (\<lambda>_. give found))"

subsection \<open>Personal access tokens\<close>

definition insert_pat :: "string \<Rightarrow> string \<Rightarrow> string \<Rightarrow> string \<Rightarrow> int option \<Rightarrow> pat_row idact" where
  "insert_pat pid uid desc h expires =
     seq (ask (\<lambda>S. (get_user_by_id S uid \<noteq> None, i_now S,
         list_ex (\<lambda>p. pt_id p = pid \<or> pt_hash p = h) (i_pats S)))) (\<lambda>(known, now, taken).
     seq (check (RuntimeError ''ForeignKeyViolation'') known) (\<lambda>_.
     seq (check unique_violation (\<not> taken)) (\<lambda>_.
       let row = \<lparr>pt_id = pid, pt_user = uid, pt_desc = desc, pt_hash = h, pt_created = now,
             pt_expires = expires, pt_revoked = None, pt_used = None\<rparr>
       in seq (put (\<lambda>S. S\<lparr>i_pats := i_pats S @ [row]\<rparr>)) (\<lambda>_. give row))))"

definition list_pats_for_user :: "identity_db \<Rightarrow> string \<Rightarrow> pat_row list" where
  "list_pats_for_user S uid = rev (sort_key pt_created (filter (\<lambda>p. pt_user p = uid) (i_pats S)))"

definition revoke_pat_row :: "string \<Rightarrow> string \<Rightarrow> bool idact" where
  "revoke_pat_row pid uid =
     seq (ask (\<lambda>S. list_ex (\<lambda>p. pt_id p = pid \<and> pt_user p = uid \<and> pt_revoked p = None) (i_pats S))) (\<lambda>hit.
     seq (put (\<lambda>S. S\<lparr>i_pats := map (\<lambda>p. if pt_id p = pid \<and> pt_user p = uid \<and> pt_revoked p = None
        then p\<lparr>pt_revoked := Some (i_now S)\<rparr> else p) (i_pats S)\<rparr>)) (\<lambda>_. give hit))"

definition lookup_pat_by_hash :: "identity_db \<Rightarrow> string \<Rightarrow> pat_row option" where
  "lookup_pat_by_hash S h = find (\<lambda>p. pt_hash p = h) (i_pats S)"

definition touch_pat_last_used :: "string \<Rightarrow> unit idact" where
  "touch_pat_last_used pid = put (\<lambda>S. S\<lparr>i_pats := map (\<lambda>p. if pt_id p = pid
      then p\<lparr>pt_used := Some (i_now S)\<rparr> else p) (i_pats S)\<rparr>)"

subsection \<open>Service accounts\<close>

definition get_service_account :: "identity_db \<Rightarrow> string \<Rightarrow> account_row option" where
  "get_service_account S a = find (\<lambda>x. sa_id x = a) (i_accounts S)"

definition insert_service_account :: "string \<Rightarrow> string \<Rightarrow> string option \<Rightarrow> string \<Rightarrow> account_row idact" where
  "insert_service_account a name desc state =
     seq (ask (\<lambda>S. get_service_account S a \<noteq> None)) (\<lambda>taken.
     seq (check unique_violation (\<not> taken)) (\<lambda>_.
       let row = \<lparr>sa_id = a, sa_name = name, sa_desc = desc, sa_state = state\<rparr>
       in seq (put (\<lambda>S. S\<lparr>i_accounts := i_accounts S @ [row]\<rparr>)) (\<lambda>_. give row)))"

definition account_states :: "string list" where
  "account_states = [''created'', ''active'', ''revoked'']"

definition update_service_account ::
    "string \<Rightarrow> string option \<Rightarrow> string option \<Rightarrow> string option \<Rightarrow> account_row option idact" where
  "update_service_account a name desc state =
     seq (ask (\<lambda>S. get_service_account S a)) (\<lambda>found.
     if found = None then give None
     else seq (check (RuntimeError ''CheckViolation'')
         (case state of None \<Rightarrow> True | Some s \<Rightarrow> s \<in> set account_states)) (\<lambda>_.
       seq (put (\<lambda>S. S\<lparr>i_accounts := map (\<lambda>x. if sa_id x = a
          then x\<lparr>sa_name := given name (sa_name x), sa_desc := patched False desc (sa_desc x),
                 sa_state := given state (sa_state x)\<rparr> else x) (i_accounts S)\<rparr>)) (\<lambda>_.
       ask (\<lambda>S. get_service_account S a))))"

definition delete_account_rows :: "string \<Rightarrow> bool idact" where
  "delete_account_rows a = seq (ask (\<lambda>S. get_service_account S a \<noteq> None)) (\<lambda>found.
     seq (put (\<lambda>S. S\<lparr>i_accounts := filter (\<lambda>x. sa_id x \<noteq> a) (i_accounts S),
         i_credentials := filter (\<lambda>c. cd_account c \<noteq> a) (i_credentials S),
         i_permissions := filter (\<lambda>(x, p). x \<noteq> a) (i_permissions S),
         i_scopes := filter (\<lambda>s. sc_account s \<noteq> a) (i_scopes S)\<rparr>)) (\<lambda>_. give found))"

definition insert_sa_credential :: "string \<Rightarrow> string \<Rightarrow> string \<Rightarrow> unit idact" where
  "insert_sa_credential tid a h =
     seq (ask (\<lambda>S. (get_service_account S a \<noteq> None, list_ex (\<lambda>c. cd_id c = tid) (i_credentials S))))
       (\<lambda>(known, taken).
     seq (check (RuntimeError ''ForeignKeyViolation'') known) (\<lambda>_.
     seq (check unique_violation (\<not> taken)) (\<lambda>_.
       put (\<lambda>S. S\<lparr>i_credentials := i_credentials S @
         [\<lparr>cd_id = tid, cd_account = a, cd_hash = h, cd_revoked = None, cd_used = None\<rparr>]\<rparr>))))"

definition revoke_credential_row :: "string \<Rightarrow> bool idact" where
  "revoke_credential_row tid =
     seq (ask (\<lambda>S. list_ex (\<lambda>c. cd_id c = tid \<and> cd_revoked c = None) (i_credentials S))) (\<lambda>hit.
     seq (put (\<lambda>S. S\<lparr>i_credentials := map (\<lambda>c. if cd_id c = tid \<and> cd_revoked c = None
        then c\<lparr>cd_revoked := Some (i_now S)\<rparr> else c) (i_credentials S)\<rparr>)) (\<lambda>_. give hit))"

definition live_credential :: "identity_db \<Rightarrow> string \<Rightarrow> credential_row \<Rightarrow> bool" where
  "live_credential S h c = (cd_hash c = h \<and> cd_revoked c = None \<and>
     (case get_service_account S (cd_account c) of None \<Rightarrow> False | Some a \<Rightarrow> sa_state a = ''active''))"

text \<open>The account the credential belongs to.\<close>

definition lookup_sa_by_secret_hash :: "string \<Rightarrow> string option idact" where
  "lookup_sa_by_secret_hash h =
     seq (ask (\<lambda>S. find (live_credential S h) (i_credentials S))) (\<lambda>found.
     case found of None \<Rightarrow> give None
     | Some c \<Rightarrow> seq (put (\<lambda>S. S\<lparr>i_credentials := map (\<lambda>x. if cd_id x = cd_id c
           then x\<lparr>cd_used := Some (i_now S)\<rparr> else x) (i_credentials S)\<rparr>)) (\<lambda>_. give (Some (cd_account c))))"

definition list_sa_permissions :: "identity_db \<Rightarrow> string \<Rightarrow> string list" where
  "list_sa_permissions S a = sort (map snd (filter (\<lambda>(x, p). x = a) (i_permissions S)))"

text \<open>The old rows go first; a repeated permission stops the inserts.\<close>

definition replace_permission_rows :: "string \<Rightarrow> string list \<Rightarrow> string list idact" where
  "replace_permission_rows a ps =
     seq (put (\<lambda>S. S\<lparr>i_permissions := filter (\<lambda>(x, p). x \<noteq> a) (i_permissions S) @
        map (Pair a) (take_distinct [] ps)\<rparr>)) (\<lambda>_.
     seq (check unique_violation (distinct ps)) (\<lambda>_. give ps))"

definition list_sa_scopes :: "identity_db \<Rightarrow> string \<Rightarrow> account_scope list" where
  "list_sa_scopes S a =
     map (\<lambda>s. s\<lparr>sc_projects := (if sc_all s then [] else sort (sc_projects s))\<rparr>)
       (sort_key sc_tenant (filter (\<lambda>s. sc_account s = a) (i_scopes S)))"

definition insert_sa_scope :: "string \<Rightarrow> string \<Rightarrow> string \<Rightarrow> bool \<Rightarrow> string list \<Rightarrow> unit idact" where
  "insert_sa_scope sid a tenant all projects =
     seq (ask (\<lambda>S. (get_service_account S a \<noteq> None, list_ex (\<lambda>s. sc_id s = sid \<or>
         (all \<and> sc_all s \<and> sc_account s = a \<and> sc_tenant s = tenant)) (i_scopes S)))) (\<lambda>(known, taken).
     seq (check (RuntimeError ''ForeignKeyViolation'') known) (\<lambda>_.
     seq (check unique_violation (\<not> taken)) (\<lambda>_.
     seq (put (\<lambda>S. S\<lparr>i_scopes := i_scopes S @ [\<lparr>sc_id = sid, sc_account = a, sc_tenant = tenant,
        sc_all = all, sc_projects = (if all then [] else take_distinct [] projects)\<rparr>]\<rparr>)) (\<lambda>_.
       check unique_violation (all \<or> distinct projects)))))"

definition delete_sa_scope :: "string \<Rightarrow> bool idact" where
  "delete_sa_scope sid = seq (ask (\<lambda>S. list_ex (\<lambda>s. sc_id s = sid) (i_scopes S))) (\<lambda>found.
     seq (put (\<lambda>S. S\<lparr>i_scopes := filter (\<lambda>s. sc_id s \<noteq> sid) (i_scopes S)\<rparr>)) (\<lambda>_. give found))"

end
