(* ===== verification/Identity.thy ===== *)
theory Identity
  imports IdentityStore JsonRoundTrip
begin

text \<open>
  Model of \<^verbatim>\<open>governance/identity_service.py\<close> with \<^verbatim>\<open>identity_token_service.py\<close>: sign in with lockout and
  second factor, sessions whose refresh token rotates, access tokens bound to a session, personal
  access tokens, and the administration of users, roles and service accounts. The primitives of
  cryptography and the encoding of a JWT are arguments, as are the ids and tokens drawn at random; of
  an error only the status and the code are kept.
\<close>

subsection \<open>Settings and primitives\<close>

record keyring =
  kx_sha256 :: "string \<Rightarrow> string"
  kx_hmac_sha1 :: "string \<Rightarrow> string \<Rightarrow> string"
  kx_b32decode :: "string \<Rightarrow> string option"
  kx_verify :: "string \<Rightarrow> string \<Rightarrow> bool"
  kx_scrypt :: "string \<Rightarrow> string"
  kx_jwt :: "pydict \<Rightarrow> string"
  kx_threshold :: int
  kx_lock_minutes :: int
  kx_password_min :: int
  kx_access_ttl :: int
  kx_refresh_ttl :: int
  kx_mfa_key :: string
  kx_jwt_secret :: string

definition seconds :: "int \<Rightarrow> int" where
  "seconds n = 1000000 * n"

definition identity_http_error :: "int \<Rightarrow> string \<Rightarrow> pyerr" where
  "identity_http_error st code = HTTPException st code"

abbreviation invalid_credential :: pyerr where
  "invalid_credential \<equiv> identity_http_error 401 ''INVALID_CREDENTIAL''"

abbreviation invalid_token :: pyerr where
  "invalid_token \<equiv> identity_http_error 401 ''INVALID_TOKEN''"

abbreviation forbidden :: pyerr where
  "forbidden \<equiv> identity_http_error 403 ''FORBIDDEN''"

abbreviation insufficient_scope :: pyerr where
  "insufficient_scope \<equiv> identity_http_error 403 ''INSUFFICIENT_SCOPE''"

abbreviation account_locked :: pyerr where
  "account_locked \<equiv> identity_http_error 423 ''ACCOUNT_LOCKED''"

abbreviation account_disabled :: pyerr where
  "account_disabled \<equiv> identity_http_error 403 ''ACCOUNT_DISABLED''"

abbreviation not_found :: pyerr where
  "not_found \<equiv> identity_http_error 404 ''NOT_FOUND''"

abbreviation duplicate_assignment :: pyerr where
  "duplicate_assignment \<equiv> identity_http_error 409 ''DUPLICATE_ASSIGNMENT''"

abbreviation validation_error :: pyerr where
  "validation_error \<equiv> identity_http_error 400 ''VALIDATION_ERROR''"

definition hash_opaque :: "keyring \<Rightarrow> string \<Rightarrow> string" where
  "hash_opaque X token = concat (map (\<lambda>c. let n = of_char c :: nat in [hex_digit (n div 16), hex_digit (n mod 16)])
     (kx_sha256 X token))"

definition access_ttl_seconds :: "keyring \<Rightarrow> int" where
  "access_ttl_seconds X = max 60 (kx_access_ttl X)"

definition refresh_ttl_seconds :: "keyring \<Rightarrow> int" where
  "refresh_ttl_seconds X = max 3600 (kx_refresh_ttl X)"

definition access_claims :: "keyring \<Rightarrow> user_row \<Rightarrow> string \<Rightarrow> int \<Rightarrow> pydict" where
  "access_claims X u sid now =
     (let secs = now div 1000000 in
      [(''sub'', VStr (us_id u)), (''username'', VStr (us_name u)), (''principal_type'', VStr ''USER''),
       (''is_global_admin'', VBool (us_admin u)), (''iss'', VStr ''mlair-identity''), (''iat'', VInt secs),
       (''exp'', VInt (secs + access_ttl_seconds X))] @
      (if strip sid = [] then [] else [(''sid'', VStr (strip sid))]))"

definition issue_access_token :: "keyring \<Rightarrow> user_row \<Rightarrow> string \<Rightarrow> int \<Rightarrow> string" where
  "issue_access_token X u sid now = kx_jwt X (access_claims X u sid now)"

definition refresh_expires_at :: "keyring \<Rightarrow> int \<Rightarrow> int" where
  "refresh_expires_at X now = now + seconds (refresh_ttl_seconds X)"

definition password_min_length :: "keyring \<Rightarrow> int" where
  "password_min_length X = max 6 (kx_password_min X)"

definition validate_password_strength :: "keyring \<Rightarrow> string \<Rightarrow> unit idact" where
  "validate_password_strength X pw = check validation_error (password_min_length X \<le> int (length pw))"

text \<open>\<open>_audit\<close>; the kind is always that of a user.\<close>

definition audit :: "string option \<Rightarrow> string \<Rightarrow> string option \<Rightarrow> string \<Rightarrow> unit idact" where
  "audit actor action target result = insert_audit_event ''user'' actor action target result"

subsection \<open>One-time codes\<close>

definition mfa_cipher_key :: "keyring \<Rightarrow> string" where
  "mfa_cipher_key X =
     (let own = strip (kx_mfa_key X); jwt = strip (kx_jwt_secret X)
      in kx_sha256 X (if own \<noteq> [] then own else if jwt \<noteq> [] then jwt else ''mlair-dev-mfa-key-change-me''))"

text \<open>\<open>bytes(b ^ key[i % len(key)] for i, b in enumerate(raw))\<close>, counted from \<open>i\<close>.\<close>

fun xor_stream :: "string \<Rightarrow> nat \<Rightarrow> string \<Rightarrow> string" where
  "xor_stream key i [] = []"
| "xor_stream key i (b # bs) =
     char_of (xor (of_char b) (of_char (key ! (i mod length key))) :: nat) # xor_stream key (Suc i) bs"

definition encrypt_mfa_secret :: "keyring \<Rightarrow> string \<Rightarrow> string" where
  "encrypt_mfa_secret X secret =
     (let data = xor_stream (mfa_cipher_key X) 0 secret in b64_encode data @ b64_pad (b64_encode data))"

definition decrypt_mfa_secret :: "keyring \<Rightarrow> string \<Rightarrow> string py" where
  "decrypt_mfa_secret X cipher =
     (case urlsafe_b64decode cipher of None \<Rightarrow> raise (ValueError ''binascii.Error'')
      | Some raw \<Rightarrow> (case utf8_decode (xor_stream (mfa_cipher_key X) 0 raw) of
            None \<Rightarrow> raise (ValueError ''UnicodeDecodeError'') | Some s \<Rightarrow> ok s))"

definition be64 :: "nat \<Rightarrow> string" where
  "be64 n = map (\<lambda>i. char_of (n div 256 ^ i)) [7, 6, 5, 4, 3, 2, 1, 0]"

definition zfill :: "nat \<Rightarrow> string \<Rightarrow> string" where
  "zfill n s = replicate (n - length s) (CHR ''0'') @ s"

text \<open>A counter out of the range of \<open>Q\<close> and a secret that is no Base32 raise.\<close>

definition totp_code :: "keyring \<Rightarrow> string \<Rightarrow> int \<Rightarrow> string py" where
  "totp_code X secret counter =
     (let padded = secret @ replicate ((8 - length secret mod 8) mod 8) (CHR ''='') in
      case kx_b32decode X padded of
        None \<Rightarrow> raise (ValueError ''binascii.Error'')
      | Some key \<Rightarrow>
          if counter < 0 \<or> 2 ^ 64 \<le> counter then raise (ValueError ''struct.error'')
          else (let digest = kx_hmac_sha1 X key (be64 (nat counter));
                    off = of_char (last digest) mod 16;
                    byte = (\<lambda>k. of_char (digest ! (off + k)) :: nat)
            in ok (zfill 6 (nat_str ((byte 0 mod 128 * 2 ^ 24 + byte 1 * 2 ^ 16 + byte 2 * 2 ^ 8 + byte 3)
                 mod 1000000)))))"

fun any_code :: "keyring \<Rightarrow> string \<Rightarrow> string \<Rightarrow> int list \<Rightarrow> bool py" where
  "any_code X secret code [] = ok False"
| "any_code X secret code (c # cs) = pbind (totp_code X secret c) (\<lambda>t.
     if t = code then ok True else any_code X secret code cs)"

definition verify_totp_code :: "keyring \<Rightarrow> int \<Rightarrow> string \<Rightarrow> string \<Rightarrow> bool py" where
  "verify_totp_code X now secret code =
     (let digits = filter is_digit code; c = now div 1000000 div 30
      in if length digits \<noteq> 6 then ok False else any_code X secret digits [c - 1, c, c + 1])"

definition is_alnum :: "char \<Rightarrow> bool" where
  "is_alnum c = (let n = of_char c :: nat in
     is_digit c \<or> (65 \<le> n \<and> n \<le> 90) \<or> (97 \<le> n \<and> n \<le> 122))"

definition normalize_recovery_code :: "string \<Rightarrow> string" where
  "normalize_recovery_code code = filter is_alnum (upper code)"

subsection \<open>Attempts\<close>

definition mfa_rate_limit_key :: "string \<Rightarrow> string option \<Rightarrow> int \<Rightarrow> string" where
  "mfa_rate_limit_key uid ip now =
     (let bucket = strip (opt_or ip ''unknown'')
      in uid @ '':'' @ (if bucket = [] then ''unknown'' else bucket) @ '':'' @
         int_str (now div 1000000 div 300))"

text \<open>The counter in Redis, and the one of the process when Redis fails; the keys differ.\<close>

definition count_attempt :: "string \<Rightarrow> string \<Rightarrow> bool idact" where
  "count_attempt redis_key own_key =
     seq (ask (\<lambda>S. (i_redis S, i_now S, map_of (i_counters S) redis_key, map_of (i_fallback S) own_key)))
       (\<lambda>(redis, now, counter, own).
       if redis then
         (let (n, expires) = (case counter of None \<Rightarrow> (0, 0) | Some (k, e) \<Rightarrow> if now < e then (k, e) else (0, 0));
              attempts = n + 1
          in seq (put (\<lambda>S. S\<lparr>i_counters := dset redis_key
                (attempts, if attempts = 1 then now + seconds 300 else expires) (i_counters S)\<rparr>)) (\<lambda>_.
              give (attempts \<le> 5)))
       else
         (let (n0, e0) = (case own of None \<Rightarrow> (0, now + seconds 300) | Some q \<Rightarrow> q);
              (n, e) = (if e0 < now then (0, now + seconds 300) else (n0, e0))
          in seq (put (\<lambda>S. S\<lparr>i_fallback := dset own_key (if 5 \<le> n then n else n + 1, e) (i_fallback S)\<rparr>)) (\<lambda>_.
              give (n < 5))))"

definition reset_attempts :: "string \<Rightarrow> string \<Rightarrow> unit idact" where
  "reset_attempts redis_key own_key =
     put (\<lambda>S. if i_redis S then S\<lparr>i_counters := filter (\<lambda>(k, v). k \<noteq> redis_key) (i_counters S)\<rparr>
        else S\<lparr>i_fallback := filter (\<lambda>(k, v). k \<noteq> own_key) (i_fallback S)\<rparr>)"

definition mfa_allow_attempt :: "string \<Rightarrow> string option \<Rightarrow> bool idact" where
  "mfa_allow_attempt uid ip = seq (ask i_now) (\<lambda>now. let key = mfa_rate_limit_key uid ip now in
     count_attempt (''mlair:mfa:verify:'' @ key) key)"

definition mfa_reset_attempts :: "string \<Rightarrow> string option \<Rightarrow> unit idact" where
  "mfa_reset_attempts uid ip = seq (ask i_now) (\<lambda>now. let key = mfa_rate_limit_key uid ip now in
     reset_attempts (''mlair:mfa:verify:'' @ key) key)"

definition mfa_allow_challenge_attempt :: "string \<Rightarrow> bool idact" where
  "mfa_allow_challenge_attempt cid =
     count_attempt (''mlair:mfa:verify:challenge:'' @ cid) (''challenge:'' @ cid)"

definition mfa_reset_challenge_attempts :: "string \<Rightarrow> unit idact" where
  "mfa_reset_challenge_attempts cid =
     reset_attempts (''mlair:mfa:verify:challenge:'' @ cid) (''challenge:'' @ cid)"

subsection \<open>Signing in\<close>

definition allow_state :: "string \<Rightarrow> unit idact" where
  "allow_state state =
     seq (check account_disabled (state \<noteq> ''disabled'')) (\<lambda>_.
     seq (check account_disabled (state \<noteq> ''deleted'')) (\<lambda>_.
     seq (check account_disabled (state \<noteq> ''pending_activation'')) (\<lambda>_.
       check account_disabled (state = ''active''))))"

text \<open>\<open>state\<close> keeps the value read first, also after the row has been unlocked.\<close>

definition ensure_login_allowed :: "user_row \<Rightarrow> unit idact" where
  "ensure_login_allowed u =
     (let state = us_state u in
      seq (if state = ''locked''
           then seq (ask i_now) (\<lambda>now.
             seq (check account_locked (case us_locked u of None \<Rightarrow> True | Some t \<Rightarrow> t \<le> now)) (\<lambda>_.
             seq (update_user (us_id u) (no_patch\<lparr>up_state := Some ''active'', up_clear_lock := True,
               up_failed := Some 0\<rparr>)) (\<lambda>_. give ())))
           else give ())
        (\<lambda>_. allow_state state))"

datatype login_outcome = NeedsMfa string | SignedIn string string

definition issue_user_session_tokens :: "keyring \<Rightarrow> user_row \<Rightarrow> string \<Rightarrow> string \<Rightarrow> login_outcome idact" where
  "issue_user_session_tokens X u refresh sid =
     seq (ask i_now) (\<lambda>now.
     seq (insert_session sid (us_id u) (hash_opaque X refresh) (refresh_expires_at X now) None) (\<lambda>_.
     seq (audit (Some (us_id u)) ''auth.login'' (Some sid) ''success'') (\<lambda>_.
       give (SignedIn (issue_access_token X u sid now) refresh))))"

definition create_mfa_challenge :: "keyring \<Rightarrow> string \<Rightarrow> string \<Rightarrow> string \<Rightarrow> string idact" where
  "create_mfa_challenge X uid token cid =
     seq (ask i_now) (\<lambda>now.
     seq (create_challenge cid uid (hash_opaque X token) (now + seconds 300)) (\<lambda>_. give token))"

text \<open>A wrong password counts; the lock starts at a full second.\<close>

definition failed_login :: "keyring \<Rightarrow> user_row \<Rightarrow> unit idact" where
  "failed_login X u =
     seq (ask i_now) (\<lambda>now.
       let count = us_failed u + 1; lock = (kx_threshold X \<le> count)
       in seq (update_user (us_id u) (no_patch\<lparr>up_failed := Some count,
            up_locked := (if lock then Some (now div 1000000 * 1000000 + seconds (60 * kx_lock_minutes X)) else None),
            up_state := Some (if lock then ''locked'' else us_state u)\<rparr>)) (\<lambda>_. give ()))"

text \<open>\<open>token\<close> and \<open>new\<close> are the opaque token and the id drawn on the way that is taken.\<close>

definition login :: "keyring \<Rightarrow> string \<Rightarrow> string \<Rightarrow> string \<Rightarrow> string \<Rightarrow> login_outcome idact" where
  "login X username password token new =
     seq (ask (\<lambda>S. get_user_by_username S (strip username))) (\<lambda>found.
     case found of
       None \<Rightarrow> seq (audit None ''auth.login'' (Some username) ''failure'') (\<lambda>_. fail invalid_credential)
     | Some u \<Rightarrow>
         if \<not> kx_verify X password (us_password u)
         then seq (failed_login X u) (\<lambda>_.
              seq (audit (Some (us_id u)) ''auth.login'' (Some username) ''failure'') (\<lambda>_. fail invalid_credential))
         else seq (ensure_login_allowed u) (\<lambda>_.
              seq (ask i_now) (\<lambda>now.
              seq (update_user (us_id u) (no_patch\<lparr>up_failed := Some 0, up_clear_lock := True,
                up_login := Some now\<rparr>)) (\<lambda>_.
              seq (ask (\<lambda>S. get_active_totp_for_user S (us_id u))) (\<lambda>totp.
              case totp of
                Some t \<Rightarrow> seq (create_mfa_challenge X (us_id u) token new) (\<lambda>c.
                  seq (audit (Some (us_id u)) ''auth.login.mfa_required'' (Some (us_id u)) ''success'') (\<lambda>_.
                    give (NeedsMfa c)))
              | None \<Rightarrow> issue_user_session_tokens X u token new)))))"

definition mfa_failed :: "string \<Rightarrow> 'a idact" where
  "mfa_failed uid = seq (audit (Some uid) ''auth.mfa.verify'' (Some uid) ''failure'') (\<lambda>_. fail invalid_credential)"

definition mfa_passed :: "string \<Rightarrow> string option \<Rightarrow> string \<Rightarrow> unit idact" where
  "mfa_passed uid ip cid = seq (mfa_reset_attempts uid ip) (\<lambda>_. mfa_reset_challenge_attempts cid)"

text \<open>The first code given that is right; \<open>None\<close> and the empty text are not tried.\<close>

definition check_otp :: "keyring \<Rightarrow> totp_row \<Rightarrow> string option \<Rightarrow> bool idact" where
  "check_otp X t otp =
     (if opt_or otp [] = [] then give False
      else seq (ask i_now) (\<lambda>now.
        case pbind (decrypt_mfa_secret X (tp_secret t)) (\<lambda>s. verify_totp_code X now s (opt_or otp [])) of
          Inl e \<Rightarrow> fail e | Inr b \<Rightarrow> give b))"

definition check_recovery :: "keyring \<Rightarrow> string \<Rightarrow> string option \<Rightarrow> bool idact" where
  "check_recovery X uid recovery =
     (if opt_or recovery [] = [] then give False
      else consume_recovery_code uid (hash_opaque X (normalize_recovery_code (opt_or recovery []))))"

definition verify_second_factor ::
    "keyring \<Rightarrow> user_row \<Rightarrow> totp_row \<Rightarrow> string \<Rightarrow> string option \<Rightarrow> string option \<Rightarrow> string option \<Rightarrow> unit idact" where
  "verify_second_factor X u t cid otp recovery ip =
     seq (check_otp X t otp) (\<lambda>ok_otp.
     if ok_otp then
       seq (mfa_passed (us_id u) ip cid) (\<lambda>_.
       seq (touch_totp_last_used (tp_id t)) (\<lambda>_.
         audit (Some (us_id u)) ''auth.mfa.verify'' (Some (us_id u)) ''success''))
     else seq (check_recovery X (us_id u) recovery) (\<lambda>ok_code.
       if ok_code then
         seq (mfa_passed (us_id u) ip cid) (\<lambda>_.
           audit (Some (us_id u)) ''auth.mfa.verify'' (Some (us_id u)) ''success'')
       else mfa_failed (us_id u)))"

definition complete_mfa_login ::
    "keyring \<Rightarrow> string \<Rightarrow> string option \<Rightarrow> string option \<Rightarrow> string option \<Rightarrow> string \<Rightarrow> string \<Rightarrow> login_outcome idact" where
  "complete_mfa_login X challenge otp recovery ip refresh sid =
     seq (check invalid_token (strip challenge \<noteq> [])) (\<lambda>_.
     seq (consume_open_mfa_challenge (hash_opaque X (strip challenge))) (\<lambda>found.
     case found of None \<Rightarrow> fail invalid_token
     | Some ch \<Rightarrow> seq (ask (\<lambda>S. get_user_by_id S (ch_user ch))) (\<lambda>user.
     case user of None \<Rightarrow> fail invalid_token
     | Some u \<Rightarrow> seq (ensure_login_allowed u) (\<lambda>_.
       seq (ask (\<lambda>S. get_active_totp_for_user S (us_id u))) (\<lambda>totp.
       case totp of None \<Rightarrow> fail invalid_token
       | Some t \<Rightarrow> seq (mfa_allow_challenge_attempt (ch_id ch)) (\<lambda>fine.
         if \<not> fine then mfa_failed (us_id u)
         else seq (mfa_allow_attempt (us_id u) ip) (\<lambda>fine'.
           if \<not> fine' then mfa_failed (us_id u)
           else seq (verify_second_factor X u t (ch_id ch) otp recovery ip) (\<lambda>_.
             issue_user_session_tokens X u refresh sid))))))))"

subsection \<open>Sessions\<close>

definition refresh_session :: "keyring \<Rightarrow> string \<Rightarrow> string \<Rightarrow> string \<Rightarrow> login_outcome idact" where
  "refresh_session X token refresh sid =
     seq (ask (\<lambda>S. (get_session_by_refresh_hash S (hash_opaque X token), i_now S))) (\<lambda>(found, now).
     case found of None \<Rightarrow> fail invalid_token
     | Some se \<Rightarrow>
         seq (check invalid_token (se_revoked se = None)) (\<lambda>_.
         seq (check invalid_token (now \<le> se_expires se)) (\<lambda>_.
         seq (ask (\<lambda>S. get_user_by_id S (se_user se))) (\<lambda>user.
         case user of None \<Rightarrow> fail invalid_token
         | Some u \<Rightarrow> seq (ensure_login_allowed u) (\<lambda>_.
             seq (revoke_session (se_id se)) (\<lambda>_.
             seq (insert_session sid (us_id u) (hash_opaque X refresh) (refresh_expires_at X now) (Some (se_id se))) (\<lambda>_.
             seq (audit (Some (us_id u)) ''auth.refresh'' (Some sid) ''success'') (\<lambda>_.
               give (SignedIn (issue_access_token X u sid now) refresh)))))))))"

definition logout_session :: "keyring \<Rightarrow> string option \<Rightarrow> string option \<Rightarrow> unit idact" where
  "logout_session X token uid =
     seq (ask (\<lambda>S. if opt_or token [] = [] then None
         else get_session_by_refresh_hash S (hash_opaque X (opt_or token [])))) (\<lambda>found.
     case found of
       Some se \<Rightarrow> seq (revoke_session (se_id se)) (\<lambda>_.
         audit (Some (se_user se)) ''auth.logout'' (Some (se_id se)) ''success'')
     | None \<Rightarrow> (if opt_or uid [] = [] then give () else revoke_all_sessions (opt_or uid [])))"

definition assert_access_session_valid :: "pydict \<Rightarrow> unit idact" where
  "assert_access_session_valid payload =
     (let sid = strip (str_or (dget payload ''sid'') []) in
      seq (check invalid_token (sid \<noteq> [])) (\<lambda>_.
      seq (ask (\<lambda>S. (get_session_by_id S sid, i_now S))) (\<lambda>(found, now).
      case found of None \<Rightarrow> fail invalid_token
      | Some se \<Rightarrow>
          seq (check invalid_token (se_revoked se = None)) (\<lambda>_.
          seq (check invalid_token (now \<le> se_expires se)) (\<lambda>_.
            check invalid_token (se_user se = str_or (dget payload ''sub'') []))))))"

definition list_my_sessions :: "identity_db \<Rightarrow> keyring \<Rightarrow> string \<Rightarrow> string option \<Rightarrow> (session_row \<times> bool) list" where
  "list_my_sessions S X uid token =
     (let current = (if opt_or token [] = [] then None
            else (case get_session_by_refresh_hash S (hash_opaque X (opt_or token [])) of
                None \<Rightarrow> None | Some se \<Rightarrow> if se_user se = uid then Some (se_id se) else None))
      in map (\<lambda>s. (s, Some (se_id s) = current))
           (filter (\<lambda>s. se_revoked s = None \<and> i_now S \<le> se_expires s) (list_sessions S uid)))"

definition revoke_my_session :: "string \<Rightarrow> string \<Rightarrow> unit idact" where
  "revoke_my_session uid sid = seq (revoke_session_for_user uid sid) (\<lambda>hit.
     seq (check not_found hit) (\<lambda>_. audit (Some uid) ''auth.session_revoke'' (Some sid) ''success''))"

definition revoke_admin_session :: "string \<Rightarrow> string option \<Rightarrow> unit idact" where
  "revoke_admin_session sid actor =
     seq (ask (\<lambda>S. get_session_by_id S sid)) (\<lambda>found.
     seq (check not_found (found \<noteq> None)) (\<lambda>_.
     seq (revoke_session sid) (\<lambda>_. audit actor ''identity.session.revoke'' (Some sid) ''success'')))"

text \<open>One statement per session; the platform wide call stops at five thousand.\<close>

fun revoke_each :: "string list \<Rightarrow> unit idact" where
  "revoke_each [] = give ()"
| "revoke_each (sid # sids) = seq (revoke_session sid) (\<lambda>_. revoke_each sids)"

definition revoke_all_admin_sessions :: "string option \<Rightarrow> string option \<Rightarrow> nat idact" where
  "revoke_all_admin_sessions uid actor =
     (if opt_or uid [] \<noteq> [] then
        seq (ask (\<lambda>S. map se_id (filter (\<lambda>s. se_revoked s = None) (list_sessions S (opt_or uid []))))) (\<lambda>ids.
        seq (revoke_each ids) (\<lambda>_.
        seq (audit actor ''identity.session.revoke_all'' uid ''success'') (\<lambda>_. give (length ids))))
      else
        seq (ask (\<lambda>S. map se_id (list_all_active_sessions S 5000))) (\<lambda>ids.
        seq (revoke_each ids) (\<lambda>_.
        seq (audit actor ''identity.session.revoke_all'' None ''success'') (\<lambda>_. give (length ids)))))"

subsection \<open>Second factor of a user\<close>

definition verify_totp_enroll ::
    "keyring \<Rightarrow> string \<Rightarrow> string \<Rightarrow> string \<Rightarrow> string \<Rightarrow> (string \<times> string) list \<Rightarrow> string list idact" where
  "verify_totp_enroll X uid secret code mid drawn =
     seq (ask i_now) (\<lambda>now.
     case verify_totp_code X now secret code of
       Inl e \<Rightarrow> fail e
     | Inr right \<Rightarrow>
         seq (check invalid_credential right) (\<lambda>_.
         seq (upsert_active_totp mid uid (encrypt_mfa_secret X secret)) (\<lambda>_.
         seq (replace_recovery_codes uid
             (map (\<lambda>(cid, v). (cid, hash_opaque X (normalize_recovery_code v))) drawn)) (\<lambda>_.
         seq (audit (Some uid) ''auth.mfa.enable'' (Some uid) ''success'') (\<lambda>_. give (map snd drawn))))))"

definition disable_totp :: "string \<Rightarrow> unit idact" where
  "disable_totp uid = seq (disable_totp_for_user uid) (\<lambda>n.
     seq (replace_recovery_codes uid []) (\<lambda>_.
       if n = 0 then give () else audit (Some uid) ''auth.mfa.disable'' (Some uid) ''success''))"

definition regenerate_recovery_codes :: "keyring \<Rightarrow> string \<Rightarrow> (string \<times> string) list \<Rightarrow> string list idact" where
  "regenerate_recovery_codes X uid drawn =
     seq (ask (\<lambda>S. get_active_totp_for_user S uid)) (\<lambda>totp.
     seq (check validation_error (totp \<noteq> None)) (\<lambda>_.
     seq (replace_recovery_codes uid
         (map (\<lambda>(cid, v). (cid, hash_opaque X (normalize_recovery_code v))) drawn)) (\<lambda>_.
     seq (audit (Some uid) ''auth.mfa.recovery_codes.regenerate'' (Some uid) ''success'') (\<lambda>_.
       give (map snd drawn)))))"

subsection \<open>Profile and personal tokens\<close>

definition change_password :: "keyring \<Rightarrow> string \<Rightarrow> string \<Rightarrow> string \<Rightarrow> unit idact" where
  "change_password X uid current new =
     seq (ask (\<lambda>S. get_user_by_id S uid)) (\<lambda>user.
     case user of None \<Rightarrow> fail not_found
     | Some u \<Rightarrow>
         seq (check invalid_credential (kx_verify X current (us_password u))) (\<lambda>_.
         seq (validate_password_strength X new) (\<lambda>_.
         seq (update_user uid (no_patch\<lparr>up_password := Some (kx_scrypt X new)\<rparr>)) (\<lambda>_.
           audit (Some uid) ''auth.password_change'' (Some uid) ''success''))))"

text \<open>The name is cut at 120 characters; an empty text clears the column.\<close>

definition profile_patch :: "string option \<Rightarrow> string option \<Rightarrow> user_patch" where
  "profile_patch display email =
     no_patch\<lparr>up_clear_display := (case display of None \<Rightarrow> False | Some d \<Rightarrow> strip d = []),
       up_display := (case display of None \<Rightarrow> None | Some d \<Rightarrow> if strip d = [] then None else Some (take 120 (strip d))),
       up_clear_email := (case email of None \<Rightarrow> False | Some m \<Rightarrow> strip m = []),
       up_email := (case email of None \<Rightarrow> None | Some m \<Rightarrow> if strip m = [] then None else Some (strip m))\<rparr>"

definition update_me :: "string \<Rightarrow> string option \<Rightarrow> string option \<Rightarrow> user_row idact" where
  "update_me uid display email =
     seq (ask (\<lambda>S. get_user_by_id S uid)) (\<lambda>user.
     seq (check not_found (user \<noteq> None)) (\<lambda>_.
     seq (check validation_error (case email of None \<Rightarrow> True
         | Some m \<Rightarrow> strip m = [] \<or> (CHR ''@'' \<in> set (strip m) \<and> length (strip m) \<le> 254))) (\<lambda>_.
     seq (update_user uid (profile_patch display email)) (\<lambda>updated.
       case updated of None \<Rightarrow> fail not_found | Some u \<Rightarrow> give u))))"

definition pat_prefix :: string where "pat_prefix = ''mlapat_''"

definition create_pat :: "keyring \<Rightarrow> string \<Rightarrow> string \<Rightarrow> int option \<Rightarrow> string \<Rightarrow> string \<Rightarrow> (pat_row \<times> string) idact" where
  "create_pat X uid desc days token pid =
     seq (check validation_error (strip desc \<noteq> [])) (\<lambda>_.
     seq (check validation_error (case days of None \<Rightarrow> True | Some d \<Rightarrow> 1 \<le> d \<and> d \<le> 365)) (\<lambda>_.
     seq (ask i_now) (\<lambda>now.
       let secret = pat_prefix @ token
       in seq (insert_pat pid uid (take 200 (strip desc)) (hash_opaque X secret)
            (map_option (\<lambda>d. now + seconds (86400 * d)) days)) (\<lambda>row.
          seq (audit (Some uid) ''auth.pat_create'' (Some pid) ''success'') (\<lambda>_. give (row, secret))))))"

definition revoke_pat :: "string \<Rightarrow> string \<Rightarrow> unit idact" where
  "revoke_pat uid pid = seq (revoke_pat_row pid uid) (\<lambda>hit.
     seq (check not_found hit) (\<lambda>_. audit (Some uid) ''auth.pat_revoke'' (Some pid) ''success''))"

definition authenticate_pat :: "keyring \<Rightarrow> string \<Rightarrow> user_row option idact" where
  "authenticate_pat X secret =
     (if \<not> startswith secret pat_prefix then give None
      else seq (ask (\<lambda>S. (lookup_pat_by_hash S (hash_opaque X secret), i_now S))) (\<lambda>(found, now).
      case found of None \<Rightarrow> give None
      | Some p \<Rightarrow>
          if pt_revoked p \<noteq> None \<or> (case pt_expires p of None \<Rightarrow> False | Some e \<Rightarrow> e < now) then give None
          else seq (touch_pat_last_used (pt_id p)) (\<lambda>_.
            seq (ask (\<lambda>S. get_user_by_id S (pt_user p))) (\<lambda>user.
            case user of None \<Rightarrow> give None
            | Some u \<Rightarrow> give (if us_state u = ''active'' then Some u else None)))))"

subsection \<open>Administration of users\<close>

definition require_global_admin :: "string \<Rightarrow> user_row idact" where
  "require_global_admin uid = seq (ask (\<lambda>S. get_user_by_id S uid)) (\<lambda>user.
     case user of None \<Rightarrow> fail forbidden | Some u \<Rightarrow> seq (check forbidden (us_admin u)) (\<lambda>_. give u))"

definition create_user :: "keyring \<Rightarrow> string \<Rightarrow> string \<Rightarrow> string \<Rightarrow> bool \<Rightarrow> string option \<Rightarrow> string \<Rightarrow> user_row idact" where
  "create_user X username password state admin actor uid =
     seq (validate_password_strength X password) (\<lambda>_.
     seq (ask (\<lambda>S. get_user_by_username S username)) (\<lambda>taken.
     seq (check validation_error (taken = None)) (\<lambda>_.
     seq (insert_user uid (strip username) (kx_scrypt X password) state admin) (\<lambda>u.
     seq (audit actor ''identity.user.create'' (Some (us_id u)) ''success'') (\<lambda>_. give u)))))"

definition admin_patch_user ::
    "keyring \<Rightarrow> string option \<Rightarrow> string \<Rightarrow> string option \<Rightarrow> string option \<Rightarrow> bool option \<Rightarrow> user_row idact" where
  "admin_patch_user X actor uid state password admin =
     seq (check validation_error (state \<noteq> Some ''deleted'')) (\<lambda>_.
     seq (if opt_or password [] = [] then give () else validate_password_strength X (opt_or password [])) (\<lambda>_.
     seq (update_user uid (no_patch\<lparr>up_state := state, up_admin := admin,
         up_password := (if opt_or password [] = [] then None else Some (kx_scrypt X (opt_or password [])))\<rparr>)) (\<lambda>updated.
     case updated of None \<Rightarrow> fail not_found
     | Some u \<Rightarrow>
         seq (if state \<in> {Some ''disabled'', Some ''locked''} then revoke_all_sessions uid else give ()) (\<lambda>_.
         seq (audit actor (if state \<in> {Some ''active'', Some ''disabled'', Some ''locked''}
             then ''identity.user.state_change'' else ''identity.user.update'') (Some uid) ''success'') (\<lambda>_.
         seq (if opt_or password [] = [] then give ()
              else audit actor ''identity.user.password_reset'' (Some uid) ''success'') (\<lambda>_. give u))))))"

definition admin_delete_user :: "string option \<Rightarrow> string \<Rightarrow> unit idact" where
  "admin_delete_user actor uid =
     seq (check forbidden (opt_or actor [] = [] \<or> actor \<noteq> Some uid)) (\<lambda>_.
     seq (ask (\<lambda>S. (get_user_by_id S uid, count_global_admins S))) (\<lambda>(user, admins).
     case user of None \<Rightarrow> fail not_found
     | Some u \<Rightarrow>
         seq (check validation_error (\<not> (us_admin u \<and> admins \<le> 1))) (\<lambda>_.
         seq (audit actor ''identity.user.delete'' (Some uid) ''success'') (\<lambda>_.
         seq (revoke_all_sessions uid) (\<lambda>_.
         seq (delete_user uid) (\<lambda>gone. check not_found gone))))))"

subsection \<open>Administration of roles\<close>

record assignment_request =
  aq_tenant :: string
  aq_role :: string
  aq_all :: bool
  aq_projects :: "string list"

definition assignment_key :: "string \<Rightarrow> string \<Rightarrow> bool \<Rightarrow> string list \<Rightarrow> string \<times> string \<times> bool \<times> string list" where
  "assignment_key tenant role all projects = (tenant, role, all, if all then [] else sort projects)"

definition normalize_assignment :: "assignment_request \<Rightarrow> (string \<times> string \<times> bool \<times> string list) py" where
  "normalize_assignment q =
     (let tenant = strip (aq_tenant q); role = lower (strip (aq_role q));
          projects = filter (\<lambda>p. p \<noteq> []) (map strip (aq_projects q)) in
      if role \<notin> {''maintainer'', ''viewer''} then raise validation_error
      else if tenant = [] then raise validation_error
      else if \<not> aq_all q \<and> projects = [] then raise validation_error
      else ok (tenant, role, aq_all q, projects))"

fun normalize_assignments ::
    "(string \<times> string \<times> bool \<times> string list) list \<Rightarrow> assignment_request list
     \<Rightarrow> (string \<times> string \<times> bool \<times> string list) list py" where
  "normalize_assignments seen [] = ok []"
| "normalize_assignments seen (q # qs) =
     pbind (normalize_assignment q) (\<lambda>(tenant, role, all, projects).
       let key = assignment_key tenant role all projects in
       if key \<in> set seen then raise duplicate_assignment
       else pbind (normalize_assignments (key # seen) qs) (\<lambda>rest. ok ((tenant, role, all, projects) # rest)))"

text \<open>The ids are drawn one by one.\<close>

fun insert_assignments ::
    "string \<Rightarrow> (string \<times> string \<times> bool \<times> string list) list \<Rightarrow> string list \<Rightarrow> assignment list idact" where
  "insert_assignments uid [] ids = give []"
| "insert_assignments uid ((tenant, role, all, projects) # rest) ids =
     seq (insert_assignment (case ids of [] \<Rightarrow> [] | i # _ \<Rightarrow> i) uid tenant role all projects) (\<lambda>row.
     seq (insert_assignments uid rest (tl ids)) (\<lambda>rows. give (row # rows)))"

definition replace_user_assignments ::
    "string \<Rightarrow> assignment_request list \<Rightarrow> string option \<Rightarrow> string list \<Rightarrow> assignment list idact" where
  "replace_user_assignments uid qs actor ids =
     (case normalize_assignments [] qs of
        Inl e \<Rightarrow> fail e
      | Inr rows \<Rightarrow> seq (delete_assignments_for_user uid) (\<lambda>_.
          seq (insert_assignments uid rows ids) (\<lambda>out.
          seq (audit actor ''identity.role.replace'' (Some uid) ''success'') (\<lambda>_. give out))))"

definition add_user_assignment ::
    "string \<Rightarrow> assignment_request \<Rightarrow> string option \<Rightarrow> string \<Rightarrow> assignment idact" where
  "add_user_assignment uid q actor aid =
     (case normalize_assignment q of
        Inl e \<Rightarrow> fail e
      | Inr (tenant, role, all, projects) \<Rightarrow>
          seq (ask (\<lambda>S. list_ex (\<lambda>a. assignment_key (ra_tenant a) (ra_role a) (ra_all a) (ra_projects a)
              = assignment_key tenant role all projects) (list_assignments_for_user S uid))) (\<lambda>taken.
          seq (check duplicate_assignment (\<not> taken)) (\<lambda>_.
          seq (insert_assignment aid uid tenant role all projects) (\<lambda>row.
          seq (audit actor ''identity.role.assign'' (Some (ra_id row)) ''success'') (\<lambda>_. give row)))))"

subsection \<open>Administration of service accounts\<close>

definition permission_catalog :: "string list" where
  "permission_catalog = [''tasks:lease'', ''tasks:heartbeat'', ''tasks:complete'', ''tasks:fail'', ''logs:write'',
     ''metrics:write'', ''artifacts:write'', ''usage:write'']"

definition create_service_account :: "string \<Rightarrow> string option \<Rightarrow> string option \<Rightarrow> string \<Rightarrow> account_row idact" where
  "create_service_account name desc actor a =
     seq (insert_service_account a (strip name) desc ''active'') (\<lambda>row.
     seq (audit actor ''identity.sa.create'' (Some (sa_id row)) ''success'') (\<lambda>_. give row))"

definition patch_service_account ::
    "string \<Rightarrow> string option \<Rightarrow> string option \<Rightarrow> string option \<Rightarrow> string option \<Rightarrow> account_row idact" where
  "patch_service_account a name desc state actor =
     seq (update_service_account a name desc state) (\<lambda>updated.
     case updated of None \<Rightarrow> fail not_found
     | Some row \<Rightarrow> seq (audit actor ''identity.sa.update'' (Some a) ''success'') (\<lambda>_. give row))"

definition delete_service_account :: "string \<Rightarrow> string option \<Rightarrow> unit idact" where
  "delete_service_account a actor =
     seq (ask (\<lambda>S. get_service_account S a)) (\<lambda>found.
     seq (check not_found (found \<noteq> None)) (\<lambda>_.
     seq (audit actor ''identity.sa.delete'' (Some a) ''success'') (\<lambda>_.
     seq (delete_account_rows a) (\<lambda>gone. check not_found gone))))"

definition issue_sa_secret :: "keyring \<Rightarrow> string \<Rightarrow> string option \<Rightarrow> bool \<Rightarrow> string \<Rightarrow> string \<Rightarrow> string idact" where
  "issue_sa_secret X a actor audited secret tid =
     seq (ask (\<lambda>S. get_service_account S a)) (\<lambda>found.
     seq (check not_found (case found of None \<Rightarrow> False | Some x \<Rightarrow> sa_state x = ''active'')) (\<lambda>_.
     seq (insert_sa_credential tid a (hash_opaque X secret)) (\<lambda>_.
     seq (if audited then audit actor ''identity.sa.token.issue'' (Some tid) ''success'' else give ()) (\<lambda>_.
       give secret))))"

definition rotate_sa_secret ::
    "keyring \<Rightarrow> string \<Rightarrow> string option \<Rightarrow> string option \<Rightarrow> string \<Rightarrow> string \<Rightarrow> string idact" where
  "rotate_sa_secret X a revoke actor secret tid =
     seq (issue_sa_secret X a actor False secret tid) (\<lambda>out.
     seq (if opt_or revoke [] = [] then give ()
          else seq (revoke_credential_row (opt_or revoke [])) (\<lambda>_.
            audit actor ''identity.sa.token.revoke'' revoke ''success'')) (\<lambda>_.
     seq (audit actor ''identity.sa.token.regenerate'' (Some tid) ''success'') (\<lambda>_. give out)))"

definition revoke_sa_credential :: "string \<Rightarrow> string option \<Rightarrow> unit idact" where
  "revoke_sa_credential tid actor = seq (revoke_credential_row tid) (\<lambda>hit.
     seq (check not_found hit) (\<lambda>_. audit actor ''identity.sa.token.revoke'' (Some tid) ''success''))"

definition replace_sa_permissions :: "string \<Rightarrow> string list \<Rightarrow> string list idact" where
  "replace_sa_permissions a ps =
     seq (check validation_error (list_all (\<lambda>p. p \<in> set permission_catalog) ps)) (\<lambda>_.
       replace_permission_rows a ps)"

definition authenticate_sa_secret :: "keyring \<Rightarrow> string \<Rightarrow> string option idact" where
  "authenticate_sa_secret X secret = lookup_sa_by_secret_hash (hash_opaque X secret)"

end
