(* ===== verification/IdentityLaws.thy ===== *)
theory IdentityLaws
  imports Identity
begin

text \<open>
  What the accounts of \<open>Identity\<close> guarantee over any sequence of operations: a revoked session stays
  revoked, so a refresh token works once and an access token ends with its session; guessing a
  password locks the account; with a second factor nobody signs in without it.
\<close>

subsection \<open>The operations as commands\<close>

datatype identity_cmd =
    Login string string string string
  | AnswerMfa string "string option" "string option" "string option" string string
  | Refresh string string string
  | Logout "string option" "string option"
  | RevokeMine string string
  | RevokeAdmin string "string option"
  | RevokeAll "string option" "string option"
  | Enroll string string string string "(string \<times> string) list"
  | DisableTotp string
  | NewCodes string "(string \<times> string) list"
  | ChangePassword string string string
  | UpdateMe string "string option" "string option"
  | CreatePat string string "int option" string string
  | RevokePat string string
  | UsePat string
  | CreateUser string string string bool "string option" string
  | PatchUser "string option" string "string option" "string option" "bool option"
  | DeleteUser "string option" string
  | ReplaceRoles string "assignment_request list" "string option" "string list"
  | AddRole string assignment_request "string option" string
  | DropRole string
  | CreateAccount string "string option" "string option" string
  | PatchAccount string "string option" "string option" "string option" "string option"
  | DeleteAccount string "string option"
  | IssueSecret string "string option" string string
  | RotateSecret string "string option" "string option" string string
  | RevokeSecret string "string option"
  | SetPermissions string "string list"
  | AddScope string string string bool "string list"
  | DropScope string
  | UseSecret string
  | Wait nat

fun identity_do :: "keyring \<Rightarrow> identity_cmd \<Rightarrow> identity_db \<Rightarrow> identity_db" where
  "identity_do X (Login name pw token new) S = snd (login X name pw token new S)"
| "identity_do X (AnswerMfa ch otp rec ip refresh sid) S = snd (complete_mfa_login X ch otp rec ip refresh sid S)"
| "identity_do X (Refresh token refresh sid) S = snd (refresh_session X token refresh sid S)"
| "identity_do X (Logout token uid) S = snd (logout_session X token uid S)"
| "identity_do X (RevokeMine uid sid) S = snd (revoke_my_session uid sid S)"
| "identity_do X (RevokeAdmin sid actor) S = snd (revoke_admin_session sid actor S)"
| "identity_do X (RevokeAll uid actor) S = snd (revoke_all_admin_sessions uid actor S)"
| "identity_do X (Enroll uid secret code mid drawn) S = snd (verify_totp_enroll X uid secret code mid drawn S)"
| "identity_do X (DisableTotp uid) S = snd (disable_totp uid S)"
| "identity_do X (NewCodes uid drawn) S = snd (regenerate_recovery_codes X uid drawn S)"
| "identity_do X (ChangePassword uid pw new) S = snd (change_password X uid pw new S)"
| "identity_do X (UpdateMe uid display email) S = snd (update_me uid display email S)"
| "identity_do X (CreatePat uid desc days token pid) S = snd (create_pat X uid desc days token pid S)"
| "identity_do X (RevokePat uid pid) S = snd (revoke_pat uid pid S)"
| "identity_do X (UsePat secret) S = snd (authenticate_pat X secret S)"
| "identity_do X (CreateUser name pw state admin actor uid) S = snd (create_user X name pw state admin actor uid S)"
| "identity_do X (PatchUser actor uid state pw admin) S = snd (admin_patch_user X actor uid state pw admin S)"
| "identity_do X (DeleteUser actor uid) S = snd (admin_delete_user actor uid S)"
| "identity_do X (ReplaceRoles uid qs actor ids) S = snd (replace_user_assignments uid qs actor ids S)"
| "identity_do X (AddRole uid q actor aid) S = snd (add_user_assignment uid q actor aid S)"
| "identity_do X (DropRole aid) S = snd (delete_assignment aid S)"
| "identity_do X (CreateAccount name desc actor a) S = snd (create_service_account name desc actor a S)"
| "identity_do X (PatchAccount a name desc state actor) S = snd (patch_service_account a name desc state actor S)"
| "identity_do X (DeleteAccount a actor) S = snd (delete_service_account a actor S)"
| "identity_do X (IssueSecret a actor secret tid) S = snd (issue_sa_secret X a actor True secret tid S)"
| "identity_do X (RotateSecret a revoke actor secret tid) S = snd (rotate_sa_secret X a revoke actor secret tid S)"
| "identity_do X (RevokeSecret tid actor) S = snd (revoke_sa_credential tid actor S)"
| "identity_do X (SetPermissions a ps) S = snd (replace_sa_permissions a ps S)"
| "identity_do X (AddScope sid a tenant all projects) S = snd (insert_sa_scope sid a tenant all projects S)"
| "identity_do X (DropScope sid) S = snd (delete_sa_scope sid S)"
| "identity_do X (UseSecret secret) S = snd (authenticate_sa_secret X secret S)"
| "identity_do X (Wait n) S = S\<lparr>i_now := i_now S + int n\<rparr>"

text \<open>The token and the id a command may draw for a new session.\<close>

fun drawn_session :: "identity_cmd \<Rightarrow> (string \<times> string) option" where
  "drawn_session (Login name pw token new) = Some (token, new)"
| "drawn_session (AnswerMfa ch otp rec ip refresh sid) = Some (refresh, sid)"
| "drawn_session (Refresh token refresh sid) = Some (refresh, sid)"
| "drawn_session c = None"

text \<open>A command that draws a session only of a wanted kind.\<close>

definition avoids :: "(string \<Rightarrow> string \<Rightarrow> bool) \<Rightarrow> keyring \<Rightarrow> identity_cmd \<Rightarrow> bool" where
  "avoids fine X c = (case drawn_session c of None \<Rightarrow> True | Some (token, sid) \<Rightarrow> fine sid (hash_opaque X token))"

subsection \<open>Laws of the sessions table\<close>

text \<open>
  A property of the sessions that survives what the operations do to the table: revoking rows, dropping
  rows, adding a row whose id and hash are new and \<open>fine\<close>. Then every operation that draws only fine
  tokens keeps it.
\<close>

definition revoked_if :: "(session_row \<Rightarrow> bool) \<Rightarrow> int \<Rightarrow> session_row \<Rightarrow> session_row" where
  "revoked_if P now s = (if P s \<and> se_revoked s = None then s\<lparr>se_revoked := Some now\<rparr> else s)"

locale session_law =
  fixes I :: "session_row list \<Rightarrow> bool"
    and fine :: "string \<Rightarrow> string \<Rightarrow> bool"
  assumes law_revoke: "I xs \<Longrightarrow> I (map (revoked_if Q now) xs)"
    and law_drop: "I xs \<Longrightarrow> I (filter Q xs)"
    and law_add: "I xs \<Longrightarrow> \<forall>s\<in>set xs. se_id s \<noteq> se_id row \<and> se_hash s \<noteq> se_hash row \<Longrightarrow>
      fine (se_id row) (se_hash row) \<Longrightarrow> I (xs @ [row])"
begin

sublocale change "\<lambda>S S'. I (i_sessions S) \<longrightarrow> I (i_sessions S')"
  by unfold_locales auto

lemma law_put:
  assumes "\<And>S. I (i_sessions S) \<Longrightarrow> I (i_sessions (f S))"
  shows "keeps (put f)"
  using assms by (intro keeps_put) blast

lemma law_same:
  assumes "\<And>S. i_sessions (f S) = i_sessions S"
  shows "keeps (put f)"
  by (rule law_put) (simp add: assms)

lemma law_revoke_where: "keeps (put (revoke_where Q))"
proof (rule law_put)
  fix S :: identity_db assume "I (i_sessions S)"
  then show "I (i_sessions (revoke_where Q S))"
    using law_revoke [of "i_sessions S" Q "i_now S"] by (simp add: revoke_where_def revoked_if_def [abs_def])
qed

lemma law_insert:
  assumes "fine sid h"
  shows "keeps (insert_session sid uid h expires rotated)"
proof (rule keepsI, rule impI)
  fix S :: identity_db assume I: "I (i_sessions S)"
  have "\<forall>s\<in>set (i_sessions S). se_id s \<noteq> sid \<and> se_hash s \<noteq> h \<Longrightarrow>
      I (i_sessions S @ [\<lparr>se_id = sid, se_user = uid, se_hash = h, se_expires = expires, se_revoked = None,
        se_rotated = rotated, se_created = i_now S, se_used = None\<rparr>])"
    by (rule law_add [OF I]) (simp_all add: assms)
  then show "I (i_sessions (snd (insert_session sid uid h expires rotated S)))"
    using I by (auto simp: insert_session_def Let_def list_ex_iff)
qed

lemma law_delete: "keeps (delete_user uid)"
  unfolding delete_user_def
  by (intro keeps_intros law_put) (simp add: law_drop)

lemmas law_intros = law_revoke_where law_insert law_delete keeps_intros

text \<open>Operations that do not touch the sessions.\<close>

lemma law_count: "keeps (count_attempt a b)"
  unfolding count_attempt_def Let_def by (intro law_intros law_same) auto

lemma law_basics:
  "keeps (update_user uid p)"
  "keeps (audit actor action target result)"
  "keeps (insert_user uid name pw state admin)"
  "keeps (insert_assignment aid uid tenant role all projects)"
  "keeps (delete_assignments_for_user uid)"
  "keeps (delete_assignment aid)"
  "keeps (upsert_active_totp mid uid secret)"
  "keeps (disable_totp_for_user uid)"
  "keeps (touch_totp_last_used mid)"
  "keeps (replace_recovery_codes uid items)"
  "keeps (consume_recovery_code uid h)"
  "keeps (create_challenge cid uid h expires)"
  "keeps (consume_open_mfa_challenge h)"
  "keeps (insert_pat pid uid desc h expires')"
  "keeps (revoke_pat_row pid uid)"
  "keeps (touch_pat_last_used pid)"
  "keeps (insert_service_account a name' desc' state)"
  "keeps (update_service_account a n d st)"
  "keeps (delete_account_rows a)"
  "keeps (insert_sa_credential tid a h)"
  "keeps (revoke_credential_row tid)"
  "keeps (lookup_sa_by_secret_hash h)"
  "keeps (replace_permission_rows a ps)"
  "keeps (insert_sa_scope sid a tenant all projects)"
  "keeps (delete_sa_scope sid)"
  "keeps (reset_attempts k1 k2)"
  unfolding update_user_def audit_def insert_audit_event_def insert_user_def insert_assignment_def
    delete_assignments_for_user_def delete_assignment_def upsert_active_totp_def disable_totp_for_user_def
    touch_totp_last_used_def replace_recovery_codes_def consume_recovery_code_def create_challenge_def
    consume_open_mfa_challenge_def insert_pat_def revoke_pat_row_def touch_pat_last_used_def
    insert_service_account_def update_service_account_def delete_account_rows_def insert_sa_credential_def
    revoke_credential_row_def lookup_sa_by_secret_hash_def replace_permission_rows_def insert_sa_scope_def
    delete_sa_scope_def reset_attempts_def disable_totp_rows_def Let_def
  by (intro law_intros law_same; simp)+


lemmas law_rules = law_basics law_count law_intros

lemma law_parts:
  "keeps (ensure_login_allowed u)"
  "keeps (failed_login X u)"
  "keeps (mfa_allow_attempt uid ip)"
  "keeps (mfa_allow_challenge_attempt cid)"
  "keeps (mfa_passed uid ip cid)"
  "keeps (mfa_failed uid)"
  "keeps (check_recovery X uid recovery)"
  "keeps (create_mfa_challenge X uid token cid)"
  "keeps (revoke_session sid)"
  "keeps (revoke_all_sessions uid)"
  "keeps (validate_password_strength X pw)"
  unfolding ensure_login_allowed_def allow_state_def failed_login_def mfa_allow_attempt_def
    mfa_allow_challenge_attempt_def mfa_passed_def mfa_reset_attempts_def mfa_reset_challenge_attempts_def
    mfa_failed_def check_recovery_def create_mfa_challenge_def revoke_session_def revoke_all_sessions_def
    validate_password_strength_def Let_def
  by (intro law_rules)+

lemma law_check_otp: "keeps (check_otp X t otp)"
proof -
  have "keeps (case r of Inl e \<Rightarrow> fail e | Inr b \<Rightarrow> give b)" for r :: "bool py"
    by (cases r) (simp_all add: keeps_basic)
  then show ?thesis
    unfolding check_otp_def by (intro law_rules)
qed

lemma law_second_factor: "keeps (verify_second_factor X u t cid otp recovery ip)"
  unfolding verify_second_factor_def by (intro law_rules law_parts law_check_otp)

lemma law_sign_in:
  "fine sid (hash_opaque X refresh) \<Longrightarrow> keeps (issue_user_session_tokens X u refresh sid)"
  unfolding issue_user_session_tokens_def by (intro law_rules)

lemma law_revoke_each: "keeps (revoke_each sids)"
proof (induction sids)
  case Nil
  show ?case unfolding revoke_each.simps by (intro law_rules)
next
  case (Cons sid sids)
  show ?case unfolding revoke_each.simps by (intro law_rules law_parts Cons.IH)
qed

lemma law_insert_assignments: "keeps (insert_assignments uid rows ids)"
proof (induction uid rows ids rule: insert_assignments.induct)
  case (1 uid ids)
  show ?case unfolding insert_assignments.simps by (intro law_rules)
next
  case (2 uid tenant role all projects rest ids)
  show ?case unfolding insert_assignments.simps by (intro law_rules "2.IH")
qed

lemma law_sum:
  "(\<And>e. keeps (f e)) \<Longrightarrow> (\<And>x. keeps (g x)) \<Longrightarrow>
   keeps (case r of Inl e \<Rightarrow> f e | Inr x \<Rightarrow> g x)"
  by (cases r) simp_all

lemmas law_all = law_sum law_sign_in law_second_factor law_check_otp law_revoke_each
  law_insert_assignments law_parts law_rules

lemma law_services:
  "keeps (logout_session X token who)"
  "keeps (revoke_my_session uid sid)"
  "keeps (revoke_admin_session sid actor)"
  "keeps (revoke_all_admin_sessions tid actor)"
  "keeps (verify_totp_enroll X uid secret code mid drawn)"
  "keeps (disable_totp uid)"
  "keeps (regenerate_recovery_codes X uid drawn)"
  "keeps (change_password X uid pw new)"
  "keeps (update_me uid display email)"
  "keeps (create_pat X uid desc days tok pid)"
  "keeps (revoke_pat uid pid)"
  "keeps (authenticate_pat X secret)"
  "keeps (create_user X name pw st admin actor uid)"
  "keeps (admin_delete_user actor uid)"
  "keeps (add_user_assignment uid q actor aid)"
  "keeps (replace_user_assignments uid qs actor ids)"
  "keeps (create_service_account name desc' actor a)"
  "keeps (patch_service_account a n d s actor)"
  "keeps (delete_service_account a actor)"
  "keeps (issue_sa_secret X a actor b secret cid)"
  "keeps (rotate_sa_secret X a revoke actor secret cid)"
  "keeps (revoke_sa_credential cid actor)"
  "keeps (replace_sa_permissions a ps)"
  "keeps (authenticate_sa_secret X secret)"
  unfolding logout_session_def revoke_my_session_def revoke_session_for_user_def revoke_admin_session_def
    revoke_all_admin_sessions_def verify_totp_enroll_def disable_totp_def regenerate_recovery_codes_def
    change_password_def update_me_def create_pat_def revoke_pat_def authenticate_pat_def create_user_def
    admin_delete_user_def add_user_assignment_def replace_user_assignments_def
    create_service_account_def patch_service_account_def delete_service_account_def issue_sa_secret_def
    rotate_sa_secret_def revoke_sa_credential_def replace_sa_permissions_def authenticate_sa_secret_def Let_def
  by (intro law_all)+

lemma law_patch: "keeps (admin_patch_user X actor uid st pw admin)"
  unfolding admin_patch_user_def by (intro law_all)

lemma law_login: "fine new (hash_opaque X token) \<Longrightarrow> keeps (login X name pw token new)"
  unfolding login_def by (intro law_all)

lemma law_mfa:
  "fine sid (hash_opaque X refresh) \<Longrightarrow> keeps (complete_mfa_login X ch otp recovery ip refresh sid)"
  unfolding complete_mfa_login_def by (intro law_all)

lemma law_refresh:
  "fine sid (hash_opaque X refresh) \<Longrightarrow> keeps (refresh_session X token refresh sid)"
  unfolding refresh_session_def by (intro law_all)

lemma law_do:
  assumes "avoids fine X c" and "I (i_sessions S)"
  shows "I (i_sessions (identity_do X c S))"
proof (cases c)
  case (Wait n)
  then show ?thesis using assms(2) by simp
qed (use assms in \<open>auto simp: avoids_def law_login law_mfa law_refresh law_services law_patch
      law_basics intro!: keepsD [THEN mp]\<close>)

lemma law_run:
  "list_all (avoids fine X) cs \<Longrightarrow> I (i_sessions S) \<Longrightarrow> I (i_sessions (fold (identity_do X) cs S))"
  by (induction cs arbitrary: S) (auto simp: law_do)

end

text \<open>Ids and refresh hashes stay unique; the sessions a predicate selects stay revoked.\<close>

definition sessions_unique :: "session_row list \<Rightarrow> bool" where
  "sessions_unique xs = (distinct (map se_id xs) \<and> distinct (map se_hash xs))"

definition spent :: "(string \<Rightarrow> string \<Rightarrow> bool) \<Rightarrow> session_row list \<Rightarrow> bool" where
  "spent P xs = (\<forall>s\<in>set xs. P (se_id s) (se_hash s) \<longrightarrow> se_revoked s \<noteq> None)"

lemma revoked_if_simps [simp]:
  "se_id (revoked_if P now s) = se_id s" "se_hash (revoked_if P now s) = se_hash s"
  "se_user (revoked_if P now s) = se_user s" "se_expires (revoked_if P now s) = se_expires s"
  by (simp_all add: revoked_if_def)

interpretation unique: session_law sessions_unique "\<lambda>sid h. True"
  by unfold_locales (auto simp: sessions_unique_def comp_def distinct_map_filter image_iff)

interpretation spent: session_law "spent P" "\<lambda>sid h. \<not> P sid h" for P
  by unfold_locales (auto simp: spent_def revoked_if_def)

end
