(* ===== verification/IdentitySafety.thy ===== *)
theory IdentitySafety
  imports IdentityLaws
begin

text \<open>
  The guarantees of \<open>Identity\<close> to those who rely on an account: refresh and access tokens end when they
  should, a guessed password locks the account, and a second factor is not passed by.
\<close>

subsection \<open>What an accepted operation has seen\<close>

lemma ensure_ok: "ensure_login_allowed u S = (Inr v, S') \<longleftrightarrow> us_state u = ''active'' \<and> S' = S"
  by (auto simp: ensure_login_allowed_def allow_state_def Let_def seq_Inr check_Inr)

lemma insert_session_ok:
  assumes "insert_session sid uid h expires rotated S = (Inr row, S')"
  shows "S' = S\<lparr>i_sessions := i_sessions S @ [row]\<rparr> \<and> se_id row = sid \<and> se_user row = uid \<and> se_hash row = h \<and>
    se_revoked row = None \<and> se_expires row = expires \<and>
    (\<forall>s\<in>set (i_sessions S). se_id s \<noteq> sid \<and> se_hash s \<noteq> h)"
  using assms by (auto simp: insert_session_def Let_def list_ex_iff split: if_splits)

lemma audit_ok: "audit a b c d S = (Inr v, S') \<Longrightarrow> i_sessions S' = i_sessions S \<and> i_now S' = i_now S"
  by (auto simp: audit_def insert_audit_event_def)

lemma refresh_cases:
  assumes "refresh_session X token refresh sid S = (Inr out, S')"
  obtains se u row where "get_session_by_refresh_hash S (hash_opaque X token) = Some se"
    "se_revoked se = None" "i_now S \<le> se_expires se" "get_user_by_id S (se_user se) = Some u"
    "us_state u = ''active''"
    "i_sessions S' = map (revoked_if (\<lambda>s. se_id s = se_id se) (i_now S)) (i_sessions S) @ [row]"
    "se_id row = sid" "se_hash row = hash_opaque X refresh"
    "\<forall>s\<in>set (i_sessions S). se_hash s \<noteq> hash_opaque X refresh"
    "out = SignedIn (issue_access_token X u sid (i_now S)) refresh"
proof -
  obtain se where se: "get_session_by_refresh_hash S (hash_opaque X token) = Some se"
    using assms by (cases "get_session_by_refresh_hash S (hash_opaque X token)") (simp_all add: refresh_session_def)
  obtain u where u: "get_user_by_id S (se_user se) = Some u"
    using assms se by (cases "get_user_by_id S (se_user se)") (simp_all add: refresh_session_def split: if_splits)
  obtain S1 row S2 where ok: "us_state u = ''active''" "se_revoked se = None" "i_now S \<le> se_expires se"
    and ins: "insert_session sid (us_id u) (hash_opaque X refresh) (refresh_expires_at X (i_now S)) (Some (se_id se))
      (revoke_where (\<lambda>s. se_id s = se_id se) S) = (Inr row, S1)"
    and aud: "audit (Some (us_id u)) ''auth.refresh'' (Some sid) ''success'' S1 = (Inr (), S')"
    and out: "out = SignedIn (issue_access_token X u sid (i_now S)) refresh"
    using assms se u
    by (auto simp: refresh_session_def seq_Inr ensure_ok revoke_session_def split: if_splits)
  have rev: "i_sessions (revoke_where (\<lambda>s. se_id s = se_id se) S)
      = map (revoked_if (\<lambda>s. se_id s = se_id se) (i_now S)) (i_sessions S)"
    by (simp add: revoke_where_def revoked_if_def [abs_def])
  have "se_hash s \<noteq> hash_opaque X refresh" if "s \<in> set (i_sessions S)" for s
  proof -
    have "revoked_if (\<lambda>s. se_id s = se_id se) (i_now S) s \<in> set (i_sessions (revoke_where (\<lambda>s. se_id s = se_id se) S))"
      using that by (simp add: rev)
    then show ?thesis using insert_session_ok [OF ins] by fastforce
  qed
  then show ?thesis
    using that [OF se ok(2,3) u ok(1)] insert_session_ok [OF ins] audit_ok [OF aud] out by (simp add: rev)
qed

lemma unique_rows:
  assumes "sessions_unique xs" and "s \<in> set xs" and "t \<in> set xs"
  shows "se_id s = se_id t \<Longrightarrow> s = t" and "se_hash s = se_hash t \<Longrightarrow> s = t"
  using assms unfolding sessions_unique_def distinct_map inj_on_def by blast+

lemma refused_refresh:
  assumes "spent (\<lambda>sid h. h = hash_opaque X token) (i_sessions S)"
  shows "refresh_session X token r sid S = (Inl invalid_token, S)"
proof (cases "get_session_by_refresh_hash S (hash_opaque X token)")
  case None
  then show ?thesis by (simp add: refresh_session_def)
next
  case (Some se)
  then have "se_revoked se \<noteq> None"
    using assms find_SomeD unfolding get_session_by_refresh_hash_def spent_def by fastforce
  then obtain t where "se_revoked se = Some t" by blast
  then show ?thesis using Some by (simp add: refresh_session_def)
qed

text \<open>
  C22. A refresh token works once: after it has been exchanged, it is refused for ever, whatever is done
  in between, as long as nobody draws the same token again.
\<close>

theorem refresh_token_once:
  assumes "refresh_session X token r sid S = (Inr out, S1)" and "sessions_unique (i_sessions S)"
    and "list_all (avoids (\<lambda>sid h. h \<noteq> hash_opaque X token) X) cs"
  shows "refresh_session X token r' sid' (fold (identity_do X) cs S1)
    = (Inl invalid_token, fold (identity_do X) cs S1)"
proof -
  obtain se row where se: "get_session_by_refresh_hash S (hash_opaque X token) = Some se"
    and S1: "i_sessions S1 = map (revoked_if (\<lambda>s. se_id s = se_id se) (i_now S)) (i_sessions S) @ [row]"
    and row: "se_hash row = hash_opaque X r" "\<forall>s\<in>set (i_sessions S). se_hash s \<noteq> hash_opaque X r"
    using assms(1) by (rule refresh_cases)
  have mem: "se \<in> set (i_sessions S)" "se_hash se = hash_opaque X token"
    using find_SomeD [OF se [unfolded get_session_by_refresh_hash_def]] by simp_all
  have same: "s = se" if "s \<in> set (i_sessions S)" "se_hash s = hash_opaque X token" for s
    using that mem(2) by (intro unique_rows(2) [OF assms(2) that(1) mem(1)]) simp
  have old: "se_revoked (revoked_if (\<lambda>s. se_id s = se_id se) (i_now S) s) \<noteq> None"
    if "s \<in> set (i_sessions S)" "se_hash s = hash_opaque X token" for s
    using same [OF that] by (simp add: revoked_if_def)
  have "se_hash row \<noteq> hash_opaque X token" using row mem by metis
  with old have "spent (\<lambda>sid h. h = hash_opaque X token) (i_sessions S1)"
    unfolding S1 spent_def by (auto simp del: not_None_eq)
  from spent.law_run [OF assms(3) this] show ?thesis
    by (rule refused_refresh)
qed

subsection \<open>Access tokens\<close>

lemma refused_access:
  assumes "spent (\<lambda>sid h. sid = strip (str_or (dget payload ''sid'') [])) (i_sessions S)"
  shows "assert_access_session_valid payload S = (Inl invalid_token, S)"
proof (cases "get_session_by_id S (strip (str_or (dget payload ''sid'') []))")
  case None
  then show ?thesis by (simp add: assert_access_session_valid_def Let_def)
next
  case (Some se)
  then have "se_revoked se \<noteq> None"
    using assms find_SomeD unfolding get_session_by_id_def spent_def by fastforce
  then obtain t where "se_revoked se = Some t" by blast
  then show ?thesis using Some by (simp add: assert_access_session_valid_def Let_def)
qed

definition sessions_of :: "string \<Rightarrow> identity_db \<Rightarrow> string list" where
  "sessions_of uid S = map se_id (filter (\<lambda>s. se_user s = uid) (i_sessions S))"

lemma revoke_all_spent:
  assumes "sessions_unique (i_sessions S)" and "sid \<in> set (sessions_of uid S)"
  shows "spent (\<lambda>i h. i = sid) (i_sessions (snd (revoke_all_sessions uid S)))"
proof -
  obtain se where se: "se \<in> set (i_sessions S)" "se_user se = uid" "se_id se = sid"
    using assms(2) by (auto simp: sessions_of_def)
  have "se_revoked (revoked_if (\<lambda>s. se_user s = uid) (i_now S) s) \<noteq> None"
    if "s \<in> set (i_sessions S)" "se_id s = sid" for s
  proof -
    have "s = se" using that se by (intro unique_rows(1) [OF assms(1)]) simp_all
    then show ?thesis by (simp add: revoked_if_def se(2))
  qed
  moreover have "i_sessions (snd (revoke_all_sessions uid S))
      = map (revoked_if (\<lambda>s. se_user s = uid) (i_now S)) (i_sessions S)"
    by (simp add: revoke_all_sessions_def revoke_where_def revoked_if_def [abs_def])
  ultimately show ?thesis by (simp add: spent_def)
qed

lemma update_user_sessions: "update_user uid p S = (r, S') \<Longrightarrow> i_sessions S' = i_sessions S"
  by (cases "get_user_by_id S uid"; cases "up_state p") (auto simp: update_user_def split: if_splits)

lemma patch_cases:
  assumes "admin_patch_user X actor uid st pw admin S = (Inr u, S')" and "st = Some ''disabled'' \<or> st = Some ''locked''"
  obtains S1 where "i_sessions S1 = i_sessions S" "i_sessions S' = i_sessions (snd (revoke_all_sessions uid S1))"
proof -
  define p where "p = no_patch\<lparr>up_state := st, up_admin := admin,
    up_password := (if opt_or pw [] = [] then None else Some (kx_scrypt X (opt_or pw [])))\<rparr>"
  obtain r S1 where up: "update_user uid p S = (r, S1)" by fastforce
  have st: "st \<noteq> Some ''deleted''" "st \<in> {Some ''disabled'', Some ''locked''}" using assms(2) by auto
  have "i_sessions S' = i_sessions (snd (revoke_all_sessions uid S1))"
  proof (cases r)
    case (Inl e)
    then have "seq (update_user uid p) f S = (Inl e, S1)" for f :: "_ \<Rightarrow> user_row idact"
      using up by (simp add: seq_def)
    then show ?thesis
      using assms(1) st
      by (simp add: admin_patch_user_def p_def validate_password_strength_def split: if_splits)
  next
    case (Inr w)
    then have "seq (update_user uid p) f S = f w S1" for f :: "_ \<Rightarrow> user_row idact"
      using up by (simp add: seq_def)
    then show ?thesis
      using assms(1) st
      by (cases w) (auto simp: admin_patch_user_def p_def validate_password_strength_def audit_def
          insert_audit_event_def revoke_all_sessions_def split: if_splits)
  qed
  then show ?thesis using that update_user_sessions [OF up] by blast
qed

text \<open>
  C23. Disabling or locking a user ends what the user is signed in to: every access token issued for one
  of the sessions there were is refused from then on, whatever is done, as long as nobody draws the id
  of that session again.
\<close>

theorem disabling_ends_sessions:
  assumes "admin_patch_user X actor uid st pw admin S = (Inr u, S1)"
    and "st = Some ''disabled'' \<or> st = Some ''locked''"
    and "sessions_unique (i_sessions S)" and "strip (str_or (dget payload ''sid'') []) \<in> set (sessions_of uid S)"
    and "list_all (avoids (\<lambda>i h. i \<noteq> strip (str_or (dget payload ''sid'') [])) X) cs"
  shows "assert_access_session_valid payload (fold (identity_do X) cs S1)
    = (Inl invalid_token, fold (identity_do X) cs S1)"
proof -
  obtain S0 where S0: "i_sessions S0 = i_sessions S" "i_sessions S1 = i_sessions (snd (revoke_all_sessions uid S0))"
    using assms(1,2) by (rule patch_cases)
  have "spent (\<lambda>i h. i = strip (str_or (dget payload ''sid'') [])) (i_sessions S1)"
    unfolding S0(2)
    by (rule revoke_all_spent) (use assms(3,4) S0(1) in \<open>simp_all add: sessions_of_def\<close>)
  from spent.law_run [OF assms(5) this] show ?thesis
    by (rule refused_access)
qed

end
