(* ===== verification/IdentitySignIn.thy ===== *)
theory IdentitySignIn
  imports IdentitySafety
begin

text \<open>
  What it takes to sign in by \<open>Identity\<close>: the right password of an active account, the second factor where
  there is one, and an account that guessing has not locked.
\<close>

subsection \<open>Updates of a user\<close>

lemma patch_row_simps [simp]:
  "us_id (patch_row p u) = us_id u" "us_name (patch_row p u) = us_name u"
  "up_password p = None \<Longrightarrow> us_password (patch_row p u) = us_password u"
  "us_state (patch_row p u) = given (up_state p) (us_state u)"
  "us_failed (patch_row p u) = given (up_failed p) (us_failed u)"
  "us_locked (patch_row p u) = patched (up_clear_lock p) (up_locked p) (us_locked u)"
  by (simp_all add: patch_row_def given_def)

lemma update_user_found:
  assumes "get_user_by_id S uid \<noteq> None" and "\<And>s. up_state p = Some s \<Longrightarrow> s \<in> set user_states"
  shows "update_user uid p S = (Inr (map_option (patch_row p) (get_user_by_id S uid)),
    S\<lparr>i_users := map (\<lambda>u. if us_id u = uid then patch_row p u else u) (i_users S)\<rparr>)"
proof -
  have "find (\<lambda>u. us_id u = uid) (map (\<lambda>u. if us_id u = uid then patch_row p u else u) (i_users S))
      = map_option (\<lambda>u. if us_id u = uid then patch_row p u else u) (find (\<lambda>u. us_id u = uid) (i_users S))"
    by (rule find_map_iff) simp
  moreover have "map_option (\<lambda>u. if us_id u = uid then patch_row p u else u) (find (\<lambda>u. us_id u = uid) (i_users S))
      = map_option (patch_row p) (find (\<lambda>u. us_id u = uid) (i_users S))"
    by (rule option.map_cong0) (auto dest: find_SomeD)
  moreover have "case up_state p of None \<Rightarrow> True | Some s \<Rightarrow> s \<in> set user_states"
    using assms(2) by (cases "up_state p") auto
  ultimately show ?thesis
    using assms(1) by (auto simp: update_user_def get_user_by_id_def)
qed

lemma named_user_has_id: "get_user_by_username S name = Some u \<Longrightarrow> get_user_by_id S (us_id u) \<noteq> None"
  unfolding get_user_by_username_def get_user_by_id_def
  by (auto simp: find_None_iff dest!: find_SomeD)

lemma named_user_updated:
  assumes "get_user_by_username S name = Some u"
  shows "get_user_by_username (S\<lparr>i_users := map (\<lambda>v. if us_id v = us_id u then patch_row p v else v) (i_users S)\<rparr>) name
    = Some (patch_row p u)"
proof -
  have "find (\<lambda>v. us_name v = name) (map (\<lambda>v. if us_id v = us_id u then patch_row p v else v) (i_users S))
      = map_option (\<lambda>v. if us_id v = us_id u then patch_row p v else v) (find (\<lambda>v. us_name v = name) (i_users S))"
    by (rule find_map_iff) simp
  then show ?thesis using assms by (simp add: get_user_by_username_def)
qed

subsection \<open>Guessing a password\<close>

definition guess :: "keyring \<Rightarrow> string \<Rightarrow> string \<times> nat \<Rightarrow> identity_db \<Rightarrow> identity_db" where
  "guess X name g S = identity_do X (Wait (snd g)) (identity_do X (Login name (fst g) [] []) S)"

text \<open>What a run of wrong guesses leaves: the count, and once it is high enough the lock.\<close>

definition guessed :: "keyring \<Rightarrow> int \<Rightarrow> user_row \<Rightarrow> user_row \<Rightarrow> bool" where
  "guessed X locked u v = (us_id v = us_id u \<and> us_password v = us_password u \<and> us_state v \<in> set user_states \<and>
     (kx_threshold X \<le> us_failed v \<longrightarrow> us_state v = ''locked'' \<and> us_locked v = Some locked))"

definition lock_end :: "keyring \<Rightarrow> int \<Rightarrow> int" where
  "lock_end X now = now div 1000000 * 1000000 + seconds (60 * kx_lock_minutes X)"

lemma wrong_login:
  assumes "get_user_by_username S (strip name) = Some u" and "us_state u \<in> set user_states"
    and "\<not> kx_verify X pw (us_password u)"
  shows "\<exists>S' v. login X name pw token new S = (Inl invalid_credential, S') \<and>
    get_user_by_username S' (strip name) = Some v \<and> us_failed v = us_failed u + 1 \<and>
    guessed X (lock_end X (i_now S)) u v \<and> i_sessions S' = i_sessions S \<and> i_challenges S' = i_challenges S \<and>
    i_now S' = i_now S"
proof -
  define lock where "lock = (kx_threshold X \<le> us_failed u + 1)"
  define p where "p = no_patch\<lparr>up_failed := Some (us_failed u + 1),
    up_locked := (if lock then Some (lock_end X (i_now S)) else None),
    up_state := Some (if lock then ''locked'' else us_state u)\<rparr>"
  define S' where "S' = S\<lparr>i_users := map (\<lambda>v. if us_id v = us_id u then patch_row p v else v) (i_users S)\<rparr>"
  have "failed_login X u S = seq (update_user (us_id u) p) (\<lambda>_. give ()) S"
    by (simp add: failed_login_def Let_def p_def lock_def lock_end_def)
  also have "\<dots> = (Inr (), S')"
    using update_user_found [OF named_user_has_id [OF assms(1)], of p] assms(2)
    by (simp add: S'_def p_def seq_def user_states_def)
  finally have "failed_login X u S = (Inr (), S')" .
  then have "login X name pw token new S = (Inl invalid_credential,
      S'\<lparr>i_audit := i_audit S' @ [\<lparr>ie_kind = ''user'', ie_actor = Some (us_id u), ie_action = ''auth.login'',
        ie_target = Some name, ie_result = ''failure''\<rparr>]\<rparr>)"
    using assms by (simp add: login_def seq_def audit_def insert_audit_event_def)
  moreover have "get_user_by_username S' (strip name) = Some (patch_row p u)"
    unfolding S'_def by (rule named_user_updated [OF assms(1)])
  moreover have "guessed X (lock_end X (i_now S)) u (patch_row p u)" "us_failed (patch_row p u) = us_failed u + 1"
    using assms(2) by (auto simp: guessed_def p_def lock_def no_patch_def given_def patched_def user_states_def)
  ultimately show ?thesis
    by (auto simp: S'_def get_user_by_username_def)
qed

lemma guess_step:
  assumes "get_user_by_username S (strip name) = Some u" and "us_state u \<in> set user_states"
    and "\<not> kx_verify X (fst g) (us_password u)"
  obtains v where "get_user_by_username (guess X name g S) (strip name) = Some v" "us_failed v = us_failed u + 1"
    "guessed X (lock_end X (i_now S)) u v" "i_sessions (guess X name g S) = i_sessions S"
    "i_challenges (guess X name g S) = i_challenges S" "i_now (guess X name g S) = i_now S + int (snd g)"
proof -
  obtain S' v where "login X name (fst g) [] [] S = (Inl invalid_credential, S')"
    "get_user_by_username S' (strip name) = Some v" "us_failed v = us_failed u + 1"
    "guessed X (lock_end X (i_now S)) u v" "i_sessions S' = i_sessions S"
    "i_challenges S' = i_challenges S" "i_now S' = i_now S"
    using wrong_login [OF assms, of "[]" "[]"] by blast
  then show thesis by (intro that [of v]) (simp_all add: guess_def get_user_by_username_def)
qed

lemma guesses:
  assumes "get_user_by_username S (strip name) = Some u" and "us_state u \<in> set user_states"
    and "list_all (\<lambda>g. \<not> kx_verify X (fst g) (us_password u)) gs" and "gs \<noteq> []"
  shows "\<exists>v now. get_user_by_username (fold (guess X name) gs S) (strip name) = Some v \<and>
    us_failed v = us_failed u + int (length gs) \<and> guessed X (lock_end X now) u v \<and>
    i_sessions (fold (guess X name) gs S) = i_sessions S \<and>
    i_challenges (fold (guess X name) gs S) = i_challenges S \<and>
    i_now (fold (guess X name) gs S) = now + int (snd (last gs))"
  using assms
proof (induction gs arbitrary: S u)
  case Nil
  then show ?case by simp
next
  case (Cons g gs)
  obtain v where v: "get_user_by_username (guess X name g S) (strip name) = Some v" "us_failed v = us_failed u + 1"
    "guessed X (lock_end X (i_now S)) u v" "i_sessions (guess X name g S) = i_sessions S"
    "i_challenges (guess X name g S) = i_challenges S" "i_now (guess X name g S) = i_now S + int (snd g)"
    using guess_step [OF Cons.prems(1,2), of X g] Cons.prems(3) by auto
  show ?case
  proof (cases "gs = []")
    case True
    then show ?thesis using v by auto
  next
    case False
    have "us_state v \<in> set user_states" "us_password v = us_password u" "us_id v = us_id u"
      using v(3) by (simp_all add: guessed_def)
    then obtain w now where "get_user_by_username (fold (guess X name) gs (guess X name g S)) (strip name) = Some w"
      "us_failed w = us_failed v + int (length gs)" "guessed X (lock_end X now) v w"
      "i_sessions (fold (guess X name) gs (guess X name g S)) = i_sessions S"
      "i_challenges (fold (guess X name) gs (guess X name g S)) = i_challenges S"
      "i_now (fold (guess X name) gs (guess X name g S)) = now + int (snd (last gs))"
      using Cons.IH [OF v(1)] Cons.prems(3) False v(4,5) by auto
    moreover have "guessed X (lock_end X now) u w"
      using calculation(3) v(3) by (simp add: guessed_def)
    ultimately show ?thesis using v(2) False by auto
  qed
qed

text \<open>
  Guessing locks: once an account has seen as many wrong passwords in a row as the threshold allows,
  every sign in is refused until the lock ends (a second is lost by rounding), also with the right
  password, and neither a session nor a challenge is made.
\<close>

theorem guessing_locks:
  assumes "get_user_by_username S (strip name) = Some u" and "us_state u \<in> set user_states"
    and "list_all (\<lambda>g. \<not> kx_verify X (fst g) (us_password u)) gs" and "gs \<noteq> []"
    and "kx_threshold X \<le> us_failed u + int (length gs)"
    and "int (snd (last gs)) + seconds 1 \<le> seconds (60 * kx_lock_minutes X)"
  shows "fst (login X name pw token new (fold (guess X name) gs S))
      = Inl (if kx_verify X pw (us_password u) then account_locked else invalid_credential) \<and>
    i_sessions (snd (login X name pw token new (fold (guess X name) gs S))) = i_sessions S \<and>
    i_challenges (snd (login X name pw token new (fold (guess X name) gs S))) = i_challenges S"
proof -
  define S' where "S' = fold (guess X name) gs S"
  obtain v now where v: "get_user_by_username S' (strip name) = Some v" "us_failed v = us_failed u + int (length gs)"
    "guessed X (lock_end X now) u v" "i_sessions S' = i_sessions S" "i_challenges S' = i_challenges S"
    "i_now S' = now + int (snd (last gs))"
    using guesses [OF assms(1-4)] unfolding S'_def by blast
  have locked: "us_state v = ''locked''" "us_locked v = Some (lock_end X now)" "us_password v = us_password u"
    using v(2,3) assms(5) by (simp_all add: guessed_def)
  have "now < now div 1000000 * 1000000 + 1000000"
    using mult_div_mod_eq [of 1000000 now] pos_mod_bound [of 1000000 now] by linarith
  then have early: "\<not> lock_end X now \<le> i_now S'"
    using assms(6) v(6) by (simp add: lock_end_def seconds_def)
  show ?thesis
  proof (cases "kx_verify X pw (us_password u)")
    case True
    then have "login X name pw token new S' = (Inl account_locked, S')"
      using v(1) locked early by (simp add: login_def ensure_login_allowed_def seq_def check_def)
    then show ?thesis using v(4,5) True by (simp add: S'_def [symmetric])
  next
    case False
    then have "\<not> kx_verify X pw (us_password v)" "us_state v \<in> set user_states"
      using locked v(3) by (simp_all add: guessed_def)
    from wrong_login [OF v(1) this(2,1), of token new]
    obtain S'' where "login X name pw token new S' = (Inl invalid_credential, S'')"
      "i_sessions S'' = i_sessions S'" "i_challenges S'' = i_challenges S'" by blast
    then show ?thesis using v(4,5) False by (simp add: S'_def [symmetric])
  qed
qed

subsection \<open>Signing in\<close>

definition same_rows :: "identity_db \<Rightarrow> identity_db \<Rightarrow> bool" where
  "same_rows S S' = (i_totp S' = i_totp S \<and> i_sessions S' = i_sessions S \<and> i_now S' = i_now S \<and>
     i_challenges S' = i_challenges S \<and> i_codes S' = i_codes S)"

lemma same_rows_totp: "same_rows S S' \<Longrightarrow> get_active_totp_for_user S' who = get_active_totp_for_user S who"
  by (simp add: same_rows_def get_active_totp_for_user_def)

lemma update_user_rows: "update_user uid p S = (r, S') \<Longrightarrow> same_rows S S'"
  by (cases "get_user_by_id S uid"; cases "up_state p") (auto simp: update_user_def same_rows_def split: if_splits)

lemma issue_tokens_ok:
  assumes "issue_user_session_tokens X u refresh sid S = (Inr out, S')"
  obtains row where "out = SignedIn (issue_access_token X u sid (i_now S)) refresh"
    "i_sessions S' = i_sessions S @ [row]" "se_user row = us_id u" "se_id row = sid"
    "se_hash row = hash_opaque X refresh" "se_revoked row = None"
    "se_expires row = refresh_expires_at X (i_now S)" "i_challenges S' = i_challenges S" "i_codes S' = i_codes S"
proof -
  obtain row S1 where ins: "insert_session sid (us_id u) (hash_opaque X refresh) (refresh_expires_at X (i_now S)) None S
      = (Inr row, S1)" and aud: "audit (Some (us_id u)) ''auth.login'' (Some sid) ''success'' S1 = (Inr (), S')"
    and "out = SignedIn (issue_access_token X u sid (i_now S)) refresh"
    using assms by (auto simp: issue_user_session_tokens_def seq_Inr)
  moreover have "i_challenges S' = i_challenges S1 \<and> i_codes S' = i_codes S1"
    using aud by (auto simp: audit_def insert_audit_event_def)
  ultimately show ?thesis using that [of row] insert_session_ok [OF ins] audit_ok [OF aud] by simp
qed

definition signs_in_as :: "keyring \<Rightarrow> identity_db \<Rightarrow> identity_db \<Rightarrow> user_row \<Rightarrow> string \<Rightarrow> login_outcome \<Rightarrow> bool" where
  "signs_in_as X S S' u token out = (case out of
     NeedsMfa c \<Rightarrow> get_active_totp_for_user S (us_id u) \<noteq> None \<and> i_sessions S' = i_sessions S
   | SignedIn access refresh \<Rightarrow> refresh = token \<and> get_active_totp_for_user S (us_id u) = None \<and>
       map se_user (drop (length (i_sessions S)) (i_sessions S')) = [us_id u] \<and>
       map se_hash (drop (length (i_sessions S)) (i_sessions S')) = [hash_opaque X token] \<and>
       take (length (i_sessions S)) (i_sessions S') = i_sessions S)"

text \<open>How \<open>login\<close> ends, once the password and the state are right.\<close>

definition signed_in :: "keyring \<Rightarrow> user_row \<Rightarrow> string \<Rightarrow> string \<Rightarrow> totp_row option \<Rightarrow> login_outcome idact" where
  "signed_in X u token new totp = (case totp of
     Some t \<Rightarrow> seq (create_mfa_challenge X (us_id u) token new) (\<lambda>c.
       seq (audit (Some (us_id u)) ''auth.login.mfa_required'' (Some (us_id u)) ''success'') (\<lambda>_. give (NeedsMfa c)))
   | None \<Rightarrow> issue_user_session_tokens X u token new)"

text \<open>
  A sign in is accepted only with the right password of an account that is active; it makes one
  session, of that user and for the token handed out, and none when the user has a second factor.
\<close>

theorem sign_in_justified:
  assumes "login X name pw token new S = (Inr out, S')"
  shows "\<exists>u. get_user_by_username S (strip name) = Some u \<and> kx_verify X pw (us_password u) \<and>
    us_state u = ''active'' \<and> signs_in_as X S S' u token out"
proof -
  obtain u where u: "get_user_by_username S (strip name) = Some u"
    using assms by (cases "get_user_by_username S (strip name)") (auto simp: login_def seq_Inr)
  have pw: "kx_verify X pw (us_password u)"
    using assms u by (cases "kx_verify X pw (us_password u)") (auto simp: login_def seq_Inr)
  define p where "p = no_patch\<lparr>up_failed := Some 0, up_clear_lock := True, up_login := Some (i_now S)\<rparr>"
  have "seq (ensure_login_allowed u) (\<lambda>_. seq (ask i_now) (\<lambda>now.
      seq (update_user (us_id u) (no_patch\<lparr>up_failed := Some 0, up_clear_lock := True, up_login := Some now\<rparr>)) (\<lambda>_.
      seq (ask (\<lambda>S. get_active_totp_for_user S (us_id u))) (\<lambda>totp. signed_in X u token new totp)))) S = (Inr out, S')"
    using assms u pw by (simp add: login_def signed_in_def)
  then have act: "us_state u = ''active''" and cont: "seq (update_user (us_id u) p) (\<lambda>_.
      seq (ask (\<lambda>S. get_active_totp_for_user S (us_id u))) (\<lambda>totp. signed_in X u token new totp)) S = (Inr out, S')"
    by (auto simp: seq_Inr [of "ensure_login_allowed u"] ensure_ok p_def)
  from cont obtain r S1 where up: "update_user (us_id u) p S = (Inr r, S1)"
    and rest: "signed_in X u token new (get_active_totp_for_user S1 (us_id u)) S1 = (Inr out, S')"
    by (rule seqE) simp
  have same: "get_active_totp_for_user S1 (us_id u) = get_active_totp_for_user S (us_id u)"
    "i_sessions S1 = i_sessions S" "i_now S1 = i_now S"
    using update_user_rows [OF up] same_rows_totp [OF update_user_rows [OF up]] by (simp_all add: same_rows_def)
  have "signs_in_as X S S' u token out"
  proof (cases "get_active_totp_for_user S1 (us_id u)")
    case None
    with rest have "issue_user_session_tokens X u token new S1 = (Inr out, S')" by (simp add: signed_in_def)
    then obtain row access where "out = SignedIn access token" "i_sessions S' = i_sessions S1 @ [row]"
      "se_user row = us_id u" "se_hash row = hash_opaque X token"
      by (rule issue_tokens_ok)
    then show ?thesis using None same by (simp add: signs_in_as_def)
  next
    case (Some t)
    with rest have "out = NeedsMfa token \<and> i_sessions S' = i_sessions S1"
      by (auto simp: signed_in_def seq_Inr create_mfa_challenge_def create_challenge_def check_Inr audit_def
          insert_audit_event_def split: if_splits)
    then show ?thesis using Some same by (simp add: signs_in_as_def)
  qed
  then show ?thesis using u pw act by blast
qed

subsection \<open>The second factor\<close>

lemma count_attempt_rows: "count_attempt a b S = (r, S') \<Longrightarrow> same_rows S S' \<and> i_users S' = i_users S"
  by (auto simp: count_attempt_def Let_def same_rows_def split: prod.splits if_splits)

lemma allow_attempt_rows:
  "mfa_allow_attempt uid ip S = (r, S') \<Longrightarrow> same_rows S S' \<and> i_users S' = i_users S"
  "mfa_allow_challenge_attempt cid S = (r, S') \<Longrightarrow> same_rows S S' \<and> i_users S' = i_users S"
  unfolding mfa_allow_attempt_def mfa_allow_challenge_attempt_def
  by (auto simp: Let_def dest: count_attempt_rows)

text \<open>What is left of a one-time code or a recovery code that was accepted.\<close>

definition code_shown :: "keyring \<Rightarrow> identity_db \<Rightarrow> user_row \<Rightarrow> totp_row \<Rightarrow> string option \<Rightarrow> bool" where
  "code_shown X S u t otp = (opt_or otp [] \<noteq> [] \<and>
     pbind (decrypt_mfa_secret X (tp_secret t)) (\<lambda>s. verify_totp_code X (i_now S) s (opt_or otp [])) = ok True)"

definition recovery_shown :: "keyring \<Rightarrow> identity_db \<Rightarrow> user_row \<Rightarrow> string option \<Rightarrow> bool" where
  "recovery_shown X S u recovery = (opt_or recovery [] \<noteq> [] \<and>
     list_ex (\<lambda>c. rv_user c = us_id u \<and> rv_hash c = hash_opaque X (normalize_recovery_code (opt_or recovery [])) \<and>
       rv_used c = None) (i_codes S))"

lemma check_otp_ok:
  "check_otp X t otp S = (Inr b, S') \<Longrightarrow> S' = S \<and> b = code_shown X S u t otp"
  by (auto simp: check_otp_def code_shown_def split: if_splits sum.splits)

lemma check_recovery_ok:
  assumes "check_recovery X (us_id u) recovery S = (Inr b, S')"
  shows "b = recovery_shown X S u recovery \<and> i_challenges S' = i_challenges S \<and> i_now S' = i_now S \<and>
    i_sessions S' = i_sessions S \<and> (b \<longrightarrow> \<not> recovery_shown X S' u recovery)"
  using assms
  by (auto simp: check_recovery_def recovery_shown_def consume_recovery_code_def list_ex_iff split: if_splits)

lemma same_rows_trans: "same_rows S S1 \<Longrightarrow> same_rows S1 S2 \<Longrightarrow> same_rows S S2"
  by (simp add: same_rows_def)

lemma reset_attempts_rows: "reset_attempts a b S = (r, S') \<Longrightarrow> r = Inr () \<and> same_rows S S'"
  by (auto simp: reset_attempts_def same_rows_def)

lemma mfa_passed_rows: "mfa_passed uid ip cid S = (Inr v, S') \<Longrightarrow> same_rows S S'"
  unfolding mfa_passed_def mfa_reset_attempts_def mfa_reset_challenge_attempts_def Let_def
  by (auto elim!: seqE dest!: reset_attempts_rows intro: same_rows_trans)

lemma mfa_failed_raises: "mfa_failed uid S \<noteq> (Inr x, S')"
  by (auto simp: mfa_failed_def audit_def insert_audit_event_def)

lemma second_factor_ok:
  assumes "verify_second_factor X u t cid otp recovery ip S = (Inr v, S')"
  shows "(code_shown X S u t otp \<or> recovery_shown X S u recovery \<and> \<not> recovery_shown X S' u recovery) \<and>
    i_challenges S' = i_challenges S \<and> i_sessions S' = i_sessions S \<and> i_now S' = i_now S"
proof -
  from assms obtain b S0 where otp: "check_otp X t otp S = (Inr b, S0)"
    and rest: "(if b then seq (mfa_passed (us_id u) ip cid) (\<lambda>_. seq (touch_totp_last_used (tp_id t)) (\<lambda>_.
        audit (Some (us_id u)) ''auth.mfa.verify'' (Some (us_id u)) ''success''))
      else seq (check_recovery X (us_id u) recovery) (\<lambda>ok_code.
        if ok_code then seq (mfa_passed (us_id u) ip cid) (\<lambda>_.
            audit (Some (us_id u)) ''auth.mfa.verify'' (Some (us_id u)) ''success'')
        else mfa_failed (us_id u))) S0 = (Inr v, S')"
    unfolding verify_second_factor_def by (rule seqE)
  have b: "S0 = S" "b = code_shown X S u t otp" using check_otp_ok [OF otp] by simp_all
  show ?thesis
  proof (cases b)
    case True
    with rest b have "seq (mfa_passed (us_id u) ip cid) (\<lambda>_. seq (touch_totp_last_used (tp_id t)) (\<lambda>_.
        audit (Some (us_id u)) ''auth.mfa.verify'' (Some (us_id u)) ''success'')) S = (Inr v, S')" by simp
    then obtain S1 where "mfa_passed (us_id u) ip cid S = (Inr (), S1)"
      and "i_challenges S' = i_challenges S1" "i_sessions S' = i_sessions S1" "i_now S' = i_now S1"
      by (rule seqE) (auto simp: touch_totp_last_used_def audit_def insert_audit_event_def)
    then show ?thesis using mfa_passed_rows [of "us_id u" ip cid S "()" S1] b(2) True by (simp add: same_rows_def)
  next
    case False
    with rest b have "seq (check_recovery X (us_id u) recovery) (\<lambda>ok_code.
        if ok_code then seq (mfa_passed (us_id u) ip cid) (\<lambda>_.
            audit (Some (us_id u)) ''auth.mfa.verify'' (Some (us_id u)) ''success'')
        else mfa_failed (us_id u)) S = (Inr v, S')" by simp
    then obtain S1 where rec: "check_recovery X (us_id u) recovery S = (Inr True, S1)"
      and "seq (mfa_passed (us_id u) ip cid) (\<lambda>_.
        audit (Some (us_id u)) ''auth.mfa.verify'' (Some (us_id u)) ''success'') S1 = (Inr v, S')"
      by (rule seqE) (auto simp: mfa_failed_raises split: if_splits)
    from this(2) obtain S2 where "mfa_passed (us_id u) ip cid S1 = (Inr (), S2)"
      and S': "i_challenges S' = i_challenges S2" "i_sessions S' = i_sessions S2" "i_now S' = i_now S2"
        "i_codes S' = i_codes S2"
      by (rule seqE) (auto simp: audit_def insert_audit_event_def)
    then have "same_rows S1 S2" by (auto dest: mfa_passed_rows)
    then show ?thesis using check_recovery_ok [OF rec] S' by (auto simp: recovery_shown_def same_rows_def)
  qed
qed

text \<open>The rest of an answer, once the challenge and the account have been found in order.\<close>

definition answered :: "keyring \<Rightarrow> user_row \<Rightarrow> totp_row \<Rightarrow> challenge_row \<Rightarrow> string option \<Rightarrow> string option \<Rightarrow>
    string option \<Rightarrow> string \<Rightarrow> string \<Rightarrow> login_outcome idact" where
  "answered X u t ch otp recovery ip refresh sid =
     seq (mfa_allow_challenge_attempt (ch_id ch)) (\<lambda>fine.
       if \<not> fine then mfa_failed (us_id u)
       else seq (mfa_allow_attempt (us_id u) ip) (\<lambda>fine'.
         if \<not> fine' then mfa_failed (us_id u)
         else seq (verify_second_factor X u t (ch_id ch) otp recovery ip) (\<lambda>_.
           issue_user_session_tokens X u refresh sid)))"

lemma complete_mfa_unfold:
  "complete_mfa_login X challenge otp recovery ip refresh sid =
     seq (check invalid_token (strip challenge \<noteq> [])) (\<lambda>_.
     seq (consume_open_mfa_challenge (hash_opaque X (strip challenge))) (\<lambda>found.
     case found of None \<Rightarrow> fail invalid_token
     | Some ch \<Rightarrow> seq (ask (\<lambda>S. get_user_by_id S (ch_user ch))) (\<lambda>user.
     case user of None \<Rightarrow> fail invalid_token
     | Some u \<Rightarrow> seq (ensure_login_allowed u) (\<lambda>_.
       seq (ask (\<lambda>S. get_active_totp_for_user S (us_id u))) (\<lambda>totp.
       case totp of None \<Rightarrow> fail invalid_token
       | Some t \<Rightarrow> answered X u t ch otp recovery ip refresh sid)))))"
  unfolding complete_mfa_login_def answered_def ..

lemma recovery_shown_rows: "same_rows S S' \<Longrightarrow> recovery_shown X S' u r = recovery_shown X S u r"
  by (simp add: recovery_shown_def same_rows_def)

lemma code_shown_rows: "same_rows S S' \<Longrightarrow> code_shown X S' u t otp = code_shown X S u t otp"
  by (simp add: code_shown_def same_rows_def)

lemma answered_ok:
  assumes "answered X u t ch otp recovery ip refresh sid S = (Inr out, S')"
  shows "(code_shown X S u t otp \<or> recovery_shown X S u recovery \<and> \<not> recovery_shown X S' u recovery) \<and>
    i_challenges S' = i_challenges S \<and>
    (\<exists>row. i_sessions S' = i_sessions S @ [row] \<and> se_user row = us_id u \<and> se_hash row = hash_opaque X refresh)"
proof -
  from assms obtain S1 where one: "mfa_allow_challenge_attempt (ch_id ch) S = (Inr True, S1)"
    and "seq (mfa_allow_attempt (us_id u) ip) (\<lambda>fine'. if \<not> fine' then mfa_failed (us_id u)
         else seq (verify_second_factor X u t (ch_id ch) otp recovery ip) (\<lambda>_.
           issue_user_session_tokens X u refresh sid)) S1 = (Inr out, S')"
    unfolding answered_def by (rule seqE) (auto simp: mfa_failed_raises split: if_splits)
  from this(2) obtain S2 where two: "mfa_allow_attempt (us_id u) ip S1 = (Inr True, S2)"
    and "seq (verify_second_factor X u t (ch_id ch) otp recovery ip) (\<lambda>_.
           issue_user_session_tokens X u refresh sid) S2 = (Inr out, S')"
    by (rule seqE) (auto simp: mfa_failed_raises split: if_splits)
  from this(2) obtain v S3 where ver: "verify_second_factor X u t (ch_id ch) otp recovery ip S2 = (Inr v, S3)"
    and iss: "issue_user_session_tokens X u refresh sid S3 = (Inr out, S')"
    by (rule seqE)
  have rows: "same_rows S S2"
    using allow_attempt_rows(2) [OF one] allow_attempt_rows(1) [OF two] same_rows_trans by blast
  have same: "code_shown X S2 u t otp = code_shown X S u t otp"
    "recovery_shown X S2 u recovery = recovery_shown X S u recovery"
    "i_challenges S2 = i_challenges S" "i_sessions S2 = i_sessions S"
    using code_shown_rows [OF rows] recovery_shown_rows [OF rows] rows [unfolded same_rows_def] by blast+
  from iss obtain row where row: "i_sessions S' = i_sessions S3 @ [row]" "se_user row = us_id u"
    "se_hash row = hash_opaque X refresh" "i_challenges S' = i_challenges S3" "i_codes S' = i_codes S3"
    by (rule issue_tokens_ok)
  have "recovery_shown X S' u recovery = recovery_shown X S3 u recovery"
    using row by (simp add: recovery_shown_def)
  with second_factor_ok [OF ver]
  have "(code_shown X S u t otp \<or> recovery_shown X S u recovery \<and> \<not> recovery_shown X S' u recovery) \<and>
      i_challenges S' = i_challenges S"
    unfolding same row(4) by blast
  moreover have "i_sessions S' = i_sessions S @ [row]"
    using second_factor_ok [OF ver] row(1) same(4) by simp
  ultimately show ?thesis using row(2,3) by blast
qed

lemma find_consumed:
  "find (open_challenge (now + int later) h) (map (\<lambda>c. if open_challenge now h c
     then c\<lparr>ch_consumed := Some now\<rparr> else c) xs) = None"
  by (induction xs) (simp_all add: open_challenge_def, fastforce)


subsection \<open>The secret of a second factor\<close>

lemma xor_byte: "xor (of_char c) (of_char d) < (256::nat)"
proof -
  have "take_bit 8 (xor (of_char c) (of_char d)) = (xor (of_char c) (of_char d) :: nat)"
    by (simp add: take_bit_xor) (simp add: take_bit_eq_mod)
  then show ?thesis using take_bit_nat_less_exp [of 8 "xor (of_char c) (of_char d)"] by simp
qed

lemma xor_stream_involution: "xor_stream key i (xor_stream key i s) = s"
  by (induction s arbitrary: i) (simp_all add: xor_byte xor.assoc of_char_of)

text \<open>
  The secret of a second factor is read back as it was stored, for every secret of ASCII letters.
\<close>

theorem mfa_secret_roundtrip:
  assumes "list_all is_ascii secret" and "mfa_cipher_key X \<noteq> []"
  shows "decrypt_mfa_secret X (encrypt_mfa_secret X secret) = ok secret"
  using assms(1)
  by (simp add: decrypt_mfa_secret_def encrypt_mfa_secret_def Let_def b64_decode_encode xor_stream_involution
      utf8_ascii)

end
