(* ===== verification/Access.thy ===== *)
theory Access
  imports Identity WorkerTasks
begin

text \<open>
  Model of the authorization layer: \<^verbatim>\<open>governance/auth_service.py\<close> (who the bearer of a token is and
  what the caller may do in a project), the scope functions of \<^verbatim>\<open>identity_service.py\<close>,
  \<^verbatim>\<open>project_service.py\<close>, \<^verbatim>\<open>scope_context_service.py\<close>, \<^verbatim>\<open>process_rbac_service.py\<close>,
  \<^verbatim>\<open>environment_rbac_service.py\<close> and \<^verbatim>\<open>model_stakeholder_service.py\<close>. Verifying a JWT is an argument, as
  are the keys fetched from an identity provider; the identity tables exist.
\<close>

subsection \<open>Projects and tenants\<close>

text \<open>
  \<open>dy_sources\<close> are the tenant and project columns of the tables \<open>_PROJECT_SOURCES\<close>, \<open>dy_catalog\<close> the rows
  of \<open>tenant_projects\<close>: tenant, project, name.
\<close>

record scope_override =
  ov_subject :: string
  ov_tenant :: string
  ov_project :: string
  ov_version :: int
  ov_updated :: int

record stakeholder_row =
  sk_tenant :: string
  sk_project :: string
  sk_model :: string
  sk_user :: string
  sk_role :: string

record directory =
  dy_sources :: "(string \<times> string) list list"
  dy_catalog :: "(string \<times> string \<times> string) list"
  dy_overrides :: "scope_override list"
  dy_stakeholders :: "stakeholder_row list"

definition reserved_project :: "string \<Rightarrow> bool" where
  "reserved_project pid = (lower pid \<in> {''all'', ''global''})"

definition project_limit :: "int \<Rightarrow> nat" where
  "project_limit limit = nat (max 1 (min (if limit = 0 then 50 else limit) 500))"

text \<open>\<open>SELECT DISTINCT column ... ORDER BY column LIMIT n\<close>\<close>

definition select_distinct :: "nat \<Rightarrow> string list \<Rightarrow> string list" where
  "select_distinct n xs = take n (sort (remdups xs))"

definition load_registry_project_names :: "directory \<Rightarrow> string \<Rightarrow> int \<Rightarrow> (string \<times> string) list" where
  "load_registry_project_names D tenant limit =
     (let tid = strip tenant in
      if tid = [] then []
      else fold (\<lambda>(pid, name) out. if strip pid = [] \<or> reserved_project (strip pid) then out
             else dset (strip pid) (if strip name = [] then strip pid else strip name) out)
           (take (project_limit limit) (sort_key fst (map snd (filter (\<lambda>(t, row). t = tid) (dy_catalog D))))) [])"

definition discovered_projects :: "directory \<Rightarrow> string \<Rightarrow> nat \<Rightarrow> string list" where
  "discovered_projects D tenant n =
     filter (\<lambda>p. p \<noteq> [] \<and> \<not> reserved_project p) (map strip (concat (map
       (\<lambda>rows. select_distinct n (map snd (filter (\<lambda>(t, p). t = tenant) rows))) (dy_sources D))))"

definition list_projects :: "directory \<Rightarrow> string \<Rightarrow> int \<Rightarrow> (string \<times> string) list" where
  "list_projects D tenant limit =
     (let names = load_registry_project_names D tenant limit;
          merged = sort (remdups (map fst names @ discovered_projects D tenant (project_limit limit)))
      in map (\<lambda>pid. (pid, case map_of names pid of None \<Rightarrow> pid | Some n \<Rightarrow> n)) (take (project_limit limit) merged))"

definition load_registry_tenant_ids :: "directory \<Rightarrow> int \<Rightarrow> string list" where
  "load_registry_tenant_ids D limit =
     filter (\<lambda>t. t \<noteq> []) (map strip (select_distinct (project_limit limit)
       (filter (\<lambda>t. t \<noteq> []) (map fst (dy_catalog D)))))"

definition list_tenants :: "directory \<Rightarrow> int \<Rightarrow> string list" where
  "list_tenants D limit =
     take (project_limit limit) (sort (remdups (filter (\<lambda>t. t \<noteq> []) (map strip (concat (map
       (\<lambda>rows. select_distinct (project_limit limit) (filter (\<lambda>t. t \<noteq> []) (map fst rows))) (dy_sources D))))
       @ load_registry_tenant_ids D limit)))"

definition register_project ::
    "string \<Rightarrow> string \<Rightarrow> string option \<Rightarrow> directory \<Rightarrow> (string \<times> string \<times> string) py \<times> directory" where
  "register_project tenant project name D =
     (let tid = strip tenant; pid = strip project;
          shown = (if strip (opt_or name []) = [] then pid else strip (opt_or name [])) in
      if tid = [] \<or> pid = [] then (raise (ValueError ''tenant_id and project_id are required''), D)
      else if reserved_project pid then (raise (ValueError ''project_id is reserved''), D)
      else (ok (tid, pid, shown), D\<lparr>dy_catalog :=
        (if list_ex (\<lambda>(t, p, n). t = tid \<and> p = pid) (dy_catalog D)
         then map (\<lambda>(t, p, n). (t, p, if t = tid \<and> p = pid then shown else n)) (dy_catalog D)
         else dy_catalog D @ [(tid, pid, shown)])\<rparr>))"

subsection \<open>What a user may do\<close>

definition role_weight :: "(string \<times> nat) list" where
  "role_weight = [(''viewer'', 1), (''approver'', 2), (''maintainer'', 2), (''admin'', 3)]"

definition weight_or :: "nat \<Rightarrow> string \<Rightarrow> nat" where
  "weight_or n role = (case map_of role_weight role of None \<Rightarrow> n | Some k \<Rightarrow> k)"

text \<open>Tenant, project and role.\<close>

type_synonym scope_grant = "string \<times> string \<times> string"

definition assignment_scopes :: "directory \<Rightarrow> assignment \<Rightarrow> scope_grant list" where
  "assignment_scopes D a =
     (if ra_all a
      then map (\<lambda>pid. (ra_tenant a, pid, ra_role a)) (filter (\<lambda>p. p \<noteq> [])
             (map (\<lambda>(pid, name). strip pid) (list_projects D (ra_tenant a) 500)))
      else map (\<lambda>pid. (ra_tenant a, pid, ra_role a)) (ra_projects a))"

definition accessible_scopes_for_user :: "directory \<Rightarrow> identity_db \<Rightarrow> user_row \<Rightarrow> scope_grant list" where
  "accessible_scopes_for_user D S u =
     (if us_admin u then [(''*'', ''*'', ''admin'')]
      else concat (map (assignment_scopes D) (list_assignments_for_user S (us_id u))))"

text \<open>The role of the greatest weight, the first of those.\<close>

fun best_role :: "string \<Rightarrow> string \<Rightarrow> nat \<Rightarrow> string option \<Rightarrow> scope_grant list \<Rightarrow> string option" where
  "best_role tenant project best role [] = role"
| "best_role tenant project best role ((t, p, r) # rest) =
     (if t = tenant \<and> p = project \<and> best < weight_or 0 r
      then best_role tenant project (weight_or 0 r) (Some r) rest
      else best_role tenant project best role rest)"

definition effective_role_for_scope ::
    "directory \<Rightarrow> identity_db \<Rightarrow> user_row \<Rightarrow> string \<Rightarrow> string \<Rightarrow> string option" where
  "effective_role_for_scope D S u tenant project =
     (if us_admin u then Some ''admin''
      else best_role tenant project 0 None (accessible_scopes_for_user D S u))"

definition authorize_user_scope ::
    "directory \<Rightarrow> identity_db \<Rightarrow> string \<Rightarrow> string \<Rightarrow> string \<Rightarrow> string \<Rightarrow> string py" where
  "authorize_user_scope D S uid tenant project min_role =
     (case get_user_by_id S uid of
        None \<Rightarrow> raise forbidden
      | Some u \<Rightarrow> (case effective_role_for_scope D S u tenant project of
            None \<Rightarrow> raise insufficient_scope
          | Some role \<Rightarrow> if role = [] \<or> weight_or 0 role < weight_or 1 min_role
              then raise insufficient_scope else ok role))"

subsection \<open>What a service account may do\<close>

definition sa_has_permission :: "identity_db \<Rightarrow> string \<Rightarrow> string \<Rightarrow> bool" where
  "sa_has_permission S a p = (p \<in> set (list_sa_permissions S a))"

definition sa_has_scope :: "identity_db \<Rightarrow> string \<Rightarrow> string \<Rightarrow> string \<Rightarrow> bool" where
  "sa_has_scope S a tenant project =
     list_ex (\<lambda>s. sc_tenant s = tenant \<and> (sc_all s \<or> project \<in> set (sc_projects s))) (list_sa_scopes S a)"

definition sa_is_platform_automation :: "identity_db \<Rightarrow> string \<Rightarrow> bool" where
  "sa_is_platform_automation S a = list_all (\<lambda>p. p \<in> set (list_sa_permissions S a)) permission_catalog"

definition sa_has_worker_permissions :: "identity_db \<Rightarrow> string \<Rightarrow> bool" where
  "sa_has_worker_permissions S a = (''tasks:lease'' \<in> set (list_sa_permissions S a))"

definition authorize_service_account_scope ::
    "identity_db \<Rightarrow> string \<Rightarrow> string \<Rightarrow> string \<Rightarrow> string \<Rightarrow> string py" where
  "authorize_service_account_scope S a tenant project min_role =
     (if \<not> sa_has_scope S a tenant project then raise insufficient_scope
      else if min_role = ''admin'' then raise forbidden
      else if sa_is_platform_automation S a then
        if weight_or 1 min_role \<le> weight_or 0 ''maintainer'' then ok ''maintainer'' else raise insufficient_scope
      else raise insufficient_scope)"

subsection \<open>The caller\<close>

text \<open>\<open>Principal\<close>; \<open>permissions=None\<close> is the empty list.\<close>

record caller =
  cl_token :: string
  cl_subject :: string
  cl_issuer :: string
  cl_version :: int
  cl_role :: string
  cl_tenant :: string
  cl_projects :: "string list"
  cl_kind :: string
  cl_user :: "string option"
  cl_account :: "string option"
  cl_admin :: bool
  cl_permissions :: "string list"

text \<open>
  The settings of authentication and the verification of tokens: what \<open>jwt.decode\<close> returns for a token at
  a time (in seconds), \<open>None\<close> for \<open>InvalidTokenError\<close>; the keys are those of the provider.
\<close>

record gate =
  gt_legacy :: bool
  gt_tokens_json :: string
  gt_default_tenant :: string
  gt_worker_token :: string
  gt_hs_secret :: string
  gt_header :: "string \<Rightarrow> pydict option"
  gt_hs256 :: "string \<Rightarrow> int \<Rightarrow> pydict option"
  gt_rs256 :: "pydict \<Rightarrow> string \<Rightarrow> int \<Rightarrow> pydict option py"
  gt_jwks :: pydict
  gt_identity_jwt :: "string \<Rightarrow> int \<Rightarrow> pydict option"
  gt_ticket_jwt :: "string \<Rightarrow> int \<Rightarrow> pydict option"

definition bearer_error :: "string \<Rightarrow> pyerr" where
  "bearer_error detail = HTTPException 401 detail"

definition denied :: "string \<Rightarrow> pyerr" where
  "denied detail = HTTPException 403 detail"

definition extract_bearer_token :: "string option \<Rightarrow> string py" where
  "extract_bearer_token auth =
     (let text = opt_or auth []; token = strip (drop 7 text) in
      if text = [] then raise (bearer_error ''missing_authorization'')
      else if \<not> startswith text ''Bearer '' then raise (bearer_error ''invalid_authorization_scheme'')
      else if token = [] then raise (bearer_error ''empty_token'')
      else ok token)"

definition default_tokens :: "gate \<Rightarrow> pydict" where
  "default_tokens G =
     (if \<not> gt_legacy G then []
      else [(''viewer-token'', VDict [(''role'', VStr ''viewer''), (''tenant_id'', VStr ''default''),
               (''project_ids'', VList [VStr ''default_project''])]),
            (''maintainer-token'', VDict [(''role'', VStr ''maintainer''), (''tenant_id'', VStr ''default''),
               (''project_ids'', VList [VStr ''default_project''])]),
            (''admin-token'', VDict [(''role'', VStr ''admin''), (''tenant_id'', VStr ''default''),
               (''project_ids'', VList [VStr ''*''])])])"

definition token_db :: "gate \<Rightarrow> pydict" where
  "token_db G =
     (if gt_tokens_json G = [] then default_tokens G
      else (case json_loads (gt_tokens_json G) of
          Some (VDict d) \<Rightarrow> d | _ \<Rightarrow> default_tokens G))"

text \<open>\<open>str(a or b or c).strip() or c\<close>\<close>

definition stripped_or :: "pyval \<Rightarrow> string \<Rightarrow> string" where
  "stripped_or v dflt = (let s = strip (str_or v dflt) in if s = [] then dflt else s)"

definition mapping_version_of :: "pydict \<Rightarrow> int py" where
  "mapping_version_of d =
     (case py_int (dget_or d ''scope_mapping_version'' (dget_or d ''mapping_version'' (VInt 1))) of
        Inr n \<Rightarrow> ok (max 1 n)
      | Inl TypeError \<Rightarrow> ok 1
      | Inl (ValueError m) \<Rightarrow> ok 1
      | Inl e \<Rightarrow> raise e)"

definition principal_from_token_data :: "string \<Rightarrow> pydict \<Rightarrow> string \<Rightarrow> caller py" where
  "principal_from_token_data token d issuer =
     (let role = lower (py_str (dget_or d ''role'' (VStr ''viewer''))) in
      if map_of role_weight role = None then raise (denied ''invalid_role'')
      else pbind (mapping_version_of d) (\<lambda>version. ok \<lparr>
        cl_token = token,
        cl_subject = stripped_or (por (dget d ''sub'') (dget d ''subject'')) token,
        cl_issuer = stripped_or (dget d ''iss'') issuer,
        cl_version = version, cl_role = role, cl_tenant = py_str (dget_or d ''tenant_id'' (VStr [])),
        cl_projects = (case dget_or d ''project_ids'' (VList []) of
            VStr s \<Rightarrow> [s] | VList xs \<Rightarrow> map py_str xs | _ \<Rightarrow> []),
        cl_kind = ''legacy'', cl_user = None, cl_account = None, cl_admin = False, cl_permissions = []\<rparr>))"

text \<open>Where a user is at home: the first scope, with the projects of its tenant.\<close>

definition user_home :: "gate \<Rightarrow> directory \<Rightarrow> identity_db \<Rightarrow> user_row \<Rightarrow> string \<times> string \<times> string list" where
  "user_home G D S u =
     (if us_admin u then (''admin'', gt_default_tenant G, [''*''])
      else (case accessible_scopes_for_user D S u of
          [] \<Rightarrow> (''viewer'', gt_default_tenant G, [])
        | (tenant, project, role) # rest \<Rightarrow>
            (if role = [] then ''viewer'' else role, tenant,
             remdups (map (\<lambda>(t, p, r). p) (filter (\<lambda>(t, p, r). t = tenant) ((tenant, project, role) # rest))))))"

definition user_caller :: "gate \<Rightarrow> directory \<Rightarrow> identity_db \<Rightarrow> string \<Rightarrow> string \<Rightarrow> string \<Rightarrow> user_row \<Rightarrow> caller" where
  "user_caller G D S issuer token uid u =
     (let (role, tenant, projects) = user_home G D S u in
      \<lparr>cl_token = token, cl_subject = uid, cl_issuer = issuer, cl_version = 1, cl_role = role,
       cl_tenant = tenant, cl_projects = projects, cl_kind = ''user'', cl_user = Some uid,
       cl_account = None, cl_admin = us_admin u, cl_permissions = []\<rparr>)"

definition principal_from_pat_user :: "gate \<Rightarrow> directory \<Rightarrow> string \<Rightarrow> user_row \<Rightarrow> caller idact" where
  "principal_from_pat_user G D token u =
     seq (check (bearer_error ''invalid_token'') (strip (us_id u) \<noteq> [])) (\<lambda>_.
       ask (\<lambda>S. user_caller G D S ''personal_access_token'' token (strip (us_id u)) u))"

definition principal_from_identity_user :: "gate \<Rightarrow> directory \<Rightarrow> string \<Rightarrow> pydict \<Rightarrow> caller idact" where
  "principal_from_identity_user G D token payload =
     seq (ask (\<lambda>S. get_user_by_id S (strip (str_or (dget payload ''sub'') [])))) (\<lambda>user.
     case user of None \<Rightarrow> fail (bearer_error ''invalid_token'')
     | Some u \<Rightarrow>
         seq (check (denied ''account_disabled'') (us_state u = ''active'' \<or> us_admin u)) (\<lambda>_.
         seq (assert_access_session_valid payload) (\<lambda>_.
           ask (\<lambda>S. user_caller G D S ''identity_jwt'' token (us_id u) u))))"

definition principal_from_service_account :: "string \<Rightarrow> string \<Rightarrow> identity_db \<Rightarrow> caller" where
  "principal_from_service_account token a S =
     (let scopes = list_sa_scopes S a in
      \<lparr>cl_token = token, cl_subject = a, cl_issuer = ''service_account'', cl_version = 1,
       cl_role = ''maintainer'',
       cl_tenant = (case scopes of [] \<Rightarrow> [] | s # _ \<Rightarrow> sc_tenant s),
       cl_projects = (case scopes of [] \<Rightarrow> [] | s # _ \<Rightarrow> if sc_all s then [''*''] else sc_projects s),
       cl_kind = ''service_account'', cl_user = None, cl_account = Some a, cl_admin = False,
       cl_permissions = list_sa_permissions S a\<rparr>)"

subsection \<open>Tokens of other issuers\<close>

definition chosen_key :: "pyval list \<Rightarrow> string option \<Rightarrow> pydict option" where
  "chosen_key keys kid =
     (case (if opt_or kid [] = [] then None
            else find (\<lambda>k. case k of VDict d \<Rightarrow> dget d ''kid'' = VStr (opt_or kid []) | _ \<Rightarrow> False) keys) of
        Some (VDict d) \<Rightarrow> Some d
      | _ \<Rightarrow> (case keys of VDict d # _ \<Rightarrow> if d = [] then None else Some d | _ \<Rightarrow> None))"

definition decode_rs256_with_jwks :: "gate \<Rightarrow> string \<Rightarrow> int \<Rightarrow> string option \<Rightarrow> pydict option py" where
  "decode_rs256_with_jwks G token now kid =
     (case dget_or (gt_jwks G) ''keys'' (VList []) of
        VList keys \<Rightarrow> (case chosen_key keys kid of None \<Rightarrow> ok None | Some k \<Rightarrow> gt_rs256 G k token now)
      | _ \<Rightarrow> ok None)"

definition decode_jwt_token :: "gate \<Rightarrow> string \<Rightarrow> int \<Rightarrow> pydict option py" where
  "decode_jwt_token G token now =
     (if length (filter (\<lambda>c. c = CHR ''.'') token) \<noteq> 2 then ok None
      else (case gt_header G token of
          None \<Rightarrow> ok None
        | Some header \<Rightarrow>
            let alg = upper (py_str (dget_or header ''alg'' (VStr []))) in
            if alg = ''HS256'' then ok (if gt_hs_secret G = [] then None else gt_hs256 G token now)
            else if alg = ''RS256'' then decode_rs256_with_jwks G token now
              (case dget header ''kid'' of VStr k \<Rightarrow> Some k | _ \<Rightarrow> None)
            else ok None))"

subsection \<open>Authentication\<close>

text \<open>A refusal with status 401 and every other exception move on to the next kind of token.\<close>

definition attempt :: "'a idact \<Rightarrow> 'a option idact" where
  "attempt m S = (case m S of
     (Inr x, S') \<Rightarrow> (ok (Some x), S')
   | (Inl (HTTPException st d), S') \<Rightarrow> if st = 401 then (ok None, S') else (raise (HTTPException st d), S')
   | (Inl e, S') \<Rightarrow> (ok None, S'))"

definition decode_identity_access_token :: "gate \<Rightarrow> string \<Rightarrow> int \<Rightarrow> pydict py" where
  "decode_identity_access_token G token now =
     (case gt_identity_jwt G token now of
        None \<Rightarrow> raise invalid_token
      | Some payload \<Rightarrow> if py_str (dget payload ''principal_type'') = ''USER'' then ok payload
          else raise invalid_token)"

definition by_access_token :: "gate \<Rightarrow> directory \<Rightarrow> string \<Rightarrow> caller option idact" where
  "by_access_token G D token =
     attempt (seq (ask i_now) (\<lambda>now. case decode_identity_access_token G token (now div 1000000) of
         Inl e \<Rightarrow> fail e | Inr payload \<Rightarrow> principal_from_identity_user G D token payload))"

definition by_secret :: "keyring \<Rightarrow> gate \<Rightarrow> directory \<Rightarrow> string \<Rightarrow> caller option idact" where
  "by_secret X G D token =
     seq (authenticate_sa_secret X token) (\<lambda>sa.
     case sa of
       Some a \<Rightarrow> ask (\<lambda>S. Some (principal_from_service_account token a S))
     | None \<Rightarrow> seq (authenticate_pat X token) (\<lambda>pat.
         case pat of None \<Rightarrow> give None
         | Some u \<Rightarrow> seq (principal_from_pat_user G D token u) (\<lambda>c. give (Some c))))"

definition by_jwt :: "gate \<Rightarrow> directory \<Rightarrow> string \<Rightarrow> caller option idact" where
  "by_jwt G D token =
     seq (ask i_now) (\<lambda>now.
     case decode_jwt_token G token (now div 1000000) of
       Inl e \<Rightarrow> fail e
     | Inr None \<Rightarrow> give None
     | Inr (Some payload) \<Rightarrow>
         if str_or (dget payload ''iss'') [] = ''mlair-identity''
         then seq (principal_from_identity_user G D token payload) (\<lambda>c. give (Some c))
         else (case principal_from_token_data token payload ''jwt'' of Inl e \<Rightarrow> fail e | Inr c \<Rightarrow> give (Some c)))"

definition by_static_token :: "gate \<Rightarrow> string \<Rightarrow> caller option idact" where
  "by_static_token G token =
     (if \<not> gt_legacy G then give None
      else (case dget (token_db G) token of
          VDict d \<Rightarrow> if d = [] then give None
            else (case principal_from_token_data token d ''static_token'' of
                Inl e \<Rightarrow> fail e | Inr c \<Rightarrow> give (Some c))
        | v \<Rightarrow> if truthy v then fail (RuntimeError ''AttributeError'') else give None))"

definition or_else :: "'a option idact \<Rightarrow> 'a option idact \<Rightarrow> 'a option idact" where
  "or_else m n = seq m (\<lambda>r. case r of Some x \<Rightarrow> give (Some x) | None \<Rightarrow> n)"

definition authenticate_bearer :: "keyring \<Rightarrow> gate \<Rightarrow> directory \<Rightarrow> string option \<Rightarrow> caller idact" where
  "authenticate_bearer X G D auth =
     (case extract_bearer_token auth of
        Inl e \<Rightarrow> fail e
      | Inr token \<Rightarrow>
          seq (or_else (by_access_token G D token) (or_else (by_secret X G D token)
            (or_else (by_jwt G D token) (by_static_token G token)))) (\<lambda>found.
          case found of None \<Rightarrow> fail (bearer_error ''invalid_token'') | Some c \<Rightarrow> give c))"

definition worker_token_shown :: "gate \<Rightarrow> string option \<Rightarrow> bool" where
  "worker_token_shown G auth =
     (gt_legacy G \<and> gt_worker_token G \<noteq> [] \<and> extract_bearer_token auth = ok (gt_worker_token G))"

text \<open>\<open>None\<close> is the worker token of the platform.\<close>

definition authenticate_worker_lease_principal ::
    "keyring \<Rightarrow> gate \<Rightarrow> directory \<Rightarrow> string option \<Rightarrow> caller option idact" where
  "authenticate_worker_lease_principal X G D auth =
     (if worker_token_shown G auth then give None
      else seq (authenticate_bearer X G D auth) (\<lambda>c.
        if cl_kind c = ''service_account'' \<and> opt_or (cl_account c) [] \<noteq> [] then
          seq (ask (\<lambda>S. sa_has_worker_permissions S (opt_or (cl_account c) []) \<and>
              sa_has_permission S (opt_or (cl_account c) []) ''tasks:lease'')) (\<lambda>fine.
          seq (check (denied ''insufficient_role'') fine) (\<lambda>_. give (Some c)))
        else seq (check (denied ''insufficient_role'')
            (weight_or 0 ''maintainer'' \<le> weight_or 0 (cl_role c))) (\<lambda>_. give (Some c))))"

text \<open>What the worker protocol reads of the caller.\<close>

definition worker_principal :: "caller \<Rightarrow> principal" where
  "worker_principal c = \<lparr>p_tenant = cl_tenant c, p_projects = cl_projects c\<rparr>"

subsection \<open>Tickets of a websocket\<close>

definition ticket_claims ::
    "string \<Rightarrow> string \<Rightarrow> string \<Rightarrow> string \<Rightarrow> string option \<Rightarrow> bool \<Rightarrow> string \<Rightarrow> int \<Rightarrow> pydict" where
  "ticket_claims subject tenant project role user admin jti secs =
     [(''sub'', VStr subject), (''principal_type'', VStr ''WS_TICKET''), (''tenant_id'', VStr tenant),
      (''project_id'', VStr project), (''role'', VStr role),
      (''user_id'', case user of None \<Rightarrow> VNone | Some u \<Rightarrow> VStr u), (''is_global_admin'', VBool admin),
      (''iss'', VStr ''mlair-identity''), (''aud'', VStr ''mlair-websocket''), (''jti'', VStr jti),
      (''iat'', VInt secs), (''exp'', VInt (secs + 30))]"

definition decode_websocket_ticket :: "gate \<Rightarrow> string \<Rightarrow> int \<Rightarrow> pydict py" where
  "decode_websocket_ticket G token now =
     (case gt_ticket_jwt G token now of
        None \<Rightarrow> raise invalid_token
      | Some payload \<Rightarrow> if dget payload ''principal_type'' = VStr ''WS_TICKET'' then ok payload else raise invalid_token)"

definition authenticate_websocket_ticket :: "gate \<Rightarrow> string \<Rightarrow> int \<Rightarrow> caller py" where
  "authenticate_websocket_ticket G token now =
     pbind (decode_websocket_ticket G (strip token) now) (\<lambda>d. ok \<lparr>
       cl_token = [], cl_subject = py_str (dget d ''sub''), cl_issuer = ''ws_ticket'', cl_version = 1,
       cl_role = py_str (dget d ''role''), cl_tenant = py_str (dget d ''tenant_id''),
       cl_projects = [py_str (dget d ''project_id'')], cl_kind = ''ws_ticket'',
       cl_user = some_nonempty (strip (str_or (dget d ''user_id'') [])), cl_account = None,
       cl_admin = truthy (dget d ''is_global_admin''), cl_permissions = []\<rparr>)"

subsection \<open>Authorization\<close>

text \<open>The caller is returned as the code leaves it, with the role it has in the project.\<close>

definition authorize_scope ::
    "directory \<Rightarrow> identity_db \<Rightarrow> caller \<Rightarrow> string \<Rightarrow> string \<Rightarrow> string \<Rightarrow> caller py" where
  "authorize_scope D S c tenant project min_role =
     (if cl_kind c = ''user'' \<and> opt_or (cl_user c) [] \<noteq> [] then
        pbind (authorize_user_scope D S (opt_or (cl_user c) []) tenant project min_role)
          (\<lambda>role. ok (c\<lparr>cl_role := role, cl_tenant := tenant\<rparr>))
      else if cl_kind c = ''service_account'' \<and> opt_or (cl_account c) [] \<noteq> [] then
        pbind (authorize_service_account_scope S (opt_or (cl_account c) []) tenant project min_role)
          (\<lambda>role. ok (c\<lparr>cl_role := role, cl_tenant := tenant\<rparr>))
      else if weight_or 0 (cl_role c) < weight_or 1 min_role then raise (denied ''insufficient_role'')
      else if cl_tenant c \<noteq> [] \<and> cl_tenant c \<noteq> tenant then raise (denied ''tenant_forbidden'')
      else if cl_projects c \<noteq> [] \<and> ''*'' \<notin> set (cl_projects c) \<and> project \<notin> set (cl_projects c)
      then raise (denied ''project_forbidden'')
      else ok c)"

definition authorize_environment_scope ::
    "directory \<Rightarrow> identity_db \<Rightarrow> caller \<Rightarrow> string \<Rightarrow> string \<Rightarrow> string option \<Rightarrow> string \<Rightarrow> caller py" where
  "authorize_environment_scope D S c tenant project environment min_role =
     pbind (authorize_scope D S c tenant project min_role) (\<lambda>c'.
       let env = lower (strip (opt_or environment [])) in
       if opt_or environment [] = [] then ok c'
       else if env \<notin> {''development'', ''staging'', ''production'', ''sandbox''}
       then raise (HTTPException 400 ''UNKNOWN_ENVIRONMENT'')
       else if env \<in> {''production'', ''staging''} \<and> min_role = ''viewer''
       then authorize_scope D S c' tenant project ''maintainer''
       else ok c')"

subsection \<open>Stakeholders of a model\<close>

definition user_has_stakeholder_role :: "directory \<Rightarrow> string \<Rightarrow> string \<Rightarrow> string \<Rightarrow> bool" where
  "user_has_stakeholder_role D model user role =
     (user \<noteq> [] \<and> list_ex (\<lambda>s. sk_model s = model \<and> sk_user s = user \<and> sk_role s = lower (strip role))
        (dy_stakeholders D))"

definition user_is_executor_stakeholder :: "directory \<Rightarrow> string \<Rightarrow> string \<Rightarrow> bool" where
  "user_is_executor_stakeholder D model user = user_has_stakeholder_role D model user ''executor''"

fun stakeholder_keys :: "(string \<times> string) list \<Rightarrow> (string \<times> string) list \<Rightarrow> (string \<times> string) list py" where
  "stakeholder_keys seen [] = ok []"
| "stakeholder_keys seen ((user, role) # rest) =
     (let uid = strip user; r = lower (strip role) in
      if uid = [] \<or> r \<notin> {''owner'', ''reviewer'', ''executor'', ''approver''}
      then raise (ValueError ''invalid_stakeholder_assignment'')
      else if (uid, r) \<in> set seen then stakeholder_keys seen rest
      else pbind (stakeholder_keys ((uid, r) # seen) rest) (\<lambda>keys. ok ((uid, r) # keys)))"

definition replace_model_stakeholders ::
    "string \<Rightarrow> string \<Rightarrow> string \<Rightarrow> (string \<times> string) list \<Rightarrow> directory \<Rightarrow> unit py \<times> directory" where
  "replace_model_stakeholders tenant project model items D =
     (case stakeholder_keys [] items of
        Inl e \<Rightarrow> (Inl e, D)
      | Inr keys \<Rightarrow> (ok (), D\<lparr>dy_stakeholders :=
          filter (\<lambda>s. \<not> (sk_tenant s = tenant \<and> sk_project s = project \<and> sk_model s = model)) (dy_stakeholders D) @
          map (\<lambda>(uid, r). \<lparr>sk_tenant = tenant, sk_project = project, sk_model = model, sk_user = uid,
            sk_role = r\<rparr>) keys\<rparr>))"

subsection \<open>Decisions about a model version\<close>

definition effective_scope_role ::
    "directory \<Rightarrow> identity_db \<Rightarrow> caller \<Rightarrow> string \<Rightarrow> string \<Rightarrow> string py" where
  "effective_scope_role D S c tenant project =
     (if cl_admin c \<or> cl_role c = ''admin'' then ok ''admin''
      else if cl_kind c = ''user'' \<and> opt_or (cl_user c) [] \<noteq> []
      then authorize_user_scope D S (opt_or (cl_user c) []) tenant project ''viewer''
      else pbind (authorize_scope D S c tenant project ''viewer'') (\<lambda>c'. ok (cl_role c')))"

definition process_actions :: "string list" where
  "process_actions = [''model.review'', ''model.approve'', ''model.reject'', ''model.promote'',
     ''model.stakeholder.manage'']"

definition authorize_model_process_action ::
    "directory \<Rightarrow> identity_db \<Rightarrow> caller \<Rightarrow> string \<Rightarrow> string \<Rightarrow> string \<Rightarrow> string \<Rightarrow> unit py" where
  "authorize_model_process_action D S c tenant project model action =
     (let act = lower (strip action) in
      if act \<notin> set process_actions then raise (denied ''unknown_process_action'')
      else pbind (effective_scope_role D S c tenant project) (\<lambda>role.
        let uid = (if cl_kind c = ''user'' then opt_or (cl_user c) [] else []);
            admin = (cl_admin c \<or> role = ''admin'');
            maintainer = (weight_or 0 ''maintainer'' \<le> weight_or 0 role);
            has = user_has_stakeholder_role D model uid
        in if act = ''model.stakeholder.manage''
           then (if admin \<or> maintainer then ok () else raise (denied ''stakeholder_manage_forbidden''))
           else if act = ''model.promote''
           then (if admin \<or> maintainer then ok () else raise (denied ''promote_forbidden''))
           else if act = ''model.reject''
           then (if admin then ok ()
             else if uid \<noteq> [] \<and> (has ''reviewer'' \<or> has ''approver'' \<or> role = ''approver'' \<or> maintainer) then ok ()
             else raise (denied ''reject_forbidden''))
           else if act = ''model.review''
           then (if admin then ok () else if uid \<noteq> [] \<and> has ''reviewer'' then ok ()
             else if maintainer then ok () else raise (denied ''review_forbidden''))
           else (if admin then ok ()
             else if uid \<noteq> [] \<and> user_is_executor_stakeholder D model uid
             then raise (denied ''separation_of_duties_executor_cannot_approve'')
             else if uid \<noteq> [] \<and> has ''approver'' then ok ()
             else if role = ''approver'' then ok ()
             else if maintainer then ok () else raise (denied ''approve_forbidden''))))"

end
