(* ===== verification/Scopes.thy ===== *)
theory Scopes
  imports Access
begin

text \<open>
  Model of \<^verbatim>\<open>governance/scope_context_service.py\<close>: the scopes a caller is shown, the scope it has chosen,
  and the version that tells a client its scopes are stale.
\<close>

definition list_catalog_accessible_scopes :: "directory \<Rightarrow> string \<Rightarrow> scope_grant list" where
  "list_catalog_accessible_scopes D role =
     concat (map (\<lambda>tid. let pids = filter (\<lambda>p. p \<noteq> []) (map (\<lambda>(p, n). strip p) (list_projects D tid 500))
         in map (\<lambda>pid. (tid, pid, role)) (if pids = [] then [''default_project''] else pids))
       (filter (\<lambda>t. t \<noteq> []) (map strip (list_tenants D 500))))"

definition legacy_catalog_wide :: "caller \<Rightarrow> bool" where
  "legacy_catalog_wide c = (cl_role c = ''admin'' \<and> ''*'' \<in> set (cl_projects c))"

definition account_scopes :: "directory \<Rightarrow> account_scope \<Rightarrow> scope_grant list" where
  "account_scopes D s =
     (let tid = strip (sc_tenant s) in
      if tid = [] then []
      else map (\<lambda>pid. (tid, pid, ''maintainer'')) (filter (\<lambda>p. p \<noteq> [])
        (map strip (if sc_all s then map fst (list_projects D tid 500) else sc_projects s))))"

definition legacy_scopes :: "directory \<Rightarrow> caller \<Rightarrow> scope_grant list" where
  "legacy_scopes D c =
     (let tid = strip (cl_tenant c) in
      if tid = [] then []
      else if ''*'' \<in> set (cl_projects c) then
        (let rows = map (\<lambda>pid. (tid, pid, cl_role c)) (filter (\<lambda>p. p \<noteq> [])
               (map (\<lambda>(p, n). strip p) (list_projects D tid 500)))
         in if rows = [] then [(tid, ''default_project'', cl_role c)] else rows)
      else map (\<lambda>pid. (tid, pid, cl_role c)) (filter (\<lambda>p. p \<noteq> []) (map strip (cl_projects c))))"

definition accessible_scopes_for_principal :: "directory \<Rightarrow> identity_db \<Rightarrow> caller \<Rightarrow> scope_grant list" where
  "accessible_scopes_for_principal D S c =
     (if cl_kind c = ''user'' \<and> opt_or (cl_user c) [] \<noteq> [] then
        (case get_user_by_id S (opt_or (cl_user c) []) of
           None \<Rightarrow> []
         | Some u \<Rightarrow> if us_admin u then list_catalog_accessible_scopes D ''admin''
             else accessible_scopes_for_user D S u)
      else if cl_kind c = ''service_account'' \<and> opt_or (cl_account c) [] \<noteq> [] then
        concat (map (account_scopes D) (list_sa_scopes S (opt_or (cl_account c) [])))
      else if legacy_catalog_wide c then list_catalog_accessible_scopes D (cl_role c)
      else legacy_scopes D c)"

definition scope_tenants :: "scope_grant list \<Rightarrow> string list" where
  "scope_tenants scopes = sort (remdups (filter (\<lambda>t. t \<notin> {[], ''*''}) (map (\<lambda>(t, p, r). t) scopes)))"

definition scope_projects :: "string \<Rightarrow> scope_grant list \<Rightarrow> string list" where
  "scope_projects tenant scopes = sort (remdups (filter (\<lambda>p. p \<notin> {[], ''*''})
     (map (\<lambda>(t, p, r). p) (filter (\<lambda>(t, p, r). t = tenant) scopes))))"

definition list_accessible_tenants_for_principal :: "directory \<Rightarrow> identity_db \<Rightarrow> caller \<Rightarrow> int \<Rightarrow> string list" where
  "list_accessible_tenants_for_principal D S c limit =
     take (project_limit limit) (scope_tenants (accessible_scopes_for_principal D S c))"

definition list_accessible_projects_for_principal ::
    "directory \<Rightarrow> identity_db \<Rightarrow> caller \<Rightarrow> string \<Rightarrow> int \<Rightarrow> (string \<times> string) list" where
  "list_accessible_projects_for_principal D S c tenant limit =
     (let allowed = scope_projects tenant (accessible_scopes_for_principal D S c);
          catalog = map (\<lambda>(p, n). (strip p, strip (if n = [] then p else n))) (list_projects D tenant limit)
      in map (\<lambda>pid. (pid, case map_of catalog pid of None \<Rightarrow> pid | Some n \<Rightarrow> if n = [] then pid else n))
           (take (project_limit limit) allowed))"

definition principal_has_tenant_access :: "directory \<Rightarrow> identity_db \<Rightarrow> caller \<Rightarrow> string \<Rightarrow> bool" where
  "principal_has_tenant_access D S c tenant =
     list_ex (\<lambda>(t, p, r). t = tenant) (accessible_scopes_for_principal D S c)"

text \<open>\<open>ids[:limit]\<close> counts from the end when the limit is negative.\<close>

definition list_accessible_project_ids :: "directory \<Rightarrow> identity_db \<Rightarrow> caller \<Rightarrow> string \<Rightarrow> int \<Rightarrow> string list" where
  "list_accessible_project_ids D S c tenant limit =
     (let ids = scope_projects tenant (accessible_scopes_for_principal D S c)
      in if ids = [] then [''default_project'']
         else if limit < 0 then take (nat (int (length ids) + limit)) ids else take (nat limit) ids)"

subsection \<open>The chosen scope\<close>

definition scope_override_ttl_seconds :: "string option \<Rightarrow> int" where
  "scope_override_ttl_seconds env =
     (case parse_int (strip (case env of None \<Rightarrow> ''0'' | Some v \<Rightarrow> v)) of None \<Rightarrow> 0 | Some n \<Rightarrow> max 0 n)"

text \<open>\<open>extract(epoch FROM ...)::bigint\<close> rounds to the nearest second.\<close>

definition get_scope_override :: "string option \<Rightarrow> directory \<Rightarrow> int \<Rightarrow> string \<Rightarrow> scope_override option" where
  "get_scope_override env D now subject =
     (let key = strip subject; ttl = scope_override_ttl_seconds env in
      if key = [] then None
      else (case find (\<lambda>q. ov_subject q = key) (dy_overrides D) of
          None \<Rightarrow> None
        | Some ov \<Rightarrow> if 0 < ttl \<and> ttl < (now - ov_updated ov + 500000) div 1000000 then None
            else Some (ov\<lparr>ov_version := (if ov_version ov = 0 then 1 else ov_version ov)\<rparr>)))"

definition delete_scope_override :: "string \<Rightarrow> directory \<Rightarrow> bool \<times> directory" where
  "delete_scope_override subject D =
     (let key = strip subject in
      if key = [] then (False, D)
      else (list_ex (\<lambda>q. ov_subject q = key) (dy_overrides D),
            D\<lparr>dy_overrides := filter (\<lambda>q. ov_subject q \<noteq> key) (dy_overrides D)\<rparr>))"

definition upsert_scope_override :: "int \<Rightarrow> string \<Rightarrow> string \<Rightarrow> string \<Rightarrow> int \<Rightarrow> directory \<Rightarrow> directory" where
  "upsert_scope_override now subject tenant project version D =
     (let key = strip subject;
          row = \<lparr>ov_subject = key, ov_tenant = tenant, ov_project = project, ov_version = max 1 version,
            ov_updated = now\<rparr> in
      if key = [] then D
      else D\<lparr>dy_overrides := (if list_ex (\<lambda>q. ov_subject q = key) (dy_overrides D)
        then map (\<lambda>q. if ov_subject q = key then row else q) (dy_overrides D)
        else dy_overrides D @ [row])\<rparr>)"

definition resolve_source_tenant_for_mapping_check ::
    "string option \<Rightarrow> directory \<Rightarrow> int \<Rightarrow> string \<Rightarrow> string \<Rightarrow> string" where
  "resolve_source_tenant_for_mapping_check env D now subject default_tenant =
     (let chosen = (case get_scope_override env D now subject of None \<Rightarrow> [] | Some ov \<Rightarrow> strip (ov_tenant ov));
          dflt = strip (if default_tenant = [] then ''default'' else default_tenant)
      in if chosen \<noteq> [] then chosen else if dflt = [] then ''default'' else dflt)"

text \<open>
  The stamps are what the aggregate returns for the tenant on each table of \<open>_SCOPE_VERSION_SOURCES\<close>,
  \<open>None\<close> where the query fails.
\<close>

definition resolve_mapping_version :: "caller \<Rightarrow> int option list \<Rightarrow> int" where
  "resolve_mapping_version c stamps =
     fold (\<lambda>stamp version. case stamp of None \<Rightarrow> version | Some n \<Rightarrow> if version < n then n else version) stamps
       (max 1 (if cl_version c = 0 then 1 else cl_version c))"

end
