(* ===== verification/AccessLaws.thy ===== *)
theory AccessLaws
  imports Scopes
begin

text \<open>
  What authorization guarantees: a user gets in a project the strongest role an assignment gives there and
  nothing without one; the scopes shown are the scopes granted; a service account is never an
  administrator; a caller of an access token has a live session.
\<close>

subsection \<open>Users\<close>

lemma best_role_sound:
  "best_role tenant project best role scopes = Some r \<Longrightarrow>
    role = Some r \<or> (tenant, project, r) \<in> set scopes \<and> best < weight_or 0 r"
  by (induction tenant project best role scopes rule: best_role.induct) (auto split: if_splits)

lemma best_role_least:
  "best_role tenant project best role scopes = Some r \<Longrightarrow> (\<And>q. role = Some q \<Longrightarrow> weight_or 0 q = best) \<Longrightarrow>
    best \<le> weight_or 0 r"
proof (induction tenant project best role scopes rule: best_role.induct)
  case (2 tenant project best role t p r0 rest)
  show ?case
  proof (cases "t = tenant \<and> p = project \<and> best < weight_or 0 r0")
    case True
    then have rest: "best_role tenant project (weight_or 0 r0) (Some r0) rest = Some r"
      using "2.prems"(1) by simp
    have "weight_or 0 r0 \<le> weight_or 0 r" by (rule "2.IH"(1) [OF True rest]) simp
    then show ?thesis using True by simp
  next
    case False
    then have rest: "best_role tenant project best role rest = Some r" using "2.prems"(1) by auto
    show ?thesis by (rule "2.IH"(2) [OF False rest]) (rule "2.prems"(2))
  qed
qed simp

lemma best_role_max:
  "best_role tenant project best role scopes = Some r \<Longrightarrow> (\<And>q. role = Some q \<Longrightarrow> weight_or 0 q = best) \<Longrightarrow>
    (tenant, project, r') \<in> set scopes \<Longrightarrow> weight_or 0 r' \<le> weight_or 0 r"
proof (induction tenant project best role scopes rule: best_role.induct)
  case (2 tenant project best role t p r0 rest)
  show ?case
  proof (cases "t = tenant \<and> p = project \<and> best < weight_or 0 r0")
    case True
    have rest: "best_role tenant project (weight_or 0 r0) (Some r0) rest = Some r" using True "2.prems"(1) by simp
    have least: "weight_or 0 r0 \<le> weight_or 0 r" by (rule best_role_least [OF rest]) simp
    show ?thesis
    proof (cases "(tenant, project, r') \<in> set rest")
      case True
      show ?thesis by (rule "2.IH"(1) [OF \<open>t = tenant \<and> p = project \<and> best < weight_or 0 r0\<close> rest _ True]) simp
    next
      case False
      then show ?thesis using least "2.prems"(3) by simp
    qed
  next
    case False
    then have rest: "best_role tenant project best role rest = Some r" using "2.prems"(1) by auto
    have least: "best \<le> weight_or 0 r" by (rule best_role_least [OF rest]) (rule "2.prems"(2))
    show ?thesis
    proof (cases "(tenant, project, r') \<in> set rest")
      case True
      show ?thesis by (rule "2.IH"(2) [OF False rest _ True]) (rule "2.prems"(2))
    next
      case later: False
      then have "t = tenant" "p = project" "r' = r0" using "2.prems"(3) by simp_all
      then show ?thesis using least False by simp
    qed
  qed
qed simp

lemma best_role_None:
  "best_role tenant project best role scopes = None \<longleftrightarrow>
    role = None \<and> (\<forall>r. (tenant, project, r) \<in> set scopes \<longrightarrow> weight_or 0 r \<le> best)"
  by (induction tenant project best role scopes rule: best_role.induct) (auto simp: not_less)

text \<open>An assignment of the user that covers the project.\<close>

definition covers :: "directory \<Rightarrow> assignment \<Rightarrow> string \<Rightarrow> string \<Rightarrow> bool" where
  "covers D a tenant project = (ra_tenant a = tenant \<and>
     (if ra_all a then project \<noteq> [] \<and> project \<in> strip ` fst ` set (list_projects D tenant 500)
      else project \<in> set (ra_projects a)))"

definition granted :: "directory \<Rightarrow> identity_db \<Rightarrow> string \<Rightarrow> string \<Rightarrow> string \<Rightarrow> string \<Rightarrow> bool" where
  "granted D S uid tenant project role =
     list_ex (\<lambda>a. ra_user a = uid \<and> ra_role a = role \<and> covers D a tenant project) (i_assignments S)"

lemma assignment_scopes_iff:
  "(t, p, r) \<in> set (assignment_scopes D a) \<longleftrightarrow> r = ra_role a \<and> covers D a t p"
  by (auto simp: assignment_scopes_def covers_def image_iff split: prod.splits) force+

definition listed :: "assignment \<Rightarrow> assignment" where
  "listed a = a\<lparr>ra_projects := (if ra_all a then [] else sort (ra_projects a))\<rparr>"

lemma set_assignments:
  "set (list_assignments_for_user S uid) = listed ` {a \<in> set (i_assignments S). ra_user a = uid}"
  by (simp add: list_assignments_for_user_def listed_def [abs_def])

lemma listed_simps: "ra_role (listed a) = ra_role a" "covers D (listed a) t p = covers D a t p"
  by (simp_all add: covers_def listed_def)

lemma user_scopes_iff:
  assumes "\<not> us_admin u"
  shows "(t, p, r) \<in> set (accessible_scopes_for_user D S u) \<longleftrightarrow> granted D S (us_id u) t p r"
proof -
  have "(t, p, r) \<in> set (accessible_scopes_for_user D S u) \<longleftrightarrow>
      (\<exists>a\<in>listed ` {a \<in> set (i_assignments S). ra_user a = us_id u}. r = ra_role a \<and> covers D a t p)"
    using assms by (simp add: accessible_scopes_for_user_def assignment_scopes_iff set_assignments)
  also have "\<dots> \<longleftrightarrow> granted D S (us_id u) t p r"
    unfolding granted_def list_ex_iff by (auto simp: listed_simps)
  finally show ?thesis .
qed

lemma weight_zero: "weight_or 0 r \<noteq> 0 \<longleftrightarrow> r \<in> set (map fst role_weight)"
  by (auto simp: weight_or_def role_weight_def)

lemma effective_role_iff:
  assumes "\<not> us_admin u"
  shows "effective_role_for_scope D S u t p = Some r \<Longrightarrow>
      granted D S (us_id u) t p r \<and> weight_or 0 r \<noteq> 0 \<and>
      (\<forall>r'. granted D S (us_id u) t p r' \<longrightarrow> weight_or 0 r' \<le> weight_or 0 r)"
    and "effective_role_for_scope D S u t p = None \<longleftrightarrow>
      (\<forall>r. granted D S (us_id u) t p r \<longrightarrow> weight_or 0 r = 0)"
  using assms best_role_sound [of t p 0 None "accessible_scopes_for_user D S u" r] best_role_max [of t p 0 None "accessible_scopes_for_user D S u" r]
  unfolding effective_role_for_scope_def
  by (auto simp: user_scopes_iff best_role_None)


lemma authorize_user_scope_ok:
  assumes "authorize_user_scope D S uid tenant project min_role = ok role"
  shows "weight_or 1 min_role \<le> weight_or 0 role"
  using assms by (auto simp: authorize_user_scope_def not_less split: option.splits if_splits)

text \<open>
  The projects shown to a user are those the user gets into: the scope switcher lists a project exactly
  when reading it is authorized.
\<close>

theorem scopes_shown_are_granted:
  assumes "cl_kind c = ''user''" and "cl_user c = Some uid" and "uid \<noteq> []"
    and "get_user_by_id S uid = Some u" and "\<not> us_admin u"
    and "list_all (\<lambda>a. ra_role a \<in> {''viewer'', ''maintainer''}) (i_assignments S)"
  shows "(tenant, project) \<in> (\<lambda>(t, p, r). (t, p)) ` set (accessible_scopes_for_principal D S c) \<longleftrightarrow>
    is_ok (authorize_scope D S c tenant project ''viewer'')"
proof -
  have id: "us_id u = uid" using find_SomeD assms(4) by (fastforce simp: get_user_by_id_def)
  have shown: "accessible_scopes_for_principal D S c = accessible_scopes_for_user D S u"
    using assms(1-5) by (simp add: accessible_scopes_for_principal_def opt_or_def)
  have role: "weight_or 0 r \<noteq> 0" if "granted D S uid tenant project r" for r
    using that assms(6) by (fastforce simp: granted_def list_ex_iff list_all_iff weight_or_def role_weight_def)
  have "(\<exists>r. granted D S uid tenant project r) \<longleftrightarrow> effective_role_for_scope D S u tenant project \<noteq> None"
    using effective_role_iff(2) [OF assms(5), of D S tenant project] role unfolding id by metis
  also have "\<dots> \<longleftrightarrow> is_ok (authorize_user_scope D S uid tenant project ''viewer'')"
  proof (cases "effective_role_for_scope D S u tenant project")
    case (Some r)
    have "weight_or 0 r \<noteq> 0" using effective_role_iff(1) [OF assms(5) Some] by blast
    then have "r \<noteq> [] \<and> 1 \<le> weight_or 0 r" by (auto simp: weight_or_def role_weight_def)
    then show ?thesis using Some assms(4) by (simp add: authorize_user_scope_def weight_or_def role_weight_def)
  qed (simp add: authorize_user_scope_def assms(4))
  finally show ?thesis
    using assms(1-3) user_scopes_iff [OF assms(5), of tenant project] unfolding shown id
    by (force simp: authorize_scope_def opt_or_def pbind_def is_ok_def split: sum.splits)
qed

subsection \<open>Service accounts\<close>

lemma set_account_scopes:
  "(\<exists>s\<in>set (list_sa_scopes S a). sc_tenant s = t \<and> (sc_all s \<or> p \<in> set (sc_projects s))) \<longleftrightarrow>
   (\<exists>s\<in>set (i_scopes S). sc_account s = a \<and> sc_tenant s = t \<and> (sc_all s \<or> p \<in> set (sc_projects s)))"
  by (auto simp: list_sa_scopes_def)

text \<open>
  A service account is admitted to a project exactly with a scope that covers it and every permission of
  the platform, never as an administrator, and it acts there as a maintainer.
\<close>

theorem service_account_authorized_iff:
  "authorize_service_account_scope S a tenant project min_role = ok role \<longleftrightarrow>
    role = ''maintainer'' \<and> min_role \<noteq> ''admin'' \<and>
    list_ex (\<lambda>s. sc_account s = a \<and> sc_tenant s = tenant \<and> (sc_all s \<or> project \<in> set (sc_projects s))) (i_scopes S) \<and>
    set permission_catalog \<subseteq> set (map snd (filter (\<lambda>(x, p). x = a) (i_permissions S)))"
proof -
  have "weight_or 1 min_role \<le> weight_or 0 ''maintainer''" if "min_role \<noteq> ''admin''"
    using that by (auto simp: weight_or_def role_weight_def)
  moreover have "sa_has_scope S a tenant project \<longleftrightarrow> list_ex (\<lambda>s. sc_account s = a \<and> sc_tenant s = tenant \<and>
      (sc_all s \<or> project \<in> set (sc_projects s))) (i_scopes S)"
    unfolding sa_has_scope_def list_ex_iff by (rule set_account_scopes)
  moreover have "sa_is_platform_automation S a \<longleftrightarrow>
      set permission_catalog \<subseteq> set (map snd (filter (\<lambda>(x, p). x = a) (i_permissions S)))"
    unfolding sa_is_platform_automation_def list_all_iff list_sa_permissions_def by auto
  ultimately show ?thesis
    unfolding authorize_service_account_scope_def by (auto split: if_splits)
qed

lemma authorize_scope_weight:
  assumes "authorize_scope D S c tenant project min_role = ok c'"
  shows "weight_or 1 min_role \<le> weight_or 0 (cl_role c')"
proof -
  have "weight_or 1 min_role \<le> weight_or 0 ''maintainer''" if "min_role \<noteq> ''admin''"
    using that by (auto simp: weight_or_def role_weight_def)
  then show ?thesis
    using assms by (auto simp: authorize_scope_def pbind_eq_Inr service_account_authorized_iff not_less
        dest!: authorize_user_scope_ok split: if_splits)
qed

text \<open>
  The settings of staging and production are read by maintainers only: whoever passes the check of the
  environment has there a role of the weight asked for, and at least that of a maintainer.
\<close>

theorem sensitive_environment_guarded:
  assumes "authorize_environment_scope D S c tenant project (Some environment) min_role = ok c'"
    and "lower (strip environment) \<in> {''staging'', ''production''}" and "map_of role_weight min_role \<noteq> None"
  shows "weight_or 1 min_role \<le> weight_or 0 (cl_role c') \<and> 2 \<le> weight_or 0 (cl_role c')"
proof -
  have env: "environment \<noteq> []" using assms(2) by (auto simp: strip_def lower_def)
  obtain c1 where c1: "authorize_scope D S c tenant project min_role = ok c1"
    and c': "if min_role = ''viewer'' then authorize_scope D S c1 tenant project ''maintainer'' = ok c' else c' = c1"
    using assms(1,2) env by (auto simp: authorize_environment_scope_def pbind_eq_Inr opt_or_def Let_def split: if_splits)
  show ?thesis
  proof (cases "min_role = ''viewer''")
    case True
    then have "authorize_scope D S c1 tenant project ''maintainer'' = ok c'" using c' by simp
    from authorize_scope_weight [OF this] show ?thesis using True by (simp add: weight_or_def role_weight_def)
  next
    case False
    then have "2 \<le> weight_or 1 min_role"
      using assms(3) by (auto simp: weight_or_def role_weight_def split: if_splits)
    then show ?thesis using authorize_scope_weight [OF c1] c' False by simp
  qed
qed

text \<open>
  Duties are separated: a user listed as an executor of a model does not approve its versions, unless
  the user is an administrator.
\<close>

theorem executor_never_approves:
  assumes "cl_kind c = ''user''" and "cl_user c = Some uid" and "\<not> cl_admin c" and "cl_role c \<noteq> ''admin''"
    and "get_user_by_id S uid = Some u" and "\<not> us_admin u" and "user_is_executor_stakeholder D model uid"
    and "list_all (\<lambda>a. ra_role a \<noteq> ''admin'') (i_assignments S)"
  shows "\<not> is_ok (authorize_model_process_action D S c tenant project model ''model.approve'')"
proof (cases "authorize_user_scope D S uid tenant project ''viewer''")
  case (Inl e)
  have "uid \<noteq> []" using assms(7) by (simp add: user_is_executor_stakeholder_def user_has_stakeholder_role_def)
  then show ?thesis
    using Inl assms(1-4) by (simp add: authorize_model_process_action_def effective_scope_role_def opt_or_def Let_def)
next
  case (Inr role)
  have id: "us_id u = uid" using find_SomeD assms(5) by (fastforce simp: get_user_by_id_def)
  have uid: "uid \<noteq> []" using assms(7) by (simp add: user_is_executor_stakeholder_def user_has_stakeholder_role_def)
  have "effective_role_for_scope D S u tenant project = Some role"
    using Inr assms(5) by (auto simp: authorize_user_scope_def split: option.splits if_splits)
  then have "granted D S uid tenant project role" using effective_role_iff(1) [OF assms(6)] id by blast
  then have "role \<noteq> ''admin''" using assms(8) by (auto simp: granted_def list_ex_iff list_all_iff)
  moreover have "effective_scope_role D S c tenant project = ok role"
    using Inr assms(1-4) uid by (simp add: effective_scope_role_def opt_or_def)
  moreover have "lower (strip ''model.approve'') = ''model.approve''" by code_simp
  ultimately show ?thesis
    using assms(1-4,7) uid
    by (simp add: authorize_model_process_action_def process_actions_def opt_or_def)
qed

subsection \<open>Authentication\<close>

text \<open>A live session of the user a token names.\<close>

definition live_session :: "identity_db \<Rightarrow> pydict \<Rightarrow> bool" where
  "live_session S payload = (case get_session_by_id S (strip (str_or (dget payload ''sid'') [])) of
     None \<Rightarrow> False
   | Some se \<Rightarrow> se_revoked se = None \<and> i_now S \<le> se_expires se \<and> se_user se = str_or (dget payload ''sub'') [])"

definition token_user :: "identity_db \<Rightarrow> pydict \<Rightarrow> user_row option" where
  "token_user S payload = get_user_by_id S (strip (str_or (dget payload ''sub'') []))"

text \<open>What the tables say that authentication reads.\<close>

definition same_accounts :: "identity_db \<Rightarrow> identity_db \<Rightarrow> bool" where
  "same_accounts S S' = (i_users S' = i_users S \<and> i_sessions S' = i_sessions S \<and> i_now S' = i_now S)"

lemma same_accounts_live:
  "same_accounts S S' \<Longrightarrow> live_session S' = live_session S" "same_accounts S S' \<Longrightarrow> token_user S' = token_user S"
  by (auto simp: same_accounts_def live_session_def token_user_def get_session_by_id_def get_user_by_id_def
      fun_eq_iff split: option.splits)

lemma session_valid_ok:
  "assert_access_session_valid payload S = (Inr v, S') \<Longrightarrow> S' = S \<and> live_session S payload"
  by (auto simp: assert_access_session_valid_def live_session_def Let_def check_def split: option.splits if_splits)

lemma identity_user_ok:
  assumes "principal_from_identity_user G D token payload S = (Inr c, S')"
  shows "\<exists>u. token_user S payload = Some u \<and> (us_state u = ''active'' \<or> us_admin u) \<and> live_session S payload \<and>
    c = user_caller G D S ''identity_jwt'' token (us_id u) u \<and> S' = S"
proof -
  obtain u where u: "token_user S payload = Some u"
    using assms by (cases "token_user S payload") (auto simp: principal_from_identity_user_def token_user_def)
  then have "us_state u = ''active'' \<or> us_admin u"
    using assms by (auto simp: principal_from_identity_user_def token_user_def split: if_splits)
  moreover from this u obtain v S1 where "assert_access_session_valid payload S = (Inr v, S1)"
    and "S' = S1 \<and> c = user_caller G D S1 ''identity_jwt'' token (us_id u) u"
    using assms by (auto simp: principal_from_identity_user_def token_user_def seq_Inr)
  ultimately show ?thesis using u session_valid_ok by blast
qed

lemma attempt_ok:
  "attempt m S = (Inr (Some x), S') \<Longrightarrow> m S = (Inr x, S')"
  by (auto simp: attempt_def split: prod.splits sum.splits pyerr.splits if_splits)

lemma session_check_reads: "snd (assert_access_session_valid payload S) = S"
  by (auto simp: assert_access_session_valid_def Let_def check_def split: option.splits)

lemma identity_user_reads: "snd (principal_from_identity_user G D token payload S) = S"
proof -
  have "snd (seq (assert_access_session_valid payload) (\<lambda>_. ask f) S) = S" for f :: "identity_db \<Rightarrow> caller"
    using session_check_reads [of payload S] by (auto simp: seq_def split: prod.splits sum.splits)
  then show ?thesis by (auto simp: principal_from_identity_user_def split: option.splits)
qed

lemma by_access_token_ok:
  assumes "by_access_token G D token S = (Inr r, S')"
  shows "S' = S" and "r = Some c \<Longrightarrow> \<exists>payload. gt_identity_jwt G token (i_now S div 1000000) = Some payload \<and>
    principal_from_identity_user G D token payload S = (Inr c, S)"
proof -
  define m where "m = (case decode_identity_access_token G token (i_now S div 1000000) of
    Inl e \<Rightarrow> fail e | Inr payload \<Rightarrow> principal_from_identity_user G D token payload)"
  have m: "snd (m S) = S"
    by (auto simp: m_def identity_user_reads split: sum.splits)
  have "seq (ask i_now) (\<lambda>now. case decode_identity_access_token G token (now div 1000000) of
      Inl e \<Rightarrow> fail e | Inr payload \<Rightarrow> principal_from_identity_user G D token payload) S = m S"
    by (simp add: m_def)
  then have run: "attempt m S = (Inr r, S')" using assms by (simp add: by_access_token_def attempt_def)
  then show "S' = S" using m by (auto simp: attempt_def split: prod.splits sum.splits pyerr.splits if_splits)
  then show "\<exists>payload. gt_identity_jwt G token (i_now S div 1000000) = Some payload \<and>
      principal_from_identity_user G D token payload S = (Inr c, S)" if "r = Some c"
    using run attempt_ok that
    by (fastforce simp: m_def decode_identity_access_token_def split: sum.splits option.splits if_splits)
qed

lemma sa_secret_accounts: "authenticate_sa_secret X token S = (Inr r, S') \<Longrightarrow> same_accounts S S'"
  by (auto simp: authenticate_sa_secret_def lookup_sa_by_secret_hash_def same_accounts_def split: option.splits)

text \<open>A personal token that is neither revoked nor expired, of an active user.\<close>

definition live_pat :: "keyring \<Rightarrow> identity_db \<Rightarrow> string \<Rightarrow> user_row \<Rightarrow> bool" where
  "live_pat X S token u = (startswith token pat_prefix \<and> (case lookup_pat_by_hash S (hash_opaque X token) of
     None \<Rightarrow> False
   | Some p \<Rightarrow> pt_revoked p = None \<and> (case pt_expires p of None \<Rightarrow> True | Some e \<Rightarrow> i_now S \<le> e) \<and>
       get_user_by_id S (pt_user p) = Some u \<and> us_state u = ''active''))"

lemma authenticate_pat_ok:
  assumes "authenticate_pat X token S = (Inr r, S')"
  shows "same_accounts S S'" and "r = Some u \<Longrightarrow> live_pat X S token u"
proof -
  have "same_accounts S S' \<and> (r = Some u \<longrightarrow> live_pat X S token u)"
  proof (cases "startswith token pat_prefix")
    case False
    then show ?thesis using assms by (simp add: authenticate_pat_def same_accounts_def)
  next
    case pre: True
    show ?thesis
    proof (cases "lookup_pat_by_hash S (hash_opaque X token)")
      case None
      then show ?thesis using assms pre by (simp add: authenticate_pat_def same_accounts_def)
    next
      case (Some p)
      have user: "get_user_by_id (S\<lparr>i_pats := ps\<rparr>) = get_user_by_id S" for ps
        by (simp add: get_user_by_id_def fun_eq_iff)
      show ?thesis
      proof (cases "pt_revoked p \<noteq> None \<or> (case pt_expires p of None \<Rightarrow> False | Some e \<Rightarrow> e < i_now S)")
        case True
        then show ?thesis using assms pre Some by (simp add: authenticate_pat_def same_accounts_def)
      next
        case False
        then show ?thesis
          using assms pre Some
          by (cases "get_user_by_id S (pt_user p)")
            (auto simp: authenticate_pat_def same_accounts_def live_pat_def touch_pat_last_used_def user
              split: option.splits if_splits)
      qed
    qed
  qed
  then show "same_accounts S S'" and "r = Some u \<Longrightarrow> live_pat X S token u" by simp_all
qed

lemma by_secret_ok:
  assumes "by_secret X G D token S = (Inr r, S')"
  shows "same_accounts S S'" and "r = Some c \<Longrightarrow> cl_kind c = ''user'' \<Longrightarrow> \<exists>u S1. live_pat X S1 token u \<and>
    same_accounts S S1 \<and> c = user_caller G D S' ''personal_access_token'' token (strip (us_id u)) u"
proof -
  obtain sa S1 where sa: "authenticate_sa_secret X token S = (Inr sa, S1)"
    and rest: "(case sa of Some a \<Rightarrow> ask (\<lambda>S. Some (principal_from_service_account token a S))
     | None \<Rightarrow> seq (authenticate_pat X token) (\<lambda>pat. case pat of None \<Rightarrow> give None
         | Some u \<Rightarrow> seq (principal_from_pat_user G D token u) (\<lambda>c. give (Some c)))) S1 = (Inr r, S')"
    using assms unfolding by_secret_def by (rule seqE)
  have one: "same_accounts S S1" by (rule sa_secret_accounts [OF sa])
  have "same_accounts S S' \<and> (r = Some c \<longrightarrow> cl_kind c = ''user'' \<longrightarrow> (\<exists>u S1. live_pat X S1 token u \<and>
    same_accounts S S1 \<and> c = user_caller G D S' ''personal_access_token'' token (strip (us_id u)) u))"
  proof (cases sa)
    case (Some a)
    then show ?thesis using rest one by (auto simp: principal_from_service_account_def Let_def)
  next
    case None
    with rest have "seq (authenticate_pat X token) (\<lambda>pat. case pat of None \<Rightarrow> give None
         | Some u \<Rightarrow> seq (principal_from_pat_user G D token u) (\<lambda>c. give (Some c))) S1 = (Inr r, S')" by simp
    then obtain pat S2 where pat: "authenticate_pat X token S1 = (Inr pat, S2)"
      and rest2: "(case pat of None \<Rightarrow> give None
         | Some u \<Rightarrow> seq (principal_from_pat_user G D token u) (\<lambda>c. give (Some c))) S2 = (Inr r, S')"
      by (rule seqE)
    have "same_accounts S1 S2" by (rule authenticate_pat_ok(1) [OF pat])
    then have two: "same_accounts S S2" using one by (simp add: same_accounts_def)
    show ?thesis
    proof (cases pat)
      case None
      then show ?thesis using rest2 two by simp
    next
      case (Some u)
      have "live_pat X S1 token u" by (rule authenticate_pat_ok(2) [OF pat Some])
      moreover have "S' = S2" "r = Some (user_caller G D S2 ''personal_access_token'' token (strip (us_id u)) u)"
        using rest2 Some by (auto simp: principal_from_pat_user_def seq_Inr split: if_splits)
      ultimately show ?thesis using one two by blast
    qed
  qed
  then show "same_accounts S S'" and "r = Some c \<Longrightarrow> cl_kind c = ''user'' \<Longrightarrow> \<exists>u S1. live_pat X S1 token u \<and>
    same_accounts S S1 \<and> c = user_caller G D S' ''personal_access_token'' token (strip (us_id u)) u" by blast+
qed

lemma token_data_kind: "principal_from_token_data token d issuer = ok c \<Longrightarrow> cl_kind c = ''legacy''"
  by (auto simp: principal_from_token_data_def Let_def pbind_eq_Inr split: if_splits)

lemma or_else_ok:
  assumes "or_else m n S = (Inr r, S')"
  obtains S1 where "m S = (Inr r, S1)" "r \<noteq> None" "S' = S1" | S1 where "m S = (Inr None, S1)" "n S1 = (Inr r, S')"
proof -
  from assms obtain x S1 where m: "m S = (Inr x, S1)"
    and rest: "(case x of Some y \<Rightarrow> give (Some y) | None \<Rightarrow> n) S1 = (Inr r, S')"
    unfolding or_else_def by (rule seqE)
  show thesis
  proof (cases x)
    case None
    then show ?thesis using that(2) m rest by simp
  next
    case (Some y)
    then show ?thesis using that(1) m rest by auto
  qed
qed


subsection \<open>Workers\<close>

text \<open>
  A service account that may lease tasks but has no scope at all is let in, and then leases the tasks
  of every tenant and every project: an empty tenant and an empty list of projects stand for all of them.
\<close>

theorem scopeless_account_leases_everything:
  assumes "extract_bearer_token auth = ok token" and "\<not> worker_token_shown G auth"
    and "gt_identity_jwt G token (i_now S div 1000000) = None"
    and "authenticate_sa_secret X token S = (Inr (Some a), S1)" and "a \<noteq> []"
    and "sa_has_worker_permissions S1 a" and "list_sa_scopes S1 a = []"
  shows "\<exists>c. authenticate_worker_lease_principal X G D auth S = (Inr (Some c), S1) \<and>
    (\<forall>r. in_scope (Some (worker_principal c)) r)"
proof -
  have "by_access_token G D token S = (Inr None, S)"
    using assms(3) by (simp add: by_access_token_def attempt_def decode_identity_access_token_def
      identity_http_error_def)
  moreover have "by_secret X G D token S = (Inr (Some (principal_from_service_account token a S1)), S1)"
    using assms(4) by (simp add: by_secret_def seq_def)
  ultimately have "authenticate_bearer X G D auth S = (Inr (principal_from_service_account token a S1), S1)"
    using assms(1) by (simp add: authenticate_bearer_def or_else_def seq_def)
  then show ?thesis
    using assms(2,5-7)
    by (simp add: authenticate_worker_lease_principal_def seq_def principal_from_service_account_def opt_or_def
        sa_has_worker_permissions_def sa_has_permission_def in_scope_def worker_principal_def)
qed

end
