(* ===== verification/IdentityExamples.thy ===== *)
theory IdentityExamples
  imports IdentitySignIn AccessLaws
begin

text \<open>
  The theorems about accounts and authorization applied to a small installation, and what the model shows
  about accounts that were disabled.
\<close>

subsection \<open>A disabled account comes back\<close>

text \<open>
  A disabled account is revived by guessing: enough wrong passwords turn \<open>disabled\<close> into \<open>locked\<close>, and
  the first sign in with the right password after the lock, though refused, leaves the account active.
\<close>

theorem disabled_account_revived:
  assumes "get_user_by_username S (strip name) = Some u" and "us_state u = ''disabled''"
    and "list_all (\<lambda>g. \<not> kx_verify X (fst g) (us_password u)) gs" and "gs \<noteq> []"
    and "kx_threshold X \<le> us_failed u + int (length gs)"
    and "seconds (60 * kx_lock_minutes X) \<le> int (snd (last gs))" and "kx_verify X pw (us_password u)"
  shows "\<exists>v S'. login X name pw token new (fold (guess X name) gs S) = (Inl account_disabled, S') \<and>
    get_user_by_username S' (strip name) = Some v \<and> us_id v = us_id u \<and> us_state v = ''active''"
proof -
  define S1 where "S1 = fold (guess X name) gs S"
  have "us_state u \<in> set user_states" using assms(2) by (simp add: user_states_def)
  from guesses [OF assms(1) this assms(3,4)]
  obtain v now where v: "get_user_by_username S1 (strip name) = Some v" "us_failed v = us_failed u + int (length gs)"
    "guessed X (lock_end X now) u v" "i_now S1 = now + int (snd (last gs))"
    unfolding S1_def by blast
  have locked: "us_state v = ''locked''" "us_locked v = Some (lock_end X now)" "us_password v = us_password u"
    "us_id v = us_id u"
    using v(2,3) assms(5) by (simp_all add: guessed_def)
  have "now div 1000000 * 1000000 \<le> now"
    using mult_div_mod_eq [of 1000000 now] pos_mod_sign [of 1000000 now] by linarith
  then have over: "lock_end X now \<le> i_now S1" using assms(6) v(4) by (simp add: lock_end_def)
  define p where "p = no_patch\<lparr>up_state := Some ''active'', up_clear_lock := True, up_failed := Some 0\<rparr>"
  have up: "update_user (us_id v) p S1 = (Inr (map_option (patch_row p) (get_user_by_id S1 (us_id v))),
      S1\<lparr>i_users := map (\<lambda>w. if us_id w = us_id v then patch_row p w else w) (i_users S1)\<rparr>)"
    by (rule update_user_found [OF named_user_has_id [OF v(1)]]) (simp add: p_def user_states_def)
  have "login X name pw token new S1 = (Inl account_disabled,
      S1\<lparr>i_users := map (\<lambda>w. if us_id w = us_id v then patch_row p w else w) (i_users S1)\<rparr>)"
    using v(1) locked over assms(7) up
    by (simp add: login_def ensure_login_allowed_def allow_state_def seq_def check_def p_def [symmetric])
  moreover have "us_id (patch_row p v) = us_id u \<and> us_state (patch_row p v) = ''active''"
    using locked by (simp add: p_def given_def)
  ultimately show ?thesis
    using named_user_updated [OF v(1), of p] unfolding S1_def [symmetric] by blast
qed

subsection \<open>A small installation\<close>

definition plain_keys :: keyring where
  "plain_keys = \<lparr>kx_sha256 = (\<lambda>s. s), kx_hmac_sha1 = (\<lambda>k m. replicate 20 (CHR 0x00)), kx_b32decode = Some,
     kx_verify = (\<lambda>pw h. pw = h), kx_scrypt = (\<lambda>pw. pw), kx_jwt = (\<lambda>d. json_text (VDict d)),
     kx_threshold = 3, kx_lock_minutes = 15, kx_password_min = 8, kx_access_ttl = 900, kx_refresh_ttl = 86400,
     kx_mfa_key = ''k'', kx_jwt_secret = ''s''\<rparr>"

definition user_of :: "string \<Rightarrow> string \<Rightarrow> user_row" where
  "user_of uid state = \<lparr>us_id = uid, us_name = ''n'' @ uid, us_password = ''good'' @ uid, us_state = state,
     us_admin = False, us_failed = 0, us_locked = None, us_display = None, us_email = None, us_login = None\<rparr>"

definition session_of :: "string \<Rightarrow> string \<Rightarrow> string \<Rightarrow> session_row" where
  "session_of sid uid token = \<lparr>se_id = sid, se_user = uid, se_hash = hash_opaque plain_keys token,
     se_expires = seconds 1000, se_revoked = None, se_rotated = None, se_created = 0, se_used = None\<rparr>"

definition small_db :: identity_db where
  "small_db = \<lparr>i_users = [user_of ''u1'' ''active'', user_of ''u2'' ''disabled''],
     i_assignments = [\<lparr>ra_id = ''a1'', ra_user = ''u1'', ra_tenant = ''t'', ra_role = ''viewer'', ra_all = False,
       ra_projects = [''p''], ra_created = 0\<rparr>],
     i_sessions = [session_of ''s1'' ''u1'' ''r1'', session_of ''s2'' ''u1'' ''r2''], i_totp = [], i_codes = [],
     i_challenges = [], i_pats = [],
     i_accounts = [\<lparr>sa_id = ''w'', sa_name = ''worker'', sa_desc = None, sa_state = ''active''\<rparr>],
     i_credentials = [\<lparr>cd_id = ''c1'', cd_account = ''w'', cd_hash = hash_opaque plain_keys ''key'', cd_revoked = None,
       cd_used = None\<rparr>],
     i_permissions = [(''w'', ''tasks:lease'')], i_scopes = [], i_audit = [], i_redis = True, i_counters = [],
     i_fallback = [], i_now = seconds 100\<rparr>"

definition closed_gate :: gate where
  "closed_gate = \<lparr>gt_legacy = False, gt_tokens_json = [], gt_default_tenant = ''default'', gt_worker_token = [],
     gt_hs_secret = [], gt_header = (\<lambda>t. None), gt_hs256 = (\<lambda>t n. None), gt_rs256 = (\<lambda>k t n. ok None),
     gt_jwks = [], gt_identity_jwt = (\<lambda>t n. if t = ''access'' then Some [(''sub'', VStr ''u1''),
       (''sid'', VStr ''s1''), (''principal_type'', VStr ''USER'')] else None), gt_ticket_jwt = (\<lambda>t n. None)\<rparr>"

definition small_directory :: directory where
  "small_directory = \<lparr>dy_sources = [[(''t'', ''p'')]], dy_catalog = [(''t'', ''q'', ''Q'')], dy_overrides = [],
     dy_stakeholders = [\<lparr>sk_tenant = ''t'', sk_project = ''p'', sk_model = ''m'', sk_user = ''u1'',
       sk_role = ''executor''\<rparr>]\<rparr>"

lemma small_users:
  "get_user_by_username small_db (strip ''nu1'') = Some (user_of ''u1'' ''active'')"
  "get_user_by_username small_db (strip ''nu2'') = Some (user_of ''u2'' ''disabled'')"
  "get_user_by_id small_db ''u1'' = Some (user_of ''u1'' ''active'')"
  by code_simp+

lemma wrong_guesses:
  "list_all (\<lambda>g. \<not> kx_verify plain_keys (fst g) (us_password (user_of uid state)))
     [(''x'', 0), (''y'', 5), (''z'', n)]"
  by (simp add: plain_keys_def user_of_def)

theorem disabled_account_revived_witness:
  "\<exists>v S'. login plain_keys ''nu2'' ''goodu2'' ''t'' ''s'' (fold (guess plain_keys ''nu2'')
      [(''x'', 0), (''y'', 5), (''z'', 900000000)] small_db) = (Inl account_disabled, S') \<and>
    get_user_by_username S' (strip ''nu2'') = Some v \<and> us_id v = us_id (user_of ''u2'' ''disabled'') \<and>
    us_state v = ''active''"
  by (rule disabled_account_revived [OF small_users(2) _ wrong_guesses])
    (simp_all add: plain_keys_def user_of_def seconds_def)

theorem guessing_locks_witness:
  "fst (login plain_keys ''nu1'' ''goodu1'' ''t'' ''s'' (fold (guess plain_keys ''nu1'')
      [(''x'', 0), (''y'', 5), (''z'', 60000000)] small_db)) = Inl account_locked"
  using guessing_locks [OF small_users(1) _ wrong_guesses, of 60000000 "''goodu1''" "''t''" "''s''"]
  by (simp add: plain_keys_def user_of_def seconds_def user_states_def)

lemma okE: "is_ok (fst (m S)) \<Longrightarrow> (\<And>x S'. m S = (Inr x, S') \<Longrightarrow> P) \<Longrightarrow> P" for m :: "'a idact"
  by (cases "m S"; cases "fst (m S)") auto

lemma small_unique: "sessions_unique (i_sessions small_db)"
  unfolding sessions_unique_def by code_simp

theorem refresh_token_once_witness:
  "\<exists>S1. refresh_session plain_keys ''r1'' ''r3'' ''s3'' (fold (identity_do plain_keys)
      [Wait 5, Refresh ''r2'' ''r4'' ''s4''] S1) = (Inl invalid_token, fold (identity_do plain_keys)
      [Wait 5, Refresh ''r2'' ''r4'' ''s4''] S1)"
proof -
  have "is_ok (fst (refresh_session plain_keys ''r1'' ''r3'' ''s3'' small_db))" by code_simp
  then obtain out S1 where "refresh_session plain_keys ''r1'' ''r3'' ''s3'' small_db = (Inr out, S1)"
    by (rule okE)
  moreover have "hash_opaque plain_keys ''r4'' \<noteq> hash_opaque plain_keys ''r1''" by code_simp
  then have "list_all (avoids (\<lambda>sid h. h \<noteq> hash_opaque plain_keys ''r1'') plain_keys)
      [Wait 5, Refresh ''r2'' ''r4'' ''s4'']" by (simp add: avoids_def)
  ultimately show ?thesis using refresh_token_once small_unique by blast
qed

theorem disabling_ends_sessions_witness:
  "\<exists>S1. assert_access_session_valid [(''sid'', VStr ''s1''), (''sub'', VStr ''u1'')]
      (fold (identity_do plain_keys) [Wait 5] S1) = (Inl invalid_token, fold (identity_do plain_keys) [Wait 5] S1)"
proof -
  have "is_ok (fst (admin_patch_user plain_keys (Some ''a'') ''u1'' (Some ''disabled'') None None small_db))" by code_simp
  then obtain u S1 where run: "admin_patch_user plain_keys (Some ''a'') ''u1'' (Some ''disabled'') None None small_db
      = (Inr u, S1)" by (rule okE)
  have "strip (str_or (dget [(''sid'', VStr ''s1''), (''sub'', VStr ''u1'')] ''sid'') []) \<in> set (sessions_of ''u1'' small_db)"
    by code_simp
  from disabling_ends_sessions [OF run disjI1 [OF refl] small_unique this, of "[Wait 5]"] show ?thesis
    by (auto simp: avoids_def)
qed



theorem scopeless_account_leases_everything_witness:
  "\<exists>S1 c. authenticate_worker_lease_principal plain_keys closed_gate small_directory (Some ''Bearer key'') small_db
      = (Inr (Some c), S1) \<and> (\<forall>r. in_scope (Some (worker_principal c)) r)"
proof -
  have "map_sum id (\<lambda>a. a) (fst (authenticate_sa_secret plain_keys ''key'' small_db)) = Inr (Some ''w'')" by code_simp
  then obtain S1 where run: "authenticate_sa_secret plain_keys ''key'' small_db = (Inr (Some ''w''), S1)"
    by (cases "authenticate_sa_secret plain_keys ''key'' small_db"; cases "fst (authenticate_sa_secret plain_keys ''key'' small_db)") auto
  have S1: "S1 = snd (authenticate_sa_secret plain_keys ''key'' small_db)" using run by simp
  have "extract_bearer_token (Some ''Bearer key'') = ok ''key''"
    "\<not> worker_token_shown closed_gate (Some ''Bearer key'')"
    "gt_identity_jwt closed_gate ''key'' (i_now small_db div 1000000) = None"
    "sa_has_worker_permissions S1 ''w''" "list_sa_scopes S1 ''w'' = []"
    unfolding S1 by code_simp+
  from scopeless_account_leases_everything [OF this(1-3) run _ this(4,5)] show ?thesis by blast
qed

theorem executor_never_approves_witness:
  "\<not> is_ok (authorize_model_process_action small_directory small_db
      (user_caller closed_gate small_directory small_db ''identity_jwt'' [] ''u1'' (user_of ''u1'' ''active''))
      ''t'' ''p'' ''m'' ''model.approve'')"
  by (rule executor_never_approves [OF _ _ _ _ small_users(3)]) (code_simp+)

subsection \<open>A second factor\<close>

definition mfa_db :: identity_db where
  "mfa_db = small_db\<lparr>i_totp := [\<lparr>tp_id = ''t1'', tp_user = ''u1'', tp_secret = [], tp_disabled = None, tp_used = None,
       tp_created = 0\<rparr>],
     i_codes := [\<lparr>rv_id = ''k1'', rv_user = ''u1'', rv_hash = hash_opaque plain_keys ''ABCD'', rv_used = None\<rparr>],
     i_challenges := [\<lparr>ch_id = ''h1'', ch_user = ''u1'', ch_hash = hash_opaque plain_keys ''chal'',
       ch_expires = seconds 200, ch_consumed = None\<rparr>]\<rparr>"


theorem sign_in_justified_witness:
  "\<exists>u out S'. login plain_keys ''nu1'' ''goodu1'' ''tok'' ''new'' small_db = (Inr out, S') \<and>
    us_state u = ''active'' \<and> signs_in_as plain_keys small_db S' u ''tok'' out"
proof -
  have "is_ok (fst (login plain_keys ''nu1'' ''goodu1'' ''tok'' ''new'' small_db))" by code_simp
  then obtain out S' where run: "login plain_keys ''nu1'' ''goodu1'' ''tok'' ''new'' small_db = (Inr out, S')"
    by (rule okE)
  from sign_in_justified [OF run] run show ?thesis by blast
qed

end
