(* ===== verification/Datasets.thy ===== *)
theory Datasets
  imports Actions RegistryLaws Cron Json
begin

text \<open>
  Model of the data side of \<^verbatim>\<open>lifecycle/lineage_service.py\<close>: datasets with their immutable versions, the
  accumulation buffers that grow by appended rows or by what a task reports, and the materialization of
  a buffer into the next version. Every statement commits on its own; materialization is one transaction
  under a lock of the dataset. The ids drawn, the hash and \<open>isoformat\<close> are arguments, the storage always works,
  the time counts microseconds, and the calls to the outside (events, realtime messages) are recorded.
\<close>

subsection \<open>Tables\<close>

record dataset_row =
  ds_id :: string
  ds_tenant :: string
  ds_project :: string
  ds_name :: string
  ds_uri :: "string option"
  ds_checksum :: "string option"
  ds_size :: int
  ds_updated :: int

record dversion =
  dv_id :: string
  dv_dataset :: string
  dv_version :: string
  dv_uri :: "string option"
  dv_checksum :: "string option"
  dv_source :: "string option"
  dv_canon :: "string option"
  dv_count :: "int option"
  dv_status :: string
  dv_score :: int
  dv_summary :: "string list"
  dv_details :: pyval
  dv_tags :: pyval
  dv_refs :: pyval
  dv_buffered :: bool
  dv_key :: "string option"
  dv_by :: "string option"
  dv_created :: int

record buffer_row =
  bu_tenant :: string
  bu_project :: string
  bu_dataset :: string
  bu_source :: string
  bu_canon :: string
  bu_size :: int
  bu_threshold :: int
  bu_strategy :: string
  bu_status :: string
  bu_start :: "int option"
  bu_end :: "int option"
  bu_version :: "string option"
  bu_at :: "int option"
  bu_updated :: int

record edge_row =
  ed_id :: string
  ed_tenant :: string
  ed_project :: string
  ed_run :: string
  ed_task :: string
  ed_in :: "string option"
  ed_out :: "string option"
  ed_key :: string

datatype lakecall =
    DatasetCreatedEvent string string
  | DatasetDeletedEvent string
  | RtBufferUpdated string string int int string
  | RtThresholdMet string string int int string
  | RtVersionCreated string string string int
  | RtDatasetUpdated string "string option"

record lake =
  lk_datasets :: "dataset_row list"
  lk_versions :: "dversion list"
  lk_buffers :: "buffer_row list"
  lk_edges :: "edge_row list"
  lk_files :: "(string \<times> string) list"
  lk_runs :: "string list"
  lk_calls :: "lakecall list"
  lk_drawn :: nat
  lk_now :: int

type_synonym 'a lact = "(lake, 'a) act"

text \<open>The \<open>n\<close>-th \<open>uuid4()\<close>, SHA-256 in hexadecimal, \<open>isoformat\<close>, and three variables of the environment.\<close>

record lake_env =
  le_uuid :: "nat \<Rightarrow> string"
  le_sha256 :: "string \<Rightarrow> string"
  le_iso :: "int \<Rightarrow> string"
  le_root :: "string option"
  le_legacy_label :: "string option"
  le_validate :: "string option"

definition draw :: "lake_env \<Rightarrow> string lact" where
  "draw X = seq (ask (\<lambda>L. le_uuid X (lk_drawn L))) (\<lambda>i. seq (put (\<lambda>L. L\<lparr>lk_drawn := Suc (lk_drawn L)\<rparr>)) (\<lambda>_. give i))"

definition note_call :: "lakecall \<Rightarrow> unit lact" where
  "note_call c = put (\<lambda>L. L\<lparr>lk_calls := lk_calls L @ [c]\<rparr>)"

subsection \<open>Source types\<close>

definition canonical_dataset_source_type :: "string \<Rightarrow> string" where
  "canonical_dataset_source_type raw =
     (let s = lower (strip raw) in
      if s = [] then ''unknown''
      else if s \<in> {''csv_import'', ''manual_upload'', ''import'', ''upload'', ''uploaded'', ''file_import''} then ''import''
      else if s \<in> {''runtime_feedback'', ''runtime_accumulation'', ''runtime_accumulated'', ''buffer_materialized'',
        ''accumulation''} then ''runtime_accumulated''
      else if s \<in> {''manual'', ''manual_snapshot'', ''manual_materialize''} then ''manual''
      else if s \<in> {''generated'', ''synthetic'', ''derived''} then ''generated''
      else ''unknown'')"

definition default_strategy :: string where "default_strategy = ''snapshot_on_threshold''"

definition supported_strategies :: "string list" where
  "supported_strategies = [''snapshot_on_threshold'', ''rolling_accumulate'', ''snapshot_on_schedule'',
     ''manual_materialize_only'']"

definition stripped_text :: "string \<Rightarrow> string \<Rightarrow> string" where
  "stripped_text v dflt = (let s = strip (if v = [] then dflt else v) in if s = [] then dflt else s)"

subsection \<open>Datasets\<close>

definition get_dataset :: "lake \<Rightarrow> string \<Rightarrow> string \<Rightarrow> string \<Rightarrow> dataset_row option" where
  "get_dataset L tenant project d =
     find (\<lambda>r. ds_tenant r = tenant \<and> ds_project r = project \<and> ds_id r = d) (lk_datasets L)"

definition dataset_named :: "lake \<Rightarrow> string \<Rightarrow> string \<Rightarrow> string \<Rightarrow> dataset_row option" where
  "dataset_named L tenant project name =
     find (\<lambda>r. ds_tenant r = tenant \<and> ds_project r = project \<and> ds_name r = name) (lk_datasets L)"

definition get_dataset_id_by_name :: "lake \<Rightarrow> string \<Rightarrow> string \<Rightarrow> string \<Rightarrow> string option" where
  "get_dataset_id_by_name L tenant project name =
     (if strip name = [] then None
      else case dataset_named L tenant project (strip name) of None \<Rightarrow> None
        | Some r \<Rightarrow> some_nonempty (ds_id r))"

definition first_some :: "'a option \<Rightarrow> 'a option \<Rightarrow> 'a option" where
  "first_some new old = (case new of None \<Rightarrow> old | Some v \<Rightarrow> Some v)"

definition upsert_dataset ::
    "lake_env \<Rightarrow> string \<Rightarrow> string \<Rightarrow> string \<Rightarrow> string option \<Rightarrow> string option \<Rightarrow> int option \<Rightarrow> string lact" where
  "upsert_dataset X tenant project name uri checksum sz =
     seq (ask (\<lambda>L. (dataset_named L tenant project name, lk_now L))) (\<lambda>(found, now).
     case found of
       Some r \<Rightarrow>
         seq (put (\<lambda>L. if uri = None \<and> checksum = None \<and> sz = None then L
           else L\<lparr>lk_datasets := map (\<lambda>q. if ds_id q = ds_id r
              then q\<lparr>ds_uri := first_some uri (ds_uri q), ds_checksum := first_some checksum (ds_checksum q),
                     ds_size := (case sz of None \<Rightarrow> ds_size q | Some n \<Rightarrow> n), ds_updated := now\<rparr>
              else q) (lk_datasets L)\<rparr>)) (\<lambda>_. give (ds_id r))
     | None \<Rightarrow>
         seq (draw X) (\<lambda>i.
         seq (put (\<lambda>L. L\<lparr>lk_datasets := lk_datasets L @ [\<lparr>ds_id = i, ds_tenant = tenant, ds_project = project,
             ds_name = name, ds_uri = uri, ds_checksum = checksum,
             ds_size = (case sz of None \<Rightarrow> 0 | Some n \<Rightarrow> n), ds_updated = now\<rparr>]\<rparr>)) (\<lambda>_.
         seq (note_call (DatasetCreatedEvent i name)) (\<lambda>_. give i))))"

definition notify_dataset_updated :: "string \<Rightarrow> string option \<Rightarrow> unit lact" where
  "notify_dataset_updated d action = note_call (RtDatasetUpdated d action)"

subsection \<open>Buffers\<close>

definition get_dataset_buffer :: "lake \<Rightarrow> string \<Rightarrow> string \<Rightarrow> string \<Rightarrow> buffer_row option" where
  "get_dataset_buffer L tenant project d =
     find (\<lambda>b. bu_tenant b = tenant \<and> bu_project b = project \<and> bu_dataset b = d) (lk_buffers L)"

definition resolve_buffer_target_threshold ::
    "lake \<Rightarrow> string \<Rightarrow> string \<Rightarrow> string \<Rightarrow> int option \<Rightarrow> int" where
  "resolve_buffer_target_threshold L tenant project d target =
     (case target of Some n \<Rightarrow> max 1 n
      | None \<Rightarrow> (case get_dataset_buffer L tenant project d of None \<Rightarrow> 1000
          | Some b \<Rightarrow> max 1 (if bu_threshold b = 0 then 1000 else bu_threshold b)))"

text \<open>What an upsert is called with; the absent ones have their defaults.\<close>

record buffer_args =
  ba_source :: string
  ba_size :: "int option"
  ba_threshold :: "int option"
  ba_strategy :: "string option"
  ba_status :: string
  ba_start :: "int option"
  ba_version :: "string option"
  ba_at :: "int option"

definition upserted_buffer ::
    "string \<Rightarrow> string \<Rightarrow> string \<Rightarrow> buffer_args \<Rightarrow> int \<Rightarrow> int \<Rightarrow> buffer_row option \<Rightarrow> buffer_row" where
  "upserted_buffer tenant project d a threshold now old =
     (let strat = stripped_text (opt_or (ba_strategy a) []) default_strategy; src = stripped_text (ba_source a) ''runtime_feedback'' in
      \<lparr>bu_tenant = tenant, bu_project = project, bu_dataset = d, bu_source = src,
       bu_canon = canonical_dataset_source_type src,
       bu_size = max 0 (case ba_size a of None \<Rightarrow> 0 | Some n \<Rightarrow> n), bu_threshold = threshold,
       bu_strategy = (if strat \<in> set supported_strategies then strat else default_strategy),
       bu_status = stripped_text (ba_status a) ''active'',
       bu_start = first_some (ba_start a) (case old of None \<Rightarrow> None | Some b \<Rightarrow> bu_start b),
       bu_end = (case old of None \<Rightarrow> None | Some b \<Rightarrow> bu_end b),
       bu_version = first_some (ba_version a) (case old of None \<Rightarrow> None | Some b \<Rightarrow> bu_version b),
       bu_at = first_some (ba_at a) (case old of None \<Rightarrow> None | Some b \<Rightarrow> bu_at b), bu_updated = now\<rparr>)"

definition put_buffer :: "buffer_row \<Rightarrow> lake \<Rightarrow> lake" where
  "put_buffer b L = L\<lparr>lk_buffers :=
     (if get_dataset_buffer L (bu_tenant b) (bu_project b) (bu_dataset b) = None then lk_buffers L @ [b]
      else map (\<lambda>q. if bu_tenant q = bu_tenant b \<and> bu_project q = bu_project b \<and> bu_dataset q = bu_dataset b
        then b else q) (lk_buffers L))\<rparr>"

definition upsert_dataset_buffer :: "string \<Rightarrow> string \<Rightarrow> string \<Rightarrow> buffer_args \<Rightarrow> unit lact" where
  "upsert_dataset_buffer tenant project d a =
     seq (ask (\<lambda>L. (resolve_buffer_target_threshold L tenant project d (ba_threshold a),
         get_dataset_buffer L tenant project d, lk_now L))) (\<lambda>(threshold, old, now).
     let b = upserted_buffer tenant project d a threshold now old;
         prev = (case old of None \<Rightarrow> 0 | Some q \<Rightarrow> bu_size q) in
     seq (put (put_buffer b)) (\<lambda>_.
     seq (note_call (RtBufferUpdated d (bu_source b) (bu_size b) threshold (bu_status b))) (\<lambda>_.
       if threshold \<le> bu_size b \<and> prev < threshold
       then note_call (RtThresholdMet d (bu_source b) (bu_size b) threshold (bu_strategy b)) else give ())))"

definition no_args :: buffer_args where
  "no_args = \<lparr>ba_source = ''runtime_feedback'', ba_size = None, ba_threshold = None, ba_strategy = None,
     ba_status = ''active'', ba_start = None, ba_version = None, ba_at = None\<rparr>"

definition config_args :: "dataset_row \<Rightarrow> buffer_row option \<Rightarrow> int \<Rightarrow> string option \<Rightarrow> int \<Rightarrow> buffer_args" where
  "config_args r buf target strategy now =
     (let wanted = strip (opt_or strategy []);
          strat = (if wanted \<noteq> [] \<and> wanted \<notin> set supported_strategies then default_strategy else wanted) in
      case buf of
        Some b \<Rightarrow> no_args\<lparr>ba_source := (if bu_source b = [] then ''runtime_feedback'' else bu_source b),
          ba_size := Some (bu_size b), ba_threshold := Some (max 1 target),
          ba_strategy := Some (if strat = [] then bu_strategy b else strat),
          ba_status := (if bu_status b = [] then ''active'' else bu_status b), ba_start := Some now\<rparr>
      | None \<Rightarrow> no_args\<lparr>ba_size := Some (ds_size r), ba_threshold := Some (max 1 target),
          ba_strategy := Some (if strat = [] then default_strategy else strat), ba_start := Some now\<rparr>)"

definition update_dataset_buffer_config ::
    "string \<Rightarrow> string \<Rightarrow> string \<Rightarrow> int \<Rightarrow> string option \<Rightarrow> buffer_row option lact" where
  "update_dataset_buffer_config tenant project d target strategy =
     seq (ask (\<lambda>L. (get_dataset L tenant project d, get_dataset_buffer L tenant project d, lk_now L)))
       (\<lambda>(ds, buf, now).
     case ds of None \<Rightarrow> give None
     | Some r \<Rightarrow>
         seq (upsert_dataset_buffer tenant project d (config_args r buf target strategy now)) (\<lambda>_.
         seq (notify_dataset_updated d (Some ''buffer_threshold_updated'')) (\<lambda>_.
           ask (\<lambda>L. get_dataset_buffer L tenant project d))))"

definition reset_dataset_buffer :: "string \<Rightarrow> string \<Rightarrow> string \<Rightarrow> string \<Rightarrow> int \<Rightarrow> unit lact" where
  "reset_dataset_buffer tenant project d source threshold =
     upsert_dataset_buffer tenant project d (no_args\<lparr>ba_source := source, ba_size := Some 0,
       ba_threshold := Some (max 1 threshold)\<rparr>)"

subsection \<open>Version labels\<close>

text \<open>The number of a label that matches \<open>^v[0-9]+$\<close>.\<close>

definition label_number :: "string \<Rightarrow> nat option" where
  "label_number s = (case s of c # ds \<Rightarrow>
       if c = CHR ''v'' \<and> ds \<noteq> [] \<and> list_all is_digit ds then Some (nat (digits_val ds)) else None
     | [] \<Rightarrow> None)"

definition label_numbers :: "lake \<Rightarrow> string \<Rightarrow> nat list" where
  "label_numbers L d = List.map_filter (\<lambda>v. if dv_dataset v = d then label_number (dv_version v) else None) (lk_versions L)"

text \<open>\<open>MAX(CAST(SUBSTRING(version FROM 2) AS INTEGER))\<close> plus one; the cast has 32 bits.\<close>

definition next_version_label :: "lake \<Rightarrow> string \<Rightarrow> string py" where
  "next_version_label L d =
     (let ns = label_numbers L d in
      if list_ex (\<lambda>n. 2 ^ 31 \<le> int n) ns then raise (RuntimeError ''NumericValueOutOfRange'')
      else ok (''v'' @ nat_str (fold max ns 0 + 1)))"

text \<open>\<open>_next_dataset_version\<close>: the label after that of the newest version.\<close>

definition newest_version :: "lake \<Rightarrow> string \<Rightarrow> dversion option" where
  "newest_version L d = (case filter (\<lambda>v. dv_dataset v = d) (lk_versions L) of [] \<Rightarrow> None
     | v # vs \<Rightarrow> Some (fold (\<lambda>w best. if dv_created best < dv_created w then w else best) vs v))"

definition next_dataset_version :: "lake \<Rightarrow> string \<Rightarrow> string" where
  "next_dataset_version L d =
     (case newest_version L d of None \<Rightarrow> ''v1''
      | Some v \<Rightarrow> (case label_number (lower (strip (dv_version v))) of None \<Rightarrow> ''v1''
          | Some n \<Rightarrow> ''v'' @ nat_str (n + 1)))"

definition lift_py :: "'a py \<Rightarrow> 'a lact" where
  "lift_py r = (case r of Inl e \<Rightarrow> fail e | Inr x \<Rightarrow> give x)"

subsection \<open>Versions\<close>

record version_args =
  va_uri :: "string option"
  va_checksum :: "string option"
  va_source :: "string option"
  va_count :: "int option"
  va_status :: string
  va_score :: int
  va_summary :: "string list"
  va_details :: "pyval list"

definition find_version :: "lake \<Rightarrow> string \<Rightarrow> string \<Rightarrow> dversion option" where
  "find_version L d label = find (\<lambda>v. dv_dataset v = d \<and> dv_version v = label) (lk_versions L)"

definition touched_version :: "version_args \<Rightarrow> dversion \<Rightarrow> dversion" where
  "touched_version a v =
     (let eff = (if strip (opt_or (dv_source v) []) \<noteq> [] then strip (opt_or (dv_source v) [])
                 else strip (opt_or (va_source a) []))
      in v\<lparr>dv_source := first_some (dv_source v) (va_source a), dv_count := first_some (va_count a) (dv_count v),
           dv_canon := Some (canonical_dataset_source_type eff)\<rparr>)"

definition dataset_known :: "lake \<Rightarrow> string \<Rightarrow> bool" where
  "dataset_known L d = list_ex (\<lambda>r. ds_id r = d) (lk_datasets L)"

definition upsert_dataset_version :: "lake_env \<Rightarrow> string \<Rightarrow> string \<Rightarrow> version_args \<Rightarrow> string lact" where
  "upsert_dataset_version X d label a =
     seq (ask (\<lambda>L. (find_version L d label, lk_now L, dataset_known L d))) (\<lambda>(found, now, known).
     case found of
       Some v \<Rightarrow>
         seq (put (\<lambda>L. if va_source a = None \<and> va_count a = None then L
           else L\<lparr>lk_versions := map (\<lambda>w. if dv_id w = dv_id v then touched_version a w else w) (lk_versions L)\<rparr>))
           (\<lambda>_. give (dv_id v))
     | None \<Rightarrow>
         seq (draw X) (\<lambda>i.
         seq (check (RuntimeError ''ForeignKeyViolation'') known) (\<lambda>_.
         let src = stripped_text (opt_or (va_source a) []) ''manual_upload'' in
         seq (put (\<lambda>L. L\<lparr>lk_versions := lk_versions L @ [\<lparr>dv_id = i, dv_dataset = d, dv_version = label,
             dv_uri = va_uri a, dv_checksum = va_checksum a, dv_source = Some src,
             dv_canon = Some (canonical_dataset_source_type src), dv_count = va_count a, dv_status = va_status a,
             dv_score = va_score a, dv_summary = va_summary a, dv_details = VList (va_details a),
             dv_tags = VList [], dv_refs = VList [], dv_buffered = False, dv_key = None, dv_by = None,
             dv_created = now\<rparr>]\<rparr>)) (\<lambda>_.
         seq (note_call (RtVersionCreated d i src (case va_count a of None \<Rightarrow> 0 | Some n \<Rightarrow> n))) (\<lambda>_. give i)))))"

definition get_dataset_version :: "lake \<Rightarrow> string \<Rightarrow> string \<Rightarrow> string \<Rightarrow> dversion option" where
  "get_dataset_version L tenant project vid =
     find (\<lambda>v. dv_id v = vid \<and> get_dataset L tenant project (dv_dataset v) \<noteq> None) (lk_versions L)"

text \<open>\<open>ORDER BY created_at DESC\<close>\<close>

definition list_dataset_versions :: "lake \<Rightarrow> string \<Rightarrow> string \<Rightarrow> string \<Rightarrow> dversion list" where
  "list_dataset_versions L tenant project d =
     (if get_dataset L tenant project d = None then []
      else rev (sort_key dv_created (filter (\<lambda>v. dv_dataset v = d) (lk_versions L))))"

end
