(* ===== verification/Lineage.thy ===== *)
theory Lineage
  imports Datasets
begin

text \<open>
  Model of the operations of \<^verbatim>\<open>lifecycle/lineage_service.py\<close> that grow buffers and versions: the
  materialization of a buffer, on its own, by hand and by schedule; the rows appended to a window file; what a
  task reports as its lineage, with the edges; and the neighbourhood of a version in the graph of edges.
\<close>

subsection \<open>Materialization\<close>

definition materialization_idempotency_key ::
    "lake_env \<Rightarrow> string \<Rightarrow> string \<Rightarrow> int \<Rightarrow> int \<Rightarrow> string \<Rightarrow> string option \<Rightarrow> string option \<Rightarrow> string" where
  "materialization_idempotency_key X d strat threshold cur src uri checksum =
     le_sha256 X (join ''|'' [d, strat, int_str threshold, int_str cur, src, opt_or uri [], opt_or checksum []])"

definition materialization_gate_failure_reason :: "string \<Rightarrow> bool \<Rightarrow> int \<Rightarrow> int \<Rightarrow> string option" where
  "materialization_gate_failure_reason strat force cur threshold =
     (if strat \<notin> set supported_strategies then Some ''unsupported_strategy''
      else if \<not> force \<and> strat \<noteq> ''snapshot_on_threshold'' then Some ''strategy_not_auto''
      else if cur \<le> 0 then Some ''empty_buffer''
      else if \<not> force \<and> cur < threshold then Some ''below_threshold''
      else None)"

text \<open>What is read of the buffer under the lock: threshold, strategy and size.\<close>

definition gate_threshold :: "buffer_row \<Rightarrow> int" where
  "gate_threshold b = max 1 (if bu_threshold b = 0 then 1000 else bu_threshold b)"

definition gate_strategy :: "buffer_row \<Rightarrow> string" where
  "gate_strategy b = (if bu_strategy b = [] then default_strategy else bu_strategy b)"

definition gate_size :: "buffer_row \<Rightarrow> int option \<Rightarrow> int" where
  "gate_size b n = max 0 (if bu_size b = 0 then max 0 (case n of None \<Rightarrow> 0 | Some m \<Rightarrow> m) else bu_size b)"

definition keyed_version :: "lake \<Rightarrow> string \<Rightarrow> dversion option" where
  "keyed_version L key = find (\<lambda>v. dv_key v = Some key) (lk_versions L)"

definition snapshot_row ::
    "string \<Rightarrow> string \<Rightarrow> string \<Rightarrow> string option \<Rightarrow> string option \<Rightarrow> int \<Rightarrow> string \<Rightarrow> string option \<Rightarrow> int \<Rightarrow> dversion" where
  "snapshot_row i d label uri checksum cur key creator now =
     \<lparr>dv_id = i, dv_dataset = d, dv_version = label, dv_uri = uri, dv_checksum = checksum,
      dv_source = Some ''runtime_accumulation'',
      dv_canon = Some (canonical_dataset_source_type ''runtime_accumulation''), dv_count = Some cur,
      dv_status = ''ready'', dv_score = 100, dv_summary = [], dv_details = VList [], dv_tags = VList [],
      dv_refs = VList [], dv_buffered = True, dv_key = Some key,
      dv_by = some_nonempty (strip (opt_or creator [])), dv_created = now\<rparr>"

definition drained :: "string \<Rightarrow> int \<Rightarrow> buffer_row \<Rightarrow> buffer_row" where
  "drained i now b = b\<lparr>bu_size := 0, bu_status := ''active'', bu_start := Some now, bu_end := None,
     bu_version := Some i, bu_at := Some now, bu_updated := now\<rparr>"

definition drain_buffer :: "string \<Rightarrow> string \<Rightarrow> string \<Rightarrow> string \<Rightarrow> lake \<Rightarrow> lake" where
  "drain_buffer tenant project d i L = L\<lparr>lk_buffers := map (\<lambda>b.
     if bu_tenant b = tenant \<and> bu_project b = project \<and> bu_dataset b = d then drained i (lk_now L) b else b)
     (lk_buffers L)\<rparr>"

text \<open>A snapshot of the buffer: its label is the next one, its key new, and the buffer starts again at 0.\<close>

definition take_snapshot ::
    "lake_env \<Rightarrow> string \<Rightarrow> string \<Rightarrow> string \<Rightarrow> string \<Rightarrow> string option \<Rightarrow> string option \<Rightarrow> int \<Rightarrow> int \<Rightarrow> string \<Rightarrow>
       string option \<Rightarrow> (string \<times> string) option lact" where
  "take_snapshot X tenant project d src uri checksum cur threshold key creator =
     seq (ask (\<lambda>L. next_version_label L d)) (\<lambda>r. seq (lift_py r) (\<lambda>label.
     seq (draw X) (\<lambda>i.
     seq (put (\<lambda>L. L\<lparr>lk_versions := lk_versions L @
         [snapshot_row i d label uri checksum cur key creator (lk_now L)]\<rparr>)) (\<lambda>_.
     seq (put (drain_buffer tenant project d i)) (\<lambda>_.
     seq (note_call (RtVersionCreated d i ''runtime_accumulation'' cur)) (\<lambda>_.
     seq (note_call (RtBufferUpdated d src 0 threshold ''active'')) (\<lambda>_.
       give (Some (i, label)))))))))"

definition materialize_if_needed ::
    "lake_env \<Rightarrow> string \<Rightarrow> string \<Rightarrow> string \<Rightarrow> string \<Rightarrow> string option \<Rightarrow> string option \<Rightarrow> int option \<Rightarrow> bool \<Rightarrow>
       string option \<Rightarrow> (string \<times> string) option lact" where
  "materialize_if_needed X tenant project d src uri checksum n force creator =
     seq (ask (\<lambda>L. get_dataset_buffer L tenant project d)) (\<lambda>buf.
     case buf of None \<Rightarrow> give None
     | Some b \<Rightarrow>
         if materialization_gate_failure_reason (gate_strategy b) force (gate_size b n) (gate_threshold b) \<noteq> None
         then give None
         else seq (ask (\<lambda>L. keyed_version L (materialization_idempotency_key X d (gate_strategy b)
                (gate_threshold b) (gate_size b n) src uri checksum))) (\<lambda>hit.
           case hit of Some v \<Rightarrow> give (Some (dv_id v, dv_version v))
           | None \<Rightarrow> take_snapshot X tenant project d src uri checksum (gate_size b n) (gate_threshold b)
               (materialization_idempotency_key X d (gate_strategy b) (gate_threshold b) (gate_size b n) src
                  uri checksum) creator))"

record materialized =
  mz_dataset :: string
  mz_version_id :: string
  mz_version :: string
  mz_strategy :: string

definition nonempty_opt :: "string option \<Rightarrow> string option" where
  "nonempty_opt v = some_nonempty (opt_or v [])"

definition materialize_dataset_buffer_now ::
    "lake_env \<Rightarrow> string \<Rightarrow> string \<Rightarrow> string \<Rightarrow> string option \<Rightarrow> materialized option lact" where
  "materialize_dataset_buffer_now X tenant project d creator =
     seq (ask (\<lambda>L. (get_dataset L tenant project d, get_dataset_buffer L tenant project d))) (\<lambda>(ds, buf).
     case (ds, buf) of
       (Some r, Some b) \<Rightarrow>
         seq (check (ValueError ''buffer_strategy_not_manual_or_schedule'')
           (gate_strategy b \<in> {''manual_materialize_only'', ''snapshot_on_schedule''})) (\<lambda>_.
         seq (materialize_if_needed X tenant project d
             (if bu_source b = [] then ''runtime_feedback'' else bu_source b) (nonempty_opt (ds_uri r))
             (nonempty_opt (ds_checksum r)) (Some (bu_size b)) True creator) (\<lambda>made.
         case made of None \<Rightarrow> fail (ValueError ''buffer_not_ready_for_materialization'')
         | Some (i, label) \<Rightarrow>
             if i = [] \<or> label = [] then fail (ValueError ''buffer_not_ready_for_materialization'')
             else give (Some \<lparr>mz_dataset = d, mz_version_id = i, mz_version = label,
               mz_strategy = gate_strategy b\<rparr>)))
     | _ \<Rightarrow> give None)"

datatype sched_item =
    Snapped string string string bool
  | SkippedBuffer string string

definition scheduled_rows :: "lake \<Rightarrow> string \<Rightarrow> string \<Rightarrow> int \<Rightarrow> buffer_row list" where
  "scheduled_rows L tenant project limit =
     take (nat (max 1 (min (if limit = 0 then 50 else limit) 200)))
       (sort_key bu_updated (filter (\<lambda>b. bu_tenant b = tenant \<and> bu_project b = project \<and>
          get_dataset L tenant project (bu_dataset b) \<noteq> None \<and> bu_strategy b = ''snapshot_on_schedule'')
          (lk_buffers L)))"

definition scheduled_one :: "lake_env \<Rightarrow> string \<Rightarrow> string \<Rightarrow> buffer_row \<Rightarrow> sched_item lact" where
  "scheduled_one X tenant project b =
     (if max 0 (bu_size b) \<le> 0 then give (SkippedBuffer (bu_dataset b) ''empty_buffer'')
      else seq (ask (\<lambda>L. get_dataset L tenant project (bu_dataset b))) (\<lambda>ds.
        case ds of None \<Rightarrow> give (SkippedBuffer (bu_dataset b) ''dataset_not_found'')
        | Some r \<Rightarrow>
            seq (materialize_if_needed X tenant project (bu_dataset b)
              (if bu_source b = [] then ''runtime_feedback'' else bu_source b) (nonempty_opt (ds_uri r))
              (nonempty_opt (ds_checksum r)) (Some (max 0 (bu_size b))) True None) (\<lambda>made.
            give (case made of None \<Rightarrow> SkippedBuffer (bu_dataset b) ''materialization_not_created''
              | Some (i, label) \<Rightarrow>
                  if i = [] \<or> label = [] then SkippedBuffer (bu_dataset b) ''materialization_not_created''
                  else Snapped (bu_dataset b) i label (max 0 (bu_size b) < gate_threshold b)))))"

fun each_act :: "('a \<Rightarrow> ('s, 'b) act) \<Rightarrow> 'a list \<Rightarrow> ('s, 'b list) act" where
  "each_act f [] = give []"
| "each_act f (x # xs) = seq (f x) (\<lambda>y. seq (each_act f xs) (\<lambda>ys. give (y # ys)))"

definition materialize_scheduled_buffers ::
    "lake_env \<Rightarrow> string \<Rightarrow> string \<Rightarrow> int \<Rightarrow> sched_item list lact" where
  "materialize_scheduled_buffers X tenant project limit =
     seq (ask (\<lambda>L. scheduled_rows L tenant project limit)) (each_act (scheduled_one X tenant project))"

subsection \<open>Window files\<close>

text \<open>\<open>urlparse(uri)\<close>: the scheme in lower case, and the path, for a text without control characters.\<close>

definition scheme_char :: "char \<Rightarrow> bool" where
  "scheme_char c = (is_digit c \<or> c \<in> {CHR ''+'', CHR ''-'', CHR ''.''} \<or> lower_char c \<noteq> upper_char c)"

definition url_scheme :: "string \<Rightarrow> string \<times> string" where
  "url_scheme u = (case split_once (CHR '':'') u of
     [s, rest] \<Rightarrow> if s \<noteq> [] \<and> lower_char (hd s) \<noteq> upper_char (hd s) \<and> list_all scheme_char s then (lower s, rest)
        else ([], u)
   | _ \<Rightarrow> ([], u))"

definition url_path :: "string \<Rightarrow> string" where
  "url_path rest = takeWhile (\<lambda>c. c \<noteq> CHR ''?'' \<and> c \<noteq> CHR ''#'')
     (if take 2 rest = ''//'' then dropWhile (\<lambda>c. c \<notin> {CHR ''/'', CHR ''?'', CHR ''#''}) (drop 2 rest) else rest)"

definition file_uri_to_path :: "string \<Rightarrow> string py" where
  "file_uri_to_path uri = (case url_scheme uri of (scheme, rest) \<Rightarrow>
     if scheme \<noteq> ''file'' then raise (ValueError ''dataset_upload_only_supports_file_uri'') else ok (url_path rest))"

definition dataset_artifact_root :: "lake_env \<Rightarrow> string" where
  "dataset_artifact_root X = rev (dropWhile (\<lambda>c. c = CHR ''/'')
     (rev (case le_root X of None \<Rightarrow> ''file:///mlair/artifacts/datasets'' | Some r \<Rightarrow> r)))"

definition six_digits :: "int \<Rightarrow> string" where
  "six_digits n = replicate (6 - length (int_str n)) (CHR ''0'') @ int_str n"

text \<open>\<open>strftime('%Y%m%dT%H%M%S%fZ')\<close>\<close>

definition window_label :: "int \<Rightarrow> string" where
  "window_label t = (let u = utc_of t in
     four_digits (u_year u) @ two_digits (u_month u) @ two_digits (u_day u) @ ''T'' @ two_digits (u_hour u) @
     two_digits (u_minute u) @ two_digits (t mod 60000000 div 1000000) @ six_digits (t mod 1000000) @ ''Z'')"

definition window_uri :: "lake_env \<Rightarrow> string \<Rightarrow> string \<Rightarrow> string \<Rightarrow> int \<Rightarrow> string" where
  "window_uri X tenant project name start =
     dataset_artifact_root X @ ''/'' @ slug_token tenant @ ''/'' @ slug_token project @ ''/'' @ slug_token name @
     ''/buffer_windows/'' @ window_label start @ ''.jsonl''"

text \<open>\<open>json.dumps(payload, ensure_ascii=False)\<close>\<close>

definition line_escape :: "char \<Rightarrow> string" where
  "line_escape c = (if (126::nat) < of_char c then [c] else json_escape c)"

fun line_text :: "pyval \<Rightarrow> string" where
  "line_text (VStr s) = quote2 # concat (map line_escape s) @ [quote2]"
| "line_text (VList xs) = ''['' @ join '', '' (map line_text xs) @ '']''"
| "line_text (VDict d) =
     ''{'' @ join '', '' (map (\<lambda>(k, v). line_text (VStr k) @ '': '' @ line_text v) d) @ ''}''"
| "line_text v = json_text v"

definition window_payload :: "lake_env \<Rightarrow> string option \<Rightarrow> int \<Rightarrow> pydict \<Rightarrow> pydict" where
  "window_payload X eid now row =
     dsetdefault ''timestamp'' (VStr (le_iso X now))
       (if opt_or eid [] = [] then row else dsetdefault ''execution_id'' (VStr (opt_or eid [])) row)"

text \<open>What is written before the first row that is no object, and whether there was none.\<close>

fun window_text :: "lake_env \<Rightarrow> string option \<Rightarrow> int \<Rightarrow> pyval list \<Rightarrow> string \<times> bool" where
  "window_text X eid now [] = ([], True)"
| "window_text X eid now (VDict row # rows) =
     (case window_text X eid now rows of (t, good) \<Rightarrow>
        (line_text (VDict (window_payload X eid now row)) @ [char_of (10 :: nat)] @ t, good))"
| "window_text X eid now (other # rows) = ([], False)"

definition file_text :: "lake \<Rightarrow> string \<Rightarrow> string" where
  "file_text L path = (case map_of (lk_files L) path of None \<Rightarrow> [] | Some t \<Rightarrow> t)"

definition append_file :: "string \<Rightarrow> string \<Rightarrow> unit lact" where
  "append_file path t = put (\<lambda>L. L\<lparr>lk_files := dset path (file_text L path @ t) (lk_files L)\<rparr>)"

record appended =
  ap_dataset :: string
  ap_rows :: nat
  ap_size :: int
  ap_uri :: string
  ap_version :: "(string \<times> string) option"

definition append_args :: "string \<Rightarrow> int \<Rightarrow> buffer_row \<Rightarrow> int \<Rightarrow> buffer_args" where
  "append_args src n b start = no_args\<lparr>ba_source := src, ba_size := Some n,
     ba_threshold := Some (if bu_threshold b = 0 then 1000 else bu_threshold b),
     ba_strategy := Some (if bu_strategy b = [] then default_strategy else bu_strategy b),
     ba_status := (if bu_status b = [] then ''active'' else bu_status b), ba_start := Some start\<rparr>"

text \<open>What reading an empty dict in place of a buffer gives.\<close>

definition blank_buffer :: buffer_row where
  "blank_buffer = \<lparr>bu_tenant = [], bu_project = [], bu_dataset = [], bu_source = [], bu_canon = [], bu_size = 0,
     bu_threshold = 0, bu_strategy = [], bu_status = [], bu_start = None, bu_end = None, bu_version = None,
     bu_at = None, bu_updated = 0\<rparr>"

text \<open>The rows reach the window file, then the size of the buffer and of the dataset, then a snapshot is due.\<close>

definition append_to_window ::
    "lake_env \<Rightarrow> string \<Rightarrow> string \<Rightarrow> dataset_row \<Rightarrow> buffer_row \<Rightarrow> pyval list \<Rightarrow> string \<Rightarrow> string option \<Rightarrow>
       appended lact" where
  "append_to_window X tenant project ds b rows src eid =
     seq (ask lk_now) (\<lambda>now.
     let start = (case bu_start b of None \<Rightarrow> now | Some t \<Rightarrow> t);
         name = (if ds_name ds = [] then ds_id ds else ds_name ds);
         uri = window_uri X tenant project name start;
         n = bu_size b + int (length rows) in
     seq (lift_py (file_uri_to_path uri)) (\<lambda>path.
     seq (append_file path (fst (window_text X eid now rows))) (\<lambda>_.
     seq (check (ValueError ''buffer_append_failed'') (snd (window_text X eid now rows))) (\<lambda>_.
     seq (upsert_dataset_buffer tenant project (ds_id ds) (append_args src n b start)) (\<lambda>_.
     seq (upsert_dataset X tenant project name None None (Some n)) (\<lambda>_.
     seq (materialize_if_needed X tenant project (ds_id ds) src (Some uri) None (Some n) False None) (\<lambda>made.
       give \<lparr>ap_dataset = ds_id ds, ap_rows = length rows, ap_size = n, ap_uri = uri,
         ap_version = made\<rparr>)))))))"

definition append_dataset_buffer_rows ::
    "lake_env \<Rightarrow> string \<Rightarrow> string \<Rightarrow> string \<Rightarrow> pyval \<Rightarrow> string \<Rightarrow> string option \<Rightarrow> appended lact" where
  "append_dataset_buffer_rows X tenant project d rows src eid =
     (case as_list rows of None \<Rightarrow> fail (ValueError ''rows_required'')
      | Some [] \<Rightarrow> fail (ValueError ''rows_required'')
      | Some (r # rs) \<Rightarrow>
          seq (ask (\<lambda>L. (get_dataset L tenant project d, get_dataset_buffer L tenant project d, lk_now L)))
            (\<lambda>(found, buf, now).
          case found of None \<Rightarrow> fail (ValueError ''dataset_not_found'')
          | Some ds \<Rightarrow>
              (case buf of
                 Some b \<Rightarrow> append_to_window X tenant project ds b (r # rs) src eid
               | None \<Rightarrow>
                   seq (upsert_dataset_buffer tenant project d (no_args\<lparr>ba_source := src,
                     ba_size := Some (ds_size ds), ba_threshold := Some 1000, ba_strategy := Some default_strategy,
                     ba_start := Some now\<rparr>)) (\<lambda>_.
                   seq (ask (\<lambda>L. get_dataset_buffer L tenant project d)) (\<lambda>made.
                     append_to_window X tenant project ds (case made of None \<Rightarrow> blank_buffer | Some b \<Rightarrow> b) (r # rs)
                       src eid)))))"

definition append_dataset_buffer_rows_by_name ::
    "lake_env \<Rightarrow> string \<Rightarrow> string \<Rightarrow> string \<Rightarrow> pyval \<Rightarrow> string \<Rightarrow> string option \<Rightarrow> appended lact" where
  "append_dataset_buffer_rows_by_name X tenant project name rows src eid =
     (if strip name = [] then fail (ValueError ''dataset_name_required'')
      else seq (upsert_dataset X tenant project (strip name) None None (Some 0)) (\<lambda>d.
        append_dataset_buffer_rows X tenant project d rows src eid))"

subsection \<open>What a task reports\<close>

text \<open>\<open>INSERT ... ON CONFLICT (idempotency_key) DO NOTHING\<close>; the empty side is written as U+2205.\<close>

definition empty_side :: string where "empty_side = map char_of [226, 136, 133 :: nat]"

definition edge_key :: "string \<Rightarrow> string \<Rightarrow> string option \<Rightarrow> string option \<Rightarrow> string" where
  "edge_key run task i out = join ''::'' [run, task, opt_or i empty_side, opt_or out empty_side]"

definition version_stored :: "lake \<Rightarrow> string option \<Rightarrow> bool" where
  "version_stored L v = (case v of None \<Rightarrow> True | Some i \<Rightarrow> list_ex (\<lambda>w. dv_id w = i) (lk_versions L))"

definition insert_edge ::
    "lake_env \<Rightarrow> string \<Rightarrow> string \<Rightarrow> string \<Rightarrow> string \<Rightarrow> string option \<Rightarrow> string option \<Rightarrow> bool lact" where
  "insert_edge X tenant project run task i out =
     seq (draw X) (\<lambda>eid.
     seq (ask (\<lambda>L. (list_ex (\<lambda>e. ed_key e = edge_key run task i out) (lk_edges L),
         run \<in> set (lk_runs L) \<and> version_stored L i \<and> version_stored L out))) (\<lambda>(known, refs).
     if known then give False
     else seq (check (RuntimeError ''ForeignKeyViolation'') refs) (\<lambda>_.
       seq (put (\<lambda>L. L\<lparr>lk_edges := lk_edges L @ [\<lparr>ed_id = eid, ed_tenant = tenant, ed_project = project,
           ed_run = run, ed_task = task, ed_in = i, ed_out = out, ed_key = edge_key run task i out\<rparr>]\<rparr>)) (\<lambda>_.
         give True))))"

record ingest =
  ig_dataset :: string
  ig_source :: string
  ig_uri :: pyval
  ig_checksum :: pyval
  ig_size :: "int option"
  ig_version :: pyval

definition text_if_truthy :: "pyval \<Rightarrow> string option" where
  "text_if_truthy v = (if truthy v then Some (py_str v) else None)"

definition item_size :: "pydict \<Rightarrow> int option" where
  "item_size item =
     (let raw = por (por (dget item ''size'') (dget item ''current_size'')) (dget item ''row_count'') in
      if raw = VNone then None else (case py_int raw of Inl _ \<Rightarrow> None | Inr n \<Rightarrow> Some n))"

definition ingest_dataset_and_buffer ::
    "lake_env \<Rightarrow> string \<Rightarrow> string \<Rightarrow> string \<Rightarrow> pydict \<Rightarrow> string \<Rightarrow> ingest lact" where
  "ingest_dataset_and_buffer X tenant project name item dflt =
     (let uri = dget item ''uri''; chk = dget item ''checksum''; n = item_size item;
          src = stripped_text (str_or (dget item ''source_type'') dflt) dflt in
      seq (upsert_dataset X tenant project name (text_if_truthy uri) (text_if_truthy chk) n) (\<lambda>d.
      seq (upsert_dataset_buffer tenant project d (no_args\<lparr>ba_source := src, ba_size := n\<rparr>)) (\<lambda>_.
        give \<lparr>ig_dataset = d, ig_source = src, ig_uri = uri, ig_checksum = chk, ig_size = n,
          ig_version = dget item ''version''\<rparr>)))"

definition version_text :: "pyval \<Rightarrow> string" where
  "version_text v = (if v = VNone then [] else strip (py_str v))"

definition snapshot_version_label ::
    "lake_env \<Rightarrow> string \<Rightarrow> pyval \<Rightarrow> (string \<times> string) list \<Rightarrow> (string \<times> (string \<times> string) list) lact" where
  "snapshot_version_label X d ver batch =
     (if version_text ver \<noteq> [] then give (version_text ver, batch)
      else if strip (case le_legacy_label X of None \<Rightarrow> ''1'' | Some s \<Rightarrow> s) = ''1'' then give (''default'', batch)
      else (case map_of batch d of Some label \<Rightarrow> give (label, batch)
        | None \<Rightarrow> seq (ask (\<lambda>L. next_version_label L d)) (\<lambda>r. seq (lift_py r) (\<lambda>label.
            give (label, dset d label batch)))))"

definition materialize_item_if_applicable ::
    "lake_env \<Rightarrow> string \<Rightarrow> string \<Rightarrow> ingest \<Rightarrow> (string \<times> string) option lact" where
  "materialize_item_if_applicable X tenant project g =
     (if ig_version g \<notin> {VNone, VStr []} \<or> strip (ig_source g) \<noteq> ''runtime_feedback'' then give None
      else materialize_if_needed X tenant project (ig_dataset g) (strip (ig_source g)) (text_if_truthy (ig_uri g))
        (text_if_truthy (ig_checksum g)) (ig_size g) False None)"

definition skip_unpinned :: "string \<Rightarrow> pyval \<Rightarrow> bool" where
  "skip_unpinned src ver = (strip src = ''runtime_feedback'' \<and> version_text ver = [])"

text \<open>One input or output: the version it stands for, if it has one, and its dataset.\<close>

definition ingest_item ::
    "lake_env \<Rightarrow> string \<Rightarrow> string \<Rightarrow> string \<Rightarrow> (string \<times> string) list \<Rightarrow> pydict \<Rightarrow>
       (string option \<times> string \<times> (string \<times> string) list) lact" where
  "ingest_item X tenant project dflt batch item =
     seq (ingest_dataset_and_buffer X tenant project (strip (py_str (dget_or item ''name'' (VStr [])))) item dflt) (\<lambda>g.
     seq (snapshot_version_label X (ig_dataset g) (ig_version g) batch) (\<lambda>(label, batch').
     seq (materialize_item_if_applicable X tenant project g) (\<lambda>made.
     case made of
       Some (i, _) \<Rightarrow> give (Some i, ig_dataset g, batch')
     | None \<Rightarrow>
         if skip_unpinned (ig_source g) (ig_version g) then give (None, ig_dataset g, batch')
         else seq (upsert_dataset_version X (ig_dataset g) label \<lparr>va_uri = text_if_truthy (ig_uri g),
               va_checksum = text_if_truthy (ig_checksum g), va_source = Some (ig_source g), va_count = ig_size g,
               va_status = ''ready'', va_score = 100, va_summary = [], va_details = []\<rparr>) (\<lambda>i.
           give (Some i, ig_dataset g, batch')))))"

fun ingest_items ::
    "lake_env \<Rightarrow> string \<Rightarrow> string \<Rightarrow> string \<Rightarrow> (string \<times> string) list \<Rightarrow> pyval list \<Rightarrow>
       (string list \<times> string list \<times> (string \<times> string) list) lact" where
  "ingest_items X tenant project dflt batch [] = give ([], [], batch)"
| "ingest_items X tenant project dflt batch (VDict item # items) =
     (if strip (py_str (dget_or item ''name'' (VStr []))) = [] then ingest_items X tenant project dflt batch items
      else seq (ingest_item X tenant project dflt batch item) (\<lambda>(vid, d, batch').
        seq (ingest_items X tenant project dflt batch' items) (\<lambda>(vids, ds, batch'').
          give ((case vid of None \<Rightarrow> vids | Some i \<Rightarrow> i # vids), d # ds, batch''))))"
| "ingest_items X tenant project dflt batch (other # items) = ingest_items X tenant project dflt batch items"

definition flush_touched :: "string list \<Rightarrow> unit lact" where
  "flush_touched ds = seq (each_act (\<lambda>d. notify_dataset_updated d None) (sort (remdups ds))) (\<lambda>_. give ())"

text \<open>Every input with every output; an output alone when there is no input.\<close>

definition edge_pairs :: "string list \<Rightarrow> string list \<Rightarrow> (string option \<times> string option) list" where
  "edge_pairs ins outs = concat (map (\<lambda>out. if ins = [] then [(None, Some out)]
     else map (\<lambda>i. (Some i, Some out)) ins) outs)"

datatype lineage_outcome = NotIngested | InvalidShape | NoOutputs | Ingested nat

definition ingest_lineage_from_task ::
    "lake_env \<Rightarrow> string \<Rightarrow> string \<Rightarrow> string \<Rightarrow> string \<Rightarrow> pyval \<Rightarrow> lineage_outcome lact" where
  "ingest_lineage_from_task X tenant project run task lineage =
     (case lineage of
        VDict block \<Rightarrow>
          if block = [] then give NotIngested
          else (case (as_list (por (dget block ''inputs'') (VList [])), as_list (por (dget block ''outputs'') (VList []))) of
            (Some ins, Some outs) \<Rightarrow>
              seq (ingest_items X tenant project ''api_ingestion'' [] ins) (\<lambda>(ivids, ids, batch).
              if ivids = [] \<and> outs = [] then seq (flush_touched ids) (\<lambda>_. give (Ingested 0))
              else seq (ingest_items X tenant project ''etl'' batch outs) (\<lambda>(ovids, ods, _).
                if ovids = [] then seq (flush_touched (ids @ ods)) (\<lambda>_. give NoOutputs)
                else seq (each_act (\<lambda>(i, out). insert_edge X tenant project run task i out) (edge_pairs ivids ovids))
                  (\<lambda>made. seq (flush_touched (ids @ ods)) (\<lambda>_.
                    give (Ingested (length (filter (\<lambda>b. b) made)))))))
          | _ \<Rightarrow> give InvalidShape)
      | _ \<Rightarrow> give NotIngested)"

subsection \<open>The graph of edges\<close>

definition edges_in :: "lake \<Rightarrow> string \<Rightarrow> string \<Rightarrow> edge_row list" where
  "edges_in L tenant project = filter (\<lambda>e. ed_tenant e = tenant \<and> ed_project e = project) (lk_edges L)"

definition side_text :: "string option \<Rightarrow> string list" where
  "side_text v = (case v of None \<Rightarrow> [] | Some i \<Rightarrow> if i = [] then [] else [i])"

text \<open>A set is kept as a list without repetitions.\<close>

definition expand_upstream :: "lake \<Rightarrow> string \<Rightarrow> string \<Rightarrow> string list \<Rightarrow> string list \<times> edge_row list" where
  "expand_upstream L tenant project ids =
     (let es = filter (\<lambda>e. ed_out e \<in> Some ` set ids) (edges_in L tenant project)
      in (remdups (concat (map (\<lambda>e. side_text (ed_in e)) es)), es))"

definition expand_downstream :: "lake \<Rightarrow> string \<Rightarrow> string \<Rightarrow> string list \<Rightarrow> string list \<times> edge_row list" where
  "expand_downstream L tenant project ids =
     (let es = filter (\<lambda>e. ed_in e \<in> Some ` set ids) (edges_in L tenant project)
      in (remdups (concat (map (\<lambda>e. side_text (ed_out e)) es)), es))"

record lineage_walk =
  wk_all :: "string list"
  wk_up :: "string list"
  wk_down :: "string list"
  wk_edges :: "edge_row list"

definition walk_up :: "lake \<Rightarrow> string \<Rightarrow> string \<Rightarrow> string \<Rightarrow> lineage_walk \<Rightarrow> lineage_walk" where
  "walk_up L tenant project dir w =
     (if dir \<in> {''up'', ''both''} \<and> wk_up w \<noteq> [] then
        (case expand_upstream L tenant project (wk_up w) of (nxt, es) \<Rightarrow>
           w\<lparr>wk_edges := wk_edges w @ es, wk_up := nxt, wk_all := remdups (wk_all w @ nxt)\<rparr>)
      else w)"

definition walk_down :: "lake \<Rightarrow> string \<Rightarrow> string \<Rightarrow> string \<Rightarrow> lineage_walk \<Rightarrow> lineage_walk" where
  "walk_down L tenant project dir w =
     (if dir \<in> {''down'', ''both''} \<and> wk_down w \<noteq> [] then
        (case expand_downstream L tenant project (wk_down w) of (nxt, es) \<Rightarrow>
           w\<lparr>wk_edges := wk_edges w @ es, wk_down := nxt, wk_all := remdups (wk_all w @ nxt)\<rparr>)
      else w)"

definition walk_steps :: "lake \<Rightarrow> string \<Rightarrow> string \<Rightarrow> string \<Rightarrow> nat \<Rightarrow> lineage_walk \<Rightarrow> lineage_walk" where
  "walk_steps L tenant project dir n = (walk_down L tenant project dir \<circ> walk_up L tenant project dir) ^^ n"

fun first_by_id :: "string list \<Rightarrow> edge_row list \<Rightarrow> edge_row list" where
  "first_by_id seen [] = []"
| "first_by_id seen (e # es) =
     (if ed_id e \<in> set seen then first_by_id seen es else e # first_by_id (ed_id e # seen) es)"

definition load_version_nodes :: "lake \<Rightarrow> string \<Rightarrow> string \<Rightarrow> string list \<Rightarrow> dversion list" where
  "load_version_nodes L tenant project ids =
     filter (\<lambda>v. get_dataset L tenant project (dv_dataset v) \<noteq> None \<and> dv_id v \<in> set ids) (lk_versions L)"

record neighborhood =
  nb_center :: string
  nb_depth :: int
  nb_ids :: "string list"
  nb_nodes :: "dversion list"
  nb_edges :: "edge_row list"

definition get_lineage_neighborhood ::
    "lake \<Rightarrow> string \<Rightarrow> string \<Rightarrow> string \<Rightarrow> int \<Rightarrow> string \<Rightarrow> neighborhood" where
  "get_lineage_neighborhood L tenant project v depth dir =
     (let d = max 0 (min depth 5);
          w = walk_steps L tenant project dir (nat d) \<lparr>wk_all = [v], wk_up = [v], wk_down = [v], wk_edges = []\<rparr>
      in \<lparr>nb_center = v, nb_depth = d, nb_ids = sort (wk_all w),
          nb_nodes = load_version_nodes L tenant project (wk_all w), nb_edges = first_by_id [] (wk_edges w)\<rparr>)"

definition get_lineage_for_run :: "lake \<Rightarrow> string \<Rightarrow> string \<Rightarrow> string \<Rightarrow> (edge_row \<times> dversion option \<times> dversion option) list" where
  "get_lineage_for_run L tenant project run =
     map (\<lambda>e. (e, Option.bind (ed_in e) (\<lambda>i. find (\<lambda>v. dv_id v = i) (lk_versions L)),
         Option.bind (ed_out e) (\<lambda>i. find (\<lambda>v. dv_id v = i) (lk_versions L))))
       (filter (\<lambda>e. ed_run e = run) (edges_in L tenant project))"

end
