(* ===== verification/CsvText.thy ===== *)
theory CsvText
  imports PyValue
begin

text \<open>
  The CSV text that \<^verbatim>\<open>lifecycle/lineage_service.py\<close> reads with \<open>csv.DictReader\<close> over a \<open>StringIO\<close> and writes with
  \<open>csv.DictWriter(lineterminator='\n')\<close>: the state machine of the reader for the default dialect, the quoting of
  the writer, and that reading gives back what was written.
\<close>

abbreviation lf :: char where "lf \<equiv> char_of (10 :: nat)"
abbreviation cr :: char where "cr \<equiv> char_of (13 :: nat)"
abbreviation comma :: char where "comma \<equiv> CHR '',''"

subsection \<open>The reader\<close>

datatype csv_mode = StartRecord | StartField | InField | InQuoted | QuoteInQuoted | EatCrnl

record csv_state =
  cs_mode :: csv_mode
  cs_field :: string
  cs_row :: "string list"

definition csv_start :: csv_state where
  "csv_start = \<lparr>cs_mode = StartRecord, cs_field = [], cs_row = []\<rparr>"

definition save_field :: "csv_mode \<Rightarrow> csv_state \<Rightarrow> csv_state" where
  "save_field m s = \<lparr>cs_mode = m, cs_field = [], cs_row = cs_row s @ [cs_field s]\<rparr>"

definition add_char :: "char \<Rightarrow> csv_mode \<Rightarrow> csv_state \<Rightarrow> csv_state" where
  "add_char c m s = s\<lparr>cs_mode := m, cs_field := cs_field s @ [c]\<rparr>"

text \<open>One character, or the end of a line (\<^term>\<open>None\<close>); no state is a \<open>csv.Error\<close>.\<close>

definition csv_step :: "csv_state \<Rightarrow> char option \<Rightarrow> csv_state option" where
  "csv_step s e =
     (case cs_mode s of
        InQuoted \<Rightarrow>
          (case e of None \<Rightarrow> Some s
           | Some c \<Rightarrow> Some (if c = quote2 then s\<lparr>cs_mode := QuoteInQuoted\<rparr> else add_char c InQuoted s))
      | EatCrnl \<Rightarrow>
          (case e of None \<Rightarrow> Some (s\<lparr>cs_mode := StartRecord\<rparr>)
           | Some c \<Rightarrow> if c \<in> {lf, cr} then Some s else None)
      | m \<Rightarrow>
          (case e of
             None \<Rightarrow> Some (if m = StartRecord then s else save_field StartRecord s)
           | Some c \<Rightarrow> Some (
               if c \<in> {lf, cr} then (if m = StartRecord then s\<lparr>cs_mode := EatCrnl\<rparr> else save_field EatCrnl s)
               else if c = quote2 \<and> m \<noteq> InField then
                 (if m = QuoteInQuoted then add_char c InQuoted s else s\<lparr>cs_mode := InQuoted\<rparr>)
               else if c = comma then save_field StartField s
               else add_char c InField s)))"

text \<open>The lines of a \<open>StringIO\<close> keep their line feed; each is followed by its end.\<close>

fun csv_events :: "bool \<Rightarrow> string \<Rightarrow> char option list" where
  "csv_events opened [] = (if opened then [None] else [])"
| "csv_events opened (c # cs) = Some c # (if c = lf then None # csv_events False cs else csv_events True cs)"

text \<open>The rows, and whether the reader then raises; a text that ends inside quotes gives a last row.\<close>

fun csv_run :: "csv_state \<Rightarrow> char option list \<Rightarrow> string list list \<times> bool" where
  "csv_run s [] = (if cs_field s \<noteq> [] \<or> cs_mode s = InQuoted then [cs_row (save_field StartRecord s)] else [], False)"
| "csv_run s (e # es) =
     (case csv_step s e of
        None \<Rightarrow> ([], True)
      | Some s' \<Rightarrow>
          if e = None \<and> cs_mode s' = StartRecord then
            (case csv_run csv_start es of (rows, failed) \<Rightarrow> (cs_row s' # rows, failed))
          else csv_run s' es)"

definition csv_rows :: "string \<Rightarrow> string list list \<times> bool" where
  "csv_rows text = csv_run csv_start (csv_events False text)"

subsection \<open>Rows by column\<close>

text \<open>
  A row of \<open>DictReader\<close>: a missing cell is \<open>None\<close>, the cells beyond the columns are under the key \<open>None\<close>.
\<close>

record csv_row =
  cr_cells :: "(string \<times> string option) list"
  cr_rest :: "string list"

definition dict_row :: "string list \<Rightarrow> string list \<Rightarrow> csv_row" where
  "dict_row columns vals =
     \<lparr>cr_cells = foldl (\<lambda>d (k, v). dset k v d) []
        (zip columns (map Some (take (length columns) vals) @ replicate (length columns - length vals) None)),
      cr_rest = drop (length columns) vals\<rparr>"

definition csv_columns :: "string \<Rightarrow> string list" where
  "csv_columns text = (case fst (csv_rows text) of [] \<Rightarrow> [] | r # rs \<Rightarrow> r)"

definition csv_first_fails :: "string \<Rightarrow> bool" where
  "csv_first_fails text = (fst (csv_rows text) = [] \<and> snd (csv_rows text))"

definition csv_dicts :: "string \<Rightarrow> csv_row list py" where
  "csv_dicts text = (if snd (csv_rows text) then raise (RuntimeError ''csv.Error'')
     else ok (map (dict_row (csv_columns text)) (filter (\<lambda>r. r \<noteq> []) (tl (fst (csv_rows text))))))"

definition cell :: "csv_row \<Rightarrow> string \<Rightarrow> string option" where
  "cell r k = (case map_of (cr_cells r) k of Some v \<Rightarrow> v | None \<Rightarrow> None)"

subsection \<open>The writer\<close>

definition csv_quoted :: "string \<Rightarrow> bool" where
  "csv_quoted f = list_ex (\<lambda>c. c \<in> {comma, quote2, lf}) f"

definition csv_field :: "string \<Rightarrow> string" where
  "csv_field f = (if csv_quoted f
     then quote2 # concat (map (\<lambda>c. if c = quote2 then [quote2, quote2] else [c]) f) @ [quote2] else f)"

definition csv_line :: "string list \<Rightarrow> string" where
  "csv_line fs = (let t = join '','' (map csv_field fs)
     in (if t = [] \<and> fs \<noteq> [] then [quote2, quote2] else t) @ [lf])"

definition csv_text :: "string list list \<Rightarrow> string" where
  "csv_text rows = concat (map csv_line rows)"

text \<open>\<open>writeheader\<close> and \<open>writerows\<close>; a row with a key that is no column is refused.\<close>

definition csv_write :: "string list \<Rightarrow> csv_row list \<Rightarrow> string py" where
  "csv_write columns rows =
     (if list_ex (\<lambda>r. cr_rest r \<noteq> [] \<or> \<not> fst ` set (cr_cells r) \<subseteq> set columns) rows
      then raise (ValueError ''dict contains fields not in fieldnames'')
      else ok (csv_text (columns # map (\<lambda>r. map (\<lambda>k. case cell r k of None \<Rightarrow> [] | Some v \<Rightarrow> v) columns) rows)))"

subsection \<open>What is written is read back\<close>

lemma special_chars [simp]:
  "quote2 \<noteq> lf" "quote2 \<noteq> cr" "quote2 \<noteq> comma" "comma \<noteq> lf" "comma \<noteq> cr" "lf \<noteq> cr"
  "lf \<noteq> quote2" "cr \<noteq> quote2" "comma \<noteq> quote2" "lf \<noteq> comma" "cr \<noteq> comma" "cr \<noteq> lf"
  by (simp_all add: quote2_def) (code_simp+)

definition plain :: "string \<Rightarrow> bool" where
  "plain f \<longleftrightarrow> cr \<notin> set f"

text \<open>The events of a text that is followed by more.\<close>

definition events_of :: "string \<Rightarrow> char option list" where
  "events_of t = concat (map (\<lambda>c. if c = lf then [Some c, None] else [Some c]) t)"

lemma events_append: "csv_events opened (t @ lf # u) = events_of t @ [Some lf, None] @ csv_events False u"
  by (induction t arbitrary: opened) (auto simp: events_of_def)

text \<open>Inside quotes the events of the doubled text add the text.\<close>

lemma run_quoted:
  "csv_run \<lparr>cs_mode = InQuoted, cs_field = a, cs_row = r\<rparr>
     (events_of (concat (map (\<lambda>c. if c = quote2 then [quote2, quote2] else [c]) f)) @ es) =
   csv_run \<lparr>cs_mode = InQuoted, cs_field = a @ f, cs_row = r\<rparr> es"
  by (induction f arbitrary: a) (auto simp: events_of_def csv_step_def add_char_def)

lemma run_unquoted:
  assumes "\<not> csv_quoted f" "plain f" "m = InField"
  shows "csv_run \<lparr>cs_mode = m, cs_field = a, cs_row = r\<rparr> (events_of f @ es) =
   csv_run \<lparr>cs_mode = m, cs_field = a @ f, cs_row = r\<rparr> es"
  using assms by (induction f arbitrary: a) (auto simp: events_of_def csv_step_def add_char_def csv_quoted_def plain_def)

text \<open>The end of a field: a comma, or the end of the line.\<close>

definition end_of :: "csv_mode \<Rightarrow> bool" where
  "end_of m \<longleftrightarrow> m \<in> {StartField, StartRecord, InField, QuoteInQuoted}"

lemma run_field:
  assumes "plain f" "m \<in> {StartRecord, StartField}" "f \<noteq> [] \<or> m = StartField"
  shows "\<exists>m'. m' \<in> {StartField, InField, QuoteInQuoted} \<and>
    csv_run \<lparr>cs_mode = m, cs_field = [], cs_row = r\<rparr> (events_of (csv_field f) @ es) =
    csv_run \<lparr>cs_mode = m', cs_field = f, cs_row = r\<rparr> es"
proof (cases "csv_quoted f")
  case True
  have "csv_run \<lparr>cs_mode = m, cs_field = [], cs_row = r\<rparr> (events_of (csv_field f) @ es) =
      csv_run \<lparr>cs_mode = InQuoted, cs_field = [], cs_row = r\<rparr>
        (events_of (concat (map (\<lambda>c. if c = quote2 then [quote2, quote2] else [c]) f)) @ Some quote2 # es)"
    using assms(2) True by (auto simp: csv_field_def events_of_def csv_step_def)
  also have "\<dots> = csv_run \<lparr>cs_mode = QuoteInQuoted, cs_field = f, cs_row = r\<rparr> es"
    by (simp add: run_quoted) (simp add: csv_step_def)
  finally show ?thesis by blast
next
  case False
  show ?thesis
  proof (cases f)
    case Nil
    then show ?thesis using assms(3) by (auto simp: csv_field_def csv_quoted_def events_of_def)
  next
    case (Cons c cs)
    have c: "c \<notin> {comma, quote2, lf, cr}" and cs: "\<not> csv_quoted cs" "plain cs"
      using False assms(1) Cons by (auto simp: csv_quoted_def plain_def)
    have "csv_run \<lparr>cs_mode = m, cs_field = [], cs_row = r\<rparr> (events_of (csv_field f) @ es) =
        csv_run \<lparr>cs_mode = InField, cs_field = [c], cs_row = r\<rparr> (events_of cs @ es)"
      using False c assms(2) by (auto simp: Cons csv_field_def events_of_def csv_step_def add_char_def)
    also have "\<dots> = csv_run \<lparr>cs_mode = InField, cs_field = f, cs_row = r\<rparr> es"
      using run_unquoted [OF cs refl, of "[c]"] Cons by simp
    finally show ?thesis by blast
  qed
qed

lemma events_of_append: "events_of (a @ b) = events_of a @ events_of b"
  by (simp add: events_of_def)

lemma run_comma:
  "m \<in> {StartRecord, StartField, InField, QuoteInQuoted} \<Longrightarrow>
   csv_run \<lparr>cs_mode = m, cs_field = f, cs_row = r\<rparr> (Some comma # es) =
   csv_run \<lparr>cs_mode = StartField, cs_field = [], cs_row = r @ [f]\<rparr> es"
  by (auto simp: csv_step_def save_field_def)

lemma run_line_end:
  "m \<in> {StartField, InField, QuoteInQuoted} \<Longrightarrow>
   csv_run \<lparr>cs_mode = m, cs_field = f, cs_row = r\<rparr> (Some lf # None # es) =
   (case csv_run csv_start es of (rows, failed) \<Rightarrow> ((r @ [f]) # rows, failed))"
  by (auto simp: csv_step_def save_field_def)

lemma run_fields:
  assumes "fs \<noteq> []" "list_all plain fs"
  shows "csv_run \<lparr>cs_mode = StartField, cs_field = [], cs_row = r\<rparr>
      (events_of (join '','' (map csv_field fs)) @ Some lf # None # es) =
    (case csv_run csv_start es of (rows, failed) \<Rightarrow> ((r @ fs) # rows, failed))"
  using assms
proof (induction fs arbitrary: r)
  case (Cons f fs)
  show ?case
  proof (cases fs)
    case Nil
    obtain m' where m': "m' \<in> {StartField, InField, QuoteInQuoted}"
      and run: "csv_run \<lparr>cs_mode = StartField, cs_field = [], cs_row = r\<rparr> (events_of (csv_field f) @ Some lf # None # es) =
        csv_run \<lparr>cs_mode = m', cs_field = f, cs_row = r\<rparr> (Some lf # None # es)"
      using run_field [of f StartField r "Some lf # None # es"] Cons.prems by auto
    show ?thesis using run run_line_end [OF m'] by (simp add: Nil)
  next
    case (Cons g gs)
    let ?rest = "events_of (join '','' (map csv_field fs)) @ Some lf # None # es"
    obtain m' where m': "m' \<in> {StartField, InField, QuoteInQuoted}"
      and run: "csv_run \<lparr>cs_mode = StartField, cs_field = [], cs_row = r\<rparr> (events_of (csv_field f) @ Some comma # ?rest) =
        csv_run \<lparr>cs_mode = m', cs_field = f, cs_row = r\<rparr> (Some comma # ?rest)"
      using run_field [of f StartField r "Some comma # ?rest"] Cons.prems by auto
    have "csv_run \<lparr>cs_mode = m', cs_field = f, cs_row = r\<rparr> (Some comma # ?rest) =
        csv_run \<lparr>cs_mode = StartField, cs_field = [], cs_row = r @ [f]\<rparr> ?rest"
      by (rule run_comma) (use m' in auto)
    moreover have "events_of (join '','' (map csv_field (f # fs))) = events_of (csv_field f) @ Some comma # events_of (join '','' (map csv_field fs))"
      by (simp add: Cons events_of_append) (simp add: events_of_def)
    ultimately show ?thesis using run Cons.IH [of "r @ [f]"] Cons.prems Cons by simp
  qed
qed simp

lemma run_line:
  assumes "fs \<noteq> []" "list_all plain fs"
  shows "csv_run csv_start (csv_events False (csv_line fs @ u)) =
    (case csv_run csv_start (csv_events False u) of (rows, failed) \<Rightarrow> (fs # rows, failed))"
proof -
  let ?es = "csv_events False u"
  let ?t = "join '','' (map csv_field fs)"
  have events: "csv_events False (t @ lf # u) = events_of t @ Some lf # None # ?es" for t
    by (simp add: events_append)
  obtain f gs where fs: "fs = f # gs" using assms(1) by (cases fs) auto
  show ?thesis
  proof (cases "?t = []")
    case True
    then have "fs = [[]]" using fs by (cases gs; cases "csv_quoted f") (auto simp: csv_field_def)
    then show ?thesis
      using run_line_end [of QuoteInQuoted "[]" "[]" ?es]
      by (simp add: csv_line_def csv_field_def csv_quoted_def)
        (simp add: csv_step_def csv_start_def save_field_def)
  next
    case False
    have line: "csv_events False (csv_line fs @ u) = events_of ?t @ Some lf # None # ?es"
      using False events [of ?t] by (simp add: csv_line_def Let_def)
    show ?thesis
    proof (cases "f = []")
      case True
      then have gs: "gs \<noteq> []" using False fs by (auto simp: csv_field_def csv_quoted_def)
      then have "events_of ?t = Some comma # events_of (join '','' (map csv_field gs))"
        using True by (cases gs) (simp_all add: fs csv_field_def csv_quoted_def events_of_append, simp add: events_of_def)
      moreover have "csv_run csv_start (Some comma # es) = csv_run \<lparr>cs_mode = StartField, cs_field = [], cs_row = [[]]\<rparr> es" for es
        using run_comma [of StartRecord "[]" "[]" es] by (simp add: csv_start_def del: csv_run.simps)
      ultimately show ?thesis
        using run_fields [OF gs, of "[[]]" ?es] assms True by (simp only: line append_Cons) (simp add: fs)
    next
      case nonempty: False
      have first: "csv_run csv_start (events_of ?t @ Some lf # None # ?es) =
          csv_run \<lparr>cs_mode = StartField, cs_field = [], cs_row = []\<rparr> (events_of ?t @ Some lf # None # ?es)"
      proof -
        have "\<exists>c cs. csv_field f = c # cs \<and> c \<noteq> lf \<and> c \<noteq> cr"
          using nonempty assms(2) fs by (cases f) (auto simp: csv_field_def csv_quoted_def plain_def)
        then obtain c cs where c: "csv_field f = c # cs" "c \<noteq> lf" "c \<noteq> cr" by blast
        then have "\<exists>cs'. ?t = c # cs'" by (cases gs) (simp_all add: fs)
        then obtain cs' where "events_of ?t = Some c # events_of cs'" using c(2) by (auto simp: events_of_def)
        then show ?thesis using c(2,3)
          by (simp add: csv_start_def csv_step_def save_field_def add_char_def)
      qed
      show ?thesis using first run_fields [OF assms, of "[]" ?es] unfolding line by simp
    qed
  qed
qed


end
