(* ===== verification/DatasetContent.thy ===== *)
theory DatasetContent
  imports Lineage CsvText
begin

text \<open>
  Model of the versions of a dataset and their contents in \<^verbatim>\<open>lifecycle/lineage_service.py\<close>: tags and references,
  the comparison of two versions, the upload, merge, replacement and patch of the file behind a version, and
  deletion. A missing file is \<open>RuntimeError\<close> with the name the code gives it, a file is its text, and \<open>splitlines\<close>
  and \<open>strip\<close> are those of ASCII text.
\<close>

subsection \<open>Tags and references\<close>

definition coerce_json_list :: "pyval \<Rightarrow> pyval list" where
  "coerce_json_list raw = (case raw of
     VList xs \<Rightarrow> xs
   | VStr s \<Rightarrow> (case json_loads s of Some (VList xs) \<Rightarrow> xs | _ \<Rightarrow> [])
   | _ \<Rightarrow> [])"

definition add_new :: "'a list \<Rightarrow> 'a \<Rightarrow> 'a list" where
  "add_new out x = (if x \<in> set out then out else out @ [x])"

definition tags_list_from_db :: "pyval \<Rightarrow> string list" where
  "tags_list_from_db raw =
     foldl add_new [] (filter (\<lambda>s. s \<noteq> []) (map (\<lambda>x. strip (py_str x)) (coerce_json_list raw)))"

type_synonym ext_ref = "string \<times> string option"

definition add_ref :: "ext_ref list \<Rightarrow> ext_ref \<Rightarrow> ext_ref list" where
  "add_ref out r = (if fst r = [] \<or> fst r \<in> fst ` set out then out else out @ [r])"

definition ref_of :: "pydict \<Rightarrow> ext_ref" where
  "ref_of d = (strip (str_or (dget d ''url'') []), some_nonempty (strip (str_or (dget d ''label'') [])))"

definition dicts_of :: "pyval list \<Rightarrow> pydict list" where
  "dicts_of xs = List.map_filter as_dict xs"

definition external_refs_list_from_db :: "pyval \<Rightarrow> ext_ref list" where
  "external_refs_list_from_db raw = foldl add_ref [] (map ref_of (dicts_of (coerce_json_list raw)))"

definition normalize_append_tags :: "string list \<Rightarrow> string list" where
  "normalize_append_tags xs =
     foldl add_new [] (filter (\<lambda>s. s \<noteq> [] \<and> length s \<le> 128) (map strip xs))"

definition normalize_append_external_refs :: "pyval list \<Rightarrow> ext_ref list" where
  "normalize_append_external_refs xs =
     foldl add_ref [] (map (\<lambda>(u, l). (u, case l of Some t \<Rightarrow> if length t \<le> 256 then Some t else None | None \<Rightarrow> None))
       (filter (\<lambda>r. length (fst r) \<le> 2048) (map ref_of (dicts_of xs))))"

definition merge_distinct_tags :: "pyval \<Rightarrow> string list \<Rightarrow> string list" where
  "merge_distinct_tags existing xs = foldl add_new (tags_list_from_db existing) xs"

definition merge_distinct_external_refs :: "pyval \<Rightarrow> ext_ref list \<Rightarrow> ext_ref list" where
  "merge_distinct_external_refs existing xs = foldl add_ref (external_refs_list_from_db existing) xs"

definition tags_value :: "string list \<Rightarrow> pyval" where "tags_value ts = VList (map VStr ts)"

definition refs_value :: "ext_ref list \<Rightarrow> pyval" where
  "refs_value rs = VList (map (\<lambda>(u, l). VDict ((''url'', VStr u) #
     (case l of None \<Rightarrow> [] | Some t \<Rightarrow> [(''label'', VStr t)]))) rs)"

definition update_version :: "string \<Rightarrow> (dversion \<Rightarrow> dversion) \<Rightarrow> unit lact" where
  "update_version vid f = put (\<lambda>L. L\<lparr>lk_versions := map (\<lambda>v. if dv_id v = vid then f v else v) (lk_versions L)\<rparr>)"

definition patch_dataset_version_additive_metadata ::
    "string \<Rightarrow> string \<Rightarrow> string \<Rightarrow> string list \<Rightarrow> pyval list \<Rightarrow> dversion option lact" where
  "patch_dataset_version_additive_metadata tenant project vid tags refs =
     (let ts = normalize_append_tags tags; rs = normalize_append_external_refs refs in
      if ts = [] \<and> rs = [] then fail (ValueError ''metadata_patch_empty'')
      else seq (ask (\<lambda>L. get_dataset_version L tenant project vid)) (\<lambda>found.
        case found of None \<Rightarrow> give None
        | Some v \<Rightarrow>
            seq (update_version vid (\<lambda>w. w\<lparr>dv_tags := tags_value (merge_distinct_tags (dv_tags v) ts),
                dv_refs := refs_value (merge_distinct_external_refs (dv_refs v) rs)\<rparr>)) (\<lambda>_.
            seq (notify_dataset_updated (dv_dataset v) (Some ''version_metadata_updated'')) (\<lambda>_.
              ask (\<lambda>L. get_dataset_version L tenant project vid)))))"

subsection \<open>A version as it is shown, and two compared\<close>

definition view_source :: "dversion \<Rightarrow> string" where
  "view_source v = opt_or (dv_source v) ''manual_upload''"

definition view_canon :: "dversion \<Rightarrow> string" where
  "view_canon v = (case dv_canon v of Some c \<Rightarrow> c | None \<Rightarrow> canonical_dataset_source_type (view_source v))"

definition view_count :: "dversion \<Rightarrow> int" where
  "view_count v = (case dv_count v of None \<Rightarrow> 0 | Some n \<Rightarrow> n)"

definition view_status :: "dversion \<Rightarrow> string" where
  "view_status v = (if dv_status v = [] then ''ready'' else dv_status v)"

record version_delta =
  vd_rows :: int
  vd_checksum :: bool
  vd_source :: bool
  vd_canon :: bool
  vd_score :: int
  vd_status :: bool
  vd_tags_added :: "string list"
  vd_tags_removed :: "string list"
  vd_refs :: int

definition diff_version_snapshots :: "dversion \<Rightarrow> dversion \<Rightarrow> version_delta" where
  "diff_version_snapshots a b =
     (let ta = tags_list_from_db (dv_tags a); tb = tags_list_from_db (dv_tags b) in
      \<lparr>vd_rows = view_count b - view_count a,
       vd_checksum = (strip (opt_or (dv_checksum a) []) \<noteq> strip (opt_or (dv_checksum b) [])),
       vd_source = (view_source a \<noteq> view_source b), vd_canon = (view_canon a \<noteq> view_canon b),
       vd_score = dv_score b - dv_score a, vd_status = (view_status a \<noteq> view_status b),
       vd_tags_added = sort (filter (\<lambda>t. t \<notin> set ta) tb), vd_tags_removed = sort (filter (\<lambda>t. t \<notin> set tb) ta),
       vd_refs = int (length (external_refs_list_from_db (dv_refs b))) - int (length (external_refs_list_from_db (dv_refs a)))\<rparr>)"

definition diff_dataset_versions ::
    "lake \<Rightarrow> string \<Rightarrow> string \<Rightarrow> string \<Rightarrow> string \<Rightarrow> string \<Rightarrow> (dversion \<times> dversion \<times> version_delta) option py" where
  "diff_dataset_versions L tenant project d from_id to_id =
     (let f = strip from_id; t = strip to_id in
      if f = [] \<or> t = [] then raise (ValueError ''diff_version_ids_required'')
      else if f = t then raise (ValueError ''diff_same_version'')
      else (case (get_dataset_version L tenant project f, get_dataset_version L tenant project t) of
        (Some a, Some b) \<Rightarrow>
          if dv_dataset a \<noteq> d \<or> dv_dataset b \<noteq> d then raise (ValueError ''version_dataset_mismatch'')
          else ok (Some (a, b, diff_version_snapshots a b))
      | _ \<Rightarrow> ok None))"

record version_provenance =
  pv_version :: dversion
  pv_buffered :: bool
  pv_accumulation :: "buffer_row option"
  pv_runs :: "(string \<times> string) list"
  pv_inputs :: "dversion list"

definition get_dataset_version_provenance ::
    "lake \<Rightarrow> string \<Rightarrow> string \<Rightarrow> string \<Rightarrow> string \<Rightarrow> version_provenance option" where
  "get_dataset_version_provenance L tenant project d vid =
     (case get_dataset_version L tenant project vid of None \<Rightarrow> None
      | Some v \<Rightarrow>
          if dv_dataset v \<noteq> d then None
          else (let es = filter (\<lambda>e. ed_out e = Some vid) (edges_in L tenant project) in
            Some \<lparr>pv_version = v, pv_buffered = dv_buffered v,
              pv_accumulation = (if dv_buffered v then find (\<lambda>b. bu_dataset b = d) (lk_buffers L) else None),
              pv_runs = map (\<lambda>e. (ed_run e, ed_task e)) es,
              pv_inputs = List.map_filter (get_dataset_version L tenant project)
                (sort (remdups (concat (map (\<lambda>e. side_text (ed_in e)) es))))\<rparr>))"

subsection \<open>The quality profile of a version\<close>

definition patch_dataset_version_quality_profile ::
    "string \<Rightarrow> string \<Rightarrow> string \<Rightarrow> string \<Rightarrow> pydict \<Rightarrow> pyval option \<Rightarrow> int option \<Rightarrow> dversion option lact" where
  "patch_dataset_version_quality_profile tenant project d vid labels null_rate samples =
     seq (ask (\<lambda>L. get_dataset_version L tenant project vid)) (\<lambda>found.
     case found of None \<Rightarrow> give None
     | Some v \<Rightarrow>
         if dv_dataset v \<noteq> d then give None
         else seq (check (ValueError ''label_distribution_required'') (labels \<noteq> [])) (\<lambda>_.
           let base = (case por (dv_details v) (VList []) of VDict m \<Rightarrow> m | VList xs \<Rightarrow> [(''validation'', VList xs)] | _ \<Rightarrow> []);
               profile = [(''label_distribution'', VDict labels),
                 (''sample_count'', VInt (case samples of Some n \<Rightarrow> n | None \<Rightarrow> view_count v))] @
                 (case null_rate of None \<Rightarrow> [] | Some r \<Rightarrow> [(''null_rate'', r)]) in
           seq (update_version vid (\<lambda>w. w\<lparr>dv_details :=
               VDict (dset ''label_distribution'' (VDict labels) (dset ''profile'' (VDict profile) base))\<rparr>)) (\<lambda>_.
           seq (notify_dataset_updated d (Some ''version_profile_updated'')) (\<lambda>_.
             ask (\<lambda>L. get_dataset_version L tenant project vid)))))"

end
