(* ===== verification/DatasetFiles.thy ===== *)
theory DatasetFiles
  imports DatasetContent
begin

text \<open>
  The files behind the versions of a dataset, from \<^verbatim>\<open>lifecycle/lineage_service.py\<close>: analysis and validation of CSV,
  upload, merge, replacement and patch of contents, integrity of a snapshot, and deletion. A ratio is the exact
  quotient rounded to six places.
\<close>

subsection \<open>Analysis and validation\<close>

record csv_analysis =
  an_columns :: "string list"
  an_rows :: nat
  an_ratio :: "(string \<times> rat) list"

text \<open>\<open>round(q, 6)\<close>, to even.\<close>

definition round6 :: "rat \<Rightarrow> rat" where
  "round6 q = (let x = q * 1000000; f = floor x; r = x - of_int f in
     of_int (if r < 1 / 2 \<or> r = 1 / 2 \<and> even f then f else f + 1) / 1000000)"

definition missing_cells :: "csv_row list \<Rightarrow> string \<Rightarrow> nat" where
  "missing_cells rows col = length (filter (\<lambda>r. case cell r col of None \<Rightarrow> True | Some v \<Rightarrow> strip v = []) rows)"

definition analyze_csv :: "string \<Rightarrow> csv_analysis py" where
  "analyze_csv text = pbind (csv_dicts text) (\<lambda>rows.
     ok \<lparr>an_columns = csv_columns text, an_rows = length rows,
       an_ratio = foldl (\<lambda>d col. dset col (if rows = [] then 0
          else round6 (of_nat (missing_cells rows col) / of_nat (length rows))) d) [] (csv_columns text)\<rparr>)"

datatype severity = FailedColumn | WarnedColumn

record validation =
  bv_status :: string
  bv_score :: int
  bv_summary :: "string list"
  bv_missing :: "string list"
  bv_details :: "(string \<times> rat \<times> severity) list"

definition validate_column :: "validation \<Rightarrow> string \<times> rat \<Rightarrow> validation" where
  "validate_column v c =
     (case c of (col, ratio) \<Rightarrow>
        if 3 / 5 < ratio then
          v\<lparr>bv_status := ''failed'', bv_score := 0, bv_summary := bv_summary v @ [''critical missing values''],
            bv_details := bv_details v @ [(col, ratio, FailedColumn)]\<rparr>
        else if 3 / 10 < ratio then
          (if bv_status v \<noteq> ''failed'' then v\<lparr>bv_status := ''warning'', bv_score := max 0 (bv_score v - 20)\<rparr> else v)
          \<lparr>bv_summary := bv_summary v @ [''high missing values''], bv_details := bv_details v @ [(col, ratio, WarnedColumn)]\<rparr>
        else v)"

definition business_validate :: "csv_analysis \<Rightarrow> string list \<Rightarrow> validation" where
  "business_validate a required_cols =
     (let required = filter (\<lambda>s. s \<noteq> []) (map strip required_cols);
          missing = sort (remdups (filter (\<lambda>s. s \<notin> set (an_columns a)) required)) in
      if an_rows a = 0 then
        \<lparr>bv_status = ''failed'', bv_score = 0, bv_summary = [''empty dataset''], bv_missing = [], bv_details = []\<rparr>
      else if missing \<noteq> [] then
        \<lparr>bv_status = ''failed'', bv_score = 0, bv_summary = [''missing required columns: '' @ join '', '' missing],
         bv_missing = missing, bv_details = []\<rparr>
      else (let v = foldl validate_column \<lparr>bv_status = ''ready'', bv_score = 100, bv_summary = [], bv_missing = [],
              bv_details = []\<rparr> (an_ratio a) in
        v\<lparr>bv_score := max 0 (min 100 (bv_score v)), bv_summary := sort (remdups (bv_summary v))\<rparr>))"

text \<open>The text of a ratio above 0.3: \<open>repr\<close> of a float with at most six places.\<close>

definition ratio_text :: "rat \<Rightarrow> string" where
  "ratio_text q = (let n = floor (q * 1000000); places = rev (dropWhile (\<lambda>c. c = CHR ''0'') (rev (six_digits (n mod 1000000)))) in
     int_str (n div 1000000) @ ''.'' @ (if places = [] then ''0'' else places))"

definition validation_details :: "validation \<Rightarrow> pyval list" where
  "validation_details v =
     (if bv_missing v \<noteq> [] then [VDict [(''issue'', VStr ''missing_columns''), (''columns'', VList (map VStr (bv_missing v))),
        (''severity'', VStr ''failed'')]]
      else map (\<lambda>(col, q, sev). VDict [(''column'', VStr col), (''issue'', VStr ''missing''),
        (''value'', VFloat (Fin q) (ratio_text q)),
        (''severity'', VStr (case sev of FailedColumn \<Rightarrow> ''failed'' | WarnedColumn \<Rightarrow> ''warning''))]) (bv_details v))"

subsection \<open>Files and their integrity\<close>

definition is_file :: "lake \<Rightarrow> string \<Rightarrow> bool" where
  "is_file L path = (map_of (lk_files L) path \<noteq> None)"

definition write_file :: "string \<Rightarrow> string \<Rightarrow> unit lact" where
  "write_file path t = put (\<lambda>L. L\<lparr>lk_files := dset path t (lk_files L)\<rparr>)"

definition validate_snapshot :: "lake_env \<Rightarrow> lake \<Rightarrow> string option \<Rightarrow> string option \<Rightarrow> unit py" where
  "validate_snapshot X L uri checksum =
     (let ch = strip (opt_or checksum []); u = strip (opt_or uri []) in
      if strip (case le_validate X of None \<Rightarrow> ''1'' | Some s \<Rightarrow> s) \<noteq> ''1'' \<or> ch = [] \<or> u = [] then ok ()
      else (case file_uri_to_path u of Inl _ \<Rightarrow> ok ()
        | Inr path \<Rightarrow>
            if \<not> is_file L path then raise (RuntimeError ''artifact_missing'')
            else if lower (le_sha256 X (file_text L path)) \<noteq> lower ch then raise (RuntimeError ''checksum_mismatch'')
            else ok ()))"

definition get_latest_materialized_dataset_version ::
    "lake_env \<Rightarrow> lake \<Rightarrow> string \<Rightarrow> string \<Rightarrow> string \<Rightarrow> dversion option py" where
  "get_latest_materialized_dataset_version X L tenant project d =
     (case list_dataset_versions L tenant project d of [] \<Rightarrow> ok None
      | v # vs \<Rightarrow> pbind (validate_snapshot X L (dv_uri v) (dv_checksum v)) (\<lambda>_. ok (Some v)))"

text \<open>The path a version stands for: a scheme other than \<open>file\<close> is refused, none at all is a path itself.\<close>

definition version_path :: "dversion \<Rightarrow> string py" where
  "version_path v =
     (let raw = strip (opt_or (dv_uri v) []) in
      if raw = [] then raise (RuntimeError ''dataset_version_uri_missing'')
      else (case url_scheme raw of (scheme, rest) \<Rightarrow>
        if scheme \<notin> {[], ''file''} then raise (RuntimeError ''dataset_version_uri_unsupported'')
        else (let path = (if scheme = ''file'' then url_path rest else raw) in
          if path = [] then raise (RuntimeError ''dataset_version_uri_invalid'') else ok path)))"

definition read_dataset_version_file_bytes ::
    "lake \<Rightarrow> string \<Rightarrow> string \<Rightarrow> string \<Rightarrow> (string \<times> string \<times> dversion) py" where
  "read_dataset_version_file_bytes L tenant project vid =
     (case get_dataset_version L tenant project vid of None \<Rightarrow> raise (RuntimeError ''dataset_version_not_found'')
      | Some v \<Rightarrow> pbind (version_path v) (\<lambda>path.
          if \<not> is_file L path then raise (RuntimeError ''dataset_version_file_not_found'')
          else ok (file_text L path,
            (let name = rev (takeWhile (\<lambda>c. c \<noteq> CHR ''/'') (rev path)) in if name = [] then vid @ ''.csv'' else name), v)))"

definition detect_version_content_format :: "string \<Rightarrow> string \<Rightarrow> string" where
  "detect_version_content_format filename data =
     (let name = lower filename; sample = dropWhile is_ws (take 4096 data) in
      if endswith name ''.jsonl'' \<or> endswith name ''.ndjson'' then ''jsonl''
      else if endswith name ''.csv'' then ''csv''
      else if sample \<noteq> [] \<and> hd sample \<in> {CHR ''{'', CHR ''[''} then ''jsonl'' else ''csv'')"

definition max_editor_bytes :: int where "max_editor_bytes = 5 * 1024 * 1024"

definition write_path :: "dversion \<Rightarrow> string" where
  "write_path v = (case url_scheme (strip (opt_or (dv_uri v) [])) of (scheme, rest) \<Rightarrow>
     if scheme = ''file'' then url_path rest else opt_or (dv_uri v) [])"

subsection \<open>Upload\<close>

record uploaded =
  up_dataset :: string
  up_version :: string
  up_label :: string
  up_uri :: string
  up_rows :: nat
  up_status :: string
  up_score :: int

definition upload_uri :: "lake_env \<Rightarrow> string \<Rightarrow> string \<Rightarrow> string \<Rightarrow> string \<Rightarrow> string \<Rightarrow> string" where
  "upload_uri X tenant project name label filename =
     dataset_artifact_root X @ ''/'' @ slug_token tenant @ ''/'' @ slug_token project @ ''/'' @ slug_token name @ ''/'' @
     label @ ''/'' @ slug_token filename"

definition create_dataset_version_from_csv_upload ::
    "lake_env \<Rightarrow> string \<Rightarrow> string \<Rightarrow> string \<Rightarrow> string \<Rightarrow> string \<Rightarrow> string list \<Rightarrow> uploaded lact" where
  "create_dataset_version_from_csv_upload X tenant project dataset_name csv filename required =
     (let name = strip dataset_name; chk = le_sha256 X csv in
      if name = [] then fail (ValueError ''dataset_name_required'')
      else seq (lift_py (analyze_csv csv)) (\<lambda>a.
        let v = business_validate a required; n = int (an_rows a) in
        seq (upsert_dataset X tenant project name None (Some chk) (Some n)) (\<lambda>d.
        seq (ask (\<lambda>L. next_dataset_version L d)) (\<lambda>label.
        let uri = upload_uri X tenant project name label filename in
        seq (lift_py (file_uri_to_path uri)) (\<lambda>path.
        seq (write_file path csv) (\<lambda>_.
        seq (upsert_dataset X tenant project name (Some uri) (Some chk) (Some n)) (\<lambda>_.
        seq (upsert_dataset_buffer tenant project d (no_args\<lparr>ba_source := ''csv_import'', ba_size := Some n\<rparr>)) (\<lambda>_.
        seq (upsert_dataset_version X d label \<lparr>va_uri = Some uri, va_checksum = Some chk, va_source = Some ''csv_import'',
            va_count = Some n, va_status = bv_status v, va_score = bv_score v, va_summary = bv_summary v,
            va_details = validation_details v\<rparr>) (\<lambda>vid.
        seq (notify_dataset_updated d None) (\<lambda>_.
          give \<lparr>up_dataset = d, up_version = vid, up_label = label, up_uri = uri, up_rows = an_rows a,
            up_status = bv_status v, up_score = bv_score v\<rparr>)))))))))) "

subsection \<open>Merge\<close>

text \<open>A row by column as texts; a missing cell reads \<open>'None'\<close>.\<close>

type_synonym text_row = "(string \<times> string) list"

definition text_cells :: "string list \<Rightarrow> csv_row \<Rightarrow> text_row" where
  "text_cells columns r = foldl (\<lambda>d k. dset k (case map_of (cr_cells r) k of None \<Rightarrow> [] | Some None \<Rightarrow> ''None'' | Some (Some v) \<Rightarrow> v) d)
     [] columns"

definition row_of_text :: "text_row \<Rightarrow> csv_row" where
  "row_of_text d = \<lparr>cr_cells = map (\<lambda>(k, v). (k, Some v)) d, cr_rest = []\<rparr>"

definition merge_csv_byte_streams :: "string \<Rightarrow> string \<Rightarrow> (string \<times> csv_analysis \<times> nat) py" where
  "merge_csv_byte_streams existing incoming =
     (let columns = csv_columns existing; cols = csv_columns incoming in
      if csv_first_fails existing \<or> csv_first_fails incoming then raise (RuntimeError ''csv.Error'')
      else if columns = [] then raise (ValueError ''dataset_version_csv_empty'')
      else if cols = [] then raise (ValueError ''merge_csv_empty'')
      else if set columns \<noteq> set cols then raise (ValueError ''merge_columns_mismatch'')
      else pbind (csv_dicts existing) (\<lambda>old. pbind (csv_dicts incoming) (\<lambda>new.
        if new = [] then raise (ValueError ''merge_csv_empty'')
        else pbind (csv_write columns (old @ map (\<lambda>r. row_of_text (text_cells columns r)) new)) (\<lambda>merged.
          pbind (analyze_csv merged) (\<lambda>a. ok (merged, a, length new))))))"

text \<open>
  The merge of an upload into a version. The column \<open>summary\<close> is an array of texts and the statement writes it as
  \<open>jsonb\<close>, for which there is no assignment cast: the update fails, after the file has been written.
\<close>

definition merge_csv_into_dataset_version ::
    "lake_env \<Rightarrow> string \<Rightarrow> string \<Rightarrow> string \<Rightarrow> string \<Rightarrow> string \<Rightarrow> uploaded lact" where
  "merge_csv_into_dataset_version X tenant project d vid csv =
     seq (ask (\<lambda>L. (get_dataset_version L tenant project vid, get_dataset L tenant project d))) (\<lambda>(found, ds).
     case found of None \<Rightarrow> fail (ValueError ''dataset_version_not_found'')
     | Some v \<Rightarrow>
         seq (check (ValueError ''dataset_version_not_found'') (dv_dataset v = d)) (\<lambda>_.
         seq (check (ValueError ''dataset_not_found'') (ds \<noteq> None)) (\<lambda>_.
         seq (ask (\<lambda>L. read_dataset_version_file_bytes L tenant project vid)) (\<lambda>r. seq (lift_py r) (\<lambda>(data, filename, _).
         seq (check (ValueError ''merge_format_unsupported'') (detect_version_content_format filename data = ''csv'')) (\<lambda>_.
         seq (lift_py (merge_csv_byte_streams data csv)) (\<lambda>(merged, a, n).
         seq (check (ValueError ''dataset_version_content_too_large'') (int (length merged) \<le> max_editor_bytes)) (\<lambda>_.
         seq (check (RuntimeError ''dataset_version_uri_invalid'') (write_path v \<noteq> [])) (\<lambda>_.
         seq (write_file (write_path v) merged) (\<lambda>_.
           fail (RuntimeError ''DatatypeMismatch'')))))))))))"

subsection \<open>Contents replaced and patched\<close>

text \<open>\<open>splitlines\<close> of ASCII text.\<close>

fun splitlines_acc :: "string \<Rightarrow> string \<Rightarrow> string list" where
  "splitlines_acc acc [] = (if acc = [] then [] else [acc])"
| "splitlines_acc acc (c # cs) =
     (if c = cr then acc # splitlines_acc [] (drop (if cs \<noteq> [] \<and> hd cs = lf then 1 else 0) cs)
      else if (of_char c :: nat) \<in> {10, 11, 12, 28, 29, 30} then acc # splitlines_acc [] cs
      else splitlines_acc (acc @ [c]) cs)"

definition splitlines :: "string \<Rightarrow> string list" where "splitlines s = splitlines_acc [] s"

definition sync_dataset_aggregate_after_version_write ::
    "lake_env \<Rightarrow> string \<Rightarrow> string \<Rightarrow> string \<Rightarrow> string \<Rightarrow> int \<Rightarrow> string \<Rightarrow> unit lact" where
  "sync_dataset_aggregate_after_version_write X tenant project d vid n chk =
     seq (ask (\<lambda>L. get_latest_materialized_dataset_version X L tenant project d)) (\<lambda>r. seq (lift_py r) (\<lambda>latest.
     if map_option dv_id latest \<noteq> Some vid then give ()
     else seq (ask (\<lambda>L. get_dataset L tenant project d)) (\<lambda>ds.
       case ds of None \<Rightarrow> give ()
       | Some q \<Rightarrow>
           seq (upsert_dataset X tenant project (if ds_name q = [] then d else ds_name q) None (Some chk) (Some (max 0 n))) (\<lambda>_.
           seq (ask (\<lambda>L. get_dataset_buffer L tenant project d)) (\<lambda>buf.
           case buf of None \<Rightarrow> give ()
           | Some b \<Rightarrow>
               if strip (opt_or (bu_version b) []) \<noteq> vid then give ()
               else upsert_dataset_buffer tenant project d \<lparr>
                 ba_source = (if bu_source b = [] then ''runtime_feedback'' else bu_source b), ba_size = Some (max 0 n),
                 ba_threshold = Some (if bu_threshold b = 0 then 1000 else bu_threshold b),
                 ba_strategy = Some (if bu_strategy b = [] then default_strategy else bu_strategy b),
                 ba_status = (if bu_status b = [] then ''active'' else bu_status b), ba_start = None,
                 ba_version = Some vid, ba_at = bu_at b\<rparr>)))))"

definition write_dataset_version_encoded ::
    "lake_env \<Rightarrow> string \<Rightarrow> string \<Rightarrow> string \<Rightarrow> string \<Rightarrow> string \<Rightarrow> string \<Rightarrow> int \<Rightarrow> dversion option lact" where
  "write_dataset_version_encoded X tenant project vid path d encoded n =
     (let chk = le_sha256 X encoded in
      seq (check (ValueError ''dataset_version_content_too_large'') (int (length encoded) \<le> max_editor_bytes)) (\<lambda>_.
      seq (write_file path encoded) (\<lambda>_.
      seq (update_version vid (\<lambda>v. v\<lparr>dv_checksum := Some chk, dv_count := Some n\<rparr>)) (\<lambda>_.
      seq (sync_dataset_aggregate_after_version_write X tenant project d vid n chk) (\<lambda>_.
      seq (notify_dataset_updated d (Some ''version_content_updated'')) (\<lambda>_.
        ask (\<lambda>L. get_dataset_version L tenant project vid)))))))"

definition replaced_content :: "string \<Rightarrow> string \<Rightarrow> (string \<times> nat) py" where
  "replaced_content fmt body =
     (if fmt = ''jsonl'' then
        (let ls = filter (\<lambda>l. strip l \<noteq> []) (splitlines body) in ok (concat (map (\<lambda>l. l @ [lf]) ls), length ls))
      else if csv_first_fails body then raise (RuntimeError ''csv.Error'')
      else if csv_columns body = [] then raise (ValueError ''dataset_version_csv_empty'')
      else pbind (csv_dicts body) (\<lambda>rows. pbind (csv_write (csv_columns body) rows) (\<lambda>t. ok (t, length rows))))"

definition replace_dataset_version_content ::
    "lake_env \<Rightarrow> string \<Rightarrow> string \<Rightarrow> string \<Rightarrow> string \<Rightarrow> dversion option lact" where
  "replace_dataset_version_content X tenant project vid body =
     seq (check (ValueError ''dataset_version_content_too_large'') (int (length body) \<le> max_editor_bytes)) (\<lambda>_.
     seq (ask (\<lambda>L. read_dataset_version_file_bytes L tenant project vid)) (\<lambda>r. seq (lift_py r) (\<lambda>(data, filename, v).
     seq (check (RuntimeError ''dataset_version_uri_invalid'') (write_path v \<noteq> [])) (\<lambda>_.
     seq (lift_py (replaced_content (detect_version_content_format filename data) body)) (\<lambda>(encoded, n).
       write_dataset_version_encoded X tenant project vid (write_path v) (dv_dataset v) encoded (int n))))))"

text \<open>
  Edits by index: replace in turn, delete (from the last), insert (from the first). An index or a value that cannot be
  read raises when its turn comes; the indices of the insertions are all read before the first one.
\<close>

fun set_all :: "'a list \<Rightarrow> (int py \<times> ('a \<Rightarrow> 'a py)) list \<Rightarrow> pyerr \<Rightarrow> 'a list py" where
  "set_all xs [] e = ok xs"
| "set_all xs ((r, f) # ps) e = pbind r (\<lambda>i.
     if i < 0 \<or> int (length xs) \<le> i then raise e
     else pbind (f (xs ! nat i)) (\<lambda>x. set_all (xs[nat i := x]) ps e))"

definition remove_at :: "nat \<Rightarrow> 'a list \<Rightarrow> 'a list" where
  "remove_at i xs = take i xs @ drop (Suc i) xs"

fun delete_all :: "'a list \<Rightarrow> int list \<Rightarrow> pyerr \<Rightarrow> 'a list py" where
  "delete_all xs [] e = ok xs"
| "delete_all xs (i # is) e =
     (if i < 0 \<or> int (length xs) \<le> i then raise e else delete_all (remove_at (nat i) xs) is e)"

definition insert_at :: "int \<Rightarrow> 'a \<Rightarrow> 'a list \<Rightarrow> 'a list" where
  "insert_at i x xs = (let n = nat (max 0 (min i (int (length xs)))) in take n xs @ [x] @ drop n xs)"

fun insert_all :: "'a list \<Rightarrow> (int \<times> 'a py) list \<Rightarrow> 'a list py" where
  "insert_all xs [] = ok xs"
| "insert_all xs ((after, r) # ps) = pbind r (\<lambda>x. insert_all (insert_at (after + 1) x xs) ps)"

definition descending :: "int list \<Rightarrow> int list" where
  "descending is = rev (sort (remdups is))"

record 'a edits =
  ed_patches :: "(int py \<times> ('a \<Rightarrow> 'a py)) list"
  ed_deletes :: "int list"
  ed_inserts :: "(int py \<times> 'a py) list"

definition apply_edits :: "string \<Rightarrow> 'a edits \<Rightarrow> 'a list \<Rightarrow> 'a list py" where
  "apply_edits err es xs =
     pbind (set_all xs (ed_patches es) (ValueError err)) (\<lambda>ys.
     pbind (delete_all ys (descending (ed_deletes es)) (ValueError err)) (\<lambda>zs.
     pbind (traverse (\<lambda>(r, x). pbind r (\<lambda>i. ok (i, x))) (ed_inserts es)) (\<lambda>ins.
       insert_all zs (sort_key fst ins))))"

text \<open>A request: the rows or lines to change; an index that is no integer is a \<open>ValueError\<close> of \<open>int\<close>.\<close>

definition index_of_edit :: "string \<Rightarrow> pydict \<Rightarrow> int py" where
  "index_of_edit key p = py_int (dget_or p key (VInt (- 1)))"

definition edit_values :: "pydict \<Rightarrow> pydict py" where
  "edit_values p = (case por (dget p ''values'') (VDict []) of VDict d \<Rightarrow> ok d
     | _ \<Rightarrow> raise (ValueError ''patch_values_invalid''))"

definition patched_row :: "string list \<Rightarrow> pydict \<Rightarrow> text_row \<Rightarrow> text_row" where
  "patched_row columns vals row =
     foldl (\<lambda>d k. case map_of vals k of None \<Rightarrow> d | Some v \<Rightarrow> dset k (py_str v) d) row columns"

definition inserted_row :: "string list \<Rightarrow> pydict \<Rightarrow> text_row" where
  "inserted_row columns vals =
     foldl (\<lambda>d k. dset k (case map_of vals k of None \<Rightarrow> [] | Some v \<Rightarrow> py_str v) d) [] columns"

definition row_edits :: "string list \<Rightarrow> pydict list \<Rightarrow> int list \<Rightarrow> pydict list \<Rightarrow> text_row edits" where
  "row_edits columns patches deletes inserts =
     \<lparr>ed_patches = map (\<lambda>p. (index_of_edit ''row_index'' p,
        \<lambda>row. pbind (edit_values p) (\<lambda>vs. ok (patched_row columns vs row)))) patches,
      ed_deletes = deletes,
      ed_inserts = map (\<lambda>p. (index_of_edit ''after_index'' p,
        pbind (edit_values p) (\<lambda>vs. ok (inserted_row columns vs)))) inserts\<rparr>"

definition line_edits :: "pydict list \<Rightarrow> int list \<Rightarrow> pydict list \<Rightarrow> string edits" where
  "line_edits patches deletes inserts =
     \<lparr>ed_patches = map (\<lambda>p. (index_of_edit ''line_index'' p, \<lambda>_. ok (py_str (dget_or p ''line'' (VStr []))))) patches,
      ed_deletes = deletes,
      ed_inserts = map (\<lambda>p. (index_of_edit ''after_index'' p, ok (py_str (dget_or p ''line'' (VStr []))))) inserts\<rparr>"

definition patched_lines :: "string \<Rightarrow> pydict list \<Rightarrow> int list \<Rightarrow> pydict list \<Rightarrow> (string \<times> nat) py" where
  "patched_lines text patches deletes inserts =
     pbind (apply_edits ''line_index_out_of_range'' (line_edits patches deletes inserts) (splitlines text)) (\<lambda>ls.
       let t = join [lf] ls in
       ok (if ls \<noteq> [] \<and> \<not> endswith t [lf] then t @ [lf] else t, length (filter (\<lambda>l. strip l \<noteq> []) ls)))"

definition patched_csv :: "string \<Rightarrow> pydict list \<Rightarrow> int list \<Rightarrow> pydict list \<Rightarrow> (string \<times> nat) py" where
  "patched_csv text patches deletes inserts =
     (let columns = csv_columns text in
      if csv_first_fails text then raise (RuntimeError ''csv.Error'')
      else if columns = [] then raise (ValueError ''dataset_version_csv_empty'')
      else pbind (csv_dicts text) (\<lambda>rows.
        pbind (apply_edits ''row_index_out_of_range'' (row_edits columns patches deletes inserts)
            (map (text_cells columns) rows)) (\<lambda>ds.
        pbind (csv_write columns (map row_of_text ds)) (\<lambda>t. ok (t, length ds)))))"

record patch_request =
  pq_row_patches :: "pydict list"
  pq_row_deletes :: "int list"
  pq_row_inserts :: "pydict list"
  pq_line_patches :: "pydict list"
  pq_line_deletes :: "int list"
  pq_line_inserts :: "pydict list"

definition row_ops :: "patch_request \<Rightarrow> nat" where
  "row_ops q = length (pq_row_patches q) + length (pq_row_deletes q) + length (pq_row_inserts q)"

definition line_ops :: "patch_request \<Rightarrow> nat" where
  "line_ops q = length (pq_line_patches q) + length (pq_line_deletes q) + length (pq_line_inserts q)"

definition patched_content :: "string \<Rightarrow> string \<Rightarrow> patch_request \<Rightarrow> (string \<times> nat) py" where
  "patched_content fmt text q =
     (if fmt = ''jsonl'' then
        (if 0 < row_ops q then raise (ValueError ''patch_format_mismatch'')
         else patched_lines text (pq_line_patches q) (pq_line_deletes q) (pq_line_inserts q))
      else if 0 < line_ops q then raise (ValueError ''patch_format_mismatch'')
      else patched_csv text (pq_row_patches q) (pq_row_deletes q) (pq_row_inserts q))"

definition patch_dataset_version_content ::
    "lake_env \<Rightarrow> string \<Rightarrow> string \<Rightarrow> string \<Rightarrow> patch_request \<Rightarrow> dversion option lact" where
  "patch_dataset_version_content X tenant project vid q =
     seq (check (ValueError ''patch_empty'') (0 < row_ops q + line_ops q)) (\<lambda>_.
     seq (check (ValueError ''patch_too_many'') (int (row_ops q + line_ops q) \<le> 5000)) (\<lambda>_.
     seq (ask (\<lambda>L. read_dataset_version_file_bytes L tenant project vid)) (\<lambda>r. seq (lift_py r) (\<lambda>(data, filename, v).
     seq (check (ValueError ''dataset_version_content_too_large'') (int (length data) \<le> max_editor_bytes)) (\<lambda>_.
     seq (check (RuntimeError ''dataset_version_uri_invalid'') (write_path v \<noteq> [])) (\<lambda>_.
     seq (lift_py (patched_content (detect_version_content_format filename data) data q)) (\<lambda>(encoded, n).
       write_dataset_version_encoded X tenant project vid (write_path v) (dv_dataset v) encoded (int n))))))))"

subsection \<open>Deletion\<close>

definition best_effort_remove_file_uri :: "string option \<Rightarrow> lake \<Rightarrow> lake" where
  "best_effort_remove_file_uri uri L =
     (case file_uri_to_path (strip (opt_or uri [])) of Inl _ \<Rightarrow> L
      | Inr path \<Rightarrow> L\<lparr>lk_files := filter (\<lambda>(p, _). p \<noteq> path) (lk_files L)\<rparr>)"

text \<open>The row of a version goes with the edges that refer to it, and buffers forget it.\<close>

definition drop_versions :: "string set \<Rightarrow> lake \<Rightarrow> lake" where
  "drop_versions ids L = L\<lparr>lk_versions := filter (\<lambda>v. dv_id v \<notin> ids) (lk_versions L),
     lk_edges := filter (\<lambda>e. ed_in e \<notin> Some ` ids \<and> ed_out e \<notin> Some ` ids) (lk_edges L),
     lk_buffers := map (\<lambda>b. if bu_version b \<in> Some ` ids then b\<lparr>bu_version := None\<rparr> else b) (lk_buffers L)\<rparr>"

definition delete_dataset_version :: "string \<Rightarrow> string \<Rightarrow> string \<Rightarrow> string \<Rightarrow> bool lact" where
  "delete_dataset_version tenant project d vid =
     seq (ask (\<lambda>L. get_dataset_version L tenant project vid)) (\<lambda>found.
     case found of None \<Rightarrow> give False
     | Some v \<Rightarrow>
         if dv_dataset v \<noteq> d then give False
         else seq (put (best_effort_remove_file_uri (dv_uri v))) (\<lambda>_.
           seq (put (drop_versions {vid})) (\<lambda>_.
           seq (notify_dataset_updated d (Some ''version_deleted'')) (\<lambda>_. give True))))"

definition delete_dataset :: "string \<Rightarrow> string \<Rightarrow> string \<Rightarrow> bool lact" where
  "delete_dataset tenant project d =
     seq (ask (\<lambda>L. (get_dataset L tenant project d, list_dataset_versions L tenant project d))) (\<lambda>(ds, vs).
     if ds = None then give False
     else seq (put (fold (\<lambda>v. best_effort_remove_file_uri (dv_uri v)) vs)) (\<lambda>_.
       seq (put (drop_versions (dv_id ` set vs))) (\<lambda>_.
       seq (put (\<lambda>L. L\<lparr>lk_buffers := filter (\<lambda>b. bu_dataset b \<noteq> d) (lk_buffers L),
           lk_datasets := filter (\<lambda>r. ds_id r \<noteq> d) (lk_datasets L)\<rparr>)) (\<lambda>_.
       seq (note_call (DatasetDeletedEvent d)) (\<lambda>_.
       seq (notify_dataset_updated d (Some ''dataset_deleted'')) (\<lambda>_. give True))))))"

definition delete_dataset_by_name :: "string \<Rightarrow> string \<Rightarrow> string \<Rightarrow> (bool \<times> string option) lact" where
  "delete_dataset_by_name tenant project name =
     seq (ask (\<lambda>L. get_dataset_id_by_name L tenant project name)) (\<lambda>d.
     case d of None \<Rightarrow> give (False, None)
     | Some i \<Rightarrow> seq (delete_dataset tenant project i) (\<lambda>done'. give (done', Some i)))"

end
