(* ===== verification/LineageLaws.thy ===== *)
theory LineageLaws
  imports Lineage JsonRoundTrip
begin

text \<open>
  What the buffers promise: rows are neither lost nor counted twice while they are appended, configured and
  materialized; a snapshot carries the whole buffer under a new label; and the neighbourhood of a
  version holds what a bounded number of edges reaches.
\<close>

subsection \<open>What an operation leaves alone\<close>

definition buffer_size :: "lake \<Rightarrow> string \<Rightarrow> string \<Rightarrow> string \<Rightarrow> int" where
  "buffer_size L tenant project d =
     (case get_dataset_buffer L tenant project d of None \<Rightarrow> 0 | Some b \<Rightarrow> bu_size b)"

definition snapshot_rows :: "lake \<Rightarrow> string \<Rightarrow> int" where
  "snapshot_rows L d =
     sum_list (map (\<lambda>v. case dv_count v of None \<Rightarrow> 0 | Some n \<Rightarrow> n)
       (filter (\<lambda>v. dv_dataset v = d \<and> dv_buffered v) (lk_versions L)))"

text \<open>The rows of a dataset: those that wait in its buffer and those in snapshots of it.\<close>

definition rows_of :: "lake \<Rightarrow> string \<Rightarrow> string \<Rightarrow> string \<Rightarrow> int" where
  "rows_of L tenant project d = buffer_size L tenant project d + snapshot_rows L d"

lemma draw_run [simp]: "draw X L = (Inr (le_uuid X (lk_drawn L)), L\<lparr>lk_drawn := Suc (lk_drawn L)\<rparr>)"
  by (simp add: draw_def)

lemma note_run [simp]: "note_call c L = (Inr (), L\<lparr>lk_calls := lk_calls L @ [c]\<rparr>)"
  by (simp add: note_call_def)

lemma seq_draw [simp]:
  "seq (draw X) f L = f (le_uuid X (lk_drawn L)) (L\<lparr>lk_drawn := Suc (lk_drawn L)\<rparr>)"
  by (simp add: seq_def)

lemma seq_note [simp]: "seq (note_call c) f L = f () (L\<lparr>lk_calls := lk_calls L @ [c]\<rparr>)"
  by (simp add: seq_def)

lemma seq_lift_py: "seq (lift_py r) f L = (case r of Inl e \<Rightarrow> (Inl e, L) | Inr x \<Rightarrow> f x L)"
  by (simp add: lift_py_def split: sum.split)

text \<open>An upsert by a key, found by the key.\<close>

lemma find_snoc: "find P (xs @ [b]) = (case find P xs of None \<Rightarrow> if P b then Some b else None | Some q \<Rightarrow> Some q)"
  by (induction xs) auto

lemma find_replaced:
  "find (\<lambda>q. k q = x) (map (\<lambda>q. if k q = k b then b else q) xs) =
     (if k b = x then (if find (\<lambda>q. k q = k b) xs = None then None else Some b) else find (\<lambda>q. k q = x) xs)"
  by (induction xs) auto

lemma find_upserted:
  "find (\<lambda>q. k q = x) (if find (\<lambda>q. k q = k b) xs = None then xs @ [b]
      else map (\<lambda>q. if k q = k b then b else q) xs) =
   (if k b = x then Some b else find (\<lambda>q. k q = x) xs)"
  by (auto simp: find_snoc find_replaced split: option.splits)

lemma get_put_buffer:
  "get_dataset_buffer (put_buffer b L) tenant project d =
     (if bu_tenant b = tenant \<and> bu_project b = project \<and> bu_dataset b = d then Some b
      else get_dataset_buffer L tenant project d)"
proof -
  have "lk_buffers (put_buffer b L) = (if find (\<lambda>q. bu_tenant q = bu_tenant b \<and> bu_project q = bu_project b \<and>
        bu_dataset q = bu_dataset b) (lk_buffers L) = None then lk_buffers L @ [b]
      else map (\<lambda>q. if bu_tenant q = bu_tenant b \<and> bu_project q = bu_project b \<and> bu_dataset q = bu_dataset b
        then b else q) (lk_buffers L))"
    by (simp add: put_buffer_def get_dataset_buffer_def)
  then show ?thesis
    using find_upserted [of "\<lambda>q. (bu_tenant q, bu_project q, bu_dataset q)" "(tenant, project, d)" b "lk_buffers L"]
    by (simp only: prod.inject get_dataset_buffer_def)
qed

lemma upserted_key [simp]:
  "bu_tenant (upserted_buffer t p d a n now old) = t" "bu_project (upserted_buffer t p d a n now old) = p"
  "bu_dataset (upserted_buffer t p d a n now old) = d"
  by (simp_all add: upserted_buffer_def Let_def)

text \<open>An upsert of a buffer, in one step.\<close>

definition upserted :: "lake \<Rightarrow> string \<Rightarrow> string \<Rightarrow> string \<Rightarrow> buffer_args \<Rightarrow> buffer_row" where
  "upserted L tenant project d a = upserted_buffer tenant project d a
     (resolve_buffer_target_threshold L tenant project d (ba_threshold a)) (lk_now L)
     (get_dataset_buffer L tenant project d)"

lemma upsert_buffer_run:
  "\<exists>cs. upsert_dataset_buffer tenant project d a L =
     (Inr (), (put_buffer (upserted L tenant project d a) L)\<lparr>lk_calls := lk_calls L @ cs\<rparr>)"
  by (cases "get_dataset_buffer L tenant project d")
    (auto simp: upsert_dataset_buffer_def upserted_def Let_def put_buffer_def)

lemma put_buffer_fields [simp]:
  "lk_datasets (put_buffer b L) = lk_datasets L" "lk_versions (put_buffer b L) = lk_versions L"
  "lk_edges (put_buffer b L) = lk_edges L" "lk_files (put_buffer b L) = lk_files L"
  "lk_now (put_buffer b L) = lk_now L" "lk_drawn (put_buffer b L) = lk_drawn L"
  by (simp_all add: put_buffer_def)

lemma get_buffer_cong: "lk_buffers L' = lk_buffers L \<Longrightarrow> get_dataset_buffer L' = get_dataset_buffer L"
  by (simp add: get_dataset_buffer_def fun_eq_iff)

lemma get_dataset_cong: "lk_datasets L' = lk_datasets L \<Longrightarrow> get_dataset L' = get_dataset L"
  by (simp add: get_dataset_def fun_eq_iff)

lemma upsert_dataset_keeps:
  assumes "upsert_dataset X tenant project name uri checksum n L = (r, L')"
  shows "lk_buffers L' = lk_buffers L \<and> lk_versions L' = lk_versions L \<and> lk_edges L' = lk_edges L \<and>
    lk_files L' = lk_files L \<and> lk_now L' = lk_now L \<and> lk_drawn L \<le> lk_drawn L' \<and> (\<exists>d. r = Inr d)"
  using assms by (auto simp: upsert_dataset_def split: option.splits if_splits)

subsection \<open>Labels\<close>

lemma label_numberI: "label_number (''v'' @ nat_str n) = Some n"
  using nat_str_head [of n] nat_str_digits [of n] nat_str_val [of n] by (simp add: label_number_def)

lemma fold_max_ge_start: "(a :: nat) \<le> fold max xs a"
proof (induction xs arbitrary: a)
  case (Cons x xs)
  then show ?case using order_trans [OF max.cobounded2 Cons [of "max x a"]] by simp
qed simp

lemma fold_max_ge: "x \<in> set xs \<Longrightarrow> (x :: nat) \<le> fold max xs a"
proof (induction xs arbitrary: a)
  case (Cons y ys)
  then show ?case using fold_max_ge_start [of "max y a" ys] by auto
qed simp

lemma label_numbers_iff:
  "n \<in> set (label_numbers L d) \<longleftrightarrow> (\<exists>v \<in> set (lk_versions L). dv_dataset v = d \<and> label_number (dv_version v) = Some n)"
  by (force simp: label_numbers_def List.map_filter_def split: if_splits)

lemma next_label_new:
  assumes "next_version_label L d = Inr label"
  shows "find_version L d label = None"
proof (rule ccontr)
  let ?m = "fold max (label_numbers L d) 0"
  assume "find_version L d label \<noteq> None"
  then obtain v where v: "v \<in> set (lk_versions L)" "dv_dataset v = d" "dv_version v = label"
    by (auto simp: find_version_def find_Some_iff) (metis nth_mem)
  have "label = ''v'' @ nat_str (?m + 1)"
    using assms by (simp add: next_version_label_def Let_def split: if_splits)
  then have "?m + 1 \<in> set (label_numbers L d)"
    using v label_numberI [of "?m + 1"] by (auto simp: label_numbers_iff)
  then show False using fold_max_ge [of "?m + 1" "label_numbers L d" 0] by simp
qed

subsection \<open>Materialization\<close>

lemma find_kept_key:
  "(\<And>q. k (f q) = k q) \<Longrightarrow> find (\<lambda>q. k q = x) (map (\<lambda>q. if k q = y then f q else q) xs) =
     (if x = y then map_option f (find (\<lambda>q. k q = x) xs) else find (\<lambda>q. k q = x) xs)"
  by (induction xs) auto

lemma drained_fields [simp]:
  "bu_tenant (drained i now b) = bu_tenant b" "bu_project (drained i now b) = bu_project b"
  "bu_dataset (drained i now b) = bu_dataset b" "bu_size (drained i now b) = 0"
  by (simp_all add: drained_def)

lemma get_drained:
  "get_dataset_buffer (drain_buffer tenant project d i L) tenant' project' d' =
     (if tenant' = tenant \<and> project' = project \<and> d' = d
      then map_option (drained i (lk_now L)) (get_dataset_buffer L tenant' project' d')
      else get_dataset_buffer L tenant' project' d')"
proof -
  have "lk_buffers (drain_buffer tenant project d i L) = map (\<lambda>b. if bu_tenant b = tenant \<and> bu_project b = project \<and>
      bu_dataset b = d then drained i (lk_now L) b else b) (lk_buffers L)"
    by (simp add: drain_buffer_def)
  then show ?thesis
    using find_kept_key [of "\<lambda>q. (bu_tenant q, bu_project q, bu_dataset q)" "drained i (lk_now L)"
      "(tenant', project', d')" "(tenant, project, d)" "lk_buffers L"]
    by (simp only: prod.inject get_dataset_buffer_def drained_fields)
qed

text \<open>What a snapshot does to the tables.\<close>

definition snapshot_taken ::
    "lake_env \<Rightarrow> string \<Rightarrow> string \<Rightarrow> string \<Rightarrow> int \<Rightarrow> string \<Rightarrow> lake \<Rightarrow> string \<Rightarrow> string \<Rightarrow> lake \<Rightarrow> bool" where
  "snapshot_taken X tenant project d cur key L i label L' \<longleftrightarrow>
     next_version_label L d = Inr label \<and> i = le_uuid X (lk_drawn L) \<and>
     (\<exists>v. lk_versions L' = lk_versions L @ [v] \<and> dv_id v = i \<and> dv_dataset v = d \<and> dv_version v = label \<and>
        dv_count v = Some cur \<and> dv_key v = Some key \<and> dv_buffered v) \<and>
     lk_buffers L' = lk_buffers (drain_buffer tenant project d i L) \<and> lk_datasets L' = lk_datasets L \<and>
     lk_edges L' = lk_edges L \<and> lk_files L' = lk_files L \<and> lk_now L' = lk_now L"

lemma take_snapshot_ok:
  assumes "take_snapshot X tenant project d src uri checksum cur threshold key creator L = (Inr r, L')"
  shows "\<exists>i label. r = Some (i, label) \<and> snapshot_taken X tenant project d cur key L i label L'"
  using assms
  by (auto simp: take_snapshot_def snapshot_taken_def seq_lift_py snapshot_row_def drain_buffer_def split: sum.splits)

lemma take_snapshot_fails:
  assumes "take_snapshot X tenant project d src uri checksum cur threshold key creator L = (Inl e, L')"
  shows "L' = L \<and> next_version_label L d = Inl e"
  using assms by (auto simp: take_snapshot_def seq_lift_py split: sum.splits)

lemma next_label_error: "next_version_label L d = Inl e \<Longrightarrow> \<exists>m. e = RuntimeError m"
  by (auto simp: next_version_label_def Let_def split: if_splits)

definition snapshot_key ::
    "lake_env \<Rightarrow> string \<Rightarrow> buffer_row \<Rightarrow> int option \<Rightarrow> string \<Rightarrow> string option \<Rightarrow> string option \<Rightarrow> string" where
  "snapshot_key X d b n src uri checksum = materialization_idempotency_key X d (gate_strategy b)
     (gate_threshold b) (gate_size b n) src uri checksum"

definition gate_open :: "buffer_row \<Rightarrow> bool \<Rightarrow> int option \<Rightarrow> bool" where
  "gate_open b force n \<longleftrightarrow> 0 < gate_size b n \<and> gate_strategy b \<in> set supported_strategies \<and>
     (force \<or> gate_strategy b = ''snapshot_on_threshold'' \<and> gate_threshold b \<le> gate_size b n)"

lemma buffer_gate_iff:
  "materialization_gate_failure_reason (gate_strategy b) force (gate_size b n) (gate_threshold b) = None
     \<longleftrightarrow> gate_open b force n"
  by (auto simp: materialization_gate_failure_reason_def gate_open_def)

lemma materialize_cases:
  assumes "materialize_if_needed X tenant project d src uri checksum n force creator L = (r, L')"
  obtains (none) "r = Inr None" "L' = L"
      "\<And>b. get_dataset_buffer L tenant project d = Some b \<Longrightarrow> \<not> gate_open b force n"
  | (hit) b v where "get_dataset_buffer L tenant project d = Some b" "gate_open b force n"
      "keyed_version L (snapshot_key X d b n src uri checksum) = Some v" "r = Inr (Some (dv_id v, dv_version v))" "L' = L"
  | (made) b i label where "get_dataset_buffer L tenant project d = Some b" "gate_open b force n"
      "keyed_version L (snapshot_key X d b n src uri checksum) = None"
      "r = Inr (Some (i, label))" "snapshot_taken X tenant project d (gate_size b n) (snapshot_key X d b n src uri checksum) L i label L'"
  | (failed) b e where "get_dataset_buffer L tenant project d = Some b" "gate_open b force n" "r = Inl (RuntimeError e)" "L' = L"
proof (cases "get_dataset_buffer L tenant project d")
  case None
  have "r = Inr None" "L' = L" using assms by (simp_all add: materialize_if_needed_def None)
  then show ?thesis by (rule none) (simp add: None)
next
  case (Some b)
  note buf = this
  show ?thesis
  proof (cases "gate_open b force n")
    case False
    have "r = Inr None" "L' = L"
      using assms False by (simp_all add: materialize_if_needed_def buf buffer_gate_iff)
    then show ?thesis by (rule none) (simp add: buf False)
  next
    case True
    note opened = this
    show ?thesis
    proof (cases "keyed_version L (snapshot_key X d b n src uri checksum)")
      case (Some v)
      have "r = Inr (Some (dv_id v, dv_version v))" "L' = L"
        using assms Some [unfolded snapshot_key_def] opened
        by (simp_all add: materialize_if_needed_def buf buffer_gate_iff)
      then show ?thesis by (rule hit [OF buf opened Some])
    next
      case None
      have run: "take_snapshot X tenant project d src uri checksum (gate_size b n) (gate_threshold b)
          (snapshot_key X d b n src uri checksum) creator L = (r, L')"
        using assms None opened by (simp add: materialize_if_needed_def buf buffer_gate_iff snapshot_key_def)
      show ?thesis
      proof (cases r)
        case (Inl e)
        note facts = take_snapshot_fails [OF run [unfolded Inl]]
        obtain m where "e = RuntimeError m" using facts next_label_error by blast
        then show ?thesis using failed [OF buf opened, of m] facts Inl by simp
      next
        case (Inr q)
        obtain i label where "q = Some (i, label)"
          "snapshot_taken X tenant project d (gate_size b n) (snapshot_key X d b n src uri checksum) L i label L'"
          using take_snapshot_ok [OF run [unfolded Inr]] by blast
        then show ?thesis using made [OF buf opened None, of i label] Inr by simp
      qed
    qed
  qed
qed

lemma snapshot_rows_taken:
  assumes "snapshot_taken X tenant project d cur key L i label L'"
  shows "snapshot_rows L' d' = snapshot_rows L d' + (if d' = d then cur else 0)"
  using assms by (auto simp: snapshot_taken_def snapshot_rows_def)

lemma buffer_taken:
  assumes "snapshot_taken X tenant project d cur key L i label L'"
  shows "get_dataset_buffer L' tenant project d' =
    (if d' = d then map_option (drained i (lk_now L)) (get_dataset_buffer L tenant project d')
     else get_dataset_buffer L tenant project d')"
proof -
  have "get_dataset_buffer L' = get_dataset_buffer (drain_buffer tenant project d i L)"
    using assms by (intro get_buffer_cong) (simp add: snapshot_taken_def)
  then show ?thesis by (simp add: get_drained)
qed

text \<open>A materialization moves rows from the buffer to a snapshot and leaves the other datasets alone.\<close>

lemma materialize_conserves:
  assumes run: "materialize_if_needed X tenant project d src uri checksum n force creator L = (r, L')"
    and size: "\<And>b. get_dataset_buffer L tenant project d = Some b \<Longrightarrow> gate_size b n = bu_size b"
  shows "rows_of L' tenant project d' = rows_of L tenant project d'"
  using run
proof (cases rule: materialize_cases)
  case (made b i label)
  then show ?thesis
    using size [OF made(1)] snapshot_rows_taken [OF made(5), of d'] buffer_taken [OF made(5), of d']
    by (simp add: rows_of_def buffer_size_def)
qed simp_all

end
