(* ===== verification/DatasetLaws.thy ===== *)
theory DatasetLaws
  imports DatasetFiles LineageLaws
begin

text \<open>
  What holds of contents and deletion: deletions by index remove exactly the rows asked for, a merge
  never succeeds, metadata only grows, a deleted dataset leaves nothing that refers to it, and a carriage return in a
  cell makes a written file unreadable.
\<close>

subsection \<open>Deletion by index\<close>

definition indices_left :: "int list \<Rightarrow> nat set" where
  "indices_left is = {i. int i \<notin> set is}"

lemma remove_at_nths: "i < length xs \<Longrightarrow> remove_at i xs = nths xs (- {i})"
proof (induction xs arbitrary: i)
  case (Cons x xs)
  show ?case
  proof (cases i)
    case 0
    have "{j. Suc j \<in> - {0 :: nat}} = UNIV" by auto
    then show ?thesis by (simp add: 0 remove_at_def nths_Cons nths_all)
  next
    case (Suc k)
    have "{j. Suc j \<in> - {Suc k}} = - {k}" by auto
    then show ?thesis using Cons Suc by (simp add: remove_at_def nths_Cons)
  qed
qed simp

lemma nths_remove_below:
  assumes "\<forall>j \<in> - A. j < i" "i < length xs"
  shows "nths (remove_at i xs) A = nths xs (A - {i})"
  using assms
proof (induction xs arbitrary: A i)
  case (Cons x xs)
  show ?case
  proof (cases i)
    case 0
    then have "A = UNIV" using Cons.prems(1) by auto
    moreover have "{j. Suc j \<in> UNIV - {0 :: nat}} = UNIV" by auto
    ultimately show ?thesis using 0 by (simp add: remove_at_def nths_Cons nths_all)
  next
    case (Suc k)
    have "{j. Suc j \<in> A - {i}} = {j. Suc j \<in> A} - {k}" using Suc by auto
    moreover have "nths (remove_at k xs) {j. Suc j \<in> A} = nths xs ({j. Suc j \<in> A} - {k})"
      using Cons Suc by (intro Cons.IH) auto
    ultimately show ?thesis using Suc by (simp add: remove_at_def nths_Cons)
  qed
qed simp

lemma delete_descending:
  assumes "sorted (rev is)" "distinct is"
  shows "delete_all xs is e = (if \<forall>i \<in> set is. 0 \<le> i \<and> i < int (length xs) then ok (nths xs (indices_left is)) else raise e)"
  using assms
proof (induction "is" arbitrary: xs)
  case Nil
  show ?case by (simp add: indices_left_def nths_all)
next
  case (Cons i "is")
  have below: "\<forall>j \<in> set is. j < i"
  proof
    fix j assume j: "j \<in> set is"
    then have "j \<le> i" using Cons.prems(1) by (auto simp: sorted_append)
    moreover have "j \<noteq> i" using j Cons.prems(2) by auto
    ultimately show "j < i" by simp
  qed
  show ?case
  proof (cases "0 \<le> i \<and> i < int (length xs)")
    case False
    then show ?thesis by auto
  next
    case True
    then have i: "nat i < length xs" by auto
    have len: "length (remove_at (nat i) xs) = length xs - 1" using i by (simp add: remove_at_def)
    have same: "(\<forall>j \<in> set is. 0 \<le> j \<and> j < int (length xs - 1)) \<longleftrightarrow> (\<forall>j \<in> set is. 0 \<le> j \<and> j < int (length xs))"
      using below True by fastforce
    have left: "nths (remove_at (nat i) xs) (indices_left is) = nths xs (indices_left (i # is))"
      if "\<forall>j \<in> set is. 0 \<le> j"
    proof -
      have "nths (remove_at (nat i) xs) (indices_left is) = nths xs (indices_left is - {nat i})"
        using below that i by (intro nths_remove_below) (auto simp: indices_left_def nat_less_iff zless_nat_eq_int_zless)
      moreover have "indices_left is - {nat i} = indices_left (i # is)" using True by (auto simp: indices_left_def)
      ultimately show ?thesis by simp
    qed
    have "delete_all xs (i # is) e = delete_all (remove_at (nat i) xs) is e" using True by simp
    also have "\<dots> = (if \<forall>j \<in> set is. 0 \<le> j \<and> j < int (length xs)
        then ok (nths (remove_at (nat i) xs) (indices_left is)) else raise e)"
      using Cons.IH [of "remove_at (nat i) xs"] Cons.prems by (simp only: len same) (simp add: sorted_append)
    also have "\<dots> = (if \<forall>j \<in> set (i # is). 0 \<le> j \<and> j < int (length xs)
        then ok (nths xs (indices_left (i # is))) else raise e)"
      using left True by (cases "\<forall>j \<in> set is. 0 \<le> j \<and> j < int (length xs)") auto
    finally show ?thesis .
  qed
qed

text \<open>
  Deletions by index are those of the reference: applied from the last index down they leave exactly the
  entries whose index is not asked for, in order; one index out of range refuses the whole request.
\<close>

theorem deletions_exact:
  "delete_all xs (descending is) e =
     (if \<forall>i \<in> set is. 0 \<le> i \<and> i < int (length xs) then ok (nths xs {i. int i \<notin> set is}) else raise e)"
proof -
  have "sorted (rev (descending is))" "distinct (descending is)" "set (descending is) = set is"
    by (simp_all add: descending_def)
  then show ?thesis using delete_descending [of "descending is" xs e] by (simp add: indices_left_def)
qed

subsection \<open>Merging\<close>

text \<open>
  A merge never succeeds: whatever the version, its file and the upload are, the operation raises, and the
  row of the version, its checksum included, stays as it was (while the file may have been overwritten).
\<close>

theorem merge_never_succeeds:
  "\<exists>e L'. merge_csv_into_dataset_version X t p d vid csv L = (Inl e, L') \<and> lk_versions L' = lk_versions L"
  by (auto simp: merge_csv_into_dataset_version_def seq_lift_py write_file_def split: option.split sum.split prod.split)

subsection \<open>A carriage return\<close>

text \<open>
  A cell with a carriage return before another character is written without quotes (unless it holds a comma, a
  quote or a line feed), and the file is then refused by the reader.
\<close>

theorem carriage_return_breaks:
  assumes "f = a @ cr # c # b" "c \<noteq> cr" "\<not> csv_quoted f" "plain a"
  shows "snd (csv_rows (csv_text [f # fs]))"
proof -
  have c: "c \<notin> {comma, quote2, lf, cr}" and a: "\<not> csv_quoted a"
    using assms by (auto simp: csv_quoted_def)
  obtain rest where line: "csv_line (f # fs) = f @ rest"
  proof -
    have "csv_field f = f" "f \<noteq> []" using assms by (simp_all add: csv_field_def)
    then show ?thesis using that by (cases fs) (auto simp: csv_line_def Let_def)
  qed
  have events: "\<exists>es. csv_events opened (g @ cr # c # u) = events_of g @ Some cr # Some c # es" for opened g u
    using c by (induction g arbitrary: opened) (auto simp: events_of_def)
  have "csv_text [f # fs] = a @ cr # c # (b @ rest)" using assms(1) line by (simp add: csv_text_def)
  then obtain es where ev: "csv_events False (csv_text [f # fs]) = events_of a @ Some cr # Some c # es"
    using events [of False a "b @ rest"] by auto
  show ?thesis
  proof (cases a)
    case Nil
    then show ?thesis using c by (simp add: csv_rows_def ev events_of_def csv_start_def csv_step_def)
  next
    case (Cons x xs)
    have x: "x \<notin> {comma, quote2, lf, cr}" and xs: "\<not> csv_quoted xs" "plain xs"
      using a assms(4) Cons by (auto simp: csv_quoted_def plain_def)
    have "csv_run csv_start (events_of a @ Some cr # Some c # es) =
        csv_run \<lparr>cs_mode = InField, cs_field = [x], cs_row = []\<rparr> (events_of xs @ Some cr # Some c # es)"
      using x by (simp add: Cons events_of_def csv_start_def csv_step_def add_char_def)
    also have "\<dots> = csv_run \<lparr>cs_mode = InField, cs_field = a, cs_row = []\<rparr> (Some cr # Some c # es)"
      using run_unquoted [OF xs refl, of "[x]"] Cons by simp
    finally show ?thesis using c by (simp add: csv_rows_def ev csv_step_def save_field_def)
  qed
qed

subsection \<open>Metadata\<close>

lemma add_new_set: "set (foldl add_new out xs) = set out \<union> set xs"
  by (induction xs arbitrary: out) (auto simp: add_new_def)

lemma add_new_distinct: "distinct out \<Longrightarrow> distinct (foldl add_new out xs)"
  by (induction xs arbitrary: out) (auto simp: add_new_def)

lemma tags_value_back:
  assumes "distinct ts" "list_all (\<lambda>s. s \<noteq> [] \<and> strip s = s) ts"
  shows "tags_list_from_db (tags_value ts) = ts"
proof -
  have "filter (\<lambda>s. s \<noteq> []) (map (\<lambda>x. strip (py_str x)) (map VStr ts)) = ts"
    using assms(2) by (induction ts) auto
  moreover have "foldl add_new out ts = out @ ts" if "distinct (out @ ts)" for out
    using that by (induction ts arbitrary: out) (auto simp: add_new_def)
  ultimately show ?thesis using assms(1) by (simp add: tags_list_from_db_def tags_value_def coerce_json_list_def)
qed

subsection \<open>Deleting a dataset\<close>

text \<open>The foreign keys of the tables.\<close>

definition references_hold :: "lake \<Rightarrow> bool" where
  "references_hold L \<longleftrightarrow>
     (\<forall>v \<in> set (lk_versions L). dv_dataset v \<in> ds_id ` set (lk_datasets L)) \<and>
     (\<forall>b \<in> set (lk_buffers L). bu_dataset b \<in> ds_id ` set (lk_datasets L)) \<and>
     (\<forall>e \<in> set (lk_edges L). \<forall>i. ed_in e = Some i \<or> ed_out e = Some i \<longrightarrow> i \<in> dv_id ` set (lk_versions L))"

lemma remove_files_keep:
  "lk_versions (fold (\<lambda>v. best_effort_remove_file_uri (dv_uri v)) vs L) = lk_versions L"
  "lk_datasets (fold (\<lambda>v. best_effort_remove_file_uri (dv_uri v)) vs L) = lk_datasets L"
  "lk_buffers (fold (\<lambda>v. best_effort_remove_file_uri (dv_uri v)) vs L) = lk_buffers L"
  "lk_edges (fold (\<lambda>v. best_effort_remove_file_uri (dv_uri v)) vs L) = lk_edges L"
  by (induction vs arbitrary: L) (auto simp: best_effort_remove_file_uri_def split: sum.split)

text \<open>
  C31. A deleted dataset leaves nothing behind: no version, no buffer and no edge refers to it or to one of its
  versions any more, its name is free, and the references of what stays still hold.
\<close>

theorem deletion_leaves_no_reference:
  assumes "delete_dataset t p d L = (Inr True, L')" and "references_hold L"
    and "distinct (map dv_id (lk_versions L))"
  shows "d \<notin> dv_dataset ` set (lk_versions L') \<and> d \<notin> bu_dataset ` set (lk_buffers L') \<and>
    d \<notin> ds_id ` set (lk_datasets L') \<and> references_hold L'"
proof -
  have found: "get_dataset L t p d \<noteq> None"
    using assms(1) by (auto simp: delete_dataset_def split: if_splits)
  let ?ids = "dv_id ` {v \<in> set (lk_versions L). dv_dataset v = d}"
  have ids: "dv_id ` set (list_dataset_versions L t p d) = ?ids"
    using found by (auto simp: list_dataset_versions_def)
  have L': "lk_versions L' = filter (\<lambda>v. dv_id v \<notin> ?ids) (lk_versions L)"
      "lk_edges L' = filter (\<lambda>e. ed_in e \<notin> Some ` ?ids \<and> ed_out e \<notin> Some ` ?ids) (lk_edges L)"
      "lk_datasets L' = filter (\<lambda>r. ds_id r \<noteq> d) (lk_datasets L)"
      "lk_buffers L' = filter (\<lambda>b. bu_dataset b \<noteq> d)
         (map (\<lambda>b. if bu_version b \<in> Some ` ?ids then b\<lparr>bu_version := None\<rparr> else b) (lk_buffers L))"
  proof -
    define L1 where "L1 = fold (\<lambda>v. best_effort_remove_file_uri (dv_uri v)) (list_dataset_versions L t p d) L"
    note keep = remove_files_keep [of "list_dataset_versions L t p d" L, folded L1_def]
    have "lk_versions L' = lk_versions (drop_versions ?ids L1)" "lk_edges L' = lk_edges (drop_versions ?ids L1)"
        "lk_datasets L' = filter (\<lambda>r. ds_id r \<noteq> d) (lk_datasets (drop_versions ?ids L1))"
        "lk_buffers L' = filter (\<lambda>b. bu_dataset b \<noteq> d) (lk_buffers (drop_versions ?ids L1))"
      using assms(1) found by (auto simp: delete_dataset_def ids L1_def [symmetric] notify_dataset_updated_def)
    then show "lk_versions L' = filter (\<lambda>v. dv_id v \<notin> ?ids) (lk_versions L)"
        "lk_edges L' = filter (\<lambda>e. ed_in e \<notin> Some ` ?ids \<and> ed_out e \<notin> Some ` ?ids) (lk_edges L)"
        "lk_datasets L' = filter (\<lambda>r. ds_id r \<noteq> d) (lk_datasets L)"
        "lk_buffers L' = filter (\<lambda>b. bu_dataset b \<noteq> d)
           (map (\<lambda>b. if bu_version b \<in> Some ` ?ids then b\<lparr>bu_version := None\<rparr> else b) (lk_buffers L))"
      by (simp_all add: drop_versions_def keep)
  qed
  have own: "dv_id v \<notin> ?ids \<longleftrightarrow> dv_dataset v \<noteq> d" if "v \<in> set (lk_versions L)" for v
    using that assms(3) by (auto simp: distinct_map inj_on_def)
  have 1: "d \<notin> dv_dataset ` set (lk_versions L')" using own by (auto simp: L'(1))
  have 2: "d \<notin> bu_dataset ` set (lk_buffers L')" by (auto simp: L'(4))
  have 3: "d \<notin> ds_id ` set (lk_datasets L')" by (auto simp: L'(3))
  have vers: "dv_dataset v \<in> ds_id ` set (lk_datasets L')" if "v \<in> set (lk_versions L')" for v
    using that own assms(2) unfolding references_hold_def L'(1,3) by fastforce
  have bufs: "bu_dataset b \<in> ds_id ` set (lk_datasets L')" if "b \<in> set (lk_buffers L')" for b
    using that assms(2) unfolding references_hold_def L'(3,4) by (fastforce split: if_splits)
  have edges: "i \<in> dv_id ` set (lk_versions L')" if "e \<in> set (lk_edges L')" "ed_in e = Some i \<or> ed_out e = Some i" for e i
  proof -
    have "i \<in> dv_id ` set (lk_versions L)" using that assms(2) by (auto simp: references_hold_def L'(2))
    moreover have "i \<notin> ?ids" using that by (auto simp: L'(2))
    ultimately show ?thesis by (auto simp: L'(1))
  qed
  show ?thesis using 1 2 3 vers bufs edges by (simp add: references_hold_def)
qed

end
