(* ===== verification/LineageSafety.thy ===== *)
theory LineageSafety
  imports LineageLaws
begin

text \<open>
  The accounting of the buffers over whole sequences of operations, and what threshold, schedule and repetition
  do to a snapshot.
\<close>

subsection \<open>Buffers as the table keeps them\<close>

text \<open>The unique constraint of the table, and sizes that are never negative.\<close>

definition buffers_ok :: "lake \<Rightarrow> bool" where
  "buffers_ok L \<longleftrightarrow> distinct (map (\<lambda>b. (bu_tenant b, bu_project b, bu_dataset b)) (lk_buffers L)) \<and>
     (\<forall>b \<in> set (lk_buffers L). 0 \<le> bu_size b)"

lemma get_buffer_in: "get_dataset_buffer L t p d = Some b \<Longrightarrow>
   b \<in> set (lk_buffers L) \<and> bu_tenant b = t \<and> bu_project b = p \<and> bu_dataset b = d"
  by (auto simp: get_dataset_buffer_def dest: find_SomeD)

lemma buffers_ok_size: "buffers_ok L \<Longrightarrow> get_dataset_buffer L t p d = Some b \<Longrightarrow> 0 \<le> bu_size b"
  by (auto simp: buffers_ok_def dest: get_buffer_in)

lemma buffers_ok_cong: "lk_buffers L' = lk_buffers L \<Longrightarrow> buffers_ok L' = buffers_ok L"
  by (simp add: buffers_ok_def)

lemma map_key_kept: "(\<And>q. P q \<Longrightarrow> k (f q) = k q) \<Longrightarrow> map k (map (\<lambda>q. if P q then f q else q) xs) = map k xs"
  by (induction xs) auto

lemma upserted_size [simp]: "bu_size (upserted L t p d a) = max 0 (case ba_size a of None \<Rightarrow> 0 | Some n \<Rightarrow> n)"
  by (simp add: upserted_def upserted_buffer_def Let_def)

lemma upserted_ident [simp]:
  "bu_tenant (upserted L t p d a) = t" "bu_project (upserted L t p d a) = p" "bu_dataset (upserted L t p d a) = d"
  by (simp_all add: upserted_def)

lemma buffers_ok_put:
  assumes "buffers_ok L" "0 \<le> bu_size b"
  shows "buffers_ok (put_buffer b L)"
proof (cases "get_dataset_buffer L (bu_tenant b) (bu_project b) (bu_dataset b)")
  case None
  then have "\<And>q. q \<in> set (lk_buffers L) \<Longrightarrow> (bu_tenant q, bu_project q, bu_dataset q) \<noteq> (bu_tenant b, bu_project b, bu_dataset b)"
    by (auto simp: get_dataset_buffer_def dest: find_NoneD)
  then show ?thesis using assms None by (fastforce simp: buffers_ok_def put_buffer_def)
next
  case (Some q)
  let ?P = "\<lambda>q. bu_tenant q = bu_tenant b \<and> bu_project q = bu_project b \<and> bu_dataset q = bu_dataset b"
  have "map (\<lambda>b. (bu_tenant b, bu_project b, bu_dataset b)) (map (\<lambda>q. if ?P q then b else q) (lk_buffers L)) =
      map (\<lambda>b. (bu_tenant b, bu_project b, bu_dataset b)) (lk_buffers L)"
    by (rule map_key_kept) auto
  then show ?thesis using assms Some by (auto simp: buffers_ok_def put_buffer_def simp del: map_map)
qed

lemma buffers_ok_drain:
  assumes "buffers_ok L"
  shows "buffers_ok (drain_buffer t p d i L)"
proof -
  let ?P = "\<lambda>b. bu_tenant b = t \<and> bu_project b = p \<and> bu_dataset b = d"
  have "map (\<lambda>b. (bu_tenant b, bu_project b, bu_dataset b)) (map (\<lambda>b. if ?P b then drained i (lk_now L) b else b) (lk_buffers L)) =
      map (\<lambda>b. (bu_tenant b, bu_project b, bu_dataset b)) (lk_buffers L)"
    by (rule map_key_kept) simp
  then show ?thesis using assms by (auto simp: buffers_ok_def drain_buffer_def simp del: map_map)
qed

text \<open>An upsert of a buffer, seen through the tables.\<close>

lemma upsert_buffer_facts:
  assumes "upsert_dataset_buffer t p d a L = (r, L')"
  shows "r = Inr ()" "lk_versions L' = lk_versions L" "lk_datasets L' = lk_datasets L"
    "get_dataset_buffer L' t' p' d' = (if t' = t \<and> p' = p \<and> d' = d then Some (upserted L t p d a)
       else get_dataset_buffer L t' p' d')"
    "buffers_ok L \<Longrightarrow> buffers_ok L'" "lk_now L' = lk_now L"
proof -
  obtain cs where run: "upsert_dataset_buffer t p d a L =
      (Inr (), (put_buffer (upserted L t p d a) L)\<lparr>lk_calls := lk_calls L @ cs\<rparr>)"
    using upsert_buffer_run by blast
  then have L': "lk_buffers L' = lk_buffers (put_buffer (upserted L t p d a) L)" using assms by auto
  show "r = Inr ()" "lk_versions L' = lk_versions L" "lk_datasets L' = lk_datasets L" "lk_now L' = lk_now L"
    using run assms by auto
  show "get_dataset_buffer L' t' p' d' = (if t' = t \<and> p' = p \<and> d' = d then Some (upserted L t p d a)
       else get_dataset_buffer L t' p' d')"
    using get_buffer_cong [OF L'] by (auto simp: get_put_buffer)
  show "buffers_ok L \<Longrightarrow> buffers_ok L'"
    using buffers_ok_cong [OF L'] buffers_ok_put [of L "upserted L t p d a"] by simp
qed

lemma rows_of_upsert:
  assumes "upsert_dataset_buffer t p d a L = (r, L')"
  shows "rows_of L' t p d' = (if d' = d then max 0 (case ba_size a of None \<Rightarrow> 0 | Some n \<Rightarrow> n) + snapshot_rows L d
    else rows_of L t p d')"
  using upsert_buffer_facts(2) [OF assms] upsert_buffer_facts(4) [OF assms, of t p d']
  by (simp add: rows_of_def buffer_size_def snapshot_rows_def)

text \<open>What every operation keeps: the table stays in order, and no buffer disappears.\<close>

definition steady :: "lake \<Rightarrow> lake \<Rightarrow> bool" where
  "steady L L' \<longleftrightarrow> (buffers_ok L \<longrightarrow> buffers_ok L') \<and>
     (\<forall>t p d. get_dataset_buffer L t p d \<noteq> None \<longrightarrow> get_dataset_buffer L' t p d \<noteq> None)"

interpretation st: change steady
  by unfold_locales (auto simp: steady_def)

lemma steady_cong: "lk_buffers L' = lk_buffers L \<Longrightarrow> steady L L'"
  using get_buffer_cong [of L' L] buffers_ok_cong [of L' L] by (simp add: steady_def)

lemma steady_upsert_buffer: "st.keeps (upsert_dataset_buffer t p d a)"
proof (rule st.keepsI)
  fix L
  obtain r L' where run: "upsert_dataset_buffer t p d a L = (r, L')" by fastforce
  show "steady L (snd (upsert_dataset_buffer t p d a L))"
    using upsert_buffer_facts(4,5) [OF run] by (auto simp: run steady_def)
qed

lemma steady_upsert_dataset: "st.keeps (upsert_dataset X t p name uri chk n)"
proof (rule st.keepsI)
  fix L
  obtain r L' where run: "upsert_dataset X t p name uri chk n L = (r, L')" by fastforce
  show "steady L (snd (upsert_dataset X t p name uri chk n L))"
    using upsert_dataset_keeps [OF run] by (auto simp: run intro: steady_cong)
qed

lemma steady_materialize: "st.keeps (materialize_if_needed X t p d src uri chk n force creator)"
proof (rule st.keepsI)
  fix L
  obtain r L' where run: "materialize_if_needed X t p d src uri chk n force creator L = (r, L')" by fastforce
  have "steady L L'"
    using run
  proof (cases rule: materialize_cases)
    case (made b i label)
    have bufs: "lk_buffers L' = lk_buffers (drain_buffer t p d i L)" using made(5) by (simp add: snapshot_taken_def)
    show ?thesis
      using get_buffer_cong [OF bufs] buffers_ok_cong [OF bufs] buffers_ok_drain [of L t p d i]
      by (auto simp: steady_def get_drained)
  qed (simp_all add: st.refl)
  then show "steady L (snd (materialize_if_needed X t p d src uri chk n force creator L))" by (simp add: run)
qed

lemma gate_size_same: "0 \<le> bu_size b \<Longrightarrow> gate_size b (Some (bu_size b)) = bu_size b"
  by (simp add: gate_size_def)

subsection \<open>Appending\<close>

lemma rows_of_cong:
  "lk_buffers L' = lk_buffers L \<Longrightarrow> lk_versions L' = lk_versions L \<Longrightarrow> rows_of L' t p d = rows_of L t p d"
  using get_buffer_cong [of L' L] by (simp add: rows_of_def buffer_size_def snapshot_rows_def)

lemma append_file_run [simp]:
  "seq (append_file path t) f L = f () (L\<lparr>lk_files := dset path (file_text L path @ t) (lk_files L)\<rparr>)"
  by (simp add: append_file_def)

lemma file_uri_error: "file_uri_to_path u = Inl e \<Longrightarrow> \<exists>m. e = ValueError m"
  by (auto simp: file_uri_to_path_def split: prod.splits if_splits)

definition rows_taken :: "appended py \<Rightarrow> int \<Rightarrow> int" where
  "rows_taken r n = (case r of Inr a \<Rightarrow> int (ap_rows a) | Inl (RuntimeError e) \<Rightarrow> n | Inl e \<Rightarrow> 0)"

lemma rows_taken_simps [simp]:
  "rows_taken (Inr a) n = int (ap_rows a)" "rows_taken (Inl (RuntimeError e)) n = n"
  "rows_taken (Inl (ValueError e)) n = 0"
  by (simp_all add: rows_taken_def)

text \<open>The counters after the file is written: the buffer, the row of the dataset, then the snapshot.\<close>

lemma append_counters:
  fixes L :: lake
  assumes ups: "upsert_dataset_buffer t p d (append_args src (bu_size b + int k) b start) L = (r1, L1)"
    and ds: "upsert_dataset X t p name None None (Some (bu_size b + int k)) L1 = (r2, L2)"
    and mat: "materialize_if_needed X t p d src uri None (Some (bu_size b + int k)) False None L2 = (r3, L3)"
    and buf: "get_dataset_buffer L t p d = Some b" and size: "0 \<le> bu_size b"
  shows "rows_of L3 t p d' = rows_of L t p d' + (if d' = d then int k else 0)"
proof -
  have b1: "get_dataset_buffer L1 t p d = Some (upserted L t p d (append_args src (bu_size b + int k) b start))"
    using upsert_buffer_facts(4) [OF ups] by simp
  have keep: "lk_buffers L2 = lk_buffers L1" "lk_versions L2 = lk_versions L1"
    using upsert_dataset_keeps [OF ds] by auto
  have "rows_of L3 t p d' = rows_of L2 t p d'"
    using mat b1 get_buffer_cong [OF keep(1)] size
    by (intro materialize_conserves [OF mat]) (auto simp: gate_size_def append_args_def no_args_def)
  also have "\<dots> = rows_of L1 t p d'" by (rule rows_of_cong [OF keep])
  also have "\<dots> = rows_of L t p d' + (if d' = d then int k else 0)"
    using buf size by (simp add: rows_of_upsert [OF ups] append_args_def no_args_def)
      (simp add: rows_of_def buffer_size_def)
  finally show ?thesis .
qed

lemma append_window_rows:
  assumes run: "append_to_window X t p ds b rows src eid L = (r, L')"
    and buf: "get_dataset_buffer L t p (ds_id ds) = Some b" and size: "0 \<le> bu_size b"
  shows "rows_of L' t p d' = rows_of L t p d' + (if d' = ds_id ds then rows_taken r (int (length rows)) else 0)
    \<and> (\<forall>a. r = Inr a \<longrightarrow> ap_rows a = length rows \<and> ap_dataset a = ds_id ds)"
proof -
  define start where "start = (case bu_start b of None \<Rightarrow> lk_now L | Some s \<Rightarrow> s)"
  define name where "name = (if ds_name ds = [] then ds_id ds else ds_name ds)"
  define uri where "uri = window_uri X t p name start"
  define n where "n = bu_size b + int (length rows)"
  note defs = start_def [symmetric] name_def [symmetric] uri_def [symmetric] n_def [symmetric]
  show ?thesis
  proof (cases "file_uri_to_path uri")
    case (Inl e)
    then show ?thesis
      using run file_uri_error [OF Inl] by (auto simp: append_to_window_def Let_def defs seq_lift_py)
  next
    case (Inr path)
    define L0 where "L0 = L\<lparr>lk_files := dset path (file_text L path @ fst (window_text X eid (lk_now L) rows)) (lk_files L)\<rparr>"
    have L0: "rows_of L0 t p x = rows_of L t p x" for x by (rule rows_of_cong) (simp_all add: L0_def)
    show ?thesis
    proof (cases "snd (window_text X eid (lk_now L) rows)")
      case False
      then show ?thesis using run Inr L0
        by (auto simp: append_to_window_def Let_def defs seq_lift_py L0_def [symmetric])
    next
      case True
      obtain r1 L1 where ups: "upsert_dataset_buffer t p (ds_id ds) (append_args src n b start) L0 = (r1, L1)" by fastforce
      obtain r2 L2 where dsr: "upsert_dataset X t p name None None (Some n) L1 = (r2, L2)" by fastforce
      obtain r3 L3 where mat: "materialize_if_needed X t p (ds_id ds) src (Some uri) None (Some n) False None L2 = (r3, L3)"
        by fastforce
      have r1: "r1 = Inr ()" using upsert_buffer_facts(1) [OF ups] .
      obtain i where r2: "r2 = Inr i" using upsert_dataset_keeps [OF dsr] by blast
      have rows: "rows_of L3 t p x = rows_of L t p x + (if x = ds_id ds then int (length rows) else 0)" for x
        using append_counters [OF ups [unfolded n_def] dsr [unfolded n_def] mat [unfolded n_def], of x] buf size L0
          get_buffer_cong [of L0 L] by (simp add: L0_def)
      have end': "(r, L') = (case r3 of Inl e \<Rightarrow> (Inl e, L3) | Inr made \<Rightarrow> (Inr \<lparr>ap_dataset = ds_id ds,
          ap_rows = length rows, ap_size = n, ap_uri = uri, ap_version = made\<rparr>, L3))"
        using run Inr True ups [unfolded r1] dsr [unfolded r2] mat
        by (simp add: append_to_window_def Let_def defs seq_lift_py L0_def [symmetric] seq_step split: sum.split)
          (simp add: seq_def split: sum.splits)
      have err: "r3 = Inl e \<Longrightarrow> \<exists>m. e = RuntimeError m" for e
        using mat by (cases rule: materialize_cases) auto
      show ?thesis using end' rows err by (cases r3) auto
    qed
  qed
qed

lemma append_rows:
  assumes run: "append_dataset_buffer_rows X t p d rows src eid L = (r, L')"
    and buf: "get_dataset_buffer L t p x \<noteq> None" and ok: "buffers_ok L"
  shows "rows_of L' t p x = rows_of L t p x + (if x = d then rows_taken r (int (length (the (as_list rows)))) else 0)"
proof -
  have refused: ?thesis if "r = Inl (ValueError e)" "L' = L" for e using that by simp
  show ?thesis
  proof (cases "as_list rows")
    case None
    then show ?thesis using run by (auto simp: append_dataset_buffer_rows_def intro: refused)
  next
    case (Some rs)
    show ?thesis
    proof (cases "rs = [] \<or> get_dataset L t p d = None")
      case True
      then show ?thesis using run Some
        by (auto simp: append_dataset_buffer_rows_def split: list.splits intro: refused)
    next
      case False
      then obtain q qs ds where rs: "rs = q # qs" and ds: "get_dataset L t p d = Some ds" by (cases rs) auto
      have id: "ds_id ds = d" using ds by (auto simp: get_dataset_def dest: find_SomeD)
      show ?thesis
      proof (cases "get_dataset_buffer L t p d")
        case (Some b)
        then have "append_to_window X t p ds b rs src eid L = (r, L')"
          using run rs ds \<open>as_list rows = Some rs\<close> by (simp add: append_dataset_buffer_rows_def)
        from append_window_rows [OF this, of x] show ?thesis
          using Some id buffers_ok_size [OF ok Some] \<open>as_list rows = Some rs\<close> by simp
      next
        case None
        then have other: "x \<noteq> d" using buf by auto
        define a where "a = no_args\<lparr>ba_source := src, ba_size := Some (ds_size ds), ba_threshold := Some 1000,
          ba_strategy := Some default_strategy, ba_start := Some (lk_now L)\<rparr>"
        obtain r1 L1 where ups: "upsert_dataset_buffer t p d a L = (r1, L1)" by fastforce
        have b1: "get_dataset_buffer L1 t p d = Some (upserted L t p d a)"
          using upsert_buffer_facts(4) [OF ups] by simp
        have "append_to_window X t p ds (upserted L t p d a) rs src eid L1 = (r, L')"
          using run rs ds None \<open>as_list rows = Some rs\<close> ups b1 upsert_buffer_facts(1) [OF ups]
          by (simp add: append_dataset_buffer_rows_def a_def [symmetric] seq_step)
        from append_window_rows [OF this, of x] show ?thesis
          using id other b1 by (simp add: rows_of_upsert [OF ups])
      qed
    qed
  qed
qed

lemma steady_append_to_window: "st.keeps (append_to_window X t p ds b rows src eid)"
  by (auto simp: append_to_window_def Let_def lift_py_def append_file_def
      intro!: st.keeps_seq st.keeps_basic steady_upsert_buffer steady_upsert_dataset steady_materialize
        st.keeps_put steady_cong split: sum.split)

lemma steady_append: "st.keeps (append_dataset_buffer_rows X t p d rows src eid)"
  unfolding append_dataset_buffer_rows_def
  by (auto intro!: st.keeps_seq st.keeps_basic steady_upsert_buffer steady_append_to_window
      split: option.split list.split prod.split)

subsection \<open>Configuring, and materializing by hand\<close>

lemma configure_rows:
  assumes run: "update_dataset_buffer_config t p d target strategy L = (r, L')"
    and buf: "get_dataset_buffer L t p x \<noteq> None" and ok: "buffers_ok L"
  shows "rows_of L' t p x = rows_of L t p x"
proof (cases "get_dataset L t p d")
  case None
  then show ?thesis using run by (simp add: update_dataset_buffer_config_def)
next
  case (Some ds)
  define a where "a = config_args ds (get_dataset_buffer L t p d) target strategy (lk_now L)"
  have a: "ba_size a = Some (case get_dataset_buffer L t p d of Some b \<Rightarrow> bu_size b | None \<Rightarrow> ds_size ds)"
    by (simp add: a_def config_args_def Let_def no_args_def split: option.split)
  have up: "(r, L') = seq (upsert_dataset_buffer t p d a) (\<lambda>_. seq (notify_dataset_updated d (Some ''buffer_threshold_updated''))
      (\<lambda>_. ask (\<lambda>L. get_dataset_buffer L t p d))) L"
    using run Some by (simp add: update_dataset_buffer_config_def a_def)
  obtain r1 L1 where ups: "upsert_dataset_buffer t p d a L = (r1, L1)" by fastforce
  then have same: "lk_buffers L' = lk_buffers L1" "lk_versions L' = lk_versions L1"
    using up upsert_buffer_facts(1) [OF ups] by (auto simp: seq_step notify_dataset_updated_def)
  have "rows_of L' t p x = rows_of L1 t p x" by (rule rows_of_cong [OF same])
  also have "\<dots> = rows_of L t p x"
    using buf a buffers_ok_size [OF ok, of t p d]
    by (auto simp: rows_of_upsert [OF ups] split: option.splits) (simp add: rows_of_def buffer_size_def)
  finally show ?thesis .
qed

lemma steady_configure: "st.keeps (update_dataset_buffer_config t p d target strategy)"
  unfolding update_dataset_buffer_config_def notify_dataset_updated_def note_call_def Let_def
  by (auto intro!: st.keeps_seq st.keeps_basic steady_upsert_buffer st.keeps_put steady_cong
      split: option.split prod.split)

lemma materialize_now_rows:
  assumes run: "materialize_dataset_buffer_now X t p d creator L = (r, L')" and ok: "buffers_ok L"
  shows "rows_of L' t p x = rows_of L t p x"
proof (cases "get_dataset L t p d")
  case None
  then show ?thesis using run by (simp add: materialize_dataset_buffer_now_def)
next
  case (Some ds)
  show ?thesis
  proof (cases "get_dataset_buffer L t p d")
    case None
    then show ?thesis using run Some by (simp add: materialize_dataset_buffer_now_def)
  next
    case (Some b)
    obtain r1 L1 where mat: "materialize_if_needed X t p d
        (if bu_source b = [] then ''runtime_feedback'' else bu_source b) (nonempty_opt (ds_uri ds))
        (nonempty_opt (ds_checksum ds)) (Some (bu_size b)) True creator L = (r1, L1)" by fastforce
    have "L' = L1 \<or> L' = L"
      using run Some \<open>get_dataset L t p d = Some ds\<close> mat
      by (cases r1) (auto simp: materialize_dataset_buffer_now_def seq_def check_def split: option.splits if_splits prod.splits)
    moreover have "rows_of L1 t p x = rows_of L t p x"
      using materialize_conserves [OF mat] gate_size_same buffers_ok_size [OF ok Some] Some by simp
    ultimately show ?thesis by auto
  qed
qed

lemma steady_materialize_now: "st.keeps (materialize_dataset_buffer_now X t p d creator)"
  unfolding materialize_dataset_buffer_now_def
  by (auto intro!: st.keeps_seq st.keeps_basic steady_materialize split: option.split prod.split)

subsection \<open>Materializing by schedule\<close>

lemma materialize_other:
  assumes "materialize_if_needed X t p d src uri chk n force creator L = (r, L')" and "d' \<noteq> d"
  shows "get_dataset_buffer L' t p d' = get_dataset_buffer L t p d'"
  using assms(1)
proof (cases rule: materialize_cases)
  case (made b i label)
  then show ?thesis using buffer_taken [OF made(5), of d'] assms(2) by simp
qed simp_all

lemma scheduled_one_rows:
  assumes run: "scheduled_one X t p b L = (r, L')" and buf: "get_dataset_buffer L t p (bu_dataset b) = Some b"
    and ok: "buffers_ok L"
  shows "rows_of L' t p x = rows_of L t p x \<and>
    (\<forall>d. d \<noteq> bu_dataset b \<longrightarrow> get_dataset_buffer L' t p d = get_dataset_buffer L t p d) \<and> steady L L'"
proof (cases "bu_size b \<le> 0 \<or> get_dataset L t p (bu_dataset b) = None")
  case True
  then have "L' = L" using run by (cases "bu_size b \<le> 0") (auto simp: scheduled_one_def)
  then show ?thesis by (simp add: st.refl)
next
  case False
  then obtain ds where ds: "get_dataset L t p (bu_dataset b) = Some ds" by auto
  obtain r1 L1 where mat: "materialize_if_needed X t p (bu_dataset b)
      (if bu_source b = [] then ''runtime_feedback'' else bu_source b) (nonempty_opt (ds_uri ds))
      (nonempty_opt (ds_checksum ds)) (Some (max 0 (bu_size b))) True None L = (r1, L1)" by fastforce
  have "L' = L1" using run False ds mat by (cases r1) (auto simp: scheduled_one_def seq_def)
  moreover have "rows_of L1 t p x = rows_of L t p x"
    using buf False by (intro materialize_conserves [OF mat]) (auto simp: gate_size_def)
  moreover have "steady L L1" using st.keepsD [OF steady_materialize] mat by (metis snd_conv)
  ultimately show ?thesis using materialize_other [OF mat] by blast
qed

lemma scheduled_all_rows:
  assumes "each_act (scheduled_one X t p) bs L = (r, L')" and "distinct (map bu_dataset bs)"
    and "\<forall>b \<in> set bs. get_dataset_buffer L t p (bu_dataset b) = Some b" and "buffers_ok L"
  shows "rows_of L' t p x = rows_of L t p x \<and> steady L L'"
  using assms
proof (induction bs arbitrary: L r L')
  case Nil
  then show ?case by (simp add: st.refl)
next
  case (Cons b bs)
  obtain r1 L1 where one: "scheduled_one X t p b L = (r1, L1)" by fastforce
  have step: "rows_of L1 t p x = rows_of L t p x" "steady L L1"
      "\<And>d. d \<noteq> bu_dataset b \<Longrightarrow> get_dataset_buffer L1 t p d = get_dataset_buffer L t p d"
    using scheduled_one_rows [OF one, of x] Cons.prems(3,4) by auto
  show ?case
  proof (cases r1)
    case (Inl e)
    then show ?thesis using Cons.prems(1) one step by (simp add: seq_step)
  next
    case (Inr y)
    obtain r2 L2 where rest: "each_act (scheduled_one X t p) bs L1 = (r2, L2)" by fastforce
    have "L' = L2" using Cons.prems(1) one Inr rest by (cases r2) (simp_all add: seq_step)
    moreover have "rows_of L2 t p x = rows_of L1 t p x \<and> steady L1 L2"
    proof (rule Cons.IH [OF rest])
      show "distinct (map bu_dataset bs)" using Cons.prems(2) by simp
      show "\<forall>b \<in> set bs. get_dataset_buffer L1 t p (bu_dataset b) = Some b"
      proof
        fix q assume q: "q \<in> set bs"
        have "bu_dataset b \<notin> bu_dataset ` set bs" using Cons.prems(2) by simp
        moreover have "bu_dataset q \<in> bu_dataset ` set bs" using q by (rule imageI)
        ultimately have "bu_dataset q \<noteq> bu_dataset b" by metis
        then show "get_dataset_buffer L1 t p (bu_dataset q) = Some q" using step(3) Cons.prems(3) q by simp
      qed
      show "buffers_ok L1" using step(2) Cons.prems(4) by (simp add: steady_def)
    qed
    ultimately show ?thesis using step(1) st.trans [OF step(2)] by simp
  qed
qed

lemma get_buffer_unique:
  assumes "buffers_ok L" "b \<in> set (lk_buffers L)"
  shows "get_dataset_buffer L (bu_tenant b) (bu_project b) (bu_dataset b) = Some b"
proof -
  have "get_dataset_buffer L (bu_tenant b) (bu_project b) (bu_dataset b) \<noteq> None"
    using assms(2) by (metis (mono_tags, lifting) find_None_iff get_dataset_buffer_def)
  then obtain q where q: "get_dataset_buffer L (bu_tenant b) (bu_project b) (bu_dataset b) = Some q" by auto
  then have "q = b" using get_buffer_in [OF q] assms by (auto simp: buffers_ok_def distinct_map inj_on_def)
  then show ?thesis using q by simp
qed

lemma scheduled_rows_rows:
  assumes "materialize_scheduled_buffers X t p limit L = (r, L')" and ok: "buffers_ok L"
  shows "rows_of L' t p x = rows_of L t p x \<and> steady L L'"
proof (rule scheduled_all_rows [OF _ _ _ ok])
  let ?bs = "filter (\<lambda>b. bu_tenant b = t \<and> bu_project b = p \<and> get_dataset L t p (bu_dataset b) \<noteq> None \<and>
    bu_strategy b = ''snapshot_on_schedule'') (lk_buffers L)"
  have sub: "set (scheduled_rows L t p limit) \<subseteq> set ?bs"
    by (auto simp: scheduled_rows_def dest: in_set_takeD)
  show "each_act (scheduled_one X t p) (scheduled_rows L t p limit) L = (r, L')"
    using assms by (simp add: materialize_scheduled_buffers_def)
  show own: "\<forall>b \<in> set (scheduled_rows L t p limit). get_dataset_buffer L t p (bu_dataset b) = Some b"
    using sub get_buffer_unique [OF ok] by fastforce
  have "distinct (lk_buffers L)" using ok by (auto simp: buffers_ok_def simp: distinct_map)
  then have "distinct (scheduled_rows L t p limit)"
    by (auto simp: scheduled_rows_def intro: distinct_take)
  moreover have "inj_on bu_dataset (set (scheduled_rows L t p limit))"
    using own by (intro inj_onI) (metis option.inject)
  ultimately show "distinct (map bu_dataset (scheduled_rows L t p limit))" by (simp add: distinct_map)
qed

subsection \<open>Sequences of operations\<close>

datatype buffer_op =
    Append string pyval string "string option"
  | Configure string int "string option"
  | MaterializeNow string "string option"
  | MaterializeDue int
  | Elapse nat

definition buffer_step :: "lake_env \<Rightarrow> string \<Rightarrow> string \<Rightarrow> buffer_op \<Rightarrow> lake \<Rightarrow> lake" where
  "buffer_step X t p op L =
     (case op of
        Append d rows src eid \<Rightarrow> snd (append_dataset_buffer_rows X t p d rows src eid L)
      | Configure d target strategy \<Rightarrow> snd (update_dataset_buffer_config t p d target strategy L)
      | MaterializeNow d creator \<Rightarrow> snd (materialize_dataset_buffer_now X t p d creator L)
      | MaterializeDue limit \<Rightarrow> snd (materialize_scheduled_buffers X t p limit L)
      | Elapse us \<Rightarrow> L\<lparr>lk_now := lk_now L + int us\<rparr>)"

text \<open>The rows of \<open>d\<close> an operation accepts: all of an append that is not refused by a \<open>ValueError\<close>.\<close>

definition accepted_rows :: "lake_env \<Rightarrow> string \<Rightarrow> string \<Rightarrow> string \<Rightarrow> buffer_op \<Rightarrow> lake \<Rightarrow> int" where
  "accepted_rows X t p d op L =
     (case op of
        Append d' rows src eid \<Rightarrow> if d' = d then rows_taken (fst (append_dataset_buffer_rows X t p d rows src eid L))
           (int (length (the (as_list rows)))) else 0
      | _ \<Rightarrow> 0)"

fun accepted_total :: "lake_env \<Rightarrow> string \<Rightarrow> string \<Rightarrow> string \<Rightarrow> buffer_op list \<Rightarrow> lake \<Rightarrow> int" where
  "accepted_total X t p d [] L = 0"
| "accepted_total X t p d (op # ops) L = accepted_rows X t p d op L + accepted_total X t p d ops (buffer_step X t p op L)"

lemma buffer_step_rows:
  assumes "buffers_ok L" "get_dataset_buffer L t p d \<noteq> None"
  shows "rows_of (buffer_step X t p op L) t p d = rows_of L t p d + accepted_rows X t p d op L"
proof (cases op)
  case (Append d' rows src eid)
  then show ?thesis using append_rows [OF surjective_pairing assms(2,1), where d = d' and rows = rows and src = src and eid = eid and X = X]
    by (auto simp: buffer_step_def accepted_rows_def)
next
  case (Configure d' target strategy)
  then show ?thesis using configure_rows [OF surjective_pairing] assms
    by (simp add: buffer_step_def accepted_rows_def)
next
  case (MaterializeNow d' creator)
  then show ?thesis using materialize_now_rows [OF surjective_pairing] assms
    by (simp add: buffer_step_def accepted_rows_def)
next
  case (MaterializeDue limit)
  then show ?thesis using scheduled_rows_rows [OF surjective_pairing] assms
    by (simp add: buffer_step_def accepted_rows_def)
next
  case (Elapse us)
  have "rows_of (L\<lparr>lk_now := lk_now L + int us\<rparr>) t p d = rows_of L t p d" by (rule rows_of_cong) simp_all
  then show ?thesis by (simp add: Elapse buffer_step_def accepted_rows_def)
qed

lemma buffer_step_steady:
  assumes "buffers_ok L"
  shows "steady L (buffer_step X t p op L)"
proof (cases op)
  case (MaterializeDue limit)
  then show ?thesis using scheduled_rows_rows [OF surjective_pairing assms]
    by (simp add: buffer_step_def)
next
  case (Elapse us)
  then show ?thesis by (simp add: buffer_step_def steady_cong)
qed (simp_all add: buffer_step_def st.keepsD steady_append steady_configure steady_materialize_now)

text \<open>
  C28. No row is lost and none is counted twice: after any sequence of appends, configurations, manual and
  scheduled materializations, the rows that wait in the buffer of a dataset and the rows of its snapshots add
  up to what they were before, plus the rows that were accepted.
\<close>

theorem rows_conserved:
  assumes "buffers_ok L" and "get_dataset_buffer L t p d \<noteq> None"
  shows "rows_of (fold (buffer_step X t p) ops L) t p d = rows_of L t p d + accepted_total X t p d ops L"
  using assms
proof (induction ops arbitrary: L)
  case (Cons op ops)
  have "buffers_ok (buffer_step X t p op L)" "get_dataset_buffer (buffer_step X t p op L) t p d \<noteq> None"
    using buffer_step_steady [OF Cons.prems(1), of X t p op] Cons.prems by (auto simp: steady_def)
  from Cons.IH [OF this] show ?case using buffer_step_rows [OF Cons.prems] by simp
qed simp

subsection \<open>What a snapshot holds\<close>

text \<open>
  A materialization whose key is new stores exactly one version: it holds the whole buffer, its label is new
  for the dataset, and the buffer is empty after it and points to it.
\<close>

theorem snapshot_takes_buffer:
  assumes "materialize_if_needed X t p d src uri chk n force creator L = (Inr (Some (i, label)), L')"
    and "get_dataset_buffer L t p d = Some b" and "keyed_version L (snapshot_key X d b n src uri chk) = None"
  shows "\<exists>v. lk_versions L' = lk_versions L @ [v] \<and> dv_id v = i \<and> dv_version v = label \<and> dv_dataset v = d \<and>
      dv_count v = Some (gate_size b n) \<and> 0 < gate_size b n \<and> find_version L d label = None \<and>
      map_option bu_size (get_dataset_buffer L' t p d) = Some 0 \<and>
      map_option bu_version (get_dataset_buffer L' t p d) = Some (Some i)"
  using assms(1)
proof (cases rule: materialize_cases)
  case (hit b' v)
  then show ?thesis using assms(2,3) by simp
next
  case (made b' i' label')
  have "next_version_label L d = Inr label" using made by (simp add: snapshot_taken_def)
  then have "find_version L d label = None" by (rule next_label_new)
  moreover have "get_dataset_buffer L' t p d = Some (drained i (lk_now L) b)"
    using buffer_taken [OF made(5), of d] made(1,4) assms(2) by (simp add: snapshot_taken_def)
  ultimately show ?thesis
    using made assms(2) by (auto simp: snapshot_taken_def gate_open_def drained_def)
qed simp_all

lemma find_appended: "find P (xs @ ys) = (case find P xs of None \<Rightarrow> find P ys | Some x \<Rightarrow> Some x)"
  by (induction xs) auto

lemma keyed_version_append:
  "keyed_version L key = Some v \<Longrightarrow> lk_versions L' = lk_versions L @ vs \<Longrightarrow> keyed_version L' key = Some v"
  by (simp add: keyed_version_def find_appended)

lemma keyed_version_new:
  "keyed_version L key = None \<Longrightarrow> dv_key v = Some key \<Longrightarrow> lk_versions L' = lk_versions L @ v # vs \<Longrightarrow>
     keyed_version L' key = Some v"
  by (simp add: keyed_version_def find_appended)

text \<open>The version a materialization answers with has its key from then on.\<close>

lemma materialized_keyed:
  assumes "materialize_if_needed X t p d src uri chk n force creator L = (Inr (Some (i, label)), L1)"
    and "get_dataset_buffer L t p d = Some b" and "lk_versions L2 = lk_versions L1 @ vs"
  shows "\<exists>v. keyed_version L2 (snapshot_key X d b n src uri chk) = Some v \<and> dv_id v = i \<and> dv_version v = label \<and>
    gate_open b force n"
  using assms(1)
proof (cases rule: materialize_cases)
  case (hit b' v)
  have "b' = b" using hit(1) assms(2) by simp
  moreover have "keyed_version L2 (snapshot_key X d b' n src uri chk) = Some v"
    using keyed_version_append [OF hit(3)] assms(3) hit(5) by simp
  ultimately show ?thesis using hit(2,4) by simp
next
  case (made b' i' label')
  obtain v where v: "lk_versions L2 = lk_versions L @ v # vs" "dv_id v = i'" "dv_version v = label'"
      "dv_key v = Some (snapshot_key X d b' n src uri chk)"
    using made(5) assms(3) by (auto simp: snapshot_taken_def)
  have "b' = b" using made(1) assms(2) by simp
  moreover have "keyed_version L2 (snapshot_key X d b' n src uri chk) = Some v"
    by (rule keyed_version_new [OF made(3) v(4) v(1)])
  ultimately show ?thesis using made(2,4) v(2,3) by simp
qed simp_all


lemma strip_supported: "s \<in> set supported_strategies \<Longrightarrow> stripped_text s default_strategy = s"
  by (auto simp: supported_strategies_def stripped_text_def Let_def) (code_simp)+

lemma append_window_ok:
  assumes "append_to_window X t p ds b rows src eid L = (Inr a, L')"
  obtains L0 L1 L2 uri start i where
    "lk_buffers L0 = lk_buffers L"
    "upsert_dataset_buffer t p (ds_id ds) (append_args src (bu_size b + int (length rows)) b start) L0 = (Inr (), L1)"
    "upsert_dataset X t p (if ds_name ds = [] then ds_id ds else ds_name ds) None None
       (Some (bu_size b + int (length rows))) L1 = (Inr i, L2)"
    "materialize_if_needed X t p (ds_id ds) src (Some uri) None (Some (bu_size b + int (length rows))) False None L2 =
       (Inr (ap_version a), L')"
  using assms unfolding append_to_window_def Let_def append_file_def
  by (elim seqE) (auto simp: check_Inr lift_py_def split: sum.splits, (rule that [rotated], assumption, assumption, simp, simp))

text \<open>
  An append that returns has made a snapshot exactly when the strategy is \<open>snapshot_on_threshold\<close> and the rows
  of the buffer, with the new ones, reach its threshold.
\<close>

theorem append_snapshots_at_threshold:
  assumes run: "append_dataset_buffer_rows X t p d rows src eid L = (Inr a, L')"
    and buf: "get_dataset_buffer L t p d = Some b" and "0 \<le> bu_size b"
    and strat: "gate_strategy b \<in> set supported_strategies"
  shows "ap_version a \<noteq> None \<longleftrightarrow>
    gate_strategy b = ''snapshot_on_threshold'' \<and> gate_threshold b \<le> bu_size b + int (length (the (as_list rows)))"
proof -
  define k where "k = int (length (the (as_list rows)))"
  obtain q qs where rows: "as_list rows = Some (q # qs)"
    using run by (auto simp: append_dataset_buffer_rows_def split: option.splits list.splits)
  obtain ds where ds: "get_dataset L t p d = Some ds"
    using run rows by (auto simp: append_dataset_buffer_rows_def split: option.splits)
  have id: "ds_id ds = d" using ds by (auto simp: get_dataset_def dest: find_SomeD)
  have "append_to_window X t p ds b (q # qs) src eid L = (Inr a, L')"
    using run rows ds buf by (simp add: append_dataset_buffer_rows_def)
  then obtain L0 L1 L2 uri start i where bufs: "lk_buffers L0 = lk_buffers L"
    and ups: "upsert_dataset_buffer t p d (append_args src (bu_size b + k) b start) L0 = (Inr (), L1)"
    and dsr: "upsert_dataset X t p (if ds_name ds = [] then ds_id ds else ds_name ds) None None (Some (bu_size b + k)) L1 = (Inr i, L2)"
    and mat: "materialize_if_needed X t p d src (Some uri) None (Some (bu_size b + k)) False None L2 = (Inr (ap_version a), L')"
    by (rule append_window_ok) (use rows id in \<open>simp add: k_def\<close>)
  define c where "c = upserted L0 t p d (append_args src (bu_size b + k) b start)"
  have "get_dataset_buffer L2 t p d = Some c"
    using get_buffer_cong [of L2 L1] upsert_dataset_keeps [OF dsr] upsert_buffer_facts(4) [OF ups] by (simp add: c_def)
  moreover have "0 < k" using rows by (simp add: k_def)
  then have "gate_size c (Some (bu_size b + k)) = bu_size b + k" "gate_threshold c = gate_threshold b"
      "gate_strategy c = gate_strategy b"
    using assms(3) strip_supported [OF strat] strat
    by (auto simp: c_def upserted_def upserted_buffer_def append_args_def no_args_def Let_def gate_size_def
        gate_threshold_def gate_strategy_def resolve_buffer_target_threshold_def default_strategy_def)
  then have "gate_open c False (Some (bu_size b + k)) \<longleftrightarrow>
      gate_strategy b = ''snapshot_on_threshold'' \<and> gate_threshold b \<le> bu_size b + k"
    using strat assms(3) \<open>0 < k\<close> by (auto simp: gate_open_def)
  moreover have "ap_version a \<noteq> None \<longleftrightarrow> gate_open c False (Some (bu_size b + k))"
    using mat calculation(1) by (cases rule: materialize_cases) auto
  ultimately show ?thesis by (simp add: k_def)
qed

subsection \<open>An append that succeeds\<close>

lemma window_text_objects:
  "list_all (\<lambda>r. as_dict r \<noteq> None) rows \<Longrightarrow> snd (window_text X eid now rows)"
  by (induction X eid now rows rule: window_text.induct) (auto simp: as_dict_def split: prod.splits)

lemma append_returns:
  assumes rows: "as_list rows = Some rs" "rs \<noteq> []" "list_all (\<lambda>r. as_dict r \<noteq> None) rs"
    and found: "get_dataset L t p d = Some ds" "get_dataset_buffer L t p d = Some b"
    and root: "\<And>s. is_ok (file_uri_to_path (dataset_artifact_root X @ s))"
    and labels: "is_ok (next_version_label L d)"
  shows "\<exists>a L'. append_dataset_buffer_rows X t p d rows src eid L = (Inr a, L')"
proof -
  define start where "start = (case bu_start b of None \<Rightarrow> lk_now L | Some s \<Rightarrow> s)"
  define name where "name = (if ds_name ds = [] then ds_id ds else ds_name ds)"
  define uri where "uri = window_uri X t p name start"
  define n where "n = bu_size b + int (length rs)"
  note defs = start_def [symmetric] name_def [symmetric] uri_def [symmetric] n_def [symmetric]
  have id: "ds_id ds = d" using found(1) by (auto simp: get_dataset_def dest: find_SomeD)
  have "is_ok (file_uri_to_path uri)" using root by (simp add: uri_def window_uri_def)
  then obtain path where path: "file_uri_to_path uri = Inr path" by (cases "file_uri_to_path uri") simp_all
  have good: "snd (window_text X eid (lk_now L) rs)" by (rule window_text_objects [OF rows(3)])
  define L0 where "L0 = L\<lparr>lk_files := dset path (file_text L path @ fst (window_text X eid (lk_now L) rs)) (lk_files L)\<rparr>"
  obtain r1 L1 where ups: "upsert_dataset_buffer t p d (append_args src n b start) L0 = (r1, L1)" by fastforce
  obtain r2 L2 where dsr: "upsert_dataset X t p name None None (Some n) L1 = (r2, L2)" by fastforce
  obtain r3 L3 where mat: "materialize_if_needed X t p d src (Some uri) None (Some n) False None L2 = (r3, L3)" by fastforce
  have r1: "r1 = Inr ()" using upsert_buffer_facts(1) [OF ups] .
  obtain i where r2: "r2 = Inr i" using upsert_dataset_keeps [OF dsr] by blast
  have vers: "lk_versions L2 = lk_versions L"
    using upsert_dataset_keeps [OF dsr] upsert_buffer_facts(2) [OF ups] by (simp add: L0_def)
  have "next_version_label L2 d = next_version_label L d" using vers by (simp add: next_version_label_def label_numbers_def)
  then have labels2: "is_ok (next_version_label L2 d)" using labels by simp
  have "\<exists>made. r3 = Inr made"
    using mat labels2
    by (cases r3) (auto simp: materialize_if_needed_def split: option.splits if_splits dest!: take_snapshot_fails)
  then obtain made where r3: "r3 = Inr made" by blast
  have "append_to_window X t p ds b rs src eid L = (Inr \<lparr>ap_dataset = d, ap_rows = length rs, ap_size = n,
      ap_uri = uri, ap_version = made\<rparr>, L3)"
    using path good ups [unfolded r1] dsr [unfolded r2] mat [unfolded r3]
    by (simp add: append_to_window_def Let_def defs seq_lift_py L0_def [symmetric] seq_step id)
  then show ?thesis using rows(1,2) found by (cases rs) (auto simp: append_dataset_buffer_rows_def)
qed

end
