(* ===== verification/LineageGraph.thy ===== *)
theory LineageGraph
  imports LineageLaws
begin

text \<open>
  The graph of the edges: an edge is stored once however often its task reports it, and the
  neighbourhood of a version is what at most \<open>depth\<close> edges reach, upwards or downwards.
\<close>

subsection \<open>Edges\<close>

definition edges_grow :: "lake \<Rightarrow> lake \<Rightarrow> bool" where
  "edges_grow L L' \<longleftrightarrow> (\<exists>es. lk_edges L' = lk_edges L @ es) \<and>
     (distinct (map ed_key (lk_edges L)) \<longrightarrow> distinct (map ed_key (lk_edges L')))"

interpretation eg: change edges_grow
  by unfold_locales (auto simp: edges_grow_def)

lemma edges_grow_same: "lk_edges L' = lk_edges L \<Longrightarrow> edges_grow L L'"
  by (simp add: edges_grow_def)

lemma version_stored_cong [simp]: "version_stored (L\<lparr>lk_drawn := n\<rparr>) v = version_stored L v"
  by (simp add: version_stored_def split: option.split)

lemma insert_edge_run:
  "insert_edge X tenant project run task i out L =
     (let L1 = L\<lparr>lk_drawn := Suc (lk_drawn L)\<rparr> in
      if list_ex (\<lambda>e. ed_key e = edge_key run task i out) (lk_edges L) then (Inr False, L1)
      else if run \<in> set (lk_runs L) \<and> version_stored L i \<and> version_stored L out
      then (Inr True, L1\<lparr>lk_edges := lk_edges L @ [\<lparr>ed_id = le_uuid X (lk_drawn L), ed_tenant = tenant,
        ed_project = project, ed_run = run, ed_task = task, ed_in = i, ed_out = out,
        ed_key = edge_key run task i out\<rparr>]\<rparr>)
      else (Inl (RuntimeError ''ForeignKeyViolation''), L1))"
  by (simp add: insert_edge_def Let_def)

lemma insert_edge_grows: "eg.keeps (insert_edge X tenant project run task i out)"
  by (auto simp: eg.keeps_def insert_edge_run Let_def edges_grow_def list_ex_iff)

text \<open>Inserting a list of edges counts the new ones.\<close>

lemma insert_edges_count:
  assumes "each_act (\<lambda>(i, out). insert_edge X tenant project run task i out) ps L = (Inr made, L')"
  shows "length (lk_edges L') = length (lk_edges L) + length (filter (\<lambda>b. b) made) \<and>
    (\<forall>(i, out) \<in> set ps. edge_key run task i out \<in> ed_key ` set (lk_edges L')) \<and>
    set (lk_edges L) \<subseteq> set (lk_edges L') \<and> lk_versions L' = lk_versions L \<and> lk_datasets L' = lk_datasets L"
  using assms
proof (induction ps arbitrary: L made)
  case (Cons p ps)
  obtain i out where p: "p = (i, out)" by fastforce
  from Cons.prems obtain b L1 bs where one: "insert_edge X tenant project run task i out L = (Inr b, L1)"
    and rest: "each_act (\<lambda>(i, out). insert_edge X tenant project run task i out) ps L1 = (Inr bs, L')" "made = b # bs"
    by (auto simp: p elim!: seqE)
  have "length (lk_edges L1) = length (lk_edges L) + (if b then 1 else 0)"
      "edge_key run task i out \<in> ed_key ` set (lk_edges L1)" "set (lk_edges L) \<subseteq> set (lk_edges L1)"
      "lk_versions L1 = lk_versions L" "lk_datasets L1 = lk_datasets L"
    using one by (auto simp: insert_edge_run Let_def list_ex_iff intro: rev_image_eqI [where f = ed_key, OF _ sym] split: if_splits)
  then show ?case using Cons.IH [OF rest(1)] by (auto simp: p rest(2))
qed simp

lemma insert_edges_again:
  assumes "\<forall>(i, out) \<in> set ps. edge_key run task i out \<in> ed_key ` set (lk_edges L)"
  shows "\<exists>L'. each_act (\<lambda>(i, out). insert_edge X tenant project run task i out) ps L =
    (Inr (replicate (length ps) False), L') \<and> lk_edges L' = lk_edges L"
  using assms
proof (induction ps arbitrary: L)
  case (Cons p ps)
  obtain i out where p: "p = (i, out)" by fastforce
  let ?L1 = "L\<lparr>lk_drawn := Suc (lk_drawn L)\<rparr>"
  have one: "insert_edge X tenant project run task i out L = (Inr False, ?L1)"
    using Cons.prems by (auto simp: p insert_edge_run Let_def list_ex_iff image_iff)
  obtain L' where "each_act (\<lambda>(i, out). insert_edge X tenant project run task i out) ps ?L1 =
      (Inr (replicate (length ps) False), L')" "lk_edges L' = lk_edges L"
    using Cons.IH [of ?L1] Cons.prems by auto
  then show ?case by (simp add: p seq_def one)
qed simp

subsection \<open>Neighbourhoods\<close>

text \<open>The edges of a project as a relation from a version to those it was made from, and back.\<close>

definition made_from :: "lake \<Rightarrow> string \<Rightarrow> string \<Rightarrow> (string \<times> string) set" where
  "made_from L tenant project =
     {(out, i). \<exists>e \<in> set (edges_in L tenant project). ed_out e = Some out \<and> ed_in e = Some i \<and> i \<noteq> []}"

definition used_by :: "lake \<Rightarrow> string \<Rightarrow> string \<Rightarrow> (string \<times> string) set" where
  "used_by L tenant project =
     {(i, out). \<exists>e \<in> set (edges_in L tenant project). ed_in e = Some i \<and> ed_out e = Some out \<and> out \<noteq> []}"

lemma side_text_iff: "x \<in> set (side_text v) \<longleftrightarrow> v = Some x \<and> x \<noteq> []"
  by (auto simp: side_text_def split: option.split)

lemma expand_upstream_iff:
  "x \<in> set (fst (expand_upstream L tenant project ids)) \<longleftrightarrow> (\<exists>v \<in> set ids. (v, x) \<in> made_from L tenant project)"
  by (force simp: expand_upstream_def Let_def made_from_def side_text_iff)

lemma expand_downstream_iff:
  "x \<in> set (fst (expand_downstream L tenant project ids)) \<longleftrightarrow> (\<exists>v \<in> set ids. (v, x) \<in> used_by L tenant project)"
  by (force simp: expand_downstream_def Let_def used_by_def side_text_iff)

text \<open>After \<open>n\<close> rounds: the frontiers are what exactly \<open>n\<close> edges reach, the rest what fewer reach.\<close>

definition walk_start :: "string \<Rightarrow> lineage_walk" where
  "walk_start v = \<lparr>wk_all = [v], wk_up = [v], wk_down = [v], wk_edges = []\<rparr>"

definition reached :: "bool \<Rightarrow> nat \<Rightarrow> string \<Rightarrow> (string \<times> string) set \<Rightarrow> string set" where
  "reached b n v R = (if b then {x. \<exists>k \<le> n. (v, x) \<in> R ^^ k} else {v})"

lemma reached_Suc:
  "reached True (Suc n) v R = reached True n v R \<union> {x. (v, x) \<in> R ^^ Suc n}"
  by (auto simp: reached_def le_Suc_eq simp del: relpow.simps)

lemma walk_up_simps:
  "wk_down (walk_up L t p dir w) = wk_down w"
  "dir \<in> {''up'', ''both''} \<Longrightarrow> set (wk_up (walk_up L t p dir w)) = made_from L t p `` set (wk_up w)"
  "set (wk_all (walk_up L t p dir w)) =
     set (wk_all w) \<union> (if dir \<in> {''up'', ''both''} then made_from L t p `` set (wk_up w) else {})"
  using expand_upstream_iff [of _ L t p "wk_up w"]
  by (auto simp: walk_up_def split: prod.splits)

lemma walk_down_simps:
  "wk_up (walk_down L t p dir w) = wk_up w"
  "dir \<in> {''down'', ''both''} \<Longrightarrow> set (wk_down (walk_down L t p dir w)) = used_by L t p `` set (wk_down w)"
  "set (wk_all (walk_down L t p dir w)) =
     set (wk_all w) \<union> (if dir \<in> {''down'', ''both''} then used_by L t p `` set (wk_down w) else {})"
  using expand_downstream_iff [of _ L t p "wk_down w"]
  by (auto simp: walk_down_def split: prod.splits)

lemma relpow_image: "R `` {x. (v, x) \<in> R ^^ n} = {x. (v, x) \<in> R ^^ Suc n}"
  by auto

lemma walk_Suc:
  "walk_steps L t p dir (Suc n) w = walk_down L t p dir (walk_up L t p dir (walk_steps L t p dir n w))"
  by (simp add: walk_steps_def)

lemma walk_invariant:
  "(dir \<in> {''up'', ''both''} \<longrightarrow>
      set (wk_up (walk_steps L t p dir n (walk_start v))) = {x. (v, x) \<in> made_from L t p ^^ n}) \<and>
   (dir \<in> {''down'', ''both''} \<longrightarrow>
      set (wk_down (walk_steps L t p dir n (walk_start v))) = {x. (v, x) \<in> used_by L t p ^^ n}) \<and>
   set (wk_all (walk_steps L t p dir n (walk_start v))) =
     reached (dir \<in> {''up'', ''both''}) n v (made_from L t p) \<union>
     reached (dir \<in> {''down'', ''both''}) n v (used_by L t p)"
proof (induction n)
  case 0
  show ?case by (auto simp: walk_steps_def walk_start_def reached_def)
next
  case (Suc n)
  let ?w = "walk_steps L t p dir n (walk_start v)"
  let ?w' = "walk_steps L t p dir (Suc n) (walk_start v)"
  define u d where "u = (dir \<in> {''up'', ''both''})" and "d = (dir \<in> {''down'', ''both''})"
  note ud = u_def [symmetric] d_def [symmetric]
  note IH = Suc [unfolded ud]
  have up: "u \<Longrightarrow> made_from L t p `` set (wk_up ?w) = {x. (v, x) \<in> made_from L t p ^^ Suc n}"
    using IH by (simp only: relpow_image)
  have down: "d \<Longrightarrow> used_by L t p `` set (wk_down ?w) = {x. (v, x) \<in> used_by L t p ^^ Suc n}"
    using IH by (simp only: relpow_image)
  have 1: "set (wk_up ?w') = {x. (v, x) \<in> made_from L t p ^^ Suc n}" if u
    using up [OF that] walk_up_simps(2) [of dir L t p ?w, unfolded ud, OF that]
    by (simp only: walk_Suc walk_down_simps(1))
  have 2: "set (wk_down ?w') = {x. (v, x) \<in> used_by L t p ^^ Suc n}" if d
    using down [OF that] walk_down_simps(2) [of dir L t p "walk_up L t p dir ?w", unfolded ud, OF that]
    by (simp only: walk_Suc walk_up_simps(1))
  have 3: "set (wk_all ?w') = set (wk_all ?w) \<union> (if u then made_from L t p `` set (wk_up ?w) else {}) \<union>
      (if d then used_by L t p `` set (wk_down ?w) else {})"
    by (simp only: walk_Suc walk_down_simps(3) walk_up_simps(1) walk_up_simps(3) ud)
  have 4: "reached b (Suc n) v R = reached b n v R \<union> (if b then {x. (v, x) \<in> R ^^ Suc n} else {})" for b R
    by (cases b) (simp_all only: reached_Suc if_True if_False, simp add: reached_def)
  have "set (wk_all ?w') = reached u (Suc n) v (made_from L t p) \<union> reached d (Suc n) v (used_by L t p)"
    unfolding 3 4 using IH up down by (cases u; cases d) (simp_all only: if_True if_False simp_thms Un_ac Un_empty_right)
  then show ?case using 1 2 by (simp only: ud) blast
qed

lemma reached_iff: "x \<in> reached b n v R \<longleftrightarrow> x = v \<or> b \<and> (\<exists>k \<le> n. (v, x) \<in> R ^^ k)"
proof -
  have "(v, v) \<in> R ^^ 0" by simp
  then show ?thesis by (cases b) (auto simp: reached_def simp del: relpow.simps)
qed

text \<open>
  C29. The neighbourhood is exact: the versions shown are those that at most \<open>depth\<close> edges of the project reach,
  upwards, downwards or both ways as asked (never turning), with \<open>depth\<close> held between 0 and 5; they are sorted,
  and shown once.
\<close>

theorem neighborhood_exact:
  "set (nb_ids (get_lineage_neighborhood L t p v depth dir)) =
     {x. x = v \<or> (\<exists>k \<le> nat (max 0 (min depth 5)).
        dir \<in> {''up'', ''both''} \<and> (v, x) \<in> made_from L t p ^^ k \<or>
        dir \<in> {''down'', ''both''} \<and> (v, x) \<in> used_by L t p ^^ k)} \<and>
   sorted (nb_ids (get_lineage_neighborhood L t p v depth dir)) \<and>
   distinct (nb_ids (get_lineage_neighborhood L t p v depth dir))"
proof -
  let ?n = "nat (max 0 (min depth 5))"
  let ?w = "walk_steps L t p dir ?n (walk_start v)"
  have ids: "nb_ids (get_lineage_neighborhood L t p v depth dir) = sort (wk_all ?w)"
    by (simp add: get_lineage_neighborhood_def Let_def walk_start_def)
  have "distinct (wk_all (walk_steps L t p dir n (walk_start v)))" for n
    by (induction n) (simp_all add: walk_steps_def walk_start_def walk_up_def walk_down_def split: prod.split)
  moreover have "set (wk_all ?w) = {x. x = v \<or> (\<exists>k \<le> ?n.
        dir \<in> {''up'', ''both''} \<and> (v, x) \<in> made_from L t p ^^ k \<or>
        dir \<in> {''down'', ''both''} \<and> (v, x) \<in> used_by L t p ^^ k)}"
  proof -
    have "set (wk_all ?w) = reached (dir \<in> {''up'', ''both''}) ?n v (made_from L t p) \<union>
        reached (dir \<in> {''down'', ''both''}) ?n v (used_by L t p)"
      using walk_invariant by blast
    then show ?thesis by (simp only: set_eq_iff Un_iff reached_iff mem_Collect_eq) blast
  qed
  ultimately show ?thesis by (simp add: ids)
qed

end
