(* ===== verification/LineageReports.thy ===== *)
theory LineageReports
  imports LineageSafety LineageGraph
begin

text \<open>
  What a task reports: the edges are counted as they are stored, a report that names its versions can be
  repeated without effect on the graph, and a reported size replaces the buffer.
\<close>

subsection \<open>Names and labels last\<close>

text \<open>A name of a dataset and a label of a version stand for the same id for ever.\<close>

definition names_last :: "lake \<Rightarrow> lake \<Rightarrow> bool" where
  "names_last L L' \<longleftrightarrow>
     (\<forall>t p n r. dataset_named L t p n = Some r \<longrightarrow> map_option ds_id (dataset_named L' t p n) = Some (ds_id r)) \<and>
     (\<forall>d label v. find_version L d label = Some v \<longrightarrow> map_option dv_id (find_version L' d label) = Some (dv_id v))"

definition lasting :: "lake \<Rightarrow> lake \<Rightarrow> bool" where
  "lasting L L' \<longleftrightarrow> names_last L L' \<and> lk_edges L' = lk_edges L"

lemma names_last_trans: "names_last L L' \<Longrightarrow> names_last L' L'' \<Longrightarrow> names_last L L''"
  unfolding names_last_def by (fastforce simp: map_option_eq_Some)

lemma names_last_same:
  "lk_datasets L' = lk_datasets L \<Longrightarrow> lk_versions L' = lk_versions L \<Longrightarrow> names_last L L'"
  by (simp add: names_last_def dataset_named_def find_version_def)

interpretation la: change lasting
  by unfold_locales (auto simp: lasting_def names_last_same intro: names_last_trans)

lemma lastingI:
  assumes "lk_datasets L' = lk_datasets L" "lk_versions L' = lk_versions L" "lk_edges L' = lk_edges L"
  shows "lasting L L'"
  using assms by (simp add: lasting_def names_last_same)

lemma lasting_buffers: "lasting L (lk_buffers_update f L)" by (rule lastingI) simp_all
lemma lasting_calls: "lasting L (lk_calls_update f L)" by (rule lastingI) simp_all
lemma lasting_drawn: "lasting L (lk_drawn_update f L)" by (rule lastingI) simp_all

lemma lasting_draw: "la.keeps (draw X)"
  unfolding draw_def by (intro la.keeps_seq la.keeps_basic la.keeps_put lasting_drawn)

lemma lasting_note: "la.keeps (note_call c)"
  unfolding note_call_def by (intro la.keeps_put lasting_calls)

lemma find_mapped_keeps:
  assumes "\<And>x. P (f x) = P x" "\<And>x. i (f x) = i x"
  shows "map_option i (find P (map f xs)) = map_option i (find P xs)"
  using assms by (induction xs) auto

lemma lasting_dataset_update:
  assumes "\<And>q. ds_tenant (f q) = ds_tenant q \<and> ds_project (f q) = ds_project q \<and> ds_name (f q) = ds_name q \<and> ds_id (f q) = ds_id q"
  shows "lasting L (L\<lparr>lk_datasets := map f (lk_datasets L)\<rparr>)"
  using find_mapped_keeps [of "\<lambda>r. ds_tenant r = t \<and> ds_project r = p \<and> ds_name r = n" f ds_id "lk_datasets L" for t p n]
  by (simp add: lasting_def names_last_def dataset_named_def find_version_def assms)

lemma lasting_dataset_new: "lasting L (L\<lparr>lk_datasets := lk_datasets L @ [r]\<rparr>)"
  by (auto simp: lasting_def names_last_def dataset_named_def find_version_def find_appended)

lemma lasting_version_update:
  assumes "\<And>q. dv_dataset (f q) = dv_dataset q \<and> dv_version (f q) = dv_version q \<and> dv_id (f q) = dv_id q"
  shows "lasting L (L\<lparr>lk_versions := map f (lk_versions L)\<rparr>)"
  using find_mapped_keeps [of "\<lambda>v. dv_dataset v = d \<and> dv_version v = label" f dv_id "lk_versions L" for d label]
  by (simp add: lasting_def names_last_def dataset_named_def find_version_def assms)

lemma lasting_version_new: "lasting L (L\<lparr>lk_versions := lk_versions L @ [v]\<rparr>)"
  by (auto simp: lasting_def names_last_def dataset_named_def find_version_def find_appended)

lemma lasting_upsert_dataset: "la.keeps (upsert_dataset X t p name uri chk n)"
  unfolding upsert_dataset_def
  by (auto intro!: la.keeps_seq la.keeps_basic la.keeps_put lasting_draw lasting_note lasting_dataset_new
      lasting_dataset_update simp: la.refl split: option.split prod.split)

lemma lasting_upsert_buffer: "la.keeps (upsert_dataset_buffer t p d a)"
  unfolding upsert_dataset_buffer_def Let_def
  by (auto intro!: la.keeps_seq la.keeps_basic la.keeps_put lasting_note lastingI split: prod.split)

lemma lasting_upsert_version: "la.keeps (upsert_dataset_version X d label a)"
  unfolding upsert_dataset_version_def Let_def
  by (auto intro!: la.keeps_seq la.keeps_basic la.keeps_put lasting_draw lasting_note lasting_version_new
      lasting_version_update simp: la.refl touched_version_def Let_def split: option.split prod.split)

lemma lasting_materialize: "la.keeps (materialize_if_needed X t p d src uri chk n force creator)"
proof (rule la.keepsI)
  fix L
  obtain r L' where run: "materialize_if_needed X t p d src uri chk n force creator L = (r, L')" by fastforce
  have "lasting L L'"
    using run
  proof (cases rule: materialize_cases)
    case (made b i label)
    then show ?thesis
      by (auto simp: snapshot_taken_def lasting_def names_last_def dataset_named_def find_version_def find_appended)
  qed (simp_all add: la.refl)
  then show "lasting L (snd (materialize_if_needed X t p d src uri chk n force creator L))" by (simp add: run)
qed

lemma lasting_item: "la.keeps (ingest_item X t p dflt batch item)"
  unfolding ingest_item_def ingest_dataset_and_buffer_def Let_def snapshot_version_label_def lift_py_def
    materialize_item_if_applicable_def
  by (auto intro!: la.keeps_seq la.keeps_basic lasting_upsert_dataset lasting_upsert_buffer lasting_materialize
      lasting_upsert_version split: option.split prod.split sum.split)

lemma keeps_fun: "(\<And>L. f L = m L) \<Longrightarrow> la.keeps m \<Longrightarrow> la.keeps f"
  by (simp add: la.keeps_def)

lemma lasting_items: "la.keeps (ingest_items X t p dflt batch items)"
proof (induction X t p dflt batch items rule: ingest_items.induct)
  case (2 X t p dflt batch item items)
  then show ?case
    by (auto intro!: la.keeps_seq la.keeps_basic lasting_item split: prod.split)
qed (simp_all add: la.keeps_def la.refl)

lemma keeps_names: "la.keeps m \<Longrightarrow> m L = (r, L') \<Longrightarrow> names_last L L'"
  using la.keepsD [of m L] by (simp add: lasting_def)

lemmas names_after = keeps_names [OF lasting_upsert_dataset] keeps_names [OF lasting_upsert_buffer]
  keeps_names [OF lasting_upsert_version] keeps_names [OF lasting_item] keeps_names [OF lasting_items]

subsection \<open>A report that names its versions\<close>

definition item_name :: "pydict \<Rightarrow> string" where
  "item_name item = strip (py_str (dget_or item ''name'' (VStr [])))"

definition item_label :: "pydict \<Rightarrow> string" where
  "item_label item = version_text (dget item ''version'')"

lemma version_text_pinned: "version_text v \<noteq> [] \<Longrightarrow> v \<notin> {VNone, VStr []}"
  by (auto simp: version_text_def strip_def)

text \<open>The ids of an item: of its dataset and of its version.\<close>

definition item_ids :: "lake \<Rightarrow> string \<Rightarrow> string \<Rightarrow> pydict \<Rightarrow> string \<Rightarrow> string \<Rightarrow> bool" where
  "item_ids L t p item d i \<longleftrightarrow> map_option ds_id (dataset_named L t p (item_name item)) = Some d \<and>
     map_option dv_id (find_version L d (item_label item)) = Some i"

lemma item_ids_last: "item_ids L t p item d i \<Longrightarrow> names_last L L' \<Longrightarrow> item_ids L' t p item d i"
  unfolding item_ids_def names_last_def by (fastforce simp: map_option_eq_Some)

lemma upsert_dataset_named:
  assumes "upsert_dataset X t p name uri chk n L = (Inr d, L')"
  shows "map_option ds_id (dataset_named L' t p name) = Some d"
proof (cases "dataset_named L t p name")
  case None
  then show ?thesis using assms
    by (auto simp: upsert_dataset_def dataset_named_def find_appended)
next
  case (Some r)
  have "names_last L L'" using la.keepsD [OF lasting_upsert_dataset, of L X t p name uri chk n] assms by (simp add: lasting_def)
  then have "map_option ds_id (dataset_named L' t p name) = Some (ds_id r)" using Some by (simp add: names_last_def)
  moreover have "d = ds_id r" using assms Some by (auto simp: upsert_dataset_def)
  ultimately show ?thesis by simp
qed

lemma upsert_dataset_again:
  assumes "map_option ds_id (dataset_named L t p name) = Some d"
  shows "\<exists>L'. upsert_dataset X t p name uri chk n L = (Inr d, L')"
  using assms by (auto simp: upsert_dataset_def)

lemma upsert_version_found:
  assumes "upsert_dataset_version X d label a L = (Inr i, L')"
  shows "map_option dv_id (find_version L' d label) = Some i"
proof (cases "find_version L d label")
  case None
  then show ?thesis using assms
    by (auto simp: upsert_dataset_version_def find_version_def find_appended Let_def split: if_splits)
next
  case (Some v)
  have "names_last L L'" using la.keepsD [OF lasting_upsert_version, of L X d label a] assms by (simp add: lasting_def)
  then have "map_option dv_id (find_version L' d label) = Some (dv_id v)" using Some by (simp add: names_last_def)
  moreover have "i = dv_id v" using assms Some by (auto simp: upsert_dataset_version_def)
  ultimately show ?thesis by simp
qed

lemma upsert_version_again:
  assumes "map_option dv_id (find_version L d label) = Some i"
  shows "\<exists>L'. upsert_dataset_version X d label a L = (Inr i, L')"
  using assms by (auto simp: upsert_dataset_version_def)

text \<open>An item with a version of its own: three steps, in one line.\<close>

lemma seq_give: "seq (give x) f = f x"
  by (simp add: fun_eq_iff)

lemma seq_assoc: "seq (seq m f) g = seq m (\<lambda>x. seq (f x) g)"
  by (auto simp: seq_def fun_eq_iff split: prod.split sum.split)

definition pinned_args :: "pydict \<Rightarrow> string \<Rightarrow> version_args" where
  "pinned_args item dflt = \<lparr>va_uri = text_if_truthy (dget item ''uri''), va_checksum = text_if_truthy (dget item ''checksum''),
     va_source = Some (stripped_text (str_or (dget item ''source_type'') dflt) dflt), va_count = item_size item,
     va_status = ''ready'', va_score = 100, va_summary = [], va_details = []\<rparr>"

lemma pinned_item_run:
  assumes "item_label item \<noteq> []"
  shows "ingest_item X t p dflt batch item =
    seq (upsert_dataset X t p (item_name item) (text_if_truthy (dget item ''uri'')) (text_if_truthy (dget item ''checksum''))
      (item_size item)) (\<lambda>d.
    seq (upsert_dataset_buffer t p d (no_args\<lparr>ba_source := stripped_text (str_or (dget item ''source_type'') dflt) dflt,
      ba_size := item_size item\<rparr>)) (\<lambda>_.
    seq (upsert_dataset_version X d (item_label item) (pinned_args item dflt)) (\<lambda>i. give (Some i, d, batch))))"
proof -
  have label: "version_text (dget item ''version'') \<noteq> []" using assms by (simp add: item_label_def)
  note pinned = label version_text_pinned [OF label]
  show ?thesis
    using pinned
    by (simp add: ingest_item_def ingest_dataset_and_buffer_def Let_def seq_assoc snapshot_version_label_def
        materialize_item_if_applicable_def skip_unpinned_def item_name_def item_label_def pinned_args_def seq_give)
qed

lemma pinned_item_ids:
  assumes "ingest_item X t p dflt batch item L = (Inr (vid, d, batch'), L')" and "item_label item \<noteq> []"
  shows "\<exists>i. vid = Some i \<and> batch' = batch \<and> item_ids L' t p item d i"
proof -
  obtain L1 L2 i where up: "upsert_dataset X t p (item_name item) (text_if_truthy (dget item ''uri''))
      (text_if_truthy (dget item ''checksum'')) (item_size item) L = (Inr d, L1)"
    and buf: "upsert_dataset_buffer t p d (no_args\<lparr>ba_source := stripped_text (str_or (dget item ''source_type'') dflt) dflt,
      ba_size := item_size item\<rparr>) L1 = (Inr (), L2)"
    and ver: "upsert_dataset_version X d (item_label item) (pinned_args item dflt) L2 = (Inr i, L')"
    and res: "vid = Some i" "batch' = batch"
    using assms(1) unfolding pinned_item_run [OF assms(2)] by (auto elim!: seqE)
  have "names_last L1 L2" "names_last L2 L'"
    using names_after(2) [OF buf] names_after(3) [OF ver] by simp_all
  then have "names_last L1 L'" by (rule names_last_trans)
  then have "map_option ds_id (dataset_named L' t p (item_name item)) = Some d"
    using upsert_dataset_named [OF up] unfolding names_last_def by (fastforce simp: map_option_eq_Some)
  then show ?thesis using upsert_version_found [OF ver] res by (simp add: item_ids_def)
qed

lemma pinned_item_again:
  assumes ids: "item_ids L t p item d i" and pinned: "item_label item \<noteq> []"
  shows "\<exists>L'. ingest_item X t p dflt batch item L = (Inr (Some i, d, batch), L')"
proof -
  obtain L1 where up: "upsert_dataset X t p (item_name item) (text_if_truthy (dget item ''uri''))
      (text_if_truthy (dget item ''checksum'')) (item_size item) L = (Inr d, L1)"
    using upsert_dataset_again ids unfolding item_ids_def by blast
  obtain r L2 where buf: "upsert_dataset_buffer t p d (no_args\<lparr>ba_source :=
      stripped_text (str_or (dget item ''source_type'') dflt) dflt, ba_size := item_size item\<rparr>) L1 = (r, L2)" by fastforce
  have "names_last L L1" "names_last L1 L2"
    using names_after(1) [OF up] names_after(2) [OF buf] by simp_all
  then have "item_ids L2 t p item d i" using ids names_last_trans item_ids_last by blast
  then obtain L3 where "upsert_dataset_version X d (item_label item) (pinned_args item dflt) L2 = (Inr i, L3)"
    using upsert_version_again unfolding item_ids_def by blast
  then show ?thesis
    using up buf upsert_buffer_facts(1) [OF buf] by (simp add: pinned_item_run [OF pinned] seq_def)
qed

text \<open>The items of a list that count: objects with a name.\<close>

definition pinned_items :: "pyval list \<Rightarrow> bool" where
  "pinned_items items \<longleftrightarrow> (\<forall>item. VDict item \<in> set items \<longrightarrow> item_name item \<noteq> [] \<longrightarrow> item_label item \<noteq> [])"

lemma pinned_items_again:
  assumes "ingest_items X t p dflt batch items L = (Inr (vids, ds, batch'), L1)" "pinned_items items" "names_last L1 L2"
  shows "batch' = batch \<and> (\<exists>L3. ingest_items X t p dflt batch2 items L2 = (Inr (vids, ds, batch2), L3))"
  using assms
proof (induction X t p dflt batch items arbitrary: L vids ds L2 rule: ingest_items.induct)
  case (2 X t p dflt batch item items)
  show ?case
  proof (cases "item_name item = []")
    case True
    then show ?thesis using 2 by (auto simp: item_name_def pinned_items_def)
  next
    case False
    have pinned: "item_label item \<noteq> []" "pinned_items items" using 2(4) False by (auto simp: pinned_items_def)
    obtain vid d batch1 La vids' ds' where one: "ingest_item X t p dflt batch item L = (Inr (vid, d, batch1), La)"
      and rest: "ingest_items X t p dflt batch1 items La = (Inr (vids', ds', batch'), L1)"
      and res: "vids = (case vid of None \<Rightarrow> vids' | Some i \<Rightarrow> i # vids')" "ds = d # ds'"
      using 2(3) False by (auto simp: item_name_def elim!: seqE split: prod.splits)
    obtain i where i: "vid = Some i" "batch1 = batch" "item_ids La t p item d i"
      using pinned_item_ids [OF one pinned(1)] by auto
    have "names_last La L1" using la.keepsD [OF lasting_items, of La X t p dflt batch1 items] rest
      by (simp add: lasting_def)
    then have "item_ids L2 t p item d i" using i(3) 2(5) names_last_trans item_ids_last by blast
    then obtain Lb where again: "ingest_item X t p dflt batch2 item L2 = (Inr (Some i, d, batch2), Lb)"
      using pinned_item_again pinned(1) by blast
    have "names_last L2 Lb" using la.keepsD [OF lasting_item, of L2 X t p dflt batch2 item] again
      by (simp add: lasting_def)
    then have "names_last L1 Lb" using 2(5) names_last_trans by blast
    from 2(2) [OF _ rest pinned(2) this] obtain Lc
      where "batch' = batch1" "ingest_items X t p dflt batch2 items Lb = (Inr (vids', ds', batch2), Lc)"
      using False by (auto simp: item_name_def)
    then show ?thesis using False again i res by (simp add: item_name_def seq_def)
  qed
qed (auto simp: pinned_items_def)

subsection \<open>Whole reports\<close>

lemma each_notify_run:
  "\<exists>us cs. each_act (\<lambda>d. notify_dataset_updated d None) ds L = (Inr us, L\<lparr>lk_calls := lk_calls L @ cs\<rparr>)"
proof (induction ds arbitrary: L)
  case Nil
  show ?case by (rule exI [of _ "[]"], rule exI [of _ "[]"]) simp
next
  case (Cons d ds)
  obtain us cs where "each_act (\<lambda>d. notify_dataset_updated d None) ds
      (L\<lparr>lk_calls := lk_calls L @ [RtDatasetUpdated d None]\<rparr>) =
      (Inr us, L\<lparr>lk_calls := (lk_calls L @ [RtDatasetUpdated d None]) @ cs\<rparr>)"
    using Cons [of "L\<lparr>lk_calls := lk_calls L @ [RtDatasetUpdated d None]\<rparr>"] by auto
  then have "each_act (\<lambda>d. notify_dataset_updated d None) (d # ds) L =
      (Inr (() # us), L\<lparr>lk_calls := lk_calls L @ RtDatasetUpdated d None # cs\<rparr>)"
    by (simp add: notify_dataset_updated_def) (simp add: seq_def)
  then show ?case by blast
qed

lemma flush_run: "\<exists>cs. flush_touched ds L = (Inr (), L\<lparr>lk_calls := lk_calls L @ cs\<rparr>)"
  using each_notify_run [of "sort (remdups ds)" L] by (auto simp: flush_touched_def seq_def)

lemma items_edges: "ingest_items X t p dflt batch items L = (r, L') \<Longrightarrow> lk_edges L' = lk_edges L"
  using la.keepsD [OF lasting_items, of L X t p dflt batch items] by (simp add: lasting_def)

text \<open>The two lists of a report, and what is done with the versions they name.\<close>

definition report_lists :: "pyval \<Rightarrow> (pyval list \<times> pyval list) option" where
  "report_lists lineage = (case lineage of
     VDict block \<Rightarrow> if block = [] then None else
       (case (as_list (por (dget block ''inputs'') (VList [])), as_list (por (dget block ''outputs'') (VList []))) of
          (Some ins, Some outs) \<Rightarrow> Some (ins, outs) | _ \<Rightarrow> None)
   | _ \<Rightarrow> None)"

lemma report_without_lists:
  "report_lists lineage = None \<Longrightarrow>
     \<exists>r. r \<in> {NotIngested, InvalidShape} \<and> ingest_lineage_from_task X t p run task lineage L = (Inr r, L)"
  by (auto simp: report_lists_def ingest_lineage_from_task_def split: pyval.splits option.splits if_splits)

lemma report_with_lists:
  "report_lists lineage = Some (ins, outs) \<Longrightarrow> ingest_lineage_from_task X t p run task lineage =
     seq (ingest_items X t p ''api_ingestion'' [] ins) (\<lambda>(ivids, ids, batch).
       if ivids = [] \<and> outs = [] then seq (flush_touched ids) (\<lambda>_. give (Ingested 0))
       else seq (ingest_items X t p ''etl'' batch outs) (\<lambda>(ovids, ods, _).
         if ovids = [] then seq (flush_touched (ids @ ods)) (\<lambda>_. give NoOutputs)
         else seq (each_act (\<lambda>(i, out). insert_edge X t p run task i out) (edge_pairs ivids ovids))
           (\<lambda>made. seq (flush_touched (ids @ ods)) (\<lambda>_. give (Ingested (length (filter (\<lambda>b. b) made)))))))"
  by (auto simp: report_lists_def ingest_lineage_from_task_def split: pyval.splits option.splits if_splits)

lemma flush_ok:
  assumes "seq (flush_touched ds) (\<lambda>_. give x) L = (Inr y, L')"
  shows "y = x" "lk_edges L' = lk_edges L" "lk_datasets L' = lk_datasets L" "lk_versions L' = lk_versions L"
  using assms flush_run [of ds L] by (auto simp: seq_def)

lemma flush_again: "\<exists>L'. seq (flush_touched ds) (\<lambda>_. give x) L = (Inr x, L') \<and> lk_edges L' = lk_edges L"
  using flush_run [of ds L] by (auto simp: seq_def)

text \<open>The ways a report ends.\<close>

lemma report_cases:
  assumes "ingest_lineage_from_task X t p run task lineage L = (Inr r, L')" and "report_lists lineage = Some (ins, outs)"
  obtains (inputs) ids batch L1 where "ingest_items X t p ''api_ingestion'' [] ins L = (Inr ([], ids, batch), L1)"
      "outs = []" "r = Ingested 0" "lk_edges L' = lk_edges L" "names_last L1 L'"
  | (no_output) ivids ids batch L1 ods batch' L2 where
      "ingest_items X t p ''api_ingestion'' [] ins L = (Inr (ivids, ids, batch), L1)" "ivids \<noteq> [] \<or> outs \<noteq> []"
      "ingest_items X t p ''etl'' batch outs L1 = (Inr ([], ods, batch'), L2)" "r = NoOutputs"
      "lk_edges L' = lk_edges L" "names_last L1 L'" "names_last L2 L'"
  | (edges) ivids ids batch L1 ovids ods batch' L2 L3 made where
      "ingest_items X t p ''api_ingestion'' [] ins L = (Inr (ivids, ids, batch), L1)" "ivids \<noteq> [] \<or> outs \<noteq> []"
      "ingest_items X t p ''etl'' batch outs L1 = (Inr (ovids, ods, batch'), L2)" "ovids \<noteq> []" "lk_edges L2 = lk_edges L"
      "each_act (\<lambda>(i, out). insert_edge X t p run task i out) (edge_pairs ivids ovids) L2 = (Inr made, L3)"
      "r = Ingested (length (filter (\<lambda>b. b) made))" "lk_edges L' = lk_edges L3" "names_last L1 L'" "names_last L2 L'"
proof -
  have run: "seq (ingest_items X t p ''api_ingestion'' [] ins) (\<lambda>(ivids, ids, batch).
       if ivids = [] \<and> outs = [] then seq (flush_touched ids) (\<lambda>_. give (Ingested 0))
       else seq (ingest_items X t p ''etl'' batch outs) (\<lambda>(ovids, ods, _).
         if ovids = [] then seq (flush_touched (ids @ ods)) (\<lambda>_. give NoOutputs)
         else seq (each_act (\<lambda>(i, out). insert_edge X t p run task i out) (edge_pairs ivids ovids))
           (\<lambda>made. seq (flush_touched (ids @ ods)) (\<lambda>_. give (Ingested (length (filter (\<lambda>b. b) made))))))) L = (Inr r, L')"
    using assms report_with_lists [OF assms(2)] by metis
  from run obtain res L1 where "ingest_items X t p ''api_ingestion'' [] ins L = (Inr res, L1)"
    and rest: "(case res of (ivids, ids, batch) \<Rightarrow>
       if ivids = [] \<and> outs = [] then seq (flush_touched ids) (\<lambda>_. give (Ingested 0))
       else seq (ingest_items X t p ''etl'' batch outs) (\<lambda>(ovids, ods, _).
         if ovids = [] then seq (flush_touched (ids @ ods)) (\<lambda>_. give NoOutputs)
         else seq (each_act (\<lambda>(i, out). insert_edge X t p run task i out) (edge_pairs ivids ovids))
           (\<lambda>made. seq (flush_touched (ids @ ods)) (\<lambda>_. give (Ingested (length (filter (\<lambda>b. b) made))))))) L1 = (Inr r, L')"
    by (rule seqE)
  then obtain ivids ids batch where one: "ingest_items X t p ''api_ingestion'' [] ins L = (Inr (ivids, ids, batch), L1)"
    and res: "res = (ivids, ids, batch)" by (cases res) auto
  have e1: "lk_edges L1 = lk_edges L" using la.keepsD [OF lasting_items, of L X t p "''api_ingestion''" "[]" ins] one
    by (simp add: lasting_def)
  show ?thesis
  proof (cases "ivids = [] \<and> outs = []")
    case True
    then have fl: "seq (flush_touched ids) (\<lambda>_. give (Ingested 0)) L1 = (Inr r, L')" using rest res by simp
    show ?thesis
      using inputs [of ids batch L1] one True flush_ok [OF fl] e1 names_last_same by auto
  next
    case False
    then have "seq (ingest_items X t p ''etl'' batch outs) (\<lambda>(ovids, ods, _).
         if ovids = [] then seq (flush_touched (ids @ ods)) (\<lambda>_. give NoOutputs)
         else seq (each_act (\<lambda>(i, out). insert_edge X t p run task i out) (edge_pairs ivids ovids))
           (\<lambda>made. seq (flush_touched (ids @ ods)) (\<lambda>_. give (Ingested (length (filter (\<lambda>b. b) made)))))) L1 = (Inr r, L')"
      using rest by (simp only: res prod.case if_False)
    then obtain res2 L2 where two': "ingest_items X t p ''etl'' batch outs L1 = (Inr res2, L2)"
      and rest2: "(case res2 of (ovids, ods, _) \<Rightarrow>
         if ovids = [] then seq (flush_touched (ids @ ods)) (\<lambda>_. give NoOutputs)
         else seq (each_act (\<lambda>(i, out). insert_edge X t p run task i out) (edge_pairs ivids ovids))
           (\<lambda>made. seq (flush_touched (ids @ ods)) (\<lambda>_. give (Ingested (length (filter (\<lambda>b. b) made)))))) L2 = (Inr r, L')"
      by (rule seqE)
    obtain ovids ods batch' where res2: "res2 = (ovids, ods, batch')" by (cases res2) auto
    note two = two' [unfolded res2]
    have e2: "lk_edges L2 = lk_edges L1" "names_last L1 L2"
      using la.keepsD [OF lasting_items, of L1 X t p "''etl''" batch outs] two by (simp_all add: lasting_def)
    show ?thesis
    proof (cases "ovids = []")
      case True
      then have fl: "seq (flush_touched (ids @ ods)) (\<lambda>_. give NoOutputs) L2 = (Inr r, L')" using rest2 res2 by simp
      have "names_last L2 L'" using flush_ok [OF fl] names_last_same by blast
      then show ?thesis
        using no_output [OF one _ two [unfolded True]] False flush_ok [OF fl] e1 e2 names_last_trans by metis
    next
      case nonempty: False
      then have "seq (each_act (\<lambda>(i, out). insert_edge X t p run task i out) (edge_pairs ivids ovids))
           (\<lambda>made. seq (flush_touched (ids @ ods)) (\<lambda>_. give (Ingested (length (filter (\<lambda>b. b) made))))) L2 = (Inr r, L')"
        using rest2 by (simp only: res2 prod.case if_False)
      then obtain made L3 where ins: "each_act (\<lambda>(i, out). insert_edge X t p run task i out) (edge_pairs ivids ovids) L2 = (Inr made, L3)"
        and fl: "seq (flush_touched (ids @ ods)) (\<lambda>_. give (Ingested (length (filter (\<lambda>b. b) made)))) L3 = (Inr r, L')"
        by (rule seqE)
      have "names_last L2 L'"
        using flush_ok [OF fl] insert_edges_count [OF ins] by (intro names_last_same) simp_all
      then show ?thesis
        using edges [OF one _ two nonempty _ ins] False flush_ok [OF fl] e1 e2 names_last_trans by metis
    qed
  qed
qed

text \<open>
  The number a report answers is the number of edges it has stored, and the keys of the edges stay distinct.
\<close>

theorem report_counts_edges:
  assumes "ingest_lineage_from_task X t p run task lineage L = (Inr r, L')"
    and "distinct (map ed_key (lk_edges L))"
  shows "length (lk_edges L') = length (lk_edges L) + (case r of Ingested n \<Rightarrow> n | _ \<Rightarrow> 0) \<and>
    distinct (map ed_key (lk_edges L'))"
proof (cases "report_lists lineage")
  case None
  then show ?thesis using report_without_lists [OF None, of X t p run task L] assms by auto
next
  case (Some lists)
  obtain ins outs where "lists = (ins, outs)" by fastforce
  note lists = Some [unfolded this]
  from assms(1) lists show ?thesis
  proof (cases rule: report_cases)
    case (edges ivids ids batch L1 ovids ods batch' L2 L3 made)
    have "edges_grow L2 L3"
    proof -
      have keeps: "eg.keeps (each_act (\<lambda>(i, out). insert_edge X t p run task i out) ps)" for ps
      proof (induction ps)
        case Nil
        show ?case by (simp add: eg.keeps_def eg.refl)
      next
        case (Cons a ps)
        then show ?case
          by (auto simp del: act_simps intro!: eg.keeps_seq eg.keeps_basic insert_edge_grows split: prod.split)
      qed
      show ?thesis using eg.keepsD [OF keeps, of L2 "edge_pairs ivids ovids"] edges(6) by simp
    qed
    then show ?thesis
      using insert_edges_count [OF edges(6)] edges(5,7,8) assms(2) by (simp add: edges_grow_def)
  qed (use assms(2) in auto)
qed

text \<open>
  A report can be repeated: when its items name their versions, the same report later (of the same task, after
  anything that keeps the names and the edges) stores no edge, and answers 0 where the first one counted edges.
\<close>

theorem report_repeated:
  assumes first: "ingest_lineage_from_task X t p run task lineage L = (Inr r, L1)"
    and lists: "report_lists lineage = Some (ins, outs)" "pinned_items ins" "pinned_items outs"
    and later: "names_last L1 L2" "set (lk_edges L1) \<subseteq> set (lk_edges L2)"
  shows "\<exists>L3. ingest_lineage_from_task X t p run task lineage L2 =
      (Inr (case r of Ingested n \<Rightarrow> Ingested 0 | _ \<Rightarrow> r), L3) \<and> lk_edges L3 = lk_edges L2"
  using first lists(1)
proof (cases rule: report_cases)
  case (inputs ids batch La)
  obtain Lb where again: "ingest_items X t p ''api_ingestion'' [] ins L2 = (Inr ([], ids, []), Lb)"
    using pinned_items_again [OF inputs(1) lists(2) names_last_trans [OF inputs(5) later(1)]] by blast
  show ?thesis
    using flush_again [of ids "Ingested 0" Lb] items_edges [OF again] inputs(2,3)
    by (simp add: report_with_lists [OF lists(1)] seq_def [where m = "ingest_items X t p ''api_ingestion'' [] ins" and s = L2] again)
next
  case (no_output ivids ids batch La ods batch' Lb)
  obtain Lc where b: "batch = []" and again: "ingest_items X t p ''api_ingestion'' [] ins L2 = (Inr (ivids, ids, []), Lc)"
    using pinned_items_again [OF no_output(1) lists(2) names_last_trans [OF no_output(6) later(1)]] by blast
  have "names_last Lb Lc"
    using names_last_trans [OF names_last_trans [OF no_output(7) later(1)] names_after(5) [OF again]] .
  then obtain Ld where again2: "ingest_items X t p ''etl'' [] outs Lc = (Inr ([], ods, []), Ld)"
    using pinned_items_again [OF no_output(3) lists(3)] by blast
  show ?thesis
    using flush_again [of "ids @ ods" NoOutputs Ld] items_edges [OF again] items_edges [OF again2] no_output(2,4)
    by (auto simp: report_with_lists [OF lists(1)] seq_def [where m = "ingest_items X t p ''api_ingestion'' [] ins" and s = L2] again
      seq_def [where m = "ingest_items X t p ''etl'' [] outs" and s = Lc] again2)
next
  case (edges ivids ids batch La ovids ods batch' Lb Lc made)
  obtain Ld where b: "batch = []" and again: "ingest_items X t p ''api_ingestion'' [] ins L2 = (Inr (ivids, ids, []), Ld)"
    using pinned_items_again [OF edges(1) lists(2) names_last_trans [OF edges(9) later(1)]] by blast
  have "names_last Lb Ld"
    using names_last_trans [OF names_last_trans [OF edges(10) later(1)] names_after(5) [OF again]] .
  then obtain Le where again2: "ingest_items X t p ''etl'' [] outs Ld = (Inr (ovids, ods, []), Le)"
    using pinned_items_again [OF edges(3) lists(3)] by blast
  have same: "lk_edges Le = lk_edges L2" using items_edges [OF again] items_edges [OF again2] by simp
  have "\<forall>(i, out) \<in> set (edge_pairs ivids ovids). edge_key run task i out \<in> ed_key ` set (lk_edges Le)"
    using insert_edges_count [OF edges(6)] edges(8) later(2) same by fastforce
  then obtain Lf where ins: "each_act (\<lambda>(i, out). insert_edge X t p run task i out) (edge_pairs ivids ovids) Le =
      (Inr (replicate (length (edge_pairs ivids ovids)) False), Lf)" "lk_edges Lf = lk_edges Le"
    using insert_edges_again by blast
  show ?thesis
    using flush_again [of "ids @ ods" "Ingested 0" Lf] ins(2) same edges(2,4,7)
    by (auto simp: report_with_lists [OF lists(1)] seq_def [where m = "ingest_items X t p ''api_ingestion'' [] ins" and s = L2] again
      seq_def [where m = "ingest_items X t p ''etl'' [] outs" and s = Ld] again2 
      seq_def [where m = "each_act (\<lambda>(i, out). insert_edge X t p run task i out) (edge_pairs ivids ovids)" and s = Le] ins(1))
qed

text \<open>
  A reported size replaces the buffer: after an item of a report, or of an import, the buffer of its dataset has the
  reported size (0 when none is reported) and the strategy \<open>snapshot_on_threshold\<close>, whatever it had before.
\<close>

theorem reported_size_replaces_buffer:
  assumes "ingest_dataset_and_buffer X t p name item dflt L = (Inr g, L')"
  shows "\<exists>b. get_dataset_buffer L' t p (ig_dataset g) = Some b \<and> bu_strategy b = ''snapshot_on_threshold'' \<and>
    bu_size b = max 0 (case item_size item of None \<Rightarrow> 0 | Some n \<Rightarrow> n)"
proof -
  obtain L1 where up: "upsert_dataset_buffer t p (ig_dataset g) (no_args\<lparr>ba_source :=
        stripped_text (str_or (dget item ''source_type'') dflt) dflt, ba_size := item_size item\<rparr>) L1 = (Inr (), L')"
    using assms by (auto simp: ingest_dataset_and_buffer_def Let_def elim!: seqE)
  have "stripped_text (opt_or None []) default_strategy = ''snapshot_on_threshold''" by code_simp
  then have "bu_strategy (upserted L1 t p (ig_dataset g) (no_args\<lparr>ba_source :=
        stripped_text (str_or (dget item ''source_type'') dflt) dflt, ba_size := item_size item\<rparr>)) = ''snapshot_on_threshold''"
    by (simp add: upserted_def upserted_buffer_def no_args_def Let_def supported_strategies_def)
  then show ?thesis using upsert_buffer_facts(4) [OF up, of t p "ig_dataset g"] by (simp add: no_args_def)
qed

end
