(* ===== verification/LineageExamples.thy ===== *)
theory LineageExamples
  imports LineageReports
begin

text \<open>A dataset with a buffer of four rows under each strategy, on which the properties of the data side apply.\<close>

definition lab_env :: lake_env where
  "lab_env = \<lparr>le_uuid = (\<lambda>n. ''u'' @ nat_str n), le_sha256 = (\<lambda>s. s), le_iso = int_str, le_root = None,
     le_legacy_label = None, le_validate = None\<rparr>"

definition lab_dataset :: dataset_row where
  "lab_dataset = \<lparr>ds_id = ''d1'', ds_tenant = ''t'', ds_project = ''p'', ds_name = ''frames'', ds_uri = Some ''s3'',
     ds_checksum = None, ds_size = 4, ds_updated = 0\<rparr>"

definition lab_buffer :: "string \<Rightarrow> buffer_row" where
  "lab_buffer strat = \<lparr>bu_tenant = ''t'', bu_project = ''p'', bu_dataset = ''d1'', bu_source = ''runtime_feedback'',
     bu_canon = ''runtime_accumulated'', bu_size = 4, bu_threshold = 5, bu_strategy = strat, bu_status = ''active'',
     bu_start = Some 0, bu_end = None, bu_version = None, bu_at = None, bu_updated = 0\<rparr>"

definition lab_lake :: "string \<Rightarrow> lake" where
  "lab_lake strat = \<lparr>lk_datasets = [lab_dataset], lk_versions = [], lk_buffers = [lab_buffer strat], lk_edges = [],
     lk_files = [], lk_runs = [''r1''], lk_calls = [], lk_drawn = 0, lk_now = 60000000\<rparr>"

definition two_rows :: pyval where
  "two_rows = VList [VDict [(''k'', VInt 1)], VDict [(''k'', VInt 2)]]"

definition lab_ops :: "buffer_op list" where
  "lab_ops = [Append ''d1'' two_rows ''runtime_manifest'' None, Elapse 5, MaterializeNow ''d1'' None]"

lemma lab_ok: "buffers_ok (lab_lake s)" and lab_get: "get_dataset_buffer (lab_lake s) ''t'' ''p'' ''d1'' = Some (lab_buffer s)"
  by (simp_all add: buffers_ok_def lab_lake_def lab_buffer_def get_dataset_buffer_def)

definition lab_report :: pyval where
  "lab_report = VDict [(''inputs'', VList [VDict [(''name'', VStr ''raw''), (''version'', VStr ''v7'')]]),
     (''outputs'', VList [VDict [(''name'', VStr ''frames''), (''version'', VStr ''v1''), (''size'', VInt 9)]])]"

definition after_report :: lake where
  "after_report = snd (ingest_lineage_from_task lab_env ''t'' ''p'' ''r1'' ''task'' lab_report (lab_lake ''rolling_accumulate''))"

lemma lab_report_runs:
  "ingest_lineage_from_task lab_env ''t'' ''p'' ''r1'' ''task'' lab_report (lab_lake ''rolling_accumulate'')
     = (Inr (Ingested 1), after_report)"
  unfolding after_report_def by code_simp

lemma split_once_file: "split_once (CHR '':'') (''file:'' @ s) = [''file'', s]"
  by (simp add: split_once_def)

lemma file_root_ok: "is_ok (file_uri_to_path (dataset_artifact_root lab_env @ s))"
proof -
  have "dataset_artifact_root lab_env = ''file:'' @ ''///mlair/artifacts/datasets''" by code_simp
  moreover have "url_scheme (''file:'' @ r) = (''file'', r)" for r
  proof -
    have "lower_char CHR ''f'' \<noteq> upper_char CHR ''f''" "list_all scheme_char ''file''" "lower ''file'' = ''file''" by code_simp+
    then show ?thesis unfolding url_scheme_def split_once_file by simp
  qed
  ultimately show ?thesis by (simp only: append_assoc file_uri_to_path_def) simp
qed

lemma lab_append: "\<exists>a L'. append_dataset_buffer_rows lab_env ''t'' ''p'' ''d1'' two_rows src eid (lab_lake s) = (Inr a, L')"
proof (rule append_returns [OF _ _ _ _ lab_get file_root_ok])
  show "as_list two_rows = Some (VDict [(''k'', VInt 1)] # [VDict [(''k'', VInt 2)]])"
    by (simp add: two_rows_def as_list_def)
  show "VDict [(''k'', VInt 1)] # [VDict [(''k'', VInt 2)]] \<noteq> []" by simp
  show "list_all (\<lambda>r. as_dict r \<noteq> None) (VDict [(''k'', VInt 1)] # [VDict [(''k'', VInt 2)]])"
    by (simp add: as_dict_def)
  show "get_dataset (lab_lake s) ''t'' ''p'' ''d1'' = Some lab_dataset"
    by (simp add: get_dataset_def lab_lake_def lab_dataset_def)
  show "is_ok (next_version_label (lab_lake s) ''d1'')"
    by (simp add: next_version_label_def label_numbers_def lab_lake_def map_filter_simps)
qed

subsection \<open>The properties at work\<close>

lemma rows_conserved_witness:
  "buffers_ok (lab_lake ''manual_materialize_only'') \<and>
   get_dataset_buffer (lab_lake ''manual_materialize_only'') ''t'' ''p'' ''d1'' \<noteq> None \<and>
   rows_of (fold (buffer_step lab_env ''t'' ''p'') lab_ops (lab_lake ''manual_materialize_only'')) ''t'' ''p'' ''d1'' =
     4 + accepted_total lab_env ''t'' ''p'' ''d1'' lab_ops (lab_lake ''manual_materialize_only'')"
proof -
  have "rows_of (lab_lake ''manual_materialize_only'') ''t'' ''p'' ''d1'' = 4"
    by (simp add: rows_of_def buffer_size_def lab_get) (simp add: snapshot_rows_def lab_lake_def lab_buffer_def)
  then show ?thesis
    using rows_conserved [OF lab_ok, of "''manual_materialize_only''" "''t''" "''p''" "''d1''" lab_env lab_ops]
    by (simp add: lab_ok lab_get)
qed

definition by_hand :: lake where
  "by_hand = snd (materialize_dataset_buffer_now lab_env ''t'' ''p'' ''d1'' None (lab_lake ''manual_materialize_only''))"

definition by_hand_result :: materialized where
  "by_hand_result = \<lparr>mz_dataset = ''d1'', mz_version_id = ''u0'', mz_version = ''v1'',
     mz_strategy = ''manual_materialize_only''\<rparr>"

lemma by_hand_runs:
  "materialize_dataset_buffer_now lab_env ''t'' ''p'' ''d1'' None (lab_lake ''manual_materialize_only'') =
     (Inr (Some by_hand_result), by_hand)"
  unfolding by_hand_def by_hand_result_def by code_simp

lemma snapshot_runs:
  "materialize_if_needed lab_env ''t'' ''p'' ''d1'' ''api'' None None (Some 4) True None
     (lab_lake ''snapshot_on_schedule'') =
   (Inr (Some (''u0'', ''v1'')), snd (materialize_if_needed lab_env ''t'' ''p'' ''d1'' ''api'' None None (Some 4) True None
     (lab_lake ''snapshot_on_schedule'')))"
  by code_simp

lemma snapshot_takes_buffer_witness:
  "\<exists>v. lk_versions (snd (materialize_if_needed lab_env ''t'' ''p'' ''d1'' ''api'' None None (Some 4) True None
       (lab_lake ''snapshot_on_schedule''))) = [v] \<and> dv_count v = Some 4"
proof -
  have none: "keyed_version (lab_lake ''snapshot_on_schedule'') (snapshot_key lab_env ''d1'' (lab_buffer ''snapshot_on_schedule'')
      (Some 4) ''api'' None None) = None"
    by (simp add: keyed_version_def lab_lake_def)
  have "gate_size (lab_buffer ''snapshot_on_schedule'') (Some 4) = 4" by (simp add: gate_size_def lab_buffer_def)
  then show ?thesis
    using snapshot_takes_buffer [OF snapshot_runs lab_get none] by (auto simp: lab_lake_def)
qed

text \<open>A full second window of the same size: the buffer of the first state over the versions of the second.\<close>

definition second_window :: lake where
  "second_window = by_hand\<lparr>lk_buffers := [lab_buffer ''manual_materialize_only'']\<rparr>"


lemma append_snapshots_at_threshold_witness:
  "\<exists>a L'. append_dataset_buffer_rows lab_env ''t'' ''p'' ''d1'' two_rows ''api'' None (lab_lake ''snapshot_on_threshold'')
     = (Inr a, L') \<and> ap_version a \<noteq> None"
proof -
  obtain a L' where run: "append_dataset_buffer_rows lab_env ''t'' ''p'' ''d1'' two_rows ''api'' None
      (lab_lake ''snapshot_on_threshold'') = (Inr a, L')" using lab_append by blast
  have "ap_version a \<noteq> None"
    using append_snapshots_at_threshold [OF run lab_get]
    by (simp add: lab_buffer_def gate_strategy_def gate_threshold_def supported_strategies_def two_rows_def as_list_def)
  then show ?thesis using run by blast
qed

lemma report_counts_edges_witness:
  "length (lk_edges after_report) = 1 \<and> distinct (map ed_key (lk_edges after_report))"
  using report_counts_edges [OF lab_report_runs] by (simp add: lab_lake_def)

lemma report_repeated_witness:
  "\<exists>L3. ingest_lineage_from_task lab_env ''t'' ''p'' ''r1'' ''task'' lab_report after_report = (Inr (Ingested 0), L3) \<and>
     lk_edges L3 = lk_edges after_report"
proof -
  have "report_lists lab_report = Some ([VDict [(''name'', VStr ''raw''), (''version'', VStr ''v7'')]],
      [VDict [(''name'', VStr ''frames''), (''version'', VStr ''v1''), (''size'', VInt 9)]])"
    by code_simp
  moreover have "pinned_items [VDict [(''name'', VStr ''raw''), (''version'', VStr ''v7'')]]"
      "pinned_items [VDict [(''name'', VStr ''frames''), (''version'', VStr ''v1''), (''size'', VInt 9)]]"
    by (simp_all add: pinned_items_def item_label_def item_name_def) (code_simp+)
  moreover have "names_last after_report after_report" by (rule names_last_same) simp_all
  ultimately show ?thesis using report_repeated [OF lab_report_runs] by fastforce
qed

lemma reported_size_replaces_buffer_witness:
  "\<exists>g L'. ingest_dataset_and_buffer lab_env ''t'' ''p'' ''frames'' [] ''etl'' (lab_lake ''manual_materialize_only'') = (Inr g, L') \<and>
     map_option bu_size (get_dataset_buffer L' ''t'' ''p'' (ig_dataset g)) = Some 0"
proof -
  obtain g L' where run: "ingest_dataset_and_buffer lab_env ''t'' ''p'' ''frames'' [] ''etl'' (lab_lake ''manual_materialize_only'') = (Inr g, L')"
  proof -
    have "is_ok (fst (ingest_dataset_and_buffer lab_env ''t'' ''p'' ''frames'' [] ''etl'' (lab_lake ''manual_materialize_only'')))"
      by code_simp
    then show ?thesis using that
      by (cases "ingest_dataset_and_buffer lab_env ''t'' ''p'' ''frames'' [] ''etl'' (lab_lake ''manual_materialize_only'')")
        (auto simp: is_ok_def split: sum.splits)
  qed
  moreover have "item_size [] = None" by (simp add: item_size_def dget_def por_def)
  ultimately show ?thesis using reported_size_replaces_buffer [OF run] by auto
qed

end
