(* ===== verification/DatasetExamples.thy ===== *)
theory DatasetExamples
  imports DatasetLaws LineageExamples
begin


lemma carriage_return_breaks_witness:
  "snd (csv_rows (csv_text [[[CHR ''a'', cr, CHR ''b''], ''c'']]))"
  by (rule carriage_return_breaks [where a = "[CHR ''a'']" and b = "[]" and c = "CHR ''b''"])
    (simp, code_simp+)

lemma deletions_exact_witness:
  "delete_all [''a'', ''b'', ''c''] (descending [0, 2, 0]) (ValueError ''row'') = ok [''b'']"
  unfolding deletions_exact by (simp add: nths_Cons)

lemma neighborhood_exact_witness:
  "nb_ids (get_lineage_neighborhood after_report ''t'' ''p'' ''u1'' 0 ''both'') = [''u1'']"
proof -
  have "set (nb_ids (get_lineage_neighborhood after_report ''t'' ''p'' ''u1'' 0 ''both'')) = {''u1''}"
      and "distinct (nb_ids (get_lineage_neighborhood after_report ''t'' ''p'' ''u1'' 0 ''both''))"
    using neighborhood_exact [of after_report "''t''" "''p''" "''u1''" 0 "''both''"] by auto
  then show ?thesis
    by (cases "nb_ids (get_lineage_neighborhood after_report ''t'' ''p'' ''u1'' 0 ''both'')")
      (auto simp: subset_singleton_iff)
qed

text \<open>A dataset with one version whose file has a row that is too short, and its checksum.\<close>

definition ragged :: string where "ragged = ''a,b'' @ [lf] @ ''1'' @ [lf]"

definition file_lake :: lake where
  "file_lake = (lab_lake ''snapshot_on_threshold'')\<lparr>lk_versions := [\<lparr>dv_id = ''v'', dv_dataset = ''d1'', dv_version = ''v1'',
     dv_uri = Some ''file:///x.csv'', dv_checksum = Some ragged, dv_source = None, dv_canon = None, dv_count = Some 1,
     dv_status = ''ready'', dv_score = 100, dv_summary = [], dv_details = VList [], dv_tags = VList [], dv_refs = VList [],
     dv_buffered = False, dv_key = None, dv_by = None, dv_created = 0\<rparr>], lk_files := [(''/x.csv'', ragged)]\<rparr>"

lemma deletion_leaves_no_reference_witness:
  "\<exists>L'. delete_dataset ''t'' ''p'' ''d1'' file_lake = (Inr True, L') \<and> references_hold L' \<and> lk_versions L' = []"
proof -
  obtain L' where run: "delete_dataset ''t'' ''p'' ''d1'' file_lake = (Inr True, L')"
    by (simp add: delete_dataset_def get_dataset_def file_lake_def lab_lake_def lab_dataset_def notify_dataset_updated_def)
  have refs: "references_hold file_lake"
    by (simp add: references_hold_def file_lake_def lab_lake_def lab_dataset_def lab_buffer_def)
  have "references_hold L' \<and> d \<notin> dv_dataset ` set (lk_versions L')" if "d = ''d1''" for d
    using deletion_leaves_no_reference [OF run refs] that by (simp add: file_lake_def)
  moreover have "set (lk_versions L') \<subseteq> set (lk_versions file_lake)"
    using run by (auto simp: delete_dataset_def remove_files_keep drop_versions_def notify_dataset_updated_def
        split: if_splits)
  ultimately show ?thesis using run by (cases "lk_versions L'") (auto simp: file_lake_def)
qed

text \<open>
  A merge overwrites the file, raises, and leaves the checksum of the old contents: from then on the newest version of
  the dataset cannot be read.
\<close>

definition after_merge :: lake where
  "after_merge = snd (merge_csv_into_dataset_version lab_env ''t'' ''p'' ''d1'' ''v'' (''a,b'' @ [lf] @ ''2,3'' @ [lf]) file_lake)"

lemma merge_spoils_snapshot:
  "file_text after_merge ''/x.csv'' = ''a,b'' @ [lf] @ ''1,'' @ [lf] @ ''2,3'' @ [lf]"
  "get_latest_materialized_dataset_version lab_env after_merge ''t'' ''p'' ''d1'' = raise (RuntimeError ''checksum_mismatch'')"
  unfolding after_merge_def by code_simp+

lemma missing_cell_becomes_text:
  "patched_csv ragged [] [] [] = ok (''a,b'' @ [lf] @ ''1,None'' @ [lf], 1)"
  by code_simp

end
