(* ===== verification/Drift.thy ===== *)
theory Drift
  imports Datasets
begin

text \<open>
  Model of \<^verbatim>\<open>lifecycle/drift_service.py\<close>: label profiles of dataset versions, the population stability index of
  two label distributions and the drift rule of a training policy. Floats are exact numbers with the infinities
  and NaN; the natural logarithm of a number and \<open>repr\<close> of a float are arguments. An attribute of a value that
  is no dict is a \<^term>\<open>TypeError\<close> here, and the keys of two distributions are taken in the order of the text.
\<close>

record drift_env =
  de_log :: "rat \<Rightarrow> rat"
  de_repr :: "pyfloat \<Rightarrow> string"

subsection \<open>Floats\<close>

definition fmul :: "pyfloat \<Rightarrow> pyfloat \<Rightarrow> pyfloat" where
  "fmul a b = (case (a, b) of
     (Fin p, Fin q) \<Rightarrow> Fin (p * q)
   | (NaN, _) \<Rightarrow> NaN | (_, NaN) \<Rightarrow> NaN
   | _ \<Rightarrow> if a = Fin 0 \<or> b = Fin 0 then NaN
          else if fgt a (Fin 0) = fgt b (Fin 0) then PosInf else NegInf)"

text \<open>Division by a number that is not zero, or by what is no number.\<close>

definition fdiv :: "pyfloat \<Rightarrow> pyfloat \<Rightarrow> pyfloat" where
  "fdiv a b = (case (a, b) of
     (Fin p, Fin q) \<Rightarrow> Fin (p / q)
   | (NaN, _) \<Rightarrow> NaN | (_, NaN) \<Rightarrow> NaN
   | (Fin p, _) \<Rightarrow> Fin 0
   | (_, Fin q) \<Rightarrow> if (a = PosInf) = (0 \<le> q) then PosInf else NegInf
   | _ \<Rightarrow> NaN)"

text \<open>\<open>max(a, b)\<close> is \<open>a\<close> unless \<open>b\<close> is greater.\<close>

definition fmax :: "pyfloat \<Rightarrow> pyfloat \<Rightarrow> pyfloat" where
  "fmax a b = (if fgt b a then b else a)"

text \<open>\<open>math.log\<close>\<close>

definition flog :: "drift_env \<Rightarrow> pyfloat \<Rightarrow> pyfloat py" where
  "flog D a = (case a of
     Fin q \<Rightarrow> if 0 < q then ok (Fin (de_log D q)) else raise (ValueError ''math domain error'')
   | NegInf \<Rightarrow> raise (ValueError ''math domain error'')
   | _ \<Rightarrow> ok a)"

definition not_positive :: "pyfloat \<Rightarrow> bool" where
  "not_positive a = (a \<noteq> NaN \<and> \<not> fgt a (Fin 0))"

subsection \<open>The population stability index\<close>

type_synonym distribution = "(string \<times> pyfloat) list"

definition float_items :: "pydict \<Rightarrow> distribution py" where
  "float_items d = traverse (\<lambda>(k, v). pbind (py_float v) (\<lambda>f. ok (k, f))) d"

definition normalize_distribution :: "pydict \<Rightarrow> distribution py" where
  "normalize_distribution d =
     pbind (float_items d) (\<lambda>fs.
       let total = foldl fadd (Fin 0) (map snd fs)
       in ok (if not_positive total then [] else map (\<lambda>(k, f). (k, fdiv f total)) fs))"

definition share_of :: "distribution \<Rightarrow> string \<Rightarrow> pyfloat" where
  "share_of d k = (case map_of d k of None \<Rightarrow> Fin 0 | Some f \<Rightarrow> f)"

definition psi_epsilon :: pyfloat where "psi_epsilon = Fin (1 / 1000000)"

definition all_keys :: "pydict \<Rightarrow> pydict \<Rightarrow> string list" where
  "all_keys b c = sorted_list_of_set (fst ` set b \<union> fst ` set c)"

definition psi_term :: "drift_env \<Rightarrow> distribution \<Rightarrow> distribution \<Rightarrow> string \<Rightarrow> pyfloat py" where
  "psi_term D b c key =
     (let pb = fmax (share_of b key) psi_epsilon; pc = fmax (share_of c key) psi_epsilon in
      pbind (flog D (fdiv pc pb)) (\<lambda>l. ok (fmul (fadd pc (fneg pb)) l)))"

definition compute_psi :: "drift_env \<Rightarrow> pydict \<Rightarrow> pydict \<Rightarrow> pyfloat py" where
  "compute_psi D baseline current =
     (let keys = all_keys baseline current in
      if keys = [] then ok (Fin 0)
      else pbind (normalize_distribution baseline) (\<lambda>b.
        pbind (normalize_distribution current) (\<lambda>c.
        pbind (traverse (psi_term D b c) keys) (\<lambda>ts. ok (foldl fadd (Fin 0) ts)))))"

subsection \<open>Profiles\<close>

definition float_value :: "drift_env \<Rightarrow> pyfloat \<Rightarrow> pyval" where
  "float_value D f = VFloat f (de_repr D f)"

text \<open>\<open>except (TypeError, ValueError)\<close>: another error goes on.\<close>

definition attempt_number :: "'a py \<Rightarrow> 'a option py" where
  "attempt_number r = (case r of Inr x \<Rightarrow> ok (Some x) | Inl TypeError \<Rightarrow> ok None | Inl (ValueError m) \<Rightarrow> ok None
     | Inl e \<Rightarrow> raise e)"

fun coerce_counts :: "drift_env \<Rightarrow> pydict \<Rightarrow> pydict py" where
  "coerce_counts D [] = ok []"
| "coerce_counts D ((k, v) # kvs) =
     pbind (attempt_number (py_float v)) (\<lambda>f.
     pbind (coerce_counts D kvs) (\<lambda>out.
       ok (case f of None \<Rightarrow> out | Some q \<Rightarrow> (k, float_value D q) # out)))"

definition coerce_label_map :: "drift_env \<Rightarrow> pyval \<Rightarrow> pydict option py" where
  "coerce_label_map D v = (case as_dict v of None \<Rightarrow> ok None
     | Some d \<Rightarrow> pbind (coerce_counts D d) (\<lambda>out. ok (if out = [] then None else Some out)))"

definition label_fields :: "string list" where
  "label_fields = [''label_distribution'', ''labels'', ''class_counts'', ''label_counts'']"

definition optional_number :: "pyval \<Rightarrow> (pyval \<Rightarrow> pyval py) \<Rightarrow> string \<Rightarrow> pydict py" where
  "optional_number v f name =
     (if v = VNone then ok []
      else pbind (attempt_number (f v)) (\<lambda>q. ok (case q of None \<Rightarrow> [] | Some x \<Rightarrow> [(name, x)])))"

fun profile_of_fields :: "drift_env \<Rightarrow> pydict \<Rightarrow> string list \<Rightarrow> pydict option py" where
  "profile_of_fields D details [] = ok None"
| "profile_of_fields D details (f # fs) =
     pbind (coerce_label_map D (dget details f)) (\<lambda>dist.
     case dist of None \<Rightarrow> profile_of_fields D details fs
     | Some d \<Rightarrow>
         pbind (optional_number (dget details ''null_rate'')
           (\<lambda>v. pbind (py_float v) (\<lambda>x. ok (float_value D x))) ''null_rate'') (\<lambda>nulls.
         pbind (optional_number (dget details ''sample_count'')
           (\<lambda>v. pbind (py_int v) (\<lambda>n. ok (VInt n))) ''sample_count'') (\<lambda>samples.
           ok (Some ((''label_distribution'', VDict d) # nulls @ samples)))))"

fun profile_of_list :: "drift_env \<Rightarrow> pyval list \<Rightarrow> pydict option py" where
  "profile_of_list D [] = ok None"
| "profile_of_list D (x # xs) =
     (case as_dict x of None \<Rightarrow> profile_of_list D xs
      | Some item \<Rightarrow>
          if lower (strip (py_str (por (por (dget item ''field'') (dget item ''key'')) (VStr [])))) \<in>
             {''labels'', ''label_distribution'', ''class_counts'', ''label_counts''}
          then pbind (coerce_label_map D (dget item ''value'')) (\<lambda>dist.
            case dist of None \<Rightarrow> profile_of_list D xs | Some d \<Rightarrow> ok (Some [(''label_distribution'', VDict d)]))
          else profile_of_list D xs)"

definition profile_from_details :: "drift_env \<Rightarrow> pyval \<Rightarrow> pydict option py" where
  "profile_from_details D details = (case details of
     VDict d \<Rightarrow> (case as_dict (dget d ''profile'') of Some p \<Rightarrow> ok (Some p)
       | None \<Rightarrow> profile_of_fields D d label_fields)
   | VList xs \<Rightarrow> profile_of_list D xs
   | _ \<Rightarrow> ok None)"

definition count_of :: "dversion \<Rightarrow> int" where
  "count_of v = (case dv_count v of None \<Rightarrow> 0 | Some n \<Rightarrow> n)"

definition extract_label_profile :: "drift_env \<Rightarrow> dversion \<Rightarrow> pydict py" where
  "extract_label_profile D v =
     pbind (profile_from_details D (por (dv_details v) (VList []))) (\<lambda>p.
       ok (case p of Some (e # es) \<Rightarrow> e # es
         | _ \<Rightarrow> [(''label_distribution'', VDict []), (''sample_count'', VInt (count_of v)), (''null_rate'', VNone)]))"

text \<open>The truthy label distribution of a profile.\<close>

definition profile_labels :: "pydict \<Rightarrow> pydict py" where
  "profile_labels p = (case por (dget p ''label_distribution'') (VDict []) of
     VDict d \<Rightarrow> ok d | _ \<Rightarrow> raise TypeError)"

record quality_summary =
  qs_version_id :: string
  qs_version :: string
  qs_records :: int
  qs_score :: int
  qs_samples :: int
  qs_labels :: nat
  qs_distribution :: pydict
  qs_nulls :: pyval

definition build_version_quality_summary :: "drift_env \<Rightarrow> dversion \<Rightarrow> quality_summary py" where
  "build_version_quality_summary D v =
     pbind (extract_label_profile D v) (\<lambda>p.
     pbind (profile_labels p) (\<lambda>dist.
     pbind (py_int (por (if dget p ''sample_count'' = VNone then VInt (count_of v) else dget p ''sample_count'') (VInt 0)))
       (\<lambda>n. ok \<lparr>qs_version_id = dv_id v, qs_version = dv_version v, qs_records = count_of v, qs_score = dv_score v,
          qs_samples = n, qs_labels = length dist, qs_distribution = dist, qs_nulls = dget p ''null_rate''\<rparr>)))"

subsection \<open>The drift rule\<close>

definition is_drift_rule :: "pydict \<Rightarrow> bool" where
  "is_drift_rule r = (lower (strip (py_str (por (por (dget r ''type'') (dget r ''rule'')) (VStr [])))) \<in>
     {''data_drift'', ''drift'', ''label_drift''})"

fun parse_drift_policy :: "pyval list \<Rightarrow> pydict option" where
  "parse_drift_policy [] = None"
| "parse_drift_policy (x # xs) =
     (case as_dict x of Some r \<Rightarrow> if is_drift_rule r then Some r else parse_drift_policy xs
      | None \<Rightarrow> parse_drift_policy xs)"

text \<open>The version listed after the first one with the given id.\<close>

fun version_after :: "string \<Rightarrow> dversion list \<Rightarrow> dversion option" where
  "version_after i [] = None"
| "version_after i (v # vs) = (if dv_id v = i then (case vs of [] \<Rightarrow> None | w # ws \<Rightarrow> Some w) else version_after i vs)"

definition resolve_baseline_version ::
    "lake \<Rightarrow> string \<Rightarrow> string \<Rightarrow> string \<Rightarrow> string \<Rightarrow> string option \<Rightarrow> dversion option" where
  "resolve_baseline_version L tenant project d current baseline =
     (case baseline of
        Some b \<Rightarrow> get_dataset_version L tenant project b
      | None \<Rightarrow> (case version_after current (list_dataset_versions L tenant project d) of None \<Rightarrow> None
          | Some w \<Rightarrow> get_dataset_version L tenant project (dv_id w)))"

record drift_comparison =
  dc_psi :: "pyfloat option"
  dc_from :: pydict
  dc_to :: pydict
  dc_delta :: distribution

definition label_delta :: "pydict \<Rightarrow> pydict \<Rightarrow> string \<Rightarrow> (string \<times> pyfloat) py" where
  "label_delta from_dist to_dist key =
     pbind (py_float (dget_or to_dist key (VFloat (Fin 0) ''0.0''))) (\<lambda>a.
     pbind (py_float (dget_or from_dist key (VFloat (Fin 0) ''0.0''))) (\<lambda>b.
       ok (key, fadd a (fneg b))))"

definition compare_version_drift :: "drift_env \<Rightarrow> dversion \<Rightarrow> dversion \<Rightarrow> drift_comparison py" where
  "compare_version_drift D from_v to_v =
     pbind (extract_label_profile D from_v) (\<lambda>fp.
     pbind (extract_label_profile D to_v) (\<lambda>tp.
     pbind (profile_labels fp) (\<lambda>fd.
     pbind (profile_labels tp) (\<lambda>td.
     pbind (if fd \<noteq> [] \<and> td \<noteq> [] then pbind (compute_psi D fd td) (\<lambda>x. ok (Some x)) else ok None) (\<lambda>psi.
     pbind (traverse (label_delta fd td) (all_keys fd td)) (\<lambda>delta.
       ok \<lparr>dc_psi = psi, dc_from = fp, dc_to = tp, dc_delta = delta\<rparr>))))))"

datatype drift_report =
    DriftSkipped string
  | DriftMeasured drift_comparison pyfloat bool string string

definition max_psi_of :: "pydict \<Rightarrow> pyfloat py" where
  "max_psi_of rule = pbind (attempt_number (py_float (dget_or rule ''max_psi'' (VFloat (Fin (1 / 5)) ''0.2''))))
     (\<lambda>m. ok (case m of None \<Rightarrow> Fin (1 / 5) | Some f \<Rightarrow> f))"

definition evaluate_drift_gate ::
    "drift_env \<Rightarrow> lake \<Rightarrow> string \<Rightarrow> string \<Rightarrow> string \<Rightarrow> string \<Rightarrow> pyval list \<Rightarrow> (bool \<times> drift_report option) py" where
  "evaluate_drift_gate D L tenant project d vid rules =
     (case parse_drift_policy rules of None \<Rightarrow> ok (True, None)
      | Some rule \<Rightarrow>
          pbind (max_psi_of rule) (\<lambda>limit.
          case get_dataset_version L tenant project vid of None \<Rightarrow> ok (True, None)
          | Some current \<Rightarrow>
              (case resolve_baseline_version L tenant project d vid
                      (some_nonempty (strip (str_or (dget rule ''baseline_version_id'') []))) of
                 None \<Rightarrow> ok (True, Some (DriftSkipped ''no_baseline_version''))
               | Some baseline \<Rightarrow>
                   pbind (compare_version_drift D baseline current) (\<lambda>c.
                     let exceeded = (case dc_psi c of None \<Rightarrow> False | Some psi \<Rightarrow> fgt psi limit)
                     in ok (\<not> exceeded, Some (DriftMeasured c limit exceeded (dv_id baseline) (dv_id current)))))))"

end
