(* ===== verification/Readiness.thy ===== *)
theory Readiness
  imports Drift Pagination
begin

text \<open>
  Model of \<^verbatim>\<open>lifecycle/readiness_service.py\<close> with \<^verbatim>\<open>evaluation_semantics.py\<close>, \<^verbatim>\<open>canonical_codes.py\<close>,
  \<^verbatim>\<open>run_lookup.py\<close>, the queue of \<^verbatim>\<open>workers/readiness_queue.py\<close> and the two gates of the routes: whether the
  inputs of a pipeline are big enough, and whether a dataset version satisfies a training policy. The tables
  of the lineage are the \<^typ>\<open>lake\<close> of the theory \<open>Datasets\<close>. Integer columns have 32 bits.
\<close>

subsection \<open>Reason codes\<close>

definition canonical_of :: "string \<Rightarrow> string option" where
  "canonical_of = map_of
     [(''size_threshold'', ''THRESHOLD_NOT_MET''), (''freshness'', ''FRESHNESS_NOT_MET''),
      (''model_compatibility'', ''MODEL_POLICY_MISMATCH''), (''approval'', ''GOVERNANCE_BLOCKED''),
      (''validation_rules'', ''GOVERNANCE_BLOCKED''), (''data_drift'', ''DATA_DRIFT_EXCEEDED''),
      (''legacy_fallback'', ''LEGACY_COMPATIBILITY_FALLBACK'')]"

definition canonical_readiness_code :: "string \<Rightarrow> string" where
  "canonical_readiness_code code =
     (case canonical_of (lower (strip code)) of None \<Rightarrow> ''UNKNOWN_READINESS_REASON'' | Some c \<Rightarrow> c)"

definition metric_label_for_canonical :: "string \<Rightarrow> string" where
  "metric_label_for_canonical code =
     (case map_of
        [(''THRESHOLD_NOT_MET'', ''threshold_not_met''), (''FRESHNESS_NOT_MET'', ''freshness_not_met''),
         (''MODEL_POLICY_MISMATCH'', ''model_policy_mismatch''), (''GOVERNANCE_BLOCKED'', ''governance_blocked''),
         (''DATA_DRIFT_EXCEEDED'', ''data_drift_exceeded''),
         (''LEGACY_COMPATIBILITY_FALLBACK'', ''legacy_compatibility_fallback''),
         (''UNKNOWN_READINESS_REASON'', ''other'')] (upper (strip code)) of None \<Rightarrow> ''other'' | Some l \<Rightarrow> l)"

record reason =
  rs_code :: string
  rs_message :: string
  rs_canonical :: string

definition attach_canonical_to_reason_row :: "string \<Rightarrow> string \<Rightarrow> reason" where
  "attach_canonical_to_reason_row code message =
     \<lparr>rs_code = code, rs_message = message, rs_canonical = canonical_readiness_code (lower (strip code))\<rparr>"

subsection \<open>Tables\<close>

record input_row =
  ri_tenant :: string
  ri_project :: string
  ri_run :: string
  ri_dataset :: "string option"
  ri_name :: string
  ri_role :: string
  ri_actual :: int
  ri_required :: int
  ri_status :: string

text \<open>The rules are a JSON column: a list, or \<open>{}\<close>.\<close>

record dpolicy =
  dp_id :: string
  dp_tenant :: string
  dp_project :: string
  dp_dataset :: string
  dp_model :: "string option"
  dp_required :: int
  dp_fresh :: int
  dp_trigger :: string
  dp_rules :: pyval
  dp_created :: int

record readiness_row =
  re_id :: string
  re_tenant :: string
  re_project :: string
  re_dataset :: string
  re_version :: "string option"
  re_policy :: "string option"
  re_required :: int
  re_current :: int
  re_status :: string
  re_source :: string
  re_reasons :: "reason list"
  re_at :: int

datatype rcall =
    ReadinessEvaluatedEvent string string string
  | RtReadinessUpdated string int int string string

record readiness =
  ry_lake :: lake
  ry_runs :: "run_row list"
  ry_models :: "model_row list"
  ry_inputs :: "input_row list"
  ry_policies :: "dpolicy list"
  ry_evals :: "readiness_row list"
  ry_jobs :: "string list"
  ry_calls :: "rcall list"

type_synonym 'a ract = "(readiness, 'a) act"

text \<open>The last one is the flag \<open>readiness_allow_legacy_fallback\<close>.\<close>

record gate_env =
  ge_lake :: lake_env
  ge_ext :: ext
  ge_drift :: drift_env
  ge_legacy :: bool

definition draw_id :: "gate_env \<Rightarrow> string ract" where
  "draw_id G = seq (ask (\<lambda>R. le_uuid (ge_lake G) (lk_drawn (ry_lake R)))) (\<lambda>i.
     seq (put (\<lambda>R. R\<lparr>ry_lake := ry_lake R\<lparr>lk_drawn := Suc (lk_drawn (ry_lake R))\<rparr>\<rparr>)) (\<lambda>_. give i))"

definition fits_integer :: "int \<Rightarrow> bool" where
  "fits_integer n = (- (2 ^ 31) \<le> n \<and> n < 2 ^ 31)"

definition fits_bigint :: "int \<Rightarrow> bool" where
  "fits_bigint n = (- (2 ^ 63) \<le> n \<and> n < 2 ^ 63)"

definition ry_now :: "readiness \<Rightarrow> int" where "ry_now R = lk_now (ry_lake R)"

subsection \<open>Declared inputs\<close>

type_synonym declared = "string \<times> pyval"

definition declared_input :: "pyval \<Rightarrow> declared option" where
  "declared_input item = (case as_dict item of None \<Rightarrow> None
     | Some d \<Rightarrow> let name = strip (str_or (dget d ''dataset'') [])
         in if name = [] then None else Some (name, dget_or d ''required_size'' (dget d ''min_rows'')))"

definition parse_inputs :: "pyval \<Rightarrow> declared list" where
  "parse_inputs payload = (case as_dict payload of None \<Rightarrow> []
     | Some d \<Rightarrow> (case as_list (dget d ''inputs'') of None \<Rightarrow> []
         | Some items \<Rightarrow> List.map_filter declared_input items))"

definition effective_declared_readiness_inputs :: "pyval \<Rightarrow> pyval \<Rightarrow> declared list" where
  "effective_declared_readiness_inputs override snapshot =
     (if parse_inputs snapshot \<noteq> [] then parse_inputs snapshot else parse_inputs override)"

definition to_required_size :: "pyval \<Rightarrow> int \<Rightarrow> int" where
  "to_required_size raw fallback = (case py_int raw of Inr n \<Rightarrow> if 0 < n then n else fallback | Inl _ \<Rightarrow> fallback)"

definition dataset_actual_size :: "lake \<Rightarrow> string \<Rightarrow> string \<Rightarrow> string \<Rightarrow> string option \<times> int" where
  "dataset_actual_size L tenant project name =
     (case dataset_named L tenant project name of None \<Rightarrow> (None, 0) | Some r \<Rightarrow> (Some (ds_id r), ds_size r))"

record input_check =
  ic_dataset_id :: "string option"
  ic_dataset :: string
  ic_actual :: int
  ic_required :: int
  ic_ready :: bool
  ic_version :: "string option"

record input_report =
  pr_ready :: bool
  pr_details :: "input_check list"
  pr_blocking :: "input_check list"
  pr_reasons :: "(string \<times> input_check) list"
  pr_override :: bool

text \<open>The version the caller pins, with its dataset and size when there is one.\<close>

definition pinned_of :: "lake \<Rightarrow> string \<Rightarrow> string \<Rightarrow> pydict \<Rightarrow> pydict \<Rightarrow> string \<times> (string \<times> int) option" where
  "pinned_of L tenant project override plugin =
     (let vid = strip (str_or (por (dget override ''dataset_version_id'') (dget plugin ''dataset_version_id'')) [])
      in (vid, if vid = [] then None
        else (case get_dataset_version L tenant project vid of None \<Rightarrow> None
          | Some v \<Rightarrow> if strip (dv_dataset v) = [] then None else Some (strip (dv_dataset v), count_of v))))"

definition check_input ::
    "lake \<Rightarrow> string \<Rightarrow> string \<Rightarrow> string \<times> (string \<times> int) option \<Rightarrow> declared \<Rightarrow> input_check" where
  "check_input L tenant project pin inp =
     (let name = strip (fst inp); required = to_required_size (snd inp) 1000;
          (i, size) = dataset_actual_size L tenant project name;
          pinned = (case (i, snd pin) of (Some j, Some (p, _)) \<Rightarrow> j \<noteq> [] \<and> j = p | _ \<Rightarrow> False);
          actual = (case snd pin of Some (_, n) \<Rightarrow> if pinned then n else size | None \<Rightarrow> size)
      in \<lparr>ic_dataset_id = i, ic_dataset = name, ic_actual = actual, ic_required = required,
          ic_ready = (required \<le> actual), ic_version = (if pinned then Some (fst pin) else None)\<rparr>)"

definition blocking_message :: "input_check \<Rightarrow> string" where
  "blocking_message c = ic_dataset c @ '': '' @ int_str (ic_actual c) @ ''/'' @ int_str (ic_required c) @ '' rows'' @
     (case ic_version c of Some v \<Rightarrow> if v = [] then [] else '' (version_id='' @ v @ '')'' | None \<Rightarrow> [])"

definition evaluate_pipeline_inputs_readiness ::
    "lake \<Rightarrow> string \<Rightarrow> string \<Rightarrow> pyval \<Rightarrow> pyval \<Rightarrow> pyval \<Rightarrow> input_report" where
  "evaluate_pipeline_inputs_readiness L tenant project config override plugin =
     (let ov = dict_or_empty override;
          pin = pinned_of L tenant project ov (dict_or_empty plugin);
          inputs = effective_declared_readiness_inputs (VDict ov) (VDict (dict_or_empty config));
          details = map (check_input L tenant project pin) (filter (\<lambda>i. strip (fst i) \<noteq> []) inputs);
          blocking = filter (\<lambda>c. \<not> ic_ready c) details
      in \<lparr>pr_ready = (blocking = []), pr_details = details, pr_blocking = blocking,
          pr_reasons = map (\<lambda>c. (blocking_message c, c)) blocking, pr_override = (ov \<noteq> [])\<rparr>)"

definition upsert_run_dataset_lineage ::
    "string \<Rightarrow> string \<Rightarrow> string \<Rightarrow> string \<Rightarrow> input_check \<Rightarrow> unit ract" where
  "upsert_run_dataset_lineage tenant project run role c =
     seq (check (RuntimeError ''NumericValueOutOfRange'') (fits_bigint (ic_required c))) (\<lambda>_.
     let row = \<lparr>ri_tenant = tenant, ri_project = project, ri_run = run, ri_dataset = ic_dataset_id c,
           ri_name = ic_dataset c, ri_role = role, ri_actual = ic_actual c, ri_required = ic_required c,
           ri_status = (if ic_required c \<le> ic_actual c then ''READY'' else ''NOT_READY'')\<rparr>;
         same = (\<lambda>q. ri_run q = run \<and> ri_name q = ic_dataset c \<and> ri_role q = role)
     in put (\<lambda>R. R\<lparr>ry_inputs := (if list_ex same (ry_inputs R)
          then map (\<lambda>q. if same q then q\<lparr>ri_dataset := ri_dataset row, ri_actual := ri_actual row,
            ri_required := ri_required row, ri_status := ri_status row\<rparr> else q) (ry_inputs R)
          else ry_inputs R @ [row])\<rparr>))"

fun all_acts :: "('a \<Rightarrow> unit ract) \<Rightarrow> 'a list \<Rightarrow> unit ract" where
  "all_acts f [] = give ()"
| "all_acts f (x # xs) = seq (f x) (\<lambda>_. all_acts f xs)"

definition parse_json_field :: "ext \<Rightarrow> pyval \<Rightarrow> pyval" where
  "parse_json_field X raw = (case raw of
     VStr s \<Rightarrow> (case x_loads X s of None \<Rightarrow> VNone | Some v \<Rightarrow> v) | _ \<Rightarrow> raw)"

definition check_run_readiness :: "gate_env \<Rightarrow> string \<Rightarrow> string \<Rightarrow> string \<Rightarrow> input_report ract" where
  "check_run_readiness G tenant project run =
     seq (ask (\<lambda>R. (find (\<lambda>r. r_id r = run) (ry_runs R), ry_lake R))) (\<lambda>(found, L).
     case found of None \<Rightarrow> fail (ValueError ''run_not_found'')
     | Some r \<Rightarrow>
         if r_tenant r \<noteq> tenant \<or> r_project r \<noteq> project then fail (ValueError ''run_not_found'')
         else let report = evaluate_pipeline_inputs_readiness L tenant project
                (parse_json_field (ge_ext G) (r_config r)) (parse_json_field (ge_ext G) (r_override r))
                (parse_json_field (ge_ext G) (r_context r))
              in seq (all_acts (upsert_run_dataset_lineage tenant project run ''input'') (pr_details report)) (\<lambda>_.
                give report))"

definition list_run_readiness :: "readiness \<Rightarrow> string \<Rightarrow> string \<Rightarrow> string \<Rightarrow> input_row list" where
  "list_run_readiness R tenant project run =
     sort_key (\<lambda>q. (ri_role q, ri_name q))
       (filter (\<lambda>q. ri_tenant q = tenant \<and> ri_project q = project \<and> ri_run q = run) (ry_inputs R))"

end
