(* ===== verification/TrainingGate.thy ===== *)
theory TrainingGate
  imports Readiness
begin

text \<open>
  The training side of \<^verbatim>\<open>lifecycle/readiness_service.py\<close>: the training policies of a dataset, the training_evaluation of a
  dataset version against one of them, its record without duplicates, the summary over all policies, the
  queue of evaluations and the gate of the routes that start a training.
\<close>

subsection \<open>Training policies\<close>

text \<open>A policy as the functions return it.\<close>

record policy_view =
  pw_id :: string
  pw_required :: int
  pw_fresh :: int
  pw_trigger :: string
  pw_rules :: "pyval list"
  pw_model :: "string option"

definition int_or :: "int \<Rightarrow> int \<Rightarrow> int" where "int_or n dflt = (if n = 0 then dflt else n)"

definition text_or :: "string \<Rightarrow> string \<Rightarrow> string" where "text_or s dflt = (if s = [] then dflt else s)"

definition rules_of :: "pyval \<Rightarrow> pyval list" where
  "rules_of v = (case as_list v of None \<Rightarrow> [] | Some xs \<Rightarrow> xs)"

definition policy_view_of :: "int \<Rightarrow> int \<Rightarrow> string \<Rightarrow> dpolicy \<Rightarrow> policy_view" where
  "policy_view_of required fresh trigger p =
     \<lparr>pw_id = dp_id p, pw_required = int_or (dp_required p) required, pw_fresh = int_or (dp_fresh p) fresh,
      pw_trigger = text_or (dp_trigger p) trigger, pw_rules = rules_of (dp_rules p), pw_model = dp_model p\<rparr>"

definition in_dataset :: "string \<Rightarrow> string \<Rightarrow> string \<Rightarrow> dpolicy \<Rightarrow> bool" where
  "in_dataset tenant project d p \<longleftrightarrow> dp_tenant p = tenant \<and> dp_project p = project \<and> dp_dataset p = d"

text \<open>One policy for each scope and model; policies without a model are not compared.\<close>

definition policy_clash :: "dpolicy \<Rightarrow> dpolicy \<Rightarrow> bool" where
  "policy_clash a b \<longleftrightarrow> in_dataset (dp_tenant b) (dp_project b) (dp_dataset b) a \<and> dp_model a = dp_model b \<and> dp_model b \<noteq> None"

definition insert_policy :: "dpolicy \<Rightarrow> unit ract" where
  "insert_policy p =
     seq (check (RuntimeError ''NumericValueOutOfRange'') (fits_integer (dp_required p) \<and> fits_integer (dp_fresh p))) (\<lambda>_.
     seq (ask (\<lambda>R. (list_ex (\<lambda>q. dp_id q = dp_id p \<or> policy_clash q p) (ry_policies R),
        dataset_known (ry_lake R) (dp_dataset p)))) (\<lambda>(taken, known).
     seq (check (RuntimeError ''UniqueViolation'') (\<not> taken)) (\<lambda>_.
     seq (check (RuntimeError ''ForeignKeyViolation'') known) (\<lambda>_.
       put (\<lambda>R. R\<lparr>ry_policies := ry_policies R @ [p]\<rparr>)))))"

definition get_or_create_dataset_training_policy ::
    "gate_env \<Rightarrow> string \<Rightarrow> string \<Rightarrow> string \<Rightarrow> string option \<Rightarrow> int \<Rightarrow> policy_view ract" where
  "get_or_create_dataset_training_policy G tenant project d model dflt =
     (let req = max 1 (int_or dflt 1000) in
      seq (ask (\<lambda>R. find (\<lambda>p. in_dataset tenant project d p \<and> dp_model p = model) (ry_policies R))) (\<lambda>found.
      case found of Some p \<Rightarrow> give (policy_view_of req 24 ''manual'' p)
      | None \<Rightarrow>
          seq (draw_id G) (\<lambda>i.
          seq (ask ry_now) (\<lambda>now.
          seq (insert_policy \<lparr>dp_id = i, dp_tenant = tenant, dp_project = project, dp_dataset = d, dp_model = model,
            dp_required = req, dp_fresh = 24, dp_trigger = ''manual'', dp_rules = VDict [], dp_created = now\<rparr>) (\<lambda>_.
            give \<lparr>pw_id = i, pw_required = req, pw_fresh = 24, pw_trigger = ''manual'', pw_rules = [], pw_model = model\<rparr>)))))"

definition get_dataset_training_policy_by_id ::
    "readiness \<Rightarrow> string \<Rightarrow> string \<Rightarrow> string \<Rightarrow> string \<Rightarrow> policy_view option" where
  "get_dataset_training_policy_by_id R tenant project d i =
     map_option (policy_view_of 1000 24 ''manual'')
       (find (\<lambda>p. in_dataset tenant project d p \<and> dp_id p = i) (ry_policies R))"

text \<open>The keyset condition \<open>keyset_where_desc\<close> adds for a time and an id.\<close>

definition keyset_where_desc ::
    "ext \<Rightarrow> page_params \<Rightarrow> string \<Rightarrow> string \<Rightarrow> ('a \<Rightarrow> int \<times> string) \<Rightarrow> ('a \<Rightarrow> bool) py" where
  "keyset_where_desc X p time_key tie_key key = (case (pp_mode p, pp_cursor p) of
     (CursorPage, Some d) \<Rightarrow>
       if d = [] then ok (\<lambda>r. True)
       else pbind (parse_cursor_datetime X (dget d time_key)) (\<lambda>ts.
         ok (\<lambda>r. fst (key r) < ts \<or> (fst (key r) = ts \<and> snd (key r) < str_or (dget d tie_key) [])))
   | _ \<Rightarrow> ok (\<lambda>r. True))"

definition policy_cursor :: "gate_env \<Rightarrow> dpolicy \<Rightarrow> pydict" where
  "policy_cursor G p = [(''created_at'', VStr (x_iso (ge_ext G) (dp_created p))), (''policy_id'', VStr (dp_id p))]"

definition policy_key :: "dpolicy \<Rightarrow> int \<times> string" where "policy_key p = (dp_created p, dp_id p)"

text \<open>The rows of a page; the items are their views with the time.\<close>

definition list_dataset_training_policies_page ::
    "gate_env \<Rightarrow> readiness \<Rightarrow> string \<Rightarrow> string \<Rightarrow> string \<Rightarrow> pyval \<Rightarrow> pyval \<Rightarrow> string option \<Rightarrow> dpolicy page py" where
  "list_dataset_training_policies_page G R tenant project d limit offset cursor =
     pbind (resolve_page_params limit offset cursor 50 200) (\<lambda>p.
     pbind (keyset_where_desc (ge_ext G) p ''created_at'' ''policy_id'' policy_key) (\<lambda>after.
       ok (finalize_page (sql_limit_offset p (newest_first policy_key
             (filter after (filter (in_dataset tenant project d) (ry_policies R)))))
           (pp_limit p) (offset_of p) (Some (policy_cursor G)))))"

definition list_dataset_training_policies ::
    "gate_env \<Rightarrow> readiness \<Rightarrow> string \<Rightarrow> string \<Rightarrow> string \<Rightarrow> policy_view list py" where
  "list_dataset_training_policies G R tenant project d =
     pbind (list_dataset_training_policies_page G R tenant project d (VInt 200) (VInt 0) None) (\<lambda>pg.
       ok (map (policy_view_of 1000 24 ''manual'') (pg_items pg)))"

record policy_args =
  pg_model :: "string option"
  pg_required :: int
  pg_fresh :: int
  pg_trigger :: string
  pg_rules :: "pyval list"

definition policy_of_args :: "string \<Rightarrow> string \<Rightarrow> string \<Rightarrow> string \<Rightarrow> policy_args \<Rightarrow> int \<Rightarrow> dpolicy" where
  "policy_of_args i tenant project d a now =
     \<lparr>dp_id = i, dp_tenant = tenant, dp_project = project, dp_dataset = d, dp_model = pg_model a,
      dp_required = max 1 (int_or (pg_required a) 1000), dp_fresh = max 1 (int_or (pg_fresh a) 24),
      dp_trigger = text_or (strip (text_or (pg_trigger a) ''manual'')) ''manual'', dp_rules = VList (pg_rules a),
      dp_created = now\<rparr>"

definition create_dataset_training_policy ::
    "gate_env \<Rightarrow> string \<Rightarrow> string \<Rightarrow> string \<Rightarrow> policy_args \<Rightarrow> policy_view ract" where
  "create_dataset_training_policy G tenant project d a =
     seq (draw_id G) (\<lambda>i.
     seq (ask ry_now) (\<lambda>now.
     let p = policy_of_args i tenant project d a now
     in seq (insert_policy p) (\<lambda>_. give (policy_view_of (dp_required p) (dp_fresh p) (dp_trigger p) p))))"

text \<open>What an update or a conflict writes; a model another policy of the scope has violates the constraint.\<close>

definition overwrite_policy :: "string \<Rightarrow> dpolicy \<Rightarrow> unit ract" where
  "overwrite_policy i new =
     seq (check (RuntimeError ''NumericValueOutOfRange'') (fits_integer (dp_required new) \<and> fits_integer (dp_fresh new))) (\<lambda>_.
     seq (ask (\<lambda>R. case find (\<lambda>q. dp_id q = i) (ry_policies R) of None \<Rightarrow> False
        | Some old \<Rightarrow> list_ex (\<lambda>q. dp_id q \<noteq> i \<and> policy_clash q (old\<lparr>dp_model := dp_model new\<rparr>)) (ry_policies R))) (\<lambda>clash.
     seq (check (RuntimeError ''UniqueViolation'') (\<not> clash)) (\<lambda>_.
       put (\<lambda>R. R\<lparr>ry_policies := map (\<lambda>q. if dp_id q = i
          then q\<lparr>dp_required := dp_required new, dp_fresh := dp_fresh new, dp_trigger := dp_trigger new,
            dp_rules := dp_rules new, dp_model := dp_model new\<rparr> else q) (ry_policies R)\<rparr>))))"

definition upsert_dataset_training_policy ::
    "gate_env \<Rightarrow> string \<Rightarrow> string \<Rightarrow> string \<Rightarrow> string option \<Rightarrow> policy_args \<Rightarrow> policy_view ract" where
  "upsert_dataset_training_policy G tenant project d i a =
     seq (if opt_or i [] = [] then draw_id G else give (opt_or i [])) (\<lambda>pid.
     seq (ask (\<lambda>R. (ry_now R, list_ex (\<lambda>q. dp_id q = pid) (ry_policies R)))) (\<lambda>(now, known).
     let p = policy_of_args pid tenant project d a now in
     seq (if known then overwrite_policy pid p else insert_policy p) (\<lambda>_.
       give (policy_view_of (dp_required p) (dp_fresh p) (dp_trigger p) p))))"

definition resolve_training_policy_id ::
    "gate_env \<Rightarrow> readiness \<Rightarrow> string \<Rightarrow> string \<Rightarrow> string \<Rightarrow> string option \<Rightarrow> string option \<Rightarrow> string py" where
  "resolve_training_policy_id G R tenant project d policy model =
     pbind (list_dataset_training_policies G R tenant project d) (\<lambda>ps.
     case ps of [] \<Rightarrow> raise (ValueError ''dataset_training_policy_required'')
     | first # _ \<Rightarrow>
         let pid = strip (opt_or policy []); mid = strip (opt_or model []) in
         if pid \<noteq> [] then (if list_ex (\<lambda>p. pw_id p = pid) ps then ok pid
           else raise (ValueError ''dataset_training_policy_not_found''))
         else (case (if mid = [] then None else find (\<lambda>p. strip (opt_or (pw_model p) []) = mid) ps) of
             Some p \<Rightarrow> ok (pw_id p) | None \<Rightarrow> ok (pw_id first)))"

subsection \<open>Evaluation\<close>

text \<open>The version an evaluation looks at; without one, and with the fallback, the size of the dataset.\<close>

record chosen =
  ho_version :: "string option"
  ho_size :: int
  ho_status :: string
  ho_created :: "int option"
  ho_fallback :: bool

definition chosen_version :: "dversion \<Rightarrow> chosen" where
  "chosen_version v = \<lparr>ho_version = Some (dv_id v), ho_size = count_of v, ho_status = text_or (dv_status v) ''ready'',
     ho_created = Some (dv_created v), ho_fallback = False\<rparr>"

definition load_dataset_version_row :: "lake \<Rightarrow> string \<Rightarrow> string \<Rightarrow> string \<Rightarrow> string \<Rightarrow> dversion option" where
  "load_dataset_version_row L tenant project d vid =
     (case get_dataset_version L tenant project vid of None \<Rightarrow> None
      | Some v \<Rightarrow> if dv_dataset v = d then Some v else None)"

definition load_latest_dataset_version_row :: "lake \<Rightarrow> string \<Rightarrow> string \<Rightarrow> string \<Rightarrow> dversion option" where
  "load_latest_dataset_version_row L tenant project d =
     (case list_dataset_versions L tenant project d of [] \<Rightarrow> None | v # _ \<Rightarrow> Some v)"

definition choose_version ::
    "gate_env \<Rightarrow> lake \<Rightarrow> string \<Rightarrow> string \<Rightarrow> dataset_row \<Rightarrow> string option \<Rightarrow> chosen py" where
  "choose_version G L tenant project r vid =
     (if opt_or vid [] \<noteq> [] then
        (case load_dataset_version_row L tenant project (ds_id r) (opt_or vid []) of
           None \<Rightarrow> raise (ValueError ''dataset_version_not_found'') | Some v \<Rightarrow> ok (chosen_version v))
      else (case load_latest_dataset_version_row L tenant project (ds_id r) of
          Some v \<Rightarrow> if ge_legacy G then ok (chosen_version v) else raise (ValueError ''dataset_version_id_required'')
        | None \<Rightarrow> if ge_legacy G
            then ok \<lparr>ho_version = None, ho_size = ds_size r, ho_status = ''ready'', ho_created = None, ho_fallback = True\<rparr>
            else raise (ValueError ''no_materialized_dataset_version'')))"

definition model_exists :: "readiness \<Rightarrow> string \<Rightarrow> string \<Rightarrow> string \<Rightarrow> bool" where
  "model_exists R tenant project m =
     list_ex (\<lambda>o'. mo_tenant o' = tenant \<and> mo_project o' = project \<and> mo_id o' = m) (ry_models R)"

text \<open>The age counts microseconds.\<close>

definition fresh_enough :: "int \<Rightarrow> int \<Rightarrow> int option \<Rightarrow> bool" where
  "fresh_enough now hours created =
     (case created of None \<Rightarrow> True | Some t \<Rightarrow> max 0 (now - t) \<le> hours * 3600 * 1000000)"

record criterion =
  kr_code :: string
  kr_canonical :: string
  kr_label :: string
  kr_pass :: bool

definition criterion_of :: "string \<Rightarrow> string \<Rightarrow> bool \<Rightarrow> criterion" where
  "criterion_of code label b = \<lparr>kr_code = code, kr_canonical = canonical_readiness_code code, kr_label = label, kr_pass = b\<rparr>"

record training_evaluation =
  vl_dataset :: string
  vl_name :: string
  vl_current :: int
  vl_required :: int
  vl_ready :: bool
  vl_status :: string
  vl_criteria :: "criterion list"
  vl_policy :: string
  vl_version :: "string option"
  vl_reasons :: "reason list"
  vl_drift :: "drift_report option"

record gates =
  ga_size :: bool
  ga_fresh :: bool
  ga_model :: bool
  ga_approval :: bool
  ga_rules :: bool
  ga_drift :: bool

definition all_open :: "gates \<Rightarrow> bool" where
  "all_open g \<longleftrightarrow> ga_size g \<and> ga_fresh g \<and> ga_model g \<and> ga_approval g \<and> ga_rules g \<and> ga_drift g"

definition gates_of :: "readiness \<Rightarrow> string \<Rightarrow> string \<Rightarrow> policy_view \<Rightarrow> chosen \<Rightarrow> bool \<Rightarrow> gates" where
  "gates_of R tenant project p c drift_ok =
     (let approved = (lower (ho_status c) \<notin> {''failed'', ''blocked''}); m = strip (opt_or (pw_model p) []) in
      \<lparr>ga_size = (max 1 (pw_required p) \<le> ho_size c),
       ga_fresh = fresh_enough (ry_now R) (max 1 (int_or (pw_fresh p) 24)) (ho_created c),
       ga_model = (m = [] \<or> model_exists R tenant project m), ga_approval = approved,
       ga_rules = (pw_rules p = [] \<or> approved), ga_drift = drift_ok\<rparr>)"

definition criteria_of :: "policy_view \<Rightarrow> gates \<Rightarrow> criterion list" where
  "criteria_of p g =
     [criterion_of ''size_threshold'' ''Dataset size threshold'' (ga_size g),
      criterion_of ''freshness'' ''Freshness window'' (ga_fresh g),
      criterion_of ''model_compatibility'' ''Model compatibility'' (ga_model g),
      criterion_of ''approval'' ''Approval gate'' (ga_approval g),
      criterion_of ''validation_rules'' (''Validation rules ('' @ nat_str (length (pw_rules p)) @ '')'') (ga_rules g)] @
     (if parse_drift_policy (pw_rules p) = None then []
      else [criterion_of ''data_drift'' ''Data drift threshold'' (ga_drift g)])"

definition drift_message :: "drift_env \<Rightarrow> drift_report \<Rightarrow> string" where
  "drift_message D r = (case r of
     DriftSkipped w \<Rightarrow> ''label drift PSI None exceeds max_psi None''
   | DriftMeasured c limit exceeded b v \<Rightarrow>
       ''label drift PSI '' @ (case dc_psi c of None \<Rightarrow> ''None'' | Some f \<Rightarrow> de_repr D f) @ '' exceeds max_psi '' @
       de_repr D limit)"

definition reasons_of :: "gate_env \<Rightarrow> policy_view \<Rightarrow> chosen \<Rightarrow> gates \<Rightarrow> drift_report option \<Rightarrow> reason list" where
  "reasons_of G p c g drift =
     (if ga_size g then [] else [attach_canonical_to_reason_row ''size_threshold''
        (''current_size '' @ int_str (ho_size c) @ '' < required_size '' @ int_str (max 1 (pw_required p)))]) @
     (if ga_fresh g then [] else [attach_canonical_to_reason_row ''freshness''
        (''version older than freshness_hours='' @ int_str (max 1 (int_or (pw_fresh p) 24)))]) @
     (if ga_model g then [] else [attach_canonical_to_reason_row ''model_compatibility''
        (''model_id '' @ strip (opt_or (pw_model p) []) @ '' not found in tenant/project'')]) @
     (if ga_approval g then [] else [attach_canonical_to_reason_row ''approval''
        (''dataset_version status is '' @ ho_status c)]) @
     (case drift of None \<Rightarrow> [] | Some r \<Rightarrow> if ga_drift g then []
        else [attach_canonical_to_reason_row ''data_drift'' (drift_message (ge_drift G) r)]) @
     (if ho_fallback c then [attach_canonical_to_reason_row ''legacy_fallback''
        ''No materialized dataset_version found; used datasets.current_size compatibility fallback''] else [])"

definition drift_of ::
    "gate_env \<Rightarrow> lake \<Rightarrow> string \<Rightarrow> string \<Rightarrow> string \<Rightarrow> policy_view \<Rightarrow> chosen \<Rightarrow> (bool \<times> drift_report option) py" where
  "drift_of G L tenant project d p c =
     (case (ho_version c, parse_drift_policy (pw_rules p)) of
        (Some (ch # cs), Some rule) \<Rightarrow> evaluate_drift_gate (ge_drift G) L tenant project d (ch # cs) (pw_rules p)
      | _ \<Rightarrow> ok (True, None))"

definition evaluation_of ::
    "gate_env \<Rightarrow> readiness \<Rightarrow> string \<Rightarrow> string \<Rightarrow> dataset_row \<Rightarrow> policy_view \<Rightarrow> string option \<Rightarrow> training_evaluation py" where
  "evaluation_of G R tenant project r p vid =
     pbind (choose_version G (ry_lake R) tenant project r vid) (\<lambda>c.
     pbind (drift_of G (ry_lake R) tenant project (ds_id r) p c) (\<lambda>(drift_ok, drift).
       let g = gates_of R tenant project p c drift_ok
       in ok \<lparr>vl_dataset = ds_id r, vl_name = ds_name r, vl_current = ho_size c, vl_required = max 1 (pw_required p),
            vl_ready = all_open g, vl_status = (if all_open g then ''eligible'' else ''blocked''),
            vl_criteria = criteria_of p g, vl_policy = pw_id p, vl_version = ho_version c,
            vl_reasons = reasons_of G p c g drift, vl_drift = drift\<rparr>))"

definition lift_ract :: "'a py \<Rightarrow> 'a ract" where
  "lift_ract m = (case m of Inl e \<Rightarrow> fail e | Inr x \<Rightarrow> give x)"

definition evaluate_dataset_readiness ::
    "gate_env \<Rightarrow> string \<Rightarrow> string \<Rightarrow> string \<Rightarrow> string option \<Rightarrow> string option \<Rightarrow> pyval \<Rightarrow> training_evaluation ract" where
  "evaluate_dataset_readiness G tenant project d policy vid required =
     seq (ask (\<lambda>R. get_dataset (ry_lake R) tenant project d)) (\<lambda>found.
     case found of None \<Rightarrow> fail (ValueError ''dataset_not_found'')
     | Some r \<Rightarrow>
         seq (if opt_or policy [] \<noteq> []
              then seq (ask (\<lambda>R. get_dataset_training_policy_by_id R tenant project d (opt_or policy []))) (\<lambda>p.
                case p of None \<Rightarrow> fail (ValueError ''dataset_training_policy_not_found'') | Some q \<Rightarrow> give q)
              else seq (lift_ract (py_int (por required (VInt 1000)))) (\<lambda>n.
                get_or_create_dataset_training_policy G tenant project d None (max 1 n))) (\<lambda>p.
         seq (ask (\<lambda>R. evaluation_of G R tenant project r p vid)) lift_ract))"

text \<open>The exception of a version that is not eligible is a \<open>ValueError\<close> that carries the training_evaluation.\<close>

definition require_dataset_training_eligibility ::
    "gate_env \<Rightarrow> string \<Rightarrow> string \<Rightarrow> string \<Rightarrow> string \<Rightarrow> string option \<Rightarrow> string option \<Rightarrow> training_evaluation ract" where
  "require_dataset_training_eligibility G tenant project d version policy model =
     (let vid = strip version in
      if vid = [] then fail (ValueError ''dataset_version_id_required'')
      else seq (ask (\<lambda>R. resolve_training_policy_id G R tenant project d policy model)) (\<lambda>resolved.
        seq (lift_ract resolved) (\<lambda>pid.
        seq (evaluate_dataset_readiness G tenant project d (Some pid) (Some vid) VNone) (\<lambda>e.
          if vl_ready e then give e else fail (ValueError ''mlair_readiness_not_eligible'')))))"

end
