(* ===== verification/TrainingRecords.thy ===== *)
theory TrainingRecords
  imports TrainingGate Lineage
begin

text \<open>
  What \<^verbatim>\<open>lifecycle/readiness_service.py\<close> stores and sums up: the evaluations with their comparison from
  \<^verbatim>\<open>evaluation_semantics.py\<close>, the listing of them, the summary over the policies of a dataset, the queue of
  \<^verbatim>\<open>workers/readiness_queue.py\<close>, and the gates and readiness routes of \<^verbatim>\<open>routes/v1.py\<close> behind the
  authorization.
\<close>

subsection \<open>Stored evaluations\<close>

definition note_rcall :: "rcall \<Rightarrow> unit ract" where
  "note_rcall c = put (\<lambda>R. R\<lparr>ry_calls := ry_calls R @ [c]\<rparr>)"

definition source_label :: "string option \<Rightarrow> string" where
  "source_label source = text_or (lower (strip (text_or (opt_or source []) ''manual''))) ''manual''"

definition normalize_dataset_version_id :: "string option \<Rightarrow> string option" where
  "normalize_dataset_version_id v = some_nonempty (strip (opt_or v []))"

definition record_dataset_readiness_evaluation ::
    "gate_env \<Rightarrow> string \<Rightarrow> string \<Rightarrow> string \<Rightarrow> training_evaluation \<Rightarrow> string option \<Rightarrow> string ract" where
  "record_dataset_readiness_evaluation G tenant project d e source =
     seq (draw_id G) (\<lambda>i.
     seq (ask (\<lambda>R. (ry_now R, ry_lake R, ry_policies R))) (\<lambda>(now, L, ps).
     let vid = normalize_dataset_version_id (vl_version e); pid = some_nonempty (vl_policy e);
         row = \<lparr>re_id = i, re_tenant = tenant, re_project = project, re_dataset = d, re_version = vid, re_policy = pid,
           re_required = vl_required e, re_current = vl_current e, re_status = text_or (vl_status e) ''blocked'',
           re_source = source_label source, re_reasons = vl_reasons e, re_at = now\<rparr>
     in seq (check (RuntimeError ''NumericValueOutOfRange'') (fits_integer (vl_required e) \<and> fits_integer (vl_current e))) (\<lambda>_.
        seq (check (RuntimeError ''ForeignKeyViolation'')
          (dataset_known L d \<and> (vid = None \<or> vid \<in> Some ` set (map dv_id (lk_versions L))) \<and>
           (pid = None \<or> pid \<in> Some ` set (map dp_id ps)))) (\<lambda>_.
        seq (put (\<lambda>R. R\<lparr>ry_evals := ry_evals R @ [row]\<rparr>)) (\<lambda>_.
        seq (note_rcall (ReadinessEvaluatedEvent i d (re_status row))) (\<lambda>_. give i))))))"

text \<open>The newest row of the scope; of rows of one moment the last.\<close>

definition get_latest_dataset_readiness_evaluation_for_scope ::
    "readiness \<Rightarrow> string \<Rightarrow> string \<Rightarrow> string \<Rightarrow> string \<Rightarrow> string option \<Rightarrow> readiness_row option" where
  "get_latest_dataset_readiness_evaluation_for_scope R tenant project d policy vid =
     (let rows = filter (\<lambda>r. re_tenant r = tenant \<and> re_project r = project \<and> re_dataset r = d \<and>
            re_policy r = Some policy \<and> re_version r = vid) (ry_evals R)
      in if rows = [] then None else Some (last (sort_key re_at rows)))"

definition readiness_reasons_semantic_signature :: "reason list \<Rightarrow> (string \<times> string) list" where
  "readiness_reasons_semantic_signature rs = sort (map (\<lambda>r. (lower (strip (rs_code r)), strip (rs_message r))) rs)"

definition readiness_eval_result_matches_stored_row :: "readiness_row \<Rightarrow> training_evaluation \<Rightarrow> bool" where
  "readiness_eval_result_matches_stored_row s e \<longleftrightarrow>
     re_required s = vl_required e \<and> re_current s = vl_current e \<and>
     lower (strip (text_or (re_status s) ''blocked'')) = lower (strip (vl_status e)) \<and>
     opt_or (re_policy s) [] = vl_policy e \<and>
     normalize_dataset_version_id (re_version s) = normalize_dataset_version_id (vl_version e) \<and>
     readiness_reasons_semantic_signature (re_reasons s) = readiness_reasons_semantic_signature (vl_reasons e)"

text \<open>The id and the time of the row, and whether it is new.\<close>

definition persist_dataset_readiness_evaluation_with_dedupe ::
    "gate_env \<Rightarrow> string \<Rightarrow> string \<Rightarrow> string \<Rightarrow> training_evaluation \<Rightarrow> string option \<Rightarrow> bool \<Rightarrow> (string \<times> int \<times> bool) ract" where
  "persist_dataset_readiness_evaluation_with_dedupe G tenant project d e source force =
     seq (ask (\<lambda>R. (if force then None else get_latest_dataset_readiness_evaluation_for_scope R tenant project d
        (vl_policy e) (normalize_dataset_version_id (vl_version e)), ry_now R))) (\<lambda>(latest, now).
     case latest of
       Some s \<Rightarrow> if readiness_eval_result_matches_stored_row s e then give (re_id s, re_at s, False)
         else seq (record_dataset_readiness_evaluation G tenant project d e source) (\<lambda>i. give (i, now, True))
     | None \<Rightarrow> seq (record_dataset_readiness_evaluation G tenant project d e source) (\<lambda>i. give (i, now, True)))"

definition evaluation_key :: "readiness_row \<Rightarrow> int \<times> string" where "evaluation_key r = (re_at r, re_id r)"

definition evaluation_cursor :: "gate_env \<Rightarrow> readiness_row \<Rightarrow> pydict" where
  "evaluation_cursor G r = [(''evaluated_at'', VStr (x_iso (ge_ext G) (re_at r))), (''evaluation_id'', VStr (re_id r))]"

definition wanted_evaluation :: "string option \<Rightarrow> string option \<Rightarrow> string option \<Rightarrow> readiness_row \<Rightarrow> bool" where
  "wanted_evaluation status policy source r =
     (let st = lower (strip (opt_or status [])); pid = strip (opt_or policy []); src = lower (strip (opt_or source []))
      in (pid = [] \<or> re_policy r = Some pid) \<and> (st = [] \<or> lower (re_status r) = st) \<and>
         (src = [] \<or> lower (re_source r) = src))"

definition list_dataset_readiness_evaluations_page ::
    "gate_env \<Rightarrow> readiness \<Rightarrow> string \<Rightarrow> string \<Rightarrow> string \<Rightarrow> pyval \<Rightarrow> pyval \<Rightarrow> string option \<Rightarrow>
       string option \<Rightarrow> string option \<Rightarrow> string option \<Rightarrow> readiness_row page py" where
  "list_dataset_readiness_evaluations_page G R tenant project d limit offset cursor status policy source =
     pbind (resolve_page_params limit offset cursor 20 200) (\<lambda>p.
     pbind (keyset_where_desc (ge_ext G) p ''evaluated_at'' ''evaluation_id'' evaluation_key) (\<lambda>after.
       ok (finalize_page (sql_limit_offset p (newest_first evaluation_key (filter (\<lambda>r. re_tenant r = tenant \<and>
             re_project r = project \<and> re_dataset r = d \<and> wanted_evaluation status policy source r \<and> after r) (ry_evals R))))
           (pp_limit p) (offset_of p) (Some (evaluation_cursor G)))))"

subsection \<open>The summary over the policies\<close>

record summary_item =
  sm_policy :: string
  sm_model :: "string option"
  sm_trigger :: string
  sm_required :: int
  sm_current :: int
  sm_eligible :: bool
  sm_status :: string
  sm_version :: "string option"
  sm_reasons :: "string list"
  sm_error :: "string option"

definition blocked_item :: "policy_view \<Rightarrow> string \<Rightarrow> summary_item" where
  "blocked_item p code = \<lparr>sm_policy = pw_id p, sm_model = pw_model p, sm_trigger = pw_trigger p,
     sm_required = pw_required p, sm_current = 0, sm_eligible = False, sm_status = ''blocked'', sm_version = None,
     sm_reasons = [code], sm_error = Some code\<rparr>"

definition evaluated_item :: "policy_view \<Rightarrow> training_evaluation \<Rightarrow> summary_item" where
  "evaluated_item p e =
     (let texts = filter (\<lambda>t. t \<noteq> []) (map (\<lambda>r. text_or (rs_message r) (rs_code r)) (vl_reasons e)) @
            map kr_label (filter (\<lambda>c. \<not> kr_pass c \<and> kr_label c \<noteq> []) (vl_criteria e))
      in \<lparr>sm_policy = pw_id p, sm_model = pw_model p, sm_trigger = text_or (pw_trigger p) ''manual'',
          sm_required = vl_required e, sm_current = vl_current e, sm_eligible = vl_ready e, sm_status = vl_status e,
          sm_version = vl_version e, sm_reasons = (if texts \<noteq> [] \<or> vl_ready e then texts else [''blocked'']),
          sm_error = None\<rparr>)"

text \<open>Only a \<open>ValueError\<close> becomes an item.\<close>

definition summary_step ::
    "gate_env \<Rightarrow> string \<Rightarrow> string \<Rightarrow> string \<Rightarrow> string option \<Rightarrow> policy_view \<Rightarrow> summary_item ract" where
  "summary_step G tenant project d vid p R =
     (case evaluate_dataset_readiness G tenant project d (Some (pw_id p)) vid VNone R of
        (Inr e, R') \<Rightarrow> (ok (evaluated_item p e), R')
      | (Inl (ValueError code), R') \<Rightarrow> (ok (blocked_item p code), R')
      | (Inl x, R') \<Rightarrow> (raise x, R'))"

fun summary_items ::
    "gate_env \<Rightarrow> string \<Rightarrow> string \<Rightarrow> string \<Rightarrow> string option \<Rightarrow> policy_view list \<Rightarrow> summary_item list ract" where
  "summary_items G tenant project d vid [] = give []"
| "summary_items G tenant project d vid (p # ps) =
     seq (summary_step G tenant project d vid p) (\<lambda>i.
     seq (summary_items G tenant project d vid ps) (\<lambda>items. give (i # items)))"

record eligibility_summary =
  sy_version :: "string option"
  sy_items :: "summary_item list"
  sy_eligible :: "summary_item list"
  sy_blocked :: "summary_item list"

definition resolved_version :: "summary_item list \<Rightarrow> string option" where
  "resolved_version items = (case filter (\<lambda>i. opt_or (sm_version i) [] \<noteq> []) items of [] \<Rightarrow> None | i # _ \<Rightarrow> sm_version i)"

definition summarize_dataset_training_eligibility ::
    "gate_env \<Rightarrow> string \<Rightarrow> string \<Rightarrow> string \<Rightarrow> string option \<Rightarrow> string option \<Rightarrow> eligibility_summary ract" where
  "summarize_dataset_training_eligibility G tenant project d vid policy =
     seq (ask (\<lambda>R. list_dataset_training_policies G R tenant project d)) (\<lambda>listed.
     seq (lift_ract listed) (\<lambda>ps.
     seq (summary_items G tenant project d vid
        (if opt_or policy [] = [] then ps else filter (\<lambda>p. pw_id p = opt_or policy []) ps)) (\<lambda>items.
       give \<lparr>sy_version = (if opt_or vid [] \<noteq> [] then vid else resolved_version items), sy_items = items,
         sy_eligible = filter sm_eligible items, sy_blocked = filter (\<lambda>i. \<not> sm_eligible i) items\<rparr>)))"

subsection \<open>The queue of evaluations\<close>

definition job_payload ::
    "gate_env \<Rightarrow> string \<Rightarrow> string \<Rightarrow> string \<Rightarrow> string \<Rightarrow> int option \<Rightarrow> string option \<Rightarrow> string option \<Rightarrow> string option \<Rightarrow> bool \<Rightarrow>
       int \<Rightarrow> pyval" where
  "job_payload G i tenant project d required vid policy source force now =
     (let opt = (\<lambda>v. case v of None \<Rightarrow> VNone | Some t \<Rightarrow> VStr t); time = Fin (of_int now / 1000000) in
      VDict [(''job_id'', VStr i), (''tenant_id'', VStr tenant), (''project_id'', VStr project), (''dataset_id'', VStr d),
        (''required_size'', case required of None \<Rightarrow> VNone | Some n \<Rightarrow> VInt n), (''dataset_version_id'', opt vid),
        (''policy_id'', opt policy),
        (''source'', VStr (text_or (strip (text_or (opt_or source []) ''async_queue'')) ''async_queue'')),
        (''force_persist'', VBool force), (''enqueued_at'', VFloat time (de_repr (ge_drift G) time))])"

definition enqueue_readiness_evaluation ::
    "gate_env \<Rightarrow> string \<Rightarrow> string \<Rightarrow> string \<Rightarrow> int option \<Rightarrow> string option \<Rightarrow> string option \<Rightarrow> string option \<Rightarrow> bool \<Rightarrow> string ract" where
  "enqueue_readiness_evaluation G tenant project d required vid policy source force =
     seq (draw_id G) (\<lambda>i.
     seq (ask ry_now) (\<lambda>now.
     seq (put (\<lambda>R. R\<lparr>ry_jobs := ry_jobs R @ [json_text (job_payload G i tenant project d required vid policy source force now)]\<rparr>))
       (\<lambda>_. give i)))"

text \<open>Evaluate and store, and tell about a new row; the ids of a job are texts or null.\<close>

definition persist_and_announce ::
    "gate_env \<Rightarrow> string \<Rightarrow> string \<Rightarrow> string \<Rightarrow> training_evaluation \<Rightarrow> string option \<Rightarrow> bool \<Rightarrow> (string \<times> int \<times> bool) ract" where
  "persist_and_announce G tenant project d e source force =
     seq (persist_dataset_readiness_evaluation_with_dedupe G tenant project d e source force) (\<lambda>(i, t, fresh).
     seq (if fresh then note_rcall (RtReadinessUpdated d (vl_required e) (vl_current e) (text_or (vl_status e) ''blocked'')
        (opt_or source [])) else give ()) (\<lambda>_. give (i, t, fresh)))"

definition run_job :: "gate_env \<Rightarrow> pydict \<Rightarrow> string \<Rightarrow> string \<Rightarrow> string \<Rightarrow> (string \<times> int \<times> bool) ract" where
  "run_job G job tenant project d =
     seq (evaluate_dataset_readiness G tenant project d (text_if_truthy (dget job ''policy_id''))
        (text_if_truthy (dget job ''dataset_version_id'')) (dget job ''required_size'')) (\<lambda>e.
       persist_and_announce G tenant project d e (Some (str_or (dget job ''source'') ''async_queue''))
         (truthy (dget job ''force_persist'')))"

text \<open>Whether the job was processed; an exception is logged.\<close>

definition process_one :: "gate_env \<Rightarrow> string \<Rightarrow> readiness \<Rightarrow> bool \<times> readiness" where
  "process_one G raw R =
     (case json_loads raw of
        Some (VDict job) \<Rightarrow>
          (let tenant = strip (str_or (dget job ''tenant_id'') []); project = strip (str_or (dget job ''project_id'') []);
               d = strip (str_or (dget job ''dataset_id'') []) in
           if tenant = [] \<or> project = [] \<or> d = [] then (False, R)
           else (case run_job G job tenant project d R of (Inr x, R') \<Rightarrow> (True, R') | (Inl e, R') \<Rightarrow> (False, R')))
      | _ \<Rightarrow> (False, R))"

fun drain_loop :: "gate_env \<Rightarrow> nat \<Rightarrow> nat \<Rightarrow> readiness \<Rightarrow> nat \<times> readiness" where
  "drain_loop G 0 processed R = (processed, R)"
| "drain_loop G (Suc n) processed R =
     (case ry_jobs R of [] \<Rightarrow> (processed, R)
      | raw # rest \<Rightarrow> (case process_one G raw (R\<lparr>ry_jobs := rest\<rparr>) of
          (done', R') \<Rightarrow> drain_loop G n (if done' then Suc processed else processed) R'))"

definition drain_once :: "gate_env \<Rightarrow> int \<Rightarrow> readiness \<Rightarrow> nat \<times> readiness" where
  "drain_once G max_jobs R = drain_loop G (nat (max 1 (min max_jobs 32))) 0 R"

end
