(* ===== verification/ReadinessGates.thy ===== *)
theory ReadinessGates
  imports TrainingRecords
begin

text \<open>
  The gates and readiness routes of \<^verbatim>\<open>routes/v1.py\<close>, behind the authorization: what is refused before a run is
  created, the pin of a dataset version, the training_evaluation by request and the readiness of a run. An answer with
  a structured detail carries its \<open>reason\<close> here.
\<close>

record gate_flags =
  gf_require_inputs :: bool
  gf_strict_version :: bool
  gf_strict_all :: bool
  gf_async_queue :: bool

subsection \<open>Gates of the run routes\<close>

definition enforce_pipeline_inputs_readiness ::
    "string \<Rightarrow> string \<Rightarrow> pyval \<Rightarrow> pyval \<Rightarrow> pyval \<Rightarrow> unit ract" where
  "enforce_pipeline_inputs_readiness tenant project config override plugin =
     seq (ask (\<lambda>R. evaluate_pipeline_inputs_readiness (ry_lake R) tenant project config override plugin)) (\<lambda>report.
       check (HTTPException 422 ''PIPELINE_INPUT_REQUIRED_SIZE_NOT_MET'') (pr_ready report))"

text \<open>
  The handler of \<open>ValueError\<close> comes first and also takes the exception of a version that is not eligible, its
  subclass; the second handler, which would answer with the training_evaluation, is never reached.
\<close>

definition training_refusal :: "string \<Rightarrow> pyerr" where
  "training_refusal code =
     (if code = ''dataset_training_policy_required'' then HTTPException 422 ''TRAINING_POLICY_REQUIRED''
      else if code = ''dataset_training_policy_not_found'' then HTTPException 422 ''TRAINING_POLICY_NOT_FOUND''
      else if code = ''dataset_version_id_required'' then HTTPException 422 ''DATASET_VERSION_REQUIRED''
      else if code \<in> {''dataset_not_found'', ''dataset_version_not_found''} then HTTPException 404 code
      else HTTPException 422 code)"

definition enforce_mlair_training_policy_readiness ::
    "gate_env \<Rightarrow> string \<Rightarrow> string \<Rightarrow> string \<Rightarrow> string \<Rightarrow> string option \<Rightarrow> string option \<Rightarrow> unit ract" where
  "enforce_mlair_training_policy_readiness G tenant project d version policy model R =
     (case require_dataset_training_eligibility G tenant project d version policy model R of
        (Inr e, R') \<Rightarrow> (ok (), R')
      | (Inl (ValueError code), R') \<Rightarrow> (raise (training_refusal code), R')
      | (Inl x, R') \<Rightarrow> (raise x, R'))"

definition pinned_text :: "pydict \<Rightarrow> string" where
  "pinned_text override = strip (str_or (dget override ''dataset_version_id'') [])"

definition ensure_declared_readiness_inputs :: "gate_flags \<Rightarrow> pydict \<Rightarrow> pydict \<Rightarrow> unit ract" where
  "ensure_declared_readiness_inputs F override config =
     check (HTTPException 422 ''NO_DECLARED_DATASET_INPUTS'')
       (\<not> gf_require_inputs F \<or> effective_declared_readiness_inputs (VDict override) (VDict config) \<noteq> [])"

definition ensure_strict_dataset_version_for_all_post_runs_when_enabled :: "gate_flags \<Rightarrow> pydict \<Rightarrow> unit ract" where
  "ensure_strict_dataset_version_for_all_post_runs_when_enabled F override =
     check (HTTPException 422 ''DATASET_VERSION_REQUIRED'')
       (\<not> gf_strict_all F \<or> \<not> gf_strict_version F \<or> pinned_text override \<noteq> [])"

definition ensure_strict_dataset_version_for_declared_inputs :: "gate_flags \<Rightarrow> pydict \<Rightarrow> pydict \<Rightarrow> unit ract" where
  "ensure_strict_dataset_version_for_declared_inputs F override config =
     check (HTTPException 422 ''DATASET_VERSION_REQUIRED'')
       (\<not> gf_strict_version F \<or> effective_declared_readiness_inputs (VDict override) (VDict config) = [] \<or>
        pinned_text override \<noteq> [])"

definition merge_pinned_dataset_version_for_run ::
    "lake \<Rightarrow> string \<Rightarrow> string \<Rightarrow> pydict \<Rightarrow> pydict \<Rightarrow> string option \<Rightarrow> (pydict \<times> pydict) py" where
  "merge_pinned_dataset_version_for_run L tenant project override plugin vid =
     (let top = strip (opt_or vid []); nested = pinned_text override;
          i = (if top \<noteq> [] then top else nested) in
      if top \<noteq> [] \<and> nested \<noteq> [] \<and> top \<noteq> nested then raise (HTTPException 422 ''DATASET_VERSION_PIN_CONFLICT'')
      else if i = [] then ok (override, plugin)
      else (case get_dataset_version L tenant project i of
          None \<Rightarrow> raise (HTTPException 404 ''dataset_version_not_found'')
        | Some v \<Rightarrow> ok (dset ''dataset_version_id'' (VStr i) override, dsetdefault ''dataset_version_id'' (VStr i) plugin)))"

text \<open>
  What \<open>run_pipeline_with_gating_v1\<close> asks of the data before it creates a run: the version that is pinned by
  the request or by its context must satisfy the policy, and the declared inputs must be big enough.
\<close>

definition gate_run ::
    "gate_env \<Rightarrow> gate_flags \<Rightarrow> string \<Rightarrow> string \<Rightarrow> pydict \<Rightarrow> pydict \<Rightarrow> pydict \<Rightarrow> string option \<Rightarrow> (pydict \<times> pydict) ract" where
  "gate_run G F tenant project config override plugin vid =
     seq (ask (\<lambda>R. merge_pinned_dataset_version_for_run (ry_lake R) tenant project override plugin vid)) (\<lambda>merged.
     seq (lift_ract merged) (\<lambda>(ov, ctx).
     seq (ensure_strict_dataset_version_for_all_post_runs_when_enabled F ov) (\<lambda>_.
     seq (ensure_strict_dataset_version_for_declared_inputs F ov config) (\<lambda>_.
     seq (ensure_declared_readiness_inputs F ov config) (\<lambda>_.
     let pinned = strip (str_or (por (dget ov ''dataset_version_id'') (dget ctx ''dataset_version_id'')) []) in
     seq (if pinned = [] then give ()
          else seq (ask (\<lambda>R. get_dataset_version (ry_lake R) tenant project pinned)) (\<lambda>found.
            case found of None \<Rightarrow> fail (HTTPException 404 ''dataset_version_not_found'')
            | Some v \<Rightarrow> enforce_mlair_training_policy_readiness G tenant project (strip (dv_dataset v)) pinned
                (some_nonempty (strip (str_or (dget ov ''policy_id'') [])))
                (some_nonempty (strip (str_or (por (dget ctx ''mlair_model_id'') (dget ctx ''model_id'')) []))))) (\<lambda>_.
     seq (enforce_pipeline_inputs_readiness tenant project (VDict config) (VDict ov) (VDict ctx)) (\<lambda>_.
       give (ov, ctx))))))))"

subsection \<open>Readiness routes\<close>

definition http_exc_from_readiness_value_error :: "string \<Rightarrow> pyerr" where
  "http_exc_from_readiness_value_error detail =
     (if detail \<in> {''dataset_not_found'', ''dataset_training_policy_not_found'', ''dataset_version_not_found''}
      then HTTPException 404 detail
      else if detail = ''no_materialized_dataset_version'' then HTTPException 409 detail
      else if detail = ''dataset_version_id_required'' then HTTPException 422 ''DATASET_VERSION_REQUIRED''
      else HTTPException 400 detail)"

definition map_value_error :: "(string \<Rightarrow> pyerr) \<Rightarrow> 'a ract \<Rightarrow> 'a ract" where
  "map_value_error f m R = (case m R of (Inl (ValueError code), R') \<Rightarrow> (raise (f code), R') | r \<Rightarrow> r)"

definition get_dataset_readiness_v1 ::
    "gate_env \<Rightarrow> string \<Rightarrow> string \<Rightarrow> string \<Rightarrow> int option \<Rightarrow> string option \<Rightarrow> string option \<Rightarrow> training_evaluation ract" where
  "get_dataset_readiness_v1 G tenant project d required vid policy =
     map_value_error http_exc_from_readiness_value_error
       (evaluate_dataset_readiness G tenant project d policy vid (case required of None \<Rightarrow> VNone | Some n \<Rightarrow> VInt n))"

datatype evaluate_answer =
    Queued string string
  | NotPersisted training_evaluation string
  | Persisted training_evaluation string int string bool

definition post_dataset_readiness_evaluate_v1 ::
    "gate_env \<Rightarrow> gate_flags \<Rightarrow> string \<Rightarrow> string \<Rightarrow> string \<Rightarrow> int option \<Rightarrow> string option \<Rightarrow> string option \<Rightarrow> string option \<Rightarrow>
       bool \<Rightarrow> bool \<Rightarrow> bool \<Rightarrow> evaluate_answer ract" where
  "post_dataset_readiness_evaluate_v1 G F tenant project d required vid policy source persist force async =
     seq (ask (\<lambda>R. get_dataset (ry_lake R) tenant project d)) (\<lambda>found.
     seq (check (HTTPException 404 ''dataset_not_found'') (found \<noteq> None)) (\<lambda>_.
     if async then
       seq (check (HTTPException 503 ''readiness_async_queue_disabled'') (gf_async_queue F)) (\<lambda>_.
       seq (enqueue_readiness_evaluation G tenant project d required vid policy (Some (source_label source)) force)
         (\<lambda>i. give (Queued i (source_label source))))
     else seq (get_dataset_readiness_v1 G tenant project d required vid policy) (\<lambda>e.
       if \<not> persist then give (NotPersisted e (source_label source))
       else seq (persist_and_announce G tenant project d e (Some (source_label source)) force) (\<lambda>(i, t, fresh).
         give (Persisted e i t (source_label source) (\<not> fresh))))))"

definition get_dataset_version_readiness_v1 ::
    "gate_env \<Rightarrow> string \<Rightarrow> string \<Rightarrow> string \<Rightarrow> string \<Rightarrow> string option \<Rightarrow> training_evaluation ract" where
  "get_dataset_version_readiness_v1 G tenant project d version policy =
     get_dataset_readiness_v1 G tenant project d None (Some version) policy"

text \<open>
  The alias for a version calls the function of the route without \<open>async_eval\<close>: the parameter is then the object
  \<open>Query(...)\<close> of the signature, which is true.
\<close>

definition post_dataset_version_readiness_evaluate_v1 ::
    "gate_env \<Rightarrow> gate_flags \<Rightarrow> string \<Rightarrow> string \<Rightarrow> string \<Rightarrow> string \<Rightarrow> string option \<Rightarrow> string option \<Rightarrow> bool \<Rightarrow> bool \<Rightarrow>
       evaluate_answer ract" where
  "post_dataset_version_readiness_evaluate_v1 G F tenant project d version policy source persist force =
     post_dataset_readiness_evaluate_v1 G F tenant project d None (Some version) policy source persist force True"

definition get_dataset_training_eligibility_v1 ::
    "gate_env \<Rightarrow> string \<Rightarrow> string \<Rightarrow> string \<Rightarrow> string option \<Rightarrow> string option \<Rightarrow> eligibility_summary ract" where
  "get_dataset_training_eligibility_v1 G tenant project d vid policy =
     seq (ask (\<lambda>R. get_dataset (ry_lake R) tenant project d)) (\<lambda>found.
     seq (check (HTTPException 404 ''dataset_not_found'') (found \<noteq> None)) (\<lambda>_.
       summarize_dataset_training_eligibility G tenant project d vid policy))"

datatype run_answer = StoredRows bool "input_row list" "input_row list" | FreshReport input_report

definition get_run_readiness_v1 :: "gate_env \<Rightarrow> string \<Rightarrow> string \<Rightarrow> string \<Rightarrow> run_answer ract" where
  "get_run_readiness_v1 G tenant project run =
     seq (ask (\<lambda>R. (find (\<lambda>r. r_id r = run) (ry_runs R), list_run_readiness R tenant project run))) (\<lambda>(found, rows).
     seq (check (HTTPException 404 ''run_not_found'')
       (case found of None \<Rightarrow> False | Some r \<Rightarrow> r_tenant r = tenant \<and> r_project r = project)) (\<lambda>_.
     if rows = [] then seq (check_run_readiness G tenant project run) (\<lambda>report. give (FreshReport report))
     else give (StoredRows (list_all (\<lambda>q. ri_status q = ''READY'') rows) rows
       (filter (\<lambda>q. ri_status q \<noteq> ''READY'') rows))))"

end
