(* ===== verification/ReadinessLaws.thy ===== *)
theory ReadinessLaws
  imports ReadinessGates
begin

text \<open>
  What the readiness gates guarantee: an evaluation explains itself, a training starts only on a version that
  satisfies a policy of its dataset, and a stored evaluation is not stored again.
\<close>

subsection \<open>The evaluation of a version\<close>

lemma lift_ract_simps [simp]: "lift_ract (Inr x) = give x" "lift_ract (Inl e) = fail e"
  by (simp_all add: lift_ract_def)

lemma lift_ract_Inr: "lift_ract m R = (Inr x, R') \<longleftrightarrow> m = Inr x \<and> R' = R"
  by (cases m) auto

lemma drift_refused_report:
  "evaluate_drift_gate D L t p d v rules = Inr (False, r) \<Longrightarrow> r \<noteq> None \<and> parse_drift_policy rules \<noteq> None"
  by (cases "parse_drift_policy rules"; cases "get_dataset_version L t p v";
      cases "resolve_baseline_version L t p d v
        (some_nonempty (strip (str_or (dget (the (parse_drift_policy rules)) ''baseline_version_id'') [])))")
    (auto simp: evaluate_drift_gate_def pbind_eq_Inr Let_def)

lemma drift_of_version:
  assumes "ho_version c = Some i" and "i \<noteq> []"
  shows "drift_of G L t p d pol c = evaluate_drift_gate (ge_drift G) L t p d i (pw_rules pol)"
  using assms by (cases i; cases "parse_drift_policy (pw_rules pol)") (simp_all add: drift_of_def evaluate_drift_gate_def)

lemma drift_of_refused:
  "drift_of G L t p d pol c = Inr (False, r) \<Longrightarrow> r \<noteq> None \<and> parse_drift_policy (pw_rules pol) \<noteq> None"
  by (auto simp: drift_of_def split: option.splits list.splits dest: drift_refused_report)

lemma evaluation_cases:
  assumes "evaluation_of G R t p r pol vid = Inr e"
  obtains c b drift where "choose_version G (ry_lake R) t p r vid = Inr c"
    "drift_of G (ry_lake R) t p (ds_id r) pol c = Inr (b, drift)"
    "vl_ready e = all_open (gates_of R t p pol c b)" "vl_criteria e = criteria_of pol (gates_of R t p pol c b)"
    "vl_reasons e = reasons_of G pol c (gates_of R t p pol c b) drift" "vl_policy e = pw_id pol"
    "vl_version e = ho_version c" "vl_current e = ho_size c" "vl_required e = max 1 (pw_required pol)"
    "vl_status e = (if vl_ready e then ''eligible'' else ''blocked'')"
  using assms by (auto simp: evaluation_of_def pbind_eq_Inr Let_def)




subsection \<open>The gate of the runs\<close>

text \<open>What a version must have to satisfy a policy of its dataset.\<close>

definition satisfies :: "gate_env \<Rightarrow> readiness \<Rightarrow> dpolicy \<Rightarrow> dversion \<Rightarrow> bool" where
  "satisfies G R q v \<longleftrightarrow>
     max 1 (int_or (dp_required q) 1000) \<le> count_of v \<and>
     max 0 (ry_now R - dv_created v) \<le> max 1 (int_or (dp_fresh q) 24) * 3600 * 1000000 \<and>
     lower (text_or (dv_status v) ''ready'') \<notin> {''failed'', ''blocked''} \<and>
     (strip (opt_or (dp_model q) []) = [] \<or>
      model_exists R (dp_tenant q) (dp_project q) (strip (opt_or (dp_model q) []))) \<and>
     (\<exists>report. evaluate_drift_gate (ge_drift G) (ry_lake R) (dp_tenant q) (dp_project q) (dp_dataset q) (dv_id v)
        (rules_of (dp_rules q)) = Inr (True, report))"

lemma policy_by_idD:
  assumes "get_dataset_training_policy_by_id R t p d i = Some pol"
  obtains q where "q \<in> set (ry_policies R)" "in_dataset t p d q" "dp_id q = i" "pol = policy_view_of 1000 24 ''manual'' q"
  using assms by (auto simp: get_dataset_training_policy_by_id_def dest: find_SomeD)

lemma evaluated_by_policy:
  assumes "evaluate_dataset_readiness G t p d (Some i) (Some vid) n R = (Inr e, R')" and "i \<noteq> []" "vid \<noteq> []" "vl_ready e"
  shows "R' = R \<and> (\<exists>v q. get_dataset_version (ry_lake R) t p vid = Some v \<and> dv_dataset v = d \<and>
    q \<in> set (ry_policies R) \<and> in_dataset t p d q \<and> dp_id q = i \<and> satisfies G R q v)"
proof -
  obtain r where r: "get_dataset (ry_lake R) t p d = Some r"
    using assms(1) by (cases "get_dataset (ry_lake R) t p d") (simp_all add: evaluate_dataset_readiness_def)
  obtain pol where pol: "get_dataset_training_policy_by_id R t p d i = Some pol"
    and ev: "evaluation_of G R t p r pol (Some vid) = Inr e" and R': "R' = R"
    using assms(1,2) r
    by (cases "get_dataset_training_policy_by_id R t p d i")
      (simp_all add: evaluate_dataset_readiness_def lift_ract_Inr seq_def [where m = "seq m f" for m f])
  obtain q where q: "q \<in> set (ry_policies R)" "in_dataset t p d q" "dp_id q = i" "pol = policy_view_of 1000 24 ''manual'' q"
    using pol by (rule policy_by_idD)
  have d: "ds_id r = d" using r by (auto simp: get_dataset_def dest: find_SomeD)
  from ev show ?thesis
  proof (cases rule: evaluation_cases)
    case (1 c b drift)
    obtain v where v: "get_dataset_version (ry_lake R) t p vid = Some v" "dv_dataset v = d" "c = chosen_version v"
      using 1(1) assms(3) d by (auto simp: choose_version_def load_dataset_version_row_def split: option.splits if_splits)
    have "dv_id v = vid" using v(1) by (auto simp: get_dataset_version_def dest: find_SomeD)
    then obtain x xs where id: "dv_id v = x # xs" using assms(3) by (cases vid) auto
    have "evaluate_drift_gate (ge_drift G) (ry_lake R) t p d (dv_id v) (pw_rules pol) = Inr (b, drift)"
      using 1(2) v(3) id d drift_of_version [of c "dv_id v" G "ry_lake R" t p d pol] by (simp add: chosen_version_def)
    then have "satisfies G R q v"
      using 1(3) assms(4) q v(3)
      by (auto simp: all_open_def gates_of_def Let_def satisfies_def policy_view_of_def chosen_version_def
          fresh_enough_def in_dataset_def int_or_def split: if_splits)
    then show ?thesis using v q R' by blast
  qed
qed

definition policies_named :: "readiness \<Rightarrow> bool" where
  "policies_named R \<longleftrightarrow> [] \<notin> dp_id ` set (ry_policies R)"

lemma listed_policies:
  assumes "list_dataset_training_policies G R t p d = Inr ps" and "pol \<in> set ps"
  shows "\<exists>q \<in> set (ry_policies R). in_dataset t p d q \<and> pol = policy_view_of 1000 24 ''manual'' q"
  using assms
  by (fastforce simp: list_dataset_training_policies_def list_dataset_training_policies_page_def pbind_eq_Inr
      finalize_page_def Let_def sql_limit_offset_def newest_first_def dest!: in_set_takeD in_set_dropD split: if_splits)

lemma resolved_policy:
  assumes "resolve_training_policy_id G R t p d policy model = Inr i"
  shows "i \<in> dp_id ` set (ry_policies R) \<and> (strip (opt_or policy []) \<noteq> [] \<longrightarrow> i = strip (opt_or policy []))"
proof -
  obtain first rest where ps: "list_dataset_training_policies G R t p d = Inr (first # rest)"
  proof -
    obtain ps where ps: "list_dataset_training_policies G R t p d = Inr ps"
      using assms by (auto simp: resolve_training_policy_id_def pbind_eq_Inr)
    then show ?thesis using that assms by (cases ps) (simp_all add: resolve_training_policy_id_def)
  qed
  have mem: "pw_id pol \<in> dp_id ` set (ry_policies R)" if "pol \<in> set (first # rest)" for pol
    using listed_policies [OF ps that] by (auto simp: policy_view_of_def)
  show ?thesis
  proof (cases "strip (opt_or policy []) = []")
    case False
    then obtain pol where "pol \<in> set (first # rest)" "pw_id pol = strip (opt_or policy [])" "i = strip (opt_or policy [])"
      using assms by (fastforce simp: resolve_training_policy_id_def ps Let_def list_ex_iff split: if_splits)
    then show ?thesis using mem by metis
  next
    case True
    then have "\<exists>pol \<in> set (first # rest). i = pw_id pol"
      using assms by (auto simp: resolve_training_policy_id_def ps Let_def split: if_splits option.splits dest: find_SomeD)
    then show ?thesis using mem True by blast
  qed
qed

lemma required_eligible:
  assumes "require_dataset_training_eligibility G t p d version policy model R = (Inr e, R')" and "policies_named R"
  shows "R' = R \<and> (\<exists>v q. get_dataset_version (ry_lake R) t p (strip version) = Some v \<and> dv_dataset v = d \<and>
    q \<in> set (ry_policies R) \<and> in_dataset t p d q \<and>
    (strip (opt_or policy []) \<noteq> [] \<longrightarrow> dp_id q = strip (opt_or policy [])) \<and> satisfies G R q v)"
proof -
  obtain i where i: "resolve_training_policy_id G R t p d policy model = Inr i"
    and ev: "evaluate_dataset_readiness G t p d (Some i) (Some (strip version)) VNone R = (Inr e, R')"
    and "vl_ready e" "strip version \<noteq> []"
    using assms(1)
    by (auto simp: require_dataset_training_eligibility_def Let_def lift_ract_Inr elim!: seqE split: if_splits)
  moreover have "i \<noteq> []" "strip (opt_or policy []) \<noteq> [] \<Longrightarrow> i = strip (opt_or policy [])"
    using resolved_policy [OF i] assms(2) unfolding policies_named_def by metis+
  ultimately show ?thesis using evaluated_by_policy [OF ev] by metis
qed

lemma pipeline_ready_iff:
  "pr_ready (evaluate_pipeline_inputs_readiness L t p (VDict config) (VDict ov) (VDict ctx)) \<longleftrightarrow>
     (\<forall>i \<in> set (effective_declared_readiness_inputs (VDict ov) (VDict config)).
        strip (fst i) \<noteq> [] \<longrightarrow> to_required_size (snd i) 1000 \<le> ic_actual (check_input L t p (pinned_of L t p ov ctx) i))"
  by (auto simp: evaluate_pipeline_inputs_readiness_def Let_def dict_or_empty_def as_dict_def filter_empty_conv
      check_input_def split: prod.splits)


lemma training_gate_ok:
  assumes "enforce_mlair_training_policy_readiness G t p d version policy model R = (Inr u, R')"
  obtains e where "require_dataset_training_eligibility G t p d version policy model R = (Inr e, R')"
  using assms by (auto simp: enforce_mlair_training_policy_readiness_def split: sum.splits prod.splits pyerr.splits)

text \<open>
  C35. A run passes the gate of its route only when every declared input is big enough and the version it pins, by the
  request or by its context, satisfies a policy of its dataset: the one the request names, if any. With the
  strict settings it pins a version. The gate changes nothing.
\<close>

theorem gated_run_justified:
  assumes "gate_run G F t p config override plugin vid R = (Inr (ov, ctx), R')" and "policies_named R"
  shows "R' = R \<and>
    (\<forall>i \<in> set (effective_declared_readiness_inputs (VDict ov) (VDict config)). strip (fst i) \<noteq> [] \<longrightarrow>
       to_required_size (snd i) 1000 \<le> ic_actual (check_input (ry_lake R) t p (pinned_of (ry_lake R) t p ov ctx) i)) \<and>
    (gf_strict_all F \<and> gf_strict_version F \<longrightarrow> pinned_text ov \<noteq> []) \<and>
    (fst (pinned_of (ry_lake R) t p ov ctx) \<noteq> [] \<longrightarrow>
       (\<exists>v q. get_dataset_version (ry_lake R) t p (fst (pinned_of (ry_lake R) t p ov ctx)) = Some v \<and>
          q \<in> set (ry_policies R) \<and> in_dataset t p (strip (dv_dataset v)) q \<and>
          (strip (str_or (dget ov ''policy_id'') []) \<noteq> [] \<longrightarrow> dp_id q = strip (str_or (dget ov ''policy_id'') [])) \<and>
          satisfies G R q v))"
proof -
  define pinned where "pinned = fst (pinned_of (ry_lake R) t p ov ctx)"
  have pin: "strip (str_or (por (dget ov ''dataset_version_id'') (dget ctx ''dataset_version_id'')) []) = pinned"
    "strip pinned = pinned"
    by (simp_all add: pinned_def pinned_of_def Let_def)
  let ?policy = "some_nonempty (strip (str_or (dget ov ''policy_id'') []))"
  have policy: "strip (opt_or ?policy []) = strip (str_or (dget ov ''policy_id'') [])" by (simp add: some_nonempty_def)
  obtain model R1 where strict: "gf_strict_all F \<and> gf_strict_version F \<longrightarrow> pinned_text ov \<noteq> []"
    and train: "pinned = [] \<and> R1 = R \<or> pinned \<noteq> [] \<and> (\<exists>v. get_dataset_version (ry_lake R) t p pinned = Some v \<and>
      enforce_mlair_training_policy_readiness G t p (strip (dv_dataset v)) pinned ?policy model R = (Inr (), R1))"
    and inputs: "enforce_pipeline_inputs_readiness t p (VDict config) (VDict ov) (VDict ctx) R1 = (Inr (), R')"
    using assms(1) unfolding pin(1) [symmetric]
    by (force simp: gate_run_def lift_ract_Inr check_Inr Let_def ensure_strict_dataset_version_for_all_post_runs_when_enabled_def
        ensure_strict_dataset_version_for_declared_inputs_def ensure_declared_readiness_inputs_def elim!: seqE
        split: if_splits option.splits prod.splits)
  have "R1 = R \<and> (pinned \<noteq> [] \<longrightarrow> (\<exists>v q. get_dataset_version (ry_lake R) t p pinned = Some v \<and>
          q \<in> set (ry_policies R) \<and> in_dataset t p (strip (dv_dataset v)) q \<and>
          (strip (str_or (dget ov ''policy_id'') []) \<noteq> [] \<longrightarrow> dp_id q = strip (str_or (dget ov ''policy_id'') [])) \<and>
          satisfies G R q v))"
  proof (cases "pinned = []")
    case False
    then obtain v e where v: "get_dataset_version (ry_lake R) t p pinned = Some v"
      and ok: "require_dataset_training_eligibility G t p (strip (dv_dataset v)) pinned ?policy model R = (Inr e, R1)"
      using train by (auto elim: training_gate_ok)
    show ?thesis using required_eligible [OF ok assms(2)] v policy pin(2) by auto
  qed (use train in simp)
  moreover have "R' = R1 \<and> pr_ready (evaluate_pipeline_inputs_readiness (ry_lake R1) t p (VDict config) (VDict ov) (VDict ctx))"
    using inputs by (auto simp: enforce_pipeline_inputs_readiness_def check_Inr)
  ultimately show ?thesis using strict by (simp add: pipeline_ready_iff pinned_def)
qed

text \<open>
  The refusal of a version that is not eligible is the bare code of the exception: the evaluation it carries,
  which the second handler would answer with, is lost.
\<close>

lemma refusal_without_reasons:
  assumes "require_dataset_training_eligibility G t p d version policy model R =
    (Inl (ValueError ''mlair_readiness_not_eligible''), R')"
  shows "enforce_mlair_training_policy_readiness G t p d version policy model R =
    (Inl (HTTPException 422 ''mlair_readiness_not_eligible''), R')"
  using assms by (simp add: enforce_mlair_training_policy_readiness_def training_refusal_def)

subsection \<open>Stored evaluations\<close>

lemma sort_key_snoc_greatest:
  assumes "\<forall>y \<in> set xs. f y \<le> f x"
  shows "sort_key f (xs @ [x]) = sort_key f xs @ [x]"
proof (rule properties_for_sort_key)
  show "sorted (map f (sort_key f xs @ [x]))" using assms by (simp add: sorted_append)
  show "filter (\<lambda>y. f k = f y) (sort_key f xs @ [x]) = filter (\<lambda>y. f k = f y) (xs @ [x])" for k
    using sort_key_stable [of f "f k" xs] by (simp add: eq_commute [of "f k"])
qed simp

lemma normalize_version_idem [simp]:
  "normalize_dataset_version_id (normalize_dataset_version_id v) = normalize_dataset_version_id v"
  by (simp add: normalize_dataset_version_id_def some_nonempty_def)

lemma record_evaluation_ok:
  assumes "record_dataset_readiness_evaluation G t p d e source R = (Inr i, R')"
  obtains row where "ry_evals R' = ry_evals R @ [row]" "re_id row = i" "re_at row = ry_now R"
    "re_tenant row = t" "re_project row = p" "re_dataset row = d" "re_policy row = some_nonempty (vl_policy e)"
    "re_version row = normalize_dataset_version_id (vl_version e)"
    "re_required row = vl_required e" "re_current row = vl_current e"
    "re_status row = text_or (vl_status e) ''blocked''" "re_reasons row = vl_reasons e"
  using assms
  by (auto simp: record_dataset_readiness_evaluation_def draw_id_def note_rcall_def ry_now_def check_Inr Let_def elim!: seqE)

text \<open>
  An evaluation is stored once: after it was stored, or found to be stored, storing the same result again finds the
  row and adds none, as long as nothing else was stored.
\<close>

theorem evaluation_stored_once:
  assumes first: "persist_dataset_readiness_evaluation_with_dedupe G t p d e source force R = (Inr (i, time, fresh), R1)"
    and e: "vl_policy e \<noteq> []" "vl_status e \<in> {''eligible'', ''blocked''}"
    and past: "\<forall>r \<in> set (ry_evals R). re_at r \<le> ry_now R" and later: "ry_evals R2 = ry_evals R1"
  shows "persist_dataset_readiness_evaluation_with_dedupe G t p d e source' False R2 = (Inr (i, time, False), R2)"
proof -
  let ?scope = "\<lambda>r. re_tenant r = t \<and> re_project r = p \<and> re_dataset r = d \<and> re_policy r = Some (vl_policy e) \<and>
    re_version r = normalize_dataset_version_id (vl_version e)"
  let ?latest = "\<lambda>R. get_latest_dataset_readiness_evaluation_for_scope R t p d (vl_policy e)
    (normalize_dataset_version_id (vl_version e))"
  have "\<exists>s. ?latest R1 = Some s \<and> readiness_eval_result_matches_stored_row s e \<and> re_id s = i \<and> re_at s = time"
  proof (cases fresh)
    case False
    then show ?thesis using first
      by (auto simp: persist_dataset_readiness_evaluation_with_dedupe_def elim!: seqE split: option.splits if_splits)
  next
    case True
    then have rec: "record_dataset_readiness_evaluation G t p d e source R = (Inr i, R1)" and time: "time = ry_now R"
      using first by (auto simp: persist_dataset_readiness_evaluation_with_dedupe_def elim!: seqE split: option.splits if_splits)
    from rec obtain row where row: "ry_evals R1 = ry_evals R @ [row]" "re_id row = i" "re_at row = ry_now R" "?scope row"
      and same: "re_required row = vl_required e" "re_current row = vl_current e"
        "re_status row = text_or (vl_status e) ''blocked''" "re_reasons row = vl_reasons e"
      using e(1) by (elim record_evaluation_ok) (auto simp: some_nonempty_def)
    have "?latest R1 = Some row"
      using row(1,3,4) past
      by (simp add: get_latest_dataset_readiness_evaluation_for_scope_def Let_def sort_key_snoc_greatest)
    moreover have "readiness_eval_result_matches_stored_row row e"
      using same row(4) e by (auto simp: readiness_eval_result_matches_stored_row_def text_or_def)
    ultimately show ?thesis using row time by auto
  qed
  moreover have "?latest R2 = ?latest R1" using later by (simp add: get_latest_dataset_readiness_evaluation_for_scope_def)
  ultimately show ?thesis by (auto simp: persist_dataset_readiness_evaluation_with_dedupe_def)
qed

text \<open>
  The alias for a version never evaluates: whatever \<open>persist\<close> says, an answer is that a job was queued, and nothing is
  stored but the job.
\<close>

theorem version_alias_only_queues:
  assumes "post_dataset_version_readiness_evaluate_v1 G F t p d v policy source persist force R = (Inr a, R')"
  shows "\<exists>i s job. a = Queued i s \<and> ry_jobs R' = ry_jobs R @ [job] \<and> ry_evals R' = ry_evals R"
  using assms
  by (auto simp: post_dataset_version_readiness_evaluate_v1_def post_dataset_readiness_evaluate_v1_def
      enqueue_readiness_evaluation_def draw_id_def elim!: seqE split: if_splits)


subsection \<open>The queue\<close>

definition jobs_kept :: "readiness \<Rightarrow> readiness \<Rightarrow> bool" where
  "jobs_kept R R' \<longleftrightarrow> ry_jobs R' = ry_jobs R"

interpretation jk: change jobs_kept
  by unfold_locales (simp_all add: jobs_kept_def)

lemma jobs_put: "(\<And>R. ry_jobs (f R) = ry_jobs R) \<Longrightarrow> jk.keeps (put f)"
  by (rule jk.keeps_put) (simp add: jobs_kept_def)

lemma jobs_lift: "jk.keeps (lift_ract m)"
  by (cases m) (simp_all add: jk.keeps_basic)

lemma jobs_draw: "jk.keeps (draw_id G)"
  unfolding draw_id_def by (intro jk.keeps_seq jk.keeps_basic jobs_put) simp

lemma jobs_insert_policy: "jk.keeps (insert_policy q)"
  unfolding insert_policy_def
  by (intro jk.keeps_seq jk.keeps_basic jobs_put jk.keeps_case_prod) simp

lemma jobs_evaluate: "jk.keeps (evaluate_dataset_readiness G t p d policy vid n)"
  unfolding evaluate_dataset_readiness_def get_or_create_dataset_training_policy_def Let_def
  by (intro jk.keeps_seq jk.keeps_basic jk.keeps_case_option jk.keeps_if jobs_lift jobs_draw jobs_insert_policy)

lemma jobs_record: "jk.keeps (record_dataset_readiness_evaluation G t p d e source)"
  unfolding record_dataset_readiness_evaluation_def note_rcall_def Let_def
  by (intro jk.keeps_seq jk.keeps_basic jk.keeps_case_prod jobs_draw jobs_put) simp_all

lemma jobs_persist: "jk.keeps (persist_and_announce G t p d e source force)"
  unfolding persist_and_announce_def persist_dataset_readiness_evaluation_with_dedupe_def note_rcall_def
  by (intro jk.keeps_seq jk.keeps_basic jk.keeps_case_prod jk.keeps_case_option jk.keeps_if jobs_record jobs_put) simp_all

lemma process_keeps_jobs: "ry_jobs (snd (process_one G raw R)) = ry_jobs R"
proof -
  have keeps: "jk.keeps (run_job G job t p d)" for job t p d
    unfolding run_job_def by (intro jk.keeps_seq jobs_evaluate jobs_persist)
  have "ry_jobs R' = ry_jobs R" if "run_job G job t p d R = (r, R')" for job t p d r R'
    using jk.keepsD [OF keeps, of R job t p d] that by (simp add: jobs_kept_def)
  then show ?thesis by (auto simp: process_one_def Let_def split: option.split pyval.split prod.split sum.split)
qed

text \<open>
  A drain takes the oldest jobs off the queue, as many as it may, and counts at most as many as it took; a job
  that fails is off the queue too.
\<close>

theorem drain_takes_oldest:
  "ry_jobs (snd (drain_once G n R)) = drop (nat (max 1 (min n 32))) (ry_jobs R) \<and>
   fst (drain_once G n R) \<le> min (nat (max 1 (min n 32))) (length (ry_jobs R))"
proof -
  have "ry_jobs (snd (drain_loop G m k R)) = drop m (ry_jobs R) \<and>
      fst (drain_loop G m k R) \<le> k + min m (length (ry_jobs R))" for m k
  proof (induction m arbitrary: k R)
    case (Suc m)
    show ?case
    proof (cases "ry_jobs R")
      case (Cons raw rest)
      obtain b R' where one: "process_one G raw (R\<lparr>ry_jobs := rest\<rparr>) = (b, R')" by fastforce
      then have "ry_jobs R' = rest" using process_keeps_jobs [of G raw "R\<lparr>ry_jobs := rest\<rparr>"] by simp
      then show ?thesis using Suc.IH [of "if b then Suc k else k" R'] Cons one by (auto split: if_splits)
    qed simp
  qed simp
  from this [of "nat (max 1 (min n 32))" 0] show ?thesis by (simp add: drain_once_def)
qed

text \<open>A read of the readiness without a policy id writes a policy, when the dataset has none without a model.\<close>

lemma read_creates_policy:
  assumes "get_dataset_readiness_v1 G t p d n vid None R = (Inr e, R')"
    and "find (\<lambda>q. in_dataset t p d q \<and> dp_model q = None) (ry_policies R) = None"
  shows "\<exists>q. ry_policies R' = ry_policies R @ [q] \<and> in_dataset t p d q"
proof -
  have "\<exists>m. evaluate_dataset_readiness G t p d None vid m R = (Inr e, R')"
    using assms(1) by (fastforce simp: get_dataset_readiness_v1_def map_value_error_def split: prod.splits sum.splits pyerr.splits)
  then show ?thesis
    using assms(2)
    by (auto simp: evaluate_dataset_readiness_def get_or_create_dataset_training_policy_def Let_def lift_ract_Inr
        insert_policy_def draw_id_def check_Inr in_dataset_def elim!: seqE split: option.splits)
qed

text \<open>An upsert under the id of a policy of another dataset rewrites that policy, and the dataset gets none.\<close>

lemma policy_of_another_overwritten:
  assumes "upsert_dataset_training_policy G t p d (Some i) a R = (Inr w, R')" and "i \<noteq> []"
    and "q \<in> set (ry_policies R)" "dp_id q = i" "\<not> in_dataset t p d q"
  shows "map dp_id (ry_policies R') = map dp_id (ry_policies R) \<and> dp_rules (the (find (\<lambda>r. dp_id r = i) (ry_policies R'))) =
    VList (pg_rules a)"
proof -
  have known: "list_ex (\<lambda>r. dp_id r = i) (ry_policies R)" using assms(3,4) by (auto simp: list_ex_iff)
  let ?f = "\<lambda>r. if dp_id r = i then r\<lparr>dp_required := dp_required (policy_of_args i t p d a (ry_now R)),
      dp_fresh := dp_fresh (policy_of_args i t p d a (ry_now R)), dp_trigger := dp_trigger (policy_of_args i t p d a (ry_now R)),
      dp_rules := dp_rules (policy_of_args i t p d a (ry_now R)), dp_model := dp_model (policy_of_args i t p d a (ry_now R))\<rparr> else r"
  have R': "ry_policies R' = map ?f (ry_policies R)"
    using assms(1,2) known by (auto simp: upsert_dataset_training_policy_def overwrite_policy_def Let_def check_Inr elim!: seqE)
  have "list_ex (\<lambda>r. dp_id r = i) rs \<Longrightarrow> dp_rules (the (find (\<lambda>r. dp_id r = i) (map ?f rs))) = VList (pg_rules a)" for rs
    by (induction rs) (auto simp: policy_of_args_def)
  then show ?thesis using R' known by simp
qed

end
