(* ===== verification/DriftLaws.thy ===== *)
theory DriftLaws
  imports Drift
begin

text \<open>
  The stability index as a measure: with a logarithm that has the sign of a logarithm, an index that is a number
  is not negative, and that of a distribution with itself is zero.
\<close>

text \<open>What is used of \<open>math.log\<close>.\<close>

definition log_signed :: "drift_env \<Rightarrow> bool" where
  "log_signed D \<longleftrightarrow> (\<forall>q > 0. (1 \<le> q \<longrightarrow> 0 \<le> de_log D q) \<and> (q \<le> 1 \<longrightarrow> de_log D q \<le> 0))"

lemma fadd_Fin: "fadd a b = Fin q \<longleftrightarrow> (\<exists>x y. a = Fin x \<and> b = Fin y \<and> q = x + y)"
  by (cases a; cases b) (auto simp: fadd_def)

lemma fneg_Fin: "fneg a = Fin q \<longleftrightarrow> a = Fin (- q)"
  by (cases a) (auto simp: fneg_def)

lemma fmul_Fin: "fmul a b = Fin q \<longleftrightarrow> (\<exists>x y. a = Fin x \<and> b = Fin y \<and> q = x * y)"
  by (cases a; cases b) (auto simp: fmul_def)

lemma sum_Fin:
  assumes "foldl fadd a ts = Fin x"
  obtains y ys where "a = Fin y" "ts = map Fin ys" "x = y + sum_list ys"
  using assms
proof (induction ts arbitrary: a thesis)
  case (Cons t ts)
  obtain y ys where "fadd a t = Fin y" "ts = map Fin ys" "x = y + sum_list ys"
    using Cons.IH [of "fadd a t"] Cons.prems(2) by auto
  moreover obtain u v where "a = Fin u" "t = Fin v" "y = u + v" using calculation(1) by (auto simp: fadd_Fin)
  ultimately show ?case using Cons.prems(1) [of u "v # ys"] by (simp add: algebra_simps)
qed auto

lemma at_least_epsilon: "fmax a psi_epsilon = Fin q \<Longrightarrow> 0 < q"
  by (cases a) (auto simp: fmax_def psi_epsilon_def fgt_def split: if_splits)

lemma psi_term_sign:
  assumes "psi_term D b c k = Inr (Fin x)" and "log_signed D"
  shows "0 \<le> x \<and> (share_of b k = share_of c k \<longrightarrow> x = 0)"
proof -
  obtain l where l: "flog D (fdiv (fmax (share_of c k) psi_epsilon) (fmax (share_of b k) psi_epsilon)) = Inr l"
    and x: "fmul (fadd (fmax (share_of c k) psi_epsilon) (fneg (fmax (share_of b k) psi_epsilon))) l = Fin x"
    using assms(1) by (auto simp: psi_term_def Let_def pbind_eq_Inr)
  obtain u v w where pc: "fmax (share_of c k) psi_epsilon = Fin u" and pb: "fmax (share_of b k) psi_epsilon = Fin v"
    and w: "l = Fin w" and xs: "x = (u - v) * w"
    using x by (auto simp: fmul_Fin fadd_Fin fneg_Fin)
  have pos: "0 < u" "0 < v" using pc pb by (auto dest: at_least_epsilon)
  then have ratio: "0 < u / v" and lw: "w = de_log D (u / v)" using l pc pb w by (simp_all add: fdiv_def flog_def)
  have "0 \<le> (u - v) * w"
  proof (cases "v \<le> u")
    case True
    then have "0 \<le> w" using assms(2) ratio lw pos by (simp add: log_signed_def)
    then show ?thesis using True by simp
  next
    case False
    then have "w \<le> 0" using assms(2) ratio lw pos by (simp add: log_signed_def)
    then show ?thesis using False by (simp add: mult_nonpos_nonpos)
  qed
  then show ?thesis using xs pc pb by auto
qed

lemma traverse_Inr: "traverse f xs = Inr ys \<Longrightarrow> list_all2 (\<lambda>x y. f x = Inr y) xs ys"
  by (induction xs arbitrary: ys) (auto simp: pbind_eq_Inr)

text \<open>
  The index is a measure of change: it is never negative, and a distribution has not changed from itself.
\<close>

theorem psi_measures_change:
  assumes "compute_psi D baseline current = Inr (Fin x)" and "log_signed D"
  shows "0 \<le> x \<and> (baseline = current \<longrightarrow> x = 0)"
proof (cases "all_keys baseline current = []")
  case False
  then obtain b c ts where b: "normalize_distribution baseline = Inr b" and c: "normalize_distribution current = Inr c"
    and ts: "traverse (psi_term D b c) (all_keys baseline current) = Inr ts" and x: "foldl fadd (Fin 0) ts = Fin x"
    using assms(1) by (auto simp: compute_psi_def Let_def pbind_eq_Inr)
  obtain ys where ys: "ts = map Fin ys" "x = sum_list ys" using sum_Fin [OF x] by auto
  have each: "\<exists>k. psi_term D b c k = Inr (Fin y)" if "y \<in> set ys" for y
    using traverse_Inr [OF ts] that unfolding ys list_all2_map2 by (auto simp: list_all2_conv_all_nth in_set_conv_nth)
  have "0 \<le> sum_list ys" using psi_term_sign [OF _ assms(2)] each by (intro sum_list_nonneg) blast
  moreover have "sum_list ys = 0" if "baseline = current"
  proof -
    have "y = 0" if "y \<in> set ys" for y
      using each [OF that] psi_term_sign [OF _ assms(2)] b c \<open>baseline = current\<close> by auto
    then show ?thesis by (induction ys) auto
  qed
  ultimately show ?thesis using ys by simp
qed (use assms in \<open>auto simp: compute_psi_def\<close>)

end
