(* ===== verification/ReadinessExamples.thy ===== *)
theory ReadinessExamples
  imports ReadinessLaws DriftLaws SchedExamples
begin

text \<open>A dataset with one version and one policy, on which the properties of the readiness gates apply.\<close>

text \<open>A rational function with the sign of a logarithm.\<close>

definition desk_drift :: drift_env where
  "desk_drift = \<lparr>de_log = (\<lambda>q. (q - 1) / (q + 1)), de_repr = (\<lambda>f. ''x'')\<rparr>"

definition desk_env :: gate_env where
  "desk_env = \<lparr>ge_lake = \<lparr>le_uuid = (\<lambda>n. ''u'' @ nat_str n), le_sha256 = (\<lambda>s. s), le_iso = int_str, le_root = None,
     le_legacy_label = None, le_validate = None\<rparr>, ge_ext = example_ext, ge_drift = desk_drift, ge_legacy = False\<rparr>"

definition desk_lake :: lake where
  "desk_lake = \<lparr>lk_datasets = [\<lparr>ds_id = ''d1'', ds_tenant = ''t'', ds_project = ''p'', ds_name = ''frames'', ds_uri = None,
       ds_checksum = None, ds_size = 4, ds_updated = 0\<rparr>],
     lk_versions = [\<lparr>dv_id = ''i1'', dv_dataset = ''d1'', dv_version = ''v1'', dv_uri = None, dv_checksum = None,
       dv_source = None, dv_canon = None, dv_count = Some 5, dv_status = ''ready'', dv_score = 100, dv_summary = [],
       dv_details = VList [], dv_tags = VList [], dv_refs = VList [], dv_buffered = False, dv_key = None, dv_by = None,
       dv_created = 0\<rparr>],
     lk_buffers = [], lk_edges = [], lk_files = [], lk_runs = [], lk_calls = [], lk_drawn = 0, lk_now = 60000000\<rparr>"

definition desk :: "int \<Rightarrow> readiness" where
  "desk required = \<lparr>ry_lake = desk_lake, ry_runs = [], ry_models = [], ry_inputs = [],
     ry_policies = [\<lparr>dp_id = ''q1'', dp_tenant = ''t'', dp_project = ''p'', dp_dataset = ''d1'', dp_model = None,
       dp_required = required, dp_fresh = 24, dp_trigger = ''manual'', dp_rules = VList [], dp_created = 0\<rparr>],
     ry_evals = [], ry_jobs = [], ry_calls = []\<rparr>"

definition desk_evaluation :: "int \<Rightarrow> pyerr + training_evaluation" where
  "desk_evaluation n = fst (evaluate_dataset_readiness desk_env ''t'' ''p'' ''d1'' (Some ''q1'') (Some ''i1'') VNone (desk n))"

lemma desk_okE: "is_ok m \<Longrightarrow> \<exists>x. m = Inr x"
  by (cases m) simp_all

lemma desk_blocked: "\<exists>e R'. evaluate_dataset_readiness desk_env ''t'' ''p'' ''d1'' (Some ''q1'') (Some ''i1'') VNone (desk 9) =
    (Inr e, R') \<and> \<not> vl_ready e"
proof -
  have "(case desk_evaluation 9 of Inr e \<Rightarrow> \<not> vl_ready e | Inl x \<Rightarrow> False)" by code_simp
  then obtain e where "desk_evaluation 9 = Inr e" "\<not> vl_ready e" by (auto split: sum.splits)
  then show ?thesis unfolding desk_evaluation_def by (metis prod.collapse)
qed


definition desk_flags :: gate_flags where
  "desk_flags = \<lparr>gf_require_inputs = True, gf_strict_version = True, gf_strict_all = True, gf_async_queue = True\<rparr>"

definition desk_config :: pydict where
  "desk_config = [(''inputs'', VList [VDict [(''dataset'', VStr ''frames''), (''required_size'', VInt 2)]])]"

definition desk_gate :: "((pydict \<times> pydict) py) \<times> readiness" where
  "desk_gate = gate_run desk_env desk_flags ''t'' ''p'' desk_config [] [] (Some ''i1'') (desk 3)"

lemma gated_run_justified_witness:
  "\<exists>ov ctx v q. gate_run desk_env desk_flags ''t'' ''p'' desk_config [] [] (Some ''i1'') (desk 3) = (Inr (ov, ctx), desk 3) \<and>
     get_dataset_version (ry_lake (desk 3)) ''t'' ''p'' (fst (pinned_of (ry_lake (desk 3)) ''t'' ''p'' ov ctx)) = Some v \<and>
     q \<in> set (ry_policies (desk 3)) \<and> satisfies desk_env (desk 3) q v"
proof -
  have "(case fst desk_gate of Inr (ov, ctx) \<Rightarrow> fst (pinned_of (ry_lake (desk 3)) ''t'' ''p'' ov ctx) = ''i1'' | Inl e \<Rightarrow> False)"
    by code_simp
  moreover obtain r R' where g: "desk_gate = (r, R')" by fastforce
  ultimately obtain ov ctx where run: "gate_run desk_env desk_flags ''t'' ''p'' desk_config [] [] (Some ''i1'') (desk 3) = (Inr (ov, ctx), R')"
    and pin: "fst (pinned_of (ry_lake (desk 3)) ''t'' ''p'' ov ctx) = ''i1''"
    using that by (cases r) (auto simp: desk_gate_def)
  have "policies_named (desk 3)" by (simp add: policies_named_def desk_def)
  from gated_run_justified [OF run this] pin run show ?thesis by auto
qed

lemma evaluation_stored_once_witness:
  "\<exists>e i time R1. persist_dataset_readiness_evaluation_with_dedupe desk_env ''t'' ''p'' ''d1'' e (Some ''manual'') False (desk 9) =
       (Inr (i, time, True), R1) \<and>
     persist_dataset_readiness_evaluation_with_dedupe desk_env ''t'' ''p'' ''d1'' e None False R1 = (Inr (i, time, False), R1)"
proof -
  have "(case desk_evaluation 9 of Inl x \<Rightarrow> False | Inr e \<Rightarrow>
      (case persist_dataset_readiness_evaluation_with_dedupe desk_env ''t'' ''p'' ''d1'' e (Some ''manual'') False (desk 9) of
         (Inr (i, time, fresh), R1) \<Rightarrow> fresh \<and> vl_policy e = ''q1'' \<and> vl_status e = ''blocked'' | _ \<Rightarrow> False))"
    by code_simp
  then obtain e i time R1 where first: "persist_dataset_readiness_evaluation_with_dedupe desk_env ''t'' ''p'' ''d1'' e
      (Some ''manual'') False (desk 9) = (Inr (i, time, True), R1)" and e: "vl_policy e = ''q1''" "vl_status e = ''blocked''"
    by (auto split: sum.splits prod.splits)
  have "ry_evals (desk 9) = []" by (simp add: desk_def)
  then show ?thesis using evaluation_stored_once [OF first, of R1 None] e first by auto
qed

lemma version_alias_only_queues_witness:
  "\<exists>a R' i s. post_dataset_version_readiness_evaluate_v1 desk_env desk_flags ''t'' ''p'' ''d1'' ''i1'' None None True False (desk 3) =
     (Inr a, R') \<and> a = Queued i s \<and> ry_evals R' = []"
proof -
  have "is_ok (fst (post_dataset_version_readiness_evaluate_v1 desk_env desk_flags ''t'' ''p'' ''d1'' ''i1'' None None True False (desk 3)))"
    by code_simp
  then obtain a R' where run: "post_dataset_version_readiness_evaluate_v1 desk_env desk_flags ''t'' ''p'' ''d1'' ''i1'' None None
      True False (desk 3) = (Inr a, R')" by (metis desk_okE prod.collapse)
  have "ry_evals (desk 3) = []" by (simp add: desk_def)
  then show ?thesis using version_alias_only_queues [OF run] run by auto
qed

lemma refusal_without_reasons_witness:
  "fst (enforce_mlair_training_policy_readiness desk_env ''t'' ''p'' ''d1'' ''i1'' None None (desk 9)) =
     Inl (HTTPException 422 ''mlair_readiness_not_eligible'')"
proof -
  have "fst (require_dataset_training_eligibility desk_env ''t'' ''p'' ''d1'' ''i1'' None None (desk 9)) =
      Inl (ValueError ''mlair_readiness_not_eligible'')" by code_simp
  then obtain R' where "require_dataset_training_eligibility desk_env ''t'' ''p'' ''d1'' ''i1'' None None (desk 9) =
      (Inl (ValueError ''mlair_readiness_not_eligible''), R')" by (metis prod.collapse)
  from refusal_without_reasons [OF this] show ?thesis by simp
qed

lemma desk_log: "log_signed desk_drift"
  by (simp add: log_signed_def desk_drift_def divide_le_0_iff)

lemma psi_measures_change_witness:
  "\<exists>x. compute_psi desk_drift [(''cat'', VInt 1), (''dog'', VInt 1)] [(''cat'', VInt 1), (''dog'', VInt 3)] = Inr (Fin x) \<and> 0 \<le> x"
proof -
  have keys: "all_keys [(''cat'', VInt 1), (''dog'', VInt 1)] [(''cat'', VInt 1), (''dog'', VInt 3)] = [''cat'', ''dog'']"
    by code_simp
  have floats: "float_items [(''cat'', VInt 1), (''dog'', VInt n)] = Inr [(''cat'', Fin 1), (''dog'', Fin (of_int n))]"
    if "n \<in> {1, 3}" for n
    using that by (auto simp: float_items_def max_double_def)
  have "compute_psi desk_drift [(''cat'', VInt 1), (''dog'', VInt 1)] [(''cat'', VInt 1), (''dog'', VInt 3)] = Inr (Fin (2 / 15))"
    by (simp add: compute_psi_def keys normalize_distribution_def floats not_positive_def fgt_def fadd_def fdiv_def
        psi_term_def share_of_def fmax_def psi_epsilon_def flog_def fneg_def fmul_def desk_drift_def)
  then show ?thesis using psi_measures_change [OF _ desk_log] by blast
qed

end
