(* ===== verification/EventCodec.thy ===== *)
theory EventCodec
  imports Aggregates Pagination
begin

text \<open>
  Model of \<^verbatim>\<open>shared/events/domain_event_codec.py\<close>, \<^verbatim>\<open>context.py\<close>, \<^verbatim>\<open>envelope.py\<close>, \<^verbatim>\<open>domain_event_registry.py\<close> and of
  the mapping of \<^verbatim>\<open>orchestration/webhook_event_handler.py\<close>: domain events in their envelopes, as the outbox stores
  them. Python keeps any JSON value in a field of an event; here a value of another type than the class says is
  a \<^term>\<open>TypeError\<close>. Reading back what was written gives the envelope.
\<close>

subsection \<open>Envelopes\<close>

record actor_ref =
  ac_type :: string
  ac_id :: "string option"
  ac_name :: "string option"

record event_context =
  cx_tenant :: string
  cx_project :: "string option"
  cx_actor :: "actor_ref option"
  cx_correlation :: "string option"
  cx_ip :: "string option"
  cx_agent :: "string option"
  cx_request :: "string option"

record envelope =
  nv_id :: string
  nv_version :: int
  nv_at :: int
  nv_event :: event
  nv_context :: event_context

definition opt_val :: "string option \<Rightarrow> pyval" where
  "opt_val v = (case v of None \<Rightarrow> VNone | Some s \<Rightarrow> VStr s)"

definition actor_to_dict :: "actor_ref option \<Rightarrow> pyval" where
  "actor_to_dict a = (case a of None \<Rightarrow> VNone
     | Some r \<Rightarrow> VDict [(''actor_type'', VStr (ac_type r)), (''actor_id'', opt_val (ac_id r)), (''actor_name'', opt_val (ac_name r))])"

definition context_to_dict :: "event_context \<Rightarrow> pydict" where
  "context_to_dict c =
     [(''tenant_id'', VStr (cx_tenant c)), (''project_id'', opt_val (cx_project c)), (''actor'', actor_to_dict (cx_actor c)),
      (''correlation_id'', opt_val (cx_correlation c)), (''ip'', opt_val (cx_ip c)), (''user_agent'', opt_val (cx_agent c)),
      (''request_id'', opt_val (cx_request c))]"

text \<open>\<open>asdict\<close>, and \<open>type(event).__name__\<close>.\<close>

fun event_fields :: "event \<Rightarrow> pydict" where
  "event_fields (RunCreated r p s) = [(''run_id'', VStr r), (''pipeline_id'', VStr p), (''status'', VStr s)]"
| "event_fields (RunStarted r p a b) =
     [(''run_id'', VStr r), (''pipeline_id'', VStr p), (''from_status'', VStr a), (''to_status'', VStr b)]"
| "event_fields (RunCompleted r p a b) =
     [(''run_id'', VStr r), (''pipeline_id'', VStr p), (''from_status'', VStr a), (''to_status'', VStr b)]"
| "event_fields (RunFailed r p a b why) =
     [(''run_id'', VStr r), (''pipeline_id'', VStr p), (''from_status'', VStr a), (''to_status'', VStr b),
      (''reason'', opt_val why)]"
| "event_fields (RunCancelled r p a b) =
     [(''run_id'', VStr r), (''pipeline_id'', VStr p), (''from_status'', VStr a), (''to_status'', VStr b)]"
| "event_fields (ModelVersionCreated m v n s) =
     [(''model_id'', VStr m), (''model_version_id'', VStr v), (''version'', VInt n), (''stage'', VStr s)]"
| "event_fields (ModelVersionApproved m v n why) =
     [(''model_id'', VStr m), (''model_version_id'', VStr v), (''version'', VInt n), (''reason'', opt_val why)]"
| "event_fields (ModelVersionRejected m v n why) =
     [(''model_id'', VStr m), (''model_version_id'', VStr v), (''version'', VInt n), (''reason'', opt_val why)]"
| "event_fields (ModelVersionPromoted m v n a b q) =
     [(''model_id'', VStr m), (''model_version_id'', VStr v), (''version'', VInt n), (''from_stage'', VStr a),
      (''to_stage'', VStr b), (''approval_status'', opt_val q)]"
| "event_fields (ModelVersionRollback m v n a b q) =
     [(''model_id'', VStr m), (''model_version_id'', VStr v), (''version'', VInt n), (''from_stage'', VStr a),
      (''to_stage'', VStr b), (''approval_status'', opt_val q)]"
| "event_fields (ModelVersionDeleted m v n) =
     [(''model_id'', VStr m), (''model_version_id'', VStr v), (''version'', VInt n)]"
| "event_fields (DatasetCreated d n) = [(''dataset_id'', VStr d), (''name'', VStr n)]"
| "event_fields (DatasetDeleted d) = [(''dataset_id'', VStr d)]"
| "event_fields (PipelineVersionCreated p v n) =
     [(''pipeline_id'', VStr p), (''pipeline_version_id'', VStr v), (''version'', VInt n)]"
| "event_fields (ReadinessEvaluated i d v p st src req cur rs) =
     [(''evaluation_id'', VStr i), (''dataset_id'', VStr d), (''dataset_version_id'', opt_val v), (''policy_id'', opt_val p),
      (''status'', VStr st), (''source'', VStr src), (''required_size'', VInt req), (''current_size'', VInt cur),
      (''reasons'', VList rs)]"

fun event_type_of :: "event \<Rightarrow> string" where
  "event_type_of (RunCreated r p s) = ''RunCreated''"
| "event_type_of (RunStarted r p a b) = ''RunStarted''"
| "event_type_of (RunCompleted r p a b) = ''RunCompleted''"
| "event_type_of (RunFailed r p a b why) = ''RunFailed''"
| "event_type_of (RunCancelled r p a b) = ''RunCancelled''"
| "event_type_of (ModelVersionCreated m v n s) = ''ModelVersionCreated''"
| "event_type_of (ModelVersionApproved m v n why) = ''ModelVersionApproved''"
| "event_type_of (ModelVersionRejected m v n why) = ''ModelVersionRejected''"
| "event_type_of (ModelVersionPromoted m v n a b q) = ''ModelVersionPromoted''"
| "event_type_of (ModelVersionRollback m v n a b q) = ''ModelVersionRollback''"
| "event_type_of (ModelVersionDeleted m v n) = ''ModelVersionDeleted''"
| "event_type_of (DatasetCreated d n) = ''DatasetCreated''"
| "event_type_of (DatasetDeleted d) = ''DatasetDeleted''"
| "event_type_of (PipelineVersionCreated p v n) = ''PipelineVersionCreated''"
| "event_type_of (ReadinessEvaluated i d v p st src req cur rs) = ''ReadinessEvaluated''"

definition event_to_dict :: "event \<Rightarrow> pydict" where
  "event_to_dict e = (''__type__'', VStr (event_type_of e)) # event_fields e"

definition serialize_envelope :: "ext \<Rightarrow> envelope \<Rightarrow> pydict" where
  "serialize_envelope X n =
     [(''event_id'', VStr (nv_id n)), (''event_version'', VInt (nv_version n)), (''occurred_at'', VStr (x_iso X (nv_at n))),
      (''event'', VDict (event_to_dict (nv_event n))), (''context'', VDict (context_to_dict (nv_context n)))]"

subsection \<open>Reading\<close>

definition text_field :: "pydict \<Rightarrow> string \<Rightarrow> string py" where
  "text_field d k = (case map_of d k of Some (VStr s) \<Rightarrow> ok s | _ \<Rightarrow> raise TypeError)"

definition opt_field :: "pydict \<Rightarrow> string \<Rightarrow> string option py" where
  "opt_field d k = (case map_of d k of Some (VStr s) \<Rightarrow> ok (Some s) | Some VNone \<Rightarrow> ok None | _ \<Rightarrow> raise TypeError)"

definition int_field :: "pydict \<Rightarrow> string \<Rightarrow> int py" where
  "int_field d k = (case map_of d k of Some (VInt n) \<Rightarrow> ok n | _ \<Rightarrow> raise TypeError)"

text \<open>A field with a default in its class.\<close>

definition default_field :: "pydict \<Rightarrow> string \<Rightarrow> 'a \<Rightarrow> (pydict \<Rightarrow> string \<Rightarrow> 'a py) \<Rightarrow> 'a py" where
  "default_field d k dflt get = (if map_of d k = None then ok dflt else get d k)"

definition list_field :: "pydict \<Rightarrow> string \<Rightarrow> pyval list py" where
  "list_field d k = (case map_of d k of Some (VList xs) \<Rightarrow> ok xs | _ \<Rightarrow> raise TypeError)"

definition run_moved :: "pydict \<Rightarrow> string \<Rightarrow> (string \<Rightarrow> string \<Rightarrow> string \<Rightarrow> string \<Rightarrow> event) \<Rightarrow> event py" where
  "run_moved d to_default f =
     pbind (text_field d ''run_id'') (\<lambda>r. pbind (text_field d ''pipeline_id'') (\<lambda>p.
     pbind (text_field d ''from_status'') (\<lambda>a. pbind (default_field d ''to_status'' to_default text_field) (\<lambda>b.
       ok (f r p a b)))))"

definition version_event :: "pydict \<Rightarrow> (string \<Rightarrow> string \<Rightarrow> int \<Rightarrow> event py) \<Rightarrow> event py" where
  "version_event d f =
     pbind (text_field d ''model_id'') (\<lambda>m. pbind (text_field d ''model_version_id'') (\<lambda>v.
     pbind (int_field d ''version'') (\<lambda>n. f m v n)))"

definition stage_moved :: "pydict \<Rightarrow> (string \<Rightarrow> string \<Rightarrow> int \<Rightarrow> string \<Rightarrow> string \<Rightarrow> string option \<Rightarrow> event) \<Rightarrow> event py" where
  "stage_moved d f = version_event d (\<lambda>m v n.
     pbind (text_field d ''from_stage'') (\<lambda>a. pbind (text_field d ''to_stage'') (\<lambda>b.
     pbind (opt_field d ''approval_status'') (\<lambda>q. ok (f m v n a b q)))))"

definition reasoned :: "pydict \<Rightarrow> (string \<Rightarrow> string \<Rightarrow> int \<Rightarrow> string option \<Rightarrow> event) \<Rightarrow> event py" where
  "reasoned d f = version_event d (\<lambda>m v n. pbind (opt_field d ''reason'') (\<lambda>why. ok (f m v n why)))"

definition readiness_event :: "pydict \<Rightarrow> event py" where
  "readiness_event d =
     pbind (text_field d ''evaluation_id'') (\<lambda>i. pbind (text_field d ''dataset_id'') (\<lambda>ds.
     pbind (opt_field d ''dataset_version_id'') (\<lambda>v. pbind (opt_field d ''policy_id'') (\<lambda>p.
     pbind (text_field d ''status'') (\<lambda>st. pbind (text_field d ''source'') (\<lambda>src.
     pbind (int_field d ''required_size'') (\<lambda>req. pbind (int_field d ''current_size'') (\<lambda>cur.
     pbind (default_field d ''reasons'' [] list_field) (\<lambda>rs. ok (ReadinessEvaluated i ds v p st src req cur rs))))))))))"

definition known_events :: "(string \<times> (pydict \<Rightarrow> event py)) list" where
  "known_events =
     [(''ModelVersionCreated'', \<lambda>d. version_event d (\<lambda>m v n. pbind (text_field d ''stage'') (\<lambda>s. ok (ModelVersionCreated m v n s)))),
      (''ModelVersionApproved'', \<lambda>d. reasoned d ModelVersionApproved),
      (''ModelVersionRejected'', \<lambda>d. reasoned d ModelVersionRejected),
      (''ModelVersionPromoted'', \<lambda>d. stage_moved d ModelVersionPromoted),
      (''ModelVersionRollback'', \<lambda>d. stage_moved d ModelVersionRollback),
      (''ModelVersionDeleted'', \<lambda>d. version_event d (\<lambda>m v n. ok (ModelVersionDeleted m v n))),
      (''DatasetCreated'', \<lambda>d. pbind (text_field d ''dataset_id'') (\<lambda>i. pbind (text_field d ''name'') (\<lambda>n. ok (DatasetCreated i n)))),
      (''DatasetDeleted'', \<lambda>d. pbind (text_field d ''dataset_id'') (\<lambda>i. ok (DatasetDeleted i))),
      (''PipelineVersionCreated'', \<lambda>d. pbind (text_field d ''pipeline_id'') (\<lambda>p.
         pbind (text_field d ''pipeline_version_id'') (\<lambda>v. pbind (int_field d ''version'') (\<lambda>n. ok (PipelineVersionCreated p v n))))),
      (''RunCreated'', \<lambda>d. pbind (text_field d ''run_id'') (\<lambda>r. pbind (text_field d ''pipeline_id'') (\<lambda>p.
         pbind (text_field d ''status'') (\<lambda>s. ok (RunCreated r p s))))),
      (''RunStarted'', \<lambda>d. run_moved d ''RUNNING'' RunStarted),
      (''RunCompleted'', \<lambda>d. run_moved d ''SUCCESS'' RunCompleted),
      (''RunFailed'', \<lambda>d. pbind (default_field d ''reason'' None opt_field) (\<lambda>why.
         run_moved d ''FAILED'' (\<lambda>r p a b. RunFailed r p a b why))),
      (''RunCancelled'', \<lambda>d. run_moved d ''CANCELLED'' RunCancelled),
      (''ReadinessEvaluated'', readiness_event)]"

definition event_from_dict :: "pydict \<Rightarrow> event py" where
  "event_from_dict raw =
     (let name = strip (str_or (dget raw ''__type__'') []) in
      case map_of known_events name of
        None \<Rightarrow> raise (ValueError (''unknown_domain_event_type:'' @ name))
      | Some build \<Rightarrow> build (filter (\<lambda>kv. fst kv \<noteq> ''__type__'') raw))"

definition text_value :: "pyval \<Rightarrow> string option" where
  "text_value v = (case v of VStr s \<Rightarrow> Some s | _ \<Rightarrow> None)"

definition actor_from_dict :: "pyval \<Rightarrow> actor_ref option" where
  "actor_from_dict raw = (case raw of
     VDict (e # es) \<Rightarrow> let d = e # es in
       Some \<lparr>ac_type = str_or (dget d ''actor_type'') ''SYSTEM'', ac_id = text_value (dget d ''actor_id''),
         ac_name = text_value (dget d ''actor_name'')\<rparr>
   | _ \<Rightarrow> None)"

definition context_from_dict :: "pydict \<Rightarrow> event_context" where
  "context_from_dict d =
     \<lparr>cx_tenant = str_or (dget d ''tenant_id'') [], cx_project = text_value (dget d ''project_id''),
      cx_actor = actor_from_dict (dget d ''actor''), cx_correlation = text_value (dget d ''correlation_id''),
      cx_ip = text_value (dget d ''ip''), cx_agent = text_value (dget d ''user_agent''),
      cx_request = text_value (dget d ''request_id'')\<rparr>"

definition deserialize_envelope :: "ext \<Rightarrow> pydict \<Rightarrow> envelope py" where
  "deserialize_envelope X raw =
     (case (dget raw ''event'', dget raw ''context'') of
        (VDict ev, VDict ctx) \<Rightarrow>
          (case x_when X (replace_z (py_str (dget raw ''occurred_at''))) of
             None \<Rightarrow> raise (ValueError ''Invalid isoformat string'')
           | Some t \<Rightarrow>
               pbind (py_int (por (dget raw ''event_version'') (VInt 1))) (\<lambda>version.
               pbind (event_from_dict ev) (\<lambda>e.
                 ok \<lparr>nv_id = str_or (dget raw ''event_id'') [], nv_version = version, nv_at = t, nv_event = e,
                   nv_context = context_from_dict ctx\<rparr>)))
      | (VDict ev, _) \<Rightarrow> raise (ValueError ''envelope_missing_context'')
      | _ \<Rightarrow> raise (ValueError ''envelope_missing_event''))"

subsection \<open>Creation and mapping\<close>

definition create_envelope :: "string \<Rightarrow> int \<Rightarrow> event \<Rightarrow> event_context \<Rightarrow> envelope" where
  "create_envelope i now e c = \<lparr>nv_id = i, nv_version = 1, nv_at = now, nv_event = e, nv_context = c\<rparr>"

text \<open>\<open>WebhookEventMapper.map\<close>: the action, the kind of target and the target.\<close>

fun event_action :: "event \<Rightarrow> string \<times> string \<times> string" where
  "event_action (ModelVersionCreated m v n s) = (''model_version.created'', ''model_version'', v)"
| "event_action (ModelVersionApproved m v n why) = (''model_version.approved'', ''model_version'', v)"
| "event_action (ModelVersionRejected m v n why) = (''model_version.rejected'', ''model_version'', v)"
| "event_action (ModelVersionPromoted m v n a b q) = (''model_version.promoted'', ''model_version'', v)"
| "event_action (ModelVersionRollback m v n a b q) = (''model_version.rollback'', ''model_version'', v)"
| "event_action (ModelVersionDeleted m v n) = (''model_version.deleted'', ''model_version'', v)"
| "event_action (DatasetCreated d n) = (''dataset.created'', ''dataset'', d)"
| "event_action (DatasetDeleted d) = (''dataset.deleted'', ''dataset'', d)"
| "event_action (PipelineVersionCreated p v n) = (''pipeline_version.created'', ''pipeline_version'', v)"
| "event_action (RunCreated r p s) = (''run.created'', ''run'', r)"
| "event_action (RunStarted r p a b) = (''run.started'', ''run'', r)"
| "event_action (RunCompleted r p a b) = (''run.completed'', ''run'', r)"
| "event_action (RunFailed r p a b why) = (''run.failed'', ''run'', r)"
| "event_action (RunCancelled r p a b) = (''run.cancelled'', ''run'', r)"
| "event_action (ReadinessEvaluated i d v p st src req cur rs) = (''dataset.readiness.evaluated'', ''dataset'', d)"

record webhook_draft =
  wd_at :: int
  wd_tenant :: string
  wd_project :: string
  wd_actor_kind :: string
  wd_actor_id :: "string option"
  wd_action :: string
  wd_target_type :: string
  wd_target :: string
  wd_metadata :: pydict

definition webhook_draft_of :: "envelope \<Rightarrow> webhook_draft" where
  "webhook_draft_of n =
     (let c = nv_context n; (action, kind, target) = event_action (nv_event n) in
      \<lparr>wd_at = nv_at n, wd_tenant = cx_tenant c,
       wd_project = (case cx_project c of None \<Rightarrow> ''unknown'' | Some p \<Rightarrow> if p = [] then ''unknown'' else p),
       wd_actor_kind = (case cx_actor c of None \<Rightarrow> ''system'' | Some a \<Rightarrow> lower (strip (ac_type a))),
       wd_actor_id = (case cx_actor c of None \<Rightarrow> None | Some a \<Rightarrow> ac_id a), wd_action = action,
       wd_target_type = kind, wd_target = target, wd_metadata = event_fields (nv_event n)\<rparr>)"

subsection \<open>The round trip\<close>

lemma field_simps [simp]:
  "text_value (opt_val v) = v" "text_value (VStr s) = Some s"
  by (cases v) (simp_all add: text_value_def opt_val_def)

lemma actor_back [simp]:
  assumes "\<forall>r. a = Some r \<longrightarrow> ac_type r \<noteq> []"
  shows "actor_from_dict (actor_to_dict a) = a"
  using assms by (cases a) (simp_all add: actor_to_dict_def actor_from_dict_def dget_def)

lemma context_back:
  assumes "\<forall>r. cx_actor c = Some r \<longrightarrow> ac_type r \<noteq> []"
  shows "context_from_dict (context_to_dict c) = c"
  using assms by (simp add: context_from_dict_def context_to_dict_def dget_def)

definition event_types :: "string list" where
  "event_types = map fst known_events"

lemma types_stripped: "map strip event_types = event_types"
  by code_simp

lemma type_known: "event_type_of e \<in> set event_types"
  by (cases e) (simp_all add: event_types_def known_events_def)

lemma map_idI_back: "map f xs = xs \<Longrightarrow> x \<in> set xs \<Longrightarrow> f x = x"
  by (induction xs) auto

lemma strip_type: "strip (event_type_of e) = event_type_of e"
  using types_stripped type_known [of e] by (metis map_idI_back)

lemma known_type: "\<exists>build. map_of known_events (event_type_of e) = Some build"
  using type_known [of e] unfolding event_types_def by (metis map_of_eq_None_iff not_None_eq set_map)

lemma opt_field_val: "map_of d k = Some (opt_val v) \<Longrightarrow> opt_field d k = ok v"
  by (cases v) (simp_all add: opt_field_def opt_val_def)

lemmas reading = run_moved_def version_event_def stage_moved_def reasoned_def readiness_event_def
  text_field_def int_field_def default_field_def list_field_def opt_field_val

lemma fields_back: "map_of known_events (event_type_of e) = Some build \<Longrightarrow> build (event_fields e) = Inr e"
  apply (cases e)
  apply (simp_all only: event_type_of.simps event_fields.simps known_events_def)
  apply (simp_all only: map_of.simps fst_conv snd_conv)
  apply (simp_all)
  apply (hypsubst, simp add: reading)+
  done

lemma no_type_field: "filter (\<lambda>kv. fst kv \<noteq> ''__type__'') (event_fields e) = event_fields e"
  by (cases e) simp_all

lemma event_back: "event_from_dict (event_to_dict e) = Inr e"
  using fields_back [of e] known_type [of e]
  by (auto simp: event_from_dict_def event_to_dict_def dget_def strip_type no_type_field)

text \<open>
  An envelope is read back from the outbox as it was written: event, actor and context, when the actor has a kind
  and the version is not zero.
\<close>

definition iso_inverse :: "ext \<Rightarrow> bool" where
  "iso_inverse X = (\<forall>t. x_when X (replace_z (x_iso X t)) = Some t)"

theorem envelope_roundtrip:
  assumes "iso_inverse X" and "nv_version n \<noteq> 0" and "\<forall>r. cx_actor (nv_context n) = Some r \<longrightarrow> ac_type r \<noteq> []"
  shows "deserialize_envelope X (serialize_envelope X n) = Inr n"
  using assms context_back [OF assms(3)] event_back [of "nv_event n"]
  by (simp add: deserialize_envelope_def serialize_envelope_def dget_def iso_inverse_def por_def)

end
