(* ===== verification/EventBus.thy ===== *)
theory EventBus
  imports EventCodec
begin

text \<open>
  Model of the domain event bus: \<^verbatim>\<open>shared/events/domain_event_outbox_service.py\<close>, \<^verbatim>\<open>postgres_outbox_event_bus.py\<close>,
  \<^verbatim>\<open>inprocess_event_bus.py\<close>, \<^verbatim>\<open>domain_event_dispatch.py\<close>, \<^verbatim>\<open>handler_ack.py\<close> and
  \<^verbatim>\<open>projections/framework/runner.py\<close>. The connection commits every statement, one drain runs at a time, and what the
  work of a handler ends in, and whether it took too long, is given by the environment.
\<close>

subsection \<open>The tables\<close>

record outbox_row =
  ob_id :: string
  ob_tenant :: string
  ob_project :: string
  ob_type :: string
  ob_envelope :: pyval
  ob_created :: int
  ob_delivered :: "int option"
  ob_attempts :: int
  ob_error :: "string option"
  ob_dlq :: "int option"

text \<open>A piece of work that was begun: who, for which event, and its error.\<close>

record handler_work =
  hw_name :: string
  hw_event :: string
  hw_error :: "string option"

record bus =
  bz_rows :: "outbox_row list"
  bz_acks :: "(string \<times> string) list"
  bz_works :: "handler_work list"
  bz_now :: int

text \<open>
  The subscribed handlers: those that claim the event under their name, the runner of projections, and those that
  claim nothing.
\<close>

datatype handler =
    Claiming string
  | Projections "string list"
  | Unclaimed string

text \<open>
  The error of the \<open>n\<close>-th piece of work, whether a handler that begins with it exceeds the time limit, and the text of
  an exception, and of the one that a value without \<^verbatim>\<open>get\<close> raises. The pool that bounds the time waits for the work when it closes, so late work is done all the same.
\<close>

record bus_env =
  bx_ext :: ext
  bx_vars :: "string \<Rightarrow> string option"
  bx_outcome :: "nat \<Rightarrow> string option"
  bx_late :: "nat \<Rightarrow> bool"
  bx_text :: "pyerr \<Rightarrow> string"
  bx_no_get :: "pyval \<Rightarrow> string"
  bx_subscribed :: "string \<Rightarrow> handler list"

definition var_or :: "bus_env \<Rightarrow> string \<Rightarrow> string \<Rightarrow> string" where
  "var_or B name dflt = strip (case bx_vars B name of None \<Rightarrow> dflt | Some v \<Rightarrow> v)"

definition clamped_var :: "bus_env \<Rightarrow> string \<Rightarrow> string \<Rightarrow> int \<Rightarrow> int \<Rightarrow> int \<Rightarrow> int" where
  "clamped_var B name dflt bad lo hi =
     (case parse_int (var_or B name dflt) of None \<Rightarrow> bad | Some n \<Rightarrow> max lo (min n hi))"

definition outbox_writes_enabled :: "bus_env \<Rightarrow> bool" where
  "outbox_writes_enabled B \<longleftrightarrow> var_or B ''ML_AIR_DOMAIN_EVENT_OUTBOX'' ''0'' = ''1''"

definition drain_interval_sec :: "bus_env \<Rightarrow> int" where
  "drain_interval_sec B = clamped_var B ''ML_AIR_DOMAIN_EVENT_OUTBOX_DRAIN_INTERVAL_SEC'' ''5'' 0 0 3600"

definition max_attempts_of :: "bus_env \<Rightarrow> int" where
  "max_attempts_of B = clamped_var B ''ML_AIR_DOMAIN_EVENT_OUTBOX_MAX_ATTEMPTS'' ''5'' 5 1 20"

definition batch_size :: "bus_env \<Rightarrow> int" where
  "batch_size B = clamped_var B ''ML_AIR_DOMAIN_EVENT_OUTBOX_BATCH_SIZE'' ''25'' 25 1 200"

subsection \<open>Publishing\<close>

definition persist_envelope :: "bus_env \<Rightarrow> envelope \<Rightarrow> bus \<Rightarrow> bus" where
  "persist_envelope B n b =
     (let c = nv_context n; tenant = strip (cx_tenant c);
          project = strip (case cx_project c of None \<Rightarrow> ''unknown'' | Some p \<Rightarrow> if p = [] then ''unknown'' else p) in
      if tenant = [] \<or> nv_id n \<in> ob_id ` set (bz_rows b) then b
      else b\<lparr>bz_rows := bz_rows b @ [\<lparr>ob_id = nv_id n, ob_tenant = tenant,
        ob_project = (if project = [] then ''unknown'' else project), ob_type = event_type_of (nv_event n),
        ob_envelope = VDict (serialize_envelope (bx_ext B) n), ob_created = bz_now b, ob_delivered = None, ob_attempts = 0,
        ob_error = None, ob_dlq = None\<rparr>]\<rparr>)"

subsection \<open>Handlers\<close>

text \<open>The first claim of an event by a name wins; the claim is committed before the work.\<close>

definition try_claim_handler_ack :: "string \<Rightarrow> string \<Rightarrow> bus \<Rightarrow> bool \<times> bus" where
  "try_claim_handler_ack event name b =
     (let e = strip event; n = strip name in
      if e = [] \<or> n = [] then (True, b)
      else if (e, n) \<in> set (bz_acks b) then (False, b)
      else (True, b\<lparr>bz_acks := bz_acks b @ [(e, n)]\<rparr>))"

definition do_work :: "bus_env \<Rightarrow> string \<Rightarrow> string \<Rightarrow> bus \<Rightarrow> string option \<times> bus" where
  "do_work B name event b =
     (let r = bx_outcome B (length (bz_works b))
      in (r, b\<lparr>bz_works := bz_works b @ [\<lparr>hw_name = name, hw_event = event, hw_error = r\<rparr>]\<rparr>))"

definition claimed_work :: "bus_env \<Rightarrow> string \<Rightarrow> string \<Rightarrow> bus \<Rightarrow> string option \<times> bus" where
  "claimed_work B name event b =
     (case try_claim_handler_ack event name b of (mine, b') \<Rightarrow> if mine then do_work B name event b' else (None, b'))"

text \<open>\<open>ProjectionRunner.run\<close>: the first projection that fails ends the run.\<close>

fun run_projections :: "bus_env \<Rightarrow> string list \<Rightarrow> string \<Rightarrow> bus \<Rightarrow> string option \<times> bus" where
  "run_projections B [] event b = (None, b)"
| "run_projections B (p # ps) event b =
     (case claimed_work B (''projection:'' @ p) event b of
        (Some e, b') \<Rightarrow> (Some e, b')
      | (None, b') \<Rightarrow> run_projections B ps event b')"

definition handler_name :: "handler \<Rightarrow> string" where
  "handler_name h = (case h of Claiming n \<Rightarrow> n | Projections ps \<Rightarrow> ''ProjectionEventHandler'' | Unclaimed n \<Rightarrow> n)"

definition handle :: "bus_env \<Rightarrow> handler \<Rightarrow> envelope \<Rightarrow> bus \<Rightarrow> string option \<times> bus" where
  "handle B h n b =
     (case (case h of
          Claiming name \<Rightarrow> claimed_work B name (nv_id n) b
        | Projections ps \<Rightarrow> run_projections B ps (nv_id n) b
        | Unclaimed name \<Rightarrow> do_work B name (nv_id n) b) of
        (e, b') \<Rightarrow> (if bx_late B (length (bz_works b)) then Some (''handler_timeout:'' @ handler_name h) else e, b'))"

text \<open>Every handler is called; the first error is raised in the end.\<close>

definition first_error :: "string option \<Rightarrow> string option \<Rightarrow> string option" where
  "first_error e f = (case e of None \<Rightarrow> f | Some m \<Rightarrow> Some m)"

fun dispatch_envelope_to_handlers :: "bus_env \<Rightarrow> handler list \<Rightarrow> envelope \<Rightarrow> bus \<Rightarrow> string option \<times> bus" where
  "dispatch_envelope_to_handlers B [] n b = (None, b)"
| "dispatch_envelope_to_handlers B (h # hs) n b =
     (case handle B h n b of (e, b1) \<Rightarrow>
      case dispatch_envelope_to_handlers B hs n b1 of (f, b2) \<Rightarrow> (first_error e f, b2))"


definition dispatch_envelope :: "bus_env \<Rightarrow> envelope \<Rightarrow> bus \<Rightarrow> string option \<times> bus" where
  "dispatch_envelope B n b = dispatch_envelope_to_handlers B (bx_subscribed B (event_type_of (nv_event n))) n b"

text \<open>\<open>publish\<close>: into the outbox, or straight to the handlers, whose error is the caller's.\<close>

definition publish_event :: "bus_env \<Rightarrow> string \<Rightarrow> event \<Rightarrow> event_context \<Rightarrow> bus \<Rightarrow> string option \<times> bus" where
  "publish_event B i e c b =
     (let n = create_envelope i (bz_now b) e c in
      if outbox_writes_enabled B then (None, persist_envelope B n b) else dispatch_envelope B n b)"

subsection \<open>The drain\<close>

definition pending_row :: "outbox_row \<Rightarrow> bool" where
  "pending_row r \<longleftrightarrow> ob_delivered r = None \<and> ob_dlq r = None"

definition pending_batch :: "bus_env \<Rightarrow> bus \<Rightarrow> outbox_row list" where
  "pending_batch B b = take (nat (batch_size B)) (sort_key ob_created (filter pending_row (bz_rows b)))"

definition update_row :: "string \<Rightarrow> (outbox_row \<Rightarrow> outbox_row) \<Rightarrow> bus \<Rightarrow> bus" where
  "update_row i f b = b\<lparr>bz_rows := map (\<lambda>r. if ob_id r = i then f r else r) (bz_rows b)\<rparr>"

text \<open>The envelope of a row, decoded and dispatched.\<close>

definition dispatch_stored :: "bus_env \<Rightarrow> (pyval \<Rightarrow> string) \<Rightarrow> pyval \<Rightarrow> bus \<Rightarrow> string option \<times> bus" where
  "dispatch_stored B bad raw b =
     (case raw of
        VDict d \<Rightarrow> (case deserialize_envelope (bx_ext B) d of
            Inl x \<Rightarrow> (Some (bx_text B x), b) | Inr n \<Rightarrow> dispatch_envelope B n b)
      | _ \<Rightarrow> (Some (bad raw), b))"

definition mark_delivered :: "int \<Rightarrow> outbox_row \<Rightarrow> outbox_row" where
  "mark_delivered now r = (if ob_delivered r = None then r\<lparr>ob_delivered := Some now, ob_error := None\<rparr> else r)"

definition mark_failed :: "bus_env \<Rightarrow> int \<Rightarrow> int \<Rightarrow> string \<Rightarrow> outbox_row \<Rightarrow> outbox_row" where
  "mark_failed B now attempts err r =
     (let r' = r\<lparr>ob_attempts := attempts, ob_error := Some (take 2000 err)\<rparr>
      in if max_attempts_of B \<le> attempts then r'\<lparr>ob_dlq := Some now\<rparr> else r')"

definition drain_row :: "bus_env \<Rightarrow> outbox_row \<Rightarrow> nat \<times> bus \<Rightarrow> nat \<times> bus" where
  "drain_row B r st =
     (case st of (k, b) \<Rightarrow>
      case dispatch_stored B (\<lambda>raw. ''invalid_envelope_json'') (ob_envelope r) b of
        (None, b') \<Rightarrow> (Suc k, update_row (ob_id r) (mark_delivered (bz_now b')) b')
      | (Some err, b') \<Rightarrow> (k, update_row (ob_id r) (mark_failed B (bz_now b') (ob_attempts r + 1) err) b'))"

definition drain_pending_batch :: "bus_env \<Rightarrow> bus \<Rightarrow> nat \<times> bus" where
  "drain_pending_batch B b =
     (if outbox_writes_enabled B then fold (drain_row B) (pending_batch B b) (0, b) else (0, b))"

subsection \<open>Replay\<close>

datatype replay_result = Dispatched string | NotDispatched string string

definition stored_row :: "bus \<Rightarrow> string \<Rightarrow> string \<Rightarrow> string \<Rightarrow> outbox_row option" where
  "stored_row b tenant project i = find (\<lambda>r. ob_tenant r = tenant \<and> ob_project r = project \<and> ob_id r = i) (bz_rows b)"

text \<open>The envelopes are read before the first one is dispatched.\<close>

fun replay_rows :: "bus_env \<Rightarrow> (string \<Rightarrow> outbox_row option) \<Rightarrow> bool \<Rightarrow> string list \<Rightarrow> bus \<Rightarrow> replay_result list \<times> bus" where
  "replay_rows B rows mark [] b = ([], b)"
| "replay_rows B rows mark (i # is) b =
     (case (case rows i of
          None \<Rightarrow> (NotDispatched i ''not_found'', b)
        | Some r \<Rightarrow> (case dispatch_stored B (bx_no_get B) (ob_envelope r) b of
            (None, b') \<Rightarrow> (Dispatched i, if mark then update_row i (\<lambda>q. q\<lparr>ob_delivered := Some (bz_now b'), ob_error := None,
              ob_dlq := None\<rparr>) b' else b')
          | (Some err, b') \<Rightarrow> (NotDispatched i (take 500 err), b'))) of
        (res, b1) \<Rightarrow> (case replay_rows B rows mark is b1 of (rs, b2) \<Rightarrow> (res # rs, b2)))"

definition replay_outbox_by_ids ::
    "bus_env \<Rightarrow> string \<Rightarrow> string \<Rightarrow> string list \<Rightarrow> bool \<Rightarrow> bus \<Rightarrow> replay_result list \<times> bus" where
  "replay_outbox_by_ids B tenant project ids mark b =
     replay_rows B (stored_row b tenant project) mark (take 50 (filter (\<lambda>s. s \<noteq> []) (map strip ids))) b"

subsection \<open>The life of the bus\<close>

datatype bus_step =
    Publish string event event_context
  | Drain
  | Replay string string "string list" bool
  | Wait nat

fun bus_do :: "bus_env \<Rightarrow> bus_step \<Rightarrow> bus \<Rightarrow> bus" where
  "bus_do B (Publish i e c) b = snd (publish_event B i e c b)"
| "bus_do B Drain b = snd (drain_pending_batch B b)"
| "bus_do B (Replay tenant project ids mark) b = snd (replay_outbox_by_ids B tenant project ids mark b)"
| "bus_do B (Wait d) b = b\<lparr>bz_now := bz_now b + int d\<rparr>"

definition bus_run :: "bus_env \<Rightarrow> bus_step list \<Rightarrow> bus \<Rightarrow> bus" where
  "bus_run B steps b = fold (bus_do B) steps b"

end
