(* ===== verification/EventBusLaws.thy ===== *)
theory EventBusLaws
  imports EventBus
begin

text \<open>
  What the event bus promises: a drain settles the rows of its batch and no other, enough drains leave no row pending,
  and a handler that claims its events works at most once on each of them, whatever is drained or replayed. The claim
  that is kept when the work fails makes the retry pass over it.
\<close>

subsection \<open>What the handlers change\<close>

text \<open>
  A law of what handlers do to the bus: it holds of claimed work, of unclaimed work under a free name, and of what is
  done one after the other, hence of a dispatch.
\<close>

locale handler_law =
  fixes R :: "bus \<Rightarrow> bus \<Rightarrow> bool" and free :: "string \<Rightarrow> bool"
  assumes same: "R b b"
    and chain: "R a b \<Longrightarrow> R b c \<Longrightarrow> R a c"
    and claimed: "claimed_work B m e b = (r, b') \<Longrightarrow> R b b'"
    and worked: "free m \<Longrightarrow> do_work B m e b = (r, b') \<Longrightarrow> R b b'"
begin

lemma projections: "run_projections B ps e b = (r, b') \<Longrightarrow> R b b'"
proof (induction ps arbitrary: b)
  case (Cons p ps)
  obtain r1 b1 where one: "claimed_work B (''projection:'' @ p) e b = (r1, b1)" by fastforce
  then show ?case using Cons claimed [OF one] by (cases r1) (auto intro: chain)
qed (simp add: same)

lemma handles:
  assumes "handle B h n b = (r, b')" and "\<forall>m. h = Unclaimed m \<longrightarrow> free m"
  shows "R b b'"
  using assms by (cases h) (auto simp: handle_def split: prod.splits dest: claimed projections worked)

lemma dispatch:
  assumes "dispatch_envelope_to_handlers B hs n b = (r, b')" and "\<forall>m. Unclaimed m \<in> set hs \<longrightarrow> free m"
  shows "R b b'"
  using assms
proof (induction hs arbitrary: b r)
  case (Cons h hs)
  obtain e b1 where one: "handle B h n b = (e, b1)" by fastforce
  obtain f where rest: "dispatch_envelope_to_handlers B hs n b1 = (f, b')"
    using Cons.prems(1) one by (auto split: prod.splits)
  have "R b b1" using handles [OF one] Cons.prems(2) by simp
  then show ?case using Cons.IH [OF rest] Cons.prems(2) by (auto intro: chain)
qed (simp add: same)

lemma stored:
  assumes "dispatch_stored B bad raw b = (r, b')" and "\<forall>ty m. Unclaimed m \<in> set (bx_subscribed B ty) \<longrightarrow> free m"
  shows "R b b'"
proof (cases "\<exists>d n. raw = VDict d \<and> deserialize_envelope (bx_ext B) d = Inr n")
  case True
  then obtain n where "dispatch_envelope B n b = (r, b')" using assms(1) by (auto simp: dispatch_stored_def)
  then show ?thesis using dispatch assms(2) by (auto simp: dispatch_envelope_def)
next
  case False
  then have "b' = b" using assms(1) by (auto simp: dispatch_stored_def split: pyval.splits sum.splits)
  then show ?thesis by (simp add: same)
qed

end

definition rows_kept :: "bus \<Rightarrow> bus \<Rightarrow> bool" where
  "rows_kept b b' \<longleftrightarrow> bz_rows b' = bz_rows b \<and> bz_now b' = bz_now b"

definition acks_kept :: "bus \<Rightarrow> bus \<Rightarrow> bool" where
  "acks_kept b b' \<longleftrightarrow> set (bz_acks b) \<subseteq> set (bz_acks b')"

lemmas claim_steps = claimed_work_def try_claim_handler_ack_def do_work_def Let_def

interpretation kept: handler_law rows_kept "\<lambda>m. True"
  by unfold_locales (auto simp: rows_kept_def claim_steps split: if_splits)

interpretation acks: handler_law acks_kept "\<lambda>m. True"
  by unfold_locales (auto simp: acks_kept_def claim_steps split: if_splits)

subsection \<open>A drain\<close>

text \<open>What a drain makes of a row of its batch.\<close>

definition settled :: "bus_env \<Rightarrow> outbox_row \<Rightarrow> outbox_row \<Rightarrow> bool" where
  "settled B r r' \<longleftrightarrow> ob_id r' = ob_id r \<and>
     (ob_delivered r' \<noteq> None \<and> ob_attempts r' = ob_attempts r \<and> ob_dlq r' = None \<or>
      ob_delivered r' = None \<and> ob_attempts r' = ob_attempts r + 1 \<and> ob_error r' \<noteq> None \<and>
      (ob_dlq r' \<noteq> None \<longleftrightarrow> max_attempts_of B \<le> ob_attempts r + 1))"

lemma drain_row_row:
  assumes "drain_row B r (k, b) = (k', b')" and "pending_row r" "r \<in> set (bz_rows b)" "distinct (map ob_id (bz_rows b))"
  obtains r' where "settled B r r'" "bz_rows b' = map (\<lambda>q. if ob_id q = ob_id r then r' else q) (bz_rows b)"
proof -
  obtain e b1 where d: "dispatch_stored B (\<lambda>raw. ''invalid_envelope_json'') (ob_envelope r) b = (e, b1)" by fastforce
  then have rows: "bz_rows b1 = bz_rows b" using kept.stored [OF d] by (simp add: rows_kept_def)
  have same: "q = r" if "q \<in> set (bz_rows b)" "ob_id q = ob_id r" for q
    using that assms(3,4) by (metis distinct_map inj_on_eq_iff)
  let ?f = "case e of None \<Rightarrow> mark_delivered (bz_now b1) | Some err \<Rightarrow> mark_failed B (bz_now b1) (ob_attempts r + 1) err"
  have "bz_rows b' = map (\<lambda>q. if ob_id q = ob_id r then ?f q else q) (bz_rows b)"
    using assms(1) d rows by (cases e) (auto simp: drain_row_def update_row_def)
  also have "\<dots> = map (\<lambda>q. if ob_id q = ob_id r then ?f r else q) (bz_rows b)" using same by (intro map_cong) auto
  finally have "bz_rows b' = map (\<lambda>q. if ob_id q = ob_id r then ?f r else q) (bz_rows b)" .
  moreover have "settled B r (?f r)"
    using assms(2) by (cases e) (auto simp: settled_def mark_delivered_def mark_failed_def pending_row_def Let_def)
  ultimately show ?thesis using that by blast
qed

text \<open>The rows after the rows of a list were drained one after the other.\<close>

lemma drain_rows:
  assumes "fold (drain_row B) rs (k, b) = (k', b')" and "set rs \<subseteq> set (bz_rows b)" "distinct (map ob_id rs)"
    "\<forall>r \<in> set rs. pending_row r" "distinct (map ob_id (bz_rows b))"
  obtains f where "bz_rows b' = map (\<lambda>q. if q \<in> set rs then f q else q) (bz_rows b)" "\<forall>r \<in> set rs. settled B r (f r)"
  using assms
proof (induction rs arbitrary: k b thesis)
  case (Cons r rs)
  obtain k1 b1 where one: "drain_row B r (k, b) = (k1, b1)" by fastforce
  obtain r' where r': "settled B r r'" "bz_rows b1 = map (\<lambda>q. if ob_id q = ob_id r then r' else q) (bz_rows b)"
    using drain_row_row [OF one] Cons.prems(3,5,6) by auto
  have ids: "map ob_id (bz_rows b1) = map ob_id (bz_rows b)" using r' by (auto simp: settled_def)
  have key: "ob_id q = ob_id r \<longleftrightarrow> q = r" if "q \<in> set (bz_rows b)" for q
    using that Cons.prems(3,6) by (metis distinct_map inj_on_eq_iff list.set_intros(1) subsetD)
  have rows1: "bz_rows b1 = map (\<lambda>q. if q = r then r' else q) (bz_rows b)"
    unfolding r'(2) using key by (intro map_cong) auto
  have sub: "set rs \<subseteq> set (bz_rows b1)" using Cons.prems(3,4) rows1 by force
  have fold: "fold (drain_row B) rs (k1, b1) = (k', b')" using Cons.prems(2) one by simp
  have rest: "distinct (map ob_id rs)" "\<forall>q \<in> set rs. pending_row q" "distinct (map ob_id (bz_rows b1))"
    using Cons.prems(4,5,6) ids by simp_all
  obtain f where f: "bz_rows b' = map (\<lambda>q. if q \<in> set rs then f q else q) (bz_rows b1)" "\<forall>q \<in> set rs. settled B q (f q)"
    by (rule Cons.IH [OF _ fold sub rest])
  have "r' \<notin> set rs" using r'(1) Cons.prems(4) by (auto simp: settled_def rev_image_eqI)
  then have "bz_rows b' = map (\<lambda>q. if q \<in> set (r # rs) then (f(r := r')) q else q) (bz_rows b)"
    using f(1) rows1 Cons.prems(4) by auto
  moreover have "\<forall>q \<in> set (r # rs). settled B q ((f(r := r')) q)" using f(2) r'(1) by auto
  ultimately show ?case using Cons.prems(1) by blast
qed (auto intro: that [of id])

lemma batch_facts:
  assumes "distinct (map ob_id (bz_rows b))"
  shows "set (pending_batch B b) \<subseteq> set (bz_rows b)" "distinct (map ob_id (pending_batch B b))"
    "\<forall>r \<in> set (pending_batch B b). pending_row r"
proof -
  have "distinct (map ob_id (sort_key ob_created (filter pending_row (bz_rows b))))"
    using assms by (simp add: distinct_map inj_on_def)
  then show "distinct (map ob_id (pending_batch B b))"
    unfolding pending_batch_def take_map [symmetric] by (rule distinct_take)
qed (auto simp: pending_batch_def dest: in_set_takeD)

text \<open>
  A drain settles the rows of its batch, the oldest ones: each is delivered, or has one attempt more and is given up
  exactly when the attempts are used up. The other rows stay as they are.
\<close>

theorem drain_settles_batch:
  assumes "outbox_writes_enabled B" and "distinct (map ob_id (bz_rows b))"
  shows "\<exists>f. bz_rows (snd (drain_pending_batch B b)) = map (\<lambda>q. if q \<in> set (pending_batch B b) then f q else q) (bz_rows b) \<and>
    (\<forall>r \<in> set (pending_batch B b). settled B r (f r))"
proof -
  obtain k b' where d: "fold (drain_row B) (pending_batch B b) (0, b) = (k, b')" by fastforce
  obtain f where f: "bz_rows b' = map (\<lambda>q. if q \<in> set (pending_batch B b) then f q else q) (bz_rows b)"
      "\<forall>r \<in> set (pending_batch B b). settled B r (f r)"
    by (rule drain_rows [OF d batch_facts [OF assms(2)] assms(2)])
  have "snd (drain_pending_batch B b) = b'" using d assms(1) by (simp add: drain_pending_batch_def)
  then show ?thesis using f by (intro exI [of _ f]) simp
qed

subsection \<open>Enough drains\<close>

text \<open>The attempts a pending row has left.\<close>

definition effort :: "bus_env \<Rightarrow> outbox_row \<Rightarrow> nat" where
  "effort B r = (if pending_row r then max 1 (nat (max_attempts_of B - ob_attempts r)) else 0)"

definition total_effort :: "bus_env \<Rightarrow> bus \<Rightarrow> nat" where
  "total_effort B b = sum_list (map (effort B) (bz_rows b))"

lemma settled_effort: "pending_row r \<Longrightarrow> settled B r r' \<Longrightarrow> effort B r' < effort B r"
  by (auto simp: effort_def settled_def pending_row_def)

lemma no_effort: "filter pending_row (bz_rows b) = [] \<Longrightarrow> total_effort B b = 0"
  by (auto simp: total_effort_def effort_def filter_empty_conv)

lemma sum_list_strict:
  assumes "\<forall>x \<in> set xs. f x \<le> (g x :: nat)" and "\<exists>x \<in> set xs. f x < g x"
  shows "sum_list (map f xs) < sum_list (map g xs)"
  using assms
proof (induction xs)
  case (Cons x xs)
  then have "sum_list (map f xs) \<le> sum_list (map g xs)" by (simp add: sum_list_mono)
  then show ?case using Cons by (cases "f x < g x") (auto simp: add_less_le_mono add_le_less_mono)
qed simp

lemma batch_nonempty:
  assumes "filter pending_row (bz_rows b) \<noteq> []"
  shows "pending_batch B b \<noteq> []"
proof -
  have "1 \<le> batch_size B" by (auto simp: batch_size_def clamped_var_def split: option.splits)
  moreover have "sort_key ob_created (filter pending_row (bz_rows b)) \<noteq> []"
    using assms by (metis length_0_conv length_sort)
  ultimately show ?thesis by (simp add: pending_batch_def)
qed

lemma drain_effort:
  assumes "outbox_writes_enabled B" and "distinct (map ob_id (bz_rows b))"
  shows "distinct (map ob_id (bz_rows (snd (drain_pending_batch B b))))"
    "filter pending_row (bz_rows b) \<noteq> [] \<Longrightarrow> total_effort B (snd (drain_pending_batch B b)) < total_effort B b"
proof -
  obtain f where rows: "bz_rows (snd (drain_pending_batch B b)) =
      map (\<lambda>q. if q \<in> set (pending_batch B b) then f q else q) (bz_rows b)" and f: "\<forall>r \<in> set (pending_batch B b). settled B r (f r)"
    using drain_settles_batch [OF assms] by blast
  have "map ob_id (bz_rows (snd (drain_pending_batch B b))) = map ob_id (bz_rows b)"
    using f by (auto simp: rows settled_def)
  then show "distinct (map ob_id (bz_rows (snd (drain_pending_batch B b))))" using assms(2) by simp
  assume "filter pending_row (bz_rows b) \<noteq> []"
  then obtain r where r: "r \<in> set (pending_batch B b)" using batch_nonempty by (meson all_not_in_conv set_empty)
  have less: "effort B (f q) < effort B q" if "q \<in> set (pending_batch B b)" for q
    using that f batch_facts(3) [OF assms(2), of B] settled_effort by blast
  have "sum_list (map (\<lambda>q. effort B (if q \<in> set (pending_batch B b) then f q else q)) (bz_rows b)) <
      sum_list (map (effort B) (bz_rows b))"
    using less r batch_facts(1) [OF assms(2), of B] by (intro sum_list_strict) (auto simp: less_imp_le)
  then show "total_effort B (snd (drain_pending_batch B b)) < total_effort B b"
    by (simp add: total_effort_def rows comp_def)
qed

fun drains :: "bus_env \<Rightarrow> nat \<Rightarrow> bus \<Rightarrow> bus" where
  "drains B 0 b = b"
| "drains B (Suc n) b = drains B n (snd (drain_pending_batch B b))"

lemma effort_bound:
  assumes "\<forall>r \<in> set (bz_rows b). 0 \<le> ob_attempts r"
  shows "total_effort B b \<le> nat (max_attempts_of B) * length (filter pending_row (bz_rows b))"
proof -
  have pos: "1 \<le> max_attempts_of B" by (auto simp: max_attempts_of_def clamped_var_def split: option.splits)
  have "sum_list (map (effort B) rs) \<le> nat (max_attempts_of B) * length (filter pending_row rs)"
    if "\<forall>r \<in> set rs. 0 \<le> ob_attempts r" for rs
    using that pos by (induction rs) (auto simp: effort_def)
  then show ?thesis using assms by (simp add: total_effort_def)
qed

text \<open>
  C39. No event stays pending: after as many drains as there are attempts for the pending rows, every row is delivered or
  given up, however the handlers fail.
\<close>

theorem outbox_drained:
  assumes "outbox_writes_enabled B" and "distinct (map ob_id (bz_rows b))" and "\<forall>r \<in> set (bz_rows b). 0 \<le> ob_attempts r"
    and "nat (max_attempts_of B) * length (filter pending_row (bz_rows b)) \<le> k"
  shows "filter pending_row (bz_rows (drains B k b)) = []"
proof -
  have "filter pending_row (bz_rows (drains B k b)) = []" if "total_effort B b \<le> k" "distinct (map ob_id (bz_rows b))" for k b
    using that
  proof (induction k arbitrary: b)
    case 0
    then have "\<forall>r \<in> set (bz_rows b). effort B r = 0" by (simp add: total_effort_def)
    then show ?case by (auto simp: filter_empty_conv effort_def split: if_splits)
  next
    case (Suc k)
    let ?b = "snd (drain_pending_batch B b)"
    show ?case
    proof (cases "filter pending_row (bz_rows b) = []")
      case True
      then have "pending_batch B b = []" by (simp add: pending_batch_def)
      then have "?b = b" by (simp add: drain_pending_batch_def)
      moreover have "total_effort B b \<le> k"
        using no_effort [OF True] by simp
      ultimately show ?thesis using Suc by simp
    next
      case False
      then show ?thesis using Suc drain_effort [OF assms(1) Suc.prems(2)] by simp
    qed
  qed
  then show ?thesis using effort_bound [OF assms(3), of B] assms(2,4) by auto
qed

subsection \<open>Claims\<close>

definition works_of :: "string \<Rightarrow> string \<Rightarrow> bus \<Rightarrow> handler_work list" where
  "works_of name event b = filter (\<lambda>w. strip (hw_name w) = name \<and> strip (hw_event w) = event) (bz_works b)"

text \<open>At most one piece of work under a name for an event, and none before the claim.\<close>

definition worked_once :: "string \<Rightarrow> string \<Rightarrow> bus \<Rightarrow> bool" where
  "worked_once name event b \<longleftrightarrow> length (works_of name event b) \<le> (if (event, name) \<in> set (bz_acks b) then 1 else 0)"

definition always_claims :: "bus_env \<Rightarrow> string \<Rightarrow> bool" where
  "always_claims B name \<longleftrightarrow> (\<forall>ty. \<forall>m. Unclaimed m \<in> set (bx_subscribed B ty) \<longrightarrow> strip m \<noteq> name)"

lemma once_fields [simp]:
  "worked_once name event (b\<lparr>bz_rows := rs\<rparr>) = worked_once name event b"
  "worked_once name event (b\<lparr>bz_now := t\<rparr>) = worked_once name event b"
  by (simp_all add: worked_once_def works_of_def)

text \<open>What a step must keep for it.\<close>

definition once_kept :: "string \<Rightarrow> string \<Rightarrow> bus \<Rightarrow> bus \<Rightarrow> bool" where
  "once_kept name event b b' \<longleftrightarrow> (name \<noteq> [] \<longrightarrow> event \<noteq> [] \<longrightarrow> worked_once name event b \<longrightarrow> worked_once name event b')"

interpretation once: handler_law "once_kept name event" "\<lambda>m. strip m \<noteq> name" for name event
  by unfold_locales (auto simp: once_kept_def worked_once_def works_of_def claim_steps split: if_splits)

lemma once_stored:
  assumes "dispatch_stored B bad raw b = (r, b')" and "always_claims B name"
    and "worked_once name event b" and "name \<noteq> []" "event \<noteq> []"
  shows "worked_once name event b'"
  using once.stored [OF assms(1)] assms(2-5) by (simp add: once_kept_def always_claims_def)

lemma once_update [simp]: "worked_once name event (update_row i f b) = worked_once name event b"
  by (simp add: update_row_def)

lemma once_drain_row:
  assumes claims: "always_claims B name" and named: "name \<noteq> []" "event \<noteq> []" and "worked_once name event (snd st)"
  shows "worked_once name event (snd (drain_row B r st))"
proof -
  obtain k b where st: "st = (k, b)" by (cases st)
  obtain e b1 where d: "dispatch_stored B (\<lambda>raw. ''invalid_envelope_json'') (ob_envelope r) b = (e, b1)" by fastforce
  then have "worked_once name event b1" using once_stored [OF d claims] assms(4) named st by simp
  then show ?thesis using d st by (cases e) (simp_all add: drain_row_def)
qed

lemma once_drain:
  assumes "always_claims B name" "name \<noteq> []" "event \<noteq> []"
  shows "worked_once name event (snd st) \<Longrightarrow> worked_once name event (snd (fold (drain_row B) rs st))"
  by (induction rs arbitrary: st) (simp_all add: once_drain_row [OF assms])

lemma once_replay:
  assumes claims: "always_claims B name" and named: "name \<noteq> []" "event \<noteq> []"
  shows "worked_once name event b \<Longrightarrow> worked_once name event (snd (replay_rows B rows mark ids b))"
proof (induction ids arbitrary: b)
  case (Cons i ids)
  show ?case
  proof (cases "rows i")
    case None
    then show ?thesis using Cons.IH [OF Cons.prems] by (cases "replay_rows B rows mark ids b") simp
  next
    case (Some r)
    obtain e b1 where d: "dispatch_stored B (bx_no_get B) (ob_envelope r) b = (e, b1)" by fastforce
    then have "worked_once name event b1" using once_stored [OF d claims Cons.prems named] by simp
    then have "worked_once name event (snd (replay_rows B rows m ids b1))"
      "worked_once name event (snd (replay_rows B rows m ids (update_row i f b1)))" if "m = mark" for m f
      using Cons.IH that by simp_all
    then show ?thesis using Some d by (cases e; cases mark) (simp_all add: split_beta)
  qed
qed simp

lemma once_step:
  assumes claims: "always_claims B name" and named: "name \<noteq> []" "event \<noteq> []" and once: "worked_once name event b"
  shows "worked_once name event (bus_do B s b)"
proof (cases s)
  case (Publish i e c)
  let ?n = "create_envelope i (bz_now b) e c"
  obtain r b1 where d: "dispatch_envelope B ?n b = (r, b1)" by fastforce
  have "worked_once name event b1"
    using once.dispatch [OF d [unfolded dispatch_envelope_def]] claims once named by (simp add: once_kept_def always_claims_def)
  moreover have "worked_once name event (persist_envelope B ?n b)"
    using once by (simp add: persist_envelope_def Let_def)
  ultimately show ?thesis using d Publish by (simp add: publish_event_def Let_def)
next
  case Drain
  then show ?thesis using once_drain [OF claims named, of "(0, b)"] once by (simp add: drain_pending_batch_def)
next
  case (Replay tenant project ids mark)
  then show ?thesis using once_replay [OF claims named once] by (simp add: replay_outbox_by_ids_def)
next
  case (Wait d)
  then show ?thesis using once by simp
qed

lemma once_run:
  assumes "always_claims B name" "name \<noteq> []" "event \<noteq> []"
  shows "worked_once name event b \<Longrightarrow> worked_once name event (bus_run B steps b)"
  unfolding bus_run_def by (induction steps arbitrary: b) (simp_all add: once_step [OF assms])


subsection \<open>Work that is lost\<close>

lemma claimed_again:
  assumes "claimed_work B m e b = (r, b')" and "strip m \<noteq> []" "strip e \<noteq> []"
  shows "(strip e, strip m) \<in> set (bz_acks b')"
  using assms by (auto simp: claim_steps split: if_splits)

lemma claim_taken: "(strip e, strip m) \<in> set (bz_acks b) \<Longrightarrow> strip m \<noteq> [] \<Longrightarrow> strip e \<noteq> [] \<Longrightarrow> claimed_work B m e b = (None, b)"
  by (simp add: claimed_work_def try_claim_handler_ack_def Let_def)

definition all_claim :: "handler list \<Rightarrow> bool" where
  "all_claim hs = list_all (\<lambda>h. case h of Claiming m \<Rightarrow> strip m \<noteq> [] | _ \<Rightarrow> False) hs"

lemma dispatch_claims:
  assumes "dispatch_envelope_to_handlers B hs n b = (r, b')" and "all_claim hs" "strip (nv_id n) \<noteq> []" "Claiming m \<in> set hs"
  shows "(strip (nv_id n), strip m) \<in> set (bz_acks b')"
  using assms
proof (induction hs arbitrary: b r)
  case (Cons h hs)
  obtain m' where h: "h = Claiming m'" "strip m' \<noteq> []" using Cons.prems(2) by (cases h) (auto simp: all_claim_def)
  obtain e b1 where one: "claimed_work B m' (nv_id n) b = (e, b1)" by fastforce
  obtain f where rest: "dispatch_envelope_to_handlers B hs n b1 = (f, b')"
    using Cons.prems(1) one h(1) by (auto simp: handle_def split: prod.splits if_splits)
  have "all_claim hs" using Cons.prems(2) by (simp add: all_claim_def)
  moreover have "acks_kept b1 b'" using acks.dispatch [OF rest] by simp
  ultimately show ?case
    using Cons.IH [OF rest _ Cons.prems(3)] claimed_again [OF one h(2) Cons.prems(3)] h(1) Cons.prems(4)
    by (auto simp: acks_kept_def)
qed simp

lemma dispatch_passes_over:
  assumes "all_claim hs" "strip (nv_id n) \<noteq> []" "\<forall>k. \<not> bx_late B k"
    and "\<forall>m. Claiming m \<in> set hs \<longrightarrow> (strip (nv_id n), strip m) \<in> set (bz_acks b)"
  shows "dispatch_envelope_to_handlers B hs n b = (None, b)"
  using assms
proof (induction hs)
  case (Cons h hs)
  obtain m where h: "h = Claiming m" "strip m \<noteq> []" using Cons.prems(1) by (cases h) (auto simp: all_claim_def)
  have "handle B h n b = (None, b)" using Cons.prems h by (simp add: handle_def claim_taken)
  moreover have "all_claim hs" using Cons.prems(1) by (simp add: all_claim_def)
  ultimately show ?case using Cons by (simp add: first_error_def)
qed simp


subsection \<open>The outbox and the direct way\<close>

text \<open>The rows of the outbox do not matter to the handlers.\<close>

definition with_rows :: "outbox_row list \<Rightarrow> string option \<times> bus \<Rightarrow> string option \<times> bus" where
  "with_rows rs x = (fst x, (snd x)\<lparr>bz_rows := rs\<rparr>)"

lemma claimed_with_rows: "claimed_work B m e (b\<lparr>bz_rows := rs\<rparr>) = with_rows rs (claimed_work B m e b)"
  by (simp add: claimed_work_def try_claim_handler_ack_def do_work_def with_rows_def Let_def)

lemma projections_with_rows: "run_projections B ps e (b\<lparr>bz_rows := rs\<rparr>) = with_rows rs (run_projections B ps e b)"
proof (induction ps arbitrary: b)
  case (Cons p ps)
  obtain r b1 where one: "claimed_work B (''projection:'' @ p) e b = (r, b1)" by fastforce
  then show ?case using Cons by (cases r) (simp_all add: claimed_with_rows with_rows_def)
qed (simp add: with_rows_def)

lemma handle_with_rows: "handle B h n (b\<lparr>bz_rows := rs\<rparr>) = with_rows rs (handle B h n b)"
  by (cases h) (simp_all add: handle_def claimed_with_rows projections_with_rows with_rows_def do_work_def Let_def split_beta)

lemma dispatch_with_rows:
  "dispatch_envelope_to_handlers B hs n (b\<lparr>bz_rows := rs\<rparr>) = with_rows rs (dispatch_envelope_to_handlers B hs n b)"
  by (induction hs arbitrary: b) (simp_all add: handle_with_rows with_rows_def split_beta)

text \<open>
  C37. Publishing through the outbox and draining it does the work of the direct dispatch: where no row was pending, the
  drain after the publication leaves the work and the claims that the dispatch without an outbox leaves, and counts
  the event as delivered exactly when that dispatch raises nothing.
\<close>

theorem drained_as_published:
  assumes "outbox_writes_enabled B" and "iso_inverse (bx_ext B)" and "filter pending_row (bz_rows b) = []"
    and "i \<notin> ob_id ` set (bz_rows b)" and "strip (cx_tenant c) \<noteq> []"
    and "\<forall>r. cx_actor c = Some r \<longrightarrow> ac_type r \<noteq> []"
    and "d = dispatch_envelope B (create_envelope i (bz_now b) e c) b"
    and "r = drain_pending_batch B (snd (publish_event B i e c b))"
  shows "bz_works (snd r) = bz_works (snd d) \<and> bz_acks (snd r) = bz_acks (snd d) \<and> fst r = (if fst d = None then 1 else 0)"
proof -
  let ?n = "create_envelope i (bz_now b) e c"
  have fresh: "nv_id ?n \<notin> ob_id ` set (bz_rows b)" "strip (cx_tenant (nv_context ?n)) \<noteq> []" "nv_version ?n \<noteq> 0"
    "\<forall>r. cx_actor (nv_context ?n) = Some r \<longrightarrow> ac_type r \<noteq> []"
    using assms(4,5,6) by (simp_all add: create_envelope_def)
  obtain q where q: "persist_envelope B ?n b = b\<lparr>bz_rows := bz_rows b @ [q]\<rparr>" "pending_row q"
      "ob_envelope q = VDict (serialize_envelope (bx_ext B) ?n)"
    using fresh(1,2) by (simp add: persist_envelope_def Let_def pending_row_def)
  let ?b = "b\<lparr>bz_rows := bz_rows b @ [q]\<rparr>"
  have "nat (batch_size B) = Suc (nat (batch_size B - 1))"
    by (auto simp: batch_size_def clamped_var_def split: option.splits)
  then have batch: "pending_batch B ?b = [q]" using assms(3) q(2) by (simp add: pending_batch_def)
  have "dispatch_stored B bad (ob_envelope q) ?b = with_rows (bz_rows b @ [q]) d" for bad
    using envelope_roundtrip [OF assms(2) fresh(3,4)]
    by (simp add: dispatch_stored_def q(3) dispatch_envelope_def dispatch_with_rows assms(7))
  then have "r = drain_row B q (0, ?b)" "dispatch_stored B bad (ob_envelope q) ?b = with_rows (bz_rows b @ [q]) d" for bad
    using assms(1,8) batch q(1) by (simp_all add: drain_pending_batch_def publish_event_def Let_def)
  then show ?thesis by (simp add: drain_row_def with_rows_def update_row_def split: option.split)
qed

end
