(* ===== verification/EventBusExamples.thy ===== *)
theory EventBusExamples
  imports EventBusLaws SchedExamples
begin

text \<open>
  A bus at work: the handlers of webhooks and metrics claim, the first work fails. The clock is written in a unary code
  that reads back.
\<close>

definition unary_code :: "int \<Rightarrow> string" where
  "unary_code t = replicate (nat (if t < 0 then - 2 * t - 1 else 2 * t)) CHR ''x''"

definition unary_time :: "string \<Rightarrow> int option" where
  "unary_time s = (let k = int (length s) in Some (if even k then k div 2 else - ((k + 1) div 2)))"

definition posted_ext :: ext where
  "posted_ext = example_ext\<lparr>x_iso := unary_code, x_when := unary_time\<rparr>"

lemma iso_bus: "iso_inverse posted_ext"
proof -
  have "replace_z (unary_code t) = unary_code t" for t
  proof -
    have "concat (map (\<lambda>c. if c = CHR ''Z'' then ''+00:00'' else [c]) (replicate n CHR ''x'')) = replicate n CHR ''x''" for n
      by (induction n) simp_all
    then show ?thesis by (simp add: replace_z_def unary_code_def)
  qed
  moreover have "unary_time (unary_code t) = Some t" for t
    by (cases "t < 0") (simp_all add: unary_time_def unary_code_def Let_def)
  ultimately show ?thesis by (simp add: iso_inverse_def posted_ext_def)
qed

definition example_bus_env :: bus_env where
  "example_bus_env = \<lparr>bx_ext = posted_ext,
     bx_vars = (\<lambda>v. if v = ''ML_AIR_DOMAIN_EVENT_OUTBOX'' then Some ''1'' else None),
     bx_outcome = (\<lambda>k. if k = 0 then Some ''unreachable'' else None), bx_late = (\<lambda>k. False),
     bx_text = (\<lambda>x. ''error''), bx_no_get = (\<lambda>v. ''no get''),
     bx_subscribed = (\<lambda>ty. [Claiming ''WebhookEventHandler'', Claiming ''MetricsEventHandler''])\<rparr>"

definition example_context :: event_context where
  "example_context = \<lparr>cx_tenant = ''default'', cx_project = Some ''p'',
     cx_actor = Some \<lparr>ac_type = ''USER'', ac_id = Some ''u'', ac_name = None\<rparr>, cx_correlation = None, cx_ip = None,
     cx_agent = None, cx_request = None\<rparr>"

definition example_envelope :: envelope where
  "example_envelope = create_envelope ''e1'' 7 (RunFailed ''r'' ''pl'' ''RUNNING'' ''FAILED'' None) example_context"

definition quiet_bus :: bus where
  "quiet_bus = \<lparr>bz_rows = [], bz_acks = [], bz_works = [], bz_now = 7\<rparr>"

definition example_row :: outbox_row where
  "example_row = \<lparr>ob_id = ''e1'', ob_tenant = ''default'', ob_project = ''p'', ob_type = ''RunFailed'',
     ob_envelope = VDict (serialize_envelope posted_ext example_envelope), ob_created = 7, ob_delivered = None, ob_attempts = 0,
     ob_error = None, ob_dlq = None\<rparr>"

definition loaded_bus :: bus where
  "loaded_bus = quiet_bus\<lparr>bz_rows := [example_row]\<rparr>"

lemma bus_settings:
  "outbox_writes_enabled example_bus_env" "max_attempts_of example_bus_env = 5"
  by code_simp+

theorem envelope_roundtrip_witness:
  "deserialize_envelope posted_ext (serialize_envelope posted_ext example_envelope) = Inr example_envelope"
  by (rule envelope_roundtrip [OF iso_bus]) (simp_all add: example_envelope_def create_envelope_def example_context_def)

theorem outbox_drained_witness: "filter pending_row (bz_rows (drains example_bus_env 5 loaded_bus)) = []"
  by (rule outbox_drained) (simp_all add: bus_settings loaded_bus_def example_row_def pending_row_def)


lemma event_id_example: "strip (nv_id example_envelope) \<noteq> []" "all_claim (bx_subscribed example_bus_env ty)"
  by code_simp+

lemma example_back:
  "deserialize_envelope (bx_ext example_bus_env) (serialize_envelope posted_ext example_envelope) = Inr example_envelope"
  using envelope_roundtrip [OF iso_bus, of example_envelope]
  by (simp add: example_bus_env_def example_envelope_def create_envelope_def example_context_def)


theorem drained_as_published_witness:
  "let d = dispatch_envelope example_bus_env example_envelope quiet_bus;
       r = drain_pending_batch example_bus_env (snd (publish_event example_bus_env ''e1''
         (RunFailed ''r'' ''pl'' ''RUNNING'' ''FAILED'' None) example_context quiet_bus))
   in bz_works (snd r) = bz_works (snd d) \<and> bz_acks (snd r) = bz_acks (snd d) \<and> fst r = (if fst d = None then 1 else 0)"
  unfolding Let_def
  by (rule drained_as_published [OF bus_settings(1), where i = "''e1''" and c = example_context])
    (simp_all add: quiet_bus_def example_context_def example_envelope_def iso_bus example_bus_env_def strip_def is_ws_def)

end
