(* ===== verification/SemanticEvents.thy ===== *)
theory SemanticEvents
  imports PyValue
begin

text \<open>
  Model of the semantic events that keep user interfaces up to date: \<^verbatim>\<open>sdk/event_signing.py\<close>, the publication in
  \<^verbatim>\<open>lifecycle/realtime_events.py\<close> and \<^verbatim>\<open>scheduler/realtime_publish.py\<close>, and \<^verbatim>\<open>event_sequence_service.py\<close>,
  \<^verbatim>\<open>event_stream_service.py\<close>, \<^verbatim>\<open>event_outbox_service.py\<close> and \<^verbatim>\<open>redis_event_bus.py\<close> of
  \<^verbatim>\<open>domains/observability\<close>. An event is the dictionary it is as JSON. Each call of Redis may fail; the failures are
  given by the environment. The execution projection that the bus also updates is left out.
\<close>

subsection \<open>State and environment\<close>

type_synonym channel = "string \<times> string"

record sem_row =
  sr_id :: string
  sr_tenant :: string
  sr_project :: string
  sr_type :: string
  sr_envelope :: pydict
  sr_created :: int
  sr_delivered :: "int option"

text \<open>
  Per tenant and project the counter, the ring buffer (newest first) and the stream (oldest first); the stream of all,
  what subscribers of a channel have received, the outbox, and what was handed to the webhooks.
\<close>

record semantic =
  sm_seq :: "channel \<Rightarrow> int"
  sm_buf :: "channel \<Rightarrow> pydict list"
  sm_stream :: "channel \<Rightarrow> pydict list"
  sm_durable :: "(channel \<times> pydict) list"
  sm_sent :: "(channel \<times> pydict) list"
  sm_rows :: "sem_row list"
  sm_hooks :: "pydict list"
  sm_calls :: nat
  sm_now :: int

text \<open>
  The environment: variables, JSON text, the canonical text that is signed, HMAC-SHA256 in hexadecimal, the check of
  the schema (if enabled), the two switches of the streams, what Redis keeps beyond an approximate limit, which of its
  calls fail, and what the API and the
  scheduler add about the trace.
\<close>

record sem_env =
  sv_vars :: "string \<Rightarrow> string option"
  sv_loads :: "string \<Rightarrow> pyval option"
  sv_canonical :: "pydict \<Rightarrow> string"
  sv_hmac :: "string \<Rightarrow> string \<Rightarrow> string"
  sv_valid :: "pydict \<Rightarrow> bool"
  sv_stream :: bool
  sv_fanout :: bool
  sv_slack :: nat
  sv_down :: "nat \<Rightarrow> bool"
  sv_carrier :: "pydict \<Rightarrow> pydict"
  sv_trace :: "pydict \<Rightarrow> pydict"

definition var_text :: "sem_env \<Rightarrow> string \<Rightarrow> string \<Rightarrow> string" where
  "var_text V name dflt = strip (case sv_vars V name of None \<Rightarrow> dflt | Some v \<Rightarrow> v)"

definition bounded_var :: "sem_env \<Rightarrow> string \<Rightarrow> int \<Rightarrow> int \<Rightarrow> int \<Rightarrow> int" where
  "bounded_var V name dflt lo hi =
     (let raw = var_text V name [] in
      if raw = [] then dflt else (case parse_int raw of None \<Rightarrow> dflt | Some n \<Rightarrow> max lo (min hi n)))"

definition event_stream_maxlen :: "sem_env \<Rightarrow> int" where
  "event_stream_maxlen V = bounded_var V ''ML_AIR_EVENT_STREAM_MAXLEN'' 50000 1000 1000000"

definition event_stream_global_maxlen :: "sem_env \<Rightarrow> int" where
  "event_stream_global_maxlen V = bounded_var V ''ML_AIR_EVENT_STREAM_GLOBAL_MAXLEN'' 200000 5000 5000000"

definition replay_buffer_size :: "sem_env \<Rightarrow> int" where
  "replay_buffer_size V =
     (let n = (case parse_int (case sv_vars V ''ML_AIR_EVENT_REPLAY_BUFFER_SIZE'' of None \<Rightarrow> ''1000'' | Some v \<Rightarrow> v) of
        None \<Rightarrow> 1000 | Some n \<Rightarrow> n)
      in max 50 (min n 10000))"

definition semantic_outbox_enabled :: "sem_env \<Rightarrow> bool" where
  "semantic_outbox_enabled V \<longleftrightarrow> var_text V ''ML_AIR_EVENT_OUTBOX'' ''1'' = ''1''"

definition semantic_drain_interval :: "sem_env \<Rightarrow> int" where
  "semantic_drain_interval V =
     (case parse_int (var_text V ''ML_AIR_EVENT_OUTBOX_DRAIN_INTERVAL_SEC'' ''5'') of
        None \<Rightarrow> 0 | Some n \<Rightarrow> max 0 (min n 3600))"

text \<open>\<open>str(event.get(k) or "").strip()\<close>\<close>

definition event_text :: "pydict \<Rightarrow> string \<Rightarrow> string" where
  "event_text ev k = strip (str_or (dget ev k) [])"

definition scope_of :: "pydict \<Rightarrow> channel" where
  "scope_of ev = (event_text ev ''tenant_id'', event_text ev ''project_id'')"

definition scoped :: "pydict \<Rightarrow> bool" where
  "scoped ev \<longleftrightarrow> event_text ev ''tenant_id'' \<noteq> [] \<and> event_text ev ''project_id'' \<noteq> []"

subsection \<open>Signatures\<close>

definition semantic_signing_enabled :: "sem_env \<Rightarrow> bool" where
  "semantic_signing_enabled V \<longleftrightarrow> var_text V ''ML_AIR_SEMANTIC_EVENT_SIGNING'' ''1'' = ''1''"

definition active_key_id :: "sem_env \<Rightarrow> string" where
  "active_key_id V = (let k = var_text V ''ML_AIR_SEMANTIC_EVENT_ACTIVE_KEY_ID'' ''v1'' in if k = [] then ''v1'' else k)"

definition single_key :: "sem_env \<Rightarrow> string" where
  "single_key V = var_text V ''ML_AIR_SEMANTIC_EVENT_SIGNING_KEY'' []"

definition add_key :: "string \<times> pyval \<Rightarrow> (string \<times> string) list \<Rightarrow> (string \<times> string) list" where
  "add_key kv ks = (let k = strip (fst kv); v = strip (py_str (snd kv)) in if k \<noteq> [] \<and> v \<noteq> [] then dset k v ks else ks)"

definition listed_keys :: "sem_env \<Rightarrow> (string \<times> string) list" where
  "listed_keys V =
     (let raw = var_text V ''ML_AIR_SEMANTIC_EVENT_SIGNING_KEYS_JSON'' [] in
      if raw = [] then []
      else (case sv_loads V raw of
          Some (VDict d) \<Rightarrow> fold add_key d []
        | _ \<Rightarrow> []))"

definition signing_keys :: "sem_env \<Rightarrow> (string \<times> string) list" where
  "signing_keys V =
     (let single = single_key V; keys = listed_keys V
      in if single \<noteq> [] \<and> map_of keys (active_key_id V) = None then dset (active_key_id V) single keys else keys)"

definition assert_semantic_event_signing_ready :: "sem_env \<Rightarrow> unit py" where
  "assert_semantic_event_signing_ready V =
     (if semantic_signing_enabled V \<and> signing_keys V = [] then raise (RuntimeError ''semantic event signing key'') else ok ())"

definition envelope_signing_payload :: "pydict \<Rightarrow> pydict" where
  "envelope_signing_payload ev =
     map (\<lambda>k. (k, dget ev k)) [''version'', ''event_id'', ''type'', ''tenant_id'', ''project_id'', ''resource_id'', ''timestamp'',
       ''trace_id'', ''payload'']"

definition event_mac :: "sem_env \<Rightarrow> string \<Rightarrow> pydict \<Rightarrow> string" where
  "event_mac V key ev = sv_hmac V key (sv_canonical V (envelope_signing_payload ev))"

definition sign_semantic_event :: "sem_env \<Rightarrow> pydict \<Rightarrow> pydict py" where
  "sign_semantic_event V ev =
     (let listed = (case map_of (signing_keys V) (active_key_id V) of None \<Rightarrow> [] | Some k \<Rightarrow> k);
          key = (if listed = [] then single_key V else listed)
      in if key = [] then raise (ValueError ''semantic_event_signing_key_missing'')
         else ok (dset ''integrity'' (VDict [(''algorithm'', VStr ''hmac-sha256''), (''key_id'', VStr (active_key_id V)),
           (''signature'', VStr (event_mac V key ev))]) ev))"

definition verify_semantic_event :: "sem_env \<Rightarrow> (string \<times> string) list \<Rightarrow> pydict \<Rightarrow> bool" where
  "verify_semantic_event V keys ev =
     (case dget ev ''integrity'' of
        VDict i \<Rightarrow>
          lower (event_text i ''algorithm'') = ''hmac-sha256'' \<and>
          (let kid = event_text i ''key_id''; sig = event_text i ''signature'' in
           kid \<noteq> [] \<and> sig \<noteq> [] \<and>
           (case (case map_of keys kid of None \<Rightarrow> map_of (signing_keys V) kid | Some k \<Rightarrow> Some k) of
              None \<Rightarrow> False
            | Some key \<Rightarrow> key \<noteq> [] \<and> event_mac V key ev = sig))
      | _ \<Rightarrow> False)"

subsection \<open>Redis\<close>

text \<open>A call: whether it succeeded, and the state, changed only by a call that did.\<close>

definition redis :: "sem_env \<Rightarrow> (semantic \<Rightarrow> semantic) \<Rightarrow> semantic \<Rightarrow> bool \<times> semantic" where
  "redis V f s = (let s' = s\<lparr>sm_calls := Suc (sm_calls s)\<rparr> in if sv_down V (sm_calls s) then (False, s') else (True, f s'))"

definition push_buffer :: "sem_env \<Rightarrow> channel \<Rightarrow> pydict \<Rightarrow> semantic \<Rightarrow> semantic" where
  "push_buffer V c ev s = s\<lparr>sm_buf := (sm_buf s)(c := take (nat (replay_buffer_size V)) (ev # sm_buf s c))\<rparr>"

text \<open>The next number of the scope, then the event with its number into the buffer.\<close>

definition assign_sequence_and_buffer :: "sem_env \<Rightarrow> pydict \<Rightarrow> semantic \<Rightarrow> pydict \<times> semantic" where
  "assign_sequence_and_buffer V ev s =
     (let c = scope_of ev in
      if \<not> scoped ev then (ev, s)
      else (case redis V (\<lambda>s. s\<lparr>sm_seq := (sm_seq s)(c := sm_seq s c + 1)\<rparr>) s of
          (False, s1) \<Rightarrow> (ev, s1)
        | (True, s1) \<Rightarrow> (let ev' = dset ''sequence'' (VInt (sm_seq s1 c)) ev in (ev', snd (redis V (push_buffer V c ev') s1)))))"

text \<open>\<open>XADD ... MAXLEN ~\<close>\<close>

definition xadd :: "sem_env \<Rightarrow> int \<Rightarrow> 'a \<Rightarrow> 'a list \<Rightarrow> 'a list" where
  "xadd V limit x xs = (let xs' = xs @ [x] in drop (length xs' - (nat limit + sv_slack V)) xs')"

definition append_event_streams :: "sem_env \<Rightarrow> pydict \<Rightarrow> semantic \<Rightarrow> semantic" where
  "append_event_streams V ev s =
     (let c = scope_of ev;
          own = (\<lambda>s. s\<lparr>sm_stream := (sm_stream s)(c := xadd V (event_stream_maxlen V) ev (sm_stream s c))\<rparr>);
          all = (\<lambda>s. s\<lparr>sm_durable := xadd V (event_stream_global_maxlen V) (c, ev) (sm_durable s)\<rparr>)
      in if \<not> scoped ev then s
         else (case (if sv_stream V then redis V own s else (True, s)) of
             (False, s1) \<Rightarrow> s1
           | (True, s1) \<Rightarrow> (if sv_fanout V then snd (redis V all s1) else s1)))"

text \<open>The event, with its number, into the streams and on the channel.\<close>

definition put_out :: "sem_env \<Rightarrow> channel \<Rightarrow> pydict \<Rightarrow> semantic \<Rightarrow> bool \<times> semantic" where
  "put_out V c ev s =
     (case assign_sequence_and_buffer V ev s of (ev', s1) \<Rightarrow>
        redis V (\<lambda>s. s\<lparr>sm_sent := sm_sent s @ [(c, ev')]\<rparr>) (append_event_streams V ev' s1))"

definition sendable :: "pydict \<Rightarrow> bool" where
  "sendable ev \<longleftrightarrow> scoped ev \<and> str_or (dget ev ''type'') [] \<noteq> []"

definition publish_semantic_envelope_to_redis :: "sem_env \<Rightarrow> pydict \<Rightarrow> semantic \<Rightarrow> bool \<times> semantic" where
  "publish_semantic_envelope_to_redis V ev s = (if sendable ev then put_out V (scope_of ev) ev s else (False, s))"

subsection \<open>The outbox\<close>

definition record_outbox_attempt :: "pydict \<Rightarrow> semantic \<Rightarrow> semantic" where
  "record_outbox_attempt ev s =
     (let i = event_text ev ''event_id''; ty = event_text ev ''type'' in
      if i = [] \<or> \<not> scoped ev \<or> ty = [] \<or> i \<in> sr_id ` set (sm_rows s) then s
      else s\<lparr>sm_rows := sm_rows s @ [\<lparr>sr_id = i, sr_tenant = fst (scope_of ev), sr_project = snd (scope_of ev), sr_type = ty,
        sr_envelope = ev, sr_created = sm_now s, sr_delivered = None\<rparr>]\<rparr>)"

definition mark_outbox_redis_delivered :: "string \<Rightarrow> semantic \<Rightarrow> semantic" where
  "mark_outbox_redis_delivered i s =
     s\<lparr>sm_rows := map (\<lambda>r. if sr_id r = i \<and> sr_delivered r = None then r\<lparr>sr_delivered := Some (sm_now s)\<rparr> else r) (sm_rows s)\<rparr>"

definition publish_mlair_event :: "sem_env \<Rightarrow> pydict \<Rightarrow> semantic \<Rightarrow> semantic" where
  "publish_mlair_event V ev0 s =
     (let ev1 = sv_carrier V ev0 in
      case (if semantic_signing_enabled V then sign_semantic_event V ev1 else ok ev1) of
        Inl x \<Rightarrow> s
      | Inr ev \<Rightarrow>
          if \<not> sv_valid V ev then s
          else
            let s1 = (if semantic_outbox_enabled V then record_outbox_attempt ev s else s) in
            if \<not> sendable ev then s1
            else (case publish_semantic_envelope_to_redis V ev s1 of (sent, s2) \<Rightarrow>
              let s3 = (if semantic_outbox_enabled V \<and> event_text ev ''event_id'' \<noteq> [] \<and> sent
                then mark_outbox_redis_delivered (event_text ev ''event_id'') s2 else s2)
              in s3\<lparr>sm_hooks := sm_hooks s3 @ [ev]\<rparr>))"

text \<open>The scheduler sends without signature, outbox and webhooks.\<close>

definition scheduler_publish :: "sem_env \<Rightarrow> pydict \<Rightarrow> semantic \<Rightarrow> semantic" where
  "scheduler_publish V ev s =
     (if sendable ev then snd (put_out V (scope_of ev) (sv_trace V ev) s) else s)"

definition resend :: "sem_env \<Rightarrow> string \<times> pydict \<Rightarrow> nat \<times> semantic \<Rightarrow> nat \<times> semantic" where
  "resend V row st =
     (case row of (i, env) \<Rightarrow> case st of (k, s) \<Rightarrow>
      case publish_semantic_envelope_to_redis V env s of
        (True, s') \<Rightarrow> (Suc k, mark_outbox_redis_delivered i s')
      | (False, s') \<Rightarrow> (k, s'))"

definition undelivered_batch :: "int \<Rightarrow> semantic \<Rightarrow> sem_row list" where
  "undelivered_batch limit s =
     take (nat (max 1 (min limit 500))) (sort_key sr_created (filter (\<lambda>r. sr_delivered r = None) (sm_rows s)))"

definition drain_undelivered_batch :: "sem_env \<Rightarrow> int \<Rightarrow> semantic \<Rightarrow> nat \<times> semantic" where
  "drain_undelivered_batch V limit s =
     (if \<not> semantic_outbox_enabled V \<or> semantic_drain_interval V \<le> 0 then (0, s)
      else fold (resend V) (map (\<lambda>r. (sr_id r, sr_envelope r)) (undelivered_batch limit s)) (0, s))"

datatype resend_result = Resent string | NotResent string string

fun resend_ids :: "sem_env \<Rightarrow> (string \<Rightarrow> pydict option) \<Rightarrow> bool \<Rightarrow> string list \<Rightarrow> semantic \<Rightarrow> resend_result list \<times> semantic" where
  "resend_ids V found mark [] s = ([], s)"
| "resend_ids V found mark (i # is) s =
     (case found i of
        None \<Rightarrow> (case resend_ids V found mark is s of (rs, s') \<Rightarrow> (NotResent i ''not_found'' # rs, s'))
      | Some env \<Rightarrow>
          (case publish_semantic_envelope_to_redis V env s of (sent, s1) \<Rightarrow>
           case resend_ids V found mark is (if sent \<and> mark then mark_outbox_redis_delivered i s1 else s1) of (rs, s') \<Rightarrow>
             ((if sent then Resent i else NotResent i ''redis_publish_failed'') # rs, s')))"

definition replay_semantic_by_ids ::
    "sem_env \<Rightarrow> string \<Rightarrow> string \<Rightarrow> string list \<Rightarrow> bool \<Rightarrow> semantic \<Rightarrow> resend_result list \<times> semantic" where
  "replay_semantic_by_ids V tenant project ids mark s =
     resend_ids V (\<lambda>i. case find (\<lambda>r. sr_tenant r = tenant \<and> sr_project r = project \<and> sr_id r = i) (sm_rows s) of
          None \<Rightarrow> None | Some r \<Rightarrow> if sr_envelope r = [] then None else Some (sr_envelope r)) mark
       (take 50 (rev (remdups (rev (filter (\<lambda>i. i \<noteq> []) (map strip ids)))))) s"

subsection \<open>Replay for clients\<close>

definition seq_of :: "pydict \<Rightarrow> int option" where
  "seq_of ev = (case dget ev ''sequence'' of VInt n \<Rightarrow> Some n | _ \<Rightarrow> None)"

definition after_seq :: "int \<Rightarrow> pydict \<Rightarrow> bool" where
  "after_seq n ev \<longleftrightarrow> (case seq_of ev of None \<Rightarrow> False | Some k \<Rightarrow> n < k)"

definition replay_limit :: "int \<Rightarrow> nat" where
  "replay_limit limit = nat (max 1 (min limit 500))"

definition in_order :: "pydict list \<Rightarrow> pydict list" where
  "in_order evs = sort_key (\<lambda>ev. case seq_of ev of None \<Rightarrow> 0 | Some n \<Rightarrow> n) evs"

definition list_stream_replay_after :: "sem_env \<Rightarrow> channel \<Rightarrow> int \<Rightarrow> int \<Rightarrow> semantic \<Rightarrow> pydict list \<times> semantic" where
  "list_stream_replay_after V c after limit s =
     (if \<not> sv_stream V then ([], s)
      else (case redis V id s of
          (False, s1) \<Rightarrow> ([], s1)
        | (True, s1) \<Rightarrow>
            (take (replay_limit limit) (in_order (filter (after_seq (max 0 after)) (take (replay_limit limit * 4) (rev (sm_stream s1 c))))),
             s1)))"

definition list_replay_after :: "sem_env \<Rightarrow> channel \<Rightarrow> int \<Rightarrow> int \<Rightarrow> semantic \<Rightarrow> pydict list \<times> semantic" where
  "list_replay_after V c after limit s =
     (case list_stream_replay_after V c after (int (replay_limit limit)) s of (items, s1) \<Rightarrow>
      if items \<noteq> [] then (items, s1)
      else (case redis V id s1 of
          (False, s2) \<Rightarrow> ([], s2)
        | (True, s2) \<Rightarrow> (take (replay_limit limit) (in_order (filter (after_seq (max 0 after)) (sm_buf s2 c))), s2)))"

subsection \<open>The life of the channel\<close>

datatype sem_step =
    Api pydict
  | Scheduler pydict
  | DrainOutbox int
  | Resend string string "string list" bool
  | Pass nat

fun sem_do :: "sem_env \<Rightarrow> sem_step \<Rightarrow> semantic \<Rightarrow> semantic" where
  "sem_do V (Api ev) s = publish_mlair_event V ev s"
| "sem_do V (Scheduler ev) s = scheduler_publish V ev s"
| "sem_do V (DrainOutbox limit) s = snd (drain_undelivered_batch V limit s)"
| "sem_do V (Resend tenant project ids mark) s = snd (replay_semantic_by_ids V tenant project ids mark s)"
| "sem_do V (Pass d) s = s\<lparr>sm_now := sm_now s + int d\<rparr>"

definition sem_run :: "sem_env \<Rightarrow> sem_step list \<Rightarrow> semantic \<Rightarrow> semantic" where
  "sem_run V steps s = fold (sem_do V) steps s"

definition silent :: "int \<Rightarrow> semantic" where
  "silent t = \<lparr>sm_seq = (\<lambda>c. 0), sm_buf = (\<lambda>c. []), sm_stream = (\<lambda>c. []), sm_durable = [], sm_sent = [], sm_rows = [],
     sm_hooks = [], sm_calls = 0, sm_now = t\<rparr>"

end
