(* ===== verification/SemanticLaws.thy ===== *)
theory SemanticLaws
  imports SemanticEvents "HOL-Library.Multiset"
begin

text \<open>
  What the semantic events promise: a client that reconnects is replayed a gapless window of the numbered events, an
  outbox row is marked only when its event was sent, and the signature of an event survives the number it is given.
\<close>

subsection \<open>Numbers\<close>

lemma drop_upto: "drop n [a..b] = [a + int n..b]"
proof (induction n arbitrary: a)
  case (Suc n)
  show ?case
  proof (cases "a \<le> b")
    case True
    then show ?thesis using Suc [of "a + 1"] by (simp add: upto_rec1 algebra_simps)
  qed simp
qed simp

lemma take_upto: "take n [a..b] = [a..min b (a + int n - 1)]"
proof (induction n arbitrary: a)
  case (Suc n)
  show ?case
  proof (cases "a \<le> b")
    case True
    then have "[a..min b (a + int (Suc n) - 1)] = a # [a + 1..min b (a + 1 + int n - 1)]"
      by (subst upto_rec1) (simp_all add: algebra_simps)
    then show ?thesis using Suc [of "a + 1"] True by (simp add: upto_rec1)
  qed simp
qed simp

lemma filter_upto: "filter (\<lambda>k. n < k) [a..b] = [max a (n + 1)..b]"
proof (induction "nat (b - a + 1)" arbitrary: a)
  case (Suc m)
  then have ab: "a \<le> b" by simp
  have rest: "filter (\<lambda>k. n < k) [a + 1..b] = [max (a + 1) (n + 1)..b]" using Suc by simp
  show ?case
  proof (cases "n < a")
    case True
    then show ?thesis using rest ab by (simp add: upto_rec1 max_absorb1)
  next
    case False
    then show ?thesis using rest ab by (simp add: upto_rec1)
  qed
qed simp

lemma length_xadd: "length (xadd V limit x xs) = min (Suc (length xs)) (nat limit + sv_slack V)"
  by (simp add: xadd_def Let_def)

subsection \<open>What an event in transit keeps\<close>

lemma dget_dset [simp]: "dget (dset k v d) k' = (if k' = k then v else dget d k')"
  by (simp add: dget_def)

lemma numbered_simps [simp]:
  "event_text (dset ''sequence'' v ev) ''event_id'' = event_text ev ''event_id''"
  "scope_of (dset ''sequence'' v ev) = scope_of ev" "scoped (dset ''sequence'' v ev) = scoped ev"
  by (simp_all add: event_text_def scope_of_def scoped_def)

text \<open>A signed event verifies with the keys it was signed with, also after it was numbered.\<close>

definition hex_digests :: "sem_env \<Rightarrow> bool" where
  "hex_digests V \<longleftrightarrow> (\<forall>k m. sv_hmac V k m \<noteq> [] \<and> strip (sv_hmac V k m) = sv_hmac V k m)"

definition no_empty_key :: "(string \<times> string) list \<Rightarrow> bool" where
  "no_empty_key ks \<longleftrightarrow> (\<forall>k. map_of ks k \<noteq> Some [])"

lemma add_key_nonempty: "no_empty_key ks \<Longrightarrow> no_empty_key (add_key kv ks)"
  by (simp add: no_empty_key_def add_key_def Let_def)

lemma add_keys_nonempty: "no_empty_key ks \<Longrightarrow> no_empty_key (fold add_key d ks)"
  by (induction d arbitrary: ks) (simp_all add: add_key_nonempty)

lemma listed_keys_nonempty: "no_empty_key (listed_keys V)"
proof -
  have "no_empty_key []" by (simp add: no_empty_key_def)
  then show ?thesis by (simp add: listed_keys_def Let_def add_keys_nonempty split: option.split pyval.split)
qed

lemma signing_keys_nonempty: "no_empty_key (signing_keys V)"
  using listed_keys_nonempty [of V] by (simp add: signing_keys_def no_empty_key_def Let_def)

lemma no_single_key: "map_of (signing_keys V) (active_key_id V) = None \<Longrightarrow> single_key V = []"
  by (simp add: signing_keys_def Let_def split: if_splits)

lemma active_key_id_text: "active_key_id V \<noteq> []" "strip (active_key_id V) = active_key_id V"
proof -
  have "strip ''v1'' = ''v1''" by code_simp
  then show "active_key_id V \<noteq> []" "strip (active_key_id V) = active_key_id V"
    by (simp_all add: active_key_id_def Let_def var_text_def)
qed

theorem signature_survives:
  assumes "sign_semantic_event V ev = Inr ev'" and "hex_digests V"
  shows "verify_semantic_event V [] ev'" and "verify_semantic_event V [] (dset ''sequence'' v ev')"
proof -
  let ?kid = "active_key_id V"
  have kid: "?kid \<noteq> []" "strip ?kid = ?kid" by (fact active_key_id_text)+
  obtain key where key: "map_of (signing_keys V) ?kid = Some key" "key \<noteq> []"
      and ev': "ev' = dset ''integrity'' (VDict [(''algorithm'', VStr ''hmac-sha256''), (''key_id'', VStr ?kid),
        (''signature'', VStr (event_mac V key ev))]) ev"
  proof (cases "map_of (signing_keys V) ?kid")
    case None
    then show ?thesis using assms(1) no_single_key [OF None] by (simp add: sign_semantic_event_def)
  next
    case (Some key)
    moreover have "key \<noteq> []" using signing_keys_nonempty [of V] Some by (auto simp: no_empty_key_def)
    ultimately show ?thesis using that assms(1) by (simp add: sign_semantic_event_def)
  qed
  have mac: "event_mac V key ev' = event_mac V key ev" "event_mac V key (dset ''sequence'' v ev') = event_mac V key ev"
    by (simp_all add: event_mac_def envelope_signing_payload_def ev')
  have sig: "event_mac V key ev \<noteq> []" "strip (event_mac V key ev) = event_mac V key ev"
    using assms(2) by (simp_all add: event_mac_def hex_digests_def)
  have alg: "lower (strip ''hmac-sha256'') = ''hmac-sha256''" by code_simp
  show "verify_semantic_event V [] ev'" "verify_semantic_event V [] (dset ''sequence'' v ev')"
    using kid key sig mac alg by (simp_all add: verify_semantic_event_def ev' event_text_def dget_def)
qed

subsection \<open>Laws of what is sent\<close>

definition rows_named :: "semantic \<Rightarrow> bool" where
  "rows_named s \<longleftrightarrow> (\<forall>r \<in> set (sm_rows s). event_text (sr_envelope r) ''event_id'' = sr_id r)"

lemma batch_named:
  "rows_named s \<Longrightarrow>
   \<forall>(i, env) \<in> set (map (\<lambda>r. (sr_id r, sr_envelope r)) (undelivered_batch limit s)). event_text env ''event_id'' = i"
  by (auto simp: rows_named_def undelivered_batch_def dest!: in_set_takeD)

text \<open>
  A law that holds when an event is put out, recorded and, once sent, marked as delivered under its own id, holds of
  every step.
\<close>

locale sending_law =
  fixes V :: sem_env and R :: "semantic \<Rightarrow> semantic \<Rightarrow> bool"
  assumes same: "R s s"
    and chain: "R s1 s2 \<Longrightarrow> R s2 s3 \<Longrightarrow> R s1 s3"
    and sent: "put_out V c ev s = (r, s') \<Longrightarrow> R s s'"
    and marked: "put_out V c ev s = (True, s') \<Longrightarrow> event_text ev ''event_id'' = i \<Longrightarrow> R s (mark_outbox_redis_delivered i s')"
    and recorded: "R s (record_outbox_attempt ev s)"
    and hooked: "R s (s\<lparr>sm_hooks := h\<rparr>)"
    and passed: "R s (s\<lparr>sm_now := t\<rparr>)"
begin

lemma published:
  assumes "publish_semantic_envelope_to_redis V ev s = (r, s')"
  shows "R s s'" and "r \<Longrightarrow> event_text ev ''event_id'' = i \<Longrightarrow> R s (mark_outbox_redis_delivered i s')"
  using assms by (auto simp: publish_semantic_envelope_to_redis_def same sent marked split: if_splits)

lemma api: "R s (publish_mlair_event V ev0 s)"
proof (cases "if semantic_signing_enabled V then sign_semantic_event V (sv_carrier V ev0) else ok (sv_carrier V ev0)")
  case (Inl x)
  then show ?thesis by (simp add: publish_mlair_event_def same)
next
  case (Inr ev)
  let ?s1 = "if semantic_outbox_enabled V then record_outbox_attempt ev s else s"
  obtain r s2 where p: "publish_semantic_envelope_to_redis V ev ?s1 = (r, s2)" by fastforce
  have one: "R s ?s1" by (simp add: recorded same)
  have "R s s2" using one published(1) [OF p] chain by blast
  moreover have "r \<Longrightarrow> R s (mark_outbox_redis_delivered (event_text ev ''event_id'') s2)"
    using one published(2) [OF p] chain by blast
  ultimately show ?thesis using one Inr p
    by (auto simp: publish_mlair_event_def Let_def same intro: chain hooked)
qed

lemma scheduler: "R s (scheduler_publish V ev s)"
  using sent by (cases "put_out V (scope_of ev) (sv_trace V ev) s") (auto simp: scheduler_publish_def same)

lemma resends:
  assumes "\<forall>(i, env) \<in> set rows. event_text env ''event_id'' = i"
  shows "R (snd st) (snd (fold (resend V) rows st))"
  using assms
proof (induction rows arbitrary: st)
  case (Cons row rows)
  obtain i env k s where split: "row = (i, env)" "st = (k, s)" by (metis surj_pair)
  obtain r s' where p: "publish_semantic_envelope_to_redis V env s = (r, s')" by fastforce
  have "R (snd st) (snd (resend V row st))"
    using published [OF p] p split Cons.prems by (cases r) (simp_all add: resend_def)
  then show ?case using Cons.IH [of "resend V row st"] Cons.prems by (auto intro: chain)
qed (simp add: same)

lemma drain: "rows_named s \<Longrightarrow> R s (snd (drain_undelivered_batch V limit s))"
  using resends [of "map (\<lambda>r. (sr_id r, sr_envelope r)) (undelivered_batch limit s)" "(0, s)"] batch_named [of s limit]
  by (simp add: drain_undelivered_batch_def same)

lemma resend_list:
  assumes "\<forall>i env. found i = Some env \<longrightarrow> event_text env ''event_id'' = i"
  shows "R s (snd (resend_ids V found mark ids s))"
proof (induction ids arbitrary: s)
  case (Cons i ids)
  show ?case
  proof (cases "found i")
    case None
    then show ?thesis using Cons by (simp add: split_beta)
  next
    case (Some env)
    obtain r s1 where p: "publish_semantic_envelope_to_redis V env s = (r, s1)" by fastforce
    have "R s (if r \<and> mark then mark_outbox_redis_delivered i s1 else s1)"
      using published [OF p] assms Some by auto
    then show ?thesis using Cons chain Some p by (simp add: split_beta)
  qed
qed (simp add: same)

lemma replay:
  assumes "rows_named s"
  shows "R s (snd (replay_semantic_by_ids V tenant project ids mark s))"
  unfolding replay_semantic_by_ids_def using assms
  by (intro resend_list) (auto simp: rows_named_def find_Some_iff split: option.splits if_splits)

lemma steps: "rows_named s \<Longrightarrow> R s (sem_do V step s)"
  by (cases step) (simp_all add: api scheduler drain replay passed)

end

subsection \<open>Rows keep their names\<close>

lemma named_cong: "sm_rows s' = sm_rows s \<Longrightarrow> rows_named s' = rows_named s"
  by (simp add: rows_named_def)

lemma redis_rows: "(\<And>s. sm_rows (f s) = sm_rows s) \<Longrightarrow> redis V f s = (r, s') \<Longrightarrow> sm_rows s' = sm_rows s"
  by (auto simp: redis_def Let_def split: if_splits)

lemma put_out_rows:
  assumes "put_out V c ev s = (r, s')"
  shows "sm_rows s' = sm_rows s"
proof -
  have assign: "sm_rows (snd (assign_sequence_and_buffer V ev s)) = sm_rows s"
    by (simp add: assign_sequence_and_buffer_def redis_def push_buffer_def Let_def)
  have append: "sm_rows (append_event_streams V e q) = sm_rows q" for e q
    by (simp add: append_event_streams_def redis_def Let_def)
  obtain e s1 where a: "assign_sequence_and_buffer V ev s = (e, s1)" by fastforce
  have "sm_rows s' = sm_rows (append_event_streams V e s1)"
    using assms a by (auto simp: put_out_def redis_def Let_def split: if_splits)
  then show ?thesis using assign append a by simp
qed

lemma recorded_rows:
  "sm_rows (record_outbox_attempt ev s) = sm_rows s \<or>
   (\<exists>r. sm_rows (record_outbox_attempt ev s) = sm_rows s @ [r] \<and> sr_id r = event_text ev ''event_id'' \<and>
     sr_envelope r = ev \<and> sr_delivered r = None)"
  by (simp add: record_outbox_attempt_def Let_def)

lemma recorded_sent: "sm_sent (record_outbox_attempt ev s) = sm_sent s"
  by (simp add: record_outbox_attempt_def Let_def)

lemma marked_named: "rows_named s \<Longrightarrow> rows_named (mark_outbox_redis_delivered i s)"
  by (auto simp: rows_named_def mark_outbox_redis_delivered_def)

lemma recorded_named: "rows_named s \<Longrightarrow> rows_named (record_outbox_attempt ev s)"
  using recorded_rows [of ev s] by (auto simp: rows_named_def)

interpretation named: sending_law V "\<lambda>s s'. rows_named s \<longrightarrow> rows_named s'" for V
proof unfold_locales
  fix c ev s r s' i
  show "rows_named s \<longrightarrow> rows_named s'" if "put_out V c ev s = (r, s')"
    by (simp add: named_cong [OF put_out_rows [OF that]])
  show "rows_named s \<longrightarrow> rows_named (mark_outbox_redis_delivered i s')" if "put_out V c ev s = (True, s')"
    by (simp add: marked_named named_cong [OF put_out_rows [OF that]])
qed (simp_all add: recorded_named, simp_all add: rows_named_def)

subsection \<open>Delivered rows were sent\<close>

definition sent_id :: "semantic \<Rightarrow> string \<Rightarrow> bool" where
  "sent_id s i \<longleftrightarrow> (\<exists>(c, ev) \<in> set (sm_sent s). event_text ev ''event_id'' = i)"

definition delivered_sent :: "semantic \<Rightarrow> bool" where
  "delivered_sent s \<longleftrightarrow> (\<forall>r \<in> set (sm_rows s). sr_delivered r \<noteq> None \<longrightarrow> sent_id s (sr_id r))"

lemma sent_id_rows [simp]: "sent_id (s\<lparr>sm_rows := rs\<rparr>) i = sent_id s i"
  by (simp add: sent_id_def)

lemma put_out_sent:
  assumes "put_out V c ev s = (r, s')"
  shows "set (sm_sent s) \<subseteq> set (sm_sent s')" and "r \<Longrightarrow> sent_id s' (event_text ev ''event_id'')"
proof -
  have assign: "sm_sent (snd (assign_sequence_and_buffer V ev s)) = sm_sent s"
      "event_text (fst (assign_sequence_and_buffer V ev s)) ''event_id'' = event_text ev ''event_id''"
    by (simp_all add: assign_sequence_and_buffer_def redis_def push_buffer_def Let_def)
  have append: "sm_sent (append_event_streams V e q) = sm_sent q" for e q
    by (simp add: append_event_streams_def redis_def Let_def)
  obtain e s1 where a: "assign_sequence_and_buffer V ev s = (e, s1)" by fastforce
  show "set (sm_sent s) \<subseteq> set (sm_sent s')" "r \<Longrightarrow> sent_id s' (event_text ev ''event_id'')"
    using assms assign a append [of e s1] by (auto simp: put_out_def redis_def Let_def sent_id_def split: if_splits)
qed

interpretation delivered: sending_law V "\<lambda>s s'. delivered_sent s \<longrightarrow> delivered_sent s'" for V
proof unfold_locales
  fix c ev s r s'
  assume p: "put_out V c ev s = (r, s')"
  have mono: "sent_id s i \<Longrightarrow> sent_id s' i" for i using put_out_sent(1) [OF p] by (auto simp: sent_id_def)
  show "delivered_sent s \<longrightarrow> delivered_sent s'"
    using put_out_rows [OF p] mono by (simp add: delivered_sent_def)
next
  fix c ev s s' i
  assume p: "put_out V c ev s = (True, s')" and i: "event_text ev ''event_id'' = i"
  have mono: "sent_id s i \<Longrightarrow> sent_id s' i" for i using put_out_sent(1) [OF p] by (auto simp: sent_id_def)
  have "sent_id s' i" using put_out_sent(2) [OF p] i by simp
  then show "delivered_sent s \<longrightarrow> delivered_sent (mark_outbox_redis_delivered i s')"
    using put_out_rows [OF p] mono by (auto simp: delivered_sent_def mark_outbox_redis_delivered_def)
next
  fix ev s
  show "delivered_sent s \<longrightarrow> delivered_sent (record_outbox_attempt ev s)"
    using recorded_rows [of ev s] by (auto simp: delivered_sent_def sent_id_def recorded_sent)
qed (simp_all add: delivered_sent_def sent_id_def)

lemma run_invariant:
  assumes "\<And>step s. rows_named s \<Longrightarrow> I s \<Longrightarrow> I (sem_do V step s)" and "I (silent t)"
  shows "I (sem_run V steps (silent t))"
proof -
  have "rows_named s \<Longrightarrow> I s \<Longrightarrow> I (fold (sem_do V) steps s)" for s
  proof (induction steps arbitrary: s)
    case (Cons step steps)
    then show ?case using assms(1) named.steps [of s V step] by simp
  qed simp
  moreover have "rows_named (silent t)" by (simp add: rows_named_def silent_def)
  ultimately show ?thesis using assms(2) by (simp add: sem_run_def)
qed

text \<open>
  C34. The outbox does not claim too much: a row is marked as delivered only when an event with its id was sent to the
  subscribers of a channel, whatever calls of Redis fail.
\<close>

theorem delivered_was_published:
  assumes "r \<in> set (sm_rows (sem_run V steps (silent t)))" and "sr_delivered r \<noteq> None"
  shows "\<exists>(c, ev) \<in> set (sm_sent (sem_run V steps (silent t))). event_text ev ''event_id'' = sr_id r"
proof -
  have "delivered_sent (sem_run V steps (silent t))"
    by (rule run_invariant) (use delivered.steps in \<open>auto simp: delivered_sent_def silent_def\<close>)
  then show ?thesis using assms by (auto simp: delivered_sent_def sent_id_def)
qed

subsection \<open>The replayed window\<close>

text \<open>
  The stream of a scope ends with the last number and has no gap, it is cut at its limit only, and the buffer holds
  numbers given out.
\<close>

definition numbered_stream :: "sem_env \<Rightarrow> channel \<Rightarrow> semantic \<Rightarrow> bool" where
  "numbered_stream V c s \<longleftrightarrow>
     (let n = sm_seq s c; k = int (length (sm_stream s c)) in
      0 \<le> n \<and> k \<le> n \<and> min n (event_stream_maxlen V) \<le> k \<and>
      map seq_of (sm_stream s c) = map Some [n - k + 1..n] \<and>
      (\<forall>ev \<in> set (sm_buf s c). \<exists>m \<le> n. seq_of ev = Some m))"

lemma maxlen_positive: "1000 \<le> event_stream_maxlen V"
  by (auto simp: event_stream_maxlen_def bounded_var_def Let_def split: option.splits)

lemma seq_of_numbered [simp]: "seq_of (dset ''sequence'' (VInt n) ev) = Some n"
  by (simp add: seq_of_def)

text \<open>The fields of a scope after an event was put out, when Redis answers.\<close>

lemma put_out_scope:
  assumes "put_out V c' ev s = (r, s')" and "\<forall>k. \<not> sv_down V k" and "sv_stream V"
  shows "(sm_seq s' c, sm_stream s' c, sm_buf s' c) =
    (if scoped ev \<and> scope_of ev = c
     then let n = sm_seq s c + 1; ev' = dset ''sequence'' (VInt n) ev
       in (n, xadd V (event_stream_maxlen V) ev' (sm_stream s c), take (nat (replay_buffer_size V)) (ev' # sm_buf s c))
     else (sm_seq s c, sm_stream s c, sm_buf s c))"
proof -
  have call: "redis V f q = (True, f (q\<lparr>sm_calls := Suc (sm_calls q)\<rparr>))" for f q
    using assms(2) by (simp add: redis_def Let_def)
  show ?thesis
  proof (cases "scoped ev")
    case True
    then have "s' = (snd (put_out V c' ev s))" "scoped ev" using assms(1) by simp_all
    then show ?thesis using assms(3)
      by (simp add: put_out_def assign_sequence_and_buffer_def append_event_streams_def push_buffer_def call Let_def)
  next
    case False
    then show ?thesis using assms(1)
      by (auto simp: put_out_def assign_sequence_and_buffer_def append_event_streams_def call Let_def)
  qed
qed

lemma numbered_put_out:
  assumes "put_out V c' ev s = (r, s')" and "\<forall>k. \<not> sv_down V k" "sv_stream V" and "numbered_stream V c s"
  shows "numbered_stream V c s'"
proof (cases "scoped ev \<and> scope_of ev = c")
  case False
  then have "sm_seq s' c = sm_seq s c" "sm_stream s' c = sm_stream s c" "sm_buf s' c = sm_buf s c"
    using put_out_scope [OF assms(1,2,3), of c] by (simp_all split: if_splits)
  then show ?thesis using assms(4) by (simp add: numbered_stream_def)
next
  case True
  define n where "n = sm_seq s c"
  define k where "k = length (sm_stream s c)"
  define ev' where "ev' = dset ''sequence'' (VInt (n + 1)) ev"
  define room where "room = nat (event_stream_maxlen V) + sv_slack V"
  have new: "sm_seq s' c = n + 1" "sm_stream s' c = xadd V (event_stream_maxlen V) ev' (sm_stream s c)"
      "sm_buf s' c = take (nat (replay_buffer_size V)) (ev' # sm_buf s c)"
    using put_out_scope [OF assms(1,2,3), of c] True by (simp_all add: n_def ev'_def Let_def)
  have old: "0 \<le> n" "int k \<le> n" "min n (event_stream_maxlen V) \<le> int k" "map seq_of (sm_stream s c) = map Some [n - int k + 1..n]"
      "\<forall>ev \<in> set (sm_buf s c). \<exists>m \<le> n. seq_of ev = Some m"
    using assms(4) by (simp_all add: numbered_stream_def Let_def n_def k_def)
  define d where "d = Suc k - room"
  have stream: "sm_stream s' c = drop d (sm_stream s c @ [ev'])" by (simp add: new(2) xadd_def Let_def d_def k_def room_def)
  have len: "length (sm_stream s' c) = Suc k - d" by (simp add: stream k_def)
  have "map seq_of (sm_stream s c @ [ev']) = map Some [n - int k + 1..n + 1]"
    using old(1,2) by (simp add: old(4) ev'_def upto_rec2)
  moreover have "map seq_of (sm_stream s' c) = drop d (map seq_of (sm_stream s c @ [ev']))" by (simp only: stream drop_map)
  ultimately have "map seq_of (sm_stream s' c) = map Some [n - int k + 1 + int d..n + 1]"
    by (simp only: drop_map drop_upto)
  moreover have "n - int k + 1 + int d = n + 1 - int (length (sm_stream s' c)) + 1" using len d_def by simp
  ultimately have numbers: "map seq_of (sm_stream s' c) = map Some [n + 1 - int (length (sm_stream s' c)) + 1..n + 1]" by simp
  have long: "min (n + 1) (event_stream_maxlen V) \<le> int (length (sm_stream s' c))"
    using old(1,3) maxlen_positive [of V] len by (simp add: d_def room_def)
  have short: "int (length (sm_stream s' c)) \<le> n + 1" using old(2) len by simp
  have buffer: "\<exists>m \<le> n + 1. seq_of e = Some m" if "e \<in> set (sm_buf s' c)" for e
  proof (cases "e = ev'")
    case True
    then show ?thesis by (simp add: ev'_def)
  next
    case False
    then have "e \<in> set (sm_buf s c)" using that by (auto simp: new(3) dest!: in_set_takeD)
    then obtain m where "m \<le> n" "seq_of e = Some m" using old(5) by blast
    then show ?thesis by (intro exI [of _ m]) simp
  qed
  show ?thesis unfolding numbered_stream_def Let_def new(1)
    using old(1) by (intro conjI ballI buffer numbers long short) simp_all
qed

lemma numbered_cong:
  "sm_seq s' = sm_seq s \<Longrightarrow> sm_stream s' = sm_stream s \<Longrightarrow> sm_buf s' = sm_buf s \<Longrightarrow>
   numbered_stream V c s' = numbered_stream V c s"
  by (simp add: numbered_stream_def)

definition numbers_kept :: "sem_env \<Rightarrow> semantic \<Rightarrow> semantic \<Rightarrow> bool" where
  "numbers_kept V s s' \<longleftrightarrow>
     ((\<forall>k. \<not> sv_down V k) \<longrightarrow> sv_stream V \<longrightarrow> (\<forall>c. numbered_stream V c s \<longrightarrow> numbered_stream V c s'))"

interpretation numbers: sending_law V "numbers_kept V" for V
proof unfold_locales
  fix c ev s r s'
  assume p: "put_out V c ev s = (r, s')"
  then show "numbers_kept V s s'" using numbered_put_out [OF p] by (simp add: numbers_kept_def)
next
  fix c ev s s' i
  assume p: "put_out V c ev s = (True, s')"
  have "numbered_stream V c (mark_outbox_redis_delivered i s') = numbered_stream V c s'" for c
    by (rule numbered_cong) (simp_all add: mark_outbox_redis_delivered_def)
  then show "numbers_kept V s (mark_outbox_redis_delivered i s')"
    using numbered_put_out [OF p] by (simp add: numbers_kept_def)
next
  fix ev s
  have "numbered_stream V c (record_outbox_attempt ev s) = numbered_stream V c s" for c
    by (rule numbered_cong) (simp_all add: record_outbox_attempt_def Let_def)
  then show "numbers_kept V s (record_outbox_attempt ev s)" by (simp add: numbers_kept_def)
qed (simp_all add: numbers_kept_def numbered_stream_def)

text \<open>A list of numbered events, newest first, is put in order again.\<close>

lemma in_order_rev:
  assumes "map seq_of zs = map Some [a..b]"
  shows "in_order (rev zs) = zs"
proof -
  let ?key = "\<lambda>ev. case seq_of ev of None \<Rightarrow> 0 | Some n \<Rightarrow> n"
  have keys: "map ?key zs = [a..b]"
  proof -
    have "map ?key zs = map (\<lambda>z. case z of None \<Rightarrow> 0 | Some n \<Rightarrow> n) (map seq_of zs)" by simp
    then show ?thesis by (simp only: assms) (simp add: comp_def)
  qed
  have "distinct (map ?key zs)" by (simp only: keys) simp
  then have inj: "inj_on ?key (set zs)" by (simp add: distinct_map)
  show ?thesis unfolding in_order_def
    by (rule sort_key_inj_key_eq) (use inj keys in \<open>simp_all add: sorted_upto\<close>)
qed

lemma filter_after:
  assumes "map seq_of zs = map Some [a..b]"
  shows "map seq_of (filter (after_seq n) zs) = map Some [max a (n + 1)..b]"
proof -
  have "map seq_of (filter (after_seq n) zs) = filter (\<lambda>k. case k of None \<Rightarrow> False | Some k \<Rightarrow> n < k) (map seq_of zs)"
    by (simp add: filter_map comp_def after_seq_def [abs_def])
  also have "\<dots> = map Some (filter (\<lambda>k. n < k) [a..b])" by (simp only: assms) (simp add: filter_map comp_def)
  finally show ?thesis by (simp add: filter_upto)
qed

text \<open>
  C33. While Redis answers, a client that has seen the events of its scope up to a number is replayed the following ones
  without a gap, in order and up to the limit, if it is at most four times the limit behind; a client that is further
  behind is replayed from there on, and what it missed before is passed over.
\<close>

theorem replay_window:
  assumes "\<forall>k. \<not> sv_down V k" and "sv_stream V" and "1 \<le> limit" "limit \<le> 500" "4 * limit \<le> event_stream_maxlen V"
    and "s = sem_run V steps (silent t)" and "m = max (sm_seq s c - 4 * limit) (max 0 after)"
  shows "map seq_of (fst (list_replay_after V c after limit s)) = map Some [m + 1..min (sm_seq s c) (m + limit)]"
proof -
  let ?n = "sm_seq s c"
  define L where "L = nat limit"
  have L: "replay_limit limit = L" "replay_limit (int L) = L" "int L = limit" "0 < L"
    using assms(3,4) by (simp_all add: replay_limit_def L_def)
  have "numbered_stream V c s"
    unfolding assms(6)
  proof (rule run_invariant)
    show "numbered_stream V c (sem_do V step q)" if "rows_named q" "numbered_stream V c q" for step q
      using numbers.steps [OF that(1), of V step] that(2) assms(1,2) unfolding numbers_kept_def by blast
    show "numbered_stream V c (silent t)" using maxlen_positive [of V] by (simp add: numbered_stream_def silent_def)
  qed
  then have st: "0 \<le> ?n" "int (length (sm_stream s c)) \<le> ?n" "min ?n (event_stream_maxlen V) \<le> int (length (sm_stream s c))"
      "map seq_of (sm_stream s c) = map Some [?n - int (length (sm_stream s c)) + 1..?n]"
      "\<forall>ev \<in> set (sm_buf s c). \<exists>m \<le> ?n. seq_of ev = Some m"
    by (simp_all add: numbered_stream_def Let_def)
  define d where "d = length (sm_stream s c) - L * 4"
  define zs where "zs = filter (after_seq (max 0 after)) (drop d (sm_stream s c))"
  have "map seq_of (drop d (sm_stream s c)) = map Some [?n - int (length (sm_stream s c)) + 1 + int d..?n]"
    by (simp only: st(4) drop_upto flip: drop_map) (simp only: drop_map drop_upto)
  moreover have "?n - int (length (sm_stream s c)) + 1 + int d = max (?n - 4 * limit) 0 + 1"
    using st(1,2,3) L(3) assms(5) by (simp add: d_def)
  ultimately have "map seq_of (drop d (sm_stream s c)) = map Some [max (?n - 4 * limit) 0 + 1..?n]" by simp
  from filter_after [OF this, of "max 0 after"] have zs: "map seq_of zs = map Some [m + 1..?n]"
    by (simp add: zs_def assms(7) max_def)
  have call: "redis V id q = (True, q\<lparr>sm_calls := Suc (sm_calls q)\<rparr>)" for q using assms(1) by (simp add: redis_def Let_def)
  have "take (L * 4) (rev (sm_stream s c)) = rev (drop d (sm_stream s c))" by (simp add: d_def take_rev)
  then have stream: "list_stream_replay_after V c after (int L) s = (take L zs, s\<lparr>sm_calls := Suc (sm_calls s)\<rparr>)"
    using assms(2) in_order_rev [OF zs] by (simp add: list_stream_replay_after_def call L zs_def flip: rev_filter)
  have window: "map seq_of (take L zs) = map Some [m + 1..min ?n (m + limit)]"
    by (simp only: zs flip: take_map) (simp add: take_map take_upto L(3) add.commute)
  show ?thesis
  proof (cases "take L zs = []")
    case False
    then show ?thesis using window stream by (simp add: list_replay_after_def L)
  next
    case True
    then have "?n \<le> m" using zs L(4) by (cases "zs = []") auto
    then have "?n \<le> max 0 after" using assms(3,7) by (simp add: max_def split: if_splits)
    then have "filter (after_seq (max 0 after)) (sm_buf s c) = []"
      using st(5) by (fastforce simp: filter_empty_conv after_seq_def)
    moreover have "[m + 1..min ?n (m + limit)] = []" using window True by simp
    ultimately show ?thesis using stream True by (simp add: list_replay_after_def L call in_order_def)
  qed
qed

end
