(* ===== verification/SemanticExamples.thy ===== *)
theory SemanticExamples
  imports SemanticLaws
begin

text \<open>A project whose user interface follows its runs, with a stream of the smallest length and without signatures.\<close>

definition ui_env :: sem_env where
  "ui_env = \<lparr>sv_vars = map_of [(''ML_AIR_SEMANTIC_EVENT_SIGNING'', ''0''), (''ML_AIR_EVENT_STREAM_MAXLEN'', ''1000'')],
     sv_loads = (\<lambda>s. None), sv_canonical = (\<lambda>d. ''canonical''), sv_hmac = (\<lambda>k m. k @ m), sv_valid = (\<lambda>d. True),
     sv_stream = True, sv_fanout = True, sv_slack = 0, sv_down = (\<lambda>k. False), sv_carrier = (\<lambda>d. d), sv_trace = (\<lambda>d. d)\<rparr>"

definition ui_event :: pydict where
  "ui_event = [(''event_id'', VStr ''e1''), (''type'', VStr ''run.updated''), (''tenant_id'', VStr ''default''),
     (''project_id'', VStr ''p'')]"

definition ui_scope :: channel where
  "ui_scope = (''default'', ''p'')"

lemma ui_event_facts:
  "sendable ui_event" "scope_of ui_event = ui_scope" "scoped ui_event" "event_text ui_event ''event_id'' = ''e1''"
  "event_text ui_event ''type'' = ''run.updated''"
  by code_simp+

lemma ui_settings:
  "event_stream_maxlen ui_env = 1000" "semantic_outbox_enabled ui_env" "\<not> semantic_signing_enabled ui_env"
  by code_simp+

lemma ui_up: "\<forall>k. \<not> sv_down ui_env k" "sv_stream ui_env" "sv_valid ui_env d" "sv_carrier ui_env d = d" "sv_trace ui_env d = d"
  by (simp_all add: ui_env_def)

lemma ui_sent: "sm_seq (scheduler_publish ui_env ui_event s) ui_scope = sm_seq s ui_scope + 1"
proof (cases "put_out ui_env ui_scope ui_event s")
  case (Pair r s')
  then show ?thesis
    using put_out_scope [OF Pair ui_up(1,2), of ui_scope]
    by (simp add: scheduler_publish_def ui_event_facts ui_up Let_def)
qed

definition ui_steps :: "sem_step list" where
  "ui_steps = replicate 3 (Scheduler ui_event)"

lemma ui_sequences: "sm_seq (sem_run ui_env ui_steps (silent 0)) ui_scope = 3"
  by (simp add: sem_run_def ui_steps_def numeral_3_eq_3 ui_sent) (simp add: silent_def)

theorem replay_window_witness:
  "map seq_of (fst (list_replay_after ui_env ui_scope 1 100 (sem_run ui_env ui_steps (silent 0)))) = [Some 2, Some 3]"
  using replay_window [OF ui_up(1,2), of 100 "sem_run ui_env ui_steps (silent 0)" ui_steps 0 1 ui_scope 1]
  by (simp add: ui_sequences ui_settings upto_rec1)

lemma ui_delivered:
  "\<exists>r \<in> set (sm_rows (sem_run ui_env [Api ui_event] (silent 0))). sr_id r = ''e1'' \<and> sr_delivered r \<noteq> None"
proof -
  let ?s = "record_outbox_attempt ui_event (silent 0)"
  obtain s' where p: "put_out ui_env ui_scope ui_event ?s = (True, s')"
    by (cases "assign_sequence_and_buffer ui_env ui_event ?s") (simp add: put_out_def redis_def Let_def ui_up)
  have rows: "sm_rows s' = sm_rows ?s" by (rule put_out_rows [OF p])
  have "publish_mlair_event ui_env ui_event (silent 0) =
      (let s3 = mark_outbox_redis_delivered ''e1'' s' in s3\<lparr>sm_hooks := sm_hooks s3 @ [ui_event]\<rparr>)"
    using p by (simp add: publish_mlair_event_def ui_settings ui_up Let_def ui_event_facts publish_semantic_envelope_to_redis_def)
  then show ?thesis
    by (simp add: sem_run_def Let_def mark_outbox_redis_delivered_def rows record_outbox_attempt_def ui_event_facts)
      (simp add: silent_def)
qed

theorem delivered_was_published_witness:
  "\<exists>(c, ev) \<in> set (sm_sent (sem_run ui_env [Api ui_event] (silent 0))). event_text ev ''event_id'' = ''e1''"
  using ui_delivered delivered_was_published [of _ ui_env "[Api ui_event]" 0] by metis

text \<open>What the scheduler sends is not signed: no key verifies it.\<close>

lemma scheduler_unsigned: "\<not> verify_semantic_event V keys (dset ''sequence'' v ui_event)"
  by (simp add: verify_semantic_event_def ui_event_def dget_def)

end
