(* ===== verification/Spec2Isabelle.thy ===== *)
theory Spec2Isabelle
  imports SystemExamples RetryPolicy Promotion Aggregates HttpTask PageExamples Triggers AdmissionExamples RegistryExamples IdentityExamples DatasetExamples ReadinessExamples EventBusExamples SemanticExamples
begin

text \<open>
  ml-air runs machine learning pipelines. A scheduler process (\<^verbatim>\<open>scheduler/main.py\<close>), an API server
  (\<^verbatim>\<open>api/app\<close>) and external workers share a database and a few Redis lists. A client creates a run through the API,
  which puts it into a list; the scheduler takes it, makes its tasks and queues those whose dependencies are done; an
  executor or an external worker does them and reports back; the scheduler settles the task and the run, retries what
  failed and fills the dead letter list. Around this core the API keeps datasets with their lineage, models with their
  versions and stages, accounts with their sessions and roles, a layered configuration, quotas, an admission queue, and
  an event bus and a stream of events that tell projections, webhooks and user interfaces what happened. This development models these parts from their source
  and proves what makes each of them correct.

  \<^bold>\<open>How code is written here.\<close> A dictionary or JSON value is a \<open>pyval\<close>, a dictionary an association list in its order;
  an exception is the left side of a sum (\<open>pyerr\<close>); a row is a record and a table a list of rows in the order of
  insertion; time is an integer given by the state. The two styles of effects are explicit: pure functions of the tables
  (\<open>Store\<close>, \<open>SchedRun\<close>, \<open>Admission\<close>), and operations of \<open>Actions\<close>, which read and write a state and keep what they
  wrote when they raise, as every statement of the code commits on its own. What the code calls and the repository does
  not hold (hashes, signatures, JWT, UUIDs, the clock, HTTP answers, the logarithm, JSON text in tables, files) is a
  field of an environment record, and a theorem that relies on it says so in a hypothesis.
\<close>

subsection \<open>Theories and code\<close>

text \<open>
  \<^item> \<open>Prelude\<close>, \<open>PyValue\<close>, \<open>Actions\<close>: lists and maps; Python values, truth, strings, \<open>int\<close> and \<open>str\<close>; the
    operations on a state, with the locale \<open>change\<close> whose law lifts a property of state changes over sequences.
  \<^item> \<open>Json\<close>, \<open>JsonRoundTrip\<close>, \<open>Pagination\<close>, \<open>PageWalk\<close>, \<open>PageExamples\<close>: \<^verbatim>\<open>shared/pagination.py\<close> with the parts of
    \<^verbatim>\<open>json\<close> and \<^verbatim>\<open>base64\<close> it uses, and the listings of runs, pipelines and versions. The locale \<open>pager\<close> states what a
    page promises; following cursors visits every row once.
  \<^item> \<open>TaskPlan\<close>, \<open>Store\<close>, \<open>SchedOps\<close>, \<open>Replay\<close>, \<open>RetryPolicy\<close>, \<open>HttpTask\<close>, \<open>SchedRun\<close>, \<open>SchedDone\<close>, \<open>SchedSafety\<close>,
    \<open>SchedExamples\<close>: \<^verbatim>\<open>scheduler/main.py\<close>, \<^verbatim>\<open>sdk/retry_policy.py\<close> and \<^verbatim>\<open>sdk/http_task_contract.py\<close>. The state is the
    record \<open>world\<close> (tables, lists, trace of calls); the functions of the scheduler keep their names. The locales
    \<open>task_client\<close> and \<open>table_client\<close> state what a process may do to the tables (tasks stay, finished ones keep their
    status) and are interpreted by scheduler, workers, API and the whole system.
  \<^item> \<open>Cron\<close>, \<open>Triggers\<close>: cron expressions over the UTC calendar and the trigger policies of \<^verbatim>\<open>scheduler/main.py\<close>.
  \<^item> \<open>WorkerTasks\<close>, \<open>WorkerSafety\<close>: \<^verbatim>\<open>orchestration/worker_task_service.py\<close> and its routes: lease, heartbeat,
    completion and failure with the authorization of the principal.
  \<^item> \<open>Quota\<close>, \<open>RunService\<close>, \<open>RunSafety\<close>, \<open>RunExamples\<close>: tenant quotas, pipeline versions and
    \<^verbatim>\<open>orchestration/run_service.py\<close>. \<open>System\<close>, \<open>SystemExamples\<close>: schedulers, workers and API requests interleaved, as an
    inductive reachability.
  \<^item> \<open>Admission\<close>, \<open>AdmissionSafety\<close>, \<open>AdmissionExamples\<close>: \<^verbatim>\<open>governance/admission_decision.py\<close> and
    \<^verbatim>\<open>admission_queue_service.py\<close>.
  \<^item> \<open>Aggregates\<close>, \<open>Promotion\<close>, \<open>Config\<close>, \<open>ConfigLaws\<close>, \<open>ConfigExamples\<close>, \<open>ModelPolicies\<close>, \<open>Policies\<close>, \<open>Registry\<close>,
    \<open>RegistryLaws\<close>, \<open>RegistryExamples\<close>: the aggregates with their events (locale \<open>event_source\<close>), the promotion policy, the
    package \<^verbatim>\<open>domains/configuration\<close>, the policy engine, the lifecycle guard and the model registry.
  \<^item> \<open>IdentityStore\<close>, \<open>Identity\<close>, \<open>IdentityLaws\<close>, \<open>IdentitySafety\<close>, \<open>IdentitySignIn\<close>, \<open>Access\<close>, \<open>Scopes\<close>,
    \<open>AccessLaws\<close>, \<open>IdentityExamples\<close>: \<^verbatim>\<open>governance/identity_*.py\<close>, \<^verbatim>\<open>auth_service.py\<close>, \<^verbatim>\<open>project_service.py\<close> and the
    role services. The locale \<open>session_law\<close> lifts a law of the session table over every operation.
  \<^item> \<open>Datasets\<close>, \<open>Lineage\<close>, \<open>LineageLaws\<close>, \<open>LineageSafety\<close>, \<open>LineageGraph\<close>, \<open>LineageReports\<close>, \<open>LineageExamples\<close>,
    \<open>CsvText\<close>, \<open>DatasetContent\<close>, \<open>DatasetFiles\<close>, \<open>DatasetLaws\<close>, \<open>DatasetExamples\<close>: \<^verbatim>\<open>lifecycle/lineage_service.py\<close>, the
    state being the record \<open>lake\<close> with datasets, versions, buffers, edges and files.
  \<^item> \<open>Drift\<close>, \<open>DriftLaws\<close>, \<open>Readiness\<close>, \<open>TrainingGate\<close>, \<open>TrainingRecords\<close>, \<open>ReadinessGates\<close>, \<open>ReadinessLaws\<close>,
    \<open>ReadinessExamples\<close>: \<^verbatim>\<open>lifecycle/drift_service.py\<close>, \<^verbatim>\<open>readiness_service.py\<close>, its queue and its routes in
    \<^verbatim>\<open>routes/v1.py\<close>.
  \<^item> \<open>EventCodec\<close>, \<open>EventBus\<close>, \<open>EventBusLaws\<close>, \<open>EventBusExamples\<close>: \<^verbatim>\<open>shared/events\<close>, the runner of projections and the
    draft for webhooks. The locale \<open>handler_law\<close> lifts a law of a claim over a dispatch.
  \<^item> \<open>SemanticEvents\<close>, \<open>SemanticLaws\<close>, \<open>SemanticExamples\<close>: the signed and numbered events for user interfaces, from
    \<^verbatim>\<open>sdk/event_signing.py\<close>, \<^verbatim>\<open>lifecycle/realtime_events.py\<close>, \<^verbatim>\<open>scheduler/realtime_publish.py\<close> and the event services of
    \<^verbatim>\<open>domains/observability\<close>. The locale \<open>sending_law\<close> lifts a law of what is put out over every step.
\<close>

subsection \<open>What is shown\<close>

text \<open>
  \<^item> \<^emph>\<open>Scheduling.\<close> No task is lost or leaves a final status, whatever schedulers, workers and requests do, in any
    order; a task starts only when its dependencies have succeeded; the limit of parallel tasks holds and no slot stays
    idle; the status of a run after a task is exactly the one its tasks give; the attempts of a failing task are those up
    to the maximum; a replayed run skips a task only with the evidence its policy asks for.
  \<^item> \<^emph>\<open>Workers and runs.\<close> Two leases are disjoint, only the holder completes a task, and once; a repeated request with
    an idempotency key changes nothing; dead letters are replayed exactly and in order; a flush of the admission queue
    settles each request once and within the limits; a trigger fires exactly when its policy wants it.
  \<^item> \<^emph>\<open>Models and configuration.\<close> A version is approved and promoted only along the allowed moves with what its target
    asks for; a stage has one holder; a key resolves to what the greatest contributing scope says, at its type.
  \<^item> \<^emph>\<open>Accounts.\<close> The second factor is needed and used up, a refresh token works once, disabling ends sessions; a caller is who its token says, and gets in a project exactly what an assignment gives.
  \<^item> \<^emph>\<open>Data.\<close> Rows are conserved from append to snapshot; the neighbourhood in the lineage graph is exactly the
    bounded reachability; written CSV is read back; deletion leaves no reference; a training passes the gate only on a
    version that satisfies a policy, and an evaluation gives its reasons.
  \<^item> \<^emph>\<open>Events.\<close> Publishing through the outbox and draining does the work of the direct dispatch; a claiming handler works
    at most once per event; enough drains settle every row. A client that reconnects is replayed a gapless window of the
    numbered events, and the outbox marks only what was sent.

  Some theorems state behaviour that surprises, because the code has it: a second window of the same size is answered
  with the old version while its rows stay behind, and an event whose handler failed is marked delivered by the retry,
  since the claim of the handler outlives its failure. The \<open>Examples\<close> theories apply the properties to concrete states.
\<close>

subsection \<open>Bounds\<close>

text \<open>
  Every definition is a total function. The parser of JSON text runs on fuel, twice the length of the text and one, which
  \<open>JsonRoundTrip\<close> shows to be enough for what the printer writes. A client that follows cursors (\<open>walk\<close>) runs on fuel too,
  and more fuel than rows is enough. The search for tasks to replay (\<open>bfs\<close>) and the chain of attempts of a task recurse
  over a measure. The loops \<^verbatim>\<open>while True\<close> of scheduler and background threads are sequences of steps of any length, so
  that a statement about them is one about every prefix of an execution. Integers are Python's and unbounded. Numbers the
  code computes in floating point are rationals, in \<open>Drift\<close> with the infinities and NaN; their rounding is not modelled.
\<close>

subsection \<open>Not modelled\<close>

text \<open>
  \<^item> Process control and I/O: the executor that runs user code, the resource monitors, clients, command line, scripts.
  \<^item> What reads and reports: traces, metrics, logs, search, projections, the audit timeline and the web sockets.
    No decision of the modelled parts depends on them; their calls are entries of a trace where the code makes them.
  \<^item> Deliveries: webhooks, notifications and integrations, from the point where a draft is handed over.
  \<^item> Usage and cost accounting, whose sums are floating point numbers rounded by the database.
  \<^item> The distributed registries (clusters, regions, federation), off by default and not consulted by the scheduler.
  \<^item> The web framework: parsing of requests and the translation of exceptions, except where a route has logic of its
    own (worker protocol, dead letter replay, readiness gates).
  \<^item> Concurrency inside one statement: statements of the database are atomic and their locks are not modelled; the
    interleaving of whole operations is, in \<open>System\<close>.
\<close>

end
